(* ===== verification/Prelude.thy ===== *)
theory Prelude
  imports Complex_Main "HOL-Library.AList" "HOL-Library.Sublist"
    "HOL-Library.Char_ord" "HOL-Library.List_Lexorder"
begin

text \<open>
  Shared vocabulary of the development: the JavaScript values the services receive
  (\<open>jsval\<close>), the string operations they call (\<open>trim\<close>, \<open>toLowerCase\<close>, \<open>includes\<close>,
  \<open>startsWith\<close>), insertion-ordered maps (the built-in \<open>Map\<close> and plain objects) as
  association lists, and the generic lemmas the component theories share.

  Strings are lists of 8-bit characters (the Latin-1 range of code units); numbers are exact
  rationals together with the three non-finite values, so rounding of doubles is not modelled.
  Times are integers (milliseconds), the value of \<open>Date.now()\<close> being an argument of every
  operation that reads the clock.
\<close>

named_theorems js_simps \<open>evaluation of the built-in operations\<close>

section \<open>JavaScript values\<close>

datatype jsnum = NFin rat | NNaN | NPosInf | NNegInf

datatype jsval =
    JUndef
  | JNull
  | JBool bool
  | JNum jsnum
  | JStr string
  | JArr "jsval list"
  | JObj "(string \<times> jsval) list"

type_synonym time = int
type_synonym ('k, 'v) amap = "('k \<times> 'v) list"

abbreviation JInt :: "int \<Rightarrow> jsval" where
  "JInt i \<equiv> JNum (NFin (of_int i))"

text \<open>The boolean conversion of \<open>if (v)\<close>, \<open>!v\<close>, \<open>v || w\<close>.\<close>

fun truthy :: "jsval \<Rightarrow> bool" where
  "truthy JUndef = False"
| "truthy JNull = False"
| "truthy (JBool b) = b"
| "truthy (JNum (NFin q)) = (q \<noteq> 0)"
| "truthy (JNum NNaN) = False"
| "truthy (JNum _) = True"
| "truthy (JStr s) = (s \<noteq> [])"
| "truthy (JArr _) = True"
| "truthy (JObj _) = True"

fun js_typeof :: "jsval \<Rightarrow> string" where
  "js_typeof JUndef = ''undefined''"
| "js_typeof JNull = ''object''"
| "js_typeof (JBool _) = ''boolean''"
| "js_typeof (JNum _) = ''number''"
| "js_typeof (JStr _) = ''string''"
| "js_typeof (JArr _) = ''object''"
| "js_typeof (JObj _) = ''object''"

text \<open>\<open>v || w\<close> and \<open>v ?? w\<close>.\<close>

definition js_or :: "jsval \<Rightarrow> jsval \<Rightarrow> jsval" where
  "js_or v w = (if truthy v then v else w)"

definition js_nullish :: "jsval \<Rightarrow> bool" where
  "js_nullish v \<longleftrightarrow> v = JUndef \<or> v = JNull"

definition js_coalesce :: "jsval \<Rightarrow> jsval \<Rightarrow> jsval" where
  "js_coalesce v w = (if js_nullish v then w else v)"

text \<open>Property access \<open>o.k\<close> on an object literal; a primitive has none of the properties the
  services read.\<close>

fun js_get :: "jsval \<Rightarrow> string \<Rightarrow> jsval" where
  "js_get (JObj kvs) k = (case map_of kvs k of Some v \<Rightarrow> v | None \<Rightarrow> JUndef)"
| "js_get _ _ = JUndef"

definition is_integer_rat :: "rat \<Rightarrow> bool" where
  "is_integer_rat q \<longleftrightarrow> of_int \<lfloor>q\<rfloor> = q"

lemma is_integer_rat_of_int [simp]: "is_integer_rat (of_int i)"
  by (simp add: is_integer_rat_def)

lemma is_integer_rat_iff: "is_integer_rat q \<longleftrightarrow> q \<in> \<int>"
  by (metis Ints_cases Ints_of_int floor_of_int is_integer_rat_def)

text \<open>A value read from a nested position is smaller: the termination argument of the recursive
  walks over values.\<close>

lemma size_in_array [termination_simp]:
  "(v :: jsval) \<in> set vs \<Longrightarrow> size v < Suc (size_list size vs)"
  unfolding less_Suc_eq_le by (rule size_list_estimation', assumption) simp

lemma size_in_object [termination_simp]:
  "(k, v :: jsval) \<in> set kvs \<Longrightarrow> size v < Suc (size_list (size_prod (\<lambda>_. 0) size) kvs)"
proof -
  assume "(k, v) \<in> set kvs"
  then have "size_prod (\<lambda>_. 0) size (k, v) \<le> size_list (size_prod (\<lambda>_. 0) size) kvs"
    by (intro size_list_estimation') auto
  then show ?thesis by simp
qed

text \<open>\<open>JSON.parse(JSON.stringify(v))\<close>: non-finite numbers become null, undefined members are
  dropped, undefined array elements become null. (\<open>JSON.stringify(undefined)\<close> is no JSON text.)\<close>

fun json_clone :: "jsval \<Rightarrow> jsval" where
  "json_clone (JNum (NFin q)) = JNum (NFin q)"
| "json_clone (JNum _) = JNull"
| "json_clone (JArr vs) = JArr (map json_clone vs)"
| "json_clone (JObj kvs) =
     JObj (map (\<lambda>(k, v). (k, json_clone v)) (filter (\<lambda>(k, v). v \<noteq> JUndef) kvs))"
| "json_clone JUndef = JNull"
| "json_clone v = v"

section \<open>Strings\<close>

definition code_of :: "char \<Rightarrow> int" where
  "code_of c = of_char c"

text \<open>White space of \<open>String.prototype.trim\<close> and \<open>\s\<close>, within Latin-1.\<close>

definition is_ws :: "char \<Rightarrow> bool" where
  "is_ws c \<longleftrightarrow> code_of c \<in> {9, 10, 11, 12, 13, 32, 160}"

definition trim_start :: "string \<Rightarrow> string" where
  "trim_start s = dropWhile is_ws s"

definition trim :: "string \<Rightarrow> string" where
  "trim s = rev (dropWhile is_ws (rev (dropWhile is_ws s)))"

text \<open>\<open>toLowerCase\<close> on Latin-1: ASCII capitals and the accented capitals except the
  multiplication sign.\<close>

definition lower_char :: "char \<Rightarrow> char" where
  "lower_char c =
     (if 65 \<le> code_of c \<and> code_of c \<le> 90 \<or> 192 \<le> code_of c \<and> code_of c \<le> 222 \<and> code_of c \<noteq> 215
      then char_of (code_of c + 32) else c)"

definition to_lower :: "string \<Rightarrow> string" where
  "to_lower s = map lower_char s"

definition starts_with :: "string \<Rightarrow> string \<Rightarrow> bool" where
  "starts_with s p \<longleftrightarrow> take (length p) s = p"

fun str_includes :: "string \<Rightarrow> string \<Rightarrow> bool" where
  "str_includes [] p = (p = [])"
| "str_includes (c # s) p = (starts_with (c # s) p \<or> str_includes s p)"

definition is_digit :: "char \<Rightarrow> bool" where
  "is_digit c \<longleftrightarrow> 48 \<le> code_of c \<and> code_of c \<le> 57"

definition is_upper :: "char \<Rightarrow> bool" where
  "is_upper c \<longleftrightarrow> 65 \<le> code_of c \<and> code_of c \<le> 90"

definition is_lower :: "char \<Rightarrow> bool" where
  "is_lower c \<longleftrightarrow> 97 \<le> code_of c \<and> code_of c \<le> 122"

definition is_alpha :: "char \<Rightarrow> bool" where
  "is_alpha c \<longleftrightarrow> is_upper c \<or> is_lower c"

definition is_alnum :: "char \<Rightarrow> bool" where
  "is_alnum c \<longleftrightarrow> is_alpha c \<or> is_digit c"

lemma starts_with_iff_prefix: "starts_with s p \<longleftrightarrow> prefix p s"
  unfolding starts_with_def by (metis append_eq_conv_conj append_take_drop_id prefix_def)

lemma str_includes_iff_sublist: "str_includes s p \<longleftrightarrow> sublist p s"
  by (induction s) (auto simp: starts_with_iff_prefix sublist_Cons_right)

lemma str_includes_Nil [simp]: "str_includes s []"
  by (simp add: str_includes_iff_sublist)

lemma starts_with_append [simp]: "starts_with (p @ s) p"
  by (simp add: starts_with_def)

lemma trim_Nil [simp]: "trim [] = []"
  by (simp add: trim_def)

lemma trim_no_ws_ends:
  assumes "trim s \<noteq> []"
  shows "\<not> is_ws (hd (trim s))" "\<not> is_ws (last (trim s))"
proof -
  let ?t = "dropWhile is_ws s"
  have suf: "prefix (trim s) ?t"
    unfolding trim_def by (metis rev_rev_ident suffix_dropWhile suffix_to_prefix)
  then have "?t \<noteq> []" using assms by (metis prefix_Nil)
  moreover have "hd (trim s) = hd ?t"
    using suf assms by (metis hd_append2 prefix_def)
  ultimately show "\<not> is_ws (hd (trim s))" by (metis hd_dropWhile)
  have "dropWhile is_ws (rev ?t) \<noteq> []" using assms by (simp add: trim_def)
  then show "\<not> is_ws (last (trim s))"
    unfolding trim_def by (metis hd_dropWhile last_rev)
qed

lemma trim_idem [simp]: "trim (trim s) = trim s"
proof (cases "trim s = []")
  case False
  note e = trim_no_ws_ends[OF False]
  have "dropWhile is_ws (trim s) = trim s"
    using e(1) False by (cases "trim s") auto
  moreover have "dropWhile is_ws (rev (trim s)) = rev (trim s)"
    using e(2) False by (cases "rev (trim s)") (auto simp: last_rev hd_rev[symmetric])
  ultimately show ?thesis by (simp add: trim_def[of "trim s"])
qed simp

lemma set_trim_subset: "set (trim s) \<subseteq> set s"
  unfolding trim_def by (metis set_dropWhileD set_rev subsetI)

lemma length_trim_le: "length (trim s) \<le> length s"
  unfolding trim_def by (metis dual_order.trans length_dropWhile_le length_rev)

lemma trim_empty_iff: "trim s = [] \<longleftrightarrow> (\<forall>c\<in>set s. is_ws c)"
proof
  assume "trim s = []"
  then have "\<forall>c\<in>set (dropWhile is_ws s). is_ws c"
    by (metis dropWhile_eq_Nil_conv rev_is_Nil_conv set_rev trim_def)
  then show "\<forall>c\<in>set s. is_ws c"
    by (metis dropWhile_eq_Nil_conv hd_dropWhile list.set_sel(1))
next
  assume "\<forall>c\<in>set s. is_ws c"
  then have "dropWhile is_ws s = []" by (simp only: dropWhile_eq_Nil_conv)
  then show "trim s = []" by (simp only: trim_def) simp
qed

lemma split_at_colon:
  assumes "CHR '':'' \<notin> set a" "CHR '':'' \<notin> set b" "a @ '':'' @ x = b @ '':'' @ y"
  shows "a = b \<and> x = y"
proof -
  have t: "takeWhile (\<lambda>c. c \<noteq> CHR '':'') (z @ CHR '':'' # w) = z" if "CHR '':'' \<notin> set z" for z w
    using that by (subst takeWhile_append2) auto
  have "a = b" using arg_cong[OF assms(3), of "takeWhile (\<lambda>c. c \<noteq> CHR '':'')"] assms(1,2) by (simp add: t)
  with assms(3) show ?thesis by simp
qed

lemma split_at_last_colon:
  assumes "CHR '':'' \<notin> set a" "CHR '':'' \<notin> set b" "x @ '':'' @ a = y @ '':'' @ b"
  shows "a = b \<and> x = y"
proof -
  have "rev a @ '':'' @ rev x = rev b @ '':'' @ rev y"
    using arg_cong[OF assms(3), of rev] by simp
  then have "rev a = rev b \<and> rev x = rev y"
    by (intro split_at_colon) (use assms(1,2) in simp_all)
  then show ?thesis by simp
qed

section \<open>Insertion-ordered maps\<close>

text \<open>
  \<open>Map.set\<close> keeps the position of a key that is present and appends a new one, which is
  what \<^const>\<open>AList.update\<close> does; \<open>Map.delete\<close> is \<^const>\<open>AList.delete\<close> and returns whether
  the key was present.
\<close>

definition amap_has :: "('k, 'v) amap \<Rightarrow> 'k \<Rightarrow> bool" where
  "amap_has m k \<longleftrightarrow> k \<in> fst ` set m"

abbreviation amap_keys :: "('k, 'v) amap \<Rightarrow> 'k list" where
  "amap_keys m \<equiv> map fst m"

abbreviation amap_wf :: "('k, 'v) amap \<Rightarrow> bool" where
  "amap_wf m \<equiv> distinct (map fst m)"

lemma amap_has_iff: "amap_has m k \<longleftrightarrow> map_of m k \<noteq> None"
  unfolding amap_has_def by (metis map_of_eq_None_iff)

lemma amap_get_set [simp]: "map_of (AList.update k v m) = (map_of m)(k \<mapsto> v)"
  by (rule update_conv')

lemma amap_get_delete: "map_of (AList.delete k m) = (map_of m)(k := None)"
  by (rule delete_conv')

lemma amap_get_delete_other [simp]: "k' \<noteq> k \<Longrightarrow> map_of (AList.delete k m) k' = map_of m k'"
  by (simp add: amap_get_delete)

lemma amap_get_delete_same [simp]: "map_of (AList.delete k m) k = None"
  by (simp add: amap_get_delete)

lemma amap_wf_set [simp]: "amap_wf m \<Longrightarrow> amap_wf (AList.update k v m)"
  by (rule distinct_update)

lemma amap_wf_delete [simp]: "amap_wf m \<Longrightarrow> amap_wf (AList.delete k m)"
  by (rule distinct_delete)

lemma amap_keys_set: "amap_keys (AList.update k v m) =
    (if k \<in> set (amap_keys m) then amap_keys m else amap_keys m @ [k])"
  by (induction m) auto

lemma amap_set_new: "k \<notin> set (amap_keys m) \<Longrightarrow> AList.update k v m = m @ [(k, v)]"
  by (induction m) auto

lemma length_set: "length (AList.update k v m) =
    (if k \<in> set (amap_keys m) then length m else Suc (length m))"
  by (metis amap_keys_set length_append_singleton length_map)

lemma amap_keys_delete: "amap_keys (AList.delete k m) = filter (\<lambda>x. x \<noteq> k) (amap_keys m)"
  by (induction m) auto

lemma length_amap_delete_le: "length (AList.delete k m) \<le> length m"
  by (rule length_delete_le)

section \<open>Lists, options and sums\<close>

lemma filter_length_less: "x \<in> set xs \<Longrightarrow> \<not> P x \<Longrightarrow> length (filter P xs) < length xs"
  by (rule length_filter_less)

fun is_ok :: "'e + 'a \<Rightarrow> bool" where
  "is_ok (Inl _) = False"
| "is_ok (Inr _) = True"

lemma is_ok_iff: "is_ok r \<longleftrightarrow> (\<exists>v. r = Inr v)"
  by (cases r) auto

definition clamp :: "int \<Rightarrow> int \<Rightarrow> int \<Rightarrow> int" where
  "clamp lo hi x = min (max x lo) hi"

lemma clamp_bounds: "lo \<le> hi \<Longrightarrow> lo \<le> clamp lo hi x \<and> clamp lo hi x \<le> hi"
  by (auto simp: clamp_def)

text \<open>Consecutive pages of a list.\<close>

lemma concat_pages:
  "concat (map (\<lambda>k. take l (drop (k * l) xs)) [0..<n]) = take (n * l) xs"
proof (induction n)
  case (Suc n)
  have "take (n * l) xs @ take l (drop (n * l) xs) = take (n * l + l) xs" by (simp only: take_add)
  then show ?case using Suc by (simp add: add.commute)
qed simp

lemma ceil_div_covers:
  assumes "0 < l"
  shows "(t :: nat) \<le> ((t + l - 1) div l) * l"
proof -
  have "t + l - 1 = ((t + l - 1) div l) * l + (t + l - 1) mod l" by simp
  moreover have "(t + l - 1) mod l \<le> l - 1" using assms by (metis Suc_pred' less_Suc_eq_le mod_less_divisor)
  ultimately show ?thesis using assms by linarith
qed

lemma less_ceil_div_iff:
  assumes "0 < l"
  shows "p < (t + l - 1) div l \<longleftrightarrow> p * l < (t :: nat)"
proof -
  have "p < (t + l - 1) div l \<longleftrightarrow> Suc p * l \<le> t + l - 1"
    using assms by (metis Suc_le_eq less_eq_div_iff_mult_less_eq)
  also have "\<dots> \<longleftrightarrow> p * l < t" using assms by auto
  finally show ?thesis .
qed

end
