(* ===== verification/JsNumber.thy ===== *)
theory JsNumber
  imports Prelude
begin

text \<open>
  The conversion \<open>Number(v)\<close> of the language and the tests \<open>Number.isFinite\<close> and
  \<open>Number.isInteger\<close>. Decimal literals are read exactly, as rationals.
\<close>

definition digit_val :: "char \<Rightarrow> nat" where
  "digit_val c = nat (code_of c - 48)"

definition digits_val :: "string \<Rightarrow> nat" where
  "digits_val s = foldl (\<lambda>n c. 10 * n + digit_val c) 0 s"

definition all_digits :: "string \<Rightarrow> bool" where
  "all_digits s = list_all is_digit s"

text \<open>Split at the first character that satisfies a predicate.\<close>

definition split_first :: "(char \<Rightarrow> bool) \<Rightarrow> string \<Rightarrow> string \<times> string option" where
  "split_first p s =
     (case dropWhile (\<lambda>c. \<not> p c) s of
        [] \<Rightarrow> (s, None)
      | _ # r \<Rightarrow> (takeWhile (\<lambda>c. \<not> p c) s, Some r))"

fun sign_split :: "string \<Rightarrow> int \<times> string" where
  "sign_split (c # s) = (if c = CHR ''-'' then (-1, s) else if c = CHR ''+'' then (1, s) else (1, c # s))"
| "sign_split [] = (1, [])"

definition exponent_val :: "string \<Rightarrow> int option" where
  "exponent_val s =
     (case sign_split s of (g, ds) \<Rightarrow>
        if ds \<noteq> [] \<and> all_digits ds then Some (g * int (digits_val ds)) else None)"

definition scale10 :: "int \<Rightarrow> rat \<Rightarrow> rat" where
  "scale10 e q = (if 0 \<le> e then q * 10 ^ nat e else q / 10 ^ nat (- e))"

definition mantissa_val :: "string \<Rightarrow> rat option" where
  "mantissa_val s =
     (case split_first (\<lambda>c. c = CHR ''.'') s of (ip, fo) \<Rightarrow>
        let fp = (case fo of None \<Rightarrow> [] | Some f \<Rightarrow> f)
        in if ip @ fp \<noteq> [] \<and> all_digits (ip @ fp)
           then Some (rat_of_nat (digits_val (ip @ fp)) / 10 ^ length fp) else None)"

definition decimal_val :: "string \<Rightarrow> rat option" where
  "decimal_val s =
     (case split_first (\<lambda>c. c = CHR ''e'' \<or> c = CHR ''E'') s of (m, eo) \<Rightarrow>
        (case (mantissa_val m, eo) of
           (Some q, None) \<Rightarrow> Some q
         | (Some q, Some e) \<Rightarrow> map_option (\<lambda>n. scale10 n q) (exponent_val e)
         | (None, _) \<Rightarrow> None))"

definition hex_val :: "char \<Rightarrow> nat option" where
  "hex_val c =
     (if is_digit c then Some (digit_val c)
      else if 97 \<le> code_of c \<and> code_of c \<le> 102 then Some (nat (code_of c - 87))
      else if 65 \<le> code_of c \<and> code_of c \<le> 70 then Some (nat (code_of c - 55)) else None)"

definition radix_val :: "nat \<Rightarrow> string \<Rightarrow> rat option" where
  "radix_val b s =
     (if s \<noteq> [] \<and> list_all (\<lambda>c. case hex_val c of Some d \<Rightarrow> d < b | None \<Rightarrow> False) s
      then Some (rat_of_nat (foldl (\<lambda>n c. b * n + the (hex_val c)) 0 s)) else None)"

text \<open>The string is trimmed first; the empty string is zero.\<close>

definition str_to_number :: "string \<Rightarrow> jsnum" where
  "str_to_number s0 =
     (let s = trim s0 in
      if s = [] then NFin 0
      else let pre = to_lower (take 2 s) in
        if pre = ''0x'' then (case radix_val 16 (drop 2 s) of Some q \<Rightarrow> NFin q | None \<Rightarrow> NNaN)
        else if pre = ''0o'' then (case radix_val 8 (drop 2 s) of Some q \<Rightarrow> NFin q | None \<Rightarrow> NNaN)
        else if pre = ''0b'' then (case radix_val 2 (drop 2 s) of Some q \<Rightarrow> NFin q | None \<Rightarrow> NNaN)
        else (case sign_split s of (g, r) \<Rightarrow>
            if r = ''Infinity'' then (if g = 1 then NPosInf else NNegInf)
            else (case decimal_val r of Some q \<Rightarrow> NFin (rat_of_int g * q) | None \<Rightarrow> NNaN)))"

fun to_number :: "jsval \<Rightarrow> jsnum" where
  "to_number JUndef = NNaN"
| "to_number JNull = NFin 0"
| "to_number (JBool b) = NFin (if b then 1 else 0)"
| "to_number (JNum n) = n"
| "to_number (JStr s) = str_to_number s"
| "to_number (JArr []) = NFin 0"
| "to_number (JArr [JStr s]) = str_to_number s"
| "to_number (JArr [JNum n]) = n"
| "to_number (JArr [JUndef]) = NFin 0"
| "to_number (JArr [JNull]) = NFin 0"
| "to_number (JArr [JArr vs]) = to_number (JArr vs)"
| "to_number (JArr _) = NNaN"
| "to_number (JObj _) = NNaN"

fun is_finite_num :: "jsnum \<Rightarrow> bool" where
  "is_finite_num (NFin _) = True"
| "is_finite_num _ = False"

definition number_isFinite :: "jsval \<Rightarrow> bool" where
  "number_isFinite v = (case v of JNum n \<Rightarrow> is_finite_num n | _ \<Rightarrow> False)"

definition number_isInteger :: "jsval \<Rightarrow> bool" where
  "number_isInteger v = (case v of JNum (NFin q) \<Rightarrow> is_integer_rat q | _ \<Rightarrow> False)"

lemma to_number_examples:
  "to_number (JStr ''12.5'') = NFin (25 / 2)" "to_number (JStr ''0x1F'') = NFin 31"
  "to_number (JStr ''-3e2'') = NFin (- 300)" "to_number (JStr ''abc'') = NNaN"
  by code_simp+

section \<open>Writing integers\<close>

text \<open>An integer in a template literal.\<close>

definition digit_char :: "nat \<Rightarrow> char" where
  "digit_char d = char_of (48 + int d)"

fun show_nat :: "nat \<Rightarrow> string" where
  "show_nat n = (if n < 10 then [digit_char n] else show_nat (n div 10) @ [digit_char (n mod 10)])"

declare show_nat.simps [simp del]

definition show_int :: "int \<Rightarrow> string" where
  "show_int i = (if i < 0 then ''-'' @ show_nat (nat (- i)) else show_nat (nat i))"

lemma digit_char_digit:
  assumes "d < 10"
  shows "is_digit (digit_char d)" "digit_val (digit_char d) = d" "\<not> is_ws (digit_char d)"
    "digit_char d \<noteq> CHR '',''" "digit_char d \<noteq> CHR ''-''" "digit_char d \<noteq> CHR ''+''"
proof -
  have c: "code_of (digit_char d) = 48 + int d"
    using assms by (simp add: code_of_def digit_char_def of_char_of)
  show "is_digit (digit_char d)" "digit_val (digit_char d) = d" "\<not> is_ws (digit_char d)"
    using assms c by (auto simp: is_digit_def digit_val_def is_ws_def)
  have "code_of (CHR '','') = 44" "code_of (CHR ''-'') = 45" "code_of (CHR ''+'') = 43"
    by (simp_all add: code_of_def)
  then show "digit_char d \<noteq> CHR '',''" "digit_char d \<noteq> CHR ''-''" "digit_char d \<noteq> CHR ''+''"
    using c by auto
qed

lemma show_nat_chars: "\<forall>c\<in>set (show_nat n). \<exists>d<10. c = digit_char d"
proof (induction n rule: show_nat.induct)
  case (1 n)
  then show ?case by (subst show_nat.simps) (auto intro!: exI[of _ "n mod 10"])
qed

lemma show_nat_ne: "show_nat n \<noteq> []"
  by (subst show_nat.simps) simp

lemma digits_val_show: "digits_val (show_nat n) = n"
proof (induction n rule: show_nat.induct)
  case (1 n)
  then show ?case
    by (subst show_nat.simps) (auto simp: digits_val_def digit_char_digit)
qed

lemma length_show_nat: "0 < k \<Longrightarrow> n < 10 ^ k \<Longrightarrow> length (show_nat n) \<le> k"
proof (induction n arbitrary: k rule: show_nat.induct)
  case (1 n)
  show ?case
  proof (cases "n < 10")
    case True
    then show ?thesis using 1(2) by (subst show_nat.simps) simp
  next
    case False
    then obtain j where k: "k = Suc j" "0 < j"
      using 1(2,3) by (cases k; cases "k - 1") auto
    then have "n div 10 < 10 ^ j" using 1(3) by (simp add: less_mult_imp_div_less mult.commute)
    then show ?thesis using 1(1)[OF False k(2)] False k(1) by (subst show_nat.simps) simp
  qed
qed

section \<open>Splitting strings\<close>

text \<open>\<open>split\<close> with a separator of one character.\<close>

fun split_on :: "char \<Rightarrow> string \<Rightarrow> string list" where
  "split_on c [] = [[]]"
| "split_on c (x # xs) =
     (if x = c then [] # split_on c xs
      else (case split_on c xs of y # ys \<Rightarrow> (x # y) # ys | [] \<Rightarrow> [[x]]))"

lemma split_on_none: "c \<notin> set a \<Longrightarrow> split_on c a = [a]"
  by (induction a) auto

lemma split_on_append: "c \<notin> set a \<Longrightarrow> split_on c (a @ c # b) = a # split_on c b"
  by (induction a) auto

text \<open>The own enumerable members of a value, with array and string elements under their index.\<close>

definition obj_entries :: "jsval \<Rightarrow> (string \<times> jsval) list" where
  "obj_entries v =
     (case v of
        JObj kvs \<Rightarrow> kvs
      | JArr vs \<Rightarrow> zip (map show_nat [0..<length vs]) vs
      | JStr s \<Rightarrow> zip (map show_nat [0..<length s]) (map (\<lambda>c. JStr [c]) s)
      | _ \<Rightarrow> [])"

end
