(* ===== verification/Table.thy ===== *)
theory Table
  imports JsNumber "HOL-Library.Product_Lexorder"
begin

text \<open>
  Database tables as the services use them: a row is an association list of columns, a table the
  list of its rows in the order of insertion. \<open>NULL\<close> is the value null. What the database itself
  checks or supplies is an argument of the operations that insert or update rows.
\<close>

type_synonym row = "(string \<times> jsval) list"
type_synonym table = "row list"

definition col :: "string \<Rightarrow> row \<Rightarrow> jsval" where
  "col k r = js_get (JObj r) k"

text \<open>\<open>where(column, value)\<close>: a comparison with \<open>NULL\<close> does not hold.\<close>

definition col_eq :: "string \<Rightarrow> jsval \<Rightarrow> row \<Rightarrow> bool" where
  "col_eq k v r \<longleftrightarrow> \<not> js_nullish v \<and> col k r = v"

definition is_null :: "string \<Rightarrow> row \<Rightarrow> bool" where
  "is_null k r = js_nullish (col k r)"

text \<open>\<open>update(fields)\<close> on one row, and on the rows that match.\<close>

definition overlay :: "row \<Rightarrow> row \<Rightarrow> row" where
  "overlay flds r = foldl (\<lambda>r' (k, v). AList.update k v r') r flds"

definition update_where :: "(row \<Rightarrow> bool) \<Rightarrow> (row \<Rightarrow> row) \<Rightarrow> table \<Rightarrow> table" where
  "update_where hit f t = map (\<lambda>r. if hit r then f r else r) t"

text \<open>Timestamps are numbers of milliseconds.\<close>

definition num_of :: "string \<Rightarrow> row \<Rightarrow> rat" where
  "num_of k r = (case col k r of JNum (NFin q) \<Rightarrow> q | _ \<Rightarrow> 0)"

text \<open>\<open>orderBy(column, 'desc')\<close> on a numeric column; rows with equal values keep their order.\<close>

definition order_desc :: "string \<Rightarrow> table \<Rightarrow> table" where
  "order_desc k t = sort_key (\<lambda>r. - num_of k r) t"

lemma truthy_not_nullish: "truthy v \<Longrightarrow> \<not> js_nullish v"
  by (auto simp: js_nullish_def)

lemma col_update_other [simp]: "k' \<noteq> k \<Longrightarrow> col k' (AList.update k v r) = col k' r"
  by (simp add: col_def)

lemma col_update_same [simp]: "col k (AList.update k v r) = v"
  by (simp add: col_def)

lemma col_overlay_other: "\<not> amap_has flds k \<Longrightarrow> col k (overlay flds r) = col k r"
  unfolding overlay_def by (induction flds arbitrary: r) (auto simp: amap_has_def)

lemma find_append: "List.find P (xs @ ys) = (case List.find P xs of Some x \<Rightarrow> Some x | None \<Rightarrow> List.find P ys)"
  by (induction xs) auto

lemma find_SomeD: "List.find P xs = Some x \<Longrightarrow> P x \<and> x \<in> set xs"
  by (auto simp: find_Some_iff)

lemma set_order_desc [simp]: "set (order_desc k t) = set t"
  by (simp add: order_desc_def)

lemma filter_update_where_disjoint:
  assumes "\<And>r. hit r \<Longrightarrow> \<not> keep r" "\<And>r. hit r \<Longrightarrow> \<not> keep (f r)"
  shows "filter keep (update_where hit f t) = filter keep t"
  unfolding update_where_def using assms by (induction t) auto

lemma unique_row:
  assumes "distinct (map f t)" "r \<in> set t" "r' \<in> set t" "f r = f r'"
  shows "r = r'"
  using assms by (metis distinct_map inj_onD)

end
