(* ===== verification/AuditStore.thy ===== *)
theory AuditStore
  imports Table
begin

text \<open>
  The store of audit events (\<open>src/src/services/auditLogStore.js\<close>): redaction, the insert statement, the
  filtered stream of rows and their export as CSV.

  \<open>stringify\<close> is \<open>JSON.stringify\<close>, \<open>str\<close> is \<open>String\<close> (dates depend on the time zone), \<open>fill\<close> adds the
  columns the database supplies, \<open>ok\<close> says whether it accepts a row.
\<close>

section \<open>Redaction\<close>

definition REDACTED :: string where "REDACTED = ''***REDACTED***''"

text \<open>The patterns match anywhere in the key, in either case; an optional dash or underscore may stand
  before \<open>key\<close>.\<close>

definition SENSITIVE_KEY_PATTERNS :: "string list" where
  "SENSITIVE_KEY_PATTERNS =
     [''password'', ''secret'', ''token'', ''apikey'', ''api-key'', ''api_key'', ''authorization'',
      ''privatekey'', ''private-key'', ''private_key'', ''seed'', ''mnemonic'']"

definition sensitive_key :: "string \<Rightarrow> bool" where
  "sensitive_key k = list_ex (str_includes (to_lower k)) SENSITIVE_KEY_PATTERNS"

text \<open>Assigning to \<open>__proto__\<close> adds no member.\<close>

fun redactValue :: "jsval \<Rightarrow> jsval" where
  "redactValue (JArr vs) = JArr (map redactValue vs)"
| "redactValue (JObj kvs) =
     JObj (map (\<lambda>(k, v). (k, if sensitive_key k then JStr REDACTED else redactValue v))
       (filter (\<lambda>(k, v). k \<noteq> ''__proto__'') kvs))"
| "redactValue v = v"

definition normalizeMetadata :: "jsval \<Rightarrow> jsval" where
  "normalizeMetadata metadata =
     (if \<not> truthy metadata \<or> js_typeof metadata \<noteq> ''object'' then JObj [] else redactValue metadata)"

section \<open>Appending\<close>

record audit_event =
  ae_eventType :: jsval
  ae_action :: jsval
  ae_actorType :: jsval
  ae_actorId :: jsval
  ae_targetType :: jsval
  ae_targetId :: jsval
  ae_requestId :: jsval
  ae_route :: jsval
  ae_method :: jsval
  ae_statusCode :: jsval
  ae_ipAddress :: jsval
  ae_userAgent :: jsval
  ae_metadata :: jsval

record audit_db =
  ad_stringify :: "jsval \<Rightarrow> string"
  ad_fill :: "row \<Rightarrow> row"
  ad_ok :: "row \<Rightarrow> bool"

definition js_is_integer :: "jsval \<Rightarrow> bool" where
  "js_is_integer v = (case v of JNum (NFin q) \<Rightarrow> is_integer_rat q | _ \<Rightarrow> False)"

definition audit_record :: "(jsval \<Rightarrow> string) \<Rightarrow> audit_event \<Rightarrow> row" where
  "audit_record stringify e =
     [(''event_type'', ae_eventType e), (''action'', ae_action e), (''actor_type'', ae_actorType e), (''actor_id'', ae_actorId e),
      (''target_type'', js_or (ae_targetType e) JNull), (''target_id'', js_or (ae_targetId e) JNull),
      (''request_id'', js_or (ae_requestId e) JNull), (''route'', js_or (ae_route e) JNull), (''method'', js_or (ae_method e) JNull),
      (''status_code'', if js_is_integer (ae_statusCode e) then ae_statusCode e else JNull),
      (''ip_address'', js_or (ae_ipAddress e) JNull), (''user_agent'', js_or (ae_userAgent e) JNull),
      (''metadata'', JStr (stringify (normalizeMetadata (ae_metadata e))))]"

definition appendAuditEvent :: "audit_db \<Rightarrow> audit_event \<Rightarrow> table \<Rightarrow> (string + unit) \<times> table" where
  "appendAuditEvent d e t =
     (let r = audit_record (ad_stringify d) e
      in if ad_ok d r then (Inr (), t @ [ad_fill d r]) else (Inl ''database'', t))"

section \<open>CSV\<close>

text \<open>The class of the pattern; a tab or a carriage return is white space and cannot come first after
  trimming.\<close>

definition is_formula :: "char \<Rightarrow> bool" where
  "is_formula c \<longleftrightarrow> c \<in> set ''=+-@|'' \<or> code_of c \<in> {9, 13}"

definition injectionSafe :: "string \<Rightarrow> string" where
  "injectionSafe s =
     (case trim_start s of [] \<Rightarrow> s | c # _ \<Rightarrow> if is_formula c then CHR 39 # s else s)"

definition double_quotes :: "string \<Rightarrow> string" where
  "double_quotes s = concat (map (\<lambda>c. if c = CHR 34 then [CHR 34, CHR 34] else [c]) s)"

definition csv_special :: "char \<Rightarrow> bool" where
  "csv_special c \<longleftrightarrow> c = CHR '','' \<or> c = CHR 34 \<or> c = CHR 10 \<or> c = CHR 13"

definition csv_text :: "(jsval \<Rightarrow> string) \<Rightarrow> jsval \<Rightarrow> string" where
  "csv_text str v = injectionSafe (if js_nullish v then [] else str v)"

definition escapeCsvField :: "(jsval \<Rightarrow> string) \<Rightarrow> jsval \<Rightarrow> string" where
  "escapeCsvField str v =
     (let s = csv_text str v
      in if list_ex csv_special s then [CHR 34] @ double_quotes s @ [CHR 34] else s)"

definition CSV_HEADERS :: "string list" where
  "CSV_HEADERS = [''id'', ''timestamp'', ''actor'', ''action'', ''resourceType'', ''resourceId'', ''statusCode'', ''ipAddress'', ''userAgent'']"

definition join_fields :: "string list \<Rightarrow> string" where
  "join_fields xs = (case xs of [] \<Rightarrow> [] | y # ys \<Rightarrow> y @ concat (map (\<lambda>z. CHR '','' # z) ys))"

definition csv_columns :: "string list" where
  "csv_columns = [''id'', ''created_at'', ''actor_id'', ''action'', ''target_type'', ''target_id'', ''status_code'', ''ip_address'', ''user_agent'']"

definition rowToCsvLine :: "(jsval \<Rightarrow> string) \<Rightarrow> row \<Rightarrow> string" where
  "rowToCsvLine str r = join_fields (map (\<lambda>k. escapeCsvField str (col k r)) csv_columns)"

text \<open>The transform stream: the flag \<open>headerWritten\<close> and the chunks pushed so far.\<close>

definition csv_transform :: "(jsval \<Rightarrow> string) \<Rightarrow> row \<Rightarrow> bool \<times> string list \<Rightarrow> bool \<times> string list" where
  "csv_transform str r s =
     (True, snd s @ (if fst s then [] else [join_fields CSV_HEADERS @ [CHR 10]]) @ [rowToCsvLine str r @ [CHR 10]])"

definition csv_flush :: "bool \<times> string list \<Rightarrow> string list" where
  "csv_flush s = snd s @ (if fst s then [] else [join_fields CSV_HEADERS @ [CHR 10]])"

definition createCsvTransform :: "(jsval \<Rightarrow> string) \<Rightarrow> row list \<Rightarrow> string list" where
  "createCsvTransform str rs = csv_flush (fold (csv_transform str) rs (False, []))"

section \<open>The stream\<close>

text \<open>\<open>text_of\<close> is the text the database takes out of the metadata of a row, None for null.\<close>

definition streamAuditEvents :: "(string \<Rightarrow> row \<Rightarrow> jsval) \<Rightarrow> jsval \<Rightarrow> table \<Rightarrow> row list" where
  "streamAuditEvents text_of filters t =
     sort_key (num_of ''created_at'')
       (filter (\<lambda>r. (\<not> truthy (js_get filters ''targetId'') \<or> col_eq ''target_id'' (js_get filters ''targetId'') r) \<and>
          (\<not> truthy (js_get filters ''targetType'') \<or> col_eq ''target_type'' (js_get filters ''targetType'') r) \<and>
          (\<not> truthy (js_get filters ''tenantId'') \<or> text_of ''tenantId'' r = js_get filters ''tenantId'')) t)"

section \<open>What the store promises\<close>

text \<open>A value without secrets: every member with a sensitive key holds the placeholder.\<close>

fun clean :: "jsval \<Rightarrow> bool" where
  "clean (JArr vs) = (\<forall>v \<in> set vs. clean v)"
| "clean (JObj kvs) =
     (\<forall>(k, v) \<in> set kvs. k \<noteq> ''__proto__'' \<and> (if sensitive_key k then v = JStr REDACTED else clean v))"
| "clean v = True"

lemma redact_clean: "clean (redactValue v)"
  by (induction v rule: redactValue.induct) auto

lemma redact_fixed: "clean v \<Longrightarrow> redactValue v = v"
proof (induction v rule: redactValue.induct)
  case (1 vs)
  then show ?case by (auto intro!: map_idI)
next
  case (2 kvs)
  have "filter (\<lambda>(k, v). k \<noteq> ''__proto__'') kvs = kvs" using 2(2) by (auto simp: filter_id_conv)
  then show ?case using 2 by (auto intro!: map_idI)
qed auto

lemma redact_member:
  "js_get (redactValue (JObj kvs)) k =
     (if k = ''__proto__'' \<or> map_of kvs k = None then JUndef
      else if sensitive_key k then JStr REDACTED else redactValue (js_get (JObj kvs) k))"
  by (induction kvs) auto


section \<open>Reading the export back\<close>

text \<open>A reader of RFC 4180: fields are separated by commas, records by line feeds; a field that starts
  with a quote ends at the next one that is not doubled.\<close>

datatype csv_mode = FieldStart | Bare | Quoted | Closed

fun csv_read :: "csv_mode \<Rightarrow> string \<Rightarrow> string list \<Rightarrow> string \<Rightarrow> string list list" where
  "csv_read m f rec [] = (if m = FieldStart \<and> rec = [] then [] else [rec @ [f]])"
| "csv_read FieldStart f rec (c # s) =
     (if c = CHR 34 then csv_read Quoted [] rec s
      else if c = CHR '','' then csv_read FieldStart [] (rec @ [[]]) s
      else if c = CHR 10 then (rec @ [[]]) # csv_read FieldStart [] [] s
      else csv_read Bare [c] rec s)"
| "csv_read Bare f rec (c # s) =
     (if c = CHR '','' then csv_read FieldStart [] (rec @ [f]) s
      else if c = CHR 10 then (rec @ [f]) # csv_read FieldStart [] [] s
      else csv_read Bare (f @ [c]) rec s)"
| "csv_read Quoted f rec (c # s) =
     (if c = CHR 34 then csv_read Closed f rec s else csv_read Quoted (f @ [c]) rec s)"
| "csv_read Closed f rec (c # s) =
     (if c = CHR 34 then csv_read Quoted (f @ [c]) rec s
      else if c = CHR '','' then csv_read FieldStart [] (rec @ [f]) s
      else if c = CHR 10 then (rec @ [f]) # csv_read FieldStart [] [] s
      else csv_read Bare (f @ [c]) rec s)"

lemma read_bare: "\<not> list_ex csv_special w \<Longrightarrow> csv_read Bare f rec (w @ s) = csv_read Bare (f @ w) rec s"
  by (induction w arbitrary: f) (auto simp: csv_special_def)

lemma read_quoted: "csv_read Quoted f rec (double_quotes w @ s) = csv_read Quoted (f @ w) rec s"
  by (induction w arbitrary: f) (auto simp: double_quotes_def)

lemma read_field:
  assumes "e = (if list_ex csv_special w then [CHR 34] @ double_quotes w @ [CHR 34] else w)"
  shows "csv_read FieldStart [] rec (e @ CHR '','' # s) = csv_read FieldStart [] (rec @ [w]) s"
    "csv_read FieldStart [] rec (e @ CHR 10 # s) = (rec @ [w]) # csv_read FieldStart [] [] s"
proof -
  have sep: "csv_read FieldStart [] rec (e @ c # s) = csv_read (if w = [] then FieldStart else Bare) w rec (c # s)"
    if "\<not> list_ex csv_special w" for c
    using that read_bare[of "tl w" "[hd w]" rec "c # s"] assms by (cases w) (auto simp: csv_special_def)
  have quo: "csv_read FieldStart [] rec (e @ c # s) = csv_read Closed w rec (c # s)" if "list_ex csv_special w" for c
    using that read_quoted[of "[]" rec w "CHR 34 # c # s"] assms by simp
  show "csv_read FieldStart [] rec (e @ CHR '','' # s) = csv_read FieldStart [] (rec @ [w]) s"
    by (cases "list_ex csv_special w") (simp_all add: sep quo)
  show "csv_read FieldStart [] rec (e @ CHR 10 # s) = (rec @ [w]) # csv_read FieldStart [] [] s"
    by (cases "list_ex csv_special w") (simp_all add: sep quo)
qed

text \<open>A line of at least one field.\<close>

lemma read_line:
  assumes "list_all2 (\<lambda>e w. e = (if list_ex csv_special w then [CHR 34] @ double_quotes w @ [CHR 34] else w)) es ws" "es \<noteq> []"
  shows "csv_read FieldStart [] rec (join_fields es @ CHR 10 # s) = (rec @ ws) # csv_read FieldStart [] [] s"
  using assms
proof (induction es ws arbitrary: rec rule: list_all2_induct)
  case (Cons e es w ws)
  show ?case
  proof (cases es)
    case Nil
    then show ?thesis using Cons(1,2) read_field(2)[OF Cons(1)] by (simp add: join_fields_def)
  next
    case (Cons e' es')
    then have "join_fields (e # es) = e @ CHR '','' # join_fields es" by (simp add: join_fields_def)
    then show ?thesis using read_field(1)[OF Cons.hyps(1)] Cons.IH Cons by simp
  qed
qed simp

lemma read_row:
  "csv_read FieldStart [] [] (rowToCsvLine str r @ CHR 10 # s) =
     map (\<lambda>k. csv_text str (col k r)) csv_columns # csv_read FieldStart [] [] s"
  unfolding rowToCsvLine_def
  by (subst read_line[where ws = "map (\<lambda>k. csv_text str (col k r)) csv_columns"])
    (simp_all add: list_all2_map1 list_all2_map2 list_all2_same escapeCsvField_def Let_def csv_columns_def)

lemma read_header:
  "csv_read FieldStart [] [] (join_fields CSV_HEADERS @ CHR 10 # s) = CSV_HEADERS # csv_read FieldStart [] [] s"
  by (subst read_line[where ws = CSV_HEADERS]) (simp_all add: CSV_HEADERS_def csv_special_def)

lemma read_rows:
  "csv_read FieldStart [] [] (concat (map (\<lambda>r. rowToCsvLine str r @ [CHR 10]) rs)) =
     map (\<lambda>r. map (\<lambda>k. csv_text str (col k r)) csv_columns) rs"
  by (induction rs) (simp_all add: read_row)

lemma csv_chunks:
  "fold (csv_transform str) rs (True, out) = (True, out @ map (\<lambda>r. rowToCsvLine str r @ [CHR 10]) rs)"
  by (induction rs arbitrary: out) (simp_all add: csv_transform_def)

lemma createCsvTransform_eq:
  "createCsvTransform str rs = (join_fields CSV_HEADERS @ [CHR 10]) # map (\<lambda>r. rowToCsvLine str r @ [CHR 10]) rs"
  by (cases rs) (simp_all add: createCsvTransform_def csv_flush_def csv_transform_def csv_chunks)

lemma injectionSafe_inert:
  "case trim_start (injectionSafe s) of [] \<Rightarrow> True | c # _ \<Rightarrow> c \<notin> set ''=+-@|''"
proof (cases "trim_start s")
  case (Cons c w)
  have "\<not> is_ws (CHR 39)" by (simp add: is_ws_def code_of_def)
  then show ?thesis using Cons by (auto simp: injectionSafe_def is_formula_def trim_start_def)
qed (simp add: injectionSafe_def)

lemma injectionSafe_cases: "injectionSafe s = s \<or> injectionSafe s = CHR 39 # s \<and> hd (trim_start s) \<in> set ''=+-@|''"
proof (cases "trim_start s")
  case (Cons c w)
  then have "\<not> is_ws c" using hd_dropWhile[of is_ws s] by (simp add: trim_start_def)
  then have "is_formula c \<Longrightarrow> c \<in> set ''=+-@|''" unfolding is_formula_def is_ws_def by blast
  then show ?thesis using Cons by (simp add: injectionSafe_def)
qed (simp add: injectionSafe_def)


text \<open>A cell that starts with a tab is not protected.\<close>

lemma leading_tab_kept:
  assumes "str (JStr [CHR 9, CHR ''x'']) = [CHR 9, CHR ''x'']"
  shows "escapeCsvField str (JStr [CHR 9, CHR ''x'']) = [CHR 9, CHR ''x'']"
  using assms by (simp add: escapeCsvField_def csv_text_def injectionSafe_def trim_start_def is_ws_def code_of_def js_nullish_def
      is_formula_def csv_special_def Let_def)

text \<open>The stream has only rows of the tenant it is asked for, oldest first.\<close>

lemma stream_tenant_scoped:
  assumes "truthy (js_get filters ''tenantId'')" "r \<in> set (streamAuditEvents text_of filters t)"
  shows "text_of ''tenantId'' r = js_get filters ''tenantId'' \<and> r \<in> set t"
  using assms by (auto simp: streamAuditEvents_def)

end
