(* ===== verification/Commitment.thy ===== *)
theory Commitment
  imports Table
begin

text \<open>
  Investor commitments and locks: \<open>src/src/services/investorCommitment.js\<close> and
  \<open>src/src/utils/stellarAddress.js\<close>.

  The table \<open>investor_commitments\<close> is the list of its rows in the order of insertion, a row is an
  association list of columns (theory \<open>Table\<close>). What the database supplies for an insert (the id and the timestamps)
  and whether it accepts the row (column lengths, the unique index) are arguments, as are the two
  checks of the Stellar SDK. The lock store is an insertion-ordered map; page numbers and limits are
  integers.
\<close>

section \<open>Validation\<close>

datatype commitment_error =
    CommitmentValidationError string string
  | CommitmentNotFound string
  | DatabaseError

definition MAX_STROOP_AMOUNT :: nat where "MAX_STROOP_AMOUNT = 10 ^ 18"

definition isValidStellarAccountAddress :: "(string \<Rightarrow> bool) \<Rightarrow> jsval \<Rightarrow> bool" where
  "isValidStellarAccountAddress isValidEd25519PublicKey v =
     (case v of JStr s \<Rightarrow> isValidEd25519PublicKey s | _ \<Rightarrow> False)"

definition isValidStellarContractAddress :: "(string \<Rightarrow> bool) \<Rightarrow> jsval \<Rightarrow> bool" where
  "isValidStellarContractAddress isValidContract v =
     (case v of JStr s \<Rightarrow> isValidContract s | _ \<Rightarrow> False)"

definition isValidStellarAddress :: "(string \<Rightarrow> bool) \<Rightarrow> (string \<Rightarrow> bool) \<Rightarrow> jsval \<Rightarrow> bool" where
  "isValidStellarAddress pk ct v \<longleftrightarrow>
     isValidStellarAccountAddress pk v \<or> isValidStellarContractAddress ct v"

definition validateAmountStroops :: "jsval \<Rightarrow> commitment_error option" where
  "validateAmountStroops v =
     (case v of
        JStr s \<Rightarrow>
          if \<not> (s \<noteq> [] \<and> all_digits s)
          then Some (CommitmentValidationError
            ''amountStroops must contain only decimal digits (no sign, decimals, or spaces)''
            ''INVALID_AMOUNT_FORMAT'')
          else if length s > 1 \<and> hd s = CHR ''0''
          then Some (CommitmentValidationError ''amountStroops must not have leading zeros''
            ''INVALID_AMOUNT_FORMAT'')
          else if digits_val s \<le> 0
          then Some (CommitmentValidationError ''amountStroops must be a positive integer (> 0)''
            ''INVALID_AMOUNT_RANGE'')
          else if digits_val s > MAX_STROOP_AMOUNT
          then Some (CommitmentValidationError
            ''amountStroops exceeds maximum allowed value (1000000000000000000)''
            ''INVALID_AMOUNT_OVERFLOW'')
          else None
      | _ \<Rightarrow> Some (CommitmentValidationError (''amountStroops must be a string, got '' @ js_typeof v)
            ''INVALID_AMOUNT_TYPE''))"

text \<open>The reason of the refusal, if any.\<close>

definition validateAddress :: "(string \<Rightarrow> bool) \<Rightarrow> (string \<Rightarrow> bool) \<Rightarrow> jsval \<Rightarrow> string option" where
  "validateAddress pk ct v =
     (if \<not> (truthy v \<and> js_typeof v = ''string'')
      then Some ''invalid Stellar address: must be a non-empty string''
      else if \<not> isValidStellarAddress pk ct v
      then Some ''invalid Stellar address: must start with G or C and be 56 base-32 characters''
      else None)"

section \<open>Commitments\<close>

record commitment_params =
  cp_invoiceId :: jsval
  cp_investorAddress :: jsval
  cp_escrowAddress :: jsval
  cp_amountStroops :: jsval
  cp_status :: jsval
  cp_unsignedXdr :: jsval
  cp_txHash :: jsval
  cp_ledger :: jsval
  cp_idempotencyKey :: jsval

definition commitment_row :: "string \<Rightarrow> time \<Rightarrow> commitment_params \<Rightarrow> row" where
  "commitment_row newId now p =
     [(''id'', JStr newId), (''invoice_id'', cp_invoiceId p),
      (''investor_address'', cp_investorAddress p), (''escrow_address'', cp_escrowAddress p),
      (''amount_stroops'', cp_amountStroops p), (''status'', cp_status p),
      (''unsigned_xdr'', cp_unsignedXdr p), (''tx_hash'', cp_txHash p), (''ledger'', cp_ledger p),
      (''idempotency_key'', cp_idempotencyKey p),
      (''created_at'', JInt now), (''updated_at'', JInt now)]"

definition validate_params ::
  "(string \<Rightarrow> bool) \<Rightarrow> (string \<Rightarrow> bool) \<Rightarrow> commitment_params \<Rightarrow> commitment_error option" where
  "validate_params pk ct p =
     (case validateAmountStroops (cp_amountStroops p) of
        Some e \<Rightarrow> Some e
      | None \<Rightarrow> map_option (\<lambda>why. CommitmentValidationError why ''INVALID_INVESTOR_ADDRESS'')
                  (validateAddress pk ct (cp_investorAddress p)))"

text \<open>The two database accesses are separate steps: other requests may run between them.\<close>

definition idempotent_lookup :: "commitment_params \<Rightarrow> table \<Rightarrow> row option" where
  "idempotent_lookup p t =
     (if truthy (cp_idempotencyKey p)
      then List.find (\<lambda>r. col ''idempotency_key'' r = cp_idempotencyKey p) t else None)"

definition insert_commitment ::
  "(table \<Rightarrow> row \<Rightarrow> bool) \<Rightarrow> string \<Rightarrow> time \<Rightarrow> commitment_params \<Rightarrow> table \<Rightarrow>
   (commitment_error + row) \<times> table" where
  "insert_commitment accepts newId now p t =
     (let r = commitment_row newId now p
      in if accepts t r then (Inr r, t @ [r]) else (Inl DatabaseError, t))"

definition persistCommitment ::
  "(string \<Rightarrow> bool) \<Rightarrow> (string \<Rightarrow> bool) \<Rightarrow> (table \<Rightarrow> row \<Rightarrow> bool) \<Rightarrow> string \<Rightarrow> time \<Rightarrow>
   commitment_params \<Rightarrow> table \<Rightarrow> (commitment_error + row) \<times> table" where
  "persistCommitment pk ct accepts newId now p t =
     (case validate_params pk ct p of
        Some e \<Rightarrow> (Inl e, t)
      | None \<Rightarrow>
          (case idempotent_lookup p t of
             Some existing \<Rightarrow> (Inr existing, t)
           | None \<Rightarrow> insert_commitment accepts newId now p t))"

definition updateCommitment ::
  "(table \<Rightarrow> row \<Rightarrow> bool) \<Rightarrow> time \<Rightarrow> string \<Rightarrow> row \<Rightarrow> table \<Rightarrow> (commitment_error + row) \<times> table" where
  "updateCommitment accepts now i flds t =
     (if amap_has flds ''amount_stroops'' \<or> amap_has flds ''amountStroops''
      then (Inl (CommitmentValidationError
              ''amount_stroops is immutable after commitment creation and cannot be updated''
              ''AMOUNT_IMMUTABLE''), t)
      else let upd = (\<lambda>r. AList.update ''updated_at'' (JInt now) (overlay flds r));
               hit = (\<lambda>r. col ''id'' r = JStr i)
           in if \<not> list_all (\<lambda>r. accepts t (upd r)) (filter hit t) then (Inl DatabaseError, t)
              else (case List.find hit t of
                  None \<Rightarrow> (Inl (CommitmentNotFound i), t)
                | Some r \<Rightarrow> (Inr (upd r), update_where hit upd t)))"

definition findCommitments :: "string \<Rightarrow> string \<Rightarrow> table \<Rightarrow> row list" where
  "findCommitments investorAddress invoiceId t =
     order_desc ''created_at''
       (filter (\<lambda>r. col ''investor_address'' r = JStr investorAddress \<and>
                     col ''invoice_id'' r = JStr invoiceId) t)"

section \<open>Locks\<close>

record investor_lock =
  lk_funderAddress :: string
  lk_claimNotBefore :: string
  lk_yieldBps :: int
  lk_invoiceId :: string
  lk_stale :: bool

type_synonym lock_store = "(string, investor_lock) amap"

definition lock_key :: "string \<Rightarrow> string \<Rightarrow> string" where
  "lock_key invoiceId funderAddress = invoiceId @ '':'' @ funderAddress"

definition setInvestorLock :: "string \<Rightarrow> string \<Rightarrow> int \<Rightarrow> string \<Rightarrow> lock_store \<Rightarrow> investor_lock \<times> lock_store" where
  "setInvestorLock funderAddress claimNotBefore yieldBps invoiceId m =
     (let r = \<lparr>lk_funderAddress = funderAddress, lk_claimNotBefore = claimNotBefore,
               lk_yieldBps = yieldBps, lk_invoiceId = invoiceId, lk_stale = True\<rparr>
      in (r, AList.update (lock_key invoiceId funderAddress) r m))"

definition getInvestorLock :: "string \<Rightarrow> string \<Rightarrow> lock_store \<Rightarrow> investor_lock option" where
  "getInvestorLock invoiceId funderAddress m = map_of m (lock_key invoiceId funderAddress)"

record lock_page =
  pg_data :: "investor_lock list"
  pg_total :: nat
  pg_page :: int
  pg_limit :: int
  pg_totalPages :: int
  pg_hasMore :: bool

definition page_of :: "int \<Rightarrow> int \<Rightarrow> investor_lock list \<Rightarrow> lock_page" where
  "page_of limit page items =
     (let safeLimit = max 1 (min 100 limit);
          safePage = max 1 page;
          total = length items;
          offset = (safePage - 1) * safeLimit;
          data = take (nat safeLimit) (drop (nat offset) items);
          pages = (int total + safeLimit - 1) div safeLimit
      in \<lparr>pg_data = data, pg_total = total, pg_page = safePage, pg_limit = safeLimit,
          pg_totalPages = (if pages = 0 then 1 else pages),
          pg_hasMore = (offset + int (length data) < int total)\<rparr>)"

definition invoice_filter :: "string option \<Rightarrow> investor_lock list \<Rightarrow> investor_lock list" where
  "invoice_filter invoiceId items =
     (case invoiceId of
        None \<Rightarrow> items
      | Some i \<Rightarrow> if i = [] then items else filter (\<lambda>l. lk_invoiceId l = i) items)"

definition getAllInvestorLocks :: "string option \<Rightarrow> int \<Rightarrow> int \<Rightarrow> lock_store \<Rightarrow> lock_page" where
  "getAllInvestorLocks invoiceId limit page m =
     page_of limit page (invoice_filter invoiceId (map snd m))"

definition getInvestorLocksByAddress ::
  "string \<Rightarrow> string option \<Rightarrow> int \<Rightarrow> int \<Rightarrow> lock_store \<Rightarrow> lock_page" where
  "getInvestorLocksByAddress funderAddress invoiceId limit page m =
     page_of limit page (invoice_filter invoiceId
       (filter (\<lambda>l. lk_funderAddress l = funderAddress) (map snd m)))"

definition clearInvestorLocks :: "lock_store \<Rightarrow> lock_store" where
  "clearInvestorLocks m = []"

section \<open>Histories\<close>

datatype commitment_op = Persist string time commitment_params | Update time string row

fun run_op ::
  "(string \<Rightarrow> bool) \<Rightarrow> (string \<Rightarrow> bool) \<Rightarrow> (table \<Rightarrow> row \<Rightarrow> bool) \<Rightarrow> commitment_op \<Rightarrow> table \<Rightarrow> table" where
  "run_op pk ct accepts (Persist i now p) t = snd (persistCommitment pk ct accepts i now p t)"
| "run_op pk ct accepts (Update now i flds) t = snd (updateCommitment accepts now i flds t)"

definition run_ops ::
  "(string \<Rightarrow> bool) \<Rightarrow> (string \<Rightarrow> bool) \<Rightarrow> (table \<Rightarrow> row \<Rightarrow> bool) \<Rightarrow> commitment_op list \<Rightarrow> table \<Rightarrow> table" where
  "run_ops pk ct accepts ops t = fold (run_op pk ct accepts) ops t"

definition stroop_string :: "jsval \<Rightarrow> bool" where
  "stroop_string v =
     (case v of
        JStr s \<Rightarrow> s \<noteq> [] \<and> all_digits s \<and> (length s > 1 \<longrightarrow> hd s \<noteq> CHR ''0'') \<and>
                   1 \<le> digits_val s \<and> digits_val s \<le> 10 ^ 18
      | _ \<Rightarrow> False)"

lemma validateAmountStroops_ok: "validateAmountStroops v = None \<longleftrightarrow> stroop_string v"
  by (cases v) (auto simp: validateAmountStroops_def stroop_string_def MAX_STROOP_AMOUNT_def)

lemma col_commitment_row [simp]:
  "col ''amount_stroops'' (commitment_row i now p) = cp_amountStroops p"
  "col ''idempotency_key'' (commitment_row i now p) = cp_idempotencyKey p"
  by (simp_all add: col_def commitment_row_def)

lemma persist_table:
  "snd (persistCommitment pk ct accepts i now p t) = t \<or>
   (snd (persistCommitment pk ct accepts i now p t) = t @ [commitment_row i now p] \<and>
    stroop_string (cp_amountStroops p))"
  by (auto simp: persistCommitment_def insert_commitment_def Let_def validate_params_def
      validateAmountStroops_ok split: option.splits)

lemma update_amounts:
  "map (col ''amount_stroops'') (snd (updateCommitment accepts now i flds t)) =
   map (col ''amount_stroops'') t"
  by (auto simp: updateCommitment_def update_where_def Let_def col_overlay_other split: option.splits)

lemma run_op_amounts:
  "\<exists>new. map (col ''amount_stroops'') (run_op pk ct accepts op t) =
       map (col ''amount_stroops'') t @ new \<and> list_all stroop_string new"
proof (cases op)
  case (Persist i now p)
  then show ?thesis
    using persist_table[of pk ct accepts i now p t] by (auto intro: exI[of _ "[]"])
next
  case (Update now i flds)
  then show ?thesis by (simp add: update_amounts)
qed

lemma run_ops_amounts:
  "\<exists>new. map (col ''amount_stroops'') (run_ops pk ct accepts ops t) =
       map (col ''amount_stroops'') t @ new \<and> list_all stroop_string new"
proof (induction ops arbitrary: t)
  case Nil
  then show ?case by (simp add: run_ops_def)
next
  case (Cons op ops)
  obtain n1 where 1: "map (col ''amount_stroops'') (run_op pk ct accepts op t) =
      map (col ''amount_stroops'') t @ n1" "list_all stroop_string n1"
    using run_op_amounts by blast
  obtain n2 where 2: "map (col ''amount_stroops'') (run_ops pk ct accepts ops (run_op pk ct accepts op t)) =
      map (col ''amount_stroops'') (run_op pk ct accepts op t) @ n2" "list_all stroop_string n2"
    using Cons.IH by blast
  show ?case using 1 2 by (intro exI[of _ "n1 @ n2"]) (simp add: run_ops_def)
qed

definition persists ::
  "(string \<Rightarrow> bool) \<Rightarrow> (string \<Rightarrow> bool) \<Rightarrow> (table \<Rightarrow> row \<Rightarrow> bool) \<Rightarrow>
   (string \<times> time \<times> commitment_params) list \<Rightarrow> table \<Rightarrow> table" where
  "persists pk ct accepts ps t = run_ops pk ct accepts (map (\<lambda>(i, now, p). Persist i now p) ps) t"

lemma persists_prefix: "\<exists>new. persists pk ct accepts ps t = t @ new"
proof (induction ps arbitrary: t)
  case Nil
  then show ?case by (simp add: persists_def run_ops_def)
next
  case (Cons x ps)
  obtain i now p where x: "x = (i, now, p)" by (cases x)
  let ?t = "snd (persistCommitment pk ct accepts i now p t)"
  have "persists pk ct accepts (x # ps) t = persists pk ct accepts ps ?t"
    by (simp add: persists_def run_ops_def x)
  then show ?case
    using Cons.IH[of ?t] persist_table[of pk ct accepts i now p t] by auto
qed

lemma persisted_is_found:
  assumes "truthy (cp_idempotencyKey p)" "persistCommitment pk ct accepts i now p t = (Inr r, t')"
  shows "List.find (\<lambda>r. col ''idempotency_key'' r = cp_idempotencyKey p) t' = Some r"
  using assms
  by (auto simp: persistCommitment_def insert_commitment_def Let_def idempotent_lookup_def find_append
      split: option.splits if_splits)

section \<open>Properties\<close>

text \<open>C24: stored amounts are well formed and immutable. After every history of persist and update
  calls on an empty table each row's amount is a decimal string without leading zero of a value
  between 1 and \<open>10 ^ 18\<close>, and no later call changes, removes or reorders the amounts stored so
  far.\<close>
theorem commitment_amounts_immutable:
  shows "(\<forall>r\<in>set (run_ops pk ct accepts ops []). stroop_string (col ''amount_stroops'' r)) \<and>
    prefix (map (col ''amount_stroops'') (run_ops pk ct accepts ops []))
      (map (col ''amount_stroops'') (run_ops pk ct accepts later_ops (run_ops pk ct accepts ops [])))"
proof
  obtain new where "map (col ''amount_stroops'') (run_ops pk ct accepts ops []) = new" "list_all stroop_string new"
    using run_ops_amounts[of pk ct accepts ops "[]"] by auto
  then show "\<forall>r\<in>set (run_ops pk ct accepts ops []). stroop_string (col ''amount_stroops'' r)"
    by (auto simp: list_all_iff)
  show "prefix (map (col ''amount_stroops'') (run_ops pk ct accepts ops []))
      (map (col ''amount_stroops'') (run_ops pk ct accepts later_ops (run_ops pk ct accepts ops [])))"
    using run_ops_amounts[of pk ct accepts later_ops "run_ops pk ct accepts ops []"] by (auto simp: prefix_def)
qed

definition sample_params :: commitment_params where
  "sample_params = \<lparr>cp_invoiceId = JStr ''inv_1'', cp_investorAddress = JStr ''GA'',
     cp_escrowAddress = JStr ''CA'', cp_amountStroops = JStr ''500'', cp_status = JStr ''stubbed'',
     cp_unsignedXdr = JNull, cp_txHash = JNull, cp_ledger = JNull, cp_idempotencyKey = JStr ''k1''\<rparr>"

lemma sample_params_valid: "validate_params (\<lambda>_. True) (\<lambda>_. False) sample_params = None"
proof -
  have "stroop_string (JStr ''500'')"
    by (simp add: stroop_string_def all_digits_def digits_val_def is_digit_def digit_val_def code_of_def)
  then have "validateAmountStroops (JStr ''500'') = None" by (simp only: validateAmountStroops_ok)
  then show ?thesis
    by (simp add: validate_params_def sample_params_def validateAddress_def
        isValidStellarAddress_def isValidStellarAccountAddress_def)
qed

theorem commitment_amounts_immutable_witness:
  "stroop_string (col ''amount_stroops'' (hd (run_ops (\<lambda>_. True) (\<lambda>_. False) (\<lambda>_ _. True)
     [Persist ''1'' 0 sample_params, Update 5 ''1'' [(''status'', JStr ''submitted'')]] [])))"
proof -
  let ?t = "run_ops (\<lambda>_. True) (\<lambda>_. False) (\<lambda>_ _. True)
     [Persist ''1'' 0 sample_params, Update 5 ''1'' [(''status'', JStr ''submitted'')]] []"
  have "?t \<noteq> []"
    using sample_params_valid
    by (simp add: run_ops_def persistCommitment_def idempotent_lookup_def insert_commitment_def
        updateCommitment_def update_where_def Let_def amap_has_def split: option.splits)
  then show ?thesis
    using commitment_amounts_immutable[of "\<lambda>_. True" "\<lambda>_. False" "\<lambda>_ _. True"
        "[Persist ''1'' 0 sample_params, Update 5 ''1'' [(''status'', JStr ''submitted'')]]" "[]"]
    by simp
qed

text \<open>A commitment is persisted once per idempotency key. Once a call with a key has returned
  a row, every valid call with that key, after any number of other persist calls, returns the same
  row and leaves the table as it is (also when its amount differs).\<close>
theorem commitment_idempotent:
  assumes "truthy (cp_idempotencyKey p)" "persistCommitment pk ct accepts i now p t = (Inr r, t')"
    "cp_idempotencyKey q = cp_idempotencyKey p" "validate_params pk ct q = None"
  shows "persistCommitment pk ct accepts j later q (persists pk ct accepts ps t') =
    (Inr r, persists pk ct accepts ps t')"
proof -
  obtain new where "persists pk ct accepts ps t' = t' @ new" using persists_prefix by blast
  then have "idempotent_lookup q (persists pk ct accepts ps t') = Some r"
    using persisted_is_found[OF assms(1,2)] assms(1,3) by (simp add: idempotent_lookup_def find_append)
  then show ?thesis using assms(4) by (simp add: persistCommitment_def)
qed

theorem commitment_idempotent_witness:
  "snd (persistCommitment (\<lambda>_. True) (\<lambda>_. False) (\<lambda>_ _. True) ''2'' 9 sample_params
     [commitment_row ''1'' 0 sample_params]) = [commitment_row ''1'' 0 sample_params]"
proof -
  have a: "truthy (cp_idempotencyKey sample_params)" by (simp add: sample_params_def)
  note v = sample_params_valid
  have p: "persistCommitment (\<lambda>_. True) (\<lambda>_. False) (\<lambda>_ _. True) ''1'' 0 sample_params [] =
      (Inr (commitment_row ''1'' 0 sample_params), [commitment_row ''1'' 0 sample_params])"
    using v a by (simp add: persistCommitment_def idempotent_lookup_def insert_commitment_def Let_def)
  show ?thesis
    using commitment_idempotent[OF a p refl v, of "''2''" 9 "[]"]
    by (simp add: persists_def run_ops_def)
qed

text \<open>Between the lookup and the insert another request with the same key may insert its row. With
  the unique index of the table the slower request fails with a database error instead of returning
  the row.\<close>
lemma commitment_race:
  assumes "\<And>t r. accepts t r \<Longrightarrow> col ''idempotency_key'' r \<noteq> JNull \<Longrightarrow>
      \<forall>r'\<in>set t. col ''idempotency_key'' r' \<noteq> col ''idempotency_key'' r"
    and "truthy (cp_idempotencyKey p)"
    and "insert_commitment accepts i now p t = (Inr r, t')"
  shows "insert_commitment accepts j later p t' = (Inl DatabaseError, t')"
proof -
  have t': "t' = t @ [commitment_row i now p]"
    using assms(3) by (auto simp: insert_commitment_def Let_def split: if_splits)
  have "cp_idempotencyKey p \<noteq> JNull" using assms(2) by auto
  then have "\<not> accepts t' (commitment_row j later p)"
    using assms(1)[of t' "commitment_row j later p"] by (auto simp: t')
  then show ?thesis by (simp add: insert_commitment_def)
qed

text \<open>The abstract lock store: the last lock set for an invoice and a funder.\<close>

definition set_locks :: "(string \<times> string \<times> int \<times> string) list \<Rightarrow> lock_store \<Rightarrow> lock_store" where
  "set_locks hist m = fold (\<lambda>(f, c, y, i) m. snd (setInvestorLock f c y i m)) hist m"

definition lock_spec ::
  "(string \<times> string \<times> int \<times> string) list \<Rightarrow> (string \<times> string) \<rightharpoonup> investor_lock" where
  "lock_spec hist = map_of (rev (map (\<lambda>(f, c, y, i). ((i, f), fst (setInvestorLock f c y i []))) hist))"

lemma lock_key_inj:
  assumes "CHR '':'' \<notin> set f" "CHR '':'' \<notin> set f'"
  shows "lock_key i f = lock_key i' f' \<longleftrightarrow> i = i' \<and> f = f'"
  unfolding lock_key_def using split_at_last_colon[OF assms] by blast

text \<open>Looking a lock up returns the last lock set for the invoice and the funder, whatever
  characters the invoice id has, as long as funder addresses contain no colon; invoice and funder of
  a returned lock are those asked for.\<close>
theorem lock_lookup:
  assumes "\<forall>(f, c, y, i)\<in>set hist. CHR '':'' \<notin> set f" "CHR '':'' \<notin> set f"
  shows "getInvestorLock i f (set_locks hist []) = lock_spec hist (i, f) \<and>
    (\<forall>l. getInvestorLock i f (set_locks hist []) = Some l \<longrightarrow>
       lk_invoiceId l = i \<and> lk_funderAddress l = f)"
proof -
  have eq: "getInvestorLock i f (set_locks hist []) = lock_spec hist (i, f)"
    using assms(1)
  proof (induction hist rule: rev_induct)
    case Nil
    then show ?case by (simp add: getInvestorLock_def set_locks_def lock_spec_def)
  next
    case (snoc x hist)
    obtain g c y j where x: "x = (g, c, y, j)" by (cases x)
    then have "lock_key i f = lock_key j g \<longleftrightarrow> i = j \<and> f = g"
      using lock_key_inj[of f g] snoc.prems assms(2) by auto
    then show ?case
      using snoc by (auto simp: getInvestorLock_def set_locks_def lock_spec_def x setInvestorLock_def Let_def)
  qed
  have "lk_invoiceId l = i \<and> lk_funderAddress l = f" if "lock_spec hist (i, f) = Some l" for l
    using map_of_SomeD[OF that[unfolded lock_spec_def]] by (auto simp: setInvestorLock_def Let_def)
  with eq show ?thesis by simp
qed

theorem lock_lookup_witness:
  "getInvestorLock ''a:b'' ''G1'' (set_locks [(''G1'', ''t'', 5, ''a:b''), (''G1'', ''t'', 7, ''a'')] []) =
     Some (fst (setInvestorLock ''G1'' ''t'' 5 ''a:b'' []))"
  using lock_lookup[of "[(''G1'', ''t'', 5, ''a:b''), (''G1'', ''t'', 7, ''a'')]" "''G1''" "''a:b''"]
  by (simp add: lock_spec_def)

lemma page_of_nat:
  fixes items :: "investor_lock list" and limit :: int
  defines "l \<equiv> nat (max 1 (min 100 limit))"
  shows "pg_data (page_of limit (int k + 1) items) = take l (drop (k * l) items)" (is ?data)
    and "pg_totalPages (page_of limit (int k + 1) items) = max 1 (int ((length items + l - 1) div l))" (is ?pages)
    and "pg_hasMore (page_of limit (int k + 1) items) \<longleftrightarrow> Suc k * l < length items" (is ?more)
proof -
  have l: "max 1 (min 100 limit) = int l" "0 < l" unfolding l_def by auto
  have off: "nat (int k * int l) = k * l" by (metis nat_int of_nat_mult)
  show ?data by (simp add: page_of_def l(1) Let_def off)
  have "(int (length items) + int l - 1) div int l = int ((length items + l - 1) div l)"
    using l(2) by (simp add: zdiv_int of_nat_diff)
  then show ?pages by (auto simp: page_of_def l(1) Let_def)
  have "int k * int l + int (length (take l (drop (k * l) items))) < int (length items) \<longleftrightarrow>
      k * l + length (take l (drop (k * l) items)) < length items"
    by (metis of_nat_add of_nat_less_iff of_nat_mult)
  also have "\<dots> \<longleftrightarrow> Suc k * l < length items" using l(2) by (auto simp: min_def)
  finally show ?more by (simp add: page_of_def l(1) Let_def off)
qed

text \<open>The pages of locks partition the result. The concatenation of all pages is the filtered
  list of locks, every page has at most a hundred entries, and \<open>hasMore\<close> tells exactly whether a
  further page exists.\<close>
theorem lock_pages_partition:
  fixes m :: lock_store and f :: string and i :: "string option" and limit :: int
  defines "page \<equiv> \<lambda>k. getInvestorLocksByAddress f i limit (int k + 1) m"
  shows "concat (map (\<lambda>k. pg_data (page k)) [0..<nat (pg_totalPages (page 0))]) =
      invoice_filter i (filter (\<lambda>l. lk_funderAddress l = f) (map snd m)) \<and>
    length (pg_data (page k)) \<le> 100 \<and>
    (pg_hasMore (page k) \<longleftrightarrow> int k + 1 < pg_totalPages (page k))"
proof -
  define xs where "xs = invoice_filter i (filter (\<lambda>l. lk_funderAddress l = f) (map snd m))"
  define l where "l = nat (max 1 (min 100 limit))"
  have l: "0 < l" "l \<le> 100" unfolding l_def by auto
  note p = page_of_nat[of limit _ xs, folded l_def]
  define n where "n = (length xs + l - 1) div l"
  have pg: "page k = page_of limit (int k + 1) xs" for k
    by (simp add: page_def getInvestorLocksByAddress_def xs_def)
  have tp: "pg_totalPages (page k) = int (max 1 n)" for k
    unfolding pg p n_def by simp
  have "length xs \<le> max 1 n * l"
    using ceil_div_covers[OF l(1), of "length xs"] unfolding n_def
    by (metis max.cobounded2 mult_le_mono1 order_trans)
  then have "concat (map (\<lambda>k. pg_data (page k)) [0..<nat (pg_totalPages (page 0))]) = xs"
    unfolding tp nat_int unfolding pg p concat_pages by simp
  moreover have "length (pg_data (page k)) \<le> 100" using l(2) unfolding pg p by simp
  moreover have "pg_hasMore (page k) \<longleftrightarrow> int k + 1 < pg_totalPages (page k)"
  proof -
    have "Suc k * l < length xs \<longleftrightarrow> Suc k < n"
      unfolding n_def by (rule less_ceil_div_iff[OF l(1), symmetric])
    also have "\<dots> \<longleftrightarrow> int k + 1 < int (max 1 n)" by auto
    finally show ?thesis unfolding tp unfolding pg p .
  qed
  ultimately show ?thesis unfolding xs_def by blast
qed

end
