(* ===== verification/Auth.thy ===== *)
theory Auth
  imports Commitment
begin

text \<open>
  Authentication and tenancy: \<open>src/src/config/apiKeys.js\<close>, \<open>src/src/middleware/apiKeyAuth.js\<close>,
  \<open>src/src/middleware/auth.js\<close>, \<open>src/src/middleware/smeAuth.js\<close> and \<open>src/src/middleware/tenant.js\<close>.

  A middleware maps a request to the request it hands on, the response it sends, the error it gives to
  \<open>next\<close>, or an exception. SHA-256, \<open>JSON.parse\<close>, \<open>jwt.verify\<close> and the check of a Stellar address are
  arguments.
\<close>

section \<open>Requests and middleware\<close>

record request =
  rq_headers :: row
  rq_params :: row
  rq_user :: jsval
  rq_walletAddress :: jsval
  rq_tenantId :: jsval
  rq_apiClient :: jsval
  rq_invoice :: jsval

text \<open>An \<open>AppError\<close>: its type, title, status and detail.\<close>

datatype app_err = AppErr string string int string

datatype handled = Next request | Respond int string | Failed app_err | Raised

definition and_then :: "(request \<Rightarrow> handled) \<Rightarrow> (request \<Rightarrow> handled) \<Rightarrow> request \<Rightarrow> handled" where
  "and_then f g req = (case f req of Next req' \<Rightarrow> g req' | h \<Rightarrow> h)"

lemma and_then_Next: "and_then f g req = Next r \<longleftrightarrow> (\<exists>r'. f req = Next r' \<and> g r' = Next r)"
  by (simp add: and_then_def split: handled.splits)

section \<open>API keys\<close>

definition API_KEY_PREFIX :: string where "API_KEY_PREFIX = ''lf_''"
definition MIN_KEY_LENGTH :: nat where "MIN_KEY_LENGTH = 10"

definition VALID_SCOPES :: "string list" where
  "VALID_SCOPES = [''invoices:read'', ''invoices:write'', ''escrow:read'']"

record api_key_entry =
  ak_key :: string
  ak_clientId :: string
  ak_scopes :: "string list"
  ak_revoked :: bool

text \<open>The errors of the parser, with the position of the entry.\<close>

datatype key_error =
    NotJson nat | NotObject nat | BadKey nat | BadPrefix nat | ShortKey nat | BadClientId nat
  | NoScopes nat | UnknownScope nat jsval | BadRevoked nat | DuplicateKey string

definition blank :: "jsval \<Rightarrow> bool" where
  "blank v = (case v of JStr s \<Rightarrow> trim s = [] | _ \<Rightarrow> True)"

definition str_of :: "jsval \<Rightarrow> string" where
  "str_of v = (case v of JStr s \<Rightarrow> s | _ \<Rightarrow> [])"

definition valid_scope :: "jsval \<Rightarrow> bool" where
  "valid_scope v \<longleftrightarrow> v \<in> JStr ` set VALID_SCOPES"

definition validateEntry :: "jsval \<Rightarrow> nat \<Rightarrow> key_error + api_key_entry" where
  "validateEntry entry index =
     (case entry of
        JObj _ \<Rightarrow>
          let key = js_get entry ''key''; clientId = js_get entry ''clientId'';
              scopes = js_get entry ''scopes''; revoked = js_get entry ''revoked''
          in if blank key then Inl (BadKey index)
             else if \<not> starts_with (str_of key) API_KEY_PREFIX then Inl (BadPrefix index)
             else if length (str_of key) < MIN_KEY_LENGTH then Inl (ShortKey index)
             else if blank clientId then Inl (BadClientId index)
             else (case scopes of
                 JArr vs \<Rightarrow>
                   if vs = [] then Inl (NoScopes index)
                   else (case List.find (\<lambda>v. \<not> valid_scope v) vs of
                       Some v \<Rightarrow> Inl (UnknownScope index v)
                     | None \<Rightarrow>
                         if revoked \<noteq> JUndef \<and> js_typeof revoked \<noteq> ''boolean'' then Inl (BadRevoked index)
                         else Inr \<lparr>ak_key = trim (str_of key), ak_clientId = trim (str_of clientId),
                                ak_scopes = map str_of vs, ak_revoked = truthy revoked\<rparr>)
               | _ \<Rightarrow> Inl (NoScopes index))
      | _ \<Rightarrow> Inl (NotObject index))"

fun parse_chunks :: "(string \<Rightarrow> jsval option) \<Rightarrow> nat \<Rightarrow> string list \<Rightarrow> key_error + api_key_entry list" where
  "parse_chunks parse index [] = Inr []"
| "parse_chunks parse index (chunk # chunks) =
     (case parse chunk of
        None \<Rightarrow> Inl (NotJson index)
      | Some parsed \<Rightarrow>
          (case validateEntry parsed index of
             Inl e \<Rightarrow> Inl e
           | Inr entry \<Rightarrow>
               (case parse_chunks parse (Suc index) chunks of
                  Inl e \<Rightarrow> Inl e
                | Inr entries \<Rightarrow> Inr (entry # entries))))"

definition parseApiKeys :: "(string \<Rightarrow> jsval option) \<Rightarrow> string \<Rightarrow> key_error + api_key_entry list" where
  "parseApiKeys parse raw =
     (if trim raw = [] then Inr []
      else parse_chunks parse 0 (filter (\<lambda>c. c \<noteq> []) (map trim (split_on CHR '';'' raw))))"

fun build_registry ::
  "(string, api_key_entry) amap \<Rightarrow> api_key_entry list \<Rightarrow> key_error + (string, api_key_entry) amap" where
  "build_registry registry [] = Inr registry"
| "build_registry registry (entry # entries) =
     (if amap_has registry (ak_key entry) then Inl (DuplicateKey (ak_clientId entry))
      else build_registry (registry @ [(ak_key entry, entry)]) entries)"

definition buildKeyRegistry :: "api_key_entry list \<Rightarrow> key_error + (string, api_key_entry) amap" where
  "buildKeyRegistry entries = build_registry [] entries"

definition loadApiKeyRegistry ::
  "(string \<Rightarrow> jsval option) \<Rightarrow> string \<Rightarrow> key_error + (string, api_key_entry) amap" where
  "loadApiKeyRegistry parse raw =
     (case parseApiKeys parse raw of Inl e \<Rightarrow> Inl e | Inr entries \<Rightarrow> buildKeyRegistry entries)"

definition timingSafeStringEqual :: "(string \<Rightarrow> string) \<Rightarrow> string \<Rightarrow> string \<Rightarrow> bool" where
  "timingSafeStringEqual sha256 a b \<longleftrightarrow> sha256 a = sha256 b"

definition findEntry ::
  "(string \<Rightarrow> string) \<Rightarrow> (string, api_key_entry) amap \<Rightarrow> string \<Rightarrow> api_key_entry option" where
  "findEntry sha256 registry candidate =
     foldl (\<lambda>matched (registryKey, entry).
        if timingSafeStringEqual sha256 candidate registryKey then Some entry else matched) None registry"

definition client_of :: "api_key_entry \<Rightarrow> jsval" where
  "client_of entry = JObj [(''clientId'', JStr (ak_clientId entry)), (''scopes'', JArr (map JStr (ak_scopes entry)))]"

definition authenticateApiKey ::
  "(string \<Rightarrow> jsval option) \<Rightarrow> (string \<Rightarrow> string) \<Rightarrow> string \<Rightarrow> string \<Rightarrow> request \<Rightarrow> handled" where
  "authenticateApiKey parse sha256 apiKeys requiredScope req =
     (let rawKey = col ''x-api-key'' (rq_headers req) in
      if blank rawKey then Respond 401 ''API key is required. Provide it via the X-API-Key header.''
      else (case loadApiKeyRegistry parse apiKeys of
          Inl _ \<Rightarrow> Raised
        | Inr registry \<Rightarrow>
            (case findEntry sha256 registry (trim (str_of rawKey)) of
               None \<Rightarrow> Respond 401 ''Invalid API key.''
             | Some entry \<Rightarrow>
                 if ak_revoked entry then Respond 401 ''API key has been revoked.''
                 else if requiredScope \<noteq> [] \<and> requiredScope \<notin> set (ak_scopes entry)
                 then Respond 403 (''Insufficient permissions. Required scope: \"'' @ requiredScope @ ''\".'')
                 else Next (req\<lparr>rq_apiClient := client_of entry\<rparr>))))"

section \<open>JSON web tokens\<close>

text \<open>An empty string stands for an absent setting.\<close>

record jwt_config =
  JWT_SECRET :: string
  JWT_ALGORITHMS :: string
  JWT_ISSUER :: string
  JWT_AUDIENCE :: string

record jwt_options =
  jo_algorithms :: "string list"
  jo_issuer :: "string option"
  jo_audience :: "string option"

text \<open>The name and the message of an error of \<open>jwt.verify\<close>.\<close>

datatype jwt_failure = JwtFailure string string

definition test_config :: "jwt_config \<Rightarrow> jwt_config" where
  "test_config env =
     env\<lparr>JWT_SECRET := (if JWT_SECRET env = [] then ''test-secret'' else JWT_SECRET env),
         JWT_ALGORITHMS := (if JWT_ALGORITHMS env = [] then ''HS256'' else JWT_ALGORITHMS env)\<rparr>"

text \<open>\<open>validated\<close> is what \<open>config.get()\<close> returns, None where it raises.\<close>

definition resolveJwtConfig :: "jwt_config option \<Rightarrow> string \<Rightarrow> jwt_config \<Rightarrow> app_err + jwt_config" where
  "resolveJwtConfig validated nodeEnv env =
     (case validated of
        Some cfg \<Rightarrow> Inr cfg
      | None \<Rightarrow>
          if nodeEnv = ''test'' then Inr (test_config env)
          else Inl (AppErr ''https://liquifact.com/probs/auth-config-unavailable'' ''Unauthorized'' 401
            ''Authentication configuration is unavailable''))"

definition some_text :: "string \<Rightarrow> string option" where
  "some_text s = (if s = [] then None else Some s)"

definition verify_options :: "jwt_config \<Rightarrow> jwt_options" where
  "verify_options cfg =
     \<lparr>jo_algorithms = (if JWT_ALGORITHMS cfg \<noteq> [] then map trim (split_on CHR '','' (JWT_ALGORITHMS cfg)) else [''HS256'']),
      jo_issuer = some_text (JWT_ISSUER cfg), jo_audience = some_text (JWT_AUDIENCE cfg)\<rparr>"

definition unauthorized :: "string \<Rightarrow> app_err" where
  "unauthorized detail = AppErr ''https://liquifact.com/probs/unauthorized'' ''Unauthorized'' 401 detail"

fun token_error :: "jwt_failure \<Rightarrow> app_err" where
  "token_error (JwtFailure name msg) =
     (if name = ''TokenExpiredError''
      then AppErr ''https://liquifact.com/probs/token-expired'' ''Invalid Token'' 401 ''Token has expired''
      else AppErr ''https://liquifact.com/probs/invalid-token'' ''Invalid Token'' 401
        (if msg \<noteq> [] \<and> str_includes (to_lower msg) ''algorithm'' then ''Token algorithm not allowed''
         else if name = ''NotBeforeError'' then ''Token not yet active'' else ''Invalid token''))"

definition authenticateToken ::
  "(string \<Rightarrow> string \<Rightarrow> jwt_options \<Rightarrow> jwt_failure + jsval) \<Rightarrow> jwt_config option \<Rightarrow> string \<Rightarrow> jwt_config \<Rightarrow>
   request \<Rightarrow> handled" where
  "authenticateToken verify validated nodeEnv env req =
     (let authHeader = str_of (col ''authorization'' (rq_headers req)) in
      if authHeader = [] then Failed (unauthorized ''Authentication token is required'')
      else (case split_on CHR '' '' authHeader of
          [scheme, token] \<Rightarrow>
            if scheme \<noteq> ''Bearer''
            then Failed (unauthorized ''Invalid Authorization header format. Expected \"Bearer <token>\"'')
            else (case resolveJwtConfig validated nodeEnv env of
                Inl e \<Rightarrow> Failed e
              | Inr cfg \<Rightarrow>
                  (case verify token (JWT_SECRET cfg) (verify_options cfg) of
                     Inl err \<Rightarrow> Failed (token_error err)
                   | Inr decoded \<Rightarrow> Next (req\<lparr>rq_user := decoded\<rparr>)))
        | _ \<Rightarrow> Failed (unauthorized ''Invalid Authorization header format. Expected \"Bearer <token>\"'')))"

section \<open>Wallets and owners\<close>

definition authorizeSmeWallet :: "(string \<Rightarrow> bool) \<Rightarrow> request \<Rightarrow> handled" where
  "authorizeSmeWallet pk req =
     (if \<not> truthy (rq_user req) then Failed (unauthorized ''Authentication required.'')
      else let wallet = js_get (rq_user req) ''walletAddress'' in
        if \<not> truthy wallet
        then Failed (AppErr ''https://liquifact.com/probs/forbidden'' ''Forbidden'' 403
          ''No Stellar wallet address is bound to this account.'')
        else if \<not> isValidStellarAccountAddress pk wallet
        then Failed (AppErr ''https://liquifact.com/probs/validation-error'' ''Invalid Wallet Address'' 400
          ''Stellar wallet address format is invalid.'')
        else Next (req\<lparr>rq_walletAddress := wallet\<rparr>))"

definition verifyInvoiceOwner :: "table \<Rightarrow> request \<Rightarrow> handled" where
  "verifyInvoiceOwner invoices req =
     (let iid = col ''id'' (rq_params req) in
      if \<not> truthy iid
      then Failed (AppErr ''https://liquifact.com/probs/validation-error'' ''Validation Error'' 400 ''Invoice ID is required.'')
      else (case List.find (\<lambda>inv. col ''id'' inv = iid) invoices of
          None \<Rightarrow> Failed (AppErr ''https://liquifact.com/probs/not-found'' ''Not Found'' 404
            (''Invoice '' @ str_of iid @ '' was not found.''))
        | Some invoice \<Rightarrow>
            let userId = js_get (rq_user req) ''id''; wallet = rq_walletAddress req in
            if \<not> (truthy userId \<and> col ''ownerId'' invoice = userId) \<and>
               \<not> (truthy wallet \<and> col ''smeWallet'' invoice = wallet)
            then Failed (AppErr ''https://liquifact.com/probs/forbidden'' ''Forbidden'' 403
              ''You do not have permission to access this invoice.'')
            else Next (req\<lparr>rq_invoice := JObj invoice\<rparr>)))"

section \<open>Tenants\<close>

text \<open>\<open>length > MAX_TENANT_ID_LENGTH\<close>: the variable of the environment, or 128.\<close>

definition exceeds :: "nat \<Rightarrow> jsval \<Rightarrow> bool" where
  "exceeds n bound =
     (case to_number bound of NFin q \<Rightarrow> q < rat_of_nat n | NNegInf \<Rightarrow> True | _ \<Rightarrow> False)"

definition sanitiseTenantId :: "jsval \<Rightarrow> jsval \<Rightarrow> string option" where
  "sanitiseTenantId maxLen raw =
     (case raw of
        JStr s \<Rightarrow> if trim s = [] \<or> exceeds (length (trim s)) maxLen then None else Some (trim s)
      | _ \<Rightarrow> None)"

definition extractTenant :: "jsval \<Rightarrow> request \<Rightarrow> handled" where
  "extractTenant maxLen req =
     (case sanitiseTenantId maxLen (col ''x-tenant-id'' (rq_headers req)) of
        Some headerTenant \<Rightarrow> Next (req\<lparr>rq_tenantId := JStr headerTenant\<rparr>)
      | None \<Rightarrow>
          (case sanitiseTenantId maxLen (js_get (rq_user req) ''tenantId'') of
             Some jwtTenant \<Rightarrow> Next (req\<lparr>rq_tenantId := JStr jwtTenant\<rparr>)
           | None \<Rightarrow> Respond 400 ''Missing tenant context.''))"

section \<open>API keys are exact\<close>

lemma findEntry_in:
  "findEntry sha256 registry k = Some e \<Longrightarrow> \<exists>k'. (k', e) \<in> set registry \<and> sha256 k = sha256 k'"
  unfolding findEntry_def timingSafeStringEqual_def
  by (induction registry rule: rev_induct) (auto split: if_splits)

lemma findEntry_exact:
  assumes "inj sha256" "distinct (map fst registry)"
  shows "findEntry sha256 registry k = map_of registry k"
  using assms(2) unfolding findEntry_def timingSafeStringEqual_def
proof (induction registry rule: rev_induct)
  case (snoc x registry)
  obtain k' e where x: "x = (k', e)" by (cases x)
  have "map_of registry k' = None" using snoc.prems by (auto simp: x map_of_eq_None_iff)
  then show ?case using snoc assms(1) by (auto simp: x inj_eq map_add_def split: option.splits)
qed simp

lemma build_registry_Inr:
  "distinct (map fst registry) \<Longrightarrow>
   build_registry registry entries = Inr r \<longleftrightarrow>
     r = registry @ map (\<lambda>e. (ak_key e, e)) entries \<and> distinct (map fst registry @ map ak_key entries)"
proof (induction entries arbitrary: registry)
  case (Cons e entries)
  show ?case
  proof (cases "ak_key e \<in> fst ` set registry")
    case True
    then show ?thesis by (auto simp: amap_has_def)
  next
    case False
    then show ?thesis using Cons(1)[of "registry @ [(ak_key e, e)]"] Cons(2)
      by (auto simp: amap_has_def)
  qed
qed auto

lemma load_registry_Inr:
  "loadApiKeyRegistry parse raw = Inr registry \<longleftrightarrow>
    (\<exists>entries. parseApiKeys parse raw = Inr entries \<and> distinct (map ak_key entries) \<and>
       registry = map (\<lambda>e. (ak_key e, e)) entries)"
  by (auto simp: loadApiKeyRegistry_def buildKeyRegistry_def build_registry_Inr split: sum.splits)

lemma registry_lookup:
  "distinct (map ak_key entries) \<Longrightarrow>
   map_of (map (\<lambda>e. (ak_key e, e)) entries) k = Some e \<longleftrightarrow> e \<in> set entries \<and> ak_key e = k"
  by (subst map_of_eq_Some_iff) (auto simp: comp_def)

lemma blank_str: "\<not> blank v \<longleftrightarrow> (\<exists>s. v = JStr s \<and> trim s \<noteq> [])"
  by (auto simp: blank_def split: jsval.splits)

lemma authenticateApiKey_Next:
  "authenticateApiKey parse sha256 raw scope req = Next req' \<longleftrightarrow>
    (\<exists>k registry e. col ''x-api-key'' (rq_headers req) = JStr k \<and> trim k \<noteq> [] \<and>
       loadApiKeyRegistry parse raw = Inr registry \<and> findEntry sha256 registry (trim k) = Some e \<and>
       \<not> ak_revoked e \<and> (scope = [] \<or> scope \<in> set (ak_scopes e)) \<and>
       req' = req\<lparr>rq_apiClient := client_of e\<rparr>)"
  by (cases "col ''x-api-key'' (rq_headers req)")
    (auto simp: authenticateApiKey_def Let_def blank_def str_of_def split: sum.splits option.splits)

text \<open>C26: With a collision-free hash, an API key lets a request pass exactly when \<open>API_KEYS\<close> parses to
  entries with distinct keys and one of them has the trimmed header value as its key, is not revoked
  and has the required scope; the request then carries that entry's client, and nothing else of it
  changes.\<close>

theorem api_key_access:
  assumes "inj sha256"
  shows "authenticateApiKey parse sha256 apiKeys requiredScope req = Next req' \<longleftrightarrow>
    (\<exists>k entries e. col ''x-api-key'' (rq_headers req) = JStr k \<and> trim k \<noteq> [] \<and>
       parseApiKeys parse apiKeys = Inr entries \<and> distinct (map ak_key entries) \<and>
       e \<in> set entries \<and> ak_key e = trim k \<and> \<not> ak_revoked e \<and>
       (requiredScope = [] \<or> requiredScope \<in> set (ak_scopes e)) \<and>
       req' = req\<lparr>rq_apiClient := client_of e\<rparr>)"
proof -
  have lookup: "findEntry sha256 (map (\<lambda>e. (ak_key e, e)) entries) k = Some e \<longleftrightarrow> e \<in> set entries \<and> ak_key e = k"
    if "distinct (map ak_key entries)" for entries k e
    by (subst findEntry_exact[OF assms]) (use that in \<open>auto simp: comp_def\<close>)
  show ?thesis unfolding authenticateApiKey_Next load_registry_Inr by (auto simp: lookup)
qed

definition sample_key :: jsval where
  "sample_key = JObj [(''key'', JStr ''lf_abc1234''), (''clientId'', JStr ''service-a''),
     (''scopes'', JArr [JStr ''invoices:read''])]"

definition sample_request :: request where
  "sample_request = \<lparr>rq_headers = [(''x-api-key'', JStr ''lf_abc1234''), (''authorization'', JStr ''Bearer tok''),
      (''x-tenant-id'', JStr ''other'')], rq_params = [(''id'', JStr ''inv_1'')], rq_user = JUndef,
     rq_walletAddress = JUndef, rq_tenantId = JUndef, rq_apiClient = JUndef, rq_invoice = JUndef\<rparr>"

theorem api_key_access_witness:
  "\<exists>req'. authenticateApiKey (\<lambda>_. Some sample_key) id ''k'' ''invoices:read'' sample_request = Next req' \<and>
    authenticateApiKey (\<lambda>_. Some sample_key) id ''k'' ''invoices:write'' sample_request \<noteq> Next req'"
proof -
  have "parseApiKeys (\<lambda>_. Some sample_key) ''k'' = Inr [\<lparr>ak_key = ''lf_abc1234'', ak_clientId = ''service-a'',
      ak_scopes = [''invoices:read''], ak_revoked = False\<rparr>]" by code_simp
  moreover have "col ''x-api-key'' (rq_headers sample_request) = JStr ''lf_abc1234''"
    "trim ''lf_abc1234'' = ''lf_abc1234''" by code_simp+
  ultimately show ?thesis
    unfolding api_key_access[OF inj_on_id] by auto
qed

text \<open>The prefix and the length are checked before the value is trimmed: a key of three characters
  passes. The list is split at every semicolon, also inside the JSON texts.\<close>

lemma short_key_accepted:
  "validateEntry (JObj [(''key'', JStr ''lf_       ''), (''clientId'', JStr ''c''),
     (''scopes'', JArr [JStr ''escrow:read''])]) 0 =
   Inr \<lparr>ak_key = ''lf_'', ak_clientId = ''c'', ak_scopes = [''escrow:read''], ak_revoked = False\<rparr>"
  by code_simp

lemma malformed_keys_raise:
  assumes "parseApiKeys parse apiKeys = Inl e" "\<not> blank (col ''x-api-key'' (rq_headers req))"
  shows "authenticateApiKey parse sha256 apiKeys scope req = Raised"
  using assms by (simp add: authenticateApiKey_def Let_def loadApiKeyRegistry_def)

section \<open>Tokens and owners\<close>

lemma split_on_ne: "split_on c s \<noteq> []"
  by (induction s) (auto split: list.splits)

lemma split_on_singleD: "split_on c s = [a] \<Longrightarrow> s = a \<and> c \<notin> set a"
proof (induction s arbitrary: a)
  case (Cons x s)
  then have ne: "x \<noteq> c" using split_on_ne[of c s] by auto
  then obtain y where "split_on c s = [y]" "a = x # y"
    using Cons.prems split_on_ne[of c s] by (auto split: list.splits)
  then show ?case using Cons.IH[of y] ne by simp
qed simp

lemma split_on_pairD: "split_on c s = [a, b] \<Longrightarrow> s = a @ c # b \<and> c \<notin> set a \<and> c \<notin> set b"
proof (induction s arbitrary: a)
  case (Cons x s)
  show ?case
  proof (cases "x = c")
    case True
    then show ?thesis using Cons.prems split_on_singleD[of c s b] by auto
  next
    case False
    then obtain y where "split_on c s = [y, b]" "a = x # y"
      using Cons.prems by (auto split: list.splits)
    then show ?thesis using Cons.IH[of y] False by simp
  qed
qed simp

lemma split_on_pair: "split_on c s = [a, b] \<longleftrightarrow> s = a @ c # b \<and> c \<notin> set a \<and> c \<notin> set b"
  using split_on_pairD split_on_append split_on_none by metis

lemma authenticateToken_Next:
  "authenticateToken verify validated nodeEnv env req = Next req' \<longleftrightarrow>
    (\<exists>token cfg claims. col ''authorization'' (rq_headers req) = JStr (''Bearer '' @ token) \<and>
       CHR '' '' \<notin> set token \<and>
       (validated = Some cfg \<or> validated = None \<and> nodeEnv = ''test'' \<and> cfg = test_config env) \<and>
       verify token (JWT_SECRET cfg) (verify_options cfg) = Inr claims \<and> req' = req\<lparr>rq_user := claims\<rparr>)"
    (is "?L \<longleftrightarrow> ?R")
proof -
  have sp: "split_on CHR '' '' h = [''Bearer'', token] \<longleftrightarrow> h = ''Bearer '' @ token \<and> CHR '' '' \<notin> set token"
    for h token by (auto simp: split_on_pair)
  have "?L \<longleftrightarrow> (\<exists>h token cfg claims. col ''authorization'' (rq_headers req) = JStr h \<and>
      split_on CHR '' '' h = [''Bearer'', token] \<and> resolveJwtConfig validated nodeEnv env = Inr cfg \<and>
      verify token (JWT_SECRET cfg) (verify_options cfg) = Inr claims \<and> req' = req\<lparr>rq_user := claims\<rparr>)"
    by (cases "col ''authorization'' (rq_headers req)")
      (auto simp: authenticateToken_def Let_def str_of_def split: list.splits sum.splits)
  then show ?thesis
    by (auto simp: sp resolveJwtConfig_def split: option.splits if_splits)
qed

lemma authenticateToken_cases:
  obtains req' where "authenticateToken verify validated nodeEnv env req = Next req'"
  | ty ti d where "authenticateToken verify validated nodeEnv env req = Failed (AppErr ty ti 401 d)"
proof -
  have "\<exists>ty ti d. token_error e = AppErr ty ti 401 d" for e by (cases e) simp
  then have "(\<exists>req'. authenticateToken verify validated nodeEnv env req = Next req') \<or>
     (\<exists>ty ti d. authenticateToken verify validated nodeEnv env req = Failed (AppErr ty ti 401 d))"
    by (auto simp: authenticateToken_def Let_def unauthorized_def resolveJwtConfig_def
        split: list.splits sum.splits option.splits)
  then show ?thesis using that by blast
qed

text \<open>A request passes \<open>authenticateToken\<close> exactly when its header is \<open>Bearer\<close>, one blank and a token
  without blanks, the configuration is the validated one (outside test mode there is no other) and the
  library verifies the token with the configured secret, algorithms, issuer and audience; the claims
  become the user and nothing else changes. Every other request ends in an error of status 401.\<close>

theorem jwt_authentication:
  "(authenticateToken verify validated nodeEnv env req = Next req' \<longleftrightarrow>
    (\<exists>token cfg claims. col ''authorization'' (rq_headers req) = JStr (''Bearer '' @ token) \<and>
       CHR '' '' \<notin> set token \<and>
       (validated = Some cfg \<or> validated = None \<and> nodeEnv = ''test'' \<and> cfg = test_config env) \<and>
       verify token (JWT_SECRET cfg) (verify_options cfg) = Inr claims \<and> req' = req\<lparr>rq_user := claims\<rparr>)) \<and>
   ((\<exists>r. authenticateToken verify validated nodeEnv env req = Next r) \<or>
    (\<exists>ty ti d. authenticateToken verify validated nodeEnv env req = Failed (AppErr ty ti 401 d)))"
proof (rule conjI[OF authenticateToken_Next])
  show "(\<exists>r. authenticateToken verify validated nodeEnv env req = Next r) \<or>
    (\<exists>ty ti d. authenticateToken verify validated nodeEnv env req = Failed (AppErr ty ti 401 d))"
    by (rule authenticateToken_cases[of verify validated nodeEnv env req]) auto
qed

lemma authorizeSmeWallet_Next:
  "authorizeSmeWallet pk req = Next req' \<longleftrightarrow>
    (\<exists>w. js_get (rq_user req) ''walletAddress'' = JStr w \<and> w \<noteq> [] \<and> pk w \<and> req' = req\<lparr>rq_walletAddress := JStr w\<rparr>)"
proof -
  have "truthy (rq_user req)" if "js_get (rq_user req) ''walletAddress'' = JStr w" for w
    using that by (cases "rq_user req") auto
  then show ?thesis
    by (auto simp: authorizeSmeWallet_def Let_def isValidStellarAccountAddress_def split: jsval.splits)
qed

lemma verifyInvoiceOwner_Next:
  "verifyInvoiceOwner invoices req = Next req' \<longleftrightarrow>
    (\<exists>inv. truthy (col ''id'' (rq_params req)) \<and>
       List.find (\<lambda>inv. col ''id'' inv = col ''id'' (rq_params req)) invoices = Some inv \<and>
       (truthy (js_get (rq_user req) ''id'') \<and> col ''ownerId'' inv = js_get (rq_user req) ''id'' \<or>
        truthy (rq_walletAddress req) \<and> col ''smeWallet'' inv = rq_walletAddress req) \<and>
       req' = req\<lparr>rq_invoice := JObj inv\<rparr>)"
  by (simp add: verifyInvoiceOwner_def Let_def split: option.splits) blast

text \<open>Behind token authentication, the wallet check and the owner check a handler sees an invoice only
  if the verified claims of the token name its owner, by user id or by a well-formed wallet address,
  and the invoice is the one of the requested id. No header takes part but the authorization.\<close>

theorem invoice_owner_access:
  assumes "and_then (authenticateToken verify validated nodeEnv env)
      (and_then (authorizeSmeWallet pk) (verifyInvoiceOwner invoices)) req = Next req'"
  shows "\<exists>token cfg claims inv w. col ''authorization'' (rq_headers req) = JStr (''Bearer '' @ token) \<and>
     verify token (JWT_SECRET cfg) (verify_options cfg) = Inr claims \<and> (nodeEnv \<noteq> ''test'' \<longrightarrow> validated = Some cfg) \<and>
     js_get claims ''walletAddress'' = JStr w \<and> pk w \<and>
     inv \<in> set invoices \<and> col ''id'' inv = col ''id'' (rq_params req) \<and>
     (col ''ownerId'' inv = js_get claims ''id'' \<or> col ''smeWallet'' inv = JStr w) \<and>
     req' = req\<lparr>rq_user := claims, rq_walletAddress := JStr w, rq_invoice := JObj inv\<rparr>"
proof -
  obtain r1 r2 where r: "authenticateToken verify validated nodeEnv env req = Next r1"
      "authorizeSmeWallet pk r1 = Next r2" "verifyInvoiceOwner invoices r2 = Next req'"
    using assms by (auto simp: and_then_Next)
  obtain token cfg claims where t: "col ''authorization'' (rq_headers req) = JStr (''Bearer '' @ token)"
      "validated = Some cfg \<or> validated = None \<and> nodeEnv = ''test''"
      "verify token (JWT_SECRET cfg) (verify_options cfg) = Inr claims" "r1 = req\<lparr>rq_user := claims\<rparr>"
    using r(1) unfolding authenticateToken_Next by blast
  obtain w where w: "js_get claims ''walletAddress'' = JStr w" "pk w" "r2 = r1\<lparr>rq_walletAddress := JStr w\<rparr>"
    using r(2) t(4) unfolding authorizeSmeWallet_Next by auto
  obtain inv where inv: "List.find (\<lambda>inv. col ''id'' inv = col ''id'' (rq_params r2)) invoices = Some inv"
      "col ''ownerId'' inv = js_get claims ''id'' \<or> col ''smeWallet'' inv = JStr w"
      "req' = r2\<lparr>rq_invoice := JObj inv\<rparr>"
    using r(3) t(4) w(3) unfolding verifyInvoiceOwner_Next by auto
  show ?thesis
    using t w(1,2) inv(2) find_SomeD[OF inv(1)] inv(3) w(3)
    by (intro exI[of _ token] exI[of _ cfg] exI[of _ claims] exI[of _ inv] exI[of _ w]) auto
qed

definition sample_config :: jwt_config where
  "sample_config = \<lparr>JWT_SECRET = ''s'', JWT_ALGORITHMS = ''HS256'', JWT_ISSUER = [], JWT_AUDIENCE = []\<rparr>"

definition sample_claims :: jsval where
  "sample_claims = JObj [(''id'', JStr ''u''), (''walletAddress'', JStr ''G''), (''tenantId'', JStr ''mine'')]"

definition sample_owned :: row where
  "sample_owned = [(''id'', JStr ''inv_1''), (''ownerId'', JStr ''u'')]"

theorem invoice_owner_access_witness:
  "\<exists>token. col ''authorization'' (rq_headers sample_request) = JStr (''Bearer '' @ token) \<and>
     and_then (authenticateToken (\<lambda>_ _ _. Inr sample_claims) (Some sample_config) [] sample_config)
       (and_then (authorizeSmeWallet (\<lambda>_. True)) (verifyInvoiceOwner [sample_owned])) sample_request =
     Next (sample_request\<lparr>rq_user := sample_claims, rq_walletAddress := JStr ''G'', rq_invoice := JObj sample_owned\<rparr>)"
proof -
  have r: "and_then (authenticateToken (\<lambda>_ _ _. Inr sample_claims) (Some sample_config) [] sample_config)
       (and_then (authorizeSmeWallet (\<lambda>_. True)) (verifyInvoiceOwner [sample_owned])) sample_request =
     Next (sample_request\<lparr>rq_user := sample_claims, rq_walletAddress := JStr ''G'', rq_invoice := JObj sample_owned\<rparr>)"
    by code_simp
  show ?thesis using invoice_owner_access[OF r] r by blast
qed

section \<open>The tenant of a request\<close>

lemma sanitiseTenantId_Some:
  "sanitiseTenantId maxLen raw = Some t \<Longrightarrow> t \<noteq> [] \<and> trim t = t \<and> \<not> exceeds (length t) maxLen"
  by (auto simp: sanitiseTenantId_def split: jsval.splits if_splits)

lemma extractTenant_Next:
  "extractTenant maxLen req = Next req' \<longleftrightarrow>
    (\<exists>t. req' = req\<lparr>rq_tenantId := JStr t\<rparr> \<and>
       (sanitiseTenantId maxLen (col ''x-tenant-id'' (rq_headers req)) = Some t \<or>
        sanitiseTenantId maxLen (col ''x-tenant-id'' (rq_headers req)) = None \<and>
        sanitiseTenantId maxLen (js_get (rq_user req) ''tenantId'') = Some t))"
  by (auto simp: extractTenant_def split: option.splits)

text \<open>A handler behind \<open>extractTenant\<close> sees a tenant id that is not empty, has no blanks around it and
  at most 128 characters; it is the header's if that is acceptable and the token's claim otherwise, and
  without either the request ends with status 400.\<close>

theorem tenant_resolved:
  "(case extractTenant (JInt 128) req of
      Next req' \<Rightarrow> \<exists>t. req' = req\<lparr>rq_tenantId := JStr t\<rparr> \<and> t \<noteq> [] \<and> trim t = t \<and> length t \<le> 128 \<and>
        (sanitiseTenantId (JInt 128) (col ''x-tenant-id'' (rq_headers req)) = Some t \<or>
         sanitiseTenantId (JInt 128) (col ''x-tenant-id'' (rq_headers req)) = None \<and>
         js_get (rq_user req) ''tenantId'' \<noteq> JUndef \<and>
         sanitiseTenantId (JInt 128) (js_get (rq_user req) ''tenantId'') = Some t)
    | Respond c m \<Rightarrow> c = 400 \<and> sanitiseTenantId (JInt 128) (col ''x-tenant-id'' (rq_headers req)) = None \<and>
        sanitiseTenantId (JInt 128) (js_get (rq_user req) ''tenantId'') = None
    | _ \<Rightarrow> False)"
proof -
  have len: "length t \<le> 128" if "\<not> exceeds (length t) (JNum (NFin 128))" for t :: string
  proof -
    have "rat_of_nat (length t) \<le> rat_of_nat 128" using that by (simp add: exceeds_def)
    then show ?thesis by (simp only: of_nat_le_iff)
  qed
  have undef: "sanitiseTenantId m JUndef = None" for m by (simp add: sanitiseTenantId_def)
  show ?thesis
    by (auto simp: extractTenant_def undef split: option.splits dest: sanitiseTenantId_Some intro: len)
qed

text \<open>The header is not compared with the claim of the token, so a user authenticated for one tenant
  acts for any other. A limit that is no number disables the check of the length.\<close>

lemma header_overrides_claim:
  assumes "t \<noteq> []" "trim t = t" "length t \<le> 128" "col ''x-tenant-id'' (rq_headers req) = JStr t"
  shows "extractTenant (JInt 128) req = Next (req\<lparr>rq_tenantId := JStr t\<rparr>)"
proof -
  have "\<not> 128 < rat_of_nat (length t)"
    using assms(3) by (metis not_less of_nat_le_iff of_nat_numeral)
  then show ?thesis using assms by (simp add: extractTenant_def sanitiseTenantId_def exceeds_def)
qed

lemma tenant_limit_disabled: "\<not> exceeds n (JStr ''128 chars'')"
proof -
  have "to_number (JStr ''128 chars'') = NNaN" by code_simp
  then show ?thesis by (simp add: exceeds_def)
qed

end
