(* ===== verification/Invoices.thy ===== *)
theory Invoices
  imports Table
begin

text \<open>
  Invoices: the status vocabulary (\<open>src/src/services/invoiceStateMachine.js\<close>), the PATCH field
  guard (\<open>src/src/middleware/patchInvoice.js\<close>), fraud verification
  (\<open>src/src/services/invoiceVerification.js\<close>), the query builder
  (\<open>src/src/utils/queryBuilder.js\<close>) and the invoice service
  (\<open>src/src/services/invoiceService.js\<close>).

  Tenant ids are strings. Arguments stand for what the database decides: whether it accepts a row,
  the columns it fills in, its comparison \<open>le\<close> and the rank of a value in the order of a column, and
  whether statements return rows (\<open>pg\<close>: PostgreSQL does, SQLite does not).
\<close>

section \<open>Statuses\<close>

definition PAYMENT_STATUSES :: "string list" where
  "PAYMENT_STATUSES = [''paid'', ''pending'', ''overdue'']"

definition FUNDING_PROGRESS_STATUSES :: "string list" where
  "FUNDING_PROGRESS_STATUSES = [''pending_verification'', ''verified'', ''partially_funded'', ''funded'',
     ''settled'', ''completed'', ''defaulted'']"

definition INVOICE_STATES :: "string list" where
  "INVOICE_STATES = [''pending'', ''approved'', ''linked_escrow'', ''rejected'', ''cancelled'']"

text \<open>A \<open>Set\<close> keeps the first occurrence of each value.\<close>

definition js_set :: "'a list \<Rightarrow> 'a list" where
  "js_set xs = rev (remdups (rev xs))"

definition ALL_INVOICE_STATUSES :: "string list" where
  "ALL_INVOICE_STATUSES = js_set (PAYMENT_STATUSES @ FUNDING_PROGRESS_STATUSES @ INVOICE_STATES)"

definition INVESTABLE_STATUSES :: "string list" where
  "INVESTABLE_STATUSES = [''verified'', ''partially_funded'']"

definition TERMINAL_STATES :: "string list" where
  "TERMINAL_STATES = [''linked_escrow'', ''rejected'', ''cancelled'', ''completed'', ''defaulted'', ''settled'']"

definition CAPITAL_MOVING_STATES :: "string list" where
  "CAPITAL_MOVING_STATES = [''funded'', ''settled'']"

section \<open>The PATCH guard\<close>

definition MUTABLE_FIELDS :: "string list" where
  "MUTABLE_FIELDS = [''amount'', ''customer'', ''notes'']"

definition PENDING_ONLY_FIELDS :: "string list" where
  "PENDING_ONLY_FIELDS = [''amount'', ''customer'']"

definition LOCKED_STATUSES :: "string list" where
  "LOCKED_STATUSES = [''verified'', ''funded'', ''settled'', ''cancelled'']"

definition extractAllowedFields :: "row \<Rightarrow> row" where
  "extractAllowedFields body = filter (\<lambda>(key, _). key \<in> set MUTABLE_FIELDS) body"

definition is_locked :: "jsval \<Rightarrow> bool" where
  "is_locked st = (case st of JStr s \<Rightarrow> s \<in> set LOCKED_STATUSES | _ \<Rightarrow> False)"

definition detectLockedFieldChange :: "row \<Rightarrow> jsval \<Rightarrow> string option" where
  "detectLockedFieldChange pl st =
     (if \<not> is_locked st then None else List.find (amap_has pl) PENDING_ONLY_FIELDS)"

datatype patch_result = PatchNext row | PatchBad string

definition validatePatchFields :: "jsval \<Rightarrow> patch_result" where
  "validatePatchFields body =
     (case body of
        JObj kvs \<Rightarrow>
          let sanitized = extractAllowedFields kvs
          in if sanitized = []
             then PatchBad ''No valid fields provided. Allowed fields: amount, customer, notes.''
             else PatchNext sanitized
      | _ \<Rightarrow> PatchBad ''Request body must be a JSON object.'')"

section \<open>Verification\<close>

datatype verification = VERIFIED | REJECTED string | MANUAL_REVIEW string

fun num_pos :: "jsnum \<Rightarrow> bool" where
  "num_pos (NFin q) = (q > 0)"
| "num_pos NPosInf = True"
| "num_pos _ = False"

fun num_ge :: "jsnum \<Rightarrow> rat \<Rightarrow> bool" where
  "num_ge (NFin q) b = (q \<ge> b)"
| "num_ge NPosInf _ = True"
| "num_ge _ _ = False"

fun num_gt :: "jsnum \<Rightarrow> rat \<Rightarrow> bool" where
  "num_gt (NFin q) b = (q > b)"
| "num_gt NPosInf _ = True"
| "num_gt _ _ = False"

definition suspicious :: "string \<Rightarrow> bool" where
  "suspicious s = list_ex (\<lambda>c. c \<in> set ''<>{}$'') s"

definition verifyInvoice :: "jsval \<Rightarrow> verification" where
  "verifyInvoice pl =
     (case pl of
        JObj kvs \<Rightarrow>
          (case js_get pl ''amount'' of
             JNum amount \<Rightarrow>
               if \<not> num_pos amount then REJECTED ''Invalid amount: must be a positive number''
               else (case js_get pl ''customer'' of
                   JStr customer \<Rightarrow>
                     if trim customer = [] then REJECTED ''Invalid customer: must be a non-empty string''
                     else if num_gt amount 10000000
                     then REJECTED ''Amount exceeds maximum allowed threshold''
                     else if num_ge amount 1000000
                     then MANUAL_REVIEW ''High value invoice requires manual approval''
                     else if suspicious customer
                     then REJECTED ''Suspicious characters detected in customer data''
                     else VERIFIED
                 | _ \<Rightarrow> REJECTED ''Invalid customer: must be a non-empty string'')
           | _ \<Rightarrow> REJECTED ''Invalid amount: must be a positive number'')
      | JArr _ \<Rightarrow> REJECTED ''Invalid amount: must be a positive number''
      | _ \<Rightarrow> REJECTED ''Invalid payload structure'')"

section \<open>The query builder\<close>

record query_config =
  allowedFilters :: "string list"
  allowedSortFields :: "string list"
  columnMap :: "(string \<times> string) list"

definition column_of :: "query_config \<Rightarrow> string \<Rightarrow> string" where
  "column_of cfg k = (case map_of (columnMap cfg) k of Some c \<Rightarrow> c | None \<Rightarrow> k)"

definition apply_filter ::
  "(jsval \<Rightarrow> jsval \<Rightarrow> bool) \<Rightarrow> query_config \<Rightarrow> string \<times> jsval \<Rightarrow> row \<Rightarrow> bool" where
  "apply_filter le cfg kv r =
     (case kv of (key, v) \<Rightarrow>
        if js_nullish v \<or> v = JStr [] \<or> key \<notin> set (allowedFilters cfg) then True
        else let c = col (column_of cfg key) r
             in if key = ''dateFrom'' then le v c
                else if key = ''dateTo'' then le c v
                else col_eq (column_of cfg key) v r)"

definition order_by :: "(jsval \<Rightarrow> rat) \<Rightarrow> string \<Rightarrow> string \<Rightarrow> table \<Rightarrow> table" where
  "order_by rank c dir t =
     sort_key (\<lambda>r. if dir = ''asc'' then rank (col c r) else - rank (col c r)) t"

definition applyQueryOptions ::
  "(jsval \<Rightarrow> jsval \<Rightarrow> bool) \<Rightarrow> (jsval \<Rightarrow> rat) \<Rightarrow> query_config \<Rightarrow> row \<Rightarrow> string option \<Rightarrow>
   string option \<Rightarrow> table \<Rightarrow> table" where
  "applyQueryOptions le rank cfg filters sortBy order t =
     (let rows = filter (\<lambda>r. list_all (\<lambda>kv. apply_filter le cfg kv r) filters) t;
          ord = to_lower (case order of None \<Rightarrow> ''desc'' | Some s \<Rightarrow> s);
          dir = (if ord \<in> {''asc'', ''desc''} then ord else ''desc'')
      in case sortBy of
           Some f \<Rightarrow>
             if f \<noteq> [] \<and> f \<in> set (allowedSortFields cfg) then order_by rank (column_of cfg f) dir rows
             else if allowedSortFields cfg \<noteq> []
             then order_by rank (column_of cfg (hd (allowedSortFields cfg))) ''desc'' rows else rows
         | None \<Rightarrow>
             if allowedSortFields cfg \<noteq> []
             then order_by rank (column_of cfg (hd (allowedSortFields cfg))) ''desc'' rows else rows)"

section \<open>The invoice service\<close>

definition INVOICE_QUERY_CONFIG :: query_config where
  "INVOICE_QUERY_CONFIG =
     \<lparr>allowedFilters = [''status'', ''smeId'', ''buyerId'', ''dateFrom'', ''dateTo''],
      allowedSortFields = [''amount'', ''date''],
      columnMap = [(''smeId'', ''sme_id''), (''buyerId'', ''buyer_id''), (''dateFrom'', ''date''),
        (''dateTo'', ''date'')]\<rparr>"

datatype invoice_error =
    TypeErr string
  | LockedStatus string
  | InvoiceNotFound
  | InvoiceDbError
  | ReferenceErr string
  | PlainErr string

definition listInvoices :: "string \<Rightarrow> bool \<Rightarrow> jsval \<Rightarrow> table \<Rightarrow> invoice_error + table" where
  "listInvoices tenantId includeDeleted st t =
     (if tenantId = [] then Inl (TypeErr ''tenantId is required'')
      else Inr (filter (\<lambda>r. (includeDeleted \<or> is_null ''deleted_at'' r) \<and>
                             (\<not> truthy st \<or> col_eq ''status'' st r))
             (order_desc ''created_at'' (filter (col_eq ''tenant_id'' (JStr tenantId)) t))))"

text \<open>The first argument of \<open>getInvoices\<close> is a query object or a tenant id.\<close>

datatype invoices_arg = QueryArg row "string option" "string option" | TenantArg string

definition getInvoices ::
  "(jsval \<Rightarrow> jsval \<Rightarrow> bool) \<Rightarrow> (jsval \<Rightarrow> rat) \<Rightarrow> invoices_arg \<Rightarrow> jsval \<Rightarrow> table \<Rightarrow> invoice_error + table" where
  "getInvoices le rank arg1 arg2 t =
     (case arg1 of
        QueryArg filters sortBy order \<Rightarrow>
          Inr (applyQueryOptions le rank INVOICE_QUERY_CONFIG filters sortBy order t)
      | TenantArg tenantId \<Rightarrow> listInvoices tenantId False arg2 t)"

definition owned :: "jsval \<Rightarrow> string \<Rightarrow> row \<Rightarrow> bool" where
  "owned i tenantId r \<longleftrightarrow> col_eq ''invoice_id'' i r \<and> col_eq ''tenant_id'' (JStr tenantId) r"

definition getInvoiceById :: "jsval \<Rightarrow> string \<Rightarrow> table \<Rightarrow> invoice_error + row option" where
  "getInvoiceById i tenantId t =
     (if \<not> (truthy i \<and> js_typeof i = ''string'') then Inl (TypeErr ''Invalid invoice ID'')
      else Inr (List.find (\<lambda>r. owned i tenantId r \<and> is_null ''deleted_at'' r) t))"

definition defined_field :: "string \<Rightarrow> jsval \<Rightarrow> row" where
  "defined_field k v = (if v = JUndef then [] else [(k, v)])"

definition invoice_row :: "(jsval \<Rightarrow> string) \<Rightarrow> string \<Rightarrow> jsval \<Rightarrow> string \<Rightarrow> row" where
  "invoice_row stringify genId d tenantId =
     [(''invoice_id'', js_or (js_get d ''invoiceNumber'') (JStr genId)),
      (''amount'', js_get d ''amount''), (''customer'', js_get d ''customer''),
      (''status'', if js_get d ''status'' = JUndef then JStr ''pending'' else js_get d ''status''),
      (''tenant_id'', JStr tenantId)]
     @ defined_field ''currency'' (js_get d ''currency'')
     @ defined_field ''due_date'' (js_get d ''dueDate'')
     @ defined_field ''description'' (js_get d ''description'')
     @ (let m = js_get d ''metadata''
        in if m = JUndef then []
           else [(''metadata'', if truthy m then JStr (stringify m) else JNull)])"

definition createInvoice ::
  "bool \<Rightarrow> (table \<Rightarrow> row \<Rightarrow> bool) \<Rightarrow> row \<Rightarrow> (jsval \<Rightarrow> string) \<Rightarrow> string \<Rightarrow> jsval \<Rightarrow> string \<Rightarrow> table \<Rightarrow>
   (invoice_error + row option) \<times> table" where
  "createInvoice pg accepts defaults stringify genId invoiceData tenantId t =
     (if tenantId = [] then (Inl (TypeErr ''tenantId is required''), t)
      else let r = invoice_row stringify genId invoiceData tenantId @ defaults;
               t' = t @ [r]
           in if \<not> accepts t r then (Inl InvoiceDbError, t)
              else (Inr (if pg then Some r
                         else List.find (col_eq ''invoice_id'' (col ''invoice_id'' r)) t'), t'))"

definition status_detail :: "row \<Rightarrow> string \<Rightarrow> string" where
  "status_detail r what =
     ''Invoice in status '' @ [CHR 0x27] @
     (case col ''status'' r of JStr s \<Rightarrow> s | _ \<Rightarrow> []) @ [CHR 0x27] @ '' cannot be '' @ what @ ''.''"

definition updateInvoice ::
  "bool \<Rightarrow> (table \<Rightarrow> row \<Rightarrow> bool) \<Rightarrow> time \<Rightarrow> jsval \<Rightarrow> row \<Rightarrow> string \<Rightarrow> table \<Rightarrow>
   (invoice_error + row option) \<times> table" where
  "updateInvoice pg accepts now i updates tenantId t =
     (if \<not> truthy i then (Inl (TypeErr ''invoice id required''), t)
      else (case List.find (owned i tenantId) t of
          None \<Rightarrow> (Inr None, t)
        | Some existing \<Rightarrow>
            if is_locked (col ''status'' existing)
            then (Inl (LockedStatus (status_detail existing ''modified'')), t)
            else let upd = (\<lambda>r. AList.update ''updated_at'' (JInt now) (overlay updates r));
                     t' = update_where (owned i tenantId) upd t
                 in if \<not> list_all (\<lambda>r. accepts t (upd r)) (filter (owned i tenantId) t)
                    then (Inl InvoiceDbError, t)
                    else (Inr (if pg then Some (upd existing) else List.find (owned i tenantId) t'), t')))"

definition deleteInvoice ::
  "bool \<Rightarrow> time \<Rightarrow> jsval \<Rightarrow> string \<Rightarrow> table \<Rightarrow> (invoice_error + row option) \<times> table" where
  "deleteInvoice pg now i tenantId t =
     (if \<not> truthy i then (Inl (TypeErr ''invoice id required''), t)
      else (case List.find (owned i tenantId) t of
          None \<Rightarrow> (Inr None, t)
        | Some existing \<Rightarrow>
            if is_locked (col ''status'' existing)
            then (Inl (LockedStatus (status_detail existing ''deleted'')), t)
            else let upd = AList.update ''deleted_at'' (JInt now);
                     t' = update_where (owned i tenantId) upd t
                 in (Inr (if pg then Some (upd existing) else List.find (owned i tenantId) t'), t')))"

text \<open>The metadata column is absent, an object or a JSON text.\<close>

definition parseInvoiceMetadata :: "(jsval \<Rightarrow> string + jsval) \<Rightarrow> jsval \<Rightarrow> jsval" where
  "parseInvoiceMetadata parse raw =
     (if \<not> truthy raw then JObj []
      else (case raw of
          JObj kvs \<Rightarrow> JObj kvs
        | _ \<Rightarrow> (case parse raw of Inr v \<Rightarrow> v | Inl _ \<Rightarrow> JObj [])))"

definition resolveInvoiceForTenant :: "jsval \<Rightarrow> string \<Rightarrow> table \<Rightarrow> invoice_error + row option" where
  "resolveInvoiceForTenant i tenantId t =
     (if tenantId = [] then Inl (TypeErr ''tenantId is required'') else getInvoiceById i tenantId t)"

text \<open>\<open>executeTransition\<close> is neither defined in the module nor imported: the call raises a
  \<open>ReferenceError\<close> once the invoice is found.\<close>

definition transitionInvoice :: "jsval \<Rightarrow> string \<Rightarrow> string \<Rightarrow> table \<Rightarrow> (invoice_error + row) \<times> table" where
  "transitionInvoice i targetState tenantId t =
     (case resolveInvoiceForTenant i tenantId t of
        Inl e \<Rightarrow> (Inl e, t)
      | Inr None \<Rightarrow> (Inl InvoiceNotFound, t)
      | Inr (Some invoice) \<Rightarrow> (Inl (ReferenceErr ''executeTransition is not defined''), t))"

definition getInvoicesByKycStatus :: "string \<Rightarrow> jsval \<Rightarrow> table \<Rightarrow> invoice_error + table" where
  "getInvoicesByKycStatus userId kycStatus t =
     (if userId = [] then Inl (TypeErr ''User ID required'')
      else Inr (filter (\<lambda>r. col ''ownerId'' r = JStr userId \<and> \<not> truthy (col ''deletedAt'' r) \<and>
                             (\<not> truthy kycStatus \<or> col ''kycStatus'' r = kycStatus)) t))"

fun update_first :: "(row \<Rightarrow> bool) \<Rightarrow> (row \<Rightarrow> row) \<Rightarrow> table \<Rightarrow> table" where
  "update_first P f [] = []"
| "update_first P f (r # t) = (if P r then f r # t else r # update_first P f t)"

definition updateInvoiceKycStatus ::
  "string \<Rightarrow> string \<Rightarrow> string \<Rightarrow> jsval \<Rightarrow> table \<Rightarrow> (invoice_error + row) \<times> table" where
  "updateInvoiceKycStatus nowIso invoiceId newKycStatus kycRecordId t =
     (let hit = (\<lambda>r. col ''id'' r = JStr invoiceId);
          upd = (\<lambda>r. AList.update ''kycStatusUpdatedAt'' (JStr nowIso)
                   (AList.update ''kycRecordId'' kycRecordId
                     (AList.update ''kycStatus'' (JStr newKycStatus) r)))
      in case List.find hit t of
           None \<Rightarrow> (Inl (PlainErr (''Invoice '' @ invoiceId @ '' not found'')), t)
         | Some r \<Rightarrow>
             if newKycStatus \<notin> {''pending'', ''verified'', ''rejected'', ''exempted''}
             then (Inl (PlainErr (''Invalid KYC status: '' @ newKycStatus)), t)
             else (Inr (upd r), update_first hit upd t))"

section \<open>Lemmas\<close>

lemma col_eq_iff [simp]: "col_eq k (JStr s) r \<longleftrightarrow> col k r = JStr s"
  by (simp add: col_eq_def js_nullish_def)

lemma owned_tenant: "owned i tenantId r \<Longrightarrow> col ''tenant_id'' r = JStr tenantId"
  by (simp add: owned_def)

definition of_others :: "string \<Rightarrow> table \<Rightarrow> table" where
  "of_others tenantId t = filter (\<lambda>r. col ''tenant_id'' r \<noteq> JStr tenantId) t"

lemma of_others_update_where:
  assumes "\<And>r. col ''tenant_id'' (f r) = col ''tenant_id'' r"
  shows "of_others tenantId (update_where (owned i tenantId) f t) = of_others tenantId t"
  unfolding of_others_def
  by (rule filter_update_where_disjoint) (simp_all add: owned_tenant assms)

lemma updateInvoice_table:
  "snd (updateInvoice pg accepts now i updates tenantId t) = t \<or>
   (\<exists>e. List.find (owned i tenantId) t = Some e \<and> \<not> is_locked (col ''status'' e) \<and>
      snd (updateInvoice pg accepts now i updates tenantId t) =
       update_where (owned i tenantId) (\<lambda>r. AList.update ''updated_at'' (JInt now) (overlay updates r)) t)"
  by (auto simp: updateInvoice_def Let_def split: option.splits)

lemma deleteInvoice_table:
  "snd (deleteInvoice pg now i tenantId t) = t \<or>
   (\<exists>e. List.find (owned i tenantId) t = Some e \<and> \<not> is_locked (col ''status'' e) \<and>
      snd (deleteInvoice pg now i tenantId t) =
       update_where (owned i tenantId) (AList.update ''deleted_at'' (JInt now)) t)"
  by (auto simp: deleteInvoice_def Let_def split: option.splits)

lemma col_invoice_row_tenant [simp]:
  "col ''tenant_id'' (invoice_row stringify genId d tenantId @ defaults) = JStr tenantId"
  by (simp add: col_def invoice_row_def)

lemma createInvoice_others:
  "of_others tenantId (snd (createInvoice pg accepts defaults stringify genId d tenantId t)) = of_others tenantId t"
  by (auto simp: createInvoice_def Let_def of_others_def)

lemma updateInvoice_others:
  assumes "\<not> amap_has updates ''tenant_id''"
  shows "of_others tenantId (snd (updateInvoice pg accepts now i updates tenantId t)) = of_others tenantId t"
  using updateInvoice_table[of pg accepts now i updates tenantId t]
  by (auto simp: of_others_update_where col_overlay_other[OF assms])

lemma deleteInvoice_others:
  "of_others tenantId (snd (deleteInvoice pg now i tenantId t)) = of_others tenantId t"
  using deleteInvoice_table[of pg now i tenantId t] by (auto simp: of_others_update_where)

lemma updateInvoice_row:
  assumes "updateInvoice pg accepts now i updates tenantId t = (Inr (Some r), t')" "\<not> amap_has updates ''tenant_id''"
  shows "col ''tenant_id'' r = JStr tenantId"
  using assms owned_tenant
  by (auto simp: updateInvoice_def Let_def col_overlay_other dest!: find_SomeD split: option.splits if_splits)

lemma deleteInvoice_row:
  assumes "deleteInvoice pg now i tenantId t = (Inr (Some r), t')"
  shows "col ''tenant_id'' r = JStr tenantId"
  using assms owned_tenant
  by (auto simp: deleteInvoice_def Let_def dest!: find_SomeD split: option.splits if_splits)

lemma listInvoices_owned:
  assumes "listInvoices tenantId incl st t = Inr rows" "r \<in> set rows"
  shows "r \<in> set t \<and> col ''tenant_id'' r = JStr tenantId \<and> (incl \<or> is_null ''deleted_at'' r)"
  using assms by (auto simp: listInvoices_def split: if_splits)

lemma getInvoiceById_owned:
  assumes "getInvoiceById i tenantId t = Inr (Some r)"
  shows "r \<in> set t \<and> col ''invoice_id'' r = i \<and> col ''tenant_id'' r = JStr tenantId \<and>
    is_null ''deleted_at'' r"
  using assms find_SomeD[of _ t r]
  by (auto simp: getInvoiceById_def owned_def col_eq_def split: if_splits)

section \<open>Properties\<close>

text \<open>The tenant-scoped operations isolate tenants. Whatever a tenant creates, updates
  (without touching the tenant column) or deletes, the rows of all other tenants stay exactly as
  they are; reading by id and listing return only rows of the tenant, and none that is
  soft-deleted.\<close>
theorem invoice_tenant_isolation:
  assumes "\<not> amap_has updates ''tenant_id''"
  shows "of_others tenantId (snd (createInvoice pg accepts defaults stringify genId d tenantId t)) =
      of_others tenantId t \<and>
    of_others tenantId (snd (updateInvoice pg accepts now i updates tenantId t)) = of_others tenantId t \<and>
    of_others tenantId (snd (deleteInvoice pg now i tenantId t)) = of_others tenantId t \<and>
    (\<forall>r. getInvoiceById i tenantId t = Inr (Some r) \<longrightarrow>
       r \<in> set t \<and> col ''tenant_id'' r = JStr tenantId \<and> is_null ''deleted_at'' r) \<and>
    (\<forall>st rows. listInvoices tenantId False st t = Inr rows \<longrightarrow>
       (\<forall>r\<in>set rows. r \<in> set t \<and> col ''tenant_id'' r = JStr tenantId \<and> is_null ''deleted_at'' r))"
proof (intro conjI allI impI ballI createInvoice_others updateInvoice_others deleteInvoice_others assms)
qed (use getInvoiceById_owned listInvoices_owned in blast)+

definition sample_invoices :: table where
  "sample_invoices =
     [[(''invoice_id'', JStr ''inv_1''), (''tenant_id'', JStr ''a''), (''status'', JStr ''pending''), (''created_at'', JInt 1)],
      [(''invoice_id'', JStr ''inv_2''), (''tenant_id'', JStr ''b''), (''status'', JStr ''verified''), (''created_at'', JInt 2)]]"

theorem invoice_tenant_isolation_witness:
  "of_others ''a'' (snd (updateInvoice True (\<lambda>_ _. True) 9 (JStr ''inv_1'') [(''amount'', JInt 5)] ''a''
     sample_invoices)) = of_others ''a'' sample_invoices"
  using invoice_tenant_isolation[of "[(''amount'', JInt 5)]" "''a''" True "\<lambda>_ _. True" "[]"
      "\<lambda>_. []" "[]" JUndef sample_invoices 9 "JStr ''inv_1''"]
  by (simp add: amap_has_def)



text \<open>A soft-deleted invoice disappears from the tenant's reads but stays in the table. After a
  successful delete the id resolves to nothing and the list does not contain it, while the
  query-object form of \<open>getInvoices\<close> with no filters still returns every row of every tenant,
  deleted ones included.\<close>
theorem soft_delete_hides:
  assumes "deleteInvoice pg now i tenantId t = (Inr (Some r), t')" "js_typeof i = ''string''"
  shows "getInvoiceById i tenantId t' = Inr None \<and>
    (\<forall>st rows. listInvoices tenantId False st t' = Inr rows \<longrightarrow> (\<forall>r\<in>set rows. col ''invoice_id'' r \<noteq> i)) \<and>
    length t' = length t \<and>
    (\<exists>rows. getInvoices le rank (QueryArg [] None None) JUndef t' = Inr rows \<and> set rows = set t')"
proof -
  have i: "truthy i" using assms(1) by (auto simp: deleteInvoice_def split: if_splits)
  have t': "t' = update_where (owned i tenantId) (AList.update ''deleted_at'' (JInt now)) t"
    using assms(1) by (auto simp: deleteInvoice_def Let_def split: if_splits option.splits)
  have gone: "\<not> is_null ''deleted_at'' x" if "x \<in> set t'" "owned i tenantId x" for x
    using that unfolding t' update_where_def
    by (auto simp: owned_def col_eq_def is_null_def js_nullish_def split: if_splits)
  then have "List.find (\<lambda>r. owned i tenantId r \<and> is_null ''deleted_at'' r) t' = None"
    by (auto simp: find_None_iff)
  then have "getInvoiceById i tenantId t' = Inr None" using i assms(2) by (simp add: getInvoiceById_def)
  moreover have "col ''invoice_id'' x \<noteq> i" if "listInvoices tenantId False st t' = Inr rows" "x \<in> set rows" for st rows x
  proof
    assume "col ''invoice_id'' x = i"
    moreover have "x \<in> set t'" "col ''tenant_id'' x = JStr tenantId" "is_null ''deleted_at'' x"
      using listInvoices_owned[OF that] by auto
    ultimately show False
      using gone[of x] truthy_not_nullish[OF i]
      by (auto simp: owned_def col_eq_def js_nullish_def[of "JStr tenantId"])
  qed
  moreover have "length t' = length t" by (simp add: t' update_where_def)
  moreover have "\<exists>rows. getInvoices le rank (QueryArg [] None None) JUndef t' = Inr rows \<and> set rows = set t'"
    by (auto simp: getInvoices_def applyQueryOptions_def order_by_def Let_def)
  ultimately show ?thesis by blast
qed

theorem soft_delete_hides_witness:
  "getInvoiceById (JStr ''inv_1'') ''a'' (snd (deleteInvoice True 9 (JStr ''inv_1'') ''a'' sample_invoices)) = Inr None"
proof -
  have "\<exists>r. deleteInvoice True 9 (JStr ''inv_1'') ''a'' sample_invoices =
      (Inr (Some r), snd (deleteInvoice True 9 (JStr ''inv_1'') ''a'' sample_invoices))"
    by (simp add: deleteInvoice_def sample_invoices_def col_def is_locked_def LOCKED_STATUSES_def owned_def Let_def)
  then show ?thesis using soft_delete_hides[of True 9 "JStr ''inv_1''" "''a''" sample_invoices] by auto
qed

text \<open>No invoice can be moved through its life cycle. Every call of \<open>transitionInvoice\<close> fails,
  with a \<open>ReferenceError\<close> whenever the invoice exists, and leaves the table unchanged.\<close>
theorem transition_never_succeeds:
  shows "(\<exists>e. transitionInvoice i target tenantId t = (Inl e, t)) \<and>
    (\<forall>r. resolveInvoiceForTenant i tenantId t = Inr (Some r) \<longrightarrow>
       transitionInvoice i target tenantId t = (Inl (ReferenceErr ''executeTransition is not defined''), t))"
  by (auto simp: transitionInvoice_def split: sum.splits option.splits)

theorem transition_never_succeeds_witness:
  "transitionInvoice (JStr ''inv_1'') ''approved'' ''a'' sample_invoices =
     (Inl (ReferenceErr ''executeTransition is not defined''), sample_invoices)"
proof -
  have "\<exists>r. resolveInvoiceForTenant (JStr ''inv_1'') ''a'' sample_invoices = Inr (Some r)"
    by (simp add: resolveInvoiceForTenant_def getInvoiceById_def sample_invoices_def col_def owned_def
        is_null_def js_nullish_def)
  then show ?thesis using transition_never_succeeds[of "JStr ''inv_1''" "''approved''" "''a''" sample_invoices] by blast
qed

text \<open>An invoice is verified automatically exactly when its amount is positive and below one
  million and its customer is a non-blank string without the suspicious characters; an amount above
  ten million is never accepted, and between the two bounds an invoice goes to manual review whatever
  characters its customer has.\<close>
theorem verifyInvoice_exact:
  shows "(verifyInvoice p = VERIFIED \<longleftrightarrow>
      (\<exists>kvs q c. p = JObj kvs \<and> js_get p ''amount'' = JNum (NFin q) \<and> 0 < q \<and> q < 1000000 \<and>
         js_get p ''customer'' = JStr c \<and> trim c \<noteq> [] \<and> \<not> suspicious c)) \<and>
    ((\<exists>m. verifyInvoice p = MANUAL_REVIEW m) \<longleftrightarrow>
      (\<exists>kvs q c. p = JObj kvs \<and> js_get p ''amount'' = JNum (NFin q) \<and> 1000000 \<le> q \<and> q \<le> 10000000 \<and>
         js_get p ''customer'' = JStr c \<and> trim c \<noteq> []))"
proof (cases p)
  case (JObj kvs)
  note p = this
  show ?thesis
  proof (cases "\<exists>n. js_get p ''amount'' = JNum n")
    case False
    then show ?thesis
      using p by (cases "js_get p ''amount''") (auto simp: verifyInvoice_def)
  next
    case True
    then obtain n where n: "js_get p ''amount'' = JNum n" ..
    show ?thesis
    proof (cases "\<exists>c. js_get p ''customer'' = JStr c")
      case True
      then obtain c where "js_get p ''customer'' = JStr c" ..
      then show ?thesis using p n by (cases n) (auto simp: verifyInvoice_def not_le not_less)
    next
      case False
      then show ?thesis
        using p n by (cases "js_get p ''customer''") (auto simp: verifyInvoice_def)
    qed
  qed
qed (auto simp: verifyInvoice_def)

text \<open>The PATCH guard passes on only the mutable fields, and at least one.\<close>

lemma patch_only_mutable:
  "validatePatchFields body = PatchNext s \<Longrightarrow> s \<noteq> [] \<and> fst ` set s \<subseteq> {''amount'', ''customer'', ''notes''}"
  by (auto simp: validatePatchFields_def extractAllowedFields_def MUTABLE_FIELDS_def Let_def
      split: jsval.splits if_splits)

text \<open>A partially funded invoice is not locked: its amount can still be changed.\<close>

lemma partially_funded_not_locked: "\<not> is_locked (JStr ''partially_funded'')"
  by (simp add: is_locked_def LOCKED_STATUSES_def)

text \<open>Statuses that investors see are neither terminal nor capital moving.\<close>

lemma investable_statuses_open:
  "set INVESTABLE_STATUSES \<inter> set TERMINAL_STATES = {}"
  "set INVESTABLE_STATUSES \<inter> set CAPITAL_MOVING_STATES = {}"
  "set INVESTABLE_STATUSES \<subseteq> set ALL_INVOICE_STATUSES"
  by (simp_all add: INVESTABLE_STATUSES_def TERMINAL_STATES_def CAPITAL_MOVING_STATES_def
      ALL_INVOICE_STATUSES_def js_set_def FUNDING_PROGRESS_STATUSES_def)

end
