(* ===== verification/AuditLog.thy ===== *)
theory AuditLog
  imports AuditStore Auth Invoices
begin

text \<open>
  The audit log service (\<open>src/src/services/auditLog.js\<close>), the two middlewares that feed it
  (\<open>src/src/middleware/audit.js\<close>, mounted on the whole application, and \<open>src/src/middleware/auditLog.js\<close>) and
  the route that reads it (\<open>src/src/routes/auditTrail.js\<close>).

  \<open>parse\<close> is \<open>JSON.parse\<close>. Objects passed to the functions are values with the members the callers set.
\<close>

section \<open>Changes\<close>

definition js_index :: "jsval \<Rightarrow> string \<Rightarrow> jsval" where
  "js_index v k =
     (case map_of (obj_entries v) k of
        Some w \<Rightarrow> w
      | None \<Rightarrow>
          if k = ''length'' then (case v of JArr vs \<Rightarrow> JInt (int (length vs)) | JStr s \<Rightarrow> JInt (int (length s)) | _ \<Rightarrow> JUndef)
          else JUndef)"

text \<open>\<open>JSON.stringify(v) === JSON.stringify(w)\<close>.\<close>

definition json_same :: "jsval \<Rightarrow> jsval \<Rightarrow> bool" where
  "json_same v w \<longleftrightarrow> (if v = JUndef \<or> w = JUndef then v = w else json_clone v = json_clone w)"

definition changed_keys :: "jsval \<Rightarrow> jsval \<Rightarrow> string list" where
  "changed_keys b a =
     filter (\<lambda>k. k \<noteq> ''__proto__'' \<and> \<not> json_same (js_index b k) (js_index a k))
       (js_set (map fst (obj_entries b) @ map fst (obj_entries a)))"

text \<open>The pair of \<open>before\<close> and \<open>after\<close>.\<close>

definition calculateChanges :: "jsval \<Rightarrow> jsval \<Rightarrow> jsval \<times> jsval" where
  "calculateChanges b a =
     (if \<not> truthy b \<or> \<not> truthy a then (redactValue b, redactValue a)
      else let ks = changed_keys b a
           in (redactValue (JObj (map (\<lambda>k. (k, js_index b k)) ks)), redactValue (JObj (map (\<lambda>k. (k, js_index a k)) ks))))"

section \<open>The service\<close>

definition VALID_ACTIONS :: "string list" where
  "VALID_ACTIONS = [''CREATE'', ''UPDATE'', ''DELETE'', ''READ'', ''STATE_TRANSITION'']"

record audit_args =
  aa_actor :: jsval
  aa_action :: jsval
  aa_resourceType :: jsval
  aa_resourceId :: jsval
  aa_before :: jsval
  aa_after :: jsval
  aa_statusCode :: jsval
  aa_ipAddress :: jsval
  aa_userAgent :: jsval
  aa_metadata :: jsval

datatype audit_error = Required string | InvalidAction | AuditDatabase | BadMetadata

text \<open>\<open>{...v}\<close>, and the members \<open>kvs\<close> put after it.\<close>

definition spread :: "jsval \<Rightarrow> (string \<times> jsval) list \<Rightarrow> jsval" where
  "spread v kvs = JObj (foldl (\<lambda>r (k, x). AList.update k x r) (obj_entries v) kvs)"

definition default_arg :: "jsval \<Rightarrow> jsval \<Rightarrow> jsval" where
  "default_arg v d = (if v = JUndef then d else v)"

definition invoice_event :: "audit_args \<Rightarrow> audit_event" where
  "invoice_event a =
     (case calculateChanges (default_arg (aa_before a) JNull) (default_arg (aa_after a) JNull) of
        (bef, aft) \<Rightarrow>
          \<lparr>ae_eventType = JStr ''admin_action'', ae_action = aa_action a, ae_actorType = JStr ''user'', ae_actorId = aa_actor a,
           ae_targetType = aa_resourceType a, ae_targetId = aa_resourceId a, ae_requestId = JUndef, ae_route = JUndef, ae_method = JUndef,
           ae_statusCode = default_arg (aa_statusCode a) (JInt 200), ae_ipAddress = default_arg (aa_ipAddress a) (JStr ''unknown''),
           ae_userAgent = default_arg (aa_userAgent a) (JStr ''unknown''),
           ae_metadata = spread (default_arg (aa_metadata a) (JObj [])) [(''before'', bef), (''after'', aft)]\<rparr>)"

text \<open>The entry that is returned repeats the arguments and is not used by the callers.\<close>

definition createAuditLog :: "audit_db \<Rightarrow> audit_args \<Rightarrow> table \<Rightarrow> (audit_error + unit) \<times> table" where
  "createAuditLog d a t =
     (if \<not> truthy (aa_actor a) then (Inl (Required ''actor''), t)
      else if \<not> truthy (aa_action a) then (Inl (Required ''action''), t)
      else if \<not> truthy (aa_resourceType a) then (Inl (Required ''resourceType''), t)
      else if \<not> truthy (aa_resourceId a) then (Inl (Required ''resourceId''), t)
      else if aa_action a \<notin> JStr ` set VALID_ACTIONS then (Inl InvalidAction, t)
      else (case appendAuditEvent d (invoice_event a) t of
          (Inl _, t') \<Rightarrow> (Inl AuditDatabase, t')
        | (Inr _, t') \<Rightarrow> (Inr (), t')))"

definition row_metadata :: "(string \<Rightarrow> jsval option) \<Rightarrow> row \<Rightarrow> jsval option" where
  "row_metadata parse r = (case col ''metadata'' r of JStr s \<Rightarrow> parse s | v \<Rightarrow> Some v)"

definition mapDbRowToAuditLog :: "(string \<Rightarrow> jsval option) \<Rightarrow> row \<Rightarrow> jsval option" where
  "mapDbRowToAuditLog parse r =
     map_option (\<lambda>m.
       JObj [(''id'', col ''id'' r), (''timestamp'', col ''created_at'' r), (''actor'', col ''actor_id'' r), (''action'', col ''action'' r),
         (''resourceType'', col ''target_type'' r), (''resourceId'', col ''target_id'' r),
         (''changes'', JObj [(''before'', js_or (js_get m ''before'') JNull), (''after'', js_or (js_get m ''after'') JNull)]),
         (''statusCode'', col ''status_code'' r), (''ipAddress'', col ''ip_address'' r), (''userAgent'', col ''user_agent'' r),
         (''metadata'', spread m [])]) (row_metadata parse r)"

definition MAX_PAGE_SIZE :: int where "MAX_PAGE_SIZE = 100"

text \<open>The number of rows the query is limited to; the query builder cuts off a fraction.\<close>

definition capped_limit :: "jsval \<Rightarrow> nat" where
  "capped_limit v =
     nat (case to_number (default_arg v (JInt 100)) of
       NFin q \<Rightarrow> if 0 < q then \<lfloor>min q (of_int MAX_PAGE_SIZE)\<rfloor> else MAX_PAGE_SIZE
     | _ \<Rightarrow> MAX_PAGE_SIZE)"

definition safe_offset :: "jsval \<Rightarrow> nat" where
  "safe_offset v =
     (case v of JNum (NFin q) \<Rightarrow> if is_integer_rat q \<and> 0 \<le> q then nat \<lfloor>q\<rfloor> else 0 | _ \<Rightarrow> 0)"

definition opt_where :: "string \<Rightarrow> jsval \<Rightarrow> row \<Rightarrow> bool" where
  "opt_where k v r \<longleftrightarrow> \<not> truthy v \<or> col_eq k v r"

fun map_all :: "('a \<Rightarrow> 'b option) \<Rightarrow> 'a list \<Rightarrow> 'b list option" where
  "map_all f [] = Some []"
| "map_all f (x # xs) = (case f x of None \<Rightarrow> None | Some y \<Rightarrow> map_option ((#) y) (map_all f xs))"

definition audit_query :: "jsval \<Rightarrow> table \<Rightarrow> row list" where
  "audit_query options t =
     take (capped_limit (js_get options ''limit'')) (drop (safe_offset (js_get options ''offset''))
       (order_desc ''created_at'' (filter (\<lambda>r. opt_where ''target_id'' (js_get options ''resourceId'') r \<and>
          opt_where ''target_type'' (js_get options ''resourceType'') r \<and> opt_where ''actor_id'' (js_get options ''actor'') r \<and>
          opt_where ''action'' (js_get options ''action'') r) t)))"

definition getAuditLogs :: "(string \<Rightarrow> jsval option) \<Rightarrow> jsval \<Rightarrow> table \<Rightarrow> audit_error + jsval list" where
  "getAuditLogs parse options t =
     (case map_all (mapDbRowToAuditLog parse) (audit_query options t) of
        None \<Rightarrow> Inl BadMetadata
      | Some logs \<Rightarrow>
          let tenantId = js_get options ''tenantId'' in
          Inr (if truthy tenantId then filter (\<lambda>l. js_get (js_get l ''metadata'') ''tenantId'' = tenantId) logs else logs))"

definition getInvoiceAuditTrail ::
  "(string \<Rightarrow> jsval option) \<Rightarrow> jsval \<Rightarrow> jsval \<Rightarrow> jsval \<Rightarrow> jsval \<Rightarrow> table \<Rightarrow> audit_error + jsval list" where
  "getInvoiceAuditTrail parse invoiceId limit_v offset_v tenantId t =
     getAuditLogs parse (JObj [(''resourceId'', invoiceId), (''resourceType'', JStr ''invoice''), (''limit'', default_arg limit_v (JInt 100)),
       (''offset'', default_arg offset_v (JInt 0)), (''tenantId'', default_arg tenantId JNull)]) t"

definition countAuditLogs :: "(string \<Rightarrow> jsval option) \<Rightarrow> jsval \<Rightarrow> table \<Rightarrow> audit_error + nat" where
  "countAuditLogs parse options t =
     (case getAuditLogs parse (spread options [(''limit'', JNum NPosInf), (''offset'', JInt 0)]) t of
        Inl e \<Rightarrow> Inl e | Inr logs \<Rightarrow> Inr (length logs))"

definition clearAuditLogs :: "string \<Rightarrow> table \<Rightarrow> table option" where
  "clearAuditLogs nodeEnv t = (if nodeEnv = ''production'' then None else Some [])"

text \<open>The export of the service; \<open>text\<close> is the conversion in \<open>join\<close>.\<close>

definition escapeCsv :: "jsval \<Rightarrow> jsval" where
  "escapeCsv v =
     (case v of
        JStr s \<Rightarrow> if CHR '','' \<in> set s \<or> CHR 34 \<in> set s then JStr ([CHR 34] @ double_quotes s @ [CHR 34]) else v
      | _ \<Rightarrow> v)"

definition join_text :: "(jsval \<Rightarrow> string) \<Rightarrow> jsval \<Rightarrow> string" where
  "join_text str v = (if js_nullish v then [] else str v)"

definition export_line :: "(jsval \<Rightarrow> string) \<Rightarrow> jsval \<Rightarrow> string" where
  "export_line str l =
     join_fields (map (join_text str) [js_get l ''id'', js_get l ''timestamp'', escapeCsv (js_get l ''actor''), js_get l ''action'',
       js_get l ''resourceType'', js_get l ''resourceId'', js_get l ''statusCode'', escapeCsv (js_get l ''ipAddress''),
       escapeCsv (js_get l ''userAgent'')])"

definition join_lines :: "string list \<Rightarrow> string" where
  "join_lines xs = (case xs of [] \<Rightarrow> [] | y # ys \<Rightarrow> y @ concat (map (\<lambda>z. CHR 10 # z) ys))"

definition exportAuditLogs ::
  "(string \<Rightarrow> jsval option) \<Rightarrow> (jsval \<Rightarrow> string) \<Rightarrow> (jsval \<Rightarrow> string) \<Rightarrow> jsval \<Rightarrow> jsval \<Rightarrow> table \<Rightarrow> audit_error + string" where
  "exportAuditLogs parse stringify str limit_v format t =
     (case getAuditLogs parse (JObj [(''limit'', default_arg limit_v (JNum NPosInf))]) t of
        Inl e \<Rightarrow> Inl e
      | Inr logs \<Rightarrow>
          Inr (if format = JStr ''csv''
               then join_fields CSV_HEADERS @ [CHR 10] @ join_lines (map (export_line str) logs)
               else stringify (JArr logs)))"

definition exportInvoiceAuditLogs ::
  "(string \<Rightarrow> jsval option) \<Rightarrow> (jsval \<Rightarrow> string) \<Rightarrow> jsval \<Rightarrow> jsval \<Rightarrow> jsval \<Rightarrow> table \<Rightarrow> audit_error + string" where
  "exportInvoiceAuditLogs parse stringify invoiceId limit_v tenantId t =
     (case getInvoiceAuditTrail parse invoiceId limit_v (JInt 0) tenantId t of
        Inl e \<Rightarrow> Inl e | Inr logs \<Rightarrow> Inr (stringify (JArr logs)))"

section \<open>The middleware of the application\<close>

text \<open>What the audit middlewares read of a request, beside the user.\<close>

record audit_request =
  aq_request :: request
  aq_path :: string
  aq_originalUrl :: string
  aq_method :: string
  aq_id :: jsval
  aq_ip :: string
  aq_remoteAddress :: string
  aq_body :: jsval

definition getActorFromRequest :: "audit_request \<Rightarrow> jsval" where
  "getActorFromRequest q =
     (let user = rq_user (aq_request q) in
      if truthy user \<and> truthy (js_get user ''id'') then js_get user ''id''
      else if truthy user \<and> truthy (js_get user ''sub'') then js_get user ''sub''
      else JStr (if aq_ip q \<noteq> [] then aq_ip q else if aq_remoteAddress q \<noteq> [] then aq_remoteAddress q else ''unknown''))"

text \<open>The pattern \<open>^\/api\/([a-z]+)(?:\/([a-zA-Z0-9-]+))?\<close>.\<close>

definition id_char :: "char \<Rightarrow> bool" where
  "id_char c \<longleftrightarrow> is_alnum c \<or> c = CHR ''-''"

definition extractResourceInfo :: "string \<Rightarrow> string \<times> string" where
  "extractResourceInfo path =
     (let r = drop 5 path; resourceType = takeWhile is_lower r; tail = dropWhile is_lower r in
      if \<not> starts_with path ''/api/'' \<or> resourceType = [] then (''unknown'', ''unknown'')
      else (resourceType,
        case tail of c # s \<Rightarrow> if c = CHR ''/'' \<and> takeWhile id_char s \<noteq> [] then takeWhile id_char s else ''new'' | [] \<Rightarrow> ''new''))"

definition upper_char :: "char \<Rightarrow> char" where
  "upper_char c = (if is_lower c then char_of (code_of c - 32) else c)"

definition mapMethodToAction :: "string \<Rightarrow> string" where
  "mapMethodToAction method =
     (let m = map upper_char method in
      if m = ''POST'' then ''CREATE''
      else if m = ''PUT'' \<or> m = ''PATCH'' then ''UPDATE''
      else if m = ''DELETE'' then ''DELETE'' else ''READ'')"

definition isMutationMethod :: "string \<Rightarrow> bool" where
  "isMutationMethod method \<longleftrightarrow> map upper_char method \<in> {''POST'', ''PUT'', ''PATCH'', ''DELETE''}"

text \<open>The calls of the wrapped response methods, in the order they happen. The state is the stored status
  code and the status code of the response.\<close>

datatype res_call = CallStatus int | CallJson jsval | CallSend jsval

definition capture_args :: "audit_request \<Rightarrow> int \<Rightarrow> jsval \<Rightarrow> audit_args" where
  "capture_args q code afterState =
     \<lparr>aa_actor = getActorFromRequest q, aa_action = JStr (mapMethodToAction (aq_method q)),
      aa_resourceType = JStr (fst (extractResourceInfo (aq_path q))), aa_resourceId = JStr (snd (extractResourceInfo (aq_path q))),
      aa_before = (if truthy (aq_body q) then spread (aq_body q) [] else JNull),
      aa_after = (if truthy afterState \<and> truthy (js_get afterState ''data'') then js_get afterState ''data'' else afterState),
      aa_statusCode = JInt code,
      aa_ipAddress = JStr (if aq_ip q \<noteq> [] then aq_ip q else if aq_remoteAddress q \<noteq> [] then aq_remoteAddress q else ''unknown''),
      aa_userAgent = js_or (col ''user-agent'' (rq_headers (aq_request q))) (JStr ''unknown''),
      aa_metadata = JObj [(''method'', JStr (aq_method q)), (''path'', JStr (aq_path q))]\<rparr>"

definition captureResponse :: "(string \<Rightarrow> jsval option) \<Rightarrow> audit_request \<Rightarrow> int \<times> int \<Rightarrow> jsval \<Rightarrow> audit_args list" where
  "captureResponse parse q s body =
     (let code = (if fst s \<noteq> 0 then fst s else snd s) in
      if 200 \<le> code \<and> code < 300 \<and> truthy body
      then (case body of
          JStr txt \<Rightarrow> (case parse txt of None \<Rightarrow> [] | Some v \<Rightarrow> [capture_args q code v])
        | _ \<Rightarrow> [capture_args q code body])
      else [])"

definition audit_call :: "(string \<Rightarrow> jsval option) \<Rightarrow> audit_request \<Rightarrow> res_call \<Rightarrow> (int \<times> int) \<times> audit_args list \<Rightarrow> (int \<times> int) \<times> audit_args list" where
  "audit_call parse q c st =
     (case st of (s, logged) \<Rightarrow>
        (case c of
           CallStatus code \<Rightarrow> ((code, code), logged)
         | CallJson body \<Rightarrow> (s, logged @ captureResponse parse q s body)
         | CallSend body \<Rightarrow>
             (s, logged @
                (if truthy body \<or> 200 \<le> snd s \<and> snd s < 300
                 then (case body of
                     JStr txt \<Rightarrow>
                       if txt = [] then []
                       else (case parse txt of None \<Rightarrow> [] | Some v \<Rightarrow> captureResponse parse q s v)
                   | JNull \<Rightarrow> []
                   | _ \<Rightarrow> if js_typeof body = ''object'' then captureResponse parse q s body else [])
                 else []))))"

definition auditMiddleware :: "(string \<Rightarrow> jsval option) \<Rightarrow> audit_request \<Rightarrow> res_call list \<Rightarrow> audit_args list" where
  "auditMiddleware parse q res_calls =
     (if \<not> starts_with (aq_path q) ''/api/'' \<or> \<not> isMutationMethod (aq_method q) then []
      else snd (fold (audit_call parse q) res_calls ((200, 200), [])))"

text \<open>The entries are written one after the other; a failing one is logged and forgotten.\<close>

definition write_entries :: "audit_db \<Rightarrow> audit_args list \<Rightarrow> table \<Rightarrow> table" where
  "write_entries d as t = fold (\<lambda>a u. snd (createAuditLog d a u)) as t"

section \<open>Audit contexts\<close>

definition actor_of :: "(jsval \<Rightarrow> string) \<Rightarrow> audit_request \<Rightarrow> jsval \<times> jsval" where
  "actor_of str q =
     (let user = rq_user (aq_request q); client = rq_apiClient (aq_request q) in
      if truthy user \<and> js_typeof user = ''object'' \<and> truthy (js_get user ''id'') then (JStr ''user'', JStr (str (js_get user ''id'')))
      else if truthy user \<and> js_typeof user = ''object'' \<and> truthy (js_get user ''sub'') then (JStr ''user'', JStr (str (js_get user ''sub'')))
      else if truthy client \<and> truthy (js_get client ''clientId'') then (JStr ''api_client'', JStr (str (js_get client ''clientId'')))
      else (JStr ''system'', JStr (if aq_ip q \<noteq> [] then aq_ip q else ''unknown'')))"

definition isAdminAction :: "audit_request \<Rightarrow> bool" where
  "isAdminAction q = starts_with (aq_path q) ''/api/admin/''"

definition buildBaseEvent :: "(jsval \<Rightarrow> string) \<Rightarrow> audit_request \<Rightarrow> audit_event" where
  "buildBaseEvent str q =
     \<lparr>ae_eventType = JUndef, ae_action = JUndef, ae_actorType = fst (actor_of str q), ae_actorId = snd (actor_of str q),
      ae_targetType = JUndef, ae_targetId = JUndef,
      ae_requestId = js_or (aq_id q) (col ''x-correlation-id'' (rq_headers (aq_request q))),
      ae_route = JStr (if aq_originalUrl q \<noteq> [] then aq_originalUrl q else aq_path q), ae_method = JStr (aq_method q),
      ae_statusCode = JUndef, ae_ipAddress = JStr (aq_ip q),
      ae_userAgent = js_or (col ''user-agent'' (rq_headers (aq_request q))) JNull, ae_metadata = JUndef\<rparr>"

definition logAdminAction :: "(jsval \<Rightarrow> string) \<Rightarrow> audit_db \<Rightarrow> audit_request \<Rightarrow> jsval \<Rightarrow> jsval \<Rightarrow> table \<Rightarrow> (string + unit) \<times> table" where
  "logAdminAction str d q action options t =
     appendAuditEvent d ((buildBaseEvent str q)\<lparr>ae_eventType := JStr ''admin_action'', ae_action := action,
       ae_targetType := js_or (js_get options ''targetType'') JNull, ae_targetId := js_or (js_get options ''targetId'') JNull,
       ae_statusCode := js_get options ''statusCode'',
       ae_metadata := spread (JObj [(''before'', redactValue (js_or (js_get options ''before'') JNull)),
         (''after'', redactValue (js_or (js_get options ''after'') JNull))]) (obj_entries (js_get options ''metadata''))\<rparr>) t"

definition logWebhookDelivery :: "(jsval \<Rightarrow> string) \<Rightarrow> audit_db \<Rightarrow> audit_request \<Rightarrow> jsval \<Rightarrow> table \<Rightarrow> (string + unit) \<times> table" where
  "logWebhookDelivery str d q options t =
     appendAuditEvent d ((buildBaseEvent str q)\<lparr>ae_eventType := JStr ''webhook_delivery'',
       ae_action := js_or (js_get options ''action'') (JStr ''webhook.dispatch''), ae_targetType := JStr ''webhook_endpoint'',
       ae_targetId := js_or (js_or (js_get options ''endpointId'') (js_get options ''endpoint'')) JNull,
       ae_statusCode := js_get options ''statusCode'',
       ae_metadata := redactValue (spread (JObj (map (\<lambda>k. (k, js_get options k)) [''endpoint'', ''deliveryId'', ''outcome'', ''requestPayload'',
         ''responseBody'', ''errorCode'', ''errorMessage''])) (obj_entries (js_get options ''metadata'')))\<rparr>) t"

definition logRetentionMutation :: "(jsval \<Rightarrow> string) \<Rightarrow> audit_db \<Rightarrow> audit_request \<Rightarrow> jsval \<Rightarrow> jsval \<Rightarrow> table \<Rightarrow> (string + unit) \<times> table" where
  "logRetentionMutation str d q action options t =
     appendAuditEvent d ((buildBaseEvent str q)\<lparr>ae_eventType := JStr ''retention_mutation'', ae_action := action,
       ae_targetType := js_or (js_get options ''targetType'') JNull, ae_targetId := js_or (js_get options ''targetId'') JNull,
       ae_statusCode := js_get options ''statusCode'',
       ae_metadata := spread (JObj [(''tenantId'', js_or (js_or (js_get (js_get options ''metadata'') ''tenantId'') (rq_tenantId (aq_request q))) JNull),
         (''before'', redactValue (js_or (js_get options ''before'') JNull)),
         (''after'', redactValue (js_or (js_get options ''after'') JNull))]) (obj_entries (js_get options ''metadata''))\<rparr>) t"

definition emitRetentionAuditSafely :: "(jsval \<Rightarrow> string) \<Rightarrow> audit_db \<Rightarrow> audit_request \<Rightarrow> jsval \<Rightarrow> jsval \<Rightarrow> table \<Rightarrow> table" where
  "emitRetentionAuditSafely str d q action options t = snd (logRetentionMutation str d q action options t)"

text \<open>The middleware of the admin actions, with the status the response ends with.\<close>

definition auditLogMiddleware :: "(jsval \<Rightarrow> string) \<Rightarrow> audit_db \<Rightarrow> audit_request \<Rightarrow> int \<Rightarrow> table \<Rightarrow> table" where
  "auditLogMiddleware str d q statusCode t =
     (let hdr = (\<lambda>k. col k (rq_headers (aq_request q))) in
      if \<not> isMutationMethod (aq_method q) \<or> \<not> isAdminAction q then t
      else if statusCode < 200 \<or> 300 \<le> statusCode then t
      else snd (logAdminAction str d q (js_or (hdr ''x-admin-action'') (JStr (to_lower (aq_method q) @ ''.admin'')))
        (JObj [(''targetType'', js_or (hdr ''x-audit-target-type'') (JStr ''admin_resource'')),
           (''targetId'', js_or (js_or (hdr ''x-audit-target-id'') (col ''id'' (rq_params (aq_request q)))) JNull),
           (''statusCode'', JInt statusCode),
           (''before'', if truthy (aq_body q) then redactValue (aq_body q) else JNull),
           (''metadata'', JObj [(''source'', JStr ''http''), (''autoLogged'', JBool True)])]) t))"

section \<open>The route\<close>

definition entitled :: "request \<Rightarrow> jsval \<Rightarrow> table \<Rightarrow> bool" where
  "entitled req invoiceId invoices \<longleftrightarrow>
     str_of (js_get (rq_user req) ''role'') \<in> {''admin'', ''owner''} \<and>
     (case getInvoiceById invoiceId (str_of (rq_tenantId req)) invoices of Inr (Some _) \<Rightarrow> True | _ \<Rightarrow> False)"

text \<open>The events are not awaited: the response carries the serialised promise, an object without
  members, and no count.\<close>

datatype trail_result = TrailStopped handled | TrailNotFound | TrailJson jsval

definition getAuditTrail :: "(request \<Rightarrow> handled) \<Rightarrow> (request \<Rightarrow> handled) \<Rightarrow> jsval \<Rightarrow> table \<Rightarrow> request \<Rightarrow> trail_result" where
  "getAuditTrail authenticate tenant invoiceId invoices req =
     (case and_then authenticate tenant req of
        Next r \<Rightarrow> if entitled r invoiceId invoices then TrailJson (JObj [(''data'', JObj []), (''invoiceId'', invoiceId)]) else TrailNotFound
      | h \<Rightarrow> TrailStopped h)"

section \<open>Pages of the log\<close>

lemma map_all_set: "map_all f xs = Some ys \<Longrightarrow> length ys = length xs \<and> (\<forall>y \<in> set ys. \<exists>x \<in> set xs. f x = Some y)"
  by (induction xs arbitrary: ys) (auto split: option.splits, blast+)

lemma map_all_empty: "map_all f xs = Some [] \<longleftrightarrow> xs = []"
  by (cases xs) (auto split: option.splits)

lemma capped_limit_le: "capped_limit v \<le> 100"
proof -
  have "\<lfloor>min q (100 :: rat)\<rfloor> \<le> 100" for q by linarith
  then show ?thesis by (auto simp: capped_limit_def MAX_PAGE_SIZE_def nat_le_iff split: jsnum.splits)
qed

lemma audit_query_sound:
  assumes "r \<in> set (audit_query options t)"
  shows "r \<in> set t \<and> opt_where ''target_id'' (js_get options ''resourceId'') r \<and> opt_where ''target_type'' (js_get options ''resourceType'') r \<and>
    opt_where ''actor_id'' (js_get options ''actor'') r \<and> opt_where ''action'' (js_get options ''action'') r"
  using in_set_dropD[OF in_set_takeD[OF assms[unfolded audit_query_def]]] by simp

lemma length_audit_query: "length (audit_query options t) \<le> 100"
  using capped_limit_le[of "js_get options ''limit''"] by (simp add: audit_query_def)

lemma audit_logs_from:
  assumes "getAuditLogs parse options t = Inr logs"
  shows "length logs \<le> 100" "l \<in> set logs \<Longrightarrow> \<exists>r \<in> set (audit_query options t). mapDbRowToAuditLog parse r = Some l"
    "l \<in> set logs \<Longrightarrow> truthy (js_get options ''tenantId'') \<Longrightarrow> js_get (js_get l ''metadata'') ''tenantId'' = js_get options ''tenantId''"
proof -
  obtain all where a: "map_all (mapDbRowToAuditLog parse) (audit_query options t) = Some all"
    and l: "logs = (if truthy (js_get options ''tenantId'')
      then filter (\<lambda>l. js_get (js_get l ''metadata'') ''tenantId'' = js_get options ''tenantId'') all else all)"
    using assms by (auto simp: getAuditLogs_def Let_def split: option.splits)
  have "length logs \<le> length all" by (simp add: l)
  also have "\<dots> \<le> 100" using map_all_set[OF a] length_audit_query[of options t] by simp
  finally show "length logs \<le> 100" .
  show "l \<in> set logs \<Longrightarrow> \<exists>r \<in> set (audit_query options t). mapDbRowToAuditLog parse r = Some l"
    using map_all_set[OF a] unfolding l by (cases "truthy (js_get options ''tenantId'')") auto
  show "l \<in> set logs \<Longrightarrow> truthy (js_get options ''tenantId'') \<Longrightarrow> js_get (js_get l ''metadata'') ''tenantId'' = js_get options ''tenantId''"
    unfolding l by simp
qed

text \<open>A read of the log returns at most a hundred entries whatever limit is asked for; each is the
  image of a stored row that meets every filter, and with a tenant each carries that tenant.\<close>

theorem audit_page_sound:
  assumes "getAuditLogs parse options t = Inr logs"
  shows "length logs \<le> 100 \<and>
    (\<forall>l \<in> set logs. \<exists>r \<in> set t. mapDbRowToAuditLog parse r = Some l \<and>
       opt_where ''target_id'' (js_get options ''resourceId'') r \<and> opt_where ''target_type'' (js_get options ''resourceType'') r \<and>
       opt_where ''actor_id'' (js_get options ''actor'') r \<and> opt_where ''action'' (js_get options ''action'') r \<and>
       (truthy (js_get options ''tenantId'') \<longrightarrow> js_get (js_get l ''metadata'') ''tenantId'' = js_get options ''tenantId''))"
  using audit_logs_from[OF assms] audit_query_sound[of _ options t] by blast

definition sample_log :: table where
  "sample_log =
     [[(''id'', JInt 1), (''created_at'', JInt 5), (''target_type'', JStr ''invoice''), (''target_id'', JStr ''i''), (''metadata'', JObj [(''tenantId'', JStr ''a'')])],
      [(''id'', JInt 2), (''created_at'', JInt 7), (''target_type'', JStr ''invoice''), (''target_id'', JStr ''i''), (''metadata'', JObj [(''tenantId'', JStr ''b'')])]]"

theorem audit_page_sound_witness:
  "\<exists>logs. getAuditLogs (\<lambda>_. None) (JObj [(''tenantId'', JStr ''a'')]) sample_log = Inr logs \<and> length logs \<le> 100"
proof -
  have "\<not> isl (getAuditLogs (\<lambda>_. None) (JObj [(''tenantId'', JStr ''a'')]) sample_log)" by code_simp
  then obtain logs where "getAuditLogs (\<lambda>_. None) (JObj [(''tenantId'', JStr ''a'')]) sample_log = Inr logs"
    by (cases "getAuditLogs (\<lambda>_. None) (JObj [(''tenantId'', JStr ''a'')]) sample_log") auto
  with audit_page_sound[OF this] show ?thesis by blast
qed

text \<open>The tenant is filtered after the page is cut, so a page can be empty although the tenant has
  entries, and the count of all entries never exceeds a hundred.\<close>

lemma foreign_rows_fill_page:
  "getAuditLogs (\<lambda>_. None) (JObj [(''tenantId'', JStr ''a''), (''limit'', JInt 1)]) sample_log = Inr []"
  by code_simp

lemma count_capped: "countAuditLogs parse options t = Inr n \<Longrightarrow> n \<le> 100"
  using audit_logs_from(1) by (auto simp: countAuditLogs_def split: sum.splits)

section \<open>What the middleware records\<close>

lemma capture_object:
  assumes "truthy body" "js_typeof body = ''object''" "200 \<le> code" "code < 300"
  shows "captureResponse parse q (code, code) body = [capture_args q code body]"
  using assms by (cases body) (simp_all add: captureResponse_def)

lemma capture_failure: "code < 200 \<or> 300 \<le> code \<Longrightarrow> code \<noteq> 0 \<Longrightarrow> captureResponse parse q (code, code) body = []"
  by (auto simp: captureResponse_def)

text \<open>The framework answers \<open>res.status(c).json(body)\<close> by calling \<open>res.send\<close> with the text of the body.
  Both methods are wrapped, so a successful mutation is recorded twice, with the same actor, action and
  resource; a response outside 2xx, another method or a path outside the API is not recorded, nor is a
  success without a body.\<close>

theorem mutations_recorded_twice:
  assumes "truthy body" "js_typeof body = ''object''" "text \<noteq> []" "parse text = Some body" "code \<noteq> 0"
  shows "auditMiddleware parse q [CallStatus code, CallJson body, CallSend (JStr text)] =
      (if starts_with (aq_path q) ''/api/'' \<and> isMutationMethod (aq_method q) \<and> 200 \<le> code \<and> code < 300
       then [capture_args q code body, capture_args q code body] else []) \<and>
    auditMiddleware parse q [CallStatus code, CallSend JUndef] = []"
proof (cases "200 \<le> code \<and> code < 300")
  case True
  then show ?thesis using capture_object[OF assms(1,2), of code parse q] assms(3,4)
    by (simp add: auditMiddleware_def audit_call_def)
next
  case False
  then have "captureResponse parse q (code, code) body = []" by (intro capture_failure assms(5)) linarith
  with False show ?thesis using assms(3,4) by (auto simp: auditMiddleware_def audit_call_def)
qed

definition sample_audit_request :: audit_request where
  "sample_audit_request =
     \<lparr>aq_request = \<lparr>rq_headers = [], rq_params = [], rq_user = JUndef, rq_walletAddress = JUndef, rq_tenantId = JUndef,
        rq_apiClient = JUndef, rq_invoice = JUndef\<rparr>,
      aq_path = ''/api/invoices/7'', aq_originalUrl = ''/api/invoices/7'', aq_method = ''PATCH'', aq_id = JUndef,
      aq_ip = ''10.0.0.1'', aq_remoteAddress = [], aq_body = JUndef\<rparr>"

theorem mutations_recorded_twice_witness:
  "auditMiddleware (\<lambda>_. Some (JObj [])) sample_audit_request [CallStatus 200, CallJson (JObj []), CallSend (JStr ''{}'')] =
     [capture_args sample_audit_request 200 (JObj []), capture_args sample_audit_request 200 (JObj [])]"
proof -
  have "starts_with (aq_path sample_audit_request) ''/api/''" "isMutationMethod (aq_method sample_audit_request)" by code_simp+
  with mutations_recorded_twice[of "JObj []" "''{}''" "\<lambda>_. Some (JObj [])" 200 sample_audit_request] show ?thesis by simp
qed

text \<open>Nothing under \<open>/v1/\<close>, where the versioned invoice routes are mounted, is recorded.\<close>

lemma v1_not_recorded: "auditMiddleware parse (q\<lparr>aq_path := ''/v1/'' @ s\<rparr>) res_calls = []"
  by (simp add: auditMiddleware_def starts_with_def)

lemma invoices_resource: "fst (extractResourceInfo (''/api/invoices/'' @ s)) = ''invoices''"
  by (simp add: extractResourceInfo_def starts_with_def is_lower_def code_of_def Let_def)

lemma capture_resource: "a \<in> set (captureResponse parse q s body) \<Longrightarrow> aa_resourceType a = JStr (fst (extractResourceInfo (aq_path q)))"
  by (auto simp: captureResponse_def capture_args_def Let_def split: if_splits jsval.splits option.splits)

lemma audit_call_resource:
  assumes "\<forall>a \<in> set (snd st). aa_resourceType a = JStr (fst (extractResourceInfo (aq_path q)))"
  shows "\<forall>a \<in> set (snd (audit_call parse q c st)). aa_resourceType a = JStr (fst (extractResourceInfo (aq_path q)))"
  using assms capture_resource[of _ parse q "fst st"]
  by (cases st; cases c) (auto simp: audit_call_def split: if_splits jsval.splits option.splits)

lemma middleware_resource:
  assumes "a \<in> set (auditMiddleware parse q res_calls)"
  shows "aa_resourceType a = JStr (fst (extractResourceInfo (aq_path q)))"
proof -
  have "\<forall>a \<in> set (snd (fold (audit_call parse q) res_calls st)). aa_resourceType a = JStr (fst (extractResourceInfo (aq_path q)))"
    if "\<forall>a \<in> set (snd st). aa_resourceType a = JStr (fst (extractResourceInfo (aq_path q)))" for st
    using that
  proof (induction res_calls arbitrary: st)
    case (Cons c res_calls)
    from Cons.IH[OF audit_call_resource[OF Cons.prems]] show ?case by simp
  qed simp
  from this[of "((200, 200), [])"] show ?thesis using assms by (simp add: auditMiddleware_def split: if_splits)
qed

lemma appended: "snd (appendAuditEvent d e t) = t \<or> snd (appendAuditEvent d e t) = t @ [ad_fill d (audit_record (ad_stringify d) e)]"
  by (simp add: appendAuditEvent_def Let_def)

lemma created: "snd (createAuditLog d a t) = t \<or> snd (createAuditLog d a t) = snd (appendAuditEvent d (invoice_event a) t)"
proof -
  have "createAuditLog d a t \<in> {(e, t) | e. True} \<union> {(e, snd (appendAuditEvent d (invoice_event a) t)) | e. True}"
    unfolding createAuditLog_def by (simp split: prod.splits sum.splits)
  then show ?thesis by auto
qed

lemma written_rows:
  assumes "r \<in> set (write_entries d as t)"
  shows "r \<in> set t \<or> (\<exists>a \<in> set as. r = ad_fill d (audit_record (ad_stringify d) (invoice_event a)))"
  using assms
proof (induction as arbitrary: t)
  case (Cons a as)
  from Cons.IH[of "snd (createAuditLog d a t)"] Cons.prems created[of d a t] appended[of d "invoice_event a" t]
  show ?case by (auto simp: write_entries_def)
qed (simp add: write_entries_def)

lemma event_target: "col ''target_type'' (audit_record f (invoice_event a)) = js_or (aa_resourceType a) JNull"
  by (simp add: audit_record_def invoice_event_def col_def split: prod.splits)

text \<open>The trail of an invoice finds nothing the middleware wrote: it asks for rows of the type
  \<open>invoice\<close>, and no path but one under \<open>/api/invoice\<close> is recorded under that type. The invoice routes are
  mounted under \<open>/api/invoices/\<close>, recorded as \<open>invoices\<close>, and under \<open>/v1/\<close>, not recorded at all.\<close>

theorem invoice_trail_empty:
  assumes "\<And>r. col ''target_type'' (ad_fill d r) = col ''target_type'' r"
    "\<And>a. a \<in> set as \<Longrightarrow> \<exists>p q cs. a \<in> set (auditMiddleware p q cs) \<and> fst (extractResourceInfo (aq_path q)) \<noteq> ''invoice''"
  shows "getInvoiceAuditTrail parse invoiceId limit_v offset_v tenantId (write_entries d as []) = Inr [] \<and>
    fst (extractResourceInfo (''/api/invoices/'' @ s)) \<noteq> ''invoice'' \<and> auditMiddleware parse (rq\<lparr>aq_path := ''/v1/'' @ s\<rparr>) rcs = []"
proof -
  have no: "col ''target_type'' r \<noteq> JStr ''invoice''" if "r \<in> set (write_entries d as [])" for r
  proof -
    from written_rows[OF that] obtain a where a: "a \<in> set as" and r: "r = ad_fill d (audit_record (ad_stringify d) (invoice_event a))"
      by auto
    from assms(2)[OF a] middleware_resource obtain rt where "aa_resourceType a = JStr rt" "rt \<noteq> ''invoice''" by metis
    then show ?thesis unfolding r assms(1) event_target by (simp add: js_or_def)
  qed
  have "audit_query o' (write_entries d as []) = []" if "js_get o' ''resourceType'' = JStr ''invoice''" for o'
  proof (rule ccontr)
    assume "audit_query o' (write_entries d as []) \<noteq> []"
    then obtain r where "r \<in> set (audit_query o' (write_entries d as []))" by (meson last_in_set)
    from audit_query_sound[OF this] no[of r] that show False by (simp add: opt_where_def col_eq_def)
  qed
  then have "getInvoiceAuditTrail parse invoiceId limit_v offset_v tenantId (write_entries d as []) = Inr []"
    by (simp add: getInvoiceAuditTrail_def getAuditLogs_def Let_def)
  then show ?thesis unfolding v1_not_recorded invoices_resource by simp
qed

theorem invoice_trail_empty_witness:
  "getInvoiceAuditTrail (\<lambda>_. None) (JStr ''7'') JUndef JUndef JUndef
     (write_entries \<lparr>ad_stringify = (\<lambda>_. []), ad_fill = (\<lambda>r. r), ad_ok = (\<lambda>_. True)\<rparr>
       (auditMiddleware (\<lambda>_. None) sample_audit_request [CallJson (JObj [])]) []) = Inr []"
proof -
  have "fst (extractResourceInfo (aq_path sample_audit_request)) \<noteq> ''invoice''" by code_simp
  then show ?thesis
    using invoice_trail_empty[of "\<lparr>ad_stringify = (\<lambda>_. []), ad_fill = (\<lambda>r. r), ad_ok = (\<lambda>_. True)\<rparr>"
        "auditMiddleware (\<lambda>_. None) sample_audit_request [CallJson (JObj [])]" "\<lambda>_. None" "JStr ''7''" JUndef JUndef JUndef "[]"]
    by fastforce
qed

section \<open>The route\<close>

text \<open>The audit trail is shown only to an authenticated admin or owner with a tenant, for an invoice of
  that tenant that is not deleted; every other authenticated request gets the same 404, whether the
  invoice exists elsewhere or not. The answer never contains an event: it is the same whatever the log
  holds.\<close>

theorem audit_trail_entitled:
  assumes "and_then authenticate tenant req = Next r"
  shows "getAuditTrail authenticate tenant invoiceId invoices req \<in>
      {TrailNotFound, TrailJson (JObj [(''data'', JObj []), (''invoiceId'', invoiceId)])} \<and>
    (getAuditTrail authenticate tenant invoiceId invoices req \<noteq> TrailNotFound \<longleftrightarrow>
       (js_get (rq_user r) ''role'' = JStr ''admin'' \<or> js_get (rq_user r) ''role'' = JStr ''owner'') \<and> truthy invoiceId \<and>
       js_typeof invoiceId = ''string'' \<and>
       (\<exists>inv \<in> set invoices. owned invoiceId (str_of (rq_tenantId r)) inv \<and> is_null ''deleted_at'' inv))"
proof -
  have role: "str_of v \<in> {''admin'', ''owner''} \<longleftrightarrow> v = JStr ''admin'' \<or> v = JStr ''owner''" for v
    by (auto simp: str_of_def split: jsval.splits)
  have find: "(case List.find P xs of None \<Rightarrow> False | Some _ \<Rightarrow> True) \<longleftrightarrow> (\<exists>x \<in> set xs. P x)" for P :: "row \<Rightarrow> bool" and xs
    by (induction xs) auto
  have "entitled r invoiceId invoices \<longleftrightarrow>
      (js_get (rq_user r) ''role'' = JStr ''admin'' \<or> js_get (rq_user r) ''role'' = JStr ''owner'') \<and> truthy invoiceId \<and>
       js_typeof invoiceId = ''string'' \<and> (\<exists>inv \<in> set invoices. owned invoiceId (str_of (rq_tenantId r)) inv \<and> is_null ''deleted_at'' inv)"
    unfolding entitled_def role getInvoiceById_def find[symmetric] by (auto split: option.splits)
  then show ?thesis using assms by (simp add: getAuditTrail_def)
qed

theorem audit_trail_entitled_witness:
  "getAuditTrail Next Next (JStr ''7'')
     [[(''invoice_id'', JStr ''7''), (''tenant_id'', JStr ''t'')]]
     ((aq_request sample_audit_request)\<lparr>rq_user := JObj [(''role'', JStr ''owner'')], rq_tenantId := JStr ''t''\<rparr>) \<noteq> TrailNotFound"
proof -
  let ?r = "(aq_request sample_audit_request)\<lparr>rq_user := JObj [(''role'', JStr ''owner'')], rq_tenantId := JStr ''t''\<rparr>"
  have "and_then Next Next ?r = Next ?r" by (simp add: and_then_def)
  from audit_trail_entitled[OF this, of "JStr ''7''" "[[(''invoice_id'', JStr ''7''), (''tenant_id'', JStr ''t'')]]"]
  show ?thesis by (simp add: owned_def col_eq_def is_null_def col_def js_nullish_def str_of_def)
qed

end
