(* ===== verification/QueryParams.thy ===== *)
theory QueryParams
  imports Invoices
begin

text \<open>
  Validation of query parameters: \<open>src/src/utils/validators.js\<close>, and the conversions \<open>parseInt\<close>
  and \<open>parseFloat\<close> it uses.

  A query parameter is absent, a string, or an array or object (repeated and bracketed parameters).
  Error texts and accepted values are association lists; \<open>Date.parse\<close> is an argument that tells
  whether it returns a number.
\<close>

section \<open>parseInt and parseFloat\<close>

definition parse_int_str :: "string \<Rightarrow> int option" where
  "parse_int_str s =
     (case sign_split (trim_start s) of (g, r) \<Rightarrow>
        let ds = takeWhile is_digit r
        in if ds = [] then None else Some (g * int (digits_val ds)))"

text \<open>With radix ten; an array converts to its elements joined by commas, of which the number is a
  prefix; numbers are truncated.\<close>

fun parse_int :: "jsval \<Rightarrow> int option" where
  "parse_int (JStr s) = parse_int_str s"
| "parse_int (JNum (NFin q)) = Some (if 0 \<le> q then \<lfloor>q\<rfloor> else \<lceil>q\<rceil>)"
| "parse_int (JArr (v # _)) = parse_int v"
| "parse_int _ = None"

text \<open>Without a radix a prefix \<open>0x\<close> selects hexadecimal.\<close>

definition parse_int_any_str :: "string \<Rightarrow> int option" where
  "parse_int_any_str s =
     (case sign_split (trim_start s) of (g, r) \<Rightarrow>
        if to_lower (take 2 r) = ''0x''
        then let ds = takeWhile (\<lambda>c. hex_val c \<noteq> None) (drop 2 r)
             in if ds = [] then None
                else Some (g * int (foldl (\<lambda>n c. 16 * n + the (hex_val c)) 0 ds))
        else parse_int_str s)"

fun parse_int_any :: "jsval \<Rightarrow> int option" where
  "parse_int_any (JStr s) = parse_int_any_str s"
| "parse_int_any (JArr (v # _)) = parse_int_any v"
| "parse_int_any v = parse_int v"

definition frac_part :: "string \<Rightarrow> string \<times> string" where
  "frac_part r =
     (case r of c # r' \<Rightarrow> if c = CHR ''.'' then (takeWhile is_digit r', dropWhile is_digit r') else ([], r)
      | [] \<Rightarrow> ([], []))"

definition exp_part :: "string \<Rightarrow> int" where
  "exp_part r =
     (case r of
        c # r' \<Rightarrow>
          if c = CHR ''e'' \<or> c = CHR ''E''
          then (case sign_split r' of (g, r'') \<Rightarrow> g * int (digits_val (takeWhile is_digit r''))) else 0
      | [] \<Rightarrow> 0)"

definition parse_float_str :: "string \<Rightarrow> jsnum" where
  "parse_float_str s =
     (case sign_split (trim_start s) of (g, r) \<Rightarrow>
        if starts_with r ''Infinity'' then (if g = 1 then NPosInf else NNegInf)
        else let ip = takeWhile is_digit r;
                 fp = frac_part (dropWhile is_digit r)
             in if ip @ fst fp = [] then NNaN
                else NFin (scale10 (exp_part (snd fp))
                  (rat_of_int g * rat_of_nat (digits_val (ip @ fst fp)) / 10 ^ length (fst fp))))"

fun parse_float :: "jsval \<Rightarrow> jsnum" where
  "parse_float (JStr s) = parse_float_str s"
| "parse_float (JNum n) = n"
| "parse_float (JArr (v # _)) = parse_float v"
| "parse_float _ = NNaN"

section \<open>The validators\<close>

record validated =
  fieldErrors :: "(string \<times> string) list"
  v_filters :: row
  v_sorting :: row
  v_pagination :: row

definition no_params :: validated where
  "no_params = \<lparr>fieldErrors = [], v_filters = [], v_sorting = [], v_pagination = []\<rparr>"

definition add_error :: "string \<Rightarrow> string \<Rightarrow> validated \<Rightarrow> validated" where
  "add_error k e v = v\<lparr>fieldErrors := fieldErrors v @ [(k, e)]\<rparr>"

definition add_filter :: "string \<Rightarrow> jsval \<Rightarrow> validated \<Rightarrow> validated" where
  "add_filter k x v = v\<lparr>v_filters := v_filters v @ [(k, x)]\<rparr>"

definition add_sorting :: "string \<Rightarrow> jsval \<Rightarrow> validated \<Rightarrow> validated" where
  "add_sorting k x v = v\<lparr>v_sorting := v_sorting v @ [(k, x)]\<rparr>"

definition add_pagination :: "string \<Rightarrow> jsval \<Rightarrow> validated \<Rightarrow> validated" where
  "add_pagination k x v = v\<lparr>v_pagination := v_pagination v @ [(k, x)]\<rparr>"

definition join_comma :: "string list \<Rightarrow> string" where
  "join_comma xs = (case xs of [] \<Rightarrow> [] | y # ys \<Rightarrow> y @ concat (map (\<lambda>z. '', '' @ z) ys))"

definition date_text :: "string \<Rightarrow> bool" where
  "date_text s \<longleftrightarrow> length s = 10 \<and> all_digits (take 4 s) \<and> s ! 4 = CHR ''-'' \<and>
     all_digits (take 2 (drop 5 s)) \<and> s ! 7 = CHR ''-'' \<and> all_digits (drop 8 s)"

fun is_date :: "(string \<Rightarrow> bool) \<Rightarrow> jsval \<Rightarrow> bool" where
  "is_date dparse (JStr s) \<longleftrightarrow> date_text s \<and> dparse s"
| "is_date dparse (JArr [v]) \<longleftrightarrow> is_date dparse v"
| "is_date dparse _ \<longleftrightarrow> False"

text \<open>One step per parameter; each skips an absent parameter.\<close>

definition check_status :: "jsval \<Rightarrow> validated \<Rightarrow> validated" where
  "check_status x v =
     (if x = JUndef then v
      else if \<exists>s\<in>set ALL_INVOICE_STATUSES. x = JStr s then add_filter ''status'' x v
      else add_error ''status'' (''Invalid status. Must be one of: '' @ join_comma ALL_INVOICE_STATUSES) v)"

definition check_text :: "string \<Rightarrow> jsval \<Rightarrow> validated \<Rightarrow> validated" where
  "check_text k x v =
     (case x of
        JUndef \<Rightarrow> v
      | JStr s \<Rightarrow> if trim s \<noteq> [] then add_filter k x v else add_error k (''Invalid '' @ k @ '' format'') v
      | _ \<Rightarrow> add_error k (''Invalid '' @ k @ '' format'') v)"

definition check_date :: "(string \<Rightarrow> bool) \<Rightarrow> string \<Rightarrow> jsval \<Rightarrow> validated \<Rightarrow> validated" where
  "check_date dparse k x v =
     (if x = JUndef then v
      else if is_date dparse x then add_filter k x v
      else add_error k (''Invalid '' @ k @ '' format. Use YYYY-MM-DD'') v)"

definition check_sortBy :: "string list \<Rightarrow> jsval \<Rightarrow> validated \<Rightarrow> validated" where
  "check_sortBy fs x v =
     (if x = JUndef then v
      else if \<exists>s\<in>set fs. x = JStr s then add_sorting ''sortBy'' x v
      else add_error ''sortBy'' (''Invalid sortBy. Must be one of: '' @ join_comma fs) v)"

text \<open>\<open>order.toLowerCase()\<close> raises a \<open>TypeError\<close> when the parameter is not a string.\<close>

definition check_order :: "jsval \<Rightarrow> validated \<Rightarrow> validated option" where
  "check_order x v =
     (case x of
        JUndef \<Rightarrow> Some v
      | JStr s \<Rightarrow>
          Some (if to_lower s \<in> {''asc'', ''desc''} then add_sorting ''order'' (JStr (to_lower s)) v
                else add_error ''order'' ''Invalid order. Must be \"asc\" or \"desc\"'' v)
      | _ \<Rightarrow> None)"

definition check_nonneg_int :: "string \<Rightarrow> jsval \<Rightarrow> validated \<Rightarrow> validated" where
  "check_nonneg_int k x v =
     (if x = JUndef then v
      else (case parse_int x of
          Some n \<Rightarrow> if n \<ge> 0 then add_filter k (JInt n) v
                    else add_error k (k @ '' must be a non-negative integer'') v
        | None \<Rightarrow> add_error k (k @ '' must be a non-negative integer'') v))"

definition check_ratio :: "string \<Rightarrow> jsval \<Rightarrow> validated \<Rightarrow> validated" where
  "check_ratio k x v =
     (if x = JUndef then v
      else (case parse_float x of
          NFin q \<Rightarrow> if q \<ge> 0 \<and> q \<le> 100 then add_filter k (JNum (NFin q)) v
                    else add_error k (k @ '' must be a number between 0 and 100'') v
        | _ \<Rightarrow> add_error k (k @ '' must be a number between 0 and 100'') v))"

definition check_cursor :: "jsval \<Rightarrow> validated \<Rightarrow> validated" where
  "check_cursor x v =
     (case x of
        JUndef \<Rightarrow> v
      | JStr s \<Rightarrow> if length s > 0 \<and> length s \<le> 2048 then add_pagination ''cursor'' x v
                  else add_error ''cursor'' ''cursor must be a non-empty string (max 2048 chars)'' v
      | _ \<Rightarrow> add_error ''cursor'' ''cursor must be a non-empty string (max 2048 chars)'' v)"

definition check_page :: "jsval \<Rightarrow> jsval \<Rightarrow> validated \<Rightarrow> validated" where
  "check_page cursor x v =
     (if \<not> (cursor = JUndef \<and> x \<noteq> JUndef) then v
      else (case parse_int_any x of
          Some n \<Rightarrow> if n \<ge> 1 then add_pagination ''page'' (JInt n) v
                    else add_error ''page'' ''page must be an integer >= 1'' v
        | None \<Rightarrow> add_error ''page'' ''page must be an integer >= 1'' v))"

definition check_limit :: "jsval \<Rightarrow> validated \<Rightarrow> validated" where
  "check_limit x v =
     (if x = JUndef then v
      else (case parse_int x of
          Some n \<Rightarrow> if n \<ge> 1 \<and> n \<le> 100 then add_pagination ''limit'' (JInt n) v
                    else add_error ''limit'' ''limit must be an integer between 1 and 100'' v
        | None \<Rightarrow> add_error ''limit'' ''limit must be an integer between 1 and 100'' v))"

definition validateInvoiceQueryParams :: "(string \<Rightarrow> bool) \<Rightarrow> jsval \<Rightarrow> validated option" where
  "validateInvoiceQueryParams dparse q =
     check_order (js_get q ''order'')
       (check_sortBy [''amount'', ''date''] (js_get q ''sortBy'')
         (check_date dparse ''dateTo'' (js_get q ''dateTo'')
           (check_date dparse ''dateFrom'' (js_get q ''dateFrom'')
             (check_text ''buyerId'' (js_get q ''buyerId'')
               (check_text ''smeId'' (js_get q ''smeId'')
                 (check_status (js_get q ''status'') no_params))))))"

definition marketplace_filters :: "(string \<Rightarrow> bool) \<Rightarrow> jsval \<Rightarrow> validated \<Rightarrow> validated" where
  "marketplace_filters dparse q v =
     check_ratio ''fundedRatioMax'' (js_get q ''fundedRatioMax'')
       (check_ratio ''fundedRatioMin'' (js_get q ''fundedRatioMin'')
         (check_date dparse ''maturityDateTo'' (js_get q ''maturityDateTo'')
           (check_date dparse ''maturityDateFrom'' (js_get q ''maturityDateFrom'')
             (check_nonneg_int ''yieldBpsMax'' (js_get q ''yieldBpsMax'')
               (check_nonneg_int ''yieldBpsMin'' (js_get q ''yieldBpsMin'')
                 (check_status (js_get q ''status'') v))))))"

definition validateMarketplaceQueryParams :: "(string \<Rightarrow> bool) \<Rightarrow> jsval \<Rightarrow> validated option" where
  "validateMarketplaceQueryParams dparse q =
     map_option
       (\<lambda>v. check_limit (js_get q ''limit'')
              (check_page (js_get q ''cursor'') (js_get q ''page'')
                (check_cursor (js_get q ''cursor'') v)))
       (check_order (js_get q ''order'')
         (check_sortBy [''yield_bps'', ''maturity_date'', ''funded_ratio'', ''amount'', ''created_at'']
           (js_get q ''sortBy'') (marketplace_filters dparse q no_params)))"

section \<open>Well-formed parameters\<close>

text \<open>What the services rely on: limits, pages and filters in range, one of the listed sort fields
  and directions.\<close>

definition filter_ok :: "string \<times> jsval \<Rightarrow> bool" where
  "filter_ok kv =
     (case kv of (k, x) \<Rightarrow>
        if k \<in> {''yieldBpsMin'', ''yieldBpsMax''} then (\<exists>n\<ge>0. x = JInt n)
        else if k \<in> {''fundedRatioMin'', ''fundedRatioMax''} then (\<exists>q. x = JNum (NFin q) \<and> 0 \<le> q \<and> q \<le> 100)
        else if k = ''status'' then (\<exists>s\<in>set ALL_INVOICE_STATUSES. x = JStr s)
        else True)"

definition sorting_ok :: "string \<times> jsval \<Rightarrow> bool" where
  "sorting_ok kv =
     (case kv of (k, x) \<Rightarrow> k = ''order'' \<longrightarrow> x = JStr ''asc'' \<or> x = JStr ''desc'')"

definition pagination_ok :: "string \<times> jsval \<Rightarrow> bool" where
  "pagination_ok kv =
     (case kv of (k, x) \<Rightarrow>
        (k = ''limit'' \<and> (\<exists>n. x = JInt n \<and> 1 \<le> n \<and> n \<le> 100)) \<or>
        (k = ''page'' \<and> (\<exists>n. x = JInt n \<and> 1 \<le> n)) \<or>
        (k = ''cursor'' \<and> (\<exists>s. x = JStr s \<and> s \<noteq> [] \<and> length s \<le> 2048)))"

definition params_ok :: "validated \<Rightarrow> bool" where
  "params_ok v \<longleftrightarrow> list_all filter_ok (v_filters v) \<and> list_all sorting_ok (v_sorting v) \<and>
     list_all pagination_ok (v_pagination v)"

lemmas adders = add_error_def add_filter_def add_sorting_def add_pagination_def

lemma no_params_ok: "params_ok no_params"
  by (simp add: params_ok_def no_params_def)

lemma check_status_ok: "params_ok v \<Longrightarrow> params_ok (check_status x v)"
  by (auto simp: check_status_def adders params_ok_def filter_ok_def)

lemma check_text_ok: "params_ok v \<Longrightarrow> k \<in> {''smeId'', ''buyerId''} \<Longrightarrow> params_ok (check_text k x v)"
  by (auto simp: check_text_def adders params_ok_def filter_ok_def split: jsval.splits)

lemma check_date_ok:
  "params_ok v \<Longrightarrow> k \<in> {''dateFrom'', ''dateTo'', ''maturityDateFrom'', ''maturityDateTo''} \<Longrightarrow>
   params_ok (check_date dparse k x v)"
  by (auto simp: check_date_def adders params_ok_def filter_ok_def)

lemma check_sortBy_ok: "params_ok v \<Longrightarrow> params_ok (check_sortBy fs x v)"
  by (auto simp: check_sortBy_def adders params_ok_def sorting_ok_def)

lemma check_order_ok: "params_ok v \<Longrightarrow> check_order x v = Some v' \<Longrightarrow> params_ok v'"
  by (auto simp: check_order_def adders params_ok_def sorting_ok_def split: jsval.splits if_splits)

lemma check_nonneg_int_ok:
  "params_ok v \<Longrightarrow> k \<in> {''yieldBpsMin'', ''yieldBpsMax''} \<Longrightarrow> params_ok (check_nonneg_int k x v)"
  by (auto simp: check_nonneg_int_def adders params_ok_def filter_ok_def split: option.splits)

lemma check_ratio_ok:
  "params_ok v \<Longrightarrow> k \<in> {''fundedRatioMin'', ''fundedRatioMax''} \<Longrightarrow> params_ok (check_ratio k x v)"
  by (auto simp: check_ratio_def adders params_ok_def filter_ok_def split: jsnum.splits)

lemma check_cursor_ok: "params_ok v \<Longrightarrow> params_ok (check_cursor x v)"
  by (auto simp: check_cursor_def adders params_ok_def pagination_ok_def split: jsval.splits)

lemma check_page_ok: "params_ok v \<Longrightarrow> params_ok (check_page c x v)"
  by (auto simp: check_page_def adders params_ok_def pagination_ok_def split: option.splits)

lemma check_limit_ok: "params_ok v \<Longrightarrow> params_ok (check_limit x v)"
  by (auto simp: check_limit_def adders params_ok_def pagination_ok_def split: option.splits)

lemmas checks_ok = no_params_ok check_status_ok check_text_ok check_date_ok check_sortBy_ok
  check_nonneg_int_ok check_ratio_ok check_cursor_ok check_page_ok check_limit_ok

section \<open>Properties\<close>

text \<open>Validated query parameters are well typed and in range: whatever the query is, every
  filter, sort option and pagination value that a validator lets through satisfies the bounds the
  services rely on. The validators
  fail to return exactly when \<open>order\<close> is present and not a string.\<close>
theorem query_params_well_typed:
  shows "(\<forall>v. validateMarketplaceQueryParams dparse q = Some v \<longrightarrow> params_ok v) \<and>
    (\<forall>v. validateInvoiceQueryParams dparse q = Some v \<longrightarrow> params_ok v) \<and>
    (validateMarketplaceQueryParams dparse q = None \<longleftrightarrow>
       js_get q ''order'' \<noteq> JUndef \<and> js_typeof (js_get q ''order'') \<noteq> ''string'') \<and>
    (validateInvoiceQueryParams dparse q = None \<longleftrightarrow>
       js_get q ''order'' \<noteq> JUndef \<and> js_typeof (js_get q ''order'') \<noteq> ''string'')"
proof (intro conjI allI impI)
  fix v assume "validateMarketplaceQueryParams dparse q = Some v"
  then show "params_ok v"
    by (auto simp: validateMarketplaceQueryParams_def marketplace_filters_def
        intro!: checks_ok elim!: check_order_ok[rotated])
next
  fix v assume "validateInvoiceQueryParams dparse q = Some v"
  then show "params_ok v"
    unfolding validateInvoiceQueryParams_def by (rule check_order_ok[rotated]) (intro checks_ok, auto)
next
  have none: "check_order x v = None \<longleftrightarrow> x \<noteq> JUndef \<and> js_typeof x \<noteq> ''string''" for x v
    by (cases x) (auto simp: check_order_def)
  show "validateMarketplaceQueryParams dparse q = None \<longleftrightarrow>
       js_get q ''order'' \<noteq> JUndef \<and> js_typeof (js_get q ''order'') \<noteq> ''string''"
    by (simp add: validateMarketplaceQueryParams_def none)
  show "validateInvoiceQueryParams dparse q = None \<longleftrightarrow>
       js_get q ''order'' \<noteq> JUndef \<and> js_typeof (js_get q ''order'') \<noteq> ''string''"
    by (simp add: validateInvoiceQueryParams_def none)
qed

theorem query_params_well_typed_witness:
  "params_ok (the (validateMarketplaceQueryParams (\<lambda>_. True)
     (JObj [(''limit'', JStr ''500''), (''yieldBpsMin'', JStr ''12abc''), (''fundedRatioMax'', JStr ''99.5'')])))"
proof -
  let ?q = "JObj [(''limit'', JStr ''500''), (''yieldBpsMin'', JStr ''12abc''), (''fundedRatioMax'', JStr ''99.5'')]"
  have "validateMarketplaceQueryParams (\<lambda>_. True) ?q \<noteq> None"
    using query_params_well_typed[of "\<lambda>_. True" ?q] by simp
  then show ?thesis using query_params_well_typed[of "\<lambda>_. True" ?q] by auto
qed

end
