(* ===== verification/Sanitize.thy ===== *)
theory Sanitize
  imports QueryParams
begin

text \<open>
  Request hardening: \<open>src/src/utils/sanitization.js\<close> (the value tree every request body, query and
  parameter object is rebuilt from) and \<open>src/src/middleware/bodySizeLimits.js\<close>.

  \<open>nfkc\<close> is Unicode normalisation, an argument. The body parser of the framework is described by the
  number of bytes it reads.
\<close>

section \<open>Sanitisation\<close>

definition DANGEROUS_KEYS :: "string list" where
  "DANGEROUS_KEYS = [''__proto__'', ''prototype'', ''constructor'']"

definition DEFAULT_MAX_DEPTH :: int where "DEFAULT_MAX_DEPTH = 20"
definition DEFAULT_MAX_STRING_LENGTH :: int where "DEFAULT_MAX_STRING_LENGTH = 4096"

text \<open>The control characters that are removed: all but tab, line feed and carriage return.\<close>

definition is_control :: "char \<Rightarrow> bool" where
  "is_control c \<longleftrightarrow> (code_of c \<le> 31 \<and> code_of c \<notin> {9, 10, 13}) \<or> code_of c = 127"

text \<open>\<open>replace(/\s+/g, ' ')\<close>; the flag says that the character before was white space.\<close>

fun collapse_ws :: "bool \<Rightarrow> string \<Rightarrow> string" where
  "collapse_ws after [] = []"
| "collapse_ws after (c # s) =
     (if is_ws c then (if after then collapse_ws True s else CHR '' '' # collapse_ws True s)
      else c # collapse_ws False s)"

text \<open>\<open>slice(0, n)\<close>.\<close>

definition slice_to :: "int \<Rightarrow> string \<Rightarrow> string" where
  "slice_to n s = (if 0 \<le> n then take (nat n) s else take (length s - nat (- n)) s)"

definition sanitizeUserString :: "(string \<Rightarrow> string) \<Rightarrow> int \<Rightarrow> string \<Rightarrow> string" where
  "sanitizeUserString nfkc maxLength v =
     (let normalized = trim (collapse_ws False (filter (\<lambda>c. \<not> is_control c) (nfkc v)))
      in if int (length normalized) > maxLength then slice_to maxLength normalized else normalized)"

fun sanitizeValueAtDepth :: "(string \<Rightarrow> string) \<Rightarrow> int \<Rightarrow> int \<Rightarrow> int \<Rightarrow> jsval \<Rightarrow> jsval" where
  "sanitizeValueAtDepth nfkc maxDepth maxLen depth (JStr s) =
     (if depth > maxDepth then JUndef else JStr (sanitizeUserString nfkc maxLen s))"
| "sanitizeValueAtDepth nfkc maxDepth maxLen depth (JArr vs) =
     (if depth > maxDepth then JUndef
      else JArr (filter (\<lambda>v. v \<noteq> JUndef) (map (sanitizeValueAtDepth nfkc maxDepth maxLen (depth + 1)) vs)))"
| "sanitizeValueAtDepth nfkc maxDepth maxLen depth (JObj kvs) =
     (if depth > maxDepth then JUndef
      else JObj (filter (\<lambda>(k, v). k \<notin> set DANGEROUS_KEYS \<and> v \<noteq> JUndef)
        (map (\<lambda>(k, v). (k, sanitizeValueAtDepth nfkc maxDepth maxLen (depth + 1) v)) kvs)))"
| "sanitizeValueAtDepth nfkc maxDepth maxLen depth v = (if depth > maxDepth then JUndef else v)"

definition int_option :: "jsval \<Rightarrow> int \<Rightarrow> int" where
  "int_option opt dflt = (case opt of JNum (NFin q) \<Rightarrow> if is_integer_rat q then \<lfloor>q\<rfloor> else dflt | _ \<Rightarrow> dflt)"

definition sanitizeValue :: "(string \<Rightarrow> string) \<Rightarrow> jsval \<Rightarrow> jsval \<Rightarrow> jsval" where
  "sanitizeValue nfkc options inp =
     sanitizeValueAtDepth nfkc (int_option (js_get options ''maxDepth'') DEFAULT_MAX_DEPTH)
       (int_option (js_get options ''maxStringLength'') DEFAULT_MAX_STRING_LENGTH) 0 inp"

section \<open>Size limits\<close>

text \<open>The pattern of a size: digits with an optional fraction, white space, an optional unit.\<close>

definition size_fraction :: "string \<Rightarrow> string \<times> string" where
  "size_fraction r =
     (case r of
        c # r' \<Rightarrow>
          if c = CHR ''.'' \<and> takeWhile is_digit r' \<noteq> [] then (takeWhile is_digit r', dropWhile is_digit r') else ([], r)
      | [] \<Rightarrow> ([], []))"

definition size_unit :: "string \<Rightarrow> nat option" where
  "size_unit u =
     map_of [([], 1), (''b'', 1), (''kb'', 1024), (''mb'', 1024 ^ 2), (''gb'', 1024 ^ 3)] (to_lower u)"

definition match_size :: "string \<Rightarrow> (rat \<times> nat) option" where
  "match_size s =
     (let ip = takeWhile is_digit s in
      if ip = [] then None
      else (case size_fraction (dropWhile is_digit s) of
          (fp, r) \<Rightarrow>
            map_option (Pair (rat_of_nat (digits_val (ip @ fp)) / 10 ^ length fp)) (size_unit (dropWhile is_ws r))))"

datatype size_error = SizeTypeError | SizeRangeError

definition parseSize :: "jsval \<Rightarrow> size_error + int" where
  "parseSize v =
     (case v of
        JStr s \<Rightarrow>
          if trim s = [] then Inl SizeTypeError
          else (case match_size (trim s) of
              None \<Rightarrow> Inl SizeRangeError
            | Some (value, mult) \<Rightarrow> Inr \<lfloor>value * rat_of_nat mult\<rfloor>)
      | _ \<Rightarrow> Inl SizeTypeError)"

record body_env =
  be_json :: string
  be_urlencoded :: string
  be_raw :: string
  be_invoice :: string

definition or_default :: "string \<Rightarrow> string \<Rightarrow> string" where
  "or_default s d = (if s = [] then d else s)"

definition DEFAULT_LIMITS :: "body_env \<Rightarrow> body_env" where
  "DEFAULT_LIMITS env =
     \<lparr>be_json = or_default (be_json env) ''100kb'', be_urlencoded = or_default (be_urlencoded env) ''50kb'',
      be_raw = or_default (be_raw env) ''1mb'', be_invoice = or_default (be_invoice env) ''512kb''\<rparr>"

definition resolveLimitType :: "body_env \<Rightarrow> string \<Rightarrow> string \<Rightarrow> string" where
  "resolveLimitType env parserType resolvedLimit =
     (if parserType = ''json'' \<and> resolvedLimit = be_invoice (DEFAULT_LIMITS env) then ''invoice'' else parserType)"

definition getDeclaredContentLength :: "jsval \<Rightarrow> int option" where
  "getDeclaredContentLength rawContentLength =
     (case rawContentLength of
        JStr s \<Rightarrow>
          if trim s = [] then None
          else (case str_to_number s of
              NFin q \<Rightarrow> if \<not> is_integer_rat q \<or> q < 0 then None else Some \<lfloor>q\<rfloor>
            | _ \<Rightarrow> None)
      | _ \<Rightarrow> None)"

text \<open>What becomes of a request: the limit that refused it with status 413 and its label in the
  metrics, or the next handler runs.\<close>

datatype body_outcome = TooLarge string string | BodyNext

definition enforceDeclaredBodyLimit :: "jsval \<Rightarrow> int \<Rightarrow> string \<Rightarrow> string \<Rightarrow> body_outcome" where
  "enforceDeclaredBodyLimit contentLength maxBytes resolvedLimit limitType =
     (case getDeclaredContentLength contentLength of
        None \<Rightarrow> BodyNext
      | Some n \<Rightarrow> if n > maxBytes then TooLarge resolvedLimit limitType else BodyNext)"

text \<open>A pair of handlers: the guard, then the framework's parser with the same limit, which reads
  \<open>received\<close> bytes and raises \<open>entity.too.large\<close> beyond its limit; \<open>payloadTooLargeHandler\<close> answers
  with the number of bytes and the label the guard left on the request.\<close>

record body_limit =
  bl_limit :: string
  bl_maxBytes :: int
  bl_type :: string

definition jsonBodyLimit :: "body_env \<Rightarrow> string \<Rightarrow> string \<Rightarrow> size_error + body_limit" where
  "jsonBodyLimit env limit typeOverride =
     (let resolvedLimit = or_default limit (be_json (DEFAULT_LIMITS env))
      in case parseSize (JStr resolvedLimit) of
           Inl e \<Rightarrow> Inl e
         | Inr maxBytes \<Rightarrow> Inr \<lparr>bl_limit = resolvedLimit, bl_maxBytes = maxBytes,
             bl_type = or_default typeOverride (resolveLimitType env ''json'' resolvedLimit)\<rparr>)"

definition urlencodedBodyLimit :: "body_env \<Rightarrow> string \<Rightarrow> size_error + body_limit" where
  "urlencodedBodyLimit env limit =
     (let resolvedLimit = or_default limit (be_urlencoded (DEFAULT_LIMITS env))
      in case parseSize (JStr resolvedLimit) of
           Inl e \<Rightarrow> Inl e
         | Inr maxBytes \<Rightarrow> Inr \<lparr>bl_limit = resolvedLimit, bl_maxBytes = maxBytes, bl_type = ''urlencoded''\<rparr>)"

definition invoiceBodyLimit :: "body_env \<Rightarrow> string \<Rightarrow> size_error + body_limit" where
  "invoiceBodyLimit env limit = jsonBodyLimit env (or_default limit (be_invoice (DEFAULT_LIMITS env))) ''invoice''"

definition deriveLimitTypeFromContentType :: "string \<Rightarrow> string" where
  "deriveLimitTypeFromContentType ct =
     (if starts_with ct ''application/json'' then ''json''
      else if starts_with ct ''application/x-www-form-urlencoded'' then ''urlencoded''
      else ''unknown'')"

text \<open>An error of the parser carries its limit in bytes.\<close>

definition payloadTooLargeHandler :: "string \<Rightarrow> int option \<Rightarrow> string option \<Rightarrow> string \<Rightarrow> body_outcome option" where
  "payloadTooLargeHandler err_type err_limit ctx contentType =
     (if err_type = ''entity.too.large''
      then Some (TooLarge (case err_limit of Some n \<Rightarrow> show_int n @ ''b'' | None \<Rightarrow> ''unknown'')
             (case ctx of Some t \<Rightarrow> t | None \<Rightarrow> deriveLimitTypeFromContentType contentType))
      else None)"

definition handle_body :: "body_limit \<Rightarrow> jsval \<Rightarrow> string \<Rightarrow> int \<Rightarrow> body_outcome" where
  "handle_body bl contentLength contentType received =
     (case enforceDeclaredBodyLimit contentLength (bl_maxBytes bl) (bl_limit bl) (bl_type bl) of
        TooLarge l t \<Rightarrow> TooLarge l t
      | BodyNext \<Rightarrow>
          if received > bl_maxBytes bl
          then the (payloadTooLargeHandler ''entity.too.large'' (Some (bl_maxBytes bl)) (Some (bl_type bl)) contentType)
          else BodyNext)"

section \<open>What a sanitised tree looks like\<close>

abbreviation ws_pair :: "char \<Rightarrow> char \<Rightarrow> bool" where
  "ws_pair a b \<equiv> is_ws a \<and> is_ws b"

definition safe_string :: "int \<Rightarrow> string \<Rightarrow> bool" where
  "safe_string L s \<longleftrightarrow> int (length s) \<le> L \<and> (\<forall>c\<in>set s. \<not> is_control c \<and> (is_ws c \<longrightarrow> c = CHR '' '')) \<and>
     successively (\<lambda>a b. \<not> ws_pair a b) s \<and> (s = [] \<or> \<not> is_ws (hd s))"

text \<open>No dangerous key, no undefined member and nothing below the depth limit.\<close>

fun safe_value :: "int \<Rightarrow> int \<Rightarrow> int \<Rightarrow> jsval \<Rightarrow> bool" where
  "safe_value D L d JUndef \<longleftrightarrow> False"
| "safe_value D L d (JStr s) \<longleftrightarrow> d \<le> D \<and> safe_string L s"
| "safe_value D L d (JArr vs) \<longleftrightarrow> d \<le> D \<and> (\<forall>v\<in>set vs. safe_value D L (d + 1) v)"
| "safe_value D L d (JObj kvs) \<longleftrightarrow>
     d \<le> D \<and> (\<forall>(k, v)\<in>set kvs. k \<notin> set DANGEROUS_KEYS \<and> safe_value D L (d + 1) v)"
| "safe_value D L d _ \<longleftrightarrow> d \<le> D"

text \<open>Every string is in normal form and does not end in white space.\<close>

fun settled_strings :: "(string \<Rightarrow> string) \<Rightarrow> jsval \<Rightarrow> bool" where
  "settled_strings nfkc (JStr s) \<longleftrightarrow> nfkc s = s \<and> (s = [] \<or> \<not> is_ws (last s))"
| "settled_strings nfkc (JArr vs) \<longleftrightarrow> (\<forall>v\<in>set vs. settled_strings nfkc v)"
| "settled_strings nfkc (JObj kvs) \<longleftrightarrow> (\<forall>(k, v)\<in>set kvs. settled_strings nfkc v)"
| "settled_strings nfkc _ \<longleftrightarrow> True"

lemma ws_space: "is_ws CHR '' ''" "\<not> is_control CHR '' ''"
  by (simp_all add: is_ws_def is_control_def code_of_def)

lemma collapse_ws_chars: "c \<in> set (collapse_ws b s) \<Longrightarrow> c = CHR '' '' \<or> c \<in> set s \<and> \<not> is_ws c"
  by (induction s arbitrary: b) (auto split: if_splits)

lemma collapse_ws_pairs:
  "successively (\<lambda>a b. \<not> ws_pair a b) (collapse_ws b s) \<and>
   (b \<longrightarrow> collapse_ws b s = [] \<or> \<not> is_ws (hd (collapse_ws b s)))"
proof (induction s arbitrary: b)
  case (Cons c s)
  then show ?case using Cons[of True] Cons[of False]
    by (auto simp: successively_Cons)
qed simp

lemma collapse_ws_id:
  assumes "\<forall>c\<in>set s. is_ws c \<longrightarrow> c = CHR '' ''" "successively (\<lambda>a b. \<not> ws_pair a b) s"
    "b \<longrightarrow> s = [] \<or> \<not> is_ws (hd s)"
  shows "collapse_ws b s = s"
  using assms by (induction s arbitrary: b) (auto simp: successively_Cons)

lemma trim_infix: "\<exists>p q. s = p @ trim s @ q"
proof -
  have "dropWhile is_ws s = rev (dropWhile is_ws (rev (dropWhile is_ws s))) @
      rev (takeWhile is_ws (rev (dropWhile is_ws s)))"
    by (metis rev_append rev_rev_ident takeWhile_dropWhile_id)
  then show ?thesis unfolding trim_def by (metis takeWhile_dropWhile_id)
qed

lemma trim_id:
  assumes "s = [] \<or> \<not> is_ws (hd s)" "s = [] \<or> \<not> is_ws (last s)"
  shows "trim s = s"
proof (cases "s = []")
  case False
  then have "dropWhile is_ws s = s" "dropWhile is_ws (rev s) = rev s"
    using assms by (simp_all add: dropWhile_eq_self_iff hd_rev)
  then show ?thesis by (simp add: trim_def)
qed (simp add: trim_def)

lemma safe_string_take:
  assumes "\<forall>c\<in>set s. \<not> is_control c \<and> (is_ws c \<longrightarrow> c = CHR '' '')"
    "successively (\<lambda>a b. \<not> ws_pair a b) s" "s = [] \<or> \<not> is_ws (hd s)" "0 \<le> L"
  shows "safe_string L (take (nat L) s)"
proof -
  have s: "s = take (nat L) s @ drop (nat L) s" by simp
  have "successively (\<lambda>a b. \<not> ws_pair a b) (take (nat L) s)"
    using assms(2) by (metis s successively_append_iff)
  moreover have "take (nat L) s = [] \<or> \<not> is_ws (hd (take (nat L) s))"
    using assms(3) by (cases "nat L"; cases s) auto
  moreover have "\<forall>c\<in>set (take (nat L) s). \<not> is_control c \<and> (is_ws c \<longrightarrow> c = CHR '' '')"
    using assms(1) by (meson in_set_takeD)
  ultimately show ?thesis using assms(4) by (simp add: safe_string_def)
qed

lemma sanitizeUserString_safe:
  assumes "0 \<le> L"
  shows "safe_string L (sanitizeUserString nfkc L v)"
proof -
  let ?c = "collapse_ws False (filter (\<lambda>c. \<not> is_control c) (nfkc v))"
  obtain p q where pq: "?c = p @ trim ?c @ q" using trim_infix by blast
  have chars: "\<forall>c\<in>set (trim ?c). \<not> is_control c \<and> (is_ws c \<longrightarrow> c = CHR '' '')"
  proof
    fix c assume "c \<in> set (trim ?c)"
    then have "c \<in> set ?c" by (subst pq) simp
    then show "\<not> is_control c \<and> (is_ws c \<longrightarrow> c = CHR '' '')"
      using collapse_ws_chars ws_space(2) by fastforce
  qed
  have pairs: "successively (\<lambda>a b. \<not> ws_pair a b) (trim ?c)"
    using collapse_ws_pairs[of False "filter (\<lambda>c. \<not> is_control c) (nfkc v)"]
    by (subst (asm) pq) (auto simp: successively_append_iff)
  have "safe_string L (take (nat L) (trim ?c))"
    using safe_string_take[OF chars pairs _ assms] trim_no_ws_ends(1) by blast
  moreover have "sanitizeUserString nfkc L v = take (nat L) (trim ?c)"
    using assms by (simp add: sanitizeUserString_def slice_to_def Let_def)
  ultimately show ?thesis by simp
qed

lemma sanitizeUserString_id:
  assumes "safe_string L s" "nfkc s = s" "s = [] \<or> \<not> is_ws (last s)"
  shows "sanitizeUserString nfkc L s = s"
proof -
  have "filter (\<lambda>c. \<not> is_control c) s = s" using assms(1) by (auto simp: safe_string_def filter_id_conv)
  moreover have "collapse_ws False s = s"
    using assms(1) by (intro collapse_ws_id) (auto simp: safe_string_def)
  moreover have "trim s = s" using assms by (intro trim_id) (auto simp: safe_string_def)
  ultimately show ?thesis using assms(1,2) by (simp add: sanitizeUserString_def Let_def safe_string_def)
qed

lemma sanitizeValueAtDepth_safe:
  "0 \<le> L \<Longrightarrow>
   sanitizeValueAtDepth nfkc D L d v = JUndef \<or> safe_value D L d (sanitizeValueAtDepth nfkc D L d v)"
proof (induction nfkc D L d v rule: sanitizeValueAtDepth.induct)
  case (2 nfkc D L d vs)
  then show ?case by (cases "D < d") auto
next
  case (3 nfkc D L d kvs)
  then show ?case by (cases "D < d") (simp, fastforce)
qed (simp_all add: sanitizeUserString_safe)

lemma sanitizeValueAtDepth_id:
  "safe_value D L d v \<Longrightarrow> settled_strings nfkc v \<Longrightarrow> sanitizeValueAtDepth nfkc D L d v = v"
proof (induction D L d v rule: safe_value.induct)
  case (3 D L d vs)
  then have "map (sanitizeValueAtDepth nfkc D L (d + 1)) vs = vs" by (intro map_idI) auto
  moreover have "\<forall>v\<in>set vs. v \<noteq> JUndef" using 3(2) by auto
  ultimately show ?case using 3(2) by (simp add: filter_id_conv)
next
  case (4 D L d kvs)
  then have "map (\<lambda>(k, v). (k, sanitizeValueAtDepth nfkc D L (d + 1) v)) kvs = kvs"
    by (intro map_idI) (auto, fastforce)
  moreover have "\<forall>(k, v)\<in>set kvs. k \<notin> set DANGEROUS_KEYS \<and> v \<noteq> JUndef" using 4(2) by fastforce
  ultimately show ?case using 4(2) by (simp add: filter_id_conv)
qed (auto simp: sanitizeUserString_id)


text \<open>Whatever a client sends, the tree \<open>sanitizeValue\<close> builds with its default options has no
  \<open>__proto__\<close>, \<open>prototype\<close> or \<open>constructor\<close> key and no undefined member at any depth, nests at most
  20 levels, and each of its strings has at most 4096 characters, no control character, no line break,
  no two adjacent blanks and no leading blank, whatever Unicode normalisation returns; and a tree that
  is already so, with its strings in normal form and without trailing blanks, is returned unchanged.\<close>

theorem sanitized_tree_safe:
  "(sanitizeValue nfkc JUndef v = JUndef \<or> safe_value 20 4096 0 (sanitizeValue nfkc JUndef v)) \<and>
   (safe_value 20 4096 0 v \<and> settled_strings nfkc v \<longrightarrow> sanitizeValue nfkc JUndef v = v)"
  using sanitizeValueAtDepth_safe[of 4096 nfkc 20 0 v] sanitizeValueAtDepth_id[of 20 4096 0 v nfkc]
  by (simp add: sanitizeValue_def int_option_def DEFAULT_MAX_DEPTH_def DEFAULT_MAX_STRING_LENGTH_def)

theorem sanitized_tree_safe_witness:
  "sanitizeValue id JUndef (JObj [(''a'', JArr [JStr ''x y'', JNull])]) = JObj [(''a'', JArr [JStr ''x y'', JNull])] \<and>
   sanitizeValue id JUndef (JObj [(''__proto__'', JNull), (''n'', JStr (CHR 0x0A # ''a'' @ [CHR 0x0D, CHR 0x0A] @ ''b''))])
     = JObj [(''n'', JStr ''a b'')]"
proof -
  have "safe_value 20 4096 0 (JObj [(''a'', JArr [JStr ''x y'', JNull])]) \<and>
      settled_strings id (JObj [(''a'', JArr [JStr ''x y'', JNull])])"
    by code_simp
  then have "sanitizeValue id JUndef (JObj [(''a'', JArr [JStr ''x y'', JNull])]) = JObj [(''a'', JArr [JStr ''x y'', JNull])]"
    using sanitized_tree_safe by blast
  moreover have "sanitizeValue id JUndef
      (JObj [(''__proto__'', JNull), (''n'', JStr (CHR 0x0A # ''a'' @ [CHR 0x0D, CHR 0x0A] @ ''b''))])
     = JObj [(''n'', JStr ''a b'')]"
    by code_simp
  ultimately show ?thesis by simp
qed

section \<open>Size limits are enforced\<close>

lemma show_nat_digits: "c \<in> set (show_nat n) \<Longrightarrow> is_digit c" "c \<in> set (show_nat n) \<Longrightarrow> \<not> is_ws c"
  using show_nat_chars[of n] digit_char_digit(1,3) by metis+

lemma parseSize_show:
  assumes "(u, m) \<in> {([], 1), (''b'', 1), (''kb'', 1024), (''mb'', 1024 ^ 2), (''gb'', 1024 ^ 3)}"
  shows "parseSize (JStr (show_nat n @ u)) = Inr (int n * int m)"
proof -
  have u: "u = [] \<or> \<not> is_digit (hd u)" "\<forall>c\<in>set u. \<not> is_ws c" "u = [] \<or> hd u \<noteq> CHR ''.''"
    "size_unit u = Some m"
    using assms by (auto simp: is_digit_def is_ws_def code_of_def size_unit_def to_lower_def lower_char_def)
  have t: "trim (show_nat n @ u) = show_nat n @ u"
    using u(2) show_nat_ne[of n] show_nat_digits(2)
    by (intro trim_id) (auto simp: last_append dest: hd_in_set last_in_set)
  have tw: "takeWhile is_digit (show_nat n @ u) = show_nat n" "dropWhile is_digit (show_nat n @ u) = u"
    using u(1) show_nat_digits(1) by (cases u; simp add: takeWhile_append2 dropWhile_append2)+
  have f: "size_fraction u = ([], u)" using u(3) by (cases u) (auto simp: size_fraction_def)
  have "dropWhile is_ws u = u" using u(2) by (cases u) auto
  then have "match_size (show_nat n @ u) = Some (rat_of_nat n, m)"
    using u(4) show_nat_ne by (simp add: match_size_def tw f digits_val_show)
  moreover have "\<lfloor>rat_of_nat n * rat_of_nat m\<rfloor> = int n * int m"
    by (metis floor_of_nat of_nat_mult)
  ultimately show ?thesis using show_nat_ne by (simp add: parseSize_def t)
qed

lemma parseSize_nonneg: "parseSize v = Inr n \<Longrightarrow> 0 \<le> n"
  by (auto simp: parseSize_def match_size_def Let_def split: jsval.splits if_splits option.splits prod.splits)

text \<open>A body limit written as a number with a unit is that many bytes, and the guard with the parser
  behind it let a request through exactly when the bytes received, and the length it declares where the
  header is a whole number, are within the limit; a refused request is counted under the label the limit
  was created with.\<close>

theorem body_limit_enforced:
  assumes "(u, m) \<in> {([], 1), (''b'', 1), (''kb'', 1024), (''mb'', 1024 ^ 2), (''gb'', 1024 ^ 3)}"
  shows "\<exists>bl. invoiceBodyLimit env (show_nat n @ u) = Inr bl \<and> bl_maxBytes bl = int n * int m \<and>
    (handle_body bl contentLength contentType received = BodyNext \<longleftrightarrow>
      received \<le> int n * int m \<and> (case getDeclaredContentLength contentLength of None \<Rightarrow> True | Some k \<Rightarrow> k \<le> int n * int m)) \<and>
    (\<forall>l t. handle_body bl contentLength contentType received = TooLarge l t \<longrightarrow> t = ''invoice'')"
proof -
  have "invoiceBodyLimit env (show_nat n @ u) =
      Inr \<lparr>bl_limit = show_nat n @ u, bl_maxBytes = int n * int m, bl_type = ''invoice''\<rparr>"
    using parseSize_show[OF assms] show_nat_ne
    by (simp add: invoiceBodyLimit_def jsonBodyLimit_def or_default_def)
  then show ?thesis
    by (auto simp: handle_body_def enforceDeclaredBodyLimit_def payloadTooLargeHandler_def
        split: option.splits body_outcome.splits)
qed

theorem body_limit_enforced_witness:
  "\<exists>bl. invoiceBodyLimit \<lparr>be_json = [], be_urlencoded = [], be_raw = [], be_invoice = []\<rparr> ''16b'' = Inr bl \<and>
    bl_maxBytes bl = 16 \<and> handle_body bl (JStr ''16'') [] 16 = BodyNext \<and>
    handle_body bl (JStr ''17'') [] 10 \<noteq> BodyNext"
proof -
  have s: "show_nat 16 @ ''b'' = ''16b''" by code_simp
  have d: "getDeclaredContentLength (JStr ''16'') = Some 16"
    "getDeclaredContentLength (JStr ''17'') = Some 17" by code_simp+
  let ?e = "\<lparr>be_json = [], be_urlencoded = [], be_raw = [], be_invoice = []\<rparr>"
  show ?thesis
    using body_limit_enforced[of "''b''" 1 ?e 16 "JStr ''16''" "[]" 16]
      body_limit_enforced[of "''b''" 1 ?e 16 "JStr ''17''" "[]" 10]
    unfolding s d by auto
qed

text \<open>Trimming comes before the cut, so that a cut value can end in a blank and a second pass would
  shorten it; and the names of members are not sanitised.\<close>

lemma sanitize_not_idempotent:
  "sanitizeUserString id 2 ''a b'' = ''a ''" "sanitizeUserString id 2 ''a '' = ''a''"
  by code_simp+

lemma sanitize_keeps_keys:
  "sanitizeValue id JUndef (JObj [([CHR 0x0D, CHR 0x0A], JNull)]) = JObj [([CHR 0x0D, CHR 0x0A], JNull)]"
  by code_simp

end
