(* ===== verification/Storage.thy ===== *)
theory Storage
  imports Auth Sanitize
begin

text \<open>
  File storage: the service of \<open>src/src/services/storage.js\<close> and the file routes of
  \<open>src/src/routes/invoiceFile.js\<close>.

  The S3 client is described by what it answers: whether an object is stored, the signed URL, the bytes
  of a key, the outcome of the bucket probe. SHA-256, the random UUID and the clock are arguments.
\<close>

section \<open>Paths\<close>

text \<open>\<open>path.posix.normalize\<close>: segments are resolved from the left; a relative path may start with
  parent segments.\<close>

definition norm_step :: "bool \<Rightarrow> string list \<Rightarrow> string \<Rightarrow> string list" where
  "norm_step rel st seg =
     (if seg = [] \<or> seg = ''.'' then st
      else if seg = ''..'' then (if st \<noteq> [] \<and> last st \<noteq> ''..'' then butlast st else if rel then st @ [seg] else st)
      else st @ [seg])"

definition join_slash :: "string list \<Rightarrow> string" where
  "join_slash xs = (case xs of [] \<Rightarrow> [] | y # ys \<Rightarrow> y @ concat (map (\<lambda>z. CHR ''/'' # z) ys))"

definition path_normalize :: "string \<Rightarrow> string" where
  "path_normalize p =
     (if p = [] then ''.''
      else let absolute = (hd p = CHR ''/''); trailing = (last p = CHR ''/'');
               body = join_slash (foldl (norm_step (\<not> absolute)) [] (split_on CHR ''/'' p))
           in if body = [] then (if absolute then ''/'' else if trailing then ''./'' else ''.'')
              else (if absolute then ''/'' else []) @ body @ (if trailing then ''/'' else []))"

text \<open>\<open>path.basename\<close>: the part after the last slash, trailing slashes ignored.\<close>

definition path_basename :: "string \<Rightarrow> string" where
  "path_basename p = rev (takeWhile (\<lambda>c. c \<noteq> CHR ''/'') (dropWhile (\<lambda>c. c = CHR ''/'') (rev p)))"

section \<open>The service\<close>

definition PROBE_TIMEOUT_MS :: int where "PROBE_TIMEOUT_MS = 5000"

definition SAFE_ERROR_NAMES :: "string list" where
  "SAFE_ERROR_NAMES = [''NoSuchBucket'', ''AccessDenied'', ''InvalidAccessKeyId'', ''InvalidBucketName'', ''BucketAlreadyExists'',
     ''BucketAlreadyOwnedByYou'', ''NetworkingError'', ''TimeoutError'', ''RequestTimeout'', ''ServiceUnavailable'', ''SlowDown'',
     ''PermanentRedirect'', ''TemporaryRedirect'', ''KMSAccessDenied'', ''KMSDisabled'']"

definition ALLOWED_MIME_TYPES :: "string list" where
  "ALLOWED_MIME_TYPES = [''application/pdf'', ''image/jpeg'', ''image/png'', ''image/tiff'']"

definition DEFAULT_MAX_FILE_SIZE :: int where "DEFAULT_MAX_FILE_SIZE = 512 * 1024"
definition DEFAULT_UPLOAD_URL_EXPIRY_SEC :: int where "DEFAULT_UPLOAD_URL_EXPIRY_SEC = 900"
definition DEFAULT_DOWNLOAD_URL_EXPIRY_SEC :: int where "DEFAULT_DOWNLOAD_URL_EXPIRY_SEC = 3600"
definition MAX_DOWNLOAD_URL_EXPIRY_SEC :: int where "MAX_DOWNLOAD_URL_EXPIRY_SEC = 86400"

definition storage_parseSize :: "jsval \<Rightarrow> int" where
  "storage_parseSize v =
     (case v of
        JStr s \<Rightarrow>
          if trim s = [] then DEFAULT_MAX_FILE_SIZE
          else (case match_size (trim s) of None \<Rightarrow> DEFAULT_MAX_FILE_SIZE | Some (x, mult) \<Rightarrow> \<lfloor>x * rat_of_nat mult\<rfloor>)
      | _ \<Rightarrow> DEFAULT_MAX_FILE_SIZE)"

definition MAX_FILE_SIZE :: "string \<Rightarrow> int" where
  "MAX_FILE_SIZE env = storage_parseSize (JStr (if env \<noteq> [] then env else ''512kb''))"

text \<open>Errors by their \<open>code\<close>; \<open>StoreError\<close> is what the S3 client or the database raises.\<close>

datatype storage_error =
    INVALID_FILENAME | INVALID_TENANT_ID | INVALID_INVOICE_ID | FILE_TOO_LARGE | INVALID_MIME_TYPE | INVALID_EXPIRY | StoreError

definition bad_name_char :: "char \<Rightarrow> bool" where
  "bad_name_char c \<longleftrightarrow> c \<in> set ''<>:|?*/'' \<or> c = CHR 34 \<or> c = CHR 92"

definition sanitizeFilename :: "jsval \<Rightarrow> storage_error + string" where
  "sanitizeFilename filename =
     (case filename of
        JStr f \<Rightarrow>
          if f = [] then Inl INVALID_FILENAME
          else let normalized = path_normalize f in
            if str_includes normalized ''..'' \<or> starts_with normalized ''/'' \<or> starts_with normalized [CHR 92] then Inl INVALID_FILENAME
            else Inr (take 255 (map (\<lambda>c. if bad_name_char c then CHR ''_'' else c) (filter (\<lambda>c. c \<noteq> CHR 0x00) (path_basename normalized))))
      | _ \<Rightarrow> Inl INVALID_FILENAME)"

definition validateMimeType_storage :: "jsval \<Rightarrow> bool" where
  "validateMimeType_storage v \<longleftrightarrow> v \<in> JStr ` set ALLOWED_MIME_TYPES"

definition key_char :: "char \<Rightarrow> bool" where
  "key_char c \<longleftrightarrow> is_alnum c \<or> c = CHR ''_'' \<or> c = CHR ''-''"

text \<open>\<open>/^[a-zA-Z0-9_-]+$/\<close>, for tenant and invoice ids alike.\<close>

definition validateId :: "jsval \<Rightarrow> bool" where
  "validateId v = (case v of JStr s \<Rightarrow> s \<noteq> [] \<and> list_all key_char s | _ \<Rightarrow> False)"

definition generateKey_ids :: "string \<Rightarrow> jsval \<Rightarrow> jsval \<Rightarrow> string \<Rightarrow> storage_error + string" where
  "generateKey_ids uuid tenantId invoiceId safeName =
     (if \<not> validateId tenantId then Inl INVALID_TENANT_ID
      else if \<not> validateId invoiceId then Inl INVALID_INVOICE_ID
      else Inr (''tenants/'' @ str_of tenantId @ ''/invoices/'' @ str_of invoiceId @ ''/'' @ uuid @ ''-'' @ safeName))"

definition generateKey :: "string \<Rightarrow> jsval \<Rightarrow> jsval \<Rightarrow> jsval \<Rightarrow> storage_error + string" where
  "generateKey uuid tenantId invoiceId fileName =
     (case sanitizeFilename fileName of Inl e \<Rightarrow> Inl e | Inr safeName \<Rightarrow> generateKey_ids uuid tenantId invoiceId safeName)"

text \<open>\<open>v > limit\<close>: false where the value is no number.\<close>

definition exceeds_size :: "jsval \<Rightarrow> int \<Rightarrow> bool" where
  "exceeds_size v n = (case to_number v of NFin q \<Rightarrow> of_int n < q | NPosInf \<Rightarrow> True | _ \<Rightarrow> False)"

record s3_client =
  s3_put :: "string \<Rightarrow> bool"
  s3_sign :: "string \<Rightarrow> int \<Rightarrow> string option"
  s3_get :: "jsval \<Rightarrow> nat list option"

text \<open>\<open>len\<close> is \<open>fileBuffer.length\<close>; the result is the key of the stored object.\<close>

definition uploadFile :: "s3_client \<Rightarrow> int \<Rightarrow> string \<Rightarrow> jsval \<Rightarrow> jsval \<Rightarrow> jsval \<Rightarrow> jsval \<Rightarrow> jsval \<Rightarrow> storage_error + string" where
  "uploadFile s3 maxFileSize uuid len fileName mimeType tenantId invoiceId =
     (if \<not> validateId tenantId then Inl INVALID_TENANT_ID
      else if \<not> validateId invoiceId then Inl INVALID_INVOICE_ID
      else if exceeds_size len maxFileSize then Inl FILE_TOO_LARGE
      else if \<not> validateMimeType_storage mimeType then Inl INVALID_MIME_TYPE
      else (case generateKey uuid tenantId invoiceId fileName of
          Inl e \<Rightarrow> Inl e
        | Inr key \<Rightarrow> if s3_put s3 key then Inr key else Inl StoreError))"

definition getPresignedUploadUrl ::
  "s3_client \<Rightarrow> int \<Rightarrow> string \<Rightarrow> jsval \<Rightarrow> jsval \<Rightarrow> jsval \<Rightarrow> jsval \<Rightarrow> jsval \<Rightarrow> storage_error + string \<times> string" where
  "getPresignedUploadUrl s3 maxFileSize uuid tenantId invoiceId fileName mimeType fileSize =
     (if \<not> validateId tenantId then Inl INVALID_TENANT_ID
      else if \<not> validateId invoiceId then Inl INVALID_INVOICE_ID
      else if \<not> validateMimeType_storage mimeType then Inl INVALID_MIME_TYPE
      else if exceeds_size fileSize maxFileSize then Inl FILE_TOO_LARGE
      else (case generateKey uuid tenantId invoiceId fileName of
          Inl e \<Rightarrow> Inl e
        | Inr key \<Rightarrow> (case s3_sign s3 key DEFAULT_UPLOAD_URL_EXPIRY_SEC of None \<Rightarrow> Inl StoreError | Some url \<Rightarrow> Inr (url, key))))"

text \<open>A number that is none passes both comparisons; the signer then decides.\<close>

definition getSignedUrl :: "s3_client \<Rightarrow> (string \<Rightarrow> string option) \<Rightarrow> string \<Rightarrow> jsval \<Rightarrow> storage_error + string" where
  "getSignedUrl s3 signNaN key expiresIn =
     (case to_number (if expiresIn = JUndef then JInt DEFAULT_DOWNLOAD_URL_EXPIRY_SEC else expiresIn) of
        NFin q \<Rightarrow>
          if \<lfloor>q\<rfloor> < 1 \<or> \<lfloor>q\<rfloor> > MAX_DOWNLOAD_URL_EXPIRY_SEC then Inl INVALID_EXPIRY
          else (case s3_sign s3 key \<lfloor>q\<rfloor> of None \<Rightarrow> Inl StoreError | Some url \<Rightarrow> Inr url)
      | NNaN \<Rightarrow> (case signNaN key of None \<Rightarrow> Inl StoreError | Some url \<Rightarrow> Inr url)
      | _ \<Rightarrow> Inl INVALID_EXPIRY)"

definition saveMetadata :: "(row \<Rightarrow> bool) \<Rightarrow> time \<Rightarrow> jsval \<Rightarrow> jsval \<Rightarrow> string \<Rightarrow> string \<Rightarrow> string \<Rightarrow> int \<Rightarrow> table \<Rightarrow> storage_error + table" where
  "saveMetadata ok now tenantId invoiceId key sha mime size_n t =
     (let r = [(''tenant_id'', tenantId), (''invoice_id'', invoiceId), (''s3_key'', JStr key), (''sha256'', JStr sha),
            (''mime_type'', JStr mime), (''size'', JInt size_n), (''created_at'', JInt now)]
      in if ok r then Inr (t @ [r]) else Inl StoreError)"

definition getMetadata :: "jsval \<Rightarrow> jsval \<Rightarrow> table \<Rightarrow> row option" where
  "getMetadata tenantId invoiceId t = List.find (\<lambda>r. col_eq ''tenant_id'' tenantId r \<and> col_eq ''invoice_id'' invoiceId r) t"

definition uploadFileInMemory :: "s3_client \<Rightarrow> string \<Rightarrow> string \<Rightarrow> 'b \<Rightarrow> (string, 'b) amap \<Rightarrow> storage_error + (string, 'b) amap" where
  "uploadFileInMemory s3 nodeEnv key body store =
     (if nodeEnv = ''test'' then Inr (AList.update key body store) else if s3_put s3 key then Inr store else Inl StoreError)"

definition getFile :: "s3_client \<Rightarrow> string \<Rightarrow> jsval \<Rightarrow> (string, nat list) amap \<Rightarrow> storage_error + nat list" where
  "getFile s3 nodeEnv key store =
     (case (if nodeEnv = ''test'' then (case key of JStr k \<Rightarrow> map_of store k | _ \<Rightarrow> None) else s3_get s3 key) of
        None \<Rightarrow> Inl StoreError | Some bytes \<Rightarrow> Inr bytes)"

section \<open>The probe\<close>

record storage_env =
  se_S3_BUCKET :: string
  se_STORAGE_IN_MEMORY :: string
  se_NODE_ENV :: string
  se_S3_HEALTHCHECK_ENABLED :: string
  se_AWS_ACCESS_KEY_ID :: string
  se_AWS_SECRET_ACCESS_KEY :: string
  se_TIMEOUT :: string

definition getConfiguredBucket :: "storage_env \<Rightarrow> string" where
  "getConfiguredBucket e = se_S3_BUCKET e"

definition isInMemoryFallbackActive :: "storage_env \<Rightarrow> bool" where
  "isInMemoryFallbackActive e =
     (if se_STORAGE_IN_MEMORY e = ''true'' then True
      else if se_STORAGE_IN_MEMORY e = ''false'' then False else se_NODE_ENV e = ''test'')"

definition isProbeExplicitlyDisabled :: "storage_env \<Rightarrow> bool" where
  "isProbeExplicitlyDisabled e \<longleftrightarrow> se_S3_HEALTHCHECK_ENABLED e = ''false''"

definition hasCredentialsConfigured :: "storage_env \<Rightarrow> bool" where
  "hasCredentialsConfigured e \<longleftrightarrow> se_AWS_ACCESS_KEY_ID e \<noteq> [] \<and> se_AWS_SECRET_ACCESS_KEY e \<noteq> []"

definition STORAGE_ERROR_HINTS :: "(string \<times> string) list" where
  "STORAGE_ERROR_HINTS =
     [(''NoSuchBucket'', ''configured bucket not found''), (''AccessDenied'', ''credentials lack permission to access bucket''),
      (''InvalidAccessKeyId'', ''AWS access key id rejected by object storage''),
      (''NetworkingError'', ''network error contacting object storage''), (''TimeoutError'', ''object storage probe timed out'')]"

definition sanitizeStorageError :: "jsval \<Rightarrow> string \<times> string" where
  "sanitizeStorageError err =
     (let name = (case err of JObj _ \<Rightarrow> (case js_get err ''name'' of JStr n \<Rightarrow> n | _ \<Rightarrow> ''UnknownError'') | _ \<Rightarrow> ''UnknownError'') in
      if name \<in> set SAFE_ERROR_NAMES
      then (name, case map_of STORAGE_ERROR_HINTS name of Some h \<Rightarrow> h | None \<Rightarrow> ''object storage unavailable'')
      else (''UnknownError'', ''object storage unreachable''))"

definition positive_int :: "jsval \<Rightarrow> int option" where
  "positive_int v = (case v of JNum (NFin q) \<Rightarrow> if is_integer_rat q \<and> 0 < q then Some \<lfloor>q\<rfloor> else None | _ \<Rightarrow> None)"

definition probe_timeout :: "storage_env \<Rightarrow> jsval \<Rightarrow> int" where
  "probe_timeout e option_ms =
     (let dflt = (case parse_int_str (se_TIMEOUT e) of Some n \<Rightarrow> if 0 < n then n else PROBE_TIMEOUT_MS | None \<Rightarrow> PROBE_TIMEOUT_MS)
      in case positive_int option_ms of Some n \<Rightarrow> n | None \<Rightarrow> dflt)"

text \<open>The answer of the bucket and the time it takes, None when it never comes; the race with the
  timer is decided by the times.\<close>

datatype probe_result = ProbeSkipped string bool bool | ProbeHealthy int | ProbeUnhealthy int string string

definition probeS3Connectivity :: "storage_env \<Rightarrow> jsval \<Rightarrow> (int \<times> (jsval + unit)) option \<Rightarrow> probe_result" where
  "probeS3Connectivity e option_ms answer =
     (let b = (getConfiguredBucket e \<noteq> []); c = hasCredentialsConfigured e; tmo = probe_timeout e option_ms;
          timed_out = (case sanitizeStorageError (JObj [(''name'', JStr ''TimeoutError'')]) of (cd, hint) \<Rightarrow> ProbeUnhealthy tmo cd hint) in
      if isProbeExplicitlyDisabled e then ProbeSkipped ''disabled'' b c
      else if isInMemoryFallbackActive e then ProbeSkipped ''in_memory'' b c
      else if \<not> b \<or> \<not> c then ProbeSkipped ''not_configured'' b c
      else (case answer of
          None \<Rightarrow> timed_out
        | Some (latency, r) \<Rightarrow>
            if tmo < latency then timed_out
            else (case r of
                Inr _ \<Rightarrow> ProbeHealthy latency
              | Inl err \<Rightarrow> (case sanitizeStorageError err of (cd, hint) \<Rightarrow> ProbeUnhealthy latency cd hint))))"

section \<open>File routes\<close>

text \<open>\<open>FileRaised\<close> is an error that leaves the handler and is answered by the error handler of the
  application.\<close>

datatype file_response = FileJson int jsval | FileBytes "nat list" | FileRaised

definition PDF_MAGIC_BYTES :: "nat list" where "PDF_MAGIC_BYTES = [37, 80, 68, 70]"

definition validatePdfMagicBytes :: "nat list option \<Rightarrow> bool" where
  "validatePdfMagicBytes buf = (case buf of None \<Rightarrow> False | Some bs \<Rightarrow> length bs \<ge> 4 \<and> take 4 bs = PDF_MAGIC_BYTES)"

definition validateMimeType :: "jsval \<Rightarrow> nat list option \<Rightarrow> string option" where
  "validateMimeType declaredType buf =
     (if \<not> truthy declaredType \<or> \<not> str_includes (str_of declaredType) ''application/pdf'' then Some ''Content-Type must be application/pdf''
      else if \<not> validatePdfMagicBytes buf then Some ''File content does not match declared MIME type application/pdf'' else None)"

definition bad_request :: "string \<Rightarrow> file_response" where
  "bad_request m = FileJson 400 (JObj [(''error'', JStr ''Bad Request''), (''message'', JStr m)])"

definition server_error :: "string \<Rightarrow> file_response" where
  "server_error m = FileJson 500 (JObj [(''error'', JStr ''Internal Server Error''), (''message'', JStr m)])"

definition no_file :: "string \<Rightarrow> file_response" where
  "no_file i = FileJson 404 (JObj [(''error'', JStr ''Not Found''), (''message'', JStr (''No file found for invoice '' @ i))])"

definition file_tenant :: "request \<Rightarrow> jsval" where
  "file_tenant req = js_or (js_or (js_get (rq_user req) ''id'') (js_get (rq_user req) ''sub'')) (JStr ''unknown'')"

fun error_message :: "storage_error \<Rightarrow> string" where
  "error_message INVALID_FILENAME = ''Invalid filename''"
| "error_message INVALID_TENANT_ID = ''Invalid tenant ID''"
| "error_message INVALID_INVOICE_ID = ''Invalid invoice ID''"
| "error_message FILE_TOO_LARGE = ''File size exceeds maximum''"
| "error_message INVALID_MIME_TYPE = ''Invalid MIME type''"
| "error_message INVALID_EXPIRY = ''Expiry must be between 1 and 86400 seconds''"
| "error_message StoreError = ''storage failure''"

definition CLIENT_ERRORS :: "string list" where
  "CLIENT_ERRORS = [''INVALID_MIME_TYPE'', ''FILE_TOO_LARGE'', ''INVALID_FILENAME'', ''INVALID_TENANT_ID'', ''INVALID_INVOICE_ID'', ''INVALID_EXPIRY'']"

text \<open>What the routes bind as the storage service: the module object, which has none of the methods
  (None), or an instance of the class.\<close>

record file_env =
  fe_s3 :: s3_client
  fe_nodeEnv :: string
  fe_maxFileSize :: int
  fe_uuid :: string
  fe_now :: time
  fe_iso :: string
  fe_sha256 :: "nat list \<Rightarrow> string"
  fe_ok :: "row \<Rightarrow> bool"

definition postPresignedUpload :: "file_env option \<Rightarrow> request \<Rightarrow> string \<Rightarrow> jsval \<Rightarrow> file_response" where
  "postPresignedUpload svc req i body =
     (let fileName = js_get body ''fileName''; mimeType = js_get body ''mimeType''; fileSize = js_get body ''fileSize'' in
      if trim i = [] then bad_request ''Invalid invoice ID''
      else if js_nullish body then server_error ''Failed to generate presigned upload URL''
      else if \<not> truthy fileName \<or> \<not> truthy mimeType \<or> js_nullish fileSize
      then bad_request ''fileName, mimeType, and fileSize are required''
      else (case svc of
          None \<Rightarrow> server_error ''Failed to generate presigned upload URL''
        | Some c \<Rightarrow>
            (case getPresignedUploadUrl (fe_s3 c) (fe_maxFileSize c) (fe_uuid c) (file_tenant req) (JStr i) fileName mimeType fileSize of
               Inl e \<Rightarrow>
                 if error_message e \<in> set CLIENT_ERRORS then bad_request (error_message e)
                 else server_error ''Failed to generate presigned upload URL''
             | Inr (url, key) \<Rightarrow>
                 FileJson 201 (JObj [(''data'', JObj [(''invoiceId'', JStr i), (''uploadUrl'', JStr url), (''fileKey'', JStr key)]),
                   (''message'', JStr ''Presigned upload URL generated'')]))))"

text \<open>The upload passes one object to \<open>uploadFile\<close>, whose parameters are positional: the object is taken
  for the buffer and has no length, file name and type are undefined, the ids take their defaults.\<close>

definition postFile :: "file_env option \<Rightarrow> request \<Rightarrow> string \<Rightarrow> nat list option \<Rightarrow> table \<Rightarrow> file_response \<times> table" where
  "postFile svc req i body t =
     (if trim i = [] then (bad_request ''Invalid invoice ID'', t)
      else (case body of
          None \<Rightarrow> (bad_request ''No file data provided'', t)
        | Some bs \<Rightarrow>
            if bs = [] then (bad_request ''No file data provided'', t)
            else (case validateMimeType (col ''content-type'' (rq_headers req)) body of
                Some m \<Rightarrow> (bad_request m, t)
              | None \<Rightarrow>
                  (case svc of
                     None \<Rightarrow> (FileRaised, t)
                   | Some c \<Rightarrow>
                       (case generateKey (fe_uuid c) (file_tenant req) (JStr i) (JStr (show_int (fe_now c) @ ''.pdf'')) of
                          Inl _ \<Rightarrow> (FileRaised, t)
                        | Inr key \<Rightarrow>
                            (case uploadFile (fe_s3 c) (fe_maxFileSize c) (fe_uuid c) JUndef JUndef JUndef (JStr ''unknown'') (JStr ''unknown'') of
                               Inl _ \<Rightarrow> (server_error ''Failed to store invoice file'', t)
                             | Inr _ \<Rightarrow>
                                 (case saveMetadata (fe_ok c) (fe_now c) (file_tenant req) (JStr i) key (fe_sha256 c bs) ''application/pdf'' (int (length bs)) t of
                                    Inl _ \<Rightarrow> (server_error ''Failed to store invoice file'', t)
                                  | Inr t' \<Rightarrow>
                                      (FileJson 201 (JObj [(''data'', JObj [(''invoiceId'', JStr i), (''fileHash'', JStr (fe_sha256 c bs)),
                                         (''fileSize'', JInt (int (length bs))), (''uploadedAt'', JStr (fe_iso c)), (''storageKey'', JStr key)]),
                                         (''message'', JStr ''Invoice file uploaded successfully'')]), t'))))))))"

definition getFileRoute :: "file_env option \<Rightarrow> request \<Rightarrow> string \<Rightarrow> (string, nat list) amap \<Rightarrow> table \<Rightarrow> file_response" where
  "getFileRoute svc req i store t =
     (if trim i = [] then bad_request ''Invalid invoice ID''
      else (case svc of
          None \<Rightarrow> FileRaised
        | Some c \<Rightarrow>
            (case getMetadata (file_tenant req) (JStr i) t of
               None \<Rightarrow> no_file i
             | Some meta \<Rightarrow>
                 (case getFile (fe_s3 c) (fe_nodeEnv c) (col ''key'' meta) store of
                    Inl _ \<Rightarrow> server_error ''Failed to retrieve invoice file''
                  | Inr bs \<Rightarrow> FileBytes bs))))"

definition verified_json :: "file_env \<Rightarrow> string \<Rightarrow> row \<Rightarrow> nat list \<Rightarrow> file_response" where
  "verified_json c i meta bs =
     (let currentHash = JStr (fe_sha256 c bs); isValid = (currentHash = col ''sha256'' meta) in
      FileJson 200 (JObj [(''data'', JObj [(''invoiceId'', JStr i), (''isValid'', JBool isValid), (''storedHash'', col ''sha256'' meta),
          (''currentHash'', currentHash), (''verifiedAt'', JStr (fe_iso c))]),
        (''message'', JStr (if isValid then ''File integrity verified'' else ''File integrity check failed''))]))"

definition getFileVerify :: "file_env option \<Rightarrow> request \<Rightarrow> string \<Rightarrow> (string, nat list) amap \<Rightarrow> table \<Rightarrow> file_response" where
  "getFileVerify svc req i store t =
     (if trim i = [] then bad_request ''Invalid invoice ID''
      else (case svc of
          None \<Rightarrow> FileRaised
        | Some c \<Rightarrow>
            (case getMetadata (file_tenant req) (JStr i) t of
               None \<Rightarrow> no_file i
             | Some meta \<Rightarrow>
                 (case getFile (fe_s3 c) (fe_nodeEnv c) (col ''key'' meta) store of
                    Inl _ \<Rightarrow> server_error ''Failed to verify invoice file''
                  | Inr bs \<Rightarrow> verified_json c i meta bs))))"

definition postFileVerify :: "file_env option \<Rightarrow> request \<Rightarrow> string \<Rightarrow> nat list option \<Rightarrow> table \<Rightarrow> file_response" where
  "postFileVerify svc req i body t =
     (if trim i = [] then bad_request ''Invalid invoice ID''
      else (case svc of
          None \<Rightarrow> FileRaised
        | Some c \<Rightarrow>
            (case getMetadata (file_tenant req) (JStr i) t of
               None \<Rightarrow> no_file i
             | Some meta \<Rightarrow>
                 (case body of
                    None \<Rightarrow> bad_request ''No file data provided for verification''
                  | Some bs \<Rightarrow> if bs = [] then bad_request ''No file data provided for verification'' else verified_json c i meta bs))))"

section \<open>Keys stay in their tenant\<close>

lemma validateIdD: "validateId v \<Longrightarrow> \<exists>s. v = JStr s \<and> s \<noteq> [] \<and> CHR ''/'' \<notin> set s"
proof -
  have "\<not> key_char (CHR ''/'')" by (simp add: key_char_def is_alnum_def is_alpha_def is_upper_def is_lower_def is_digit_def code_of_def)
  then show "validateId v \<Longrightarrow> \<exists>s. v = JStr s \<and> s \<noteq> [] \<and> CHR ''/'' \<notin> set s"
    by (auto simp: validateId_def list_all_iff split: jsval.splits)
qed

lemma sanitizeFilename_safe:
  assumes "sanitizeFilename f = Inr n"
  shows "length n \<le> 255 \<and> CHR ''/'' \<notin> set n \<and> CHR 92 \<notin> set n"
proof -
  obtain w where n: "n = take 255 (map (\<lambda>c. if bad_name_char c then CHR ''_'' else c) w)"
    using assms by (auto simp: sanitizeFilename_def Let_def split: jsval.splits if_splits)
  have "x \<noteq> CHR ''/'' \<and> x \<noteq> CHR 92" if "x \<in> set n" for x
    using in_set_takeD[OF that[unfolded n]] by (auto simp: bad_name_char_def split: if_splits)
  then show ?thesis by (auto simp: n)
qed

lemma generateKey_parts:
  assumes "generateKey uuid t i f = Inr key" "CHR ''/'' \<notin> set uuid"
  shows "\<exists>T I n. t = JStr T \<and> i = JStr I \<and> sanitizeFilename f = Inr n \<and> split_on CHR ''/'' key = [''tenants'', T, ''invoices'', I, uuid @ ''-'' @ n]"
proof -
  obtain n where n: "sanitizeFilename f = Inr n" and k: "generateKey_ids uuid t i n = Inr key"
    using assms(1) by (auto simp: generateKey_def split: sum.splits)
  from k obtain T I where T: "t = JStr T" "CHR ''/'' \<notin> set T" and I: "i = JStr I" "CHR ''/'' \<notin> set I"
    and key: "key = ''tenants/'' @ T @ ''/invoices/'' @ I @ ''/'' @ uuid @ ''-'' @ n"
    using validateIdD[of t] validateIdD[of i] by (auto simp: generateKey_ids_def str_of_def split: if_splits)
  have "key = ''tenants'' @ CHR ''/'' # T @ CHR ''/'' # ''invoices'' @ CHR ''/'' # I @ CHR ''/'' # uuid @ ''-'' @ n"
    by (simp add: key)
  moreover have "CHR ''/'' \<notin> set (uuid @ ''-'' @ n)" using assms(2) sanitizeFilename_safe[OF n] by simp
  ultimately have "split_on CHR ''/'' key = [''tenants'', T, ''invoices'', I, uuid @ ''-'' @ n]"
    using T(2) I(2) by (simp only: split_on_append split_on_none) (simp add: split_on_append split_on_none)
  with T I n show ?thesis by blast
qed

text \<open>C19: Object keys are confined to their tenant and invoice: whatever the file name, the key has exactly
  the five segments the service builds, its last one keeps a name of at most 255 characters without
  slashes, and equal keys mean equal tenant and invoice.\<close>

theorem storage_keys_confined:
  assumes "generateKey uuid t i f = Inr key" "generateKey uuid' t' i' f' = Inr key'" "CHR ''/'' \<notin> set uuid" "CHR ''/'' \<notin> set uuid'"
  shows "(\<exists>n. split_on CHR ''/'' key = [''tenants'', str_of t, ''invoices'', str_of i, uuid @ ''-'' @ n] \<and> length n \<le> 255 \<and> CHR 92 \<notin> set n) \<and>
    (key = key' \<longrightarrow> t = t' \<and> i = i')"
  using generateKey_parts[OF assms(1,3)] generateKey_parts[OF assms(2,4)] sanitizeFilename_safe[of f]
  by (auto simp: str_of_def)

theorem storage_keys_confined_witness:
  "\<exists>n. split_on CHR ''/'' ''tenants/t/invoices/7/u-a.pdf'' = [''tenants'', str_of (JStr ''t''), ''invoices'', str_of (JStr ''7''), ''u'' @ ''-'' @ n]"
proof -
  have "generateKey ''u'' (JStr ''t'') (JStr ''7'') (JStr ''x/../a.pdf'') = Inr ''tenants/t/invoices/7/u-a.pdf''" by code_simp
  from storage_keys_confined[OF this this] show ?thesis by auto
qed

text \<open>Removing NUL characters after the test for parent segments can rebuild one; the name is then only
  the end of a longer segment.\<close>

lemma nul_rebuilds_dots: "sanitizeFilename (JStr [CHR ''.'', CHR 0x00, CHR ''.'']) = Inr ''..''"
  by code_simp

text \<open>A size that is no number passes the limit.\<close>

lemma size_not_checked: "\<not> exceeds_size (JObj []) n" "\<not> exceeds_size (JStr ''abc'') n"
proof -
  have "str_to_number ''abc'' = NNaN" by code_simp
  then show "\<not> exceeds_size (JStr ''abc'') n" by (simp add: exceeds_size_def)
qed (simp add: exceeds_size_def)

section \<open>The probe tells nothing it should not\<close>

lemma sanitizeStorageError_safe: "fst (sanitizeStorageError err) \<in> insert ''UnknownError'' (set SAFE_ERROR_NAMES)"
  by (auto simp: sanitizeStorageError_def Let_def)

lemma probe_sound:
  "probeS3Connectivity e ms answer = ProbeHealthy l \<Longrightarrow> answer = Some (l, Inr ()) \<and> l \<le> probe_timeout e ms \<and> hasCredentialsConfigured e \<and> se_S3_BUCKET e \<noteq> []"
  "probeS3Connectivity e ms answer = ProbeUnhealthy l cd hint \<Longrightarrow> cd \<in> insert ''UnknownError'' (set SAFE_ERROR_NAMES) \<and> l \<le> probe_timeout e ms"
proof -
  show "probeS3Connectivity e ms answer = ProbeHealthy l \<Longrightarrow> answer = Some (l, Inr ()) \<and> l \<le> probe_timeout e ms \<and> hasCredentialsConfigured e \<and> se_S3_BUCKET e \<noteq> []"
    by (auto simp: probeS3Connectivity_def getConfiguredBucket_def Let_def split: if_splits option.splits prod.splits sum.splits)
  have "cd \<in> insert ''UnknownError'' (set SAFE_ERROR_NAMES)" if "sanitizeStorageError x = (cd, h)" for x h
    using sanitizeStorageError_safe[of x] that by simp
  then show "probeS3Connectivity e ms answer = ProbeUnhealthy l cd hint \<Longrightarrow> cd \<in> insert ''UnknownError'' (set SAFE_ERROR_NAMES) \<and> l \<le> probe_timeout e ms"
    unfolding probeS3Connectivity_def Let_def
    by (simp split: if_splits option.splits prod.splits sum.splits)
qed

section \<open>The file routes\<close>

lemma upload_by_object_fails: "uploadFile s3 n u JUndef JUndef JUndef (JStr ''unknown'') (JStr ''unknown'') = Inl INVALID_MIME_TYPE"
proof -
  have "validateId (JStr ''unknown'')" by code_simp
  then show ?thesis by (auto simp: uploadFile_def exceeds_size_def validateMimeType_storage_def)
qed

lemma codes_are_not_messages: "error_message e \<notin> set CLIENT_ERRORS"
  by (cases e) (simp_all add: CLIENT_ERRORS_def)

text \<open>No upload through the file route ever succeeds or changes the table, linked as it is or with an
  instance of the service: the object argument fails the type check. As it is linked every file route
  that reaches the service fails.\<close>

theorem file_routes_broken:
  "snd (postFile svc req i body t) = t \<and> (\<forall>v. fst (postFile svc req i body t) \<noteq> FileJson 201 v) \<and>
   (\<forall>v. postPresignedUpload None req i pbody \<noteq> FileJson 201 v) \<and>
   getFileRoute None req i store t \<in> {bad_request ''Invalid invoice ID'', FileRaised} \<and>
   getFileVerify None req i store t \<in> {bad_request ''Invalid invoice ID'', FileRaised} \<and>
   postFileVerify None req i body t \<in> {bad_request ''Invalid invoice ID'', FileRaised}"
proof (intro conjI)
  have p: "postFile svc req i body t \<in> {(bad_request m, t) | m. True} \<union> {(FileRaised, t), (server_error ''Failed to store invoice file'', t)}"
    unfolding postFile_def upload_by_object_fails by (auto split: option.splits sum.splits)
  then show "snd (postFile svc req i body t) = t" "\<forall>v. fst (postFile svc req i body t) \<noteq> FileJson 201 v"
    by (auto simp: bad_request_def server_error_def)
  show "\<forall>v. postPresignedUpload None req i pbody \<noteq> FileJson 201 v"
    by (simp add: postPresignedUpload_def bad_request_def server_error_def Let_def)
  show "getFileRoute None req i store t \<in> {bad_request ''Invalid invoice ID'', FileRaised}"
    "getFileVerify None req i store t \<in> {bad_request ''Invalid invoice ID'', FileRaised}"
    "postFileVerify None req i body t \<in> {bad_request ''Invalid invoice ID'', FileRaised}"
    by (simp_all add: getFileRoute_def getFileVerify_def postFileVerify_def)
qed

text \<open>With an instance, a refusal by the service is answered with 500, never with 400: the handler
  compares messages with codes.\<close>

lemma refusals_are_500:
  assumes "postPresignedUpload (Some c) req i pbody = FileJson st v"
  shows "st = 201 \<or> st = 500 \<or> FileJson st v \<in> {bad_request ''Invalid invoice ID'', bad_request ''fileName, mimeType, and fileSize are required''}"
  using assms codes_are_not_messages unfolding postPresignedUpload_def Let_def
  by (auto simp: server_error_def split: if_splits sum.splits prod.splits)

text \<open>The metadata of the first upload is found again; a second one does not replace it.\<close>

lemma metadata_roundtrip:
  assumes "saveMetadata ok now tn i key sha mime n t = Inr t'" "\<not> js_nullish tn" "\<not> js_nullish i"
  shows "getMetadata tn i t' =
    (case getMetadata tn i t of Some r \<Rightarrow> Some r | None \<Rightarrow> Some [(''tenant_id'', tn), (''invoice_id'', i), (''s3_key'', JStr key), (''sha256'', JStr sha),
       (''mime_type'', JStr mime), (''size'', JInt n), (''created_at'', JInt now)])"
  using assms by (auto simp: saveMetadata_def getMetadata_def find_append col_eq_def col_def Let_def split: if_splits option.splits)

text \<open>The verification of a given file answers whether its hash is the recorded one, and only for the
  records of the caller.\<close>

lemma verification_exact:
  assumes "trim i \<noteq> []" "getMetadata (file_tenant req) (JStr i) t = Some meta" "bs \<noteq> []"
  shows "\<exists>m. postFileVerify (Some c) req i (Some bs) t = FileJson 200 (JObj [(''data'', JObj [(''invoiceId'', JStr i),
      (''isValid'', JBool (col ''sha256'' meta = JStr (fe_sha256 c bs))), (''storedHash'', col ''sha256'' meta),
      (''currentHash'', JStr (fe_sha256 c bs)), (''verifiedAt'', JStr (fe_iso c))]), (''message'', m)])"
  using assms by (auto simp: postFileVerify_def verified_json_def Let_def)

text \<open>The routes do not authenticate: without a user all callers share the tenant \<open>unknown\<close>.\<close>

lemma anonymous_tenant: "rq_user req = JUndef \<Longrightarrow> file_tenant req = JStr ''unknown''"
  by (simp add: file_tenant_def js_or_def)

end
