(* ===== verification/CacheStore.thy ===== *)
theory CacheStore
  imports Prelude
begin

text \<open>
  The in-memory cache with time-to-live and least-recently-used eviction of
  \<open>src/src/services/cacheStore.js\<close>, and the response cache of \<open>src/src/middleware/cache.js\<close> with its
  keys (\<open>src/src/utils/investorLockScope.js\<close>).

  The insertion-ordered map is an association list whose last element is the most recently used
  one. The locale \<open>sound_cache\<close> states what a client relies on: a hit returns the value last stored
  under the key, within its lifetime. It is interpreted on the store here and on the footprint
  cache in the theory of the simulator.
\<close>

section \<open>MemoryCacheStore\<close>

record 'v entry =
  entry_value :: 'v
  expiresAt :: time

record 'v mem_cache =
  maxEntries :: "nat option"
  cache :: "(string, 'v entry) amap"

text \<open>\<open>None\<close> stands for the bound \<open>Infinity\<close>.\<close>

definition new_MemoryCacheStore :: "int option \<Rightarrow> 'v mem_cache" where
  "new_MemoryCacheStore opt =
     (let n = (case opt of None \<Rightarrow> 5000 | Some n \<Rightarrow> n)
      in \<lparr>maxEntries = (if n > 0 then Some (nat n) else None), cache = []\<rparr>)"

text \<open>Delete and insert again, so that the entry becomes the most recently used one.\<close>

definition touch :: "'k \<Rightarrow> 'v \<Rightarrow> ('k, 'v) amap \<Rightarrow> ('k, 'v) amap" where
  "touch k v m = AList.delete k m @ [(k, v)]"

definition cache_get :: "time \<Rightarrow> string \<Rightarrow> 'v mem_cache \<Rightarrow> 'v option \<times> 'v mem_cache" where
  "cache_get now key c =
     (case map_of (cache c) key of
        None \<Rightarrow> (None, c)
      | Some entry \<Rightarrow>
          if now > expiresAt entry then (None, c\<lparr>cache := AList.delete key (cache c)\<rparr>)
          else (Some (entry_value entry), c\<lparr>cache := touch key entry (cache c)\<rparr>))"

text \<open>The eviction loop: remove the first key while there are too many.\<close>

function evict :: "nat \<Rightarrow> ('k, 'v) amap \<Rightarrow> ('k, 'v) amap" where
  "evict n m = (if length m > n then evict n (AList.delete (fst (hd m)) m) else m)"
  by pat_completeness auto
termination
proof (relation "measure (\<lambda>(n, m). length m)", goal_cases)
  case (2 n m)
  then obtain k v m' where "m = (k, v) # m'" by (cases m) auto
  then show ?case using length_amap_delete_le[of k m'] by simp
qed simp

declare evict.simps [simp del]

definition cache_set :: "time \<Rightarrow> string \<Rightarrow> 'v \<Rightarrow> int \<Rightarrow> 'v mem_cache \<Rightarrow> 'v mem_cache" where
  "cache_set now key v ttlMs c =
     (let m = touch key \<lparr>entry_value = v, expiresAt = now + ttlMs\<rparr> (cache c)
      in c\<lparr>cache := (case maxEntries c of None \<Rightarrow> m | Some n \<Rightarrow> evict n m)\<rparr>)"

definition cache_del :: "string \<Rightarrow> 'v mem_cache \<Rightarrow> 'v mem_cache" where
  "cache_del key c = c\<lparr>cache := AList.delete key (cache c)\<rparr>"

definition cache_keys :: "time \<Rightarrow> 'v mem_cache \<Rightarrow> string list \<times> 'v mem_cache" where
  "cache_keys now c =
     (let live = filter (\<lambda>(k, e). now \<le> expiresAt e) (cache c)
      in (map fst live, c\<lparr>cache := live\<rparr>))"

definition cache_delByPrefix :: "time \<Rightarrow> string \<Rightarrow> 'v mem_cache \<Rightarrow> 'v mem_cache" where
  "cache_delByPrefix now pre c =
     c\<lparr>cache := filter (\<lambda>(k, e). \<not> now > expiresAt e \<and> \<not> starts_with k pre) (cache c)\<rparr>"

definition cache_clear :: "'v mem_cache \<Rightarrow> 'v mem_cache" where
  "cache_clear c = c\<lparr>cache := []\<rparr>"

section \<open>Response caching\<close>

text \<open>A request as the middleware sees it, and the response: the headers of the cache and the body
  that is sent. The handler behind the middleware answers with a status and a body.\<close>

record cache_request =
  cacheControl :: "string option"
  req_key :: string

record cache_response =
  xCache :: "string option"
  sent :: jsval
  handlerCalled :: bool

definition cacheResponse ::
  "int \<Rightarrow> bool \<Rightarrow> bool \<Rightarrow> time \<Rightarrow> time \<Rightarrow> cache_request \<Rightarrow> int \<times> jsval \<Rightarrow> jsval mem_cache \<Rightarrow>
   cache_response \<times> jsval mem_cache" where
  "cacheResponse ttl get_ok set_ok now later req handler c =
     (let pass = \<lparr>xCache = None, sent = snd handler, handlerCalled = True\<rparr> in
      if (case cacheControl req of None \<Rightarrow> False | Some cc \<Rightarrow> str_includes cc ''no-cache'')
      then (pass, c)
      else if \<not> get_ok then (pass, c)
      else (case cache_get now (req_key req) c of
          (Some v, c1) \<Rightarrow>
            if v \<noteq> JUndef then (\<lparr>xCache = Some ''HIT'', sent = v, handlerCalled = False\<rparr>, c1)
            else (pass\<lparr>xCache := Some ''MISS''\<rparr>,
              if 200 \<le> fst handler \<and> fst handler < 300 \<and> set_ok
              then cache_set later (req_key req) (snd handler) ttl c1 else c1)
        | (None, c1) \<Rightarrow> (pass\<lparr>xCache := Some ''MISS''\<rparr>,
              if 200 \<le> fst handler \<and> fst handler < 300 \<and> set_ok
              then cache_set later (req_key req) (snd handler) ttl c1 else c1)))"

definition invalidatePrefix :: "bool \<Rightarrow> time \<Rightarrow> string \<Rightarrow> 'v mem_cache \<Rightarrow> 'v mem_cache" where
  "invalidatePrefix store_ok now pre c = (if store_ok then cache_delByPrefix now pre c else c)"

section \<open>Keys\<close>

definition isInvestorLockAdmin :: "jsval \<Rightarrow> bool" where
  "isInvestorLockAdmin user \<longleftrightarrow>
     (case js_get user ''role'' of JStr r \<Rightarrow> to_lower r \<in> {''admin'', ''owner''} | _ \<Rightarrow> False) \<or>
     (case js_get user ''permissions'' of
        JArr ps \<Rightarrow> JStr ''investor:locks:read:any'' \<in> set ps | _ \<Rightarrow> False)"

definition funder_address_claims :: "string list" where
  "funder_address_claims = [''funderAddress'', ''walletAddress'', ''stellarAddress'', ''investorAddress'']"

fun first_address :: "jsval \<Rightarrow> string list \<Rightarrow> string option" where
  "first_address user [] = None"
| "first_address user (cl # cls) =
     (case js_get user cl of
        JStr v \<Rightarrow> if trim v \<noteq> [] then Some (trim v) else first_address user cls
      | _ \<Rightarrow> first_address user cls)"

definition getBoundFunderAddress :: "jsval \<Rightarrow> string option" where
  "getBoundFunderAddress user = first_address user funder_address_claims"

definition getInvestorLockPrincipalScope :: "jsval \<Rightarrow> string" where
  "getInvestorLockPrincipalScope user =
     (if isInvestorLockAdmin user
      then ''admin:'' @ (case js_get user ''role'' of JStr r \<Rightarrow> to_lower r | _ \<Rightarrow> ''permission'')
      else ''funder:'' @ (case getBoundFunderAddress user of None \<Rightarrow> ''unbound'' | Some a \<Rightarrow> a))"

definition tenant_or_unknown :: "string option \<Rightarrow> string" where
  "tenant_or_unknown t = (case t of None \<Rightarrow> ''unknown'' | Some s \<Rightarrow> if s = [] then ''unknown'' else s)"

definition makeMarketplaceKey :: "string option \<Rightarrow> string \<Rightarrow> string" where
  "makeMarketplaceKey tenantId url = ''marketplace:'' @ tenant_or_unknown tenantId @ '':'' @ url"

definition makeInvestorLocksKey :: "string option \<Rightarrow> jsval \<Rightarrow> string \<Rightarrow> string" where
  "makeInvestorLocksKey tenantId user url =
     ''investor:locks:'' @ tenant_or_unknown tenantId @ '':'' @
     getInvestorLockPrincipalScope user @ '':'' @ url"

definition makeInvestorLockKey :: "string option \<Rightarrow> jsval \<Rightarrow> string \<Rightarrow> string \<Rightarrow> string" where
  "makeInvestorLockKey tenantId user invoiceId funderAddress =
     ''investor:lock:'' @ tenant_or_unknown tenantId @ '':'' @
     getInvestorLockPrincipalScope user @ '':'' @ invoiceId @ '':'' @ funderAddress"

section \<open>What a client of a cache relies on\<close>

text \<open>
  \<open>peek c k\<close> is the value and the expiry held under a key; a query carries the time it is made.
  No operation invents an entry: \<open>put\<close>
  stores the new value with its lifetime under its key, and everything else an operation does is to
  forget entries.
\<close>

datatype ('q, 'k, 'x) cache_op = Get 'q 'k | Put time 'k 'x | Del 'k

text \<open>The last operation of a history that wrote or removed a key, as a value with its expiry.\<close>

fun write_step ::
  "('x \<Rightarrow> 'v) \<Rightarrow> ('x \<Rightarrow> int) \<Rightarrow> 'k \<Rightarrow> ('v \<times> time) option \<Rightarrow> ('q, 'k, 'x) cache_op \<Rightarrow> ('v \<times> time) option" where
  "write_step val life k w (Get _ _) = w"
| "write_step val life k w (Put t k' x) = (if k' = k then Some (val x, t + life x) else w)"
| "write_step val life k w (Del k') = (if k' = k then None else w)"

definition last_write ::
  "('x \<Rightarrow> 'v) \<Rightarrow> ('x \<Rightarrow> int) \<Rightarrow> 'k \<Rightarrow> ('q, 'k, 'x) cache_op list \<Rightarrow> ('v \<times> time) option" where
  "last_write val life k ops = foldl (write_step val life k) None ops"

locale sound_cache =
  fixes get :: "'q \<Rightarrow> 'k \<Rightarrow> 'c \<Rightarrow> 'v option \<times> 'c"
    and asked :: "'q \<Rightarrow> time"
    and put :: "time \<Rightarrow> 'k \<Rightarrow> 'x \<Rightarrow> 'c \<Rightarrow> 'c"
    and del :: "'k \<Rightarrow> 'c \<Rightarrow> 'c"
    and peek :: "'c \<Rightarrow> 'k \<Rightarrow> ('v \<times> time) option"
    and val :: "'x \<Rightarrow> 'v"
    and life :: "'x \<Rightarrow> int"
    and ok :: "'c \<Rightarrow> bool"
  assumes get_hit: "ok c \<Longrightarrow> fst (get q k c) = Some v \<Longrightarrow> \<exists>e. peek c k = Some (v, e) \<and> asked q \<le> e"
    and get_forgets: "ok c \<Longrightarrow> peek (snd (get q k c)) k' = Some p \<Longrightarrow> peek c k' = Some p"
    and put_same: "ok c \<Longrightarrow> peek (put t k x c) k = Some p \<Longrightarrow> p = (val x, t + life x)"
    and put_other: "ok c \<Longrightarrow> k' \<noteq> k \<Longrightarrow> peek (put t k x c) k' = Some p \<Longrightarrow> peek c k' = Some p"
    and del_same: "ok c \<Longrightarrow> peek (del k c) k = None"
    and del_other: "ok c \<Longrightarrow> peek (del k c) k' = Some p \<Longrightarrow> peek c k' = Some p"
    and ok_get: "ok c \<Longrightarrow> ok (snd (get q k c))"
    and ok_put: "ok c \<Longrightarrow> ok (put t k x c)"
    and ok_del: "ok c \<Longrightarrow> ok (del k c)"
begin

fun run1 :: "'c \<Rightarrow> ('q, 'k, 'x) cache_op \<Rightarrow> 'c" where
  "run1 c (Get t k) = snd (get t k c)"
| "run1 c (Put t k x) = put t k x c"
| "run1 c (Del k) = del k c"

lemma ok_run1: "ok c \<Longrightarrow> ok (run1 c a)"
  by (cases a) (auto intro: ok_get ok_put ok_del)

lemma ok_run: "ok c \<Longrightarrow> ok (foldl run1 c ops)"
  by (induction ops arbitrary: c) (auto intro: ok_run1)

lemma peek_run1:
  assumes "ok c" "peek (run1 c a) k = Some p" "peek c k = Some p \<Longrightarrow> w = Some p"
  shows "write_step val life k w a = Some p"
proof (cases a)
  case (Get t k')
  then show ?thesis using assms get_forgets[of c t k' k p] by simp
next
  case (Put t k' x)
  then show ?thesis
    using assms put_same[of c t k x p] put_other[of c k k' t x p] by (cases "k' = k") auto
next
  case (Del k')
  then show ?thesis using assms del_same[of c k] del_other[of c k' k p] by (cases "k' = k") auto
qed

lemma peek_run:
  assumes "ok c" "peek (foldl run1 c ops) k = Some p" "\<And>q. peek c k = Some q \<Longrightarrow> w = Some q"
  shows "foldl (write_step val life k) w ops = Some p"
  using assms(2)
proof (induction ops arbitrary: p rule: rev_induct)
  case Nil
  then show ?case using assms(3) by simp
next
  case (snoc a ops)
  have "ok (foldl run1 c ops)" using assms(1) by (rule ok_run)
  then have "write_step val life k (foldl (write_step val life k) w ops) a = Some p"
    using snoc by (intro peek_run1[of "foldl run1 c ops"]) auto
  then show ?case by simp
qed

text \<open>A hit never lies: started from an empty cache, the value returned is the one the history last
  wrote under the key, and its lifetime has not passed.\<close>

lemma hit_is_last_write:
  assumes "ok c" "\<And>k. peek c k = None" "fst (get t k (foldl run1 c ops)) = Some v"
  shows "\<exists>e. last_write val life k ops = Some (v, e) \<and> asked t \<le> e"
proof -
  from get_hit[OF ok_run[OF assms(1)] assms(3)] obtain e
    where e: "peek (foldl run1 c ops) k = Some (v, e)" "asked t \<le> e" by blast
  from peek_run[OF assms(1) e(1), of None] assms(2) e(2) show ?thesis
    by (simp add: last_write_def)
qed

end

section \<open>The store is a sound cache\<close>

lemma map_of_touch: "map_of (touch k v m) = (map_of m)(k \<mapsto> v)"
  by (rule ext) (simp add: touch_def map_add_def amap_get_delete split: option.splits)

lemma wf_touch: "amap_wf m \<Longrightarrow> amap_wf (touch k v m)"
  by (auto simp: touch_def amap_keys_delete)

lemma evict_drop: "amap_wf m \<Longrightarrow> evict n m = drop (length m - n) m"
proof (induction n m rule: evict.induct)
  case (1 n m)
  show ?case
  proof (cases "length m > n")
    case True
    then obtain k v m' where m: "m = (k, v) # m'" by (cases m) auto
    then have "AList.delete (fst (hd m)) m = m'"
      using 1(2) by (simp add: delete_idem)
    with 1 True m show ?thesis by (subst evict.simps) (auto simp: Suc_diff_le)
  qed (simp add: evict.simps)
qed

lemma map_of_drop:
  assumes "amap_wf m" "map_of (drop i m) k = Some v"
  shows "map_of m k = Some v"
  using assms by (metis in_set_dropD map_of_SomeD map_of_eq_Some_iff)

definition store_ok :: "'v mem_cache \<Rightarrow> bool" where
  "store_ok c \<longleftrightarrow> amap_wf (cache c) \<and> (case maxEntries c of None \<Rightarrow> True | Some n \<Rightarrow> length (cache c) \<le> n)"

definition store_peek :: "'v mem_cache \<Rightarrow> string \<Rightarrow> ('v \<times> time) option" where
  "store_peek c k = map_option (\<lambda>e. (entry_value e, expiresAt e)) (map_of (cache c) k)"

lemma length_touch: "length (touch k v m) = (if k \<in> set (amap_keys m) then length m else Suc (length m))"
  if "amap_wf m"
proof -
  have "length (AList.delete k m) = length (filter (\<lambda>x. x \<noteq> k) (amap_keys m))"
    by (metis amap_keys_delete length_map)
  also have "\<dots> = (if k \<in> set (amap_keys m) then length m - 1 else length m)"
    using that by (induction m) (auto dest: length_pos_if_in_set)
  finally show ?thesis by (auto simp: touch_def dest: length_pos_if_in_set)
qed

lemma cache_get_cases:
  obtains (miss) "map_of (cache c) k = None" "cache_get t k c = (None, c)"
  | (expired) e where "map_of (cache c) k = Some e" "expiresAt e < t"
      "cache_get t k c = (None, c\<lparr>cache := AList.delete k (cache c)\<rparr>)"
  | (hit) e where "map_of (cache c) k = Some e" "t \<le> expiresAt e"
      "cache_get t k c = (Some (entry_value e), c\<lparr>cache := touch k e (cache c)\<rparr>)"
proof (cases "map_of (cache c) k")
  case (Some e)
  then show ?thesis using expired[of e] hit[of e] by (cases "expiresAt e < t") (simp_all add: cache_get_def)
qed (simp add: miss cache_get_def)

lemma store_ok_set: "store_ok c \<Longrightarrow> store_ok (cache_set t k v ttl c)"
  by (auto simp: store_ok_def cache_set_def Let_def wf_touch evict_drop distinct_drop
      drop_map[symmetric] split: option.splits)

lemma store_ok_get:
  assumes "store_ok c"
  shows "store_ok (snd (cache_get t k c))"
proof (cases rule: cache_get_cases[of c k t])
  case miss
  then show ?thesis using assms by simp
next
  case (expired e)
  then show ?thesis using assms order_trans[OF length_amap_delete_le[of k "cache c"]]
    by (simp add: store_ok_def split: option.splits)
next
  case (hit e)
  have "k \<in> set (amap_keys (cache c))" using map_of_SomeD[OF hit(1)] by force
  then have "length (touch k e (cache c)) = length (cache c)"
    using assms by (simp add: store_ok_def length_touch del: set_map)
  then show ?thesis using hit assms by (simp add: store_ok_def wf_touch split: option.splits)
qed

lemma peek_get:
  assumes "store_peek (snd (cache_get t k c)) k' = Some p"
  shows "store_peek c k' = Some p"
proof (cases rule: cache_get_cases[of c k t])
  case miss
  then show ?thesis using assms by simp
next
  case (expired e)
  then show ?thesis using assms by (cases "k' = k") (simp_all add: store_peek_def)
next
  case (hit e)
  then show ?thesis using assms by (cases "k' = k") (simp_all add: store_peek_def map_of_touch)
qed

lemma store_ok_del: "store_ok c \<Longrightarrow> store_ok (cache_del k c)"
  by (auto simp: store_ok_def cache_del_def intro: order_trans[OF length_amap_delete_le]
      split: option.splits)

lemma peek_set_same:
  assumes "store_ok c" "store_peek (cache_set t k v ttl c) k = Some p"
  shows "p = (v, t + ttl)"
proof -
  let ?m = "touch k \<lparr>entry_value = v, expiresAt = t + ttl\<rparr> (cache c)"
  have wf: "amap_wf ?m" using assms(1) by (simp add: store_ok_def wf_touch)
  obtain e where e: "map_of (cache (cache_set t k v ttl c)) k = Some e"
    "p = (entry_value e, expiresAt e)" using assms(2) by (auto simp: store_peek_def)
  from e(1) have "map_of ?m k = Some e"
    by (auto simp: cache_set_def Let_def evict_drop[OF wf] split: option.splits
        intro: map_of_drop[OF wf])
  with e(2) show ?thesis by (auto simp: map_of_touch)
qed

lemma peek_set_other:
  assumes "store_ok c" "k' \<noteq> k" "store_peek (cache_set t k v ttl c) k' = Some p"
  shows "store_peek c k' = Some p"
proof -
  let ?m = "touch k \<lparr>entry_value = v, expiresAt = t + ttl\<rparr> (cache c)"
  have wf: "amap_wf ?m" using assms(1) by (simp add: store_ok_def wf_touch)
  obtain e where e: "map_of (cache (cache_set t k v ttl c)) k' = Some e"
    "p = (entry_value e, expiresAt e)" using assms(3) by (auto simp: store_peek_def)
  from e(1) have "map_of ?m k' = Some e"
    by (auto simp: cache_set_def Let_def evict_drop[OF wf] split: option.splits
        intro: map_of_drop[OF wf])
  with e(2) assms(2) show ?thesis by (auto simp: map_of_touch store_peek_def)
qed

interpretation mem: sound_cache cache_get "\<lambda>t. t" "\<lambda>t k x. cache_set t k (fst x) (snd x)" cache_del store_peek
  fst snd store_ok
proof (unfold_locales, goal_cases)
  case (1 c t k v)
  then show ?case by (cases rule: cache_get_cases[of c k t]) (auto simp: store_peek_def)
next
  case (2 c t k k' p)
  show ?case by (rule peek_get[OF 2(2)])
next
  case (3 c t k x p)
  then show ?case by (rule peek_set_same)
next
  case (4 c k' k t x p)
  then show ?case by (rule peek_set_other)
next
  case (5 c k)
  then show ?case by (simp add: store_peek_def cache_del_def)
next
  case (6 c k k' p)
  then show ?case by (cases "k' = k") (auto simp: store_peek_def cache_del_def)
next
  case (7 c t k)
  then show ?case by (rule store_ok_get)
next
  case (8 c t k x)
  then show ?case by (rule store_ok_set)
next
  case (9 c k)
  then show ?case by (rule store_ok_del)
qed

lemma new_store_ok: "store_ok (new_MemoryCacheStore opt)"
  by (simp add: store_ok_def new_MemoryCacheStore_def Let_def)

section \<open>Least recently used\<close>

text \<open>An entry that is followed in the list only by keys of \<open>S\<close> has not been used since the last
  use of any of them.\<close>

definition only_behind :: "string \<Rightarrow> string set \<Rightarrow> 'v mem_cache \<Rightarrow> bool" where
  "only_behind k S c \<longleftrightarrow> (\<exists>xs e ys. cache c = xs @ (k, e) # ys \<and> fst ` set ys \<subseteq> S)"

lemma only_behind_mono: "only_behind k S c \<Longrightarrow> S \<subseteq> T \<Longrightarrow> only_behind k T c"
  unfolding only_behind_def by (meson subset_trans)

lemma only_behind_delete:
  assumes "cache c = xs @ (k, e) # ys" "fst ` set ys \<subseteq> S" "k' \<noteq> k"
  shows "\<exists>xs' ys'. AList.delete k' (cache c) = xs' @ (k, e) # ys' \<and> fst ` set ys' \<subseteq> S"
proof -
  have d: "AList.delete k' (us @ vs) = AList.delete k' us @ AList.delete k' vs" for us vs :: "(string \<times> 'a entry) list"
    by (induction us) auto
  have "AList.delete k' (cache c) = AList.delete k' xs @ (k, e) # AList.delete k' ys"
    using assms by (simp add: d)
  moreover have "fst ` set (AList.delete k' ys) \<subseteq> S"
    using dom_delete_subset[of k' ys] assms(2) by (rule subset_trans)
  ultimately show ?thesis by blast
qed

lemma only_behind_touch:
  assumes "cache c = xs @ (k, e) # ys" "fst ` set ys \<subseteq> S" "k' \<noteq> k" "k' \<in> S"
  shows "\<exists>xs' ys'. touch k' v (cache c) = xs' @ (k, e) # ys' \<and> fst ` set ys' \<subseteq> S"
proof -
  from only_behind_delete[OF assms(1-3)] obtain xs' ys'
    where "AList.delete k' (cache c) = xs' @ (k, e) # ys'" "fst ` set ys' \<subseteq> S" by blast
  with assms(4) show ?thesis
    by (intro exI[of _ xs'] exI[of _ "ys' @ [(k', v)]"]) (simp add: touch_def)
qed

lemma only_behind_get:
  assumes "only_behind k S c" "k' \<in> S" "k' \<noteq> k"
  shows "only_behind k S (snd (cache_get t k' c))"
proof -
  from assms(1) obtain xs e ys where c: "cache c = xs @ (k, e) # ys" "fst ` set ys \<subseteq> S"
    by (auto simp: only_behind_def)
  note d = only_behind_delete[OF c assms(3)] and u = only_behind_touch[OF c assms(3,2)]
  show ?thesis
  proof (cases rule: cache_get_cases[of c k' t])
    case miss
    then show ?thesis using assms(1) by simp
  next
    case (expired e')
    then show ?thesis using d by (auto simp: only_behind_def)
  next
    case (hit e')
    then show ?thesis using u[of e'] by (auto simp: only_behind_def)
  qed
qed

lemma only_behind_set:
  assumes "only_behind k S c" "k' \<in> S" "k' \<noteq> k" "finite S" "store_ok c" "k \<notin> S"
    and n: "case maxEntries c of None \<Rightarrow> True | Some n \<Rightarrow> card S < n"
  shows "only_behind k S (cache_set t k' v ttl c)"
proof -
  let ?x = "\<lparr>entry_value = v, expiresAt = t + ttl\<rparr>"
  from assms(1) obtain xs0 e ys0 where "cache c = xs0 @ (k, e) # ys0" "fst ` set ys0 \<subseteq> S"
    by (auto simp: only_behind_def)
  from only_behind_touch[OF this assms(3,2), of ?x] obtain xs ys
    where m: "touch k' ?x (cache c) = xs @ (k, e) # ys" "fst ` set ys \<subseteq> S" by blast
  have wf: "amap_wf (touch k' ?x (cache c))" using assms(5) by (simp add: store_ok_def wf_touch)
  then have "distinct (map fst ys)" using m(1) by simp
  then have len: "length ys \<le> card S"
    using m(2) assms(4) by (metis card_mono distinct_card length_map list.set_map)
  show ?thesis
  proof (cases "maxEntries c")
    case None
    then show ?thesis using m by (auto simp: only_behind_def cache_set_def Let_def)
  next
    case (Some n)
    then have "length ys < n" using len n by simp
    then have "length (xs @ (k, e) # ys) - n \<le> length xs" by simp
    then have "drop (length (xs @ (k, e) # ys) - n) (xs @ (k, e) # ys) =
        drop (length (xs @ (k, e) # ys) - n) xs @ (k, e) # ys" by simp
    then show ?thesis using Some m wf
      by (auto simp: only_behind_def cache_set_def Let_def evict_drop)
  qed
qed

abbreviation mem_run ::
  "'v mem_cache \<Rightarrow> (time, string, 'v \<times> int) cache_op \<Rightarrow> 'v mem_cache" where
  "mem_run \<equiv> mem.run1"

fun op_key :: "('q, 'k, 'x) cache_op \<Rightarrow> 'k" where
  "op_key (Get _ k) = k"
| "op_key (Put _ k _) = k"
| "op_key (Del k) = k"

lemma maxEntries_run1 [simp]: "maxEntries (mem_run c a) = maxEntries c"
  by (cases a) (auto simp: cache_get_def cache_set_def cache_del_def Let_def split: option.splits)

lemma only_behind_run:
  assumes "only_behind k S c" "store_ok c" "finite S" "k \<notin> S" "\<forall>a\<in>set ops. op_key a \<in> S"
    "case maxEntries c of None \<Rightarrow> True | Some n \<Rightarrow> card S < n"
  shows "only_behind k S (foldl mem_run c ops)"
  using assms
proof (induction ops arbitrary: c)
  case (Cons a ops)
  have "only_behind k S (mem_run c a)"
  proof (cases a)
    case (Get t k')
    then show ?thesis using Cons.prems by (auto intro: only_behind_get)
  next
    case (Put t k' x)
    then show ?thesis using Cons.prems by (auto intro!: only_behind_set)
  next
    case (Del k')
    have ne: "k' \<noteq> k" using Del Cons.prems(4,5) by auto
    from Cons.prems(1) obtain xs e ys where "cache c = xs @ (k, e) # ys" "fst ` set ys \<subseteq> S"
      by (auto simp: only_behind_def)
    from only_behind_delete[OF this ne] Del show ?thesis by (auto simp: only_behind_def cache_del_def)
  qed
  then show ?case using Cons.prems by (simp add: Cons.IH mem.ok_run1)
qed simp

lemma set_only_behind:
  assumes "store_ok c" "case maxEntries c of None \<Rightarrow> True | Some n \<Rightarrow> 0 < n"
  shows "only_behind k {} (cache_set t k v ttl c)"
proof -
  let ?m = "touch k \<lparr>entry_value = v, expiresAt = t + ttl\<rparr> (cache c)"
  have wf: "amap_wf ?m" using assms(1) by (simp add: store_ok_def wf_touch)
  have "drop (length ?m - n) ?m = drop (length ?m - n) (AList.delete k (cache c)) @
      [(k, \<lparr>entry_value = v, expiresAt = t + ttl\<rparr>)]" if "0 < n" for n
    using that by (simp add: touch_def)
  then show ?thesis using assms(2) evict_drop[OF wf]
    by (auto simp: only_behind_def cache_set_def Let_def touch_def split: option.splits)
qed

section \<open>Properties\<close>

text \<open>C9: A cache hit never lies. After any history of gets, sets and deletes on a new store, a get
  that returns a value returns the one last set under that key, not deleted since, and only while
  its time to live has not passed.\<close>

theorem cache_hit_is_last_write:
  assumes "fst (cache_get t k (foldl mem_run (new_MemoryCacheStore opt) ops)) = Some v"
  shows "\<exists>e. last_write fst snd k ops = Some (v, e) \<and> t \<le> e"
  by (rule mem.hit_is_last_write[OF new_store_ok _ assms])
    (simp add: store_peek_def new_MemoryCacheStore_def Let_def)

theorem cache_hit_is_last_write_witness:
  "\<exists>e. last_write fst snd ''k'' ([Put 0 ''k'' (''v1'', 10), Put 5 ''k'' (''v2'', 10)] ::
      (time, string, string \<times> int) cache_op list) = Some (''v2'', e) \<and> 15 \<le> e"
proof -
  have "fst (cache_get 15 ''k'' (foldl mem_run (new_MemoryCacheStore None)
      [Put 0 ''k'' (''v1'', 10), Put 5 ''k'' (''v2'', 10)])) = Some ''v2''"
    by (simp add: new_MemoryCacheStore_def cache_set_def cache_get_def touch_def Let_def evict.simps)
  then show ?thesis by (rule cache_hit_is_last_write)
qed

text \<open>Eviction is least recently used and keeps the bound. The store never holds more than
  \<open>maxEntries\<close> entries, and an entry that has just been set survives any further operations on
  fewer than \<open>maxEntries\<close> other keys.\<close>

theorem lru_keeps_recent:
  assumes "finite S" "k \<notin> S" "card S < n" "\<forall>a\<in>set later. op_key a \<in> S"
  shows "length (cache (foldl mem_run (new_MemoryCacheStore (Some (int n))) ops)) \<le> n \<and>
    amap_has (cache (foldl mem_run
      (cache_set t k v ttl (foldl mem_run (new_MemoryCacheStore (Some (int n))) ops)) later)) k"
proof -
  let ?c = "foldl mem_run (new_MemoryCacheStore (Some (int n))) ops"
  have ok: "store_ok ?c" by (rule mem.ok_run[OF new_store_ok])
  have "maxEntries (foldl mem_run c os) = maxEntries c" for c :: "'a mem_cache" and os
    by (induction os arbitrary: c) auto
  then have m: "maxEntries ?c = Some n"
    using assms(3) by (simp add: new_MemoryCacheStore_def Let_def)
  have "only_behind k {} (cache_set t k v ttl ?c)"
    using assms(3) by (intro set_only_behind ok) (simp add: m)
  then have "only_behind k S (cache_set t k v ttl ?c)" by (rule only_behind_mono) simp
  moreover have "maxEntries (cache_set t k v ttl ?c) = Some n"
    using m by (simp add: cache_set_def Let_def)
  ultimately have "only_behind k S (foldl mem_run (cache_set t k v ttl ?c) later)"
    using assms by (intro only_behind_run store_ok_set ok) auto
  moreover have "length (cache ?c) \<le> n" using ok m by (simp add: store_ok_def)
  ultimately show ?thesis by (auto simp: only_behind_def amap_has_def)
qed

theorem lru_keeps_recent_witness:
  "amap_has (cache (foldl mem_run (cache_set 1 ''a'' (7 :: int) 10
     (foldl mem_run (new_MemoryCacheStore (Some (int 2))) [])) [Put 2 ''b'' (8, 10), Put 3 ''b'' (9, 10)])) ''a''"
  using lru_keeps_recent[of "{''b''}" "''a''" 2 "[Put 2 ''b'' (8, 10), Put 3 ''b'' (9, 10)]" "[]" 1 "7 :: int" 10]
  by simp

lemma get_after_prefix:
  assumes "store_ok c" "starts_with k pre"
  shows "fst (cache_get t k (cache_delByPrefix now pre c)) = None"
proof -
  have "map_of (cache (cache_delByPrefix now pre c)) k = None"
    using assms(2) by (auto simp: cache_delByPrefix_def map_of_eq_None_iff)
  then show ?thesis by (simp add: cache_get_def)
qed

lemma get_after_set:
  assumes "store_ok c" "case maxEntries c of None \<Rightarrow> True | Some n \<Rightarrow> 0 < n" "t \<le> now + ttl"
  shows "fst (cache_get t k (cache_set now k v ttl c)) = Some v"
proof -
  have ok: "store_ok (cache_set now k v ttl c)" by (rule store_ok_set[OF assms(1)])
  from set_only_behind[OF assms(1,2), of k now v ttl] obtain xs e
    where "cache (cache_set now k v ttl c) = xs @ [(k, e)]" by (auto simp: only_behind_def)
  moreover have "k \<notin> fst ` set xs" using ok calculation by (simp add: store_ok_def)
  ultimately have m: "map_of (cache (cache_set now k v ttl c)) k = Some e"
    by (simp add: map_add_def map_of_eq_None_iff[THEN iffD2])
  with peek_set_same[OF assms(1), of now k v ttl] have "entry_value e = v" "expiresAt e = now + ttl"
    by (auto simp: store_peek_def)
  with m assms(3) show ?thesis by (simp add: cache_get_def)
qed

text \<open>The response cache is transparent. A request with \<open>no-cache\<close> or during an outage of the
  store reaches the handler and gets its answer; after a miss answered with a 2xx status, the same
  request within the time to live is a hit with the same body and does not reach the handler; an
  answer with another status is not stored; and after the prefix of its key has been invalidated
  the request reaches the handler again.\<close>

theorem response_cache_transparent:
  assumes "store_ok c" "case maxEntries c of None \<Rightarrow> True | Some n \<Rightarrow> 0 < n"
    "cacheControl req = None" "body \<noteq> JUndef"
    "cacheResponse ttl True True now now' req (st, body) c = (r, c')" "handlerCalled r"
  shows "sent r = body \<and>
    (200 \<le> st \<and> st < 300 \<and> t \<le> now' + ttl \<longrightarrow>
       fst (cacheResponse ttl True sok t t' req h c') =
         \<lparr>xCache = Some ''HIT'', sent = body, handlerCalled = False\<rparr>) \<and>
    (\<not> (200 \<le> st \<and> st < 300) \<longrightarrow> c' = snd (cache_get now (req_key req) c)) \<and>
    (starts_with (req_key req) pre \<longrightarrow>
       handlerCalled (fst (cacheResponse ttl True sok t t' req h (invalidatePrefix True t pre c')))) \<and>
    cacheResponse ttl False sok t t' req h c' =
      (\<lparr>xCache = None, sent = snd h, handlerCalled = True\<rparr>, c')"
proof -
  let ?c1 = "snd (cache_get now (req_key req) c)"
  have ok1: "store_ok ?c1" by (rule store_ok_get[OF assms(1)])
  have m1: "maxEntries ?c1 = maxEntries c" by (simp add: cache_get_def split: option.splits)
  have r: "sent r = body" and c': "c' = (if 200 \<le> st \<and> st < 300
      then cache_set now' (req_key req) body ttl ?c1 else ?c1)"
    using assms(3,5,6)
    by (auto simp: cacheResponse_def Let_def split: prod.splits option.splits if_splits)
  have ok': "store_ok c'" using c' ok1 store_ok_set by auto
  have "fst (cacheResponse ttl True sok t t' req h c') =
      \<lparr>xCache = Some ''HIT'', sent = body, handlerCalled = False\<rparr>"
    if "200 \<le> st \<and> st < 300 \<and> t \<le> now' + ttl"
    using get_after_set[OF ok1, of t now' ttl "req_key req" body] that assms(2-4) m1 c'
    by (auto simp: cacheResponse_def Let_def split: prod.splits)
  moreover have "handlerCalled (fst (cacheResponse ttl True sok t t' req h
      (invalidatePrefix True t pre c')))" if "starts_with (req_key req) pre"
    using get_after_prefix[OF ok' that, of t t] assms(3)
    by (auto simp: cacheResponse_def invalidatePrefix_def Let_def split: prod.splits)
  ultimately show ?thesis using r c' assms(3) by (auto simp: cacheResponse_def Let_def)
qed

theorem response_cache_transparent_witness:
  "let req = \<lparr>cacheControl = None, req_key = ''marketplace:t1:/m''\<rparr>;
       c0 = new_MemoryCacheStore None;
       c' = snd (cacheResponse 100 True True 0 1 req (200, JStr ''list'') c0)
   in fst (cacheResponse 100 True True 50 51 req (500, JNull) c') =
        \<lparr>xCache = Some ''HIT'', sent = JStr ''list'', handlerCalled = False\<rparr>"
proof -
  let ?req = "\<lparr>cacheControl = None, req_key = ''marketplace:t1:/m''\<rparr>"
  let ?c0 = "new_MemoryCacheStore None :: jsval mem_cache"
  let ?x = "cacheResponse 100 True True 0 1 ?req (200, JStr ''list'') ?c0"
  have "handlerCalled (fst ?x)"
    by (simp add: cacheResponse_def cache_get_def new_MemoryCacheStore_def Let_def)
  from response_cache_transparent[OF new_store_ok _ _ _ prod.collapse[symmetric] this,
      where t = 50 and sok = True and t' = 51 and h = "(500, JNull)"]
  show ?thesis by (simp add: new_MemoryCacheStore_def Let_def)
qed

text \<open>Cache keys isolate tenants. For tenant ids without a colon, two marketplace keys are
  equal only if tenant and URL are equal, and two investor-lock-list keys only if the tenants are
  equal; keys of the three families never coincide.\<close>

theorem cache_keys_isolate_tenants:
  assumes "CHR '':'' \<notin> set t1" "CHR '':'' \<notin> set t2"
  shows "(makeMarketplaceKey (Some t1) u1 = makeMarketplaceKey (Some t2) u2 \<longrightarrow>
      tenant_or_unknown (Some t1) = tenant_or_unknown (Some t2) \<and> u1 = u2) \<and>
    (makeInvestorLocksKey (Some t1) p1 u1 = makeInvestorLocksKey (Some t2) p2 u2 \<longrightarrow>
      tenant_or_unknown (Some t1) = tenant_or_unknown (Some t2)) \<and>
    (makeInvestorLockKey (Some t1) p1 i1 f1 = makeInvestorLockKey (Some t2) p2 i2 f2 \<longrightarrow>
      tenant_or_unknown (Some t1) = tenant_or_unknown (Some t2)) \<and>
    makeMarketplaceKey x u1 \<noteq> makeInvestorLocksKey y p2 u2 \<and>
    makeMarketplaceKey x u1 \<noteq> makeInvestorLockKey y p2 i2 f2 \<and>
    makeInvestorLocksKey x p1 u1 \<noteq> makeInvestorLockKey y p2 i2 f2"
proof -
  have "CHR '':'' \<notin> set (tenant_or_unknown (Some t1))" "CHR '':'' \<notin> set (tenant_or_unknown (Some t2))"
    using assms by (auto simp: tenant_or_unknown_def)
  note c = split_at_colon[OF this]
  show ?thesis
    unfolding makeMarketplaceKey_def makeInvestorLocksKey_def makeInvestorLockKey_def
    by (intro conjI impI) (use c in \<open>simp; fail\<close>)+
qed

theorem cache_keys_isolate_tenants_witness:
  "makeMarketplaceKey (Some ''acme'') ''/m'' \<noteq> makeMarketplaceKey (Some ''zeta'') ''/m''"
  using cache_keys_isolate_tenants[of "''acme''" "''zeta''" "''/m''" "''/m''"]
  by (auto simp: tenant_or_unknown_def)

end
