(* ===== verification/TokenMeta.thy ===== *)
theory TokenMeta
  imports CacheStore Commitment
begin

text \<open>
  Token metadata (\<open>src/src/services/tokenMeta.js\<close>): validation of asset descriptors, cache keys, the
  cache with one fetch in flight for each key, and the batch lookup.

  A lookup runs to its first await at once; the fetch it starts completes later, after any other calls.
  The checks of Stellar addresses and the outcome of the contract call are arguments.
\<close>

section \<open>Assets\<close>

definition DEFAULT_CACHE_TTL_MS :: int where "DEFAULT_CACHE_TTL_MS = 30 * 60 * 1000"
definition MAX_CACHE_SIZE :: int where "MAX_CACHE_SIZE = 10000"

definition asset_code_ok :: "string \<Rightarrow> bool" where
  "asset_code_ok s \<longleftrightarrow> 1 \<le> length s \<and> length s \<le> 12 \<and> list_all (\<lambda>c. is_upper c \<or> is_digit c) s"

definition native_code :: "jsval \<Rightarrow> bool" where
  "native_code c \<longleftrightarrow> c = JStr ''native'' \<or> c = JStr ''XLM''"

definition text_value :: "jsval \<Rightarrow> string" where
  "text_value v = (case v of JStr s \<Rightarrow> s | _ \<Rightarrow> [])"

text \<open>Keys are built after validation, when code, issuer and contract id are strings or absent.\<close>

definition generateCacheKey_token :: "jsval \<Rightarrow> string" where
  "generateCacheKey_token asset =
     (let c = js_get asset ''code''; k = js_get asset ''contractId''; i = js_get asset ''issuer'' in
      if native_code c then ''native''
      else if truthy k then ''contract:'' @ text_value k
      else if truthy i then text_value c @ '':'' @ text_value i
      else ''code:'' @ text_value c)"

text \<open>None: valid; otherwise the reason.\<close>

definition validateAsset :: "(string \<Rightarrow> bool) \<Rightarrow> (string \<Rightarrow> bool) \<Rightarrow> jsval \<Rightarrow> string option" where
  "validateAsset pk ct asset =
     (let c = js_get asset ''code''; k = js_get asset ''contractId''; i = js_get asset ''issuer'' in
      if \<not> truthy asset \<or> js_typeof asset \<noteq> ''object'' then Some ''Asset must be an object''
      else if native_code c then (if \<not> js_nullish i then Some ''Native XLM must not have an issuer'' else None)
      else if \<not> truthy c \<or> js_typeof c \<noteq> ''string'' then Some ''Asset code is required''
      else if \<not> asset_code_ok (text_value c) then Some ''Asset code must be 1-12 alphanumeric characters''
      else if truthy k
      then (if js_typeof k \<noteq> ''string'' then Some ''Contract ID must be a string''
            else if \<not> isValidStellarContractAddress ct k then Some ''Invalid Soroban contract ID format''
            else if \<not> js_nullish i then Some ''Soroban tokens must not have an issuer'' else None)
      else if truthy i
      then (if js_typeof i \<noteq> ''string'' then Some ''Issuer must be a string''
            else if \<not> isValidStellarAccountAddress pk i then Some ''Invalid Stellar public key format for issuer'' else None)
      else Some ''Issuer is required for non-native assets'')"

section \<open>Sources\<close>

definition token_json :: "string \<Rightarrow> string \<Rightarrow> int \<Rightarrow> string \<Rightarrow> jsval" where
  "token_json symbol name decimals source =
     JObj [(''symbol'', JStr symbol), (''name'', JStr name), (''decimals'', JInt decimals), (''source'', JStr source)]"

definition fetchFromHorizon :: "string \<Rightarrow> jsval" where
  "fetchFromHorizon c = token_json c (c @ '' Token'') 7 ''horizon''"

text \<open>\<open>call\<close> is what \<open>callSorobanContract\<close> makes of the operation, which returns a fixed description.\<close>

definition fetchFromSoroban :: "(jsval \<Rightarrow> jsval + jsval) \<Rightarrow> string \<Rightarrow> jsval" where
  "fetchFromSoroban call contractId =
     (case call (token_json ''TOKEN'' ''Mock Token'' 18 ''soroban'') of
        Inr v \<Rightarrow> v
      | Inl _ \<Rightarrow> token_json (take 4 contractId) ''Soroban Token'' 18 ''soroban_fallback'')"

definition fetchNativeMetadata :: jsval where
  "fetchNativeMetadata = token_json ''XLM'' ''Lumen'' 7 ''native''"

definition fetch_token :: "(jsval \<Rightarrow> jsval + jsval) \<Rightarrow> jsval \<Rightarrow> jsval" where
  "fetch_token call asset =
     (if native_code (js_get asset ''code'') then fetchNativeMetadata
      else if truthy (js_get asset ''contractId'') then fetchFromSoroban call (text_value (js_get asset ''contractId''))
      else fetchFromHorizon (text_value (js_get asset ''code'')))"

definition stamped :: "time \<Rightarrow> jsval \<Rightarrow> jsval" where
  "stamped now v = (case v of JObj kvs \<Rightarrow> JObj (AList.update ''cachedAt'' (JInt now) kvs) | _ \<Rightarrow> v)"

section \<open>Lookups\<close>

record token_state =
  ts_cache :: "jsval mem_cache"
  ts_inflight :: "(string, jsval \<times> int) amap"

datatype lookup = Rejected string | Hit jsval | Joined string | Started string

definition getTokenMetadata ::
  "(string \<Rightarrow> bool) \<Rightarrow> (string \<Rightarrow> bool) \<Rightarrow> time \<Rightarrow> jsval \<Rightarrow> int option \<Rightarrow> bool \<Rightarrow> token_state \<Rightarrow> lookup \<times> token_state" where
  "getTokenMetadata pk ct now asset ttl skipCache s =
     (case validateAsset pk ct asset of
        Some reason \<Rightarrow> (Rejected reason, s)
      | None \<Rightarrow>
          let key = generateCacheKey_token asset;
              (cached, c1) = (if skipCache then (None, ts_cache s) else cache_get now key (ts_cache s))
          in case cached of
               Some v \<Rightarrow> (Hit v, s\<lparr>ts_cache := c1\<rparr>)
             | None \<Rightarrow>
                 if amap_has (ts_inflight s) key then (Joined key, s\<lparr>ts_cache := c1\<rparr>)
                 else (Started key, s\<lparr>ts_cache := c1,
                   ts_inflight := AList.update key (asset, case ttl of Some n \<Rightarrow> n | None \<Rightarrow> DEFAULT_CACHE_TTL_MS) (ts_inflight s)\<rparr>))"

definition getFreshTokenMetadata :: "(string \<Rightarrow> bool) \<Rightarrow> (string \<Rightarrow> bool) \<Rightarrow> time \<Rightarrow> jsval \<Rightarrow> token_state \<Rightarrow> lookup \<times> token_state" where
  "getFreshTokenMetadata pk ct now asset s = getTokenMetadata pk ct now asset None True s"

text \<open>The fetch of a key completes: its value goes to everyone who waits for the key.\<close>

definition complete_fetch :: "time \<Rightarrow> (jsval \<Rightarrow> jsval + jsval) \<Rightarrow> string \<Rightarrow> token_state \<Rightarrow> jsval option \<times> token_state" where
  "complete_fetch now call key s =
     (case map_of (ts_inflight s) key of
        None \<Rightarrow> (None, s)
      | Some (asset, ttl) \<Rightarrow>
          let v = stamped now (fetch_token call asset)
          in (Some v, s\<lparr>ts_cache := cache_set now key v ttl (ts_cache s), ts_inflight := AList.delete key (ts_inflight s)\<rparr>))"

definition invalidateTokenMetadata :: "(string \<Rightarrow> bool) \<Rightarrow> (string \<Rightarrow> bool) \<Rightarrow> time \<Rightarrow> jsval \<Rightarrow> token_state \<Rightarrow> bool \<times> token_state" where
  "invalidateTokenMetadata pk ct now asset s =
     (case validateAsset pk ct asset of
        Some _ \<Rightarrow> (False, s)
      | None \<Rightarrow>
          let key = generateCacheKey_token asset in
          (case cache_get now key (ts_cache s) of (cached, c1) \<Rightarrow> (cached \<noteq> None, s\<lparr>ts_cache := cache_del key c1\<rparr>)))"

definition clearTokenCache :: "token_state \<Rightarrow> token_state" where
  "clearTokenCache s = s\<lparr>ts_cache := cache_clear (ts_cache s)\<rparr>"

definition getCacheStats_token :: "token_state \<Rightarrow> nat \<times> int \<times> int" where
  "getCacheStats_token s = (length (cache (ts_cache s)), MAX_CACHE_SIZE, DEFAULT_CACHE_TTL_MS)"

fun batchGetTokenMetadata ::
  "(string \<Rightarrow> bool) \<Rightarrow> (string \<Rightarrow> bool) \<Rightarrow> time \<Rightarrow> jsval list \<Rightarrow> int option \<Rightarrow> bool \<Rightarrow> token_state \<Rightarrow> lookup list \<times> token_state" where
  "batchGetTokenMetadata pk ct now [] ttl skipCache s = ([], s)"
| "batchGetTokenMetadata pk ct now (a # as) ttl skipCache s =
     (case getTokenMetadata pk ct now a ttl skipCache s of
        (r, s1) \<Rightarrow> (case batchGetTokenMetadata pk ct now as ttl skipCache s1 of (rs, s2) \<Rightarrow> (r # rs, s2)))"

section \<open>Many assets\<close>

text \<open>The first phase: keys seen, results by key, missing assets, and the cache.\<close>

record resolve_state =
  rv_seen :: "string list"
  rv_missing :: "(jsval \<times> string) list"
  rv_results :: "(string, jsval) amap"
  rv_cache :: "jsval mem_cache"

definition resolve_check :: "(string \<Rightarrow> bool) \<Rightarrow> (string \<Rightarrow> bool) \<Rightarrow> time \<Rightarrow> jsval \<Rightarrow> resolve_state \<Rightarrow> resolve_state" where
  "resolve_check pk ct now asset s =
     (if validateAsset pk ct asset \<noteq> None then s
      else let key = generateCacheKey_token asset in
        if key \<in> set (rv_seen s) then s
        else (case cache_get now key (rv_cache s) of
            (Some v, c) \<Rightarrow> s\<lparr>rv_seen := rv_seen s @ [key], rv_cache := c, rv_results := AList.update key v (rv_results s)\<rparr>
          | (None, c) \<Rightarrow> s\<lparr>rv_seen := rv_seen s @ [key], rv_cache := c, rv_missing := rv_missing s @ [(asset, key)]\<rparr>))"

text \<open>The second phase: the workers take the missing assets one after the other; \<open>looked_up\<close> is what the
  lookup of an asset returns, null where it raises. With no worker nothing is looked up.\<close>

definition worker_count :: "jsval \<Rightarrow> nat \<Rightarrow> nat" where
  "worker_count concurrency n =
     (case to_number (if concurrency = JUndef then JInt 5 else concurrency) of
        NFin q \<Rightarrow> nat \<lceil>min q (of_nat n)\<rceil> | NPosInf \<Rightarrow> n | _ \<Rightarrow> 0)"

definition resolve_missing :: "nat \<Rightarrow> (jsval \<Rightarrow> jsval option) \<Rightarrow> (jsval \<times> string) list \<Rightarrow> (string, jsval) amap \<Rightarrow> (string, jsval) amap" where
  "resolve_missing workers looked_up missing results =
     (if workers = 0 then results
      else foldl (\<lambda>m (a, k). AList.update k (case looked_up a of Some v \<Rightarrow> v | None \<Rightarrow> JNull) m) results missing)"

definition resolveMany ::
  "(string \<Rightarrow> bool) \<Rightarrow> (string \<Rightarrow> bool) \<Rightarrow> time \<Rightarrow> jsval \<Rightarrow> (jsval \<Rightarrow> jsval option) \<Rightarrow> jsval list \<Rightarrow> jsval mem_cache \<Rightarrow> jsval list" where
  "resolveMany pk ct now concurrency looked_up assets c =
     (let s = fold (resolve_check pk ct now) assets \<lparr>rv_seen = [], rv_missing = [], rv_results = [], rv_cache = c\<rparr>;
          results = resolve_missing (worker_count concurrency (length (rv_missing s))) looked_up (rv_missing s) (rv_results s)
      in map (\<lambda>a. if validateAsset pk ct a \<noteq> None then JNull
           else (case map_of results (generateCacheKey_token a) of Some v \<Rightarrow> js_or v JNull | None \<Rightarrow> JNull)) assets)"

section \<open>Keys name one token\<close>

lemma no_colon_in_code: "asset_code_ok s \<Longrightarrow> CHR '':'' \<notin> set s"
proof -
  have "\<not> (is_upper (CHR '':'') \<or> is_digit (CHR '':''))" by (simp add: is_upper_def is_digit_def code_of_def)
  then show "asset_code_ok s \<Longrightarrow> CHR '':'' \<notin> set s" by (auto simp: asset_code_ok_def list_all_iff)
qed

lemma code_not_contract: "asset_code_ok s \<Longrightarrow> s \<noteq> ''contract''"
  by (auto simp: asset_code_ok_def is_upper_def is_digit_def code_of_def)

text \<open>The three shapes of a valid asset, with their keys.\<close>

lemma valid_cases:
  assumes "validateAsset pk ct a = None"
  obtains (native) "native_code (js_get a ''code'')" "generateCacheKey_token a = ''native''"
  | (contract) k where "\<not> native_code (js_get a ''code'')" "js_get a ''contractId'' = JStr k" "k \<noteq> []" "generateCacheKey_token a = ''contract:'' @ k"
  | (issued) c i where "\<not> native_code (js_get a ''code'')" "\<not> truthy (js_get a ''contractId'')" "js_get a ''code'' = JStr c" "asset_code_ok c"
      "generateCacheKey_token a = c @ '':'' @ i"
proof -
  have str: "v = JStr (text_value v)" if "js_typeof v = ''string''" for v using that by (cases v) (simp_all add: text_value_def)
  show thesis
  proof (cases "native_code (js_get a ''code'')")
    case True
    then show thesis using native by (simp add: generateCacheKey_token_def)
  next
    case nn: False
    have ok: "js_typeof (js_get a ''code'') = ''string''" "asset_code_ok (text_value (js_get a ''code''))"
      using assms nn by (simp_all add: validateAsset_def Let_def split: if_splits)
    show thesis
    proof (cases "truthy (js_get a ''contractId'')")
      case True
      then have "js_typeof (js_get a ''contractId'') = ''string''" using assms nn by (simp add: validateAsset_def Let_def split: if_splits)
      from str[OF this] obtain k where k: "js_get a ''contractId'' = JStr k" by blast
      then show thesis using contract[OF nn k] True nn by (simp add: generateCacheKey_token_def Let_def text_value_def)
    next
      case False
      then have "truthy (js_get a ''issuer'')" using assms nn by (simp add: validateAsset_def Let_def split: if_splits)
      then show thesis using issued[of "text_value (js_get a ''code'')"] str[OF ok(1)] ok(2) False nn
        by (simp add: generateCacheKey_token_def Let_def)
    qed
  qed
qed

lemma same_key_same_token:
  assumes "validateAsset pk ct a = None" "validateAsset pk ct b = None" "generateCacheKey_token a = generateCacheKey_token b"
  shows "fetch_token call a = fetch_token call b"
  using assms(1)
proof (cases rule: valid_cases)
  case native
  show ?thesis
    using assms(2)
  proof (cases rule: valid_cases)
    case (issued c i)
    then have "CHR '':'' \<in> set ''native''" using native(2) assms(3) by (metis in_set_conv_decomp append_Cons append_Nil)
    then show ?thesis by simp
  qed (use native assms(3) in \<open>simp_all add: fetch_token_def\<close>)
next
  case a: (contract k)
  show ?thesis
    using assms(2)
  proof (cases rule: valid_cases)
    case (contract k')
    then show ?thesis using a assms(3) by (simp add: fetch_token_def text_value_def)
  next
    case (issued c i)
    have "''contract'' @ '':'' @ k = c @ '':'' @ i" using a(4) issued(5) assms(3) by simp
    from split_at_colon[OF _ no_colon_in_code[OF issued(4)] this] have "c = ''contract''" by simp
    then show ?thesis using code_not_contract[OF issued(4)] by simp
  qed (use a assms(3) in simp)
next
  case a: (issued c i)
  show ?thesis
    using assms(2)
  proof (cases rule: valid_cases)
    case native
    then have "CHR '':'' \<in> set ''native''" using a(5) assms(3) by (metis in_set_conv_decomp append_Cons append_Nil)
    then show ?thesis by simp
  next
    case (contract k)
    have "''contract'' @ '':'' @ k = c @ '':'' @ i" using a(5) contract(4) assms(3) by simp
    from split_at_colon[OF _ no_colon_in_code[OF a(4)] this] have "c = ''contract''" by simp
    then show ?thesis using code_not_contract[OF a(4)] by simp
  next
    case (issued c' i')
    have "c @ '':'' @ i = c' @ '':'' @ i'" using a(5) issued(5) assms(3) by simp
    from split_at_colon[OF no_colon_in_code[OF a(4)] no_colon_in_code[OF issued(4)] this]
    show ?thesis using a issued by (simp add: fetch_token_def text_value_def)
  qed
qed

section \<open>No token gets the metadata of another\<close>

inductive token_run :: "(string \<Rightarrow> bool) \<Rightarrow> (string \<Rightarrow> bool) \<Rightarrow> token_state \<Rightarrow> bool" for pk ct where
  start: "token_run pk ct \<lparr>ts_cache = new_MemoryCacheStore None, ts_inflight = []\<rparr>"
| lookup: "token_run pk ct s \<Longrightarrow> token_run pk ct (snd (getTokenMetadata pk ct now a ttl skip s))"
| complete: "token_run pk ct s \<Longrightarrow> token_run pk ct (snd (complete_fetch now call k s))"
| invalidate: "token_run pk ct s \<Longrightarrow> token_run pk ct (snd (invalidateTokenMetadata pk ct now a s))"
| clear: "token_run pk ct s \<Longrightarrow> token_run pk ct (clearTokenCache s)"

definition right_value :: "(string \<Rightarrow> bool) \<Rightarrow> (string \<Rightarrow> bool) \<Rightarrow> string \<Rightarrow> jsval \<Rightarrow> bool" where
  "right_value pk ct k v \<longleftrightarrow>
     (\<exists>a now call. validateAsset pk ct a = None \<and> generateCacheKey_token a = k \<and> v = stamped now (fetch_token call a))"

definition token_inv :: "(string \<Rightarrow> bool) \<Rightarrow> (string \<Rightarrow> bool) \<Rightarrow> token_state \<Rightarrow> bool" where
  "token_inv pk ct s \<longleftrightarrow> store_ok (ts_cache s) \<and> amap_wf (ts_inflight s) \<and>
     (\<forall>k a n. map_of (ts_inflight s) k = Some (a, n) \<longrightarrow> validateAsset pk ct a = None \<and> generateCacheKey_token a = k) \<and>
     (\<forall>k v e. store_peek (ts_cache s) k = Some (v, e) \<longrightarrow> right_value pk ct k v)"

lemma token_invI:
  assumes "token_inv pk ct s" "store_ok c" "amap_wf f"
    "\<And>k a n. map_of f k = Some (a, n) \<Longrightarrow> map_of (ts_inflight s) k = Some (a, n) \<or> validateAsset pk ct a = None \<and> generateCacheKey_token a = k"
    "\<And>k v e. store_peek c k = Some (v, e) \<Longrightarrow> store_peek (ts_cache s) k = Some (v, e) \<or> right_value pk ct k v"
  shows "token_inv pk ct (s\<lparr>ts_cache := c, ts_inflight := f\<rparr>)"
proof -
  have i: "\<And>k a n. map_of (ts_inflight s) k = Some (a, n) \<Longrightarrow> validateAsset pk ct a = None \<and> generateCacheKey_token a = k"
    "\<And>k v e. store_peek (ts_cache s) k = Some (v, e) \<Longrightarrow> right_value pk ct k v"
    using assms(1) unfolding token_inv_def by blast+
  have "\<forall>k a n. map_of f k = Some (a, n) \<longrightarrow> validateAsset pk ct a = None \<and> generateCacheKey_token a = k" using assms(4) i(1) by blast
  moreover have "\<forall>k v e. store_peek c k = Some (v, e) \<longrightarrow> right_value pk ct k v" using assms(5) i(2) by blast
  ultimately show ?thesis using assms(2,3) unfolding token_inv_def by (simp del: map_of_eq_Some_iff)
qed

lemma token_inv_lookup: "token_inv pk ct s \<Longrightarrow> token_inv pk ct (snd (getTokenMetadata pk ct now a ttl skip s))"
proof (cases "validateAsset pk ct a")
  case None
  assume inv: "token_inv pk ct s"
  let ?k = "generateCacheKey_token a"
  obtain r c1 where g: "(if skip then (None, ts_cache s) else cache_get now ?k (ts_cache s)) = (r, c1)" by fastforce
  have ok: "store_ok (ts_cache s)" "amap_wf (ts_inflight s)" using inv by (simp_all add: token_inv_def)
  have c1: "store_ok c1" "\<And>k v e. store_peek c1 k = Some (v, e) \<Longrightarrow> store_peek (ts_cache s) k = Some (v, e)"
    using g ok(1) store_ok_get[of "ts_cache s" now ?k] peek_get[of now ?k "ts_cache s"] by (auto split: if_splits)
  have "token_inv pk ct (s\<lparr>ts_cache := c1, ts_inflight := ts_inflight s\<rparr>)"
    by (rule token_invI[OF inv c1(1) ok(2)]) (use c1(2) in auto)
  moreover have "token_inv pk ct (s\<lparr>ts_cache := c1, ts_inflight := AList.update ?k (a, n) (ts_inflight s)\<rparr>)" for n
    by (rule token_invI[OF inv c1(1) amap_wf_set[OF ok(2)]]) (use c1(2) None in \<open>auto split: if_splits simp del: map_of_eq_Some_iff\<close>)
  ultimately show ?thesis using g None by (simp add: getTokenMetadata_def Let_def split: option.splits)
qed (simp add: getTokenMetadata_def)

lemma token_inv_complete: "token_inv pk ct s \<Longrightarrow> token_inv pk ct (snd (complete_fetch now call k s))"
proof (cases "map_of (ts_inflight s) k")
  case (Some p)
  assume inv: "token_inv pk ct s"
  obtain a n where p: "p = (a, n)" by fastforce
  let ?v = "stamped now (fetch_token call a)"
  have a: "validateAsset pk ct a = None" "generateCacheKey_token a = k"
    using inv Some unfolding token_inv_def p by blast+
  have ok: "store_ok (ts_cache s)" "amap_wf (ts_inflight s)" using inv by (simp_all add: token_inv_def)
  have peek: "store_peek (ts_cache s) k' = Some (v, e) \<or> right_value pk ct k' v"
    if "store_peek (cache_set now k ?v n (ts_cache s)) k' = Some (v, e)" for k' v e
  proof (cases "k' = k")
    case True
    then have "v = ?v" using peek_set_same[OF ok(1)] that by fastforce
    then show ?thesis using a True unfolding right_value_def by blast
  qed (use peek_set_other[OF ok(1)] that in blast)
  have "token_inv pk ct (s\<lparr>ts_cache := cache_set now k ?v n (ts_cache s), ts_inflight := AList.delete k (ts_inflight s)\<rparr>)"
    by (rule token_invI[OF inv store_ok_set[OF ok(1)] amap_wf_delete[OF ok(2)]])
      (use peek in \<open>auto simp: amap_get_delete split: if_splits simp del: map_of_eq_Some_iff\<close>)
  then show ?thesis by (simp add: complete_fetch_def Some p Let_def)
qed (simp add: complete_fetch_def)

lemma token_inv_invalidate: "token_inv pk ct s \<Longrightarrow> token_inv pk ct (snd (invalidateTokenMetadata pk ct now a s))"
proof (cases "validateAsset pk ct a")
  case None
  assume inv: "token_inv pk ct s"
  let ?k = "generateCacheKey_token a" and ?c = "snd (cache_get now (generateCacheKey_token a) (ts_cache s))"
  have ok: "store_ok (ts_cache s)" "amap_wf (ts_inflight s)" using inv by (simp_all add: token_inv_def)
  have c: "store_ok (cache_del ?k ?c)" using store_ok_del[OF store_ok_get[OF ok(1)]] .
  have "store_peek (ts_cache s) k = Some (v, e)" if "store_peek (cache_del ?k ?c) k = Some (v, e)" for k v e
    using that peek_get[of now ?k "ts_cache s" k] by (cases "k = ?k") (auto simp: store_peek_def cache_del_def)
  then have "token_inv pk ct (s\<lparr>ts_cache := cache_del ?k ?c, ts_inflight := ts_inflight s\<rparr>)"
    by (intro token_invI[OF inv c ok(2)]) auto
  then show ?thesis by (simp add: invalidateTokenMetadata_def None Let_def case_prod_beta)
qed (simp add: invalidateTokenMetadata_def)

lemma token_run_inv: "token_run pk ct s \<Longrightarrow> token_inv pk ct s"
proof (induction rule: token_run.induct)
  case start
  then show ?case by (simp add: token_inv_def new_store_ok store_peek_def) (simp add: new_MemoryCacheStore_def Let_def)
next
  case (clear s)
  then have "token_inv pk ct (s\<lparr>ts_cache := cache_clear (ts_cache s), ts_inflight := ts_inflight s\<rparr>)"
    by (intro token_invI) (auto simp: token_inv_def store_ok_def cache_clear_def store_peek_def split: option.splits)
  then show ?case by (simp add: clearTokenCache_def)
qed (simp_all add: token_inv_lookup token_inv_complete token_inv_invalidate)

text \<open>C15: In every order of lookups, completions, invalidations and clearings, the metadata a caller gets
  is that of the asset it asked for, from the cache as well as from a fetch that another caller started;
  and each key has at most one fetch in flight: one is started only when there is none.\<close>

theorem token_metadata_sound:
  assumes "token_run pk ct s" "validateAsset pk ct a = None"
  shows "(\<forall>v s'. getTokenMetadata pk ct now a ttl skip s = (Hit v, s') \<longrightarrow> (\<exists>t call. v = stamped t (fetch_token call a))) \<and>
    (\<forall>v s'. complete_fetch now call (generateCacheKey_token a) s = (Some v, s') \<longrightarrow> v = stamped now (fetch_token call a)) \<and>
    (\<forall>k s'. getTokenMetadata pk ct now a ttl skip s = (Started k, s') \<longrightarrow> k = generateCacheKey_token a \<and> map_of (ts_inflight s) k = None) \<and>
    distinct (map fst (ts_inflight s))"
proof (intro conjI allI impI)
  have inv: "token_inv pk ct s" by (rule token_run_inv[OF assms(1)])
  then show "distinct (map fst (ts_inflight s))" by (simp add: token_inv_def)
  let ?k = "generateCacheKey_token a"
  show "\<exists>t call. v = stamped t (fetch_token call a)" if h: "getTokenMetadata pk ct now a ttl skip s = (Hit v, s')" for v s'
  proof -
    have "fst (cache_get now ?k (ts_cache s)) = Some v"
      using h assms(2) by (auto simp: getTokenMetadata_def Let_def split: if_splits option.splits prod.splits)
    then obtain e where "store_peek (ts_cache s) ?k = Some (v, e)"
      by (cases rule: cache_get_cases[of "ts_cache s" ?k now]) (auto simp: store_peek_def)
    then have "right_value pk ct ?k v" using inv unfolding token_inv_def by blast
    then show ?thesis using same_key_same_token[OF _ assms(2)] unfolding right_value_def by metis
  qed
  show "v = stamped now (fetch_token call a)" if h: "complete_fetch now call ?k s = (Some v, s')" for v s'
  proof -
    obtain b n where b: "map_of (ts_inflight s) ?k = Some (b, n)" "v = stamped now (fetch_token call b)"
      using h by (auto simp: complete_fetch_def Let_def split: option.splits simp del: map_of_eq_Some_iff)
    then have "validateAsset pk ct b = None" "generateCacheKey_token b = ?k" using inv unfolding token_inv_def by blast+
    then show ?thesis using b(2) same_key_same_token[OF _ assms(2)] by metis
  qed
  have st: "k = ?k \<and> \<not> amap_has (ts_inflight s) ?k" if "getTokenMetadata pk ct now a ttl skip s = (Started k, s')" for k s'
    using that assms(2) by (auto simp: getTokenMetadata_def Let_def split: if_splits option.splits prod.splits)
  show "k = ?k" "map_of (ts_inflight s) k = None" if "getTokenMetadata pk ct now a ttl skip s = (Started k, s')" for k s'
    using st[OF that] amap_has_iff[of "ts_inflight s" ?k] by (metis, metis)
qed

theorem token_metadata_sound_witness:
  "\<exists>s'. complete_fetch 5 (\<lambda>v. Inr v) ''native'' (snd (getTokenMetadata (\<lambda>_. True) (\<lambda>_. True) 0 (JObj [(''code'', JStr ''XLM'')]) None False
      \<lparr>ts_cache = new_MemoryCacheStore None, ts_inflight = []\<rparr>)) = (Some (stamped 5 fetchNativeMetadata), s')"
proof -
  let ?a = "JObj [(''code'', JStr ''XLM'')]"
  let ?s = "snd (getTokenMetadata (\<lambda>_. True) (\<lambda>_. True) 0 ?a None False \<lparr>ts_cache = new_MemoryCacheStore None, ts_inflight = []\<rparr>)"
  have r: "token_run (\<lambda>_. True) (\<lambda>_. True) ?s" by (rule token_run.lookup[OF token_run.start])
  have v: "validateAsset (\<lambda>_. True) (\<lambda>_. True) ?a = None" "generateCacheKey_token ?a = ''native''" "fetch_token (\<lambda>v. Inr v) ?a = fetchNativeMetadata"
    by (simp_all add: validateAsset_def generateCacheKey_token_def fetch_token_def native_code_def js_nullish_def)
  have "map_of (ts_inflight ?s) ''native'' = Some (?a, DEFAULT_CACHE_TTL_MS)"
    unfolding getTokenMetadata_def v(1,2) by (simp add: cache_get_def new_MemoryCacheStore_def amap_has_def Let_def)
  then obtain w s' where "complete_fetch 5 (\<lambda>v. Inr v) (generateCacheKey_token ?a) ?s = (Some w, s')"
    unfolding v(2) complete_fetch_def by (metis (no_types, lifting) option.simps(5) old.prod.case)
  moreover from this have "w = stamped 5 (fetch_token (\<lambda>v. Inr v) ?a)"
    by (rule token_metadata_sound[OF r v(1), THEN conjunct2, THEN conjunct1, rule_format])
  ultimately show ?thesis unfolding v(2,3) by blast
qed

text \<open>A fresh lookup joins a fetch that is already under way, and a fetch that was started before an
  invalidation still stores its result.\<close>

lemma fresh_joins_running:
  assumes "validateAsset pk ct a = None" "amap_has (ts_inflight s) (generateCacheKey_token a)"
  shows "fst (getFreshTokenMetadata pk ct now a s) = Joined (generateCacheKey_token a)"
  using assms by (simp add: getFreshTokenMetadata_def getTokenMetadata_def Let_def)

text \<open>The fallback for a failed contract call is stored like any other result.\<close>

lemma fallback_is_fetched:
  assumes "\<not> native_code (js_get a ''code'')" "js_get a ''contractId'' = JStr k" "k \<noteq> []" "call (token_json ''TOKEN'' ''Mock Token'' 18 ''soroban'') = Inl e"
  shows "fetch_token call a = token_json (take 4 k) ''Soroban Token'' 18 ''soroban_fallback''"
  using assms by (simp add: fetch_token_def fetchFromSoroban_def text_value_def)

text \<open>The store is created with the default bound of 5000 entries, not with the documented one.\<close>

lemma stats_overstate_bound: "fst (snd (getCacheStats_token s)) = 10000" "maxEntries (new_MemoryCacheStore None) = Some (nat 5000)"
  by (simp_all add: getCacheStats_token_def MAX_CACHE_SIZE_def new_MemoryCacheStore_def)

section \<open>Batches\<close>

definition resolve_inv :: "(string \<Rightarrow> bool) \<Rightarrow> (string \<Rightarrow> bool) \<Rightarrow> jsval list \<Rightarrow> resolve_state \<Rightarrow> bool" where
  "resolve_inv pk ct as s \<longleftrightarrow>
     set (rv_seen s) = {generateCacheKey_token a | a. a \<in> set as \<and> validateAsset pk ct a = None} \<and>
     distinct (map snd (rv_missing s)) \<and> set (map snd (rv_missing s)) \<subseteq> set (rv_seen s) \<and>
     (\<forall>(a, k) \<in> set (rv_missing s). a \<in> set as \<and> validateAsset pk ct a = None \<and> generateCacheKey_token a = k) \<and>
     (\<forall>k \<in> set (rv_seen s). (k \<in> set (map snd (rv_missing s))) \<noteq> (map_of (rv_results s) k \<noteq> None)) \<and>
     (\<forall>k. map_of (rv_results s) k \<noteq> None \<longrightarrow> k \<in> set (rv_seen s))"

lemma resolve_inv_known:
  assumes "resolve_inv pk ct as s" "validateAsset pk ct a \<noteq> None \<or> generateCacheKey_token a \<in> set (rv_seen s)"
  shows "resolve_inv pk ct (as @ [a]) s"
proof -
  have "{generateCacheKey_token x | x. x \<in> set (as @ [a]) \<and> validateAsset pk ct x = None} =
      {generateCacheKey_token x | x. x \<in> set as \<and> validateAsset pk ct x = None}"
    using assms unfolding resolve_inv_def by auto
  then show ?thesis using assms(1) unfolding resolve_inv_def by auto
qed

lemma resolve_inv_new:
  assumes "resolve_inv pk ct as s" "validateAsset pk ct a = None" "generateCacheKey_token a \<notin> set (rv_seen s)"
  shows "set (rv_seen s @ [generateCacheKey_token a]) = {generateCacheKey_token x | x. x \<in> set (as @ [a]) \<and> validateAsset pk ct x = None}"
    "generateCacheKey_token a \<notin> set (map snd (rv_missing s))" "map_of (rv_results s) (generateCacheKey_token a) = None"
  using assms unfolding resolve_inv_def by (auto simp del: not_None_eq)

lemma resolve_check_inv:
  assumes "resolve_inv pk ct as s"
  shows "resolve_inv pk ct (as @ [a]) (resolve_check pk ct now a s)"
proof (cases "validateAsset pk ct a \<noteq> None \<or> generateCacheKey_token a \<in> set (rv_seen s)")
  case True
  then have "resolve_check pk ct now a s = s" by (auto simp: resolve_check_def)
  then show ?thesis using resolve_inv_known[OF assms True] by simp
next
  case False
  let ?k = "generateCacheKey_token a"
  obtain r c where g: "cache_get now ?k (rv_cache s) = (r, c)" by fastforce
  have v: "validateAsset pk ct a = None" "?k \<notin> set (rv_seen s)" using False by auto
  note new = resolve_inv_new[OF assms v]
  have I: "distinct (map snd (rv_missing s))" "set (map snd (rv_missing s)) \<subseteq> set (rv_seen s)"
    "\<forall>(x, k) \<in> set (rv_missing s). x \<in> set (as @ [a]) \<and> validateAsset pk ct x = None \<and> generateCacheKey_token x = k"
    "\<forall>k \<in> set (rv_seen s). (k \<in> set (map snd (rv_missing s))) \<noteq> (map_of (rv_results s) k \<noteq> None)"
    "\<forall>k. map_of (rv_results s) k \<noteq> None \<longrightarrow> k \<in> set (rv_seen s)"
    using assms unfolding resolve_inv_def by auto
  show ?thesis
  proof (cases r)
    case None
    then have e: "resolve_check pk ct now a s = s\<lparr>rv_seen := rv_seen s @ [?k], rv_cache := c, rv_missing := rv_missing s @ [(a, ?k)]\<rparr>"
      using v g by (simp add: resolve_check_def Let_def)
    have "\<forall>k \<in> set (rv_seen s @ [?k]). (k \<in> set (map snd (rv_missing s @ [(a, ?k)]))) \<noteq> (map_of (rv_results s) k \<noteq> None)"
      using I(4) new(3) v(2) by (simp del: not_None_eq) metis
    moreover have "\<forall>k. map_of (rv_results s) k \<noteq> None \<longrightarrow> k \<in> set (rv_seen s @ [?k])" using I(5) by simp
    moreover have "distinct (map snd (rv_missing s @ [(a, ?k)]))" "set (map snd (rv_missing s @ [(a, ?k)])) \<subseteq> set (rv_seen s @ [?k])"
      using I(1,2) new(2) by auto
    moreover have "\<forall>(x, k) \<in> set (rv_missing s @ [(a, ?k)]). x \<in> set (as @ [a]) \<and> validateAsset pk ct x = None \<and> generateCacheKey_token x = k"
      using I(3) v(1) by auto
    ultimately show ?thesis unfolding e resolve_inv_def using new(1) by (simp del: not_None_eq set_append map_append)
  next
    case (Some w)
    then have e: "resolve_check pk ct now a s = s\<lparr>rv_seen := rv_seen s @ [?k], rv_cache := c, rv_results := AList.update ?k w (rv_results s)\<rparr>"
      using v g by (simp add: resolve_check_def Let_def)
    have "\<forall>k \<in> set (rv_seen s @ [?k]). (k \<in> set (map snd (rv_missing s))) \<noteq> (map_of (AList.update ?k w (rv_results s)) k \<noteq> None)"
      using I(4) new(2) v(2) by (simp del: not_None_eq)
    moreover have "\<forall>k. map_of (AList.update ?k w (rv_results s)) k \<noteq> None \<longrightarrow> k \<in> set (rv_seen s @ [?k])"
      using I(5) by (simp del: not_None_eq)
    moreover have "set (map snd (rv_missing s)) \<subseteq> set (rv_seen s @ [?k])" using I(2) by auto
    ultimately show ?thesis unfolding e resolve_inv_def using I(1,3) new(1) by (simp del: not_None_eq set_append map_append set_map)
  qed
qed

lemma resolve_fold_inv:
  assumes "resolve_inv pk ct as s"
  shows "resolve_inv pk ct (as @ bs) (fold (resolve_check pk ct now) bs s)"
  using assms
proof (induction bs arbitrary: as s)
  case (Cons b bs)
  from Cons.IH[OF resolve_check_inv[OF Cons.prems]] show ?case by simp
qed simp

lemma resolve_missing_other:
  "k \<notin> set (map snd ms) \<Longrightarrow> map_of (foldl (\<lambda>m (a, k). AList.update k (f a) m) rs ms) k = map_of rs k"
  by (induction ms arbitrary: rs) (auto split: prod.splits)

lemma resolve_missing_at:
  assumes "distinct (map snd ms)" "(a, k) \<in> set ms"
  shows "map_of (foldl (\<lambda>m (a, k). AList.update k (f a) m) rs ms) k = Some (f a)"
  using assms
proof (induction ms arbitrary: rs)
  case (Cons p ms)
  obtain b k' where p: "p = (b, k')" by fastforce
  show ?case
  proof (cases "k = k'")
    case True
    then have "k \<notin> set (map snd ms)" "a = b" using Cons.prems p by (auto simp: rev_image_eqI)
    then show ?thesis using resolve_missing_other[of k ms f "AList.update k (f b) rs"] True p by simp
  next
    case False
    then show ?thesis using Cons p by auto
  qed
qed simp

text \<open>A batch answers in the order of its input: null for an invalid asset, equal results for assets
  with the same key; each key is looked up at most once, and with at least one worker every valid asset
  gets the cached value of its key or the result of the one lookup made for it.\<close>

theorem resolve_many_exact:
  assumes "s = fold (resolve_check pk ct now) assets \<lparr>rv_seen = [], rv_missing = [], rv_results = [], rv_cache = c\<rparr>"
    "rs = resolveMany pk ct now conc looked_up assets c"
  shows "length rs = length assets \<and> distinct (map snd (rv_missing s)) \<and>
    (\<forall>i < length assets. validateAsset pk ct (assets ! i) \<noteq> None \<longrightarrow> rs ! i = JNull) \<and>
    (0 < worker_count conc (length (rv_missing s)) \<longrightarrow>
     (\<forall>i < length assets. validateAsset pk ct (assets ! i) = None \<longrightarrow>
       (case map_of (rv_results s) (generateCacheKey_token (assets ! i)) of
          Some v \<Rightarrow> rs ! i = js_or v JNull
        | None \<Rightarrow> \<exists>b. (b, generateCacheKey_token (assets ! i)) \<in> set (rv_missing s) \<and>
            rs ! i = js_or (case looked_up b of Some v \<Rightarrow> v | None \<Rightarrow> JNull) JNull)))"
proof -
  have "resolve_inv pk ct [] \<lparr>rv_seen = [], rv_missing = [], rv_results = [], rv_cache = c\<rparr>" by (simp add: resolve_inv_def)
  from resolve_fold_inv[OF this, of assets now] have inv: "resolve_inv pk ct assets s" by (simp add: assms(1))
  then have d: "distinct (map snd (rv_missing s))"
    and part: "\<And>k. k \<in> set (rv_seen s) \<Longrightarrow> (k \<in> set (map snd (rv_missing s))) \<noteq> (map_of (rv_results s) k \<noteq> None)"
    and seen: "set (rv_seen s) = {generateCacheKey_token a | a. a \<in> set assets \<and> validateAsset pk ct a = None}"
    unfolding resolve_inv_def by auto
  let ?w = "worker_count conc (length (rv_missing s))"
  let ?m = "resolve_missing ?w looked_up (rv_missing s) (rv_results s)"
  have rs: "rs = map (\<lambda>a. if validateAsset pk ct a \<noteq> None then JNull
      else (case map_of ?m (generateCacheKey_token a) of Some v \<Rightarrow> js_or v JNull | None \<Rightarrow> JNull)) assets"
    unfolding assms(2) resolveMany_def Let_def assms(1)[symmetric] ..
  have "case map_of (rv_results s) (generateCacheKey_token (assets ! i)) of
          Some v \<Rightarrow> rs ! i = js_or v JNull
        | None \<Rightarrow> \<exists>b. (b, generateCacheKey_token (assets ! i)) \<in> set (rv_missing s) \<and>
            rs ! i = js_or (case looked_up b of Some v \<Rightarrow> v | None \<Rightarrow> JNull) JNull"
    if w: "0 < ?w" and i: "i < length assets" "validateAsset pk ct (assets ! i) = None" for i
  proof -
    let ?k = "generateCacheKey_token (assets ! i)"
    have k: "?k \<in> set (rv_seen s)" using i nth_mem unfolding seen by blast
    show ?thesis
    proof (cases "map_of (rv_results s) ?k")
      case None
      then obtain b where b: "(b, ?k) \<in> set (rv_missing s)" using part[OF k] by auto
      from resolve_missing_at[OF d b] have "map_of ?m ?k = Some (case looked_up b of Some v \<Rightarrow> v | None \<Rightarrow> JNull)"
        using w by (simp add: resolve_missing_def)
      then show ?thesis using None b i by (auto simp: rs)
    next
      case (Some v)
      then have "?k \<notin> set (map snd (rv_missing s))" using part[OF k] by auto
      from resolve_missing_other[OF this, of "\<lambda>a. case looked_up a of Some v \<Rightarrow> v | None \<Rightarrow> JNull" "rv_results s"] have "map_of ?m ?k = Some v" using Some by (simp add: resolve_missing_def)
      then show ?thesis using Some i by (simp add: rs)
    qed
  qed
  moreover have "length rs = length assets" by (simp add: rs)
  moreover have "\<forall>i < length assets. validateAsset pk ct (assets ! i) \<noteq> None \<longrightarrow> rs ! i = JNull" by (simp add: rs)
  ultimately show ?thesis using d by blast
qed

text \<open>With a concurrency below one nothing is looked up.\<close>

lemma no_worker_no_lookup: "worker_count (JInt 0) n = 0"
  by (simp add: worker_count_def)

end
