(* ===== verification/HttpErrors.thy ===== *)
theory HttpErrors
  imports Sanitize
begin

text \<open>
  What a client sees of an error: \<open>src/src/errors/mapError.js\<close>, \<open>src/src/utils/problemDetails.js\<close>,
  \<open>src/src/middleware/errorHandler.js\<close>, \<open>src/src/middleware/problemJson.js\<close>, the error handlers and the
  response envelope of \<open>src/src/app.js\<close> with \<open>src/src/utils/responseHelper.js\<close>, and the origin policy of
  \<open>src/src/config/cors.js\<close>.

  An error is a value with the properties the handlers read; an \<open>AppError\<close> has that name. \<open>str\<close> is the
  conversion of a value to text and \<open>url_origin\<close> the origin of a parsed URL (None where parsing raises).
\<close>

section \<open>Mapping errors\<close>

definition is_app_error :: "jsval \<Rightarrow> bool" where
  "is_app_error e \<longleftrightarrow> js_get e ''name'' = JStr ''AppError''"

definition httpStatusToCode :: "(jsval \<Rightarrow> string) \<Rightarrow> jsval \<Rightarrow> string" where
  "httpStatusToCode str st =
     (if st = JInt 400 then ''BAD_REQUEST'' else if st = JInt 401 then ''UNAUTHORIZED''
      else if st = JInt 403 then ''FORBIDDEN'' else if st = JInt 404 then ''NOT_FOUND''
      else ''HTTP_'' @ str st)"

record mapped_error =
  me_status :: jsval
  me_code :: jsval
  me_message :: jsval
  me_retryable :: jsval
  me_retryHint :: jsval

definition isBodyParserSyntaxError :: "jsval \<Rightarrow> bool" where
  "isBodyParserSyntaxError e \<longleftrightarrow> js_get e ''type'' = JStr ''entity.parse.failed'' \<and> js_get e ''status'' = JInt 400"

abbreviation fixed_error :: "int \<Rightarrow> string \<Rightarrow> jsval \<Rightarrow> bool \<Rightarrow> string \<Rightarrow> mapped_error" where
  "fixed_error st c m r h \<equiv>
     \<lparr>me_status = JInt st, me_code = JStr c, me_message = m, me_retryable = JBool r, me_retryHint = JStr h\<rparr>"

definition mapError :: "(jsval \<Rightarrow> string) \<Rightarrow> jsval \<Rightarrow> mapped_error" where
  "mapError str e =
     (if is_app_error e
      then \<lparr>me_status = js_get e ''status'',
            me_code = js_or (js_get e ''code'') (JStr (httpStatusToCode str (js_get e ''status''))),
            me_message = js_or (js_get e ''detail'') (js_get e ''message''),
            me_retryable = js_coalesce (js_get e ''retryable'') (JBool False),
            me_retryHint = js_coalesce (js_get e ''retryHint'') (JStr [])\<rparr>
      else if js_get e ''isCorsOriginRejected'' = JBool True
      then fixed_error 403 ''FORBIDDEN'' (js_or (js_get e ''message'') (JStr ''CORS policy: origin is not allowed.'')) False []
      else if isBodyParserSyntaxError e
      then fixed_error 400 ''VALIDATION_ERROR'' (JStr ''Malformed JSON request body.'') False
        ''Fix the JSON payload and try again.''
      else if js_get e ''code'' = JStr ''ECONNREFUSED''
      then fixed_error 503 ''UPSTREAM_ERROR'' (JStr ''A dependent service is temporarily unavailable.'') True
        ''Retry the request in a few moments.''
      else if js_get e ''code'' = JStr ''CIRCUIT_OPEN''
      then fixed_error 503 ''CIRCUIT_OPEN''
        (JStr ''Service temporarily unavailable due to upstream outage. Circuit breaker is OPEN.'') True
        ''Retry the request in a few moments.''
      else let st = js_or (js_get e ''status'') (JInt 500)
           in \<lparr>me_status = st,
               me_code = JStr (if st = JInt 403 then ''FORBIDDEN'' else ''INTERNAL_SERVER_ERROR''),
               me_message = (if st = JInt 500 then JStr ''An internal server error occurred.''
                             else js_or (js_get e ''message'') (JStr ''An internal server error occurred.'')),
               me_retryable = JBool False,
               me_retryHint = JStr ''Do not retry until the issue is resolved or support is contacted.''\<rparr>)"

text \<open>A response: its status and its body.\<close>

type_synonym response = "jsval \<times> jsval"

definition errorHandler :: "(jsval \<Rightarrow> string) \<Rightarrow> jsval \<Rightarrow> jsval \<Rightarrow> jsval \<Rightarrow> response" where
  "errorHandler str correlation reqId e =
     (let mapped = mapError str e in
      (me_status mapped,
       JObj [(''error'', JObj [(''code'', me_code mapped), (''message'', me_message mapped),
         (''correlation_id'', js_or (js_or correlation reqId) (JStr ''unknown'')),
         (''retryable'', me_retryable mapped), (''retry_hint'', me_retryHint mapped)])]))"

section \<open>Problem details\<close>

definition DEFAULT_PROBLEM_TYPE :: string where "DEFAULT_PROBLEM_TYPE = ''about:blank''"
definition PROBLEM_BASE :: string where "PROBLEM_BASE = ''https://liquifact.com/probs''"

definition status_table :: "(int \<times> string \<times> string) list" where
  "status_table =
     [(400, ''bad-request'', ''Bad Request''), (401, ''unauthorized'', ''Unauthorized''),
      (403, ''forbidden'', ''Forbidden''), (404, ''not-found'', ''Not Found''), (409, ''conflict'', ''Conflict''),
      (422, ''unprocessable-entity'', ''Unprocessable Entity''), (429, ''too-many-requests'', ''Too Many Requests''),
      (500, ''internal-server-error'', ''Internal Server Error''), (502, ''bad-gateway'', ''Bad Gateway''),
      (503, ''service-unavailable'', ''Service Unavailable''), (504, ''gateway-timeout'', ''Gateway Timeout'')]"

definition status_entry :: "jsval \<Rightarrow> (string \<times> string) option" where
  "status_entry st = map_of (map (\<lambda>(n, e). (JInt n, e)) status_table) st"

definition getProblemType :: "jsval \<Rightarrow> string" where
  "getProblemType st = (case status_entry st of Some (slug, _) \<Rightarrow> PROBLEM_BASE @ ''/'' @ slug | None \<Rightarrow> DEFAULT_PROBLEM_TYPE)"

definition getStandardTitle :: "jsval \<Rightarrow> string" where
  "getStandardTitle st = (case status_entry st of Some (_, ti) \<Rightarrow> ti | None \<Rightarrow> ''An unexpected error occurred'')"

text \<open>A destructured parameter with a default, and a member that is left out when undefined.\<close>

definition dflt :: "jsval \<Rightarrow> jsval \<Rightarrow> jsval" where
  "dflt v d = (if v = JUndef then d else v)"

definition member :: "string \<Rightarrow> jsval \<Rightarrow> row" where
  "member k v = (if v = JUndef then [] else [(k, v)])"

definition formatProblemDetails :: "bool \<Rightarrow> row \<Rightarrow> row" where
  "formatProblemDetails production params =
     [(''type'', dflt (col ''type'' params) (JStr ''about:blank'')),
      (''title'', dflt (col ''title'' params) (JStr ''An unexpected error occurred'')),
      (''status'', dflt (col ''status'' params) (JInt 500))]
     @ member ''detail'' (col ''detail'' params)
     @ member ''instance'' (col ''instance'' params)
     @ (if \<not> truthy (dflt (col ''isProduction'' params) (JBool production)) \<and> truthy (col ''stack'' params)
        then [(''stack'', col ''stack'' params)] else [])
     @ member ''code'' (col ''code'' params)
     @ member ''retryable'' (col ''retryable'' params)
     @ member ''retry_hint'' (col ''retryHint'' params)"

text \<open>The constructor of \<open>AppError\<close>; the message is the title.\<close>

definition make_app_error :: "bool \<Rightarrow> row \<Rightarrow> row" where
  "make_app_error production params =
     (let problem = formatProblemDetails production (AList.update ''stack'' JUndef params)
      in [(''name'', JStr ''AppError''),
          (''message'', dflt (col ''title'' params) (JStr [])),
          (''type'', col ''type'' problem), (''title'', col ''title'' problem), (''status'', col ''status'' problem),
          (''detail'', col ''detail'' problem), (''instance'', col ''instance'' problem),
          (''code'', col ''code'' params), (''retryable'', col ''retryable'' params),
          (''retryHint'', col ''retryHint'' params), (''context'', js_or (col ''context'' params) JNull)])"

definition createProblemDetails :: "bool \<Rightarrow> (jsval \<Rightarrow> string) \<Rightarrow> row \<Rightarrow> row" where
  "createProblemDetails production str params =
     (let st = dflt (col ''status'' params) (JInt 500);
          requestId = col ''requestId'' params;
          inst = col ''instance'' params;
          resolvedInstance = (if \<not> truthy inst \<and> truthy requestId then JStr (''urn:uuid:'' @ str requestId) else inst)
      in formatProblemDetails production
           [(''type'', js_or (col ''type'' params) (JStr (getProblemType st))),
            (''title'', js_or (col ''title'' params) (JStr ''An error occurred'')), (''status'', st),
            (''detail'', col ''detail'' params), (''instance'', resolvedInstance)])"

definition problemJsonHandler :: "bool \<Rightarrow> (jsval \<Rightarrow> string) \<Rightarrow> jsval \<Rightarrow> jsval \<Rightarrow> jsval \<Rightarrow> response" where
  "problemJsonHandler production str reqId headerId e =
     (let requestId = js_or (js_or reqId headerId) (JStr ''unknown'');
          mapped = mapError str e;
          app = is_app_error e;
          st = me_status mapped;
          resolvedType = (if app \<and> js_get e ''type'' \<noteq> JStr ''about:blank'' then js_get e ''type'' else JStr (getProblemType st));
          resolvedTitle = (if app
             then (if truthy (js_get e ''title'') \<and> js_get e ''title'' \<noteq> JStr ''An unexpected error occurred''
                   then js_get e ''title'' else JStr (getStandardTitle st))
             else me_message mapped)
      in (st, JObj (formatProblemDetails production
            [(''type'', resolvedType), (''title'', resolvedTitle), (''status'', st), (''detail'', me_message mapped),
             (''instance'', if app \<and> truthy (js_get e ''instance'') then js_get e ''instance'' else JStr (''urn:uuid:'' @ str requestId)),
             (''code'', if app then js_get e ''code'' else JUndef),
             (''retryable'', if app then js_get e ''retryable'' else JUndef),
             (''retryHint'', if app then js_get e ''retryHint'' else JUndef)])))"

definition notFoundHandler :: "bool \<Rightarrow> string \<Rightarrow> string \<Rightarrow> string \<Rightarrow> jsval" where
  "notFoundHandler production mth path url =
     JObj (make_app_error production
       [(''type'', JStr ''https://liquifact.com/probs/not-found''), (''title'', JStr ''Not Found''), (''status'', JInt 404),
        (''detail'', JStr (''Route '' @ mth @ '' '' @ path @ '' was not found.'')), (''instance'', JStr url)])"

definition problem_notFoundHandler :: "bool \<Rightarrow> string \<Rightarrow> string \<Rightarrow> jsval" where
  "problem_notFoundHandler production mth url =
     JObj (make_app_error production
       [(''type'', JStr (getProblemType (JInt 404))), (''title'', JStr ''Not Found''), (''status'', JInt 404),
        (''detail'', JStr (''The requested resource '' @ mth @ '' '' @ url @ '' was not found.'')), (''instance'', JStr url)])"

section \<open>Origins\<close>

definition CORS_REJECTION_MESSAGE :: string where
  "CORS_REJECTION_MESSAGE = ''CORS policy: origin is not allowed.''"

definition DEV_DEFAULT_ORIGINS :: "string list" where
  "DEV_DEFAULT_ORIGINS = [''http://localhost:3000'', ''http://localhost:3001'', ''http://localhost:5173'',
     ''http://127.0.0.1:3000'', ''http://127.0.0.1:5173'']"

definition DEFAULT_MAX_AGE :: int where "DEFAULT_MAX_AGE = 600"

definition parseAllowedOrigins :: "string \<Rightarrow> string list" where
  "parseAllowedOrigins raw =
     (if trim raw = [] then [] else js_set (filter (\<lambda>o'. o' \<noteq> []) (map trim (split_on CHR '','' raw))))"

text \<open>The environment; an empty string stands for an unset variable.\<close>

record cors_env =
  CORS_ALLOWED_ORIGINS :: string
  CORS_ORIGINS :: string
  ce_node_env :: string

definition getAllowedOriginsFromEnv :: "cors_env \<Rightarrow> string list" where
  "getAllowedOriginsFromEnv env =
     (let fromEnv = parseAllowedOrigins (or_default (CORS_ALLOWED_ORIGINS env) (CORS_ORIGINS env)) in
      if fromEnv \<noteq> [] then fromEnv
      else if ce_node_env env = ''development'' then DEV_DEFAULT_ORIGINS else [])"

definition normalizeOrigin :: "(string \<Rightarrow> string option) \<Rightarrow> jsval \<Rightarrow> string option" where
  "normalizeOrigin url_origin v =
     (case v of JStr s \<Rightarrow> if s = [] \<or> s = ''null'' then None else url_origin s | _ \<Rightarrow> None)"

definition isAllowedOrigin :: "(string \<Rightarrow> string option) \<Rightarrow> jsval \<Rightarrow> string list \<Rightarrow> bool" where
  "isAllowedOrigin url_origin v allowlist =
     (case normalizeOrigin url_origin v of
        None \<Rightarrow> False
      | Some n \<Rightarrow> list_ex (\<lambda>entry. normalizeOrigin url_origin (JStr entry) = Some n) allowlist)"

definition createCorsRejectionError :: jsval where
  "createCorsRejectionError =
     JObj [(''name'', JStr ''Error''), (''message'', JStr CORS_REJECTION_MESSAGE), (''isCorsOriginRejected'', JBool True),
       (''isCorsOriginRejectedError'', JBool True), (''status'', JInt 403)]"

definition isCorsOriginRejectedError :: "jsval \<Rightarrow> bool" where
  "isCorsOriginRejectedError e \<longleftrightarrow> js_get e ''isCorsOriginRejected'' = JBool True"

definition parseMaxAge :: "string \<Rightarrow> int" where
  "parseMaxAge raw =
     (if trim raw = [] then DEFAULT_MAX_AGE
      else (case str_to_number raw of
          NFin q \<Rightarrow> if is_integer_rat q \<and> q > 0 then \<lfloor>q\<rfloor> else DEFAULT_MAX_AGE
        | _ \<Rightarrow> DEFAULT_MAX_AGE))"

text \<open>The module keeps the list that its options read; building options and reloading refresh it.\<close>

definition reloadCorsOrigins :: "cors_env \<Rightarrow> string list \<Rightarrow> string list" where
  "reloadCorsOrigins env allowedOrigins = getAllowedOriginsFromEnv env"

text \<open>The \<open>origin\<close> callback: None lets the request pass, otherwise the error.\<close>

definition cors_origin :: "(string \<Rightarrow> string option) \<Rightarrow> string list \<Rightarrow> jsval \<Rightarrow> jsval option" where
  "cors_origin url_origin allowedOrigins v =
     (if v = JUndef then None
      else if allowedOrigins = [] \<or> \<not> isAllowedOrigin url_origin v allowedOrigins
      then Some createCorsRejectionError
      else None)"

definition createCorsOptions :: "(string \<Rightarrow> string option) \<Rightarrow> cors_env \<Rightarrow> jsval \<Rightarrow> jsval option" where
  "createCorsOptions url_origin env = cors_origin url_origin (getAllowedOriginsFromEnv env)"

section \<open>The error handlers of the application\<close>

definition handleCorsError :: "jsval \<Rightarrow> response option" where
  "handleCorsError e =
     (if isCorsOriginRejectedError e then Some (JInt 403, JObj [(''error'', js_get e ''message'')]) else None)"

definition status_4xx :: "jsval \<Rightarrow> bool" where
  "status_4xx v = (case v of JNum (NFin q) \<Rightarrow> 400 \<le> q \<and> q < 500 | _ \<Rightarrow> False)"

definition handleInternalError :: "bool \<Rightarrow> (jsval \<Rightarrow> string) \<Rightarrow> jsval \<Rightarrow> response" where
  "handleInternalError development str e =
     (if js_get e ''type'' = JStr ''entity.parse.failed'' \<or> js_get e ''status'' = JInt 400
      then (JInt 400, JObj [(''error'', JStr ''Bad Request'')])
      else if status_4xx (js_get e ''status'')
      then (js_get e ''status'', JObj [(''error'', JObj [(''code'', js_or (js_get e ''code'') (JStr (str (js_get e ''status'')))),
             (''message'', js_or (js_or (js_get e ''detail'') (js_get e ''title'')) (js_get e ''message''))])])
      else if development
      then (JInt 500, JObj [(''error'', JObj [(''message'', js_or (js_get e ''message'') (JStr ''Internal server error'')),
             (''stack'', js_or (js_get e ''stack'') JNull)])])
      else (JInt 500, JObj [(''error'', JStr ''Internal server error'')]))"

text \<open>The three handlers in the order of their registration. Of a body that is too large the parser's
  limit is a number or absent.\<close>

definition too_large_response :: "string \<Rightarrow> jsval \<Rightarrow> response" where
  "too_large_response path e =
     (JInt 413, JObj [(''error'', JStr ''Payload Too Large''), (''message'', JStr ''Request body exceeds the maximum allowed size.''),
        (''limit'', JStr (case js_get e ''limit'' of JNum (NFin q) \<Rightarrow> show_int \<lfloor>q\<rfloor> @ ''b'' | _ \<Rightarrow> ''unknown'')),
        (''path'', JStr path)])"

definition error_chain :: "bool \<Rightarrow> (jsval \<Rightarrow> string) \<Rightarrow> string \<Rightarrow> jsval \<Rightarrow> response" where
  "error_chain development str path e =
     (case handleCorsError e of
        Some r \<Rightarrow> r
      | None \<Rightarrow>
          if js_get e ''type'' = JStr ''entity.too.large'' then too_large_response path e
          else handleInternalError development str e)"

section \<open>The envelope\<close>

definition getErrorCode :: "jsval \<Rightarrow> string" where
  "getErrorCode st =
     (if st = JInt 400 then ''BAD_REQUEST'' else if st = JInt 401 then ''UNAUTHORIZED''
      else if st = JInt 403 then ''FORBIDDEN'' else if st = JInt 404 then ''NOT_FOUND'' else ''INTERNAL_ERROR'')"

definition API_VERSION :: string where "API_VERSION = ''0.1.0''"

definition envelope_meta :: "string \<Rightarrow> row \<Rightarrow> jsval" where
  "envelope_meta now meta = JObj (overlay [(''timestamp'', JStr now), (''version'', JStr API_VERSION)] meta)"

definition success :: "string \<Rightarrow> jsval \<Rightarrow> row \<Rightarrow> jsval" where
  "success now data meta = JObj [(''data'', data), (''meta'', envelope_meta now meta), (''error'', JNull)]"

definition error_envelope :: "string \<Rightarrow> jsval \<Rightarrow> string \<Rightarrow> jsval \<Rightarrow> jsval" where
  "error_envelope now msg c details =
     JObj [(''data'', JNull), (''meta'', envelope_meta now []),
       (''error'', JObj [(''message'', msg), (''code'', JStr c), (''details'', details)])]"

definition own :: "jsval \<Rightarrow> string \<Rightarrow> bool" where
  "own v k = (case v of JObj kvs \<Rightarrow> amap_has kvs k | _ \<Rightarrow> False)"

definition num_status :: "jsval \<Rightarrow> rat" where
  "num_status v = (case v of JNum (NFin q) \<Rightarrow> q | _ \<Rightarrow> 0)"

definition envelope_message :: "bool \<Rightarrow> jsval \<Rightarrow> jsval \<Rightarrow> jsval" where
  "envelope_message isDev st pl =
     (let payloadError = (if own pl ''error'' then js_get pl ''error'' else JNull);
          m = (case payloadError of
                 JStr s \<Rightarrow> JStr s
               | _ \<Rightarrow> if js_typeof (js_get payloadError ''message'') = ''string'' then js_get payloadError ''message''
                      else if js_typeof (js_get pl ''message'') = ''string'' then js_get pl ''message''
                      else JStr ''Internal server error'')
      in if 500 \<le> num_status st \<and> \<not> isDev then JStr ''Internal server error'' else m)"

definition toStandardEnvelope :: "bool \<Rightarrow> string \<Rightarrow> jsval \<Rightarrow> jsval \<Rightarrow> jsval" where
  "toStandardEnvelope isDev now st pl =
     (if own pl ''data'' \<and> own pl ''meta'' \<and> own pl ''error'' then pl
      else if num_status st < 400 then success now (if own pl ''data'' then js_get pl ''data'' else pl) []
      else let payloadError = (if own pl ''error'' then js_get pl ''error'' else JNull);
               msg = envelope_message isDev st pl;
               details = (if isDev
                 then js_or (js_or (js_or (js_or (js_get payloadError ''stack'') (js_get payloadError ''details''))
                        (js_get pl ''stack'')) (js_get pl ''message'')) msg
                 else JNull)
           in error_envelope now msg (getErrorCode st) details)"

section \<open>Errors do not leak\<close>

definition client_error :: "jsval \<Rightarrow> bool" where
  "client_error e \<longleftrightarrow> isCorsOriginRejectedError e \<or> js_get e ''type'' \<in> {JStr ''entity.too.large'', JStr ''entity.parse.failed''} \<or>
     status_4xx (js_get e ''status'')"

lemma js_get_obj [simp]: "js_get (JObj ((k, v) # kvs)) k' = (if k' = k then v else js_get (JObj kvs) k')"
  by simp

lemma status_4xx_cases: "status_4xx v \<Longrightarrow> \<exists>q. v = JNum (NFin q) \<and> 400 \<le> q \<and> q < 500"
  by (auto simp: status_4xx_def split: jsval.splits jsnum.splits)

lemma status_400: "status_4xx (JInt 400)" "status_4xx (JNum (NFin 400))"
  by (simp_all add: status_4xx_def)

lemma error_chain_client:
  assumes "client_error e"
  shows "\<exists>q c. error_chain False str path e = (JNum (NFin q), JObj [(''error'', c)]) \<and> 400 \<le> q \<and> q < 500 \<or>
    error_chain False str path e = too_large_response path e"
  using assms status_400
  by (auto simp: client_error_def error_chain_def handleCorsError_def handleInternalError_def
      dest: status_4xx_cases)

lemma error_chain_internal:
  assumes "\<not> client_error e"
  shows "error_chain False str path e = (JInt 500, JObj [(''error'', JStr ''Internal server error'')])"
proof -
  have "js_get e ''status'' \<noteq> JNum (NFin 400)" using assms status_400 by (auto simp: client_error_def)
  then show ?thesis
    using assms by (auto simp: client_error_def error_chain_def handleCorsError_def handleInternalError_def)
qed

lemma envelope_error:
  assumes "\<not> own pl ''data''" "400 \<le> num_status st"
  shows "toStandardEnvelope False now st pl =
    error_envelope now (envelope_message False st pl) (getErrorCode st) JNull"
  using assms by (simp add: toStandardEnvelope_def)

text \<open>Outside development an error that is no refused origin, oversized or malformed body and carries
  no status from 400 to 499 is answered with status 500 and one fixed envelope that depends on nothing of
  the error; every other error gets a status from 400 to 499. No envelope of an error has data, details
  or a stack trace.\<close>

theorem production_errors_opaque:
  "case error_chain False str path e of (st, body) \<Rightarrow>
     (\<exists>msg c. toStandardEnvelope False now st body = error_envelope now msg c JNull) \<and>
     (if client_error e then 400 \<le> num_status st \<and> num_status st < 500
      else st = JInt 500 \<and> toStandardEnvelope False now st body =
        error_envelope now (JStr ''Internal server error'') ''INTERNAL_ERROR'' JNull)"
proof (cases "client_error e")
  case True
  then show ?thesis using error_chain_client[OF True, of str path]
    by (auto simp: too_large_response_def envelope_error own_def amap_has_def num_status_def) blast+
next
  case False
  then show ?thesis
    by (simp add: error_chain_internal envelope_error own_def amap_has_def num_status_def
        envelope_message_def getErrorCode_def) blast
qed

text \<open>The envelope has codes for four statuses only: a validation error of status 422 reaches the client
  as \<open>INTERNAL_ERROR\<close>, without its own code and its field errors. An error of status 503 becomes 500.\<close>

lemma validation_error_code_lost:
  "toStandardEnvelope False now (JInt 422) (snd (error_chain False str path
     (JObj [(''name'', JStr ''AppError''), (''status'', JInt 422), (''code'', JStr ''VALIDATION_ERROR''), (''detail'', JStr d)]))) =
   error_envelope now (js_or (js_or (JStr d) JUndef) JUndef) ''INTERNAL_ERROR'' JNull \<or> d = []"
  by (simp add: error_chain_def handleCorsError_def isCorsOriginRejectedError_def handleInternalError_def
      status_4xx_def toStandardEnvelope_def own_def amap_has_def num_status_def envelope_message_def
      getErrorCode_def js_or_def)

lemma unavailable_becomes_500:
  "\<not> client_error (JObj [(''name'', JStr ''AppError''), (''status'', JInt 503), (''code'', JStr ''CIRCUIT_OPEN'')])"
  by (simp add: client_error_def isCorsOriginRejectedError_def status_4xx_def)

text \<open>The problem document of an error that is no \<open>AppError\<close>, no refused origin, no malformed body and
  carries neither a status nor one of the two codes of unavailable services is the same for all such
  errors, and no problem document has a stack trace.\<close>

theorem problem_document_opaque:
  assumes "\<not> is_app_error e" "\<not> truthy (js_get e ''status'')" "js_get e ''isCorsOriginRejected'' \<noteq> JBool True"
    "js_get e ''code'' \<notin> {JStr ''ECONNREFUSED'', JStr ''CIRCUIT_OPEN''}"
  shows "problemJsonHandler production str reqId headerId e =
      (JInt 500, JObj [(''type'', JStr (PROBLEM_BASE @ ''/internal-server-error'')),
         (''title'', JStr ''An internal server error occurred.''), (''status'', JInt 500),
         (''detail'', JStr ''An internal server error occurred.''),
         (''instance'', JStr (''urn:uuid:'' @ str (js_or (js_or reqId headerId) (JStr ''unknown''))))]) \<and>
    (\<forall>e'. js_get (snd (problemJsonHandler production str reqId headerId e')) ''stack'' = JUndef)"
proof
  have "\<not> isBodyParserSyntaxError e" using assms(2) by (auto simp: isBodyParserSyntaxError_def)
  then have m: "mapError str e = \<lparr>me_status = JInt 500, me_code = JStr ''INTERNAL_SERVER_ERROR'',
      me_message = JStr ''An internal server error occurred.'', me_retryable = JBool False,
      me_retryHint = JStr ''Do not retry until the issue is resolved or support is contacted.''\<rparr>"
    using assms by (simp add: mapError_def js_or_def)
  have t: "getProblemType (JInt 500) = PROBLEM_BASE @ ''/internal-server-error''" by code_simp
  show "problemJsonHandler production str reqId headerId e =
      (JInt 500, JObj [(''type'', JStr (PROBLEM_BASE @ ''/internal-server-error'')),
         (''title'', JStr ''An internal server error occurred.''), (''status'', JInt 500),
         (''detail'', JStr ''An internal server error occurred.''),
         (''instance'', JStr (''urn:uuid:'' @ str (js_or (js_or reqId headerId) (JStr ''unknown''))))])"
    using assms(1) t
    by (simp add: problemJsonHandler_def m Let_def formatProblemDetails_def col_def dflt_def member_def)
  show "\<forall>e'. js_get (snd (problemJsonHandler production str reqId headerId e')) ''stack'' = JUndef"
    by (auto simp: problemJsonHandler_def Let_def formatProblemDetails_def col_def dflt_def member_def)
qed

theorem problem_document_opaque_witness:
  "problemJsonHandler True (\<lambda>_. ''id'') JUndef JUndef (JObj [(''message'', JStr ''password=x'')]) =
   problemJsonHandler True (\<lambda>_. ''id'') JUndef JUndef (JObj [(''message'', JStr ''other''), (''stack'', JStr ''trace'')])"
  using problem_document_opaque[of "JObj [(''message'', JStr ''password=x'')]" True "\<lambda>_. ''id''" JUndef JUndef]
    problem_document_opaque[of "JObj [(''message'', JStr ''other''), (''stack'', JStr ''trace'')]" True "\<lambda>_. ''id''" JUndef JUndef]
  by (simp add: is_app_error_def)

section \<open>The origin policy is exact\<close>

lemma normalizeOrigin_Some:
  "normalizeOrigin u v = Some n \<longleftrightarrow> (\<exists>s. v = JStr s \<and> s \<noteq> [] \<and> s \<noteq> ''null'' \<and> u s = Some n)"
  by (auto simp: normalizeOrigin_def split: jsval.splits)

lemma isAllowedOrigin_iff:
  "isAllowedOrigin u v allowlist \<longleftrightarrow>
     (\<exists>s n entry. v = JStr s \<and> s \<noteq> [] \<and> s \<noteq> ''null'' \<and> u s = Some n \<and>
        entry \<in> set allowlist \<and> entry \<noteq> [] \<and> entry \<noteq> ''null'' \<and> u entry = Some n)"
proof -
  have "isAllowedOrigin u v allowlist \<longleftrightarrow> (\<exists>n. normalizeOrigin u v = Some n \<and>
      (\<exists>entry\<in>set allowlist. normalizeOrigin u (JStr entry) = Some n))"
    by (auto simp: isAllowedOrigin_def list_ex_iff split: option.splits)
  then show ?thesis unfolding normalizeOrigin_Some by auto
qed

text \<open>A request passes the origin check exactly when it has no Origin header or its origin is, after
  parsing, the origin of a configured entry; the value \<open>null\<close> never passes, and without configuration
  outside development no origin does. Every refusal reaches the client with status 403 and a fixed
  message.\<close>

theorem cors_policy_exact:
  "(createCorsOptions u env v = None \<longleftrightarrow>
      v = JUndef \<or> (\<exists>s n entry. v = JStr s \<and> s \<noteq> [] \<and> s \<noteq> ''null'' \<and> u s = Some n \<and>
        entry \<in> set (getAllowedOriginsFromEnv env) \<and> entry \<noteq> [] \<and> entry \<noteq> ''null'' \<and> u entry = Some n)) \<and>
   (case createCorsOptions u env v of
      None \<Rightarrow> True
    | Some e \<Rightarrow> error_chain dev str path e = (JInt 403, JObj [(''error'', JStr CORS_REJECTION_MESSAGE)])) \<and>
   (trim (or_default (CORS_ALLOWED_ORIGINS env) (CORS_ORIGINS env)) = [] \<and> ce_node_env env \<noteq> ''development'' \<and>
      v \<noteq> JUndef \<longrightarrow> createCorsOptions u env v \<noteq> None)"
proof -
  have iff: "createCorsOptions u env v = None \<longleftrightarrow> v = JUndef \<or> isAllowedOrigin u v (getAllowedOriginsFromEnv env)"
    by (auto simp: createCorsOptions_def cors_origin_def isAllowedOrigin_iff)
  have some: "error_chain dev str path e = (JInt 403, JObj [(''error'', JStr CORS_REJECTION_MESSAGE)])"
    if "createCorsOptions u env v = Some e" for e
    using that by (auto simp: createCorsOptions_def cors_origin_def createCorsRejectionError_def error_chain_def
        handleCorsError_def isCorsOriginRejectedError_def split: if_splits)
  have none: "\<not> isAllowedOrigin u v (getAllowedOriginsFromEnv env)"
    if "trim (or_default (CORS_ALLOWED_ORIGINS env) (CORS_ORIGINS env)) = []" "ce_node_env env \<noteq> ''development''"
    using that by (simp add: getAllowedOriginsFromEnv_def parseAllowedOrigins_def Let_def isAllowedOrigin_iff)
  show ?thesis using iff some none unfolding isAllowedOrigin_iff[symmetric] by (auto split: option.splits)
qed

theorem cors_policy_exact_witness:
  "createCorsOptions Some \<lparr>CORS_ALLOWED_ORIGINS = [], CORS_ORIGINS = [], ce_node_env = ''production''\<rparr> (JStr ''https://a'') \<noteq> None"
proof -
  let ?e = "\<lparr>CORS_ALLOWED_ORIGINS = [], CORS_ORIGINS = [], ce_node_env = ''production''\<rparr>"
  have "trim (or_default (CORS_ALLOWED_ORIGINS ?e) (CORS_ORIGINS ?e)) = [] \<and> ce_node_env ?e \<noteq> ''development'' \<and>
      JStr ''https://a'' \<noteq> JUndef" by (simp add: or_default_def)
  then show ?thesis using cors_policy_exact[of Some ?e "JStr ''https://a''"] by blast
qed

text \<open>The origin of a URL with a scheme of its own is the text \<open>null\<close>, which is compared like any other: one
  such entry admits every origin of such a scheme.\<close>

lemma opaque_origins_collide:
  assumes "u ''capacitor://localhost'' = Some ''null''" "u ''chrome-extension://x'' = Some ''null''"
    "''capacitor://localhost'' \<in> set (getAllowedOriginsFromEnv env)"
  shows "createCorsOptions u env (JStr ''chrome-extension://x'') = None"
proof -
  have "isAllowedOrigin u (JStr ''chrome-extension://x'') (getAllowedOriginsFromEnv env)"
    unfolding isAllowedOrigin_iff using assms by auto
  moreover have "getAllowedOriginsFromEnv env \<noteq> []" using assms(3) by auto
  ultimately show ?thesis by (simp add: createCorsOptions_def cors_origin_def)
qed

end
