(* ===== verification/V1Routes.thy ===== *)
theory V1Routes
  imports Auth HttpErrors
begin

text \<open>
  The invoice routes of \<open>src/src/routes/v1/index.js\<close> composed with the tenant middleware, the PATCH guard
  and the invoice service; the chain of body limits that \<open>src/src/app.js\<close> installs; the registry of
  mounted routers (\<open>src/src/utils/routeMountRegistry.js\<close>); and the keys of the rate limiters
  (\<open>src/src/middleware/rateLimit.js\<close>).

  \<open>parseCreate\<close> and \<open>parseUpdate\<close> are \<open>safeParse\<close> of the two Zod schemas of \<open>src/src/schemas/invoice.js\<close>:
  they return the issues or the parsed object.
\<close>

section \<open>Mounted routers\<close>

definition mountFeatureRouter :: "string \<Rightarrow> 'r \<Rightarrow> (string \<times> 'r) list \<Rightarrow> (string \<times> 'r) list option" where
  "mountFeatureRouter basePath router mounts =
     (if list_ex (\<lambda>(p, r). p = basePath \<and> r = router) mounts then None
      else Some (mounts @ [(basePath, router)]))"

text \<open>The two loops over pairs of positions; True when no duplicate is found.\<close>

fun assertNoDuplicateRouterMounts :: "(string \<times> 'r) list \<Rightarrow> bool" where
  "assertNoDuplicateRouterMounts [] = True"
| "assertNoDuplicateRouterMounts (left # rest) =
     (if list_ex (\<lambda>right. fst left = fst right \<and> snd left = snd right) rest then False
      else assertNoDuplicateRouterMounts rest)"

definition resetFeatureRouterMounts :: "(string \<times> 'r) list \<Rightarrow> (string \<times> 'r) list" where
  "resetFeatureRouterMounts mounts = []"

fun mount_all :: "(string \<times> 'r) list \<Rightarrow> (string \<times> 'r) list \<Rightarrow> (string \<times> 'r) list option" where
  "mount_all [] mounts = Some mounts"
| "mount_all ((p, r) # rest) mounts =
     (case mountFeatureRouter p r mounts of None \<Rightarrow> None | Some mounts' \<Rightarrow> mount_all rest mounts')"

section \<open>Body limits of the application\<close>

text \<open>Guards look at the declared length only; a parser reads the body of its own content type.\<close>

definition app_body :: "body_env \<Rightarrow> bool \<Rightarrow> bool \<Rightarrow> jsval \<Rightarrow> string \<Rightarrow> int \<Rightarrow> size_error + body_outcome" where
  "app_body env is_json is_form contentLength contentType received =
     (case (jsonBodyLimit env [] [], urlencodedBodyLimit env []) of
        (Inr jl, Inr ul) \<Rightarrow>
          Inr (case handle_body jl contentLength contentType (if is_json then received else 0) of
              TooLarge l t \<Rightarrow> TooLarge l t
            | BodyNext \<Rightarrow> handle_body ul contentLength contentType (if is_form then received else 0))
      | (Inl e, _) \<Rightarrow> Inl e
      | (_, Inl e) \<Rightarrow> Inl e)"

text \<open>\<open>POST /api/invoices\<close> adds its own guard; its parser finds the body already parsed.\<close>

definition invoice_upload_body :: "body_env \<Rightarrow> bool \<Rightarrow> bool \<Rightarrow> jsval \<Rightarrow> string \<Rightarrow> int \<Rightarrow> size_error + body_outcome" where
  "invoice_upload_body env is_json is_form contentLength contentType received =
     (case (app_body env is_json is_form contentLength contentType received, invoiceBodyLimit env []) of
        (Inl e, _) \<Rightarrow> Inl e
      | (_, Inl e) \<Rightarrow> Inl e
      | (Inr (TooLarge l t), _) \<Rightarrow> Inr (TooLarge l t)
      | (Inr BodyNext, Inr il) \<Rightarrow> Inr (handle_body il contentLength contentType 0))"

section \<open>Rate limit keys\<close>

definition parseRateLimitEnv :: "string \<Rightarrow> int \<Rightarrow> int" where
  "parseRateLimitEnv value defaultValue =
     (if value = [] then defaultValue
      else (case parse_int_str value of None \<Rightarrow> defaultValue | Some n \<Rightarrow> if n < 0 then defaultValue else n))"

definition getApiKey :: "request \<Rightarrow> string option" where
  "getApiKey req = (case col ''x-api-key'' (rq_headers req) of JStr s \<Rightarrow> Some (trim s) | _ \<Rightarrow> None)"

text \<open>\<open>ip\<close> and \<open>remote\<close> are the addresses the framework gives, empty where it gives none.\<close>

definition apiKeyKeyGenerator :: "string \<Rightarrow> string \<Rightarrow> request \<Rightarrow> string" where
  "apiKeyKeyGenerator ip remote req =
     (case getApiKey req of
        Some k \<Rightarrow> if k \<noteq> [] then ''apikey_'' @ k else or_default (or_default ip remote) ''127.0.0.1''
      | None \<Rightarrow> or_default (or_default ip remote) ''127.0.0.1'')"

definition keyGenerator :: "(jsval \<Rightarrow> string) \<Rightarrow> string \<Rightarrow> string \<Rightarrow> request \<Rightarrow> string" where
  "keyGenerator str ip remote req =
     (if truthy (js_get (rq_user req) ''id'') then ''user_'' @ str (js_get (rq_user req) ''id'')
      else apiKeyKeyGenerator ip remote req)"

section \<open>The invoice routes\<close>

text \<open>A handler sends a response or gives an error to \<open>next\<close>.\<close>

datatype v1_result = V1Json int jsval | V1Err row

record v1_env =
  v1_production :: bool
  v1_pg :: bool
  v1_accepts :: "table \<Rightarrow> row \<Rightarrow> bool"
  v1_defaults :: row
  v1_stringify :: "jsval \<Rightarrow> string"
  v1_genId :: string
  v1_now :: time
  v1_url :: string
  v1_parseCreate :: "jsval \<Rightarrow> jsval + row"
  v1_parseUpdate :: "jsval \<Rightarrow> jsval + row"

definition validation_failure :: "v1_env \<Rightarrow> row \<Rightarrow> row" where
  "validation_failure c more_fields =
     make_app_error (v1_production c)
       ([(''type'', JStr ''https://liquifact.com/probs/validation-error''), (''title'', JStr ''Validation Error''),
         (''status'', JInt 422)] @ more_fields)"

definition not_found :: "v1_env \<Rightarrow> row" where
  "not_found c = make_app_error (v1_production c)
     [(''title'', JStr ''Not Found''), (''status'', JInt 404), (''detail'', JStr ''Invoice not found'')]"

definition service_error :: "v1_env \<Rightarrow> invoice_error \<Rightarrow> row" where
  "service_error c e =
     (case e of
        TypeErr m \<Rightarrow> [(''name'', JStr ''TypeError''), (''message'', JStr m)]
      | LockedStatus d \<Rightarrow> validation_failure c [(''detail'', JStr d), (''code'', JStr ''LOCKED_STATUS'')]
      | PlainErr m \<Rightarrow> [(''name'', JStr ''Error''), (''message'', JStr m)]
      | ReferenceErr m \<Rightarrow> [(''name'', JStr ''ReferenceError''), (''message'', JStr m)]
      | _ \<Rightarrow> [(''name'', JStr ''Error'')])"

definition invalid_body :: "v1_env \<Rightarrow> row \<Rightarrow> jsval \<Rightarrow> row" where
  "invalid_body c hint errs =
     validation_failure c ([(''detail'', JStr ''Request body contains invalid or missing fields.''), (''instance'', JStr (v1_url c)),
       (''code'', JStr ''VALIDATION_ERROR''), (''retryable'', JBool False)] @ hint @ [(''fieldErrors'', errs)])"

definition v1_list :: "v1_env \<Rightarrow> string \<Rightarrow> jsval \<Rightarrow> table \<Rightarrow> v1_result" where
  "v1_list c tenantId query t =
     (let includeDeleted = (js_get query ''includeDeleted'' = JStr ''true'') in
      case listInvoices tenantId includeDeleted JUndef t of
        Inl e \<Rightarrow> V1Err (service_error c e)
      | Inr rows \<Rightarrow> V1Json 200 (JObj [(''data'', JArr (map JObj rows)),
          (''message'', JStr (if includeDeleted then ''Showing all invoices (including deleted).'' else ''Showing active invoices.''))]))"

definition row_or_null :: "row option \<Rightarrow> jsval" where
  "row_or_null r = (case r of Some x \<Rightarrow> JObj x | None \<Rightarrow> JUndef)"

definition v1_create :: "v1_env \<Rightarrow> string \<Rightarrow> jsval \<Rightarrow> table \<Rightarrow> v1_result \<times> table" where
  "v1_create c tenantId body t =
     (case v1_parseCreate c body of
        Inl errs \<Rightarrow> (V1Err (invalid_body c [(''retryHint'', JStr ''Correct the highlighted fields and retry.'')] errs), t)
      | Inr d \<Rightarrow>
          let customerName = trim (str_of (js_or (js_or (col ''buyer'' d) (col ''customer'' d)) (JStr [])));
              invoiceData = JObj [(''amount'', col ''amount'' d), (''customer'', JStr customerName),
                (''currency'', col ''currency'' d), (''dueDate'', col ''dueDate'' d),
                (''description'', col ''description'' d), (''invoiceNumber'', col ''invoiceNumber'' d)]
          in case createInvoice (v1_pg c) (v1_accepts c) (v1_defaults c) (v1_stringify c) (v1_genId c) invoiceData tenantId t of
               (Inl e, t') \<Rightarrow> (V1Err (service_error c e), t')
             | (Inr r, t') \<Rightarrow> (V1Json 201 (JObj [(''data'', row_or_null r), (''message'', JStr ''Invoice created successfully.'')]), t'))"

definition locked_field :: "v1_env \<Rightarrow> string \<Rightarrow> jsval \<Rightarrow> row" where
  "locked_field c field st =
     validation_failure c [(''detail'', JStr (''Field '' @ [CHR 0x27] @ field @ [CHR 0x27] @ '' cannot be modified when invoice status is '' @ [CHR 0x27] @ str_of st @ [CHR 0x27] @ ''.'')),
       (''instance'', JStr (v1_url c)), (''code'', JStr ''LOCKED_FIELD''), (''retryable'', JBool False),
       (''fieldErrors'', JObj [(field, JStr ''Field is locked for this invoice status'')])]"

definition v1_patch :: "v1_env \<Rightarrow> string \<Rightarrow> string \<Rightarrow> jsval \<Rightarrow> table \<Rightarrow> v1_result \<times> table" where
  "v1_patch c tenantId paramId body t =
     (case validatePatchFields body of
        PatchBad m \<Rightarrow> (V1Json 400 (JObj [(''error'', JStr m)]), t)
      | PatchNext sanitizedUpdate \<Rightarrow>
          (case v1_parseUpdate c (JObj sanitizedUpdate) of
             Inl errs \<Rightarrow> (V1Err (invalid_body c [] errs), t)
           | Inr updates \<Rightarrow>
               let invoiceId = JStr (trim paramId) in
               (case getInvoiceById invoiceId tenantId t of
                  Inl e \<Rightarrow> (V1Err (service_error c e), t)
                | Inr None \<Rightarrow> (V1Err (not_found c), t)
                | Inr (Some existing) \<Rightarrow>
                    (case detectLockedFieldChange sanitizedUpdate (col ''status'' existing) of
                       Some field \<Rightarrow> (V1Err (locked_field c field (col ''status'' existing)), t)
                     | None \<Rightarrow>
                         (case updateInvoice (v1_pg c) (v1_accepts c) (v1_now c) invoiceId updates tenantId t of
                            (Inl e, t') \<Rightarrow> (V1Err (service_error c e), t')
                          | (Inr None, t') \<Rightarrow> (V1Err (not_found c), t')
                          | (Inr (Some r), t') \<Rightarrow>
                              (V1Json 200 (JObj [(''data'', JObj r), (''message'', JStr ''Invoice updated successfully.'')]), t'))))))"

definition v1_delete :: "v1_env \<Rightarrow> string \<Rightarrow> string \<Rightarrow> table \<Rightarrow> v1_result \<times> table" where
  "v1_delete c tenantId paramId t =
     (case deleteInvoice (v1_pg c) (v1_now c) (JStr (trim paramId)) tenantId t of
        (Inl e, t') \<Rightarrow> (V1Err (service_error c e), t')
      | (Inr None, t') \<Rightarrow> (V1Err (not_found c), t')
      | (Inr (Some r), t') \<Rightarrow>
          (V1Json 200 (JObj [(''data'', JObj r), (''message'', JStr ''Invoice deleted (soft-delete) successfully.'')]), t'))"

datatype v1_call = ListInvoices jsval | CreateInvoice jsval | PatchInvoice string jsval | DeleteInvoice string

text \<open>Each route runs \<open>extractTenant\<close> first, and nothing before it.\<close>

definition v1_request :: "v1_env \<Rightarrow> jsval \<Rightarrow> request \<Rightarrow> v1_call \<Rightarrow> table \<Rightarrow> v1_result \<times> table" where
  "v1_request c maxLen req call t =
     (case extractTenant maxLen req of
        Next req' \<Rightarrow>
          let tenantId = str_of (rq_tenantId req') in
          (case call of
             ListInvoices query \<Rightarrow> (v1_list c tenantId query t, t)
           | CreateInvoice body \<Rightarrow> v1_create c tenantId body t
           | PatchInvoice paramId body \<Rightarrow> v1_patch c tenantId paramId body t
           | DeleteInvoice paramId \<Rightarrow> v1_delete c tenantId paramId t)
      | Respond st m \<Rightarrow> (V1Json st (JObj [(''error'', JStr m)]), t)
      | _ \<Rightarrow> (V1Json 500 JNull, t))"

section \<open>Mounting is duplicate free\<close>

lemma assertNoDuplicate_iff: "assertNoDuplicateRouterMounts ms \<longleftrightarrow> distinct ms"
  by (induction ms) (auto simp: list_ex_iff prod_eq_iff)

lemma mountFeatureRouter_Some:
  "mountFeatureRouter p r ms = (if (p, r) \<in> set ms then None else Some (ms @ [(p, r)]))"
  by (auto simp: mountFeatureRouter_def list_ex_iff)

lemma mount_all_iff:
  "distinct ms \<Longrightarrow> mount_all rs ms = (if distinct (ms @ rs) then Some (ms @ rs) else None)"
proof (induction rs arbitrary: ms)
  case (Cons x rs)
  obtain p r where "x = (p, r)" by (cases x)
  then show ?case using Cons(1)[of "ms @ [x]"] Cons(2) by (auto simp: mountFeatureRouter_Some)
qed simp

text \<open>From a reset registry a sequence of mounts succeeds exactly when no router is mounted twice at the
  same path, the registry then lists the mounts in their order, and the final check of the application
  never fails after it.\<close>

theorem router_mounts_unique:
  "mount_all rs (resetFeatureRouterMounts old) = (if distinct rs then Some rs else None) \<and>
   (case mount_all rs (resetFeatureRouterMounts old) of
      None \<Rightarrow> True | Some ms \<Rightarrow> assertNoDuplicateRouterMounts ms)"
  by (simp add: resetFeatureRouterMounts_def mount_all_iff assertNoDuplicate_iff)

section \<open>The effective body limit\<close>

lemma handle_body_Next:
  "handle_body bl cl ct received = BodyNext \<longleftrightarrow> received \<le> bl_maxBytes bl \<and>
     (case getDeclaredContentLength cl of None \<Rightarrow> True | Some k \<Rightarrow> k \<le> bl_maxBytes bl)"
  by (auto simp: handle_body_def enforceDeclaredBodyLimit_def payloadTooLargeHandler_def
      split: option.splits)

definition default_env :: body_env where
  "default_env = \<lparr>be_json = [], be_urlencoded = [], be_raw = [], be_invoice = []\<rparr>"

lemma default_sizes:
  "parseSize (JStr ''100kb'') = Inr 102400" "parseSize (JStr ''50kb'') = Inr 51200" "parseSize (JStr ''512kb'') = Inr 524288"
proof -
  have "show_nat 100 @ ''kb'' = ''100kb''" "show_nat 50 @ ''kb'' = ''50kb''" "show_nat 512 @ ''kb'' = ''512kb''"
    by code_simp+
  then show "parseSize (JStr ''100kb'') = Inr 102400" "parseSize (JStr ''50kb'') = Inr 51200"
    "parseSize (JStr ''512kb'') = Inr 524288"
    using parseSize_show[of "''kb''" 1024 100] parseSize_show[of "''kb''" 1024 50] parseSize_show[of "''kb''" 1024 512]
    by simp_all
qed

text \<open>With the default limits an invoice upload passes exactly when its declared length, if there is
  one, is at most 51200 bytes and the body the parser of its type reads is at most 102400 bytes for JSON
  and 51200 for a form: the guard of the URL-encoded parser applies to every request, so neither the
  limit of 100 KB for JSON nor the one of 512 KB for invoices is ever reached.\<close>

theorem body_limits_effective:
  "\<exists>r. invoice_upload_body default_env is_json is_form contentLength contentType received = Inr r \<and>
     (r = BodyNext \<longleftrightarrow>
        (is_json \<longrightarrow> received \<le> 102400) \<and> (is_form \<longrightarrow> received \<le> 51200) \<and>
        (case getDeclaredContentLength contentLength of None \<Rightarrow> True | Some k \<Rightarrow> k \<le> 51200))"
proof -
  let ?jl = "\<lparr>bl_limit = ''100kb'', bl_maxBytes = 102400, bl_type = ''json''\<rparr>"
  let ?ul = "\<lparr>bl_limit = ''50kb'', bl_maxBytes = 51200, bl_type = ''urlencoded''\<rparr>"
  let ?il = "\<lparr>bl_limit = ''512kb'', bl_maxBytes = 524288, bl_type = ''invoice''\<rparr>"
  have l: "jsonBodyLimit default_env [] [] = Inr ?jl" "urlencodedBodyLimit default_env [] = Inr ?ul"
    "invoiceBodyLimit default_env [] = Inr ?il"
    by (simp_all add: jsonBodyLimit_def urlencodedBodyLimit_def invoiceBodyLimit_def default_env_def or_default_def
        DEFAULT_LIMITS_def resolveLimitType_def default_sizes)
  let ?hj = "handle_body ?jl contentLength contentType (if is_json then received else 0)"
  let ?hu = "handle_body ?ul contentLength contentType (if is_form then received else 0)"
  let ?hi = "handle_body ?il contentLength contentType 0"
  have chain: "\<exists>r. invoice_upload_body default_env is_json is_form contentLength contentType received = Inr r \<and>
      (r = BodyNext \<longleftrightarrow> ?hj = BodyNext \<and> ?hu = BodyNext \<and> ?hi = BodyNext)"
    unfolding invoice_upload_body_def app_body_def l by (cases ?hj; cases ?hu) simp_all
  show ?thesis
    using chain unfolding handle_body_Next by (cases "getDeclaredContentLength contentLength") auto
qed

theorem body_limits_effective_witness:
  "\<exists>r. invoice_upload_body default_env True False (JStr ''9'') ''application/json'' 9 = Inr r \<and> r = BodyNext"
proof -
  have "getDeclaredContentLength (JStr ''9'') = Some 9" by code_simp
  then show ?thesis
    using body_limits_effective[of True False "JStr ''9''" "''application/json''" 9] by auto
qed

section \<open>Tenant isolation through the routes\<close>

definition data_rows :: "v1_result \<Rightarrow> row list" where
  "data_rows res =
     (case res of
        V1Json _ body \<Rightarrow>
          (case js_get body ''data'' of
             JArr vs \<Rightarrow> concat (map (\<lambda>v. case v of JObj r \<Rightarrow> [r] | _ \<Rightarrow> []) vs)
           | JObj r \<Rightarrow> [r]
           | _ \<Rightarrow> [])
      | V1Err _ \<Rightarrow> [])"

lemma patch_fields_allowed: "validatePatchFields body = PatchNext upd \<Longrightarrow> fst ` set upd \<subseteq> set MUTABLE_FIELDS"
  by (auto simp: validatePatchFields_def extractAllowedFields_def Let_def split: jsval.splits if_splits)

lemma v1_list_rows: "r \<in> set (data_rows (v1_list c tenantId q t)) \<Longrightarrow> col ''tenant_id'' r = JStr tenantId"
  using listInvoices_owned[of tenantId "js_get q ''includeDeleted'' = JStr ''true''" JUndef t]
  by (auto simp: v1_list_def data_rows_def Let_def split: sum.splits)

text \<open>Invoice ids are unique, so that a row accepted beside one with its id belongs to the same tenant.\<close>

definition ids_unique :: "v1_env \<Rightarrow> bool" where
  "ids_unique c \<longleftrightarrow> (\<forall>t r r'. v1_accepts c t r \<longrightarrow> r' \<in> set t \<longrightarrow>
      col ''invoice_id'' r' = col ''invoice_id'' r \<longrightarrow> col ''tenant_id'' r' = col ''tenant_id'' r)"

text \<open>The strict schema returns no key that its input does not have.\<close>

definition update_strict :: "v1_env \<Rightarrow> bool" where
  "update_strict c \<longleftrightarrow> (\<forall>kvs upd. v1_parseUpdate c (JObj kvs) = Inr upd \<longrightarrow> fst ` set upd \<subseteq> fst ` set kvs)"

lemma createInvoice_row:
  assumes "createInvoice pg accepts defaults stringify genId d tenantId t = (Inr (Some r), t')"
    "\<forall>t r r'. accepts t r \<longrightarrow> r' \<in> set t \<longrightarrow>
      col ''invoice_id'' r' = col ''invoice_id'' r \<longrightarrow> col ''tenant_id'' r' = col ''tenant_id'' r"
  shows "col ''tenant_id'' r = JStr tenantId"
proof -
  let ?new = "invoice_row stringify genId d tenantId @ defaults"
  have a: "accepts t ?new" and r: "pg \<and> r = ?new \<or> List.find (col_eq ''invoice_id'' (col ''invoice_id'' ?new)) (t @ [?new]) = Some r"
    using assms(1) by (auto simp: createInvoice_def Let_def split: if_splits)
  have "r = ?new \<or> r \<in> set t \<and> col ''invoice_id'' r = col ''invoice_id'' ?new"
    using r by (auto simp: col_eq_def dest!: find_SomeD)
  then have "col ''tenant_id'' r = col ''tenant_id'' ?new" using assms(2) a by blast
  then show ?thesis by simp
qed

lemma v1_create_scoped:
  assumes "ids_unique c"
  shows "of_others tenantId (snd (v1_create c tenantId body t)) = of_others tenantId t \<and>
    (\<forall>r\<in>set (data_rows (fst (v1_create c tenantId body t))). col ''tenant_id'' r = JStr tenantId)"
proof (cases "v1_parseCreate c body")
  case (Inr d)
  let ?data = "JObj [(''amount'', col ''amount'' d),
     (''customer'', JStr (trim (str_of (js_or (js_or (col ''buyer'' d) (col ''customer'' d)) (JStr []))))),
     (''currency'', col ''currency'' d), (''dueDate'', col ''dueDate'' d),
     (''description'', col ''description'' d), (''invoiceNumber'', col ''invoiceNumber'' d)]"
  obtain res t' where cr: "createInvoice (v1_pg c) (v1_accepts c) (v1_defaults c) (v1_stringify c) (v1_genId c) ?data tenantId t
      = (res, t')" by fastforce
  have others: "of_others tenantId t' = of_others tenantId t"
    using createInvoice_others[of tenantId "v1_pg c" "v1_accepts c" "v1_defaults c" "v1_stringify c" "v1_genId c" ?data t] cr
    by simp
  have row: "col ''tenant_id'' r = JStr tenantId" if "res = Inr (Some r)" for r
    using createInvoice_row[OF _ assms[unfolded ids_unique_def]] cr that by blast
  show ?thesis
    using others row
    by (auto simp: v1_create_def Inr Let_def cr data_rows_def row_or_null_def split: sum.splits option.splits)
qed (simp add: v1_create_def data_rows_def)

lemma v1_patch_scoped:
  assumes "update_strict c"
  shows "of_others tenantId (snd (v1_patch c tenantId i body t)) = of_others tenantId t \<and>
    (\<forall>r\<in>set (data_rows (fst (v1_patch c tenantId i body t))). col ''tenant_id'' r = JStr tenantId)"
proof (cases "\<exists>upd updates. validatePatchFields body = PatchNext upd \<and> v1_parseUpdate c (JObj upd) = Inr updates")
  case True
  then obtain upd updates where u: "validatePatchFields body = PatchNext upd" "v1_parseUpdate c (JObj upd) = Inr updates"
    by blast
  have no: "\<not> amap_has updates ''tenant_id''"
  proof -
    have "fst ` set updates \<subseteq> fst ` set upd" using assms u(2) unfolding update_strict_def by blast
    then have "fst ` set updates \<subseteq> set MUTABLE_FIELDS" using patch_fields_allowed[OF u(1)] by (rule subset_trans)
    moreover have "''tenant_id'' \<notin> set MUTABLE_FIELDS" by (simp add: MUTABLE_FIELDS_def)
    ultimately show ?thesis unfolding amap_has_def by blast
  qed
  obtain res t' where up: "updateInvoice (v1_pg c) (v1_accepts c) (v1_now c) (JStr (trim i)) updates tenantId t = (res, t')"
    by fastforce
  have others: "of_others tenantId t' = of_others tenantId t"
    using updateInvoice_others[OF no, of tenantId "v1_pg c" "v1_accepts c" "v1_now c" "JStr (trim i)" t] up by simp
  show ?thesis
    using others updateInvoice_row[OF up[THEN trans] no]
    by (auto simp: v1_patch_def u Let_def up data_rows_def split: sum.splits option.splits)
next
  case False
  then show ?thesis by (auto simp: v1_patch_def data_rows_def split: patch_result.splits sum.splits)
qed

lemma v1_delete_scoped:
  "of_others tenantId (snd (v1_delete c tenantId i t)) = of_others tenantId t \<and>
   (\<forall>r\<in>set (data_rows (fst (v1_delete c tenantId i t))). col ''tenant_id'' r = JStr tenantId)"
proof -
  obtain res t' where d: "deleteInvoice (v1_pg c) (v1_now c) (JStr (trim i)) tenantId t = (res, t')" by fastforce
  then show ?thesis
    using deleteInvoice_others[of tenantId "v1_pg c" "v1_now c" "JStr (trim i)" t] deleteInvoice_row
    by (auto simp: v1_delete_def data_rows_def split: sum.splits option.splits)
qed

text \<open>C10: Every request to the invoice routes acts for one tenant, the one \<open>extractTenant\<close> resolves: with
  unique invoice ids and the strict update schema, whatever is listed, created, patched or deleted leaves
  the rows of all other tenants exactly as they are, and no row in the response belongs to another tenant.
  Without a tenant the table is untouched and the response is 400.\<close>

theorem v1_tenant_isolation:
  assumes "ids_unique c" "update_strict c"
  shows "case extractTenant maxLen req of
      Next req' \<Rightarrow> \<exists>tenantId. rq_tenantId req' = JStr tenantId \<and>
        of_others tenantId (snd (v1_request c maxLen req call t)) = of_others tenantId t \<and>
        (\<forall>r\<in>set (data_rows (fst (v1_request c maxLen req call t))). col ''tenant_id'' r = JStr tenantId)
    | _ \<Rightarrow> \<exists>m. v1_request c maxLen req call t = (V1Json 400 (JObj [(''error'', JStr m)]), t)"
proof (cases "extractTenant maxLen req")
  case (Next req')
  then obtain tenantId where tn: "rq_tenantId req' = JStr tenantId" unfolding extractTenant_Next by auto
  have "of_others tenantId (snd (v1_request c maxLen req call t)) = of_others tenantId t \<and>
      (\<forall>r\<in>set (data_rows (fst (v1_request c maxLen req call t))). col ''tenant_id'' r = JStr tenantId)"
    using v1_list_rows v1_create_scoped[OF assms(1)] v1_patch_scoped[OF assms(2)] v1_delete_scoped
    by (cases call) (auto simp: v1_request_def Next tn str_of_def)
  then show ?thesis using Next tn by simp
qed (auto simp: v1_request_def extractTenant_def split: option.splits)

definition sample_v1 :: v1_env where
  "sample_v1 = \<lparr>v1_production = True, v1_pg = True,
     v1_accepts = (\<lambda>t r. list_all (\<lambda>r'. col ''invoice_id'' r' \<noteq> col ''invoice_id'' r \<or> col ''tenant_id'' r' = col ''tenant_id'' r) t),
     v1_defaults = [], v1_stringify = (\<lambda>_. []), v1_genId = ''inv_9'', v1_now = 7, v1_url = ''/v1/invoices'',
     v1_parseCreate = (\<lambda>v. Inl v),
     v1_parseUpdate = (\<lambda>v. case v of JObj kvs \<Rightarrow> if amap_has kvs ''notes'' then Inl v else Inr kvs | _ \<Rightarrow> Inl v)\<rparr>"

definition anonymous_request :: "string \<Rightarrow> request" where
  "anonymous_request tenantId = \<lparr>rq_headers = [(''x-tenant-id'', JStr tenantId)], rq_params = [], rq_user = JUndef,
     rq_walletAddress = JUndef, rq_tenantId = JUndef, rq_apiClient = JUndef, rq_invoice = JUndef\<rparr>"

theorem v1_tenant_isolation_witness:
  "of_others ''a'' (snd (v1_request sample_v1 (JInt 128) (anonymous_request ''a'') (DeleteInvoice ''inv_1'') sample_invoices)) =
   of_others ''a'' sample_invoices"
proof -
  have u: "ids_unique sample_v1" by (auto simp: ids_unique_def sample_v1_def list_all_iff)
  have s: "update_strict sample_v1" by (auto simp: update_strict_def sample_v1_def split: if_splits)
  have e: "extractTenant (JInt 128) (anonymous_request ''a'') = Next ((anonymous_request ''a'')\<lparr>rq_tenantId := JStr ''a''\<rparr>)"
    by code_simp
  show ?thesis
    using v1_tenant_isolation[OF u s, of "JInt 128" "anonymous_request ''a''" "DeleteInvoice ''inv_1''" sample_invoices]
    unfolding e by simp
qed

text \<open>No route asks for a token: a request that only names a tenant in a header deletes an invoice of that
  tenant.\<close>

lemma anonymous_delete:
  "v1_request sample_v1 (JInt 128) (anonymous_request ''a'') (DeleteInvoice ''inv_1'') sample_invoices =
   (V1Json 200 (JObj [(''data'', JObj [(''invoice_id'', JStr ''inv_1''), (''tenant_id'', JStr ''a''), (''status'', JStr ''pending''),
       (''created_at'', JInt 1), (''deleted_at'', JInt 7)]),
     (''message'', JStr ''Invoice deleted (soft-delete) successfully.'')]),
    [[(''invoice_id'', JStr ''inv_1''), (''tenant_id'', JStr ''a''), (''status'', JStr ''pending''), (''created_at'', JInt 1),
      (''deleted_at'', JInt 7)], sample_invoices ! 1])"
  by code_simp

text \<open>The PATCH guard lets \<open>notes\<close> pass, which the update schema does not have: with a schema that refuses
  unknown keys no request changes notes.\<close>

lemma notes_never_patched:
  assumes "\<And>kvs. amap_has kvs ''notes'' \<Longrightarrow> \<exists>errs. v1_parseUpdate c (JObj kvs) = Inl errs" "amap_has kvs ''notes''"
  shows "\<exists>errs. v1_patch c tenantId i (JObj kvs) t = (V1Err (invalid_body c [] errs), t)"
proof -
  let ?s = "extractAllowedFields kvs"
  have n: "amap_has ?s ''notes''"
    using assms(2) by (force simp: amap_has_def extractAllowedFields_def MUTABLE_FIELDS_def)
  then have "?s \<noteq> []" by (auto simp: amap_has_def)
  moreover obtain errs where "v1_parseUpdate c (JObj ?s) = Inl errs" using assms(1)[OF n] by blast
  ultimately show ?thesis by (auto simp: v1_patch_def validatePatchFields_def Let_def)
qed

end
