(* ===== verification/JobQueue.thy ===== *)
theory JobQueue
  imports Prelude
begin

text \<open>
  The in-memory job queue of \<open>src/src/workers/jobQueue.js\<close> (class \<open>JobQueue\<close>).

  A queue is a record with the fields of the object; the jobs live in an insertion-ordered map
  from job id to job, and \<open>queue\<close> and \<open>retryQueue\<close> hold ids. The calls made to a persistence
  adapter are appended to \<open>calls\<close>. Operations that throw return a sum.
\<close>

named_theorems jq_defs \<open>definitions of the queue operations\<close>

section \<open>State\<close>

datatype job_status = PENDING | PROCESSING | COMPLETED | FAILED | RETRYING

record job =
  job_id :: string
  job_type :: string
  payload :: jsval
  status :: job_status
  priority :: int
  delayMs :: int
  createdAt :: time
  startedAt :: "time option"
  completedAt :: "time option"
  attempts :: nat
  lastError :: "string option"

datatype persist_call = PersistJob job | UpdateJobStatus job | AckJob string

record job_queue =
  maxRetries :: int
  maxQueueSize :: int
  jobs :: "(string, job) amap"
  queue :: "string list"
  retryQueue :: "string list"
  persistence :: bool
  calls :: "persist_call list"

datatype queue_error =
    InvalidJobType
  | PayloadNotSerializable string
  | QueueFull int
  | JobNotFound string
  | CannotAck string job_status
  | ReferenceError string

record queue_options =
  opt_maxRetries :: "int option"
  opt_maxQueueSize :: "int option"
  opt_persistence :: bool

record enqueue_options =
  opt_priority :: "int option"
  opt_delayMs :: "int option"

text \<open>\<open>opt || d\<close> for a numeric option: \<open>0\<close> is falsy.\<close>

definition num_or :: "int option \<Rightarrow> int \<Rightarrow> int" where
  "num_or opt d = (case opt of None \<Rightarrow> d | Some n \<Rightarrow> if n = 0 then d else n)"

section \<open>Operations\<close>

text \<open>The constructor. \<open>options.persistence\<close> is documented, but no field is set from it, so
  \<open>this._persistence\<close> is undefined on every queue it returns.\<close>

definition new_JobQueue :: "queue_options \<Rightarrow> job_queue" where
  "new_JobQueue opts =
     \<lparr>maxRetries = min (case opt_maxRetries opts of None \<Rightarrow> 3 | Some n \<Rightarrow> n) 10,
      maxQueueSize = num_or (opt_maxQueueSize opts) 10000,
      jobs = [], queue = [], retryQueue = [], persistence = False, calls = []\<rparr>"

definition persist :: "persist_call \<Rightarrow> job_queue \<Rightarrow> job_queue" where
  "persist c q = (if persistence q then q\<lparr>calls := calls q @ [c]\<rparr> else q)"

text \<open>The payload argument is a JSON value, or the message with which \<open>JSON.stringify\<close> rejects
  it (a cycle or a BigInt).\<close>

definition enqueue ::
  "job_queue \<Rightarrow> jsval \<Rightarrow> string + jsval \<Rightarrow> enqueue_options \<Rightarrow> string \<Rightarrow> time \<Rightarrow>
   queue_error + (string \<times> job_queue)" where
  "enqueue q typ pl opts hex now =
     (case typ of
        JStr t \<Rightarrow>
          if trim t = [] then Inl InvalidJobType
          else (case pl of
              Inl msg \<Rightarrow> Inl (PayloadNotSerializable msg)
            | Inr p \<Rightarrow>
                if int (length (queue q) + length (retryQueue q)) \<ge> maxQueueSize q
                then Inl (QueueFull (maxQueueSize q))
                else
                  let jobId = ''job-'' @ hex;
                      job = \<lparr>job_id = jobId, job_type = t, payload = p, status = PENDING,
                             priority = num_or (opt_priority opts) 0,
                             delayMs = num_or (opt_delayMs opts) 0,
                             createdAt = now, startedAt = None, completedAt = None,
                             attempts = 0, lastError = None\<rparr>
                  in Inr (jobId, persist (PersistJob job)
                       (q\<lparr>jobs := AList.update jobId job (jobs q), queue := queue q @ [jobId]\<rparr>)))
      | _ \<Rightarrow> Inl InvalidJobType)"

definition isReadyToProcess :: "job \<Rightarrow> time \<Rightarrow> bool" where
  "isReadyToProcess job now \<longleftrightarrow>
     (status job = PENDING \<or> status job = RETRYING) \<and> now \<ge> delayMs job"

text \<open>The block that \<open>dequeue\<close> runs for a job it hands out: the job object is updated in place.\<close>

definition start_job :: "string \<Rightarrow> job \<Rightarrow> time \<Rightarrow> job_queue \<Rightarrow> job \<times> job_queue" where
  "start_job jobId job now q =
     (let job' = job\<lparr>status := PROCESSING, startedAt := Some now, attempts := attempts job + 1\<rparr>
      in (job', persist (UpdateJobStatus job') (q\<lparr>jobs := AList.update jobId job' (jobs q)\<rparr>)))"

text \<open>The loop over the main queue. A job that is not ready but has a positive \<open>delayMs\<close> goes
  back to the end of the queue and the loop goes on, so it runs until the clock reaches the
  delay: \<open>clk i\<close> is the time at the \<open>i\<close>-th iteration and not returning is \<open>None\<close>.\<close>

partial_function (option) dequeue_main ::
  "(nat \<Rightarrow> time) \<Rightarrow> nat \<Rightarrow> job_queue \<Rightarrow> (job option \<times> job_queue) option" where
  "dequeue_main clk i q =
     (case queue q of
        [] \<Rightarrow> Some (None, q)
      | jobId # rest \<Rightarrow>
          (case map_of (jobs q) jobId of
             None \<Rightarrow> dequeue_main clk (Suc i) (q\<lparr>queue := rest\<rparr>)
           | Some job \<Rightarrow>
               if isReadyToProcess job (clk i)
               then Some (map_prod Some id (start_job jobId job (clk (Suc i)) (q\<lparr>queue := rest\<rparr>)))
               else if delayMs job > 0
               then dequeue_main clk (Suc i) (q\<lparr>queue := rest @ [jobId]\<rparr>)
               else dequeue_main clk (Suc i) (q\<lparr>queue := rest\<rparr>)))"

declare dequeue_main.simps [code]

text \<open>The retry queue has priority; its head is looked at once.\<close>

definition dequeue_retry :: "(nat \<Rightarrow> time) \<Rightarrow> job_queue \<Rightarrow> job option \<times> job_queue" where
  "dequeue_retry clk q =
     (case retryQueue q of
        [] \<Rightarrow> (None, q)
      | jobId # rest \<Rightarrow>
          (case map_of (jobs q) jobId of
             None \<Rightarrow> (None, q\<lparr>retryQueue := rest\<rparr>)
           | Some job \<Rightarrow>
               if isReadyToProcess job (clk 0)
               then map_prod Some id (start_job jobId job (clk 1) (q\<lparr>retryQueue := rest\<rparr>))
               else (None, q\<lparr>retryQueue := rest @ [jobId]\<rparr>)))"

definition dequeue :: "(nat \<Rightarrow> time) \<Rightarrow> job_queue \<Rightarrow> (job option \<times> job_queue) option" where
  "dequeue clk q =
     (case dequeue_retry clk q of
        (Some job, q') \<Rightarrow> Some (Some job, q')
      | (None, q') \<Rightarrow> dequeue_main clk 2 q')"

definition ack :: "job_queue \<Rightarrow> string \<Rightarrow> time \<Rightarrow> queue_error + job_queue" where
  "ack q jobId now =
     (case map_of (jobs q) jobId of
        None \<Rightarrow> Inl (JobNotFound jobId)
      | Some job \<Rightarrow>
          if status job \<noteq> PROCESSING then Inl (CannotAck jobId (status job))
          else Inr (persist (AckJob jobId)
            (q\<lparr>jobs := AList.update jobId
                 (job\<lparr>status := COMPLETED, completedAt := Some now\<rparr>) (jobs q)\<rparr>)))"

definition cancel :: "job_queue \<Rightarrow> string \<Rightarrow> bool \<times> job_queue" where
  "cancel q jobId = (amap_has (jobs q) jobId, q\<lparr>jobs := AList.delete jobId (jobs q)\<rparr>)"

text \<open>\<open>Math.min(Math.pow(2, attempts - 1) * 1000, 60000)\<close>; with no attempt made the power
  is one half.\<close>

definition retry_delay :: "nat \<Rightarrow> int" where
  "retry_delay n = (case n of 0 \<Rightarrow> 500 | Suc k \<Rightarrow> min (2 ^ k * 1000) 60000)"

definition retry :: "job_queue \<Rightarrow> string \<Rightarrow> string \<Rightarrow> time \<Rightarrow> queue_error + job_queue" where
  "retry q jobId err now =
     (case map_of (jobs q) jobId of
        None \<Rightarrow> Inl (JobNotFound jobId)
      | Some job \<Rightarrow>
          let job1 = job\<lparr>lastError := Some err\<rparr> in
          if int (attempts job1) \<le> maxRetries q
          then let job2 = job1\<lparr>status := RETRYING, delayMs := now + retry_delay (attempts job1)\<rparr>
               in Inr (persist (UpdateJobStatus job2)
                    (q\<lparr>jobs := AList.update jobId job2 (jobs q),
                       retryQueue := retryQueue q @ [jobId]\<rparr>))
          else let job2 = job1\<lparr>status := FAILED, completedAt := Some now\<rparr>
               in Inr (persist (UpdateJobStatus job2)
                    (q\<lparr>jobs := AList.update jobId job2 (jobs q)\<rparr>)))"

definition getJob :: "job_queue \<Rightarrow> string \<Rightarrow> job option" where
  "getJob q jobId = map_of (jobs q) jobId"

record queue_stats =
  pending :: nat
  processing :: nat
  completed :: nat
  failed :: nat
  retrying :: nat
  total :: nat
  queueLength :: nat
  retryQueueLength :: nat

fun count_job :: "queue_stats \<Rightarrow> job_status \<Rightarrow> queue_stats" where
  "count_job s PENDING = s\<lparr>pending := pending s + 1\<rparr>"
| "count_job s PROCESSING = s\<lparr>processing := processing s + 1\<rparr>"
| "count_job s COMPLETED = s\<lparr>completed := completed s + 1\<rparr>"
| "count_job s FAILED = s\<lparr>failed := failed s + 1\<rparr>"
| "count_job s RETRYING = s\<lparr>retrying := retrying s + 1\<rparr>"

definition getStats :: "job_queue \<Rightarrow> queue_stats" where
  "getStats q = foldl (\<lambda>s (k, job). count_job s (status job))
     \<lparr>pending = 0, processing = 0, completed = 0, failed = 0, retrying = 0,
      total = length (jobs q), queueLength = length (queue q),
      retryQueueLength = length (retryQueue q)\<rparr> (jobs q)"

definition clear :: "job_queue \<Rightarrow> nat \<times> job_queue" where
  "clear q = (length (jobs q), q\<lparr>jobs := [], queue := [], retryQueue := []\<rparr>)"

text \<open>\<open>restoreFromPersistence\<close>: \<open>recovered\<close> is the answer of the adapter.\<close>

fun restore_loop :: "job list \<Rightarrow> job_queue \<Rightarrow> nat \<Rightarrow> nat \<times> job_queue" where
  "restore_loop [] q count = (count, q)"
| "restore_loop (job # rest) q count =
     (if amap_has (jobs q) (job_id job) then restore_loop rest q count
      else if int (length (queue q) + length (retryQueue q)) \<ge> maxQueueSize q then (count, q)
      else let q1 = q\<lparr>jobs := AList.update (job_id job) job (jobs q)\<rparr> in
        restore_loop rest
          (if attempts job > 0 then q1\<lparr>retryQueue := retryQueue q1 @ [job_id job]\<rparr>
           else q1\<lparr>queue := queue q1 @ [job_id job]\<rparr>)
          (count + 1))"

definition restoreFromPersistence :: "job list \<Rightarrow> job_queue \<Rightarrow> nat \<times> job_queue" where
  "restoreFromPersistence recovered q =
     (if \<not> persistence q then (0, q) else restore_loop recovered q 0)"

lemmas [jq_defs] = enqueue_def start_job_def dequeue_retry_def dequeue_def ack_def cancel_def
  retry_def clear_def restoreFromPersistence_def persist_def

section \<open>The queue invariant\<close>

text \<open>
  What ties the job map to the two id lists: a pending job waits in \<open>queue\<close>, a retrying one in
  \<open>retryQueue\<close>, and a job that is being processed or has reached a terminal state is in
  neither; a job is handed out at most \<open>maxRetries + 1\<close> times.
\<close>

definition job_ok :: "string set \<Rightarrow> string set \<Rightarrow> int \<Rightarrow> string \<Rightarrow> job \<Rightarrow> bool" where
  "job_ok Q R mr k j \<longleftrightarrow> job_id j = k \<and>
     (case status j of
        PENDING \<Rightarrow> k \<in> Q \<and> k \<notin> R \<and> attempts j = 0
      | RETRYING \<Rightarrow> k \<in> R \<and> k \<notin> Q \<and> int (attempts j) \<le> mr
      | _ \<Rightarrow> k \<notin> Q \<and> k \<notin> R \<and> 1 \<le> attempts j \<and> int (attempts j) \<le> max mr 0 + 1)"

definition jq_inv :: "job_queue \<Rightarrow> bool" where
  "jq_inv q \<longleftrightarrow> amap_wf (jobs q) \<and> distinct (queue q) \<and> distinct (retryQueue q) \<and>
     \<not> persistence q \<and> calls q = [] \<and>
     (\<forall>k j. map_of (jobs q) k = Some j \<longrightarrow>
        job_ok (set (queue q)) (set (retryQueue q)) (maxRetries q) k j)"

lemma jq_invD:
  assumes "jq_inv q" "map_of (jobs q) k = Some j"
  shows "job_ok (set (queue q)) (set (retryQueue q)) (maxRetries q) k j"
  using assms by (simp add: jq_inv_def)

lemma persist_off [simp]: "\<not> persistence q \<Longrightarrow> persist c q = q"
  by (simp add: persist_def)

lemma persistence_off [simp]: "jq_inv q \<Longrightarrow> \<not> persistence q"
  by (simp add: jq_inv_def)

lemma new_JobQueue_inv: "jq_inv (new_JobQueue opts)"
  by (simp add: jq_inv_def new_JobQueue_def)

lemma queued_pending:
  assumes "jq_inv q" "k \<in> set (queue q)" "map_of (jobs q) k = Some j"
  shows "status j = PENDING"
  using jq_invD[OF assms(1,3)] assms(2)
  by (cases "status j") (auto simp: job_ok_def)

lemma retry_queued_retrying:
  assumes "jq_inv q" "k \<in> set (retryQueue q)" "map_of (jobs q) k = Some j"
  shows "status j = RETRYING"
  using jq_invD[OF assms(1,3)] assms(2)
  by (cases "status j") (auto simp: job_ok_def)

text \<open>Moving to a state that agrees on everything but one job and the membership of its id.\<close>

lemma jq_inv_step:
  assumes "jq_inv q" "distinct (queue q')" "distinct (retryQueue q')"
    "maxRetries q' = maxRetries q" "\<not> persistence q' \<and> calls q' = []" "amap_wf (jobs q')"
    "\<And>k' j. k' \<noteq> k \<Longrightarrow> map_of (jobs q') k' = Some j \<Longrightarrow> map_of (jobs q) k' = Some j \<and>
       (k' \<in> set (queue q') \<longleftrightarrow> k' \<in> set (queue q)) \<and>
       (k' \<in> set (retryQueue q') \<longleftrightarrow> k' \<in> set (retryQueue q))"
    "\<And>j. map_of (jobs q') k = Some j \<Longrightarrow>
       job_ok (set (queue q')) (set (retryQueue q')) (maxRetries q) k j"
  shows "jq_inv q'"
  unfolding jq_inv_def
proof (intro conjI allI impI)
  fix k' j assume j: "map_of (jobs q') k' = Some j"
  show "job_ok (set (queue q')) (set (retryQueue q')) (maxRetries q') k' j"
  proof (cases "k' = k")
    case False
    with assms(7) j have "map_of (jobs q) k' = Some j"
      "k' \<in> set (queue q') \<longleftrightarrow> k' \<in> set (queue q)"
      "k' \<in> set (retryQueue q') \<longleftrightarrow> k' \<in> set (retryQueue q)" by blast+
    with jq_invD[OF assms(1), of k' j] show ?thesis
      by (auto simp: job_ok_def assms(4) split: job_status.splits)
  qed (use assms(4,8) j in auto)
qed (use assms in auto)

section \<open>Dequeue\<close>

text \<open>What a call that returned has done: it handed out a ready job, or there was none.\<close>

definition started :: "job \<Rightarrow> time \<Rightarrow> job" where
  "started j now = j\<lparr>status := PROCESSING, startedAt := Some now, attempts := attempts j + 1\<rparr>"

definition handed_out :: "(nat \<Rightarrow> time) \<Rightarrow> job_queue \<Rightarrow> job \<Rightarrow> job_queue \<Rightarrow> bool" where
  "handed_out clk q j' q' \<longleftrightarrow>
     (\<exists>k j n. map_of (jobs q) k = Some j \<and> isReadyToProcess j (clk n) \<and>
        j' = started j (clk (Suc n)) \<and> jobs q' = AList.update k j' (jobs q))"

definition dequeue_post :: "(nat \<Rightarrow> time) \<Rightarrow> job_queue \<Rightarrow> job option \<times> job_queue \<Rightarrow> bool" where
  "dequeue_post clk q r \<longleftrightarrow> jq_inv (snd r) \<and>
     maxRetries (snd r) = maxRetries q \<and> maxQueueSize (snd r) = maxQueueSize q \<and>
     (case fst r of
        None \<Rightarrow> jobs (snd r) = jobs q
      | Some j' \<Rightarrow> handed_out clk q j' (snd r))"

lemma start_job_started:
  "start_job k j now q =
     (started j now, persist (UpdateJobStatus (started j now))
        (q\<lparr>jobs := AList.update k (started j now) (jobs q)\<rparr>))"
  by (simp add: start_job_def started_def Let_def)

lemma started_sel [simp]:
  "status (started j t) = PROCESSING" "attempts (started j t) = Suc (attempts j)"
  "job_id (started j t) = job_id j" "job_type (started j t) = job_type j"
  "payload (started j t) = payload j" "delayMs (started j t) = delayMs j"
  by (simp_all add: started_def)

lemma job_ok_started:
  assumes "job_ok Q R mr k j" "isReadyToProcess j t" "k \<notin> Q'" "k \<notin> R'"
  shows "job_ok Q' R' mr k (started j t')"
  using assms by (cases "status j") (simp_all add: job_ok_def isReadyToProcess_def)

lemma start_job_post:
  assumes inv: "jq_inv q" and j: "map_of (jobs q) k = Some j"
    and rdy: "isReadyToProcess j (clk n)"
    and Q: "distinct (queue q1)" "set (queue q1) = set (queue q) - {k}"
    and R: "distinct (retryQueue q1)" "set (retryQueue q1) = set (retryQueue q) - {k}"
    and same: "jobs q1 = jobs q" "maxRetries q1 = maxRetries q"
      "maxQueueSize q1 = maxQueueSize q" "\<not> persistence q1" "calls q1 = []"
  shows "dequeue_post clk q (map_prod Some id (start_job k j (clk (Suc n)) q1))"
proof -
  let ?q = "q1\<lparr>jobs := AList.update k (started j (clk (Suc n))) (jobs q)\<rparr>"
  have wf: "amap_wf (jobs q)" using inv by (simp add: jq_inv_def)
  have "jq_inv ?q"
  proof (rule jq_inv_step[OF inv, where k = k])
    fix j' assume "map_of (jobs ?q) k = Some j'"
    then have "j' = started j (clk (Suc n))" by simp
    then show "job_ok (set (queue ?q)) (set (retryQueue ?q)) (maxRetries q) k j'"
      using job_ok_started[OF jq_invD[OF inv j] rdy] Q(2) R(2) by simp
  qed (use Q R same wf in auto)
  then show ?thesis
    using j rdy same by (auto simp: dequeue_post_def start_job_started handed_out_def)
qed

lemma jq_inv_requeue:
  assumes "jq_inv q" "distinct Q" "distinct R"
    "\<And>k j. map_of (jobs q) k = Some j \<Longrightarrow> (k \<in> set Q \<longleftrightarrow> k \<in> set (queue q)) \<and>
       (k \<in> set R \<longleftrightarrow> k \<in> set (retryQueue q))"
  shows "jq_inv (q\<lparr>queue := Q, retryQueue := R\<rparr>)"
  using assms unfolding jq_inv_def job_ok_def by (auto split: job_status.splits)

lemmas jq_inv_set_queue = jq_inv_requeue[where R = "retryQueue q" and q = q for q, simplified]
lemmas jq_inv_set_retry = jq_inv_requeue[where Q = "queue q" and q = q for q, simplified]

lemma dequeue_main_post:
  assumes "dequeue_main clk i q = Some r" "jq_inv q" "\<forall>n. 0 \<le> clk n"
  shows "dequeue_post clk q r"
proof -
  have "jq_inv q \<longrightarrow> (\<forall>n. 0 \<le> clk n) \<longrightarrow> dequeue_post clk q r"
  proof (rule dequeue_main.raw_induct[OF _ assms(1)], goal_cases)
    case (1 f clk i q r)
    show ?case
    proof (intro impI)
      assume inv: "jq_inv q" and clk: "\<forall>n. 0 \<le> clk n"
      note d = inv[unfolded jq_inv_def]
      show "dequeue_post clk q r"
      proof (cases "queue q")
        case Nil
        with 1(2) inv show ?thesis by (auto simp: dequeue_post_def)
      next
        case (Cons k rest)
        have other: "dequeue_post clk q r"
          if f: "f clk (Suc i) (q\<lparr>queue := Q\<rparr>) = Some r" and i: "jq_inv (q\<lparr>queue := Q\<rparr>)" for Q
          using 1(1)[OF f] i clk by (auto simp: dequeue_post_def handed_out_def split: option.splits)
        show ?thesis
        proof (cases "map_of (jobs q) k")
          case None
          have "jq_inv (q\<lparr>queue := rest\<rparr>)"
            using d Cons None by (intro jq_inv_set_queue inv) auto
          then show ?thesis using 1(2) Cons None by (intro other[of rest]) auto
        next
          case (Some j)
          have p: "status j = PENDING" using queued_pending[OF inv _ Some] Cons by simp
          show ?thesis
          proof (cases "isReadyToProcess j (clk i)")
            case True
            have "k \<notin> set (retryQueue q)" using jq_invD[OF inv Some] p by (simp add: job_ok_def)
            then have "dequeue_post clk q
                (map_prod Some id (start_job k j (clk (Suc i)) (q\<lparr>queue := rest\<rparr>)))"
              using d Cons by (intro start_job_post[where clk = clk and n = i, OF inv Some True]) auto
            then show ?thesis using 1(2) Cons Some True by simp
          next
            case False
            with p clk have dl: "delayMs j > 0"
              by (auto simp: isReadyToProcess_def not_le intro: le_less_trans)
            have "jq_inv (q\<lparr>queue := rest @ [k]\<rparr>)"
              using d Cons by (intro jq_inv_set_queue inv) auto
            then show ?thesis using 1(2) Cons Some False dl by (intro other[of "rest @ [k]"]) auto
          qed
        qed
      qed
    qed
  qed
  with assms show ?thesis by blast
qed

lemma dequeue_retry_post:
  assumes inv: "jq_inv q"
  shows "dequeue_post clk q (dequeue_retry clk q)"
proof (cases "retryQueue q")
  case Nil
  then show ?thesis using inv by (simp add: dequeue_retry_def dequeue_post_def)
next
  case (Cons k rest)
  note d = inv[unfolded jq_inv_def]
  show ?thesis
  proof (cases "map_of (jobs q) k")
    case None
    have "jq_inv (q\<lparr>retryQueue := rest\<rparr>)"
      using d Cons None by (intro jq_inv_set_retry inv) auto
    then show ?thesis using Cons None by (simp add: dequeue_retry_def dequeue_post_def)
  next
    case (Some j)
    have p: "status j = RETRYING" using retry_queued_retrying[OF inv _ Some] Cons by simp
    show ?thesis
    proof (cases "isReadyToProcess j (clk 0)")
      case True
      have "k \<notin> set (queue q)" using jq_invD[OF inv Some] p by (simp add: job_ok_def)
      then have "dequeue_post clk q
          (map_prod Some id (start_job k j (clk (Suc 0)) (q\<lparr>retryQueue := rest\<rparr>)))"
        using d Cons by (intro start_job_post[where clk = clk and n = 0, OF inv Some True]) auto
      then show ?thesis using Cons Some True by (simp add: dequeue_retry_def)
    next
      case False
      have "jq_inv (q\<lparr>retryQueue := rest @ [k]\<rparr>)"
        using d Cons by (intro jq_inv_set_retry inv) auto
      then show ?thesis using Cons Some False by (simp add: dequeue_retry_def dequeue_post_def)
    qed
  qed
qed

lemma dequeue_satisfies_post:
  assumes inv: "jq_inv q" and clk: "\<forall>n. 0 \<le> clk n" and d: "dequeue clk q = Some r"
  shows "dequeue_post clk q r"
proof (cases "dequeue_retry clk q")
  case (Pair o1 q1)
  note p1 = dequeue_retry_post[OF inv, of clk, unfolded Pair]
  show ?thesis
  proof (cases o1)
    case None
    then have "dequeue_main clk 2 q1 = Some r" "jq_inv q1"
      using d Pair p1 by (auto simp: dequeue_def dequeue_post_def)
    from dequeue_main_post[OF this clk] p1 None show ?thesis
      by (auto simp: dequeue_post_def handed_out_def split: option.splits)
  next
    case (Some j)
    with d Pair p1 show ?thesis by (auto simp: dequeue_def)
  qed
qed

subsection \<open>Dequeue returns\<close>

text \<open>The loop ends once the clock has passed the delay of every job: from index \<open>N\<close> on each
  iteration returns or shortens the queue, and before \<open>N\<close> each brings the index closer.\<close>

lemma dequeue_main_returns:
  assumes "jq_inv q" "\<forall>n. 0 \<le> clk n"
    and N: "\<forall>n\<ge>N. \<forall>k j. map_of (jobs q) k = Some j \<longrightarrow> delayMs j \<le> clk n"
  shows "\<exists>r. dequeue_main clk i q = Some r"
  using assms
proof (induction "(N - i) + length (queue q)" arbitrary: i q rule: less_induct)
  case less
  note inv = less.prems(1) and d = less.prems(1)[unfolded jq_inv_def]
  show ?case
  proof (cases "queue q")
    case Nil
    then show ?thesis by (subst dequeue_main.simps) simp
  next
    case (Cons k rest)
    have skip: "\<exists>r. dequeue_main clk (Suc i) (q\<lparr>queue := Q\<rparr>) = Some r"
      if "jq_inv (q\<lparr>queue := Q\<rparr>)" "(N - Suc i) + length Q < (N - i) + length (queue q)" for Q
      using that less.prems by (intro less.hyps) auto
    show ?thesis
    proof (cases "map_of (jobs q) k")
      case None
      have "jq_inv (q\<lparr>queue := rest\<rparr>)"
        using d Cons None by (intro jq_inv_set_queue inv) auto
      from skip[OF this] show ?thesis
        using Cons None by (subst dequeue_main.simps) auto
    next
      case (Some j)
      have p: "status j = PENDING" using queued_pending[OF inv _ Some] Cons by simp
      show ?thesis
      proof (cases "isReadyToProcess j (clk i)")
        case True
        with Cons Some show ?thesis by (subst dequeue_main.simps) auto
      next
        case False
        with p less.prems(2) have dl: "delayMs j > 0"
          by (auto simp: isReadyToProcess_def not_le intro: le_less_trans)
        have "\<not> N \<le> i" using False p less.prems(3) Some by (auto simp: isReadyToProcess_def)
        moreover have "jq_inv (q\<lparr>queue := rest @ [k]\<rparr>)"
          using d Cons by (intro jq_inv_set_queue inv) auto
        ultimately have "\<exists>r. dequeue_main clk (Suc i) (q\<lparr>queue := rest @ [k]\<rparr>) = Some r"
          using Cons by (intro skip) auto
        with Cons Some False dl show ?thesis by (subst dequeue_main.simps) auto
      qed
    qed
  qed
qed

lemma bounded_delays:
  assumes "\<forall>b. \<exists>N. \<forall>n\<ge>N. b \<le> (clk n :: int)"
  shows "\<exists>N. \<forall>n\<ge>N. \<forall>k j. map_of (jobs q) k = Some j \<longrightarrow> delayMs j \<le> clk n"
proof -
  let ?D = "delayMs ` snd ` set (jobs q)"
  obtain N where N: "\<forall>n\<ge>N. Max (insert 0 ?D) \<le> clk n"
    using spec[OF assms, of "Max (insert 0 ?D)"] by (elim exE)
  have "delayMs j \<le> clk n" if "n \<ge> N" "map_of (jobs q) k = Some j" for n k j
  proof -
    have "j \<in> snd ` set (jobs q)" using map_of_SomeD[OF that(2)] by (metis imageI snd_conv)
    then have "delayMs j \<le> Max (insert 0 ?D)" by (intro Max_ge) simp_all
    also have "\<dots> \<le> clk n" using N that(1) by blast
    finally show ?thesis .
  qed
  then show ?thesis by blast
qed

section \<open>The other operations\<close>

lemma enqueue_cases:
  assumes "enqueue q typ pl opts hex now = Inr (k, q')" "jq_inv q"
  obtains t p where "typ = JStr t" "trim t \<noteq> []" "pl = Inr p" "k = ''job-'' @ hex"
    "int (length (queue q) + length (retryQueue q)) < maxQueueSize q"
    "q' = q\<lparr>jobs := AList.update k \<lparr>job_id = k, job_type = t, payload = p, status = PENDING,
         priority = num_or (opt_priority opts) 0, delayMs = num_or (opt_delayMs opts) 0,
         createdAt = now, startedAt = None, completedAt = None, attempts = 0,
         lastError = None\<rparr> (jobs q), queue := queue q @ [k]\<rparr>"
  using assms unfolding enqueue_def
  by (auto simp: Let_def split: jsval.splits if_splits sum.splits)

definition fresh_id :: "string \<Rightarrow> job_queue \<Rightarrow> bool" where
  "fresh_id k q \<longleftrightarrow> map_of (jobs q) k = None \<and> k \<notin> set (queue q) \<and> k \<notin> set (retryQueue q)"

lemma enqueue_inv:
  assumes "enqueue q typ pl opts hex now = Inr (k, q')" "jq_inv q" "fresh_id k q"
  shows "jq_inv q'"
proof -
  from assms(1,2) obtain t p where "typ = JStr t"
    and q': "q' = q\<lparr>jobs := AList.update k \<lparr>job_id = k, job_type = t, payload = p,
         status = PENDING, priority = num_or (opt_priority opts) 0,
         delayMs = num_or (opt_delayMs opts) 0, createdAt = now, startedAt = None,
         completedAt = None, attempts = 0, lastError = None\<rparr> (jobs q), queue := queue q @ [k]\<rparr>"
    by (rule enqueue_cases)
  show ?thesis
    by (rule jq_inv_step[OF assms(2), where k = k])
      (use assms(2,3) in \<open>auto simp: q' fresh_id_def jq_inv_def job_ok_def\<close>)
qed

lemma ack_cases:
  assumes "ack q k now = Inr q'" "jq_inv q"
  obtains j where "map_of (jobs q) k = Some j" "status j = PROCESSING"
    "q' = q\<lparr>jobs := AList.update k (j\<lparr>status := COMPLETED, completedAt := Some now\<rparr>) (jobs q)\<rparr>"
  using assms unfolding ack_def by (auto split: option.splits if_splits)

lemma ack_inv:
  assumes "ack q k now = Inr q'" "jq_inv q"
  shows "jq_inv q'"
proof -
  from assms obtain j where j: "map_of (jobs q) k = Some j" "status j = PROCESSING"
    and q': "q' = q\<lparr>jobs :=
      AList.update k (j\<lparr>status := COMPLETED, completedAt := Some now\<rparr>) (jobs q)\<rparr>"
    by (rule ack_cases)
  show ?thesis
    by (rule jq_inv_step[OF assms(2), where k = k])
      (use assms(2) jq_invD[OF assms(2) j(1)] j(2) in \<open>auto simp: q' jq_inv_def job_ok_def\<close>)
qed

lemma cancel_inv:
  assumes "jq_inv q"
  shows "jq_inv (snd (cancel q k))"
  by (rule jq_inv_step[OF assms, where k = k])
    (use assms in \<open>auto simp: cancel_def jq_inv_def\<close>)

text \<open>\<open>retry\<close> on a job that is being processed, as the worker calls it.\<close>

lemma retry_cases:
  assumes "retry q k err now = Inr q'" "jq_inv q"
  obtains (again) j where "map_of (jobs q) k = Some j" "int (attempts j) \<le> maxRetries q"
      "q' = q\<lparr>jobs := AList.update k (j\<lparr>lastError := Some err, status := RETRYING,
           delayMs := now + retry_delay (attempts j)\<rparr>) (jobs q), retryQueue := retryQueue q @ [k]\<rparr>"
  | (give_up) j where "map_of (jobs q) k = Some j" "int (attempts j) > maxRetries q"
      "q' = q\<lparr>jobs := AList.update k (j\<lparr>lastError := Some err, status := FAILED,
           completedAt := Some now\<rparr>) (jobs q)\<rparr>"
  using assms unfolding retry_def by (auto simp: Let_def split: option.splits if_splits)

lemma retry_inv:
  assumes "retry q k err now = Inr q'" "jq_inv q"
    and j: "map_of (jobs q) k = Some j" "status j = PROCESSING"
  shows "jq_inv q'"
  using assms(1,2)
proof (cases rule: retry_cases)
  case (again j')
  with j have [simp]: "j' = j" by simp
  show ?thesis
    by (rule jq_inv_step[OF assms(2), where k = k])
      (use assms(2) jq_invD[OF assms(2) j(1)] j(2) again in \<open>auto simp: jq_inv_def job_ok_def\<close>)
next
  case (give_up j')
  with j have [simp]: "j' = j" by simp
  show ?thesis
    by (rule jq_inv_step[OF assms(2), where k = k])
      (use assms(2) jq_invD[OF assms(2) j(1)] j(2) give_up in \<open>auto simp: jq_inv_def job_ok_def\<close>)
qed

lemma clear_inv: "jq_inv q \<Longrightarrow> jq_inv (snd (clear q))"
  by (simp add: jq_inv_def clear_def)

lemma restore_noop: "\<not> persistence q \<Longrightarrow> restoreFromPersistence rs q = (0, q)"
  by (simp add: restoreFromPersistence_def)

section \<open>Reachable states\<close>

text \<open>The calls of the application: ids come from a random source that does not repeat, the
  clock is not negative, and \<open>retry\<close> is called on a job that is being processed.\<close>

inductive jq_step :: "job_queue \<Rightarrow> job_queue \<Rightarrow> bool" where
  step_enqueue: "enqueue q typ pl opts hex now = Inr (k, q') \<Longrightarrow> fresh_id k q \<Longrightarrow> jq_step q q'"
| step_dequeue: "dequeue clk q = Some (r, q') \<Longrightarrow> \<forall>n. 0 \<le> clk n \<Longrightarrow> jq_step q q'"
| step_ack: "ack q k now = Inr q' \<Longrightarrow> jq_step q q'"
| step_cancel: "cancel q k = (b, q') \<Longrightarrow> jq_step q q'"
| step_retry: "map_of (jobs q) k = Some j \<Longrightarrow> status j = PROCESSING \<Longrightarrow>
    retry q k err now = Inr q' \<Longrightarrow> jq_step q q'"
| step_clear: "clear q = (n, q') \<Longrightarrow> jq_step q q'"
| step_restore: "restoreFromPersistence rs q = (n, q') \<Longrightarrow> jq_step q q'"

inductive jq_reachable :: "queue_options \<Rightarrow> job_queue \<Rightarrow> bool" for opts where
  jq_init: "jq_reachable opts (new_JobQueue opts)"
| jq_next: "jq_reachable opts q \<Longrightarrow> jq_step q q' \<Longrightarrow> jq_reachable opts q'"

inductive_cases jq_stepE: "jq_step q q'"

lemma dequeue_inv:
  assumes "dequeue clk q = Some (r, q')" "\<forall>n. 0 \<le> clk n" "jq_inv q"
  shows "jq_inv q'"
  using dequeue_satisfies_post[OF assms(3,2,1)] by (simp add: dequeue_post_def)

lemma jq_step_inv:
  assumes "jq_step q q'" "jq_inv q"
  shows "jq_inv q'"
  using assms
proof (cases rule: jq_step.cases)
  case (step_cancel k b)
  then show ?thesis using cancel_inv[OF assms(2), of k] by simp
next
  case (step_clear n)
  then show ?thesis using clear_inv[OF assms(2)] by simp
next
  case (step_restore rs n)
  then show ?thesis using assms(2) by (simp add: restore_noop)
qed (blast intro: enqueue_inv ack_inv retry_inv dequeue_inv assms(2))+

lemma jq_reachable_inv: "jq_reachable opts q \<Longrightarrow> jq_inv q"
  by (induction rule: jq_reachable.induct) (blast intro: new_JobQueue_inv jq_step_inv)+

section \<open>First in, first out\<close>

text \<open>The reference behaviour of the main queue when nothing in it is waiting for the clock: the
  ids of cancelled jobs are skipped and the first remaining one is handed out.\<close>

definition first_live :: "job_queue \<Rightarrow> string option" where
  "first_live q = (case filter (amap_has (jobs q)) (queue q) of [] \<Rightarrow> None | k # _ \<Rightarrow> Some k)"

definition after_first_live :: "job_queue \<Rightarrow> string list" where
  "after_first_live q = tl (dropWhile (\<lambda>k. \<not> amap_has (jobs q) k) (queue q))"

lemma dequeue_main_fifo:
  assumes "jq_inv q" "\<And>k j n. map_of (jobs q) k = Some j \<Longrightarrow> delayMs j \<le> clk n"
  shows "\<exists>r. dequeue_main clk i q = Some r \<and> queue (snd r) = after_first_live q \<and>
    map_option job_id (fst r) = first_live q"
  using assms
proof (induction "queue q" arbitrary: i q)
  case Nil
  then show ?case
    by (subst dequeue_main.simps) (simp add: first_live_def after_first_live_def)
next
  case (Cons k rest)
  note inv = Cons.prems(1) and d = Cons.prems(1)[unfolded jq_inv_def]
  have q: "queue q = k # rest" using Cons.hyps(2) by simp
  show ?case
  proof (cases "map_of (jobs q) k")
    case None
    let ?q = "q\<lparr>queue := rest\<rparr>"
    have "jq_inv ?q" using d q None by (intro jq_inv_set_queue inv) auto
    then have "\<exists>r. dequeue_main clk (Suc i) ?q = Some r \<and> queue (snd r) = after_first_live ?q \<and>
        map_option job_id (fst r) = first_live ?q"
      using Cons.prems(2) by (intro Cons.hyps(1)) auto
    moreover have "after_first_live ?q = after_first_live q" "first_live ?q = first_live q"
      using q None by (auto simp: after_first_live_def first_live_def amap_has_iff)
    ultimately show ?thesis using q None by (subst dequeue_main.simps) simp
  next
    case (Some j)
    have "isReadyToProcess j (clk i)"
      using queued_pending[OF inv _ Some] q Cons.prems(2)[OF Some]
      by (simp add: isReadyToProcess_def)
    moreover have "job_id j = k" using jq_invD[OF inv Some] by (simp add: job_ok_def)
    ultimately show ?thesis using q Some inv
      by (subst dequeue_main.simps)
        (simp add: start_job_started after_first_live_def first_live_def amap_has_iff)
  qed
qed

section \<open>A concrete run\<close>

text \<open>The default queue, and the queue after one job has been accepted.\<close>

definition demo_opts :: queue_options where
  "demo_opts = \<lparr>opt_maxRetries = None, opt_maxQueueSize = None, opt_persistence = True\<rparr>"

definition demo_job :: job where
  "demo_job = \<lparr>job_id = ''job-a1'', job_type = ''webhook'', payload = JObj [], status = PENDING,
     priority = 0, delayMs = 0, createdAt = 5, startedAt = None, completedAt = None,
     attempts = 0, lastError = None\<rparr>"

definition demo_queue :: job_queue where
  "demo_queue = (new_JobQueue demo_opts)\<lparr>jobs := [(''job-a1'', demo_job)],
     queue := [''job-a1'']\<rparr>"

lemma demo_enqueue:
  "enqueue (new_JobQueue demo_opts) (JStr ''webhook'') (Inr (JObj []))
     \<lparr>opt_priority = None, opt_delayMs = None\<rparr> ''a1'' 5 = Inr (''job-a1'', demo_queue)"
  by code_simp

lemma demo_reachable: "jq_reachable demo_opts demo_queue"
  by (rule jq_next[OF jq_init step_enqueue[OF demo_enqueue]])
    (simp add: fresh_id_def new_JobQueue_def)

lemma demo_dequeue:
  "dequeue (\<lambda>n. int n) demo_queue = Some (Some (started demo_job 3),
     demo_queue\<lparr>jobs := [(''job-a1'', started demo_job 3)], queue := []\<rparr>)"
  by code_simp

section \<open>Properties\<close>

text \<open>C1: No accepted job is lost or duplicated. In every reachable queue a pending job is in the
  main queue exactly once and not in the retry queue, a retrying job is in the retry queue
  exactly once and not in the main queue, and a job that is being processed, completed or failed
  is in neither; no job has been handed out more than \<open>maxRetries + 1\<close> times.\<close>

theorem jobs_never_lost:
  assumes "jq_reachable opts q" "map_of (jobs q) k = Some j"
  shows "(status j = PENDING \<longrightarrow> count_list (queue q) k = 1 \<and> k \<notin> set (retryQueue q)) \<and>
    (status j = RETRYING \<longrightarrow> count_list (retryQueue q) k = 1 \<and> k \<notin> set (queue q)) \<and>
    (status j \<in> {PROCESSING, COMPLETED, FAILED} \<longrightarrow>
       k \<notin> set (queue q) \<and> k \<notin> set (retryQueue q)) \<and>
    int (attempts j) \<le> max (maxRetries q) 0 + 1"
proof -
  have inv: "jq_inv q" using assms(1) by (rule jq_reachable_inv)
  have "count_list xs x = 1" if "distinct xs" "x \<in> set xs" for xs :: "string list" and x
    using that by (induction xs) auto
  with inv jq_invD[OF inv assms(2)] show ?thesis
    by (cases "status j") (auto simp: job_ok_def jq_inv_def)
qed

theorem jobs_never_lost_witness:
  "count_list (queue demo_queue) ''job-a1'' = 1 \<and> ''job-a1'' \<notin> set (retryQueue demo_queue)"
proof -
  have "map_of (jobs demo_queue) ''job-a1'' = Some demo_job" "status demo_job = PENDING"
    by code_simp+
  with jobs_never_lost[OF demo_reachable this(1)] show ?thesis by simp
qed

text \<open>C4: A job that \<open>dequeue\<close> hands out was waiting (pending or retrying), had reached its
  \<open>delayMs\<close> at the time it was examined, is now marked as being processed with one more attempt,
  and no other job has changed.\<close>

theorem dequeue_hands_out_ready_job:
  assumes "jq_reachable opts q" "\<forall>n. 0 \<le> clk n" "dequeue clk q = Some (Some j', q')"
  shows "\<exists>k j n. map_of (jobs q) k = Some j \<and> status j \<in> {PENDING, RETRYING} \<and>
     delayMs j \<le> clk n \<and> job_id j' = k \<and> status j' = PROCESSING \<and>
     attempts j' = attempts j + 1 \<and> map_of (jobs q') = (map_of (jobs q))(k \<mapsto> j')"
proof -
  have inv: "jq_inv q" using assms(1) by (rule jq_reachable_inv)
  from dequeue_satisfies_post[OF inv assms(2,3)] obtain k j n
    where j: "map_of (jobs q) k = Some j" "isReadyToProcess j (clk n)"
      "j' = started j (clk (Suc n))" "jobs q' = AList.update k j' (jobs q)"
    by (auto simp: dequeue_post_def handed_out_def)
  with jq_invD[OF inv j(1)] show ?thesis
    by (intro exI[of _ k] exI[of _ j] exI[of _ n])
      (auto simp: isReadyToProcess_def job_ok_def)
qed

theorem dequeue_hands_out_ready_job_witness:
  "\<exists>k j n. map_of (jobs demo_queue) k = Some j \<and> delayMs j \<le> int n \<and>
     job_id (started demo_job 3) = k"
  using dequeue_hands_out_ready_job[OF demo_reachable _ demo_dequeue] by auto

text \<open>C32: \<open>dequeue\<close> returns. Its loop keeps rotating jobs whose delay has not passed, so this
  needs the clock to advance without bound; then every call ends with a result.\<close>

theorem dequeue_returns:
  assumes "jq_reachable opts q" "\<forall>n. 0 \<le> clk n" "\<forall>b. \<exists>N. \<forall>n\<ge>N. b \<le> clk n"
  shows "\<exists>r. dequeue clk q = Some r"
proof -
  have inv: "jq_inv q" using assms(1) by (rule jq_reachable_inv)
  obtain o1 q1 where r: "dequeue_retry clk q = (o1, q1)" by fastforce
  from dequeue_retry_post[OF inv, of clk] r have inv1: "jq_inv q1" by (simp add: dequeue_post_def)
  from bounded_delays[OF assms(3)] obtain N
    where "\<forall>n\<ge>N. \<forall>k j. map_of (jobs q1) k = Some j \<longrightarrow> delayMs j \<le> clk n" by blast
  from dequeue_main_returns[OF inv1 assms(2) this] r show ?thesis
    by (cases o1) (auto simp: dequeue_def)
qed

theorem dequeue_returns_witness: "\<exists>r. dequeue int demo_queue = Some r"
proof (rule dequeue_returns[OF demo_reachable])
  show "\<forall>b. \<exists>N. \<forall>n\<ge>N. b \<le> int n" by (metis int_nat_eq nat_le_iff zle_int linorder_linear)
qed simp

text \<open>The main queue is first in, first out. When nothing waits in the retry queue and every
  job is due, \<open>dequeue\<close> returns the first job of the queue that has not been cancelled and leaves
  the ids behind it in order.\<close>

theorem dequeue_fifo:
  assumes "jq_reachable opts q" "retryQueue q = []"
    "\<forall>k j n. map_of (jobs q) k = Some j \<longrightarrow> delayMs j \<le> clk n"
  shows "\<exists>r q'. dequeue clk q = Some (r, q') \<and> queue q' = after_first_live q \<and>
    map_option job_id r = first_live q"
proof -
  have inv: "jq_inv q" using assms(1) by (rule jq_reachable_inv)
  have "dequeue_retry clk q = (None, q)" using assms(2) by (simp add: dequeue_retry_def)
  with dequeue_main_fifo[OF inv, of clk 2] assms(3) show ?thesis
    by (auto simp: dequeue_def)
qed

theorem dequeue_fifo_witness:
  "\<exists>r q'. dequeue int demo_queue = Some (r, q') \<and> map_option job_id r = Some ''job-a1''"
proof -
  have "retryQueue demo_queue = []" "first_live demo_queue = Some ''job-a1''" by code_simp+
  moreover have "\<forall>k j n. map_of (jobs demo_queue) k = Some j \<longrightarrow> delayMs j \<le> int n"
    by (simp add: demo_queue_def demo_job_def)
  ultimately show ?thesis using dequeue_fifo[OF demo_reachable, of int] by auto
qed

text \<open>C13: A failed job is retried with exponential backoff, then given up. While it has been
  attempted at most \<open>maxRetries\<close> times, \<open>retry\<close> puts it at the end of the retry queue with a delay
  of \<open>min (2 ^ (attempts - 1) seconds) (60 seconds)\<close> counted from now, before which it cannot be
  handed out; after that it is failed and is in no queue again.\<close>

theorem retry_backoff:
  assumes "jq_inv q" "map_of (jobs q) k = Some j" "status j = PROCESSING"
  shows "\<exists>q' j'. retry q k err now = Inr q' \<and> map_of (jobs q') k = Some j' \<and>
     lastError j' = Some err \<and> jq_inv q' \<and>
     (if int (attempts j) \<le> maxRetries q
      then status j' = RETRYING \<and> retryQueue q' = retryQueue q @ [k] \<and>
        now + 1000 \<le> delayMs j' \<and> delayMs j' \<le> now + 60000 \<and>
        delayMs j' = now + min (2 ^ (attempts j - 1) * 1000) 60000 \<and>
        (\<forall>t. isReadyToProcess j' t \<longleftrightarrow> delayMs j' \<le> t)
      else status j' = FAILED \<and> retryQueue q' = retryQueue q \<and>
        (\<forall>t. \<not> isReadyToProcess j' t))"
proof -
  obtain q' where q': "retry q k err now = Inr q'"
    using assms(2) that
    by (cases "int (attempts j) \<le> maxRetries q") (simp_all add: retry_def Let_def)
  have inv': "jq_inv q'" by (rule retry_inv[OF q' assms(1-3)])
  from jq_invD[OF assms(1,2)] assms(3) obtain n where n: "attempts j = Suc n"
    by (auto simp: job_ok_def Suc_le_eq gr0_conv_Suc)
  have "1 \<le> (2::int) ^ n" by simp
  then have "1000 \<le> min ((2::int) ^ n * 1000) 60000" by linarith
  with q' assms(1) show ?thesis
    by (cases rule: retry_cases)
      (use assms(2) inv' q' in \<open>auto simp: n retry_delay_def isReadyToProcess_def\<close>)
qed

text \<open>The \<open>delayMs\<close> given to \<open>enqueue\<close> is compared with the clock as an absolute time, so a
  job scheduled with a delay that is smaller than the current time is handed out at once: the
  delay is without effect.\<close>

theorem enqueue_delay_ignored:
  assumes "jq_reachable opts q" "queue q = []" "retryQueue q = []"
    "enqueue q typ pl eopts hex now = Inr (k, q')" "num_or (opt_delayMs eopts) 0 \<le> now"
  shows "\<exists>j q''. dequeue (\<lambda>_. now) q' = Some (Some j, q'') \<and> job_id j = k"
proof -
  have inv: "jq_inv q" using assms(1) by (rule jq_reachable_inv)
  from assms(4) inv obtain t p where q': "q' = q\<lparr>jobs := AList.update k \<lparr>job_id = k,
       job_type = t, payload = p, status = PENDING, priority = num_or (opt_priority eopts) 0,
       delayMs = num_or (opt_delayMs eopts) 0, createdAt = now, startedAt = None,
       completedAt = None, attempts = 0, lastError = None\<rparr> (jobs q), queue := queue q @ [k]\<rparr>"
    by (rule enqueue_cases)
  show ?thesis using assms(2,3,5)
    by (simp add: q' dequeue_def dequeue_retry_def dequeue_main.simps isReadyToProcess_def
        start_job_started)
qed

theorem enqueue_delay_ignored_witness:
  "\<exists>q' j q''. enqueue (new_JobQueue demo_opts) (JStr ''reminder'') (Inr (JObj []))
       \<lparr>opt_priority = None, opt_delayMs = Some 604800000\<rparr> ''b2'' 1700000000000
     = Inr (''job-b2'', q') \<and>
     dequeue (\<lambda>_. 1700000000000) q' = Some (Some j, q'') \<and> job_id j = ''job-b2''"
proof -
  let ?o = "\<lparr>opt_priority = None, opt_delayMs = Some (604800000::int)\<rparr>"
  obtain q' where q': "enqueue (new_JobQueue demo_opts) (JStr ''reminder'') (Inr (JObj [])) ?o
      ''b2'' 1700000000000 = Inr (''job-b2'', q')"
    by (simp add: enqueue_def new_JobQueue_def demo_opts_def num_or_def trim_def is_ws_def
        code_of_def Let_def)
  from enqueue_delay_ignored[OF jq_init _ _ q'] q' show ?thesis
    by (simp add: new_JobQueue_def num_or_def)
qed

text \<open>The \<open>persistence\<close> option has no effect. Whatever the options, no reachable queue has
  made a call to a persistence adapter, and restoring from one leaves the queue as it is.\<close>

theorem persistence_never_used:
  assumes "jq_reachable opts q"
  shows "calls q = [] \<and> restoreFromPersistence rs q = (0, q)"
  using jq_reachable_inv[OF assms] by (simp add: jq_inv_def restore_noop)

theorem persistence_never_used_witness:
  "opt_persistence demo_opts \<and> calls demo_queue = [] \<and>
   restoreFromPersistence [demo_job] demo_queue = (0, demo_queue)"
  using persistence_never_used[OF demo_reachable] by (simp add: demo_opts_def)

theorem retry_backoff_witness:
  "\<exists>q'. retry (demo_queue\<lparr>jobs := [(''job-a1'', started demo_job 3)], queue := []\<rparr>)
     ''job-a1'' ''boom'' 100 = Inr q' \<and> retryQueue q' = [''job-a1'']"
proof -
  let ?q = "demo_queue\<lparr>jobs := [(''job-a1'', started demo_job 3)], queue := []\<rparr>"
  have "jq_inv ?q" by (rule dequeue_inv[OF demo_dequeue]) (auto intro: jq_reachable_inv demo_reachable)
  moreover have "map_of (jobs ?q) ''job-a1'' = Some (started demo_job 3)" by simp
  moreover have "int (attempts (started demo_job 3)) \<le> maxRetries ?q" "retryQueue ?q = []"
    by (simp_all add: demo_job_def demo_queue_def new_JobQueue_def demo_opts_def)
  ultimately show ?thesis
    using retry_backoff[of ?q "''job-a1''" "started demo_job 3" "''boom''" 100] by auto
qed

end
