(* ===== verification/Retention.thy ===== *)
theory Retention
  imports JobQueue Invoices
begin

text \<open>
  The retention job: \<open>src/src/jobs/retentionPurge.js\<close>.

  The job reads the clock and the table of legal holds again for every selection and for every
  invoice, and other requests may place or release holds in between: \<open>reads n\<close> gives the clock and the
  holds at the \<open>n\<close>-th of these reads. Arguments stand for what the database decides (the rows it accepts,
  the order of rows selected without an order), the parsed payload, date arithmetic in local time and
  SHA-256. Error texts are kept, stack traces and log calls are not.
\<close>

section \<open>Data\<close>

text \<open>The payload as the schema returns it; the batch size as the query builder truncates it.\<close>

record retention_payload =
  rp_tenantId :: string
  rp_policyId :: "string option"
  rp_dryRun :: bool
  rp_retentionDays :: "rat option"
  rp_piiFields :: "jsval option"
  rp_performedBy :: jsval
  rp_batchSize :: nat

record retention_env =
  re_reads :: "nat \<Rightarrow> time \<times> table"
  re_minus_days :: "time \<Rightarrow> jsval \<Rightarrow> time"
  re_select :: "table \<Rightarrow> table"
  re_invoice_ok :: "row \<Rightarrow> bool"
  re_audit_ok :: "row \<Rightarrow> bool"
  re_exec_ok :: "row \<Rightarrow> bool"
  re_sha256 :: "string \<Rightarrow> string"
  re_secret :: string
  re_str :: "jsval \<Rightarrow> string"
  re_exec_id :: jsval
  re_exec_defaults :: row
  re_done :: time
  re_parse :: "jsval \<Rightarrow> string + retention_payload"

record retention_db =
  rd_policies :: table
  rd_invoices :: table
  rd_audit :: table
  rd_executions :: table

definition PII_FIELDS :: "string list" where
  "PII_FIELDS = [''customer_name'', ''customer_email'', ''customer_tax_id'']"

section \<open>Helpers\<close>

definition validatePiiFields :: "jsval \<Rightarrow> string + string list" where
  "validatePiiFields v =
     (case v of
        JArr vs \<Rightarrow>
          if list_all (\<lambda>x. x \<in> JStr ` set PII_FIELDS) vs
          then Inr (map (\<lambda>x. case x of JStr s \<Rightarrow> s | _ \<Rightarrow> []) vs) else Inl ''Invalid PII fields''
      | _ \<Rightarrow> Inl ''Invalid PII fields'')"

definition active_policy :: "string \<Rightarrow> row \<Rightarrow> bool" where
  "active_policy tenantId p \<longleftrightarrow> col_eq ''tenant_id'' (JStr tenantId) p \<and> col_eq ''is_active'' (JBool True) p \<and>
     is_null ''deleted_at'' p"

definition getActivePolicies :: "string \<Rightarrow> table \<Rightarrow> table" where
  "getActivePolicies tenantId policies = filter (active_policy tenantId) policies"

text \<open>A timestamp column compared with a time; \<open>NULL\<close> compares with nothing.\<close>

definition before :: "string \<Rightarrow> time \<Rightarrow> row \<Rightarrow> bool" where
  "before k t r = (case col k r of JNum (NFin q) \<Rightarrow> q < of_int t | _ \<Rightarrow> False)"

definition after :: "string \<Rightarrow> time \<Rightarrow> row \<Rightarrow> bool" where
  "after k t r = (case col k r of JNum (NFin q) \<Rightarrow> of_int t < q | _ \<Rightarrow> False)"

definition hold_active :: "time \<Rightarrow> string \<Rightarrow> row \<Rightarrow> bool" where
  "hold_active now tenantId h \<longleftrightarrow> col_eq ''tenant_id'' (JStr tenantId) h \<and> col_eq ''status'' (JStr ''active'') h \<and>
     (is_null ''expires_at'' h \<or> after ''expires_at'' now h)"

definition isUnderLegalHold :: "time \<Rightarrow> table \<Rightarrow> string \<Rightarrow> jsval \<Rightarrow> bool" where
  "isUnderLegalHold now holds tenantId invoiceId =
     list_ex (\<lambda>h. hold_active now tenantId h \<and> col_eq ''invoice_id'' invoiceId h) holds"

text \<open>\<open>NOT IN\<close> holds for no row when the subquery returns a \<open>NULL\<close>.\<close>

definition not_in_holds :: "time \<Rightarrow> table \<Rightarrow> string \<Rightarrow> row \<Rightarrow> bool" where
  "not_in_holds now holds tenantId r =
     list_all (\<lambda>h. \<not> is_null ''invoice_id'' h \<and> col ''invoice_id'' h \<noteq> col ''id'' r)
       (filter (hold_active now tenantId) holds)"

definition getEligibleInvoices ::
  "retention_env \<Rightarrow> time \<Rightarrow> table \<Rightarrow> string \<Rightarrow> jsval \<Rightarrow> nat \<Rightarrow> table \<Rightarrow> table" where
  "getEligibleInvoices c now holds tenantId days batchSize invoices =
     take batchSize (re_select c (filter (\<lambda>r. col_eq ''tenant_id'' (JStr tenantId) r \<and>
        before ''created_at'' (re_minus_days c now days) r \<and> is_null ''deleted_at'' r \<and>
        not_in_holds now holds tenantId r) invoices))"

definition hashPiiValue :: "retention_env \<Rightarrow> jsval \<Rightarrow> jsval \<Rightarrow> jsval" where
  "hashPiiValue c v salt =
     (if js_nullish v then JNull
      else JStr (re_sha256 c (re_str c salt @ '':'' @
        (if re_secret c = [] then ''default-retention-salt'' else re_secret c) @ '':'' @ re_str c v)))"

record purge_result =
  pr_success :: bool
  pr_dryRun :: bool
  pr_purgedFields :: "string list"
  pr_oldValues :: row

definition nulls :: "string list \<Rightarrow> row" where
  "nulls flds = map (\<lambda>f. (f, JNull)) flds"

definition old_values :: "retention_env \<Rightarrow> jsval \<Rightarrow> string list \<Rightarrow> row \<Rightarrow> row" where
  "old_values c invoiceId flds current =
     map (\<lambda>f. (f, hashPiiValue c (col f current) invoiceId)) (filter (\<lambda>f. col f current \<noteq> JNull) flds)"

definition purgeInvoicePii ::
  "retention_env \<Rightarrow> jsval \<Rightarrow> string list \<Rightarrow> bool \<Rightarrow> table \<Rightarrow> (string + purge_result) \<times> table" where
  "purgeInvoicePii c invoiceId flds dryRun invoices =
     (if dryRun
      then (Inr \<lparr>pr_success = True, pr_dryRun = True, pr_purgedFields = flds, pr_oldValues = []\<rparr>, invoices)
      else let hit = col_eq ''id'' invoiceId;
               oldValues = (case List.find hit invoices of None \<Rightarrow> [] | Some current \<Rightarrow> old_values c invoiceId flds current);
               n = length (filter hit invoices)
           in if \<not> list_all (\<lambda>r. re_invoice_ok c (overlay (nulls flds) r)) (filter hit invoices)
              then (Inl ''database'', invoices)
              else (Inr \<lparr>pr_success = (n > 0), pr_dryRun = False, pr_purgedFields = (if n > 0 then flds else []),
                         pr_oldValues = oldValues\<rparr>,
                    update_where hit (overlay (nulls flds)) invoices))"

definition logRetentionOperation :: "retention_env \<Rightarrow> row \<Rightarrow> table \<Rightarrow> (string + unit) \<times> table" where
  "logRetentionOperation c auditRow audit =
     (if re_audit_ok c auditRow then (Inr (), audit @ [auditRow]) else (Inl ''database'', audit))"

definition opt_val :: "string option \<Rightarrow> jsval" where
  "opt_val v = (case v of Some s \<Rightarrow> JStr s | None \<Rightarrow> JUndef)"

definition createJobExecution :: "retention_env \<Rightarrow> retention_payload \<Rightarrow> table \<Rightarrow> (string + jsval) \<times> table" where
  "createJobExecution c p executions =
     (let r = [(''id'', re_exec_id c), (''tenant_id'', JStr (rp_tenantId p)),
            (''job_type'', JStr (if rp_policyId p \<noteq> None \<and> rp_policyId p \<noteq> Some [] then ''manual_purge'' else ''scheduled_purge'')),
            (''status'', JStr ''started''), (''dry_run'', JBool (rp_dryRun p)), (''performed_by'', rp_performedBy p),
            (''metadata'', JObj [(''policyId'', opt_val (rp_policyId p)),
               (''retentionDays'', case rp_retentionDays p of Some q \<Rightarrow> JNum (NFin q) | None \<Rightarrow> JUndef),
               (''piiFields'', case rp_piiFields p of Some v \<Rightarrow> v | None \<Rightarrow> JUndef), (''batchSize'', JInt (int (rp_batchSize p)))])]
            @ re_exec_defaults c
      in if re_exec_ok c r then (Inr (re_exec_id c), executions @ [r]) else (Inl ''database'', executions))"

definition updateJobExecution ::
  "retention_env \<Rightarrow> jsval \<Rightarrow> row \<Rightarrow> table \<Rightarrow> (string + unit) \<times> table" where
  "updateJobExecution c executionId upd executions =
     (let hit = col_eq ''id'' executionId;
          done = (if col ''status'' upd \<in> {JStr ''completed'', JStr ''failed''} then [(''completed_at'', JInt (re_done c))] else []);
          f = overlay (upd @ done)
      in if \<not> list_all (\<lambda>r. re_exec_ok c (f r)) (filter hit executions) then (Inl ''database'', executions)
         else (Inr (), update_where hit f executions))"

section \<open>The job\<close>

record run_state =
  rs_reads :: nat
  rs_invoices :: table
  rs_audit :: table
  rs_processed :: nat
  rs_purged :: nat
  rs_fields :: "string list"
  rs_errors :: "row list"

definition audit_row :: "retention_env \<Rightarrow> retention_payload \<Rightarrow> row \<Rightarrow> jsval \<Rightarrow> row \<Rightarrow> purge_result \<Rightarrow> row" where
  "audit_row c p policy days invoice res =
     [(''tenant_id'', JStr (rp_tenantId p)), (''invoice_id'', col ''id'' invoice),
      (''operation'', JStr (if rp_dryRun p then ''dry_run'' else ''pii_purged'')),
      (''pii_fields'', JArr (map JStr (pr_purgedFields res))), (''old_values'', JObj (pr_oldValues res)),
      (''new_values'', JObj []),
      (''reason'', JStr (''Retention policy: '' @ re_str c (col ''name'' policy) @ '' ('' @ re_str c days @ '' days)'')),
      (''performed_by'', rp_performedBy p),
      (''metadata'', JObj [(''policyId'', col ''id'' policy), (''dryRun'', JBool (pr_dryRun res)),
         (''invoiceNumber'', col ''invoice_number'' invoice), (''purgedFieldsCount'', JInt (int (length (pr_purgedFields res))))])]"

definition error_info :: "row \<Rightarrow> string \<Rightarrow> row" where
  "error_info invoice msg =
     [(''invoiceId'', col ''id'' invoice), (''invoiceNumber'', col ''invoice_number'' invoice), (''error'', JStr msg)]"

definition purge_one ::
  "retention_env \<Rightarrow> retention_payload \<Rightarrow> row \<Rightarrow> jsval \<Rightarrow> string list \<Rightarrow> row \<Rightarrow> run_state \<Rightarrow> run_state" where
  "purge_one c p policy days flds invoice st =
     (case re_reads c (rs_reads st) of
        (now, holds) \<Rightarrow>
          let st1 = st\<lparr>rs_reads := Suc (rs_reads st)\<rparr> in
          if isUnderLegalHold now holds (rp_tenantId p) (col ''id'' invoice) then st1
          else (case purgeInvoicePii c (col ''id'' invoice) flds (rp_dryRun p) (rs_invoices st) of
              (Inl msg, _) \<Rightarrow> st1\<lparr>rs_errors := rs_errors st @ [error_info invoice msg]\<rparr>
            | (Inr res, invoices') \<Rightarrow>
                if \<not> pr_success res then st1\<lparr>rs_invoices := invoices'\<rparr>
                else let st2 = st1\<lparr>rs_invoices := invoices', rs_purged := Suc (rs_purged st),
                           rs_fields := js_set (rs_fields st @ pr_purgedFields res)\<rparr>
                     in (case logRetentionOperation c (audit_row c p policy days invoice res) (rs_audit st) of
                           (Inr _, audit') \<Rightarrow> st2\<lparr>rs_audit := audit'\<rparr>
                         | (Inl msg, _) \<Rightarrow> st2\<lparr>rs_errors := rs_errors st @ [error_info invoice msg]\<rparr>)))"

definition js_or_days :: "rat option \<Rightarrow> row \<Rightarrow> jsval" where
  "js_or_days d policy = js_or (case d of Some q \<Rightarrow> JNum (NFin q) | None \<Rightarrow> JUndef) (col ''retention_days'' policy)"

definition run_policy :: "retention_env \<Rightarrow> retention_payload \<Rightarrow> row \<Rightarrow> run_state \<Rightarrow> string + run_state" where
  "run_policy c p policy st =
     (case validatePiiFields (case rp_piiFields p of Some v \<Rightarrow> v | None \<Rightarrow> col ''pii_fields'' policy) of
        Inl e \<Rightarrow> Inl e
      | Inr flds \<Rightarrow>
          let days = js_or_days (rp_retentionDays p) policy;
              eligible = (case re_reads c (rs_reads st) of (now, holds) \<Rightarrow>
                 getEligibleInvoices c now holds (rp_tenantId p) days (rp_batchSize p) (rs_invoices st));
              st1 = st\<lparr>rs_reads := Suc (rs_reads st), rs_processed := rs_processed st + length eligible\<rparr>
          in Inr (fold (purge_one c p policy days flds) eligible st1))"

fun run_policies :: "retention_env \<Rightarrow> retention_payload \<Rightarrow> table \<Rightarrow> run_state \<Rightarrow> (string option) \<times> run_state" where
  "run_policies c p [] st = (None, st)"
| "run_policies c p (policy # policies) st =
     (case run_policy c p policy st of Inl e \<Rightarrow> (Some e, st) | Inr st' \<Rightarrow> run_policies c p policies st')"

definition find_policies :: "retention_payload \<Rightarrow> table \<Rightarrow> string + table" where
  "find_policies p policies =
     (case rp_policyId p of
        Some (ch # rest) \<Rightarrow>
          (case List.find (\<lambda>r. col_eq ''id'' (JStr (ch # rest)) r \<and> active_policy (rp_tenantId p) r) policies of
             None \<Rightarrow> Inl (''Retention policy '' @ (ch # rest) @ '' not found or inactive'')
           | Some policy \<Rightarrow> Inr [policy])
      | _ \<Rightarrow> (case getActivePolicies (rp_tenantId p) policies of
               [] \<Rightarrow> Inl ''No active retention policies found''
             | ps \<Rightarrow> Inr ps))"

definition initial_run :: "retention_db \<Rightarrow> run_state" where
  "initial_run db = \<lparr>rs_reads = 0, rs_invoices = rd_invoices db, rs_audit = rd_audit db, rs_processed = 0,
     rs_purged = 0, rs_fields = [], rs_errors = []\<rparr>"

text \<open>The error the job ends with, and the tables after it. An error after the execution row was created
  is recorded in it before it is raised again.\<close>

definition fail_execution :: "retention_env \<Rightarrow> jsval \<Rightarrow> string \<Rightarrow> retention_db \<Rightarrow> string option \<times> retention_db" where
  "fail_execution c executionId e db =
     (case updateJobExecution c executionId [(''status'', JStr ''failed''), (''errors'', JArr [JObj [(''error'', JStr e)]])]
             (rd_executions db) of
        (Inr _, execs) \<Rightarrow> (Some e, db\<lparr>rd_executions := execs\<rparr>)
      | (Inl e', _) \<Rightarrow> (Some e', db))"

definition summary_row :: "run_state \<Rightarrow> row" where
  "summary_row st =
     [(''status'', JStr (if rs_errors st \<noteq> [] then ''completed_with_errors'' else ''completed'')),
      (''invoices_processed'', JInt (int (rs_processed st))), (''invoices_purged'', JInt (int (rs_purged st))),
      (''pii_fields_purged'', JArr (map JStr (rs_fields st))),
      (''errors'', if rs_errors st \<noteq> [] then JArr (map JObj (rs_errors st)) else JNull)]"

definition retention_handler :: "retention_env \<Rightarrow> jsval \<Rightarrow> retention_db \<Rightarrow> string option \<times> retention_db" where
  "retention_handler c pl db =
     (case re_parse c pl of
        Inl e \<Rightarrow> (Some e, db)
      | Inr p \<Rightarrow>
          (case createJobExecution c p (rd_executions db) of
             (Inl e, _) \<Rightarrow> (Some e, db)
           | (Inr executionId, execs) \<Rightarrow>
               let db1 = db\<lparr>rd_executions := execs\<rparr> in
               (case find_policies p (rd_policies db) of
                  Inl e \<Rightarrow> fail_execution c executionId e db1
                | Inr policies \<Rightarrow>
                    (case run_policies c p policies (initial_run db) of
                       (err, st) \<Rightarrow>
                         let db2 = db1\<lparr>rd_invoices := rs_invoices st, rd_audit := rs_audit st\<rparr> in
                         (case err of
                            Some e \<Rightarrow> fail_execution c executionId e db2
                          | None \<Rightarrow>
                              (case updateJobExecution c executionId (summary_row st) execs of
                                 (Inr _, execs') \<Rightarrow> (None, db2\<lparr>rd_executions := execs'\<rparr>)
                               | (Inl e, _) \<Rightarrow> fail_execution c executionId e db2))))))"

section \<open>Scheduling\<close>

definition member_or :: "jsval \<Rightarrow> string \<Rightarrow> jsval \<Rightarrow> jsval" where
  "member_or o' k d = (if js_get o' k = JUndef then d else js_get o' k)"

definition retention_job_payload :: "jsval \<Rightarrow> jsval" where
  "retention_job_payload opts =
     JObj [(''tenantId'', js_get opts ''tenantId''), (''policyId'', js_get opts ''policyId''),
       (''dryRun'', member_or opts ''dryRun'' (JBool False)), (''retentionDays'', js_get opts ''retentionDays''),
       (''piiFields'', js_get opts ''piiFields''), (''performedBy'', js_get opts ''performedBy''),
       (''batchSize'', member_or opts ''batchSize'' (JInt 100))]"

datatype schedule_error = PiiError string | QueueError queue_error

text \<open>The state of the module: the queue and the map of scheduled executions.\<close>

type_synonym scheduler = "job_queue \<times> (string, jsval) amap"

definition scheduleRetentionPurge ::
  "jsval \<Rightarrow> enqueue_options \<Rightarrow> string \<Rightarrow> time \<Rightarrow> scheduler \<Rightarrow> schedule_error + (string \<times> scheduler)" where
  "scheduleRetentionPurge opts qopts hex now s =
     (case (if truthy (js_get opts ''piiFields'') then validatePiiFields (js_get opts ''piiFields'') else Inr []) of
        Inl e \<Rightarrow> Inl (PiiError e)
      | Inr _ \<Rightarrow>
          let pl = retention_job_payload opts in
          (case enqueue (fst s) (JStr ''retention_purge'') (Inr pl) qopts hex now of
             Inl e \<Rightarrow> Inl (QueueError e)
           | Inr (jobId, q) \<Rightarrow>
               Inr (jobId, (q, AList.update jobId
                 (JObj [(''tenantId'', js_get opts ''tenantId''), (''policyId'', js_get opts ''policyId''),
                    (''dryRun'', member_or opts ''dryRun'' (JBool False)), (''startedAt'', JInt now), (''payload'', pl)]) (snd s)))))"

definition cancelRetentionJob :: "string \<Rightarrow> scheduler \<Rightarrow> bool \<times> scheduler" where
  "cancelRetentionJob jobId s =
     (case cancel (fst s) jobId of
        (cancelled, q) \<Rightarrow> (cancelled, (q, if cancelled then AList.delete jobId (snd s) else snd s)))"

text \<open>The \<open>finally\<close> block of the handler.\<close>

definition forget_execution :: "string \<Rightarrow> scheduler \<Rightarrow> scheduler" where
  "forget_execution jobId s = (if jobId = [] then s else (fst s, AList.delete jobId (snd s)))"

definition getExecutionStatus :: "jsval \<Rightarrow> table \<Rightarrow> row option" where
  "getExecutionStatus executionId executions = List.find (col_eq ''id'' executionId) executions"

definition getRecentExecutions :: "string \<Rightarrow> nat \<Rightarrow> table \<Rightarrow> table" where
  "getRecentExecutions tenantId n executions =
     take n (order_desc ''started_at'' (filter (col_eq ''tenant_id'' (JStr tenantId)) executions))"

section \<open>What a run changes\<close>

text \<open>A row that the job of a tenant may purge, as the reads of the run show it.\<close>

definition candidate :: "retention_env \<Rightarrow> retention_payload \<Rightarrow> row \<Rightarrow> bool" where
  "candidate c p r \<longleftrightarrow> col ''tenant_id'' r = JStr (rp_tenantId p) \<and> is_null ''deleted_at'' r \<and>
     (\<exists>n days. before ''created_at'' (re_minus_days c (fst (re_reads c n)) days) r)"

definition purgeable :: "retention_env \<Rightarrow> retention_payload \<Rightarrow> row \<Rightarrow> bool" where
  "purgeable c p r \<longleftrightarrow> \<not> rp_dryRun p \<and> candidate c p r \<and>
     (\<exists>n. \<not> isUnderLegalHold (fst (re_reads c n)) (snd (re_reads c n)) (rp_tenantId p) (col ''id'' r))"

definition same_public :: "row \<Rightarrow> row \<Rightarrow> bool" where
  "same_public r r' \<longleftrightarrow> (\<forall>k. k \<notin> set PII_FIELDS \<longrightarrow> col k r' = col k r)"

text \<open>The row before and after: unchanged, or purgeable with nothing changed but personal fields, which
  are null where they changed.\<close>

definition purged_from :: "retention_env \<Rightarrow> retention_payload \<Rightarrow> row \<Rightarrow> row \<Rightarrow> bool" where
  "purged_from c p r r' \<longleftrightarrow> r' = r \<or> purgeable c p r \<and> same_public r r' \<and>
     (\<forall>k\<in>set PII_FIELDS. col k r' = col k r \<or> col k r' = JNull)"

lemma col_overlay_nulls: "col k (overlay (nulls flds) r) = (if k \<in> set flds then JNull else col k r)"
  unfolding overlay_def nulls_def
proof (induction flds arbitrary: r)
  case (Cons f flds)
  then show ?case by (cases "k = f") auto
qed simp

lemma validatePiiFields_subset: "validatePiiFields v = Inr flds \<Longrightarrow> set flds \<subseteq> set PII_FIELDS"
  by (fastforce simp: validatePiiFields_def list_all_iff split: jsval.splits if_splits)

lemma non_pii: "''tenant_id'' \<notin> set PII_FIELDS" "''deleted_at'' \<notin> set PII_FIELDS" "''created_at'' \<notin> set PII_FIELDS"
  "''id'' \<notin> set PII_FIELDS"
  by (simp_all add: PII_FIELDS_def)

lemma purged_same_public: "purged_from c p r r' \<Longrightarrow> same_public r r'"
  by (auto simp: purged_from_def same_public_def)

lemma same_public_cols:
  assumes "same_public r r'"
  shows "col ''id'' r' = col ''id'' r" "candidate c p r' = candidate c p r" "purgeable c p r' = purgeable c p r"
proof -
  have "col ''tenant_id'' r' = col ''tenant_id'' r" "col ''deleted_at'' r' = col ''deleted_at'' r"
    "col ''created_at'' r' = col ''created_at'' r" and i: "col ''id'' r' = col ''id'' r"
    using assms non_pii by (auto simp: same_public_def)
  then show "candidate c p r' = candidate c p r" "purgeable c p r' = purgeable c p r"
    by (simp_all add: purgeable_def candidate_def before_def is_null_def)
  show "col ''id'' r' = col ''id'' r" by (rule i)
qed

lemma purged_from_refl [simp]: "purged_from c p r r"
  by (simp add: purged_from_def)

lemma purged_from_nulls:
  assumes "purged_from c p r x" "purgeable c p r" "set flds \<subseteq> set PII_FIELDS"
  shows "purged_from c p r (overlay (nulls flds) x)"
  using assms by (auto simp: purged_from_def same_public_def col_overlay_nulls)

lemma list_all2_purged_ids:
  "list_all2 (purged_from c p) T0 T \<Longrightarrow> map (col ''id'') T = map (col ''id'') T0"
  by (induction rule: list_all2_induct) (auto dest: purged_same_public simp: same_public_cols)

lemma purge_rows:
  assumes "list_all2 (purged_from c p) T0 T" "\<And>r. r \<in> set T0 \<Longrightarrow> col ''id'' r = i \<Longrightarrow> purgeable c p r"
    "set flds \<subseteq> set PII_FIELDS"
  shows "list_all2 (purged_from c p) T0 (update_where (col_eq ''id'' i) (overlay (nulls flds)) T)"
  using assms(1,2)
proof (induction rule: list_all2_induct)
  case (Cons r T0 x T)
  have "purged_from c p r (if col_eq ''id'' i x then overlay (nulls flds) x else x)"
  proof (cases "col_eq ''id'' i x")
    case True
    then have "col ''id'' r = i"
      using same_public_cols(1)[OF purged_same_public[OF Cons.hyps(1)]] by (simp add: col_eq_def)
    then show ?thesis using purged_from_nulls[OF Cons.hyps(1) _ assms(3)] Cons.prems True by simp
  qed (simp add: Cons.hyps(1))
  then show ?case using Cons by (simp add: update_where_def)
qed (simp add: update_where_def)

text \<open>The invariant of a run: what happened to the invoices and what was recorded of it.\<close>

definition old_value_hashed :: "retention_env \<Rightarrow> row \<Rightarrow> bool" where
  "old_value_hashed c a = (case col ''old_values'' a of
     JObj kvs \<Rightarrow> \<forall>(k, v)\<in>set kvs. k \<in> set PII_FIELDS \<and> (v = JNull \<or> (\<exists>s. v = JStr (re_sha256 c s))) | _ \<Rightarrow> False)"

definition run_inv :: "retention_env \<Rightarrow> retention_payload \<Rightarrow> table \<Rightarrow> table \<Rightarrow> run_state \<Rightarrow> bool" where
  "run_inv c p T0 A0 st \<longleftrightarrow> list_all2 (purged_from c p) T0 (rs_invoices st) \<and>
     (\<exists>new. rs_audit st = A0 @ new \<and> rs_purged st \<le> length new + length (rs_errors st) \<and>
       (\<forall>a\<in>set new. col ''tenant_id'' a = JStr (rp_tenantId p) \<and> old_value_hashed c a \<and>
          col ''operation'' a = JStr (if rp_dryRun p then ''dry_run'' else ''pii_purged'')))"

lemma hashPiiValue_form: "hashPiiValue c v salt = JNull \<or> (\<exists>s. hashPiiValue c v salt = JStr (re_sha256 c s))"
  by (auto simp: hashPiiValue_def)

lemma purge_result_hashed:
  assumes "purgeInvoicePii c i flds dry T = (Inr res, T')" "set flds \<subseteq> set PII_FIELDS"
  shows "old_value_hashed c (audit_row c p policy days invoice res)"
proof -
  have "\<forall>(k, v)\<in>set (pr_oldValues res). k \<in> set PII_FIELDS \<and> (v = JNull \<or> (\<exists>s. v = JStr (re_sha256 c s)))"
    using assms hashPiiValue_form
    by (fastforce simp: purgeInvoicePii_def Let_def old_values_def split: if_splits option.splits)
  then show ?thesis by (simp add: old_value_hashed_def audit_row_def col_def)
qed

lemma purge_pii_rows:
  assumes T: "list_all2 (purged_from c p) T0 T" and ids: "distinct (map (col ''id'') T0)"
    and r: "r \<in> set T0" "same_public r invoice" "candidate c p invoice" and f: "set flds \<subseteq> set PII_FIELDS"
    and pr: "purgeInvoicePii c (col ''id'' invoice) flds (rp_dryRun p) T = (pr, T')"
    and free: "\<not> isUnderLegalHold (fst (re_reads c n)) (snd (re_reads c n)) (rp_tenantId p) (col ''id'' invoice)"
  shows "list_all2 (purged_from c p) T0 T'"
proof (cases "rp_dryRun p")
  case True
  then show ?thesis using pr T by (auto simp: purgeInvoicePii_def)
next
  case live: False
  have "purgeable c p r'" if "r' \<in> set T0" "col ''id'' r' = col ''id'' invoice" for r'
  proof -
    have "r' = r" using unique_row[OF ids that(1) r(1)] that(2) same_public_cols(1)[OF r(2)] by simp
    moreover have "purgeable c p invoice" using live r(3) free by (auto simp: purgeable_def)
    ultimately show ?thesis using same_public_cols(3)[OF r(2)] by simp
  qed
  then show ?thesis using pr purge_rows[OF T _ f] T live
    by (auto simp: purgeInvoicePii_def Let_def split: if_splits)
qed

lemma purge_one_inv:
  assumes inv: "run_inv c p T0 A0 st" and ids: "distinct (map (col ''id'') T0)"
    and r: "r \<in> set T0" "same_public r invoice" "candidate c p invoice" and f: "set flds \<subseteq> set PII_FIELDS"
  shows "run_inv c p T0 A0 (purge_one c p policy days flds invoice st)"
proof -
  obtain now holds where rd: "re_reads c (rs_reads st) = (now, holds)" by fastforce
  obtain new where new: "rs_audit st = A0 @ new" "rs_purged st \<le> length new + length (rs_errors st)"
      "\<forall>a\<in>set new. col ''tenant_id'' a = JStr (rp_tenantId p) \<and> old_value_hashed c a \<and>
          col ''operation'' a = JStr (if rp_dryRun p then ''dry_run'' else ''pii_purged'')"
    using inv by (auto simp: run_inv_def)
  have T: "list_all2 (purged_from c p) T0 (rs_invoices st)" using inv by (simp add: run_inv_def)
  show ?thesis
  proof (cases "isUnderLegalHold now holds (rp_tenantId p) (col ''id'' invoice)")
    case True
    then show ?thesis using inv by (simp add: purge_one_def rd run_inv_def)
  next
    case False
    obtain pr T' where pr: "purgeInvoicePii c (col ''id'' invoice) flds (rp_dryRun p) (rs_invoices st) = (pr, T')"
      by fastforce
    have T': "list_all2 (purged_from c p) T0 T'"
      using purge_pii_rows[OF T ids r f pr] False rd by (metis fst_conv snd_conv)
    show ?thesis
    proof (cases pr)
      case (Inl msg)
      then show ?thesis using False pr new T by (auto simp: purge_one_def rd run_inv_def)
    next
      case (Inr res)
      show ?thesis
      proof (cases "pr_success res")
        case fail: False
        then show ?thesis using False pr new T' Inr by (auto simp: purge_one_def rd run_inv_def)
      next
        case ok: True
        let ?a = "audit_row c p policy days invoice res"
        have a: "col ''tenant_id'' ?a = JStr (rp_tenantId p) \<and> old_value_hashed c ?a \<and>
            col ''operation'' ?a = JStr (if rp_dryRun p then ''dry_run'' else ''pii_purged'')"
          using purge_result_hashed[OF pr[unfolded Inr] f] by (simp add: audit_row_def col_def)
        show ?thesis
        proof (cases "re_audit_ok c ?a")
          case True
          then show ?thesis using False pr new T' Inr ok a
            by (auto simp: purge_one_def rd run_inv_def logRetentionOperation_def Let_def intro!: exI[of _ "new @ [?a]"])
        next
          case refused: False
          then show ?thesis using False pr new T' Inr ok
            by (auto simp: purge_one_def rd run_inv_def logRetentionOperation_def Let_def)
        qed
      qed
    qed
  qed
qed

lemma purge_fold_inv:
  assumes "\<And>r. r \<in> set rows \<Longrightarrow> \<exists>r0\<in>set T0. same_public r0 r \<and> candidate c p r"
    "distinct (map (col ''id'') T0)" "set flds \<subseteq> set PII_FIELDS"
  shows "run_inv c p T0 A0 st \<Longrightarrow> run_inv c p T0 A0 (fold (purge_one c p policy days flds) rows st)"
  using assms(1)
proof (induction rows arbitrary: st)
  case (Cons r rows)
  obtain r0 where "r0 \<in> set T0" "same_public r0 r" "candidate c p r" using Cons.prems(2)[of r] by auto
  then have "run_inv c p T0 A0 (purge_one c p policy days flds r st)"
    using purge_one_inv[OF Cons.prems(1) assms(2) _ _ _ assms(3)] by blast
  then show ?case using Cons.IH Cons.prems(2) by simp
qed simp

lemma eligible_candidate:
  assumes "set (re_select c t) \<subseteq> set t" "t = filter (\<lambda>r. col_eq ''tenant_id'' (JStr (rp_tenantId p)) r \<and>
        before ''created_at'' (re_minus_days c (fst (re_reads c n)) days) r \<and> is_null ''deleted_at'' r \<and> hld r) T"
    "list_all2 (purged_from c p) T0 T" "r \<in> set (take b (re_select c t))"
  shows "\<exists>r0\<in>set T0. same_public r0 r \<and> candidate c p r"
proof -
  have "r \<in> set t" using assms(1,4) by (meson in_set_takeD subsetD)
  then have r: "r \<in> set T" "candidate c p r" unfolding assms(2) candidate_def by auto
  then obtain r0 where "r0 \<in> set T0" "purged_from c p r0 r" using assms(3) by (metis in_set_conv_nth list_all2_conv_all_nth)
  then show ?thesis using r purged_same_public by blast
qed

lemma run_policy_inv:
  assumes "run_inv c p T0 A0 st" "distinct (map (col ''id'') T0)" "\<And>t. set (re_select c t) \<subseteq> set t"
    "run_policy c p policy st = Inr st'"
  shows "run_inv c p T0 A0 st'"
proof -
  obtain now holds where rd: "re_reads c (rs_reads st) = (now, holds)" by fastforce
  obtain flds where f: "validatePiiFields (case rp_piiFields p of Some v \<Rightarrow> v | None \<Rightarrow> col ''pii_fields'' policy) = Inr flds"
    using assms(4) by (auto simp: run_policy_def split: sum.splits)
  let ?days = "js_or_days (rp_retentionDays p) policy"
  let ?e = "getEligibleInvoices c now holds (rp_tenantId p) ?days (rp_batchSize p) (rs_invoices st)"
  let ?st1 = "st\<lparr>rs_reads := Suc (rs_reads st), rs_processed := rs_processed st + length ?e\<rparr>"
  have st': "st' = fold (purge_one c p policy ?days flds) ?e ?st1"
    using assms(4) f rd by (simp add: run_policy_def Let_def)
  have "\<exists>r0\<in>set T0. same_public r0 r \<and> candidate c p r" if "r \<in> set ?e" for r
    by (rule eligible_candidate[OF assms(3) refl, where n = "rs_reads st" and T = "rs_invoices st" and days = ?days and
          b = "rp_batchSize p" and hld = "not_in_holds now holds (rp_tenantId p)"])
      (use assms(1) that rd in \<open>simp_all add: run_inv_def getEligibleInvoices_def\<close>)
  moreover have "run_inv c p T0 A0 ?st1" using assms(1) by (simp add: run_inv_def)
  ultimately show ?thesis unfolding st' by (intro purge_fold_inv[OF _ assms(2) validatePiiFields_subset[OF f]])
qed

lemma run_policies_inv:
  assumes "distinct (map (col ''id'') T0)" "\<And>t. set (re_select c t) \<subseteq> set t"
  shows "run_inv c p T0 A0 st \<Longrightarrow> run_inv c p T0 A0 (snd (run_policies c p policies st))"
proof (induction policies arbitrary: st)
  case (Cons policy policies)
  then show ?case using run_policy_inv[OF Cons.prems assms] by (auto split: sum.splits)
qed simp

lemma fail_execution_tables [simp]:
  "rd_invoices (snd (fail_execution c i e db)) = rd_invoices db" "rd_audit (snd (fail_execution c i e db)) = rd_audit db"
  by (auto simp: fail_execution_def split: prod.splits sum.splits)

lemma run_inv_initial: "run_inv c p (rd_invoices db) (rd_audit db) (initial_run db)"
  by (simp add: run_inv_def initial_run_def list.rel_refl)

lemma retention_handler_run:
  assumes "distinct (map (col ''id'') (rd_invoices db))" "\<And>t. set (re_select c t) \<subseteq> set t" "re_parse c pl = Inr p"
  shows "\<exists>st. run_inv c p (rd_invoices db) (rd_audit db) st \<and>
    rd_invoices (snd (retention_handler c pl db)) = rs_invoices st \<and> rd_audit (snd (retention_handler c pl db)) = rs_audit st"
proof -
  obtain ex execs where ex: "createJobExecution c p (rd_executions db) = (ex, execs)" by fastforce
  have unchanged: ?thesis if "rd_invoices (snd (retention_handler c pl db)) = rd_invoices db"
      "rd_audit (snd (retention_handler c pl db)) = rd_audit db"
    using that run_inv_initial[of c p db] by (intro exI[of _ "initial_run db"]) (simp add: initial_run_def)
  show ?thesis
  proof (cases ex)
    case (Inl e)
    then show ?thesis by (intro unchanged) (simp_all add: retention_handler_def assms(3) ex)
  next
    case (Inr executionId)
    show ?thesis
    proof (cases "find_policies p (rd_policies db)")
      case (Inl e)
      then show ?thesis by (intro unchanged) (simp_all add: retention_handler_def assms(3) ex Inr)
    next
      case fp: (Inr policies)
      obtain err st where st: "run_policies c p policies (initial_run db) = (err, st)" by fastforce
      have "run_inv c p (rd_invoices db) (rd_audit db) st"
        using run_policies_inv[OF assms(1,2) run_inv_initial, where policies = policies and p = p] st by simp
      then show ?thesis
        by (intro exI[of _ st]) (simp add: retention_handler_def assms(3) ex Inr fp st Let_def split: option.splits prod.splits sum.splits)
    qed
  qed
qed


definition sample_payload :: "bool \<Rightarrow> retention_payload" where
  "sample_payload dry = \<lparr>rp_tenantId = ''a'', rp_policyId = None, rp_dryRun = dry, rp_retentionDays = None, rp_piiFields = None,
     rp_performedBy = JUndef, rp_batchSize = 1\<rparr>"

definition sample_retention :: "bool \<Rightarrow> (row \<Rightarrow> bool) \<Rightarrow> retention_env" where
  "sample_retention dry ok = \<lparr>re_reads = (\<lambda>n. (100, [[(''tenant_id'', JStr ''a''), (''invoice_id'', JStr ''i3''), (''status'', JStr ''active'')]])),
     re_minus_days = (\<lambda>t d. t - 30), re_select = (\<lambda>t. t), re_invoice_ok = ok, re_audit_ok = (\<lambda>_. True), re_exec_ok = (\<lambda>_. True),
     re_sha256 = (\<lambda>s. ''h''), re_secret = ''s'', re_str = (\<lambda>_. []), re_exec_id = JStr ''e'', re_exec_defaults = [], re_done = 101,
     re_parse = (\<lambda>_. Inr (sample_payload dry))\<rparr>"

definition old_invoice :: "string \<Rightarrow> row" where
  "old_invoice i = [(''id'', JStr i), (''tenant_id'', JStr ''a''), (''created_at'', JInt 1), (''customer_email'', JStr ''x''), (''deleted_at'', JNull)]"

definition sample_retention_db :: retention_db where
  "sample_retention_db = \<lparr>rd_policies = [[(''tenant_id'', JStr ''a''), (''is_active'', JBool True), (''deleted_at'', JNull), (''retention_days'', JInt 30),
      (''pii_fields'', JArr [JStr ''customer_email''])]],
     rd_invoices = [old_invoice ''i3'', old_invoice ''i1'', old_invoice ''i2''], rd_audit = [], rd_executions = []\<rparr>"

text \<open>The invoice under hold and the second one are untouched, the first is purged.\<close>

lemma sample_run:
  "rd_invoices (snd (retention_handler (sample_retention False (\<lambda>_. True)) JNull sample_retention_db)) =
     [old_invoice ''i3'', AList.update ''customer_email'' JNull (old_invoice ''i1''), old_invoice ''i2'']"
  by code_simp


section \<open>What goes wrong\<close>

text \<open>Nothing marks an invoice as purged and the selection has no order: later runs select the same
  invoices again, and a batch that is full of them never reaches the others.\<close>

lemma batch_starves:
  "rd_invoices (snd (retention_handler (sample_retention False (\<lambda>_. True)) JNull
     (snd (retention_handler (sample_retention False (\<lambda>_. True)) JNull sample_retention_db)))) =
   rd_invoices (snd (retention_handler (sample_retention False (\<lambda>_. True)) JNull sample_retention_db))"
  by code_simp

text \<open>The migration declares the customer's name \<open>NOT NULL\<close>, so the purge of a policy that names it, as the
  default policy does, is refused.\<close>

lemma name_purge_refused:
  assumes "\<And>r. re_invoice_ok c r \<Longrightarrow> col ''customer_name'' r \<noteq> JNull" "''customer_name'' \<in> set flds"
    "List.find (col_eq ''id'' i) T = Some r"
  shows "purgeInvoicePii c i flds False T = (Inl ''database'', T)"
proof -
  have "\<not> re_invoice_ok c (overlay (nulls flds) r)" using assms(1)[of "overlay (nulls flds) r"] assms(2) by (auto simp: col_overlay_nulls)
  moreover have "r \<in> set (filter (col_eq ''id'' i) T)" using find_SomeD[OF assms(3)] by simp
  ultimately have "\<not> list_all (\<lambda>r. re_invoice_ok c (overlay (nulls flds) r)) (filter (col_eq ''id'' i) T)"
    by (meson list_all_iff)
  then show ?thesis by (simp add: purgeInvoicePii_def Let_def)
qed

text \<open>The migration allows the statuses started, completed, failed and cancelled: a run with an error on
  one invoice cannot be recorded and ends as failed.\<close>

lemma partial_failure_refused:
  assumes "\<And>r. re_exec_ok c r \<Longrightarrow> col ''status'' r \<in> JStr ` {''started'', ''completed'', ''failed'', ''cancelled''}"
    "rs_errors st \<noteq> []" "r \<in> set execs" "col_eq ''id'' i r"
  shows "updateJobExecution c i (summary_row st) execs = (Inl ''database'', execs)"
proof -
  have "col ''status'' (overlay (summary_row st @ []) r) = JStr ''completed_with_errors''"
    using assms(2) by (simp add: overlay_def summary_row_def)
  then have "\<not> re_exec_ok c (overlay (summary_row st) r)" using assms(1) by fastforce
  moreover have "col ''status'' (summary_row st) \<notin> {JStr ''completed'', JStr ''failed''}"
    using assms(2) by (simp add: summary_row_def col_def)
  moreover have "r \<in> set (filter (col_eq ''id'' i) execs)" using assms(3,4) by simp
  ultimately show ?thesis by (auto simp: updateJobExecution_def Let_def list_all_iff)
qed

end
