(* ===== verification/RetentionRoutes.thy ===== *)
theory RetentionRoutes
  imports Retention Auth QueryParams
begin

text \<open>
  The retention routes: \<open>src/src/routes/retention.js\<close>, composed with the authentication middleware and the
  retention job.

  The parsed bodies of the Zod schemas are arguments: a failed parse gives the list the code reads as
  \<open>error.errors\<close>, or None where the library's error has no such member. A query with an undefined value
  in its conditions raises, as the query builder documents; the texts of internal errors are fixed.
  What a route hands to \<open>emitRetentionAuditSafely\<close> (which never raises) is part of its result.
\<close>

section \<open>Results\<close>

datatype rt_result = RtJson int jsval | RtFail app_err | RtRaise

definition internal_failure :: "string \<Rightarrow> rt_result" where
  "internal_failure detail = RtFail (AppErr ''https://liquifact.com/probs/internal-server-error'' ''Internal Server Error'' 500 detail)"

definition rt_not_found :: "string \<Rightarrow> string \<Rightarrow> rt_result" where
  "rt_not_found ti detail = RtFail (AppErr ''https://liquifact.com/probs/not-found'' ti 404 detail)"

definition rt_conflict :: "string \<Rightarrow> string \<Rightarrow> rt_result" where
  "rt_conflict ti detail = RtFail (AppErr ''https://liquifact.com/probs/conflict'' ti 409 detail)"

type_synonym 'a parsed = "string list option + 'a"

text \<open>\<open>error.errors.map(...)\<close> raises where the error has no such member.\<close>

definition zod_failure :: "string list option \<Rightarrow> rt_result" where
  "zod_failure errs =
     (case errs of
        Some ms \<Rightarrow> RtFail (AppErr ''https://liquifact.com/probs/validation-error'' ''Validation Error'' 400 (join_comma ms))
      | None \<Rightarrow> RtRaise)"

text \<open>JWT or API key.\<close>

definition adminAuth :: "(request \<Rightarrow> handled) \<Rightarrow> (request \<Rightarrow> handled) \<Rightarrow> request \<Rightarrow> handled" where
  "adminAuth apiKey token req = (if truthy (col ''x-api-key'' (rq_headers req)) then apiKey req else token req)"

definition pick :: "string list \<Rightarrow> row \<Rightarrow> jsval" where
  "pick ks r = JObj (map (\<lambda>k. (k, col k r)) ks)"

definition snapshotRetentionPolicy :: "row option \<Rightarrow> jsval" where
  "snapshotRetentionPolicy r =
     (case r of None \<Rightarrow> JNull
      | Some x \<Rightarrow> pick [''id'', ''tenant_id'', ''name'', ''description'', ''retention_days'', ''pii_fields'', ''is_active''] x)"

definition snapshotLegalHold :: "row option \<Rightarrow> jsval" where
  "snapshotLegalHold r =
     (case r of None \<Rightarrow> JNull
      | Some x \<Rightarrow> pick [''id'', ''tenant_id'', ''invoice_id'', ''hold_reason'', ''hold_type'', ''status'', ''expires_at'', ''placed_by'',
          ''released_at'', ''release_reason''] x)"

text \<open>An audit event: its action, target, status code and the snapshots before and after.\<close>

record audit_event =
  av_action :: string
  av_targetId :: jsval
  av_statusCode :: int
  av_before :: jsval
  av_after :: jsval

definition rows_json :: "table \<Rightarrow> jsval" where
  "rows_json t = JArr (map JObj t)"

definition found :: "table \<Rightarrow> string \<Rightarrow> rt_result" where
  "found t what = RtJson 200 (JObj [(''data'', rows_json t), (''message'', JStr (''Found '' @ show_nat (length t) @ '' '' @ what))])"

section \<open>Policies\<close>

definition getPolicies :: "jsval \<Rightarrow> jsval \<Rightarrow> table \<Rightarrow> rt_result" where
  "getPolicies tenantId includeInactive policies =
     (if tenantId = JUndef then internal_failure ''Failed to fetch retention policies''
      else found (order_desc ''created_at'' (filter (\<lambda>r. col_eq ''tenant_id'' tenantId r \<and>
             ((truthy includeInactive \<and> includeInactive \<noteq> JStr ''false'') \<or> col_eq ''is_active'' (JBool True) r) \<and>
             is_null ''deleted_at'' r) policies)) ''retention policies'')"

definition postPolicies ::
  "(row \<Rightarrow> bool) \<Rightarrow> row \<Rightarrow> jsval \<Rightarrow> row parsed \<Rightarrow> table \<Rightarrow> rt_result \<times> table \<times> audit_event list" where
  "postPolicies ok defaults tenantId parse policies =
     (case parse of
        Inl errs \<Rightarrow> (zod_failure errs, policies, [])
      | Inr d \<Rightarrow>
          if tenantId = JUndef then (internal_failure ''Failed to create retention policy'', policies, [])
          else if list_ex (\<lambda>r. col_eq ''tenant_id'' tenantId r \<and> col_eq ''name'' (col ''name'' d) r \<and>
                    col_eq ''is_active'' (JBool True) r \<and> is_null ''deleted_at'' r) policies
          then (rt_conflict ''Policy Already Exists''
                 (''Policy '' @ [CHR 0x27] @ str_of (col ''name'' d) @ [CHR 0x27] @ '' already exists for this tenant''), policies, [])
          else let r = [(''tenant_id'', tenantId), (''name'', col ''name'' d), (''description'', col ''description'' d),
                     (''retention_days'', col ''retentionDays'' d), (''pii_fields'', col ''piiFields'' d),
                     (''is_active'', col ''isActive'' d)] @ defaults
               in if \<not> ok r then (internal_failure ''Failed to create retention policy'', policies, [])
                  else (RtJson 201 (JObj [(''data'', JObj r), (''message'', JStr ''Retention policy created successfully'')]), policies @ [r],
                        [\<lparr>av_action = ''retention.policy.create'', av_targetId = col ''id'' r, av_statusCode = 201,
                          av_before = JNull, av_after = snapshotRetentionPolicy (Some r)\<rparr>]))"

text \<open>The parsed fields are written under their own names.\<close>

definition putPolicy ::
  "(row \<Rightarrow> bool) \<Rightarrow> time \<Rightarrow> jsval \<Rightarrow> jsval \<Rightarrow> row parsed \<Rightarrow> table \<Rightarrow> rt_result \<times> table \<times> audit_event list" where
  "putPolicy ok now tenantId policyId parse policies =
     (case parse of
        Inl errs \<Rightarrow> (zod_failure errs, policies, [])
      | Inr d \<Rightarrow>
          if tenantId = JUndef then (internal_failure ''Failed to update retention policy'', policies, [])
          else let hit = (\<lambda>r. col_eq ''id'' policyId r \<and> col_eq ''tenant_id'' tenantId r) in
            (case List.find (\<lambda>r. hit r \<and> is_null ''deleted_at'' r) policies of
               None \<Rightarrow> (rt_not_found ''Policy Not Found'' ''Retention policy not found'', policies, [])
             | Some existing \<Rightarrow>
                 let f = (\<lambda>r. AList.update ''updated_at'' (JInt now) (overlay d r)) in
                 if \<not> list_all (\<lambda>r. ok (f r)) (filter hit policies)
                 then (internal_failure ''Failed to update retention policy'', policies, [])
                 else let upd = f (the (List.find hit policies)) in
                   (RtJson 200 (JObj [(''data'', JObj upd), (''message'', JStr ''Retention policy updated successfully'')]),
                    update_where hit f policies,
                    [\<lparr>av_action = ''retention.policy.update'', av_targetId = policyId, av_statusCode = 200,
                      av_before = snapshotRetentionPolicy (Some existing), av_after = snapshotRetentionPolicy (Some upd)\<rparr>])))"

section \<open>Legal holds\<close>

text \<open>\<open>join_ok\<close>: whether the database accepts the unqualified column \<open>tenant_id\<close> beside the joined table.\<close>

definition getLegalHolds :: "bool \<Rightarrow> jsval \<Rightarrow> jsval \<Rightarrow> jsval \<Rightarrow> table \<Rightarrow> table \<Rightarrow> rt_result" where
  "getLegalHolds join_ok tenantId st invoiceId invoices holds =
     (if tenantId = JUndef \<or> \<not> join_ok then internal_failure ''Failed to fetch legal holds''
      else found (map (\<lambda>h. AList.update ''invoice_number''
               (case List.find (\<lambda>i. col_eq ''id'' (col ''invoice_id'' h) i) invoices of Some i \<Rightarrow> col ''invoice_number'' i | None \<Rightarrow> JNull) h)
             (order_desc ''created_at'' (filter (\<lambda>h. col_eq ''tenant_id'' tenantId h \<and>
               (\<not> truthy st \<or> col_eq ''status'' st h) \<and> (\<not> truthy invoiceId \<or> col_eq ''invoice_id'' invoiceId h)) holds))) ''legal holds'')"

definition active_now :: "time \<Rightarrow> row \<Rightarrow> bool" where
  "active_now now h \<longleftrightarrow> col_eq ''status'' (JStr ''active'') h \<and> (is_null ''expires_at'' h \<or> after ''expires_at'' now h)"

text \<open>\<open>expiry\<close> is the parsed date of \<open>expiresAt\<close>; the columns the insert leaves out have the defaults of the
  table.\<close>

definition postLegalHold ::
  "(row \<Rightarrow> bool) \<Rightarrow> row \<Rightarrow> (jsval \<Rightarrow> jsval) \<Rightarrow> time \<Rightarrow> jsval \<Rightarrow> jsval \<Rightarrow> row parsed \<Rightarrow> table \<Rightarrow> table \<Rightarrow>
   rt_result \<times> table \<times> audit_event list" where
  "postLegalHold ok defaults expiry now tenantId userId parse invoices holds =
     (case parse of
        Inl errs \<Rightarrow> (zod_failure errs, holds, [])
      | Inr d \<Rightarrow>
          if tenantId = JUndef then (internal_failure ''Failed to create legal hold'', holds, [])
          else if \<not> list_ex (\<lambda>i. col_eq ''id'' (col ''invoiceId'' d) i \<and> col_eq ''tenant_id'' tenantId i \<and> is_null ''deleted_at'' i) invoices
          then (rt_not_found ''Invoice Not Found'' ''Invoice not found or does not belong to this tenant'', holds, [])
          else if list_ex (\<lambda>h. col_eq ''invoice_id'' (col ''invoiceId'' d) h \<and> active_now now h) holds
          then (rt_conflict ''Legal Hold Already Exists'' ''An active legal hold already exists for this invoice'', holds, [])
          else let h = [(''tenant_id'', tenantId), (''invoice_id'', col ''invoiceId'' d), (''hold_reason'', col ''holdReason'' d),
                     (''hold_type'', col ''holdType'' d),
                     (''expires_at'', if truthy (col ''expiresAt'' d) then expiry (col ''expiresAt'' d) else JNull),
                     (''placed_by'', userId), (''metadata'', js_or (col ''metadata'' d) (JObj []))] @ defaults
               in if \<not> ok h then (internal_failure ''Failed to create legal hold'', holds, [])
                  else (RtJson 201 (JObj [(''data'', JObj h), (''message'', JStr ''Legal hold created successfully'')]), holds @ [h],
                        [\<lparr>av_action = ''retention.legal_hold.create'', av_targetId = col ''id'' h, av_statusCode = 201,
                          av_before = JNull, av_after = snapshotLegalHold (Some h)\<rparr>]))"

definition releaseLegalHold ::
  "time \<Rightarrow> jsval \<Rightarrow> jsval \<Rightarrow> jsval \<Rightarrow> table \<Rightarrow> rt_result \<times> table \<times> audit_event list" where
  "releaseLegalHold now tenantId holdId body holds =
     (if tenantId = JUndef \<or> js_nullish body then (internal_failure ''Failed to release legal hold'', holds, [])
      else (case List.find (\<lambda>h. col_eq ''id'' holdId h \<and> col_eq ''tenant_id'' tenantId h \<and> col_eq ''status'' (JStr ''active'') h) holds of
          None \<Rightarrow> (rt_not_found ''Legal Hold Not Found'' ''Active legal hold not found'', holds, [])
        | Some hold \<Rightarrow>
            let f = overlay [(''status'', JStr ''released''), (''released_at'', JInt now),
                      (''release_reason'', js_or (js_get body ''releaseReason'') (JStr ''Released by user''))];
                hit = col_eq ''id'' holdId;
                released = f (the (List.find hit holds))
            in (RtJson 200 (JObj [(''data'', JObj released), (''message'', JStr ''Legal hold released successfully'')]),
                update_where hit f holds,
                [\<lparr>av_action = ''retention.legal_hold.release'', av_targetId = holdId, av_statusCode = 200,
                  av_before = snapshotLegalHold (Some hold), av_after = snapshotLegalHold (Some released)\<rparr>])))"

section \<open>Jobs\<close>

definition active_tenant_policy :: "jsval \<Rightarrow> jsval \<Rightarrow> row \<Rightarrow> bool" where
  "active_tenant_policy policyId tenantId r \<longleftrightarrow> col_eq ''id'' policyId r \<and> col_eq ''tenant_id'' tenantId r \<and>
     col_eq ''is_active'' (JBool True) r \<and> is_null ''deleted_at'' r"

definition scheduleJob ::
  "enqueue_options \<Rightarrow> string \<Rightarrow> time \<Rightarrow> jsval \<Rightarrow> jsval \<Rightarrow> row parsed \<Rightarrow> table \<Rightarrow> scheduler \<Rightarrow> rt_result \<times> scheduler" where
  "scheduleJob qopts hex now tenantId userId parse policies s =
     (case parse of
        Inl errs \<Rightarrow> (zod_failure errs, s)
      | Inr d \<Rightarrow>
          let policyId = col ''policyId'' d in
          if truthy policyId \<and> tenantId = JUndef then (internal_failure ''Failed to schedule retention job'', s)
          else if truthy policyId \<and> \<not> list_ex (active_tenant_policy policyId tenantId) policies
          then (rt_not_found ''Policy Not Found'' ''Active retention policy not found'', s)
          else if truthy (col ''piiFields'' d) \<and> \<not> is_ok (validatePiiFields (col ''piiFields'' d))
          then (internal_failure ''Failed to schedule retention job'', s)
          else (case scheduleRetentionPurge (JObj [(''tenantId'', tenantId), (''policyId'', policyId), (''dryRun'', col ''dryRun'' d),
                   (''retentionDays'', col ''retentionDays'' d), (''piiFields'', col ''piiFields'' d), (''performedBy'', userId),
                   (''batchSize'', col ''batchSize'' d)]) qopts hex now s of
              Inl _ \<Rightarrow> (internal_failure ''Failed to schedule retention job'', s)
            | Inr (jobId, s') \<Rightarrow>
                (RtJson 201 (JObj [(''data'', JObj [(''jobId'', JStr jobId)]),
                   (''message'', JStr (''Retention job scheduled successfully ('' @ (if truthy (col ''dryRun'' d) then ''dry run'' else ''live'') @ '')''))]), s')))"

definition getJob :: "jsval \<Rightarrow> jsval \<Rightarrow> table \<Rightarrow> rt_result" where
  "getJob tenantId executionId executions =
     (case getExecutionStatus executionId executions of
        Some e \<Rightarrow>
          if col ''tenant_id'' e \<noteq> tenantId then rt_not_found ''Execution Not Found'' ''Retention job execution not found''
          else RtJson 200 (JObj [(''data'', JObj e), (''message'', JStr ''Job execution details retrieved successfully'')])
      | None \<Rightarrow> rt_not_found ''Execution Not Found'' ''Retention job execution not found'')"

text \<open>\<open>limit(Math.min(parseInt(v), cap))\<close>: a value that is no number sets no limit, and the database refuses
  a negative one.\<close>

definition limited :: "jsval \<Rightarrow> int \<Rightarrow> int \<Rightarrow> table \<Rightarrow> table option" where
  "limited v dflt_n cap t =
     (case parse_int_any (if v = JUndef then JInt dflt_n else v) of
        None \<Rightarrow> Some t
      | Some n \<Rightarrow> if min n cap < 0 then None else Some (take (nat (min n cap)) t))"

definition getJobs :: "jsval \<Rightarrow> jsval \<Rightarrow> table \<Rightarrow> rt_result" where
  "getJobs tenantId limit_v executions =
     (if tenantId = JUndef then internal_failure ''Failed to fetch job executions''
      else (case limited limit_v 50 100 (order_desc ''started_at'' (filter (col_eq ''tenant_id'' tenantId) executions)) of
          None \<Rightarrow> internal_failure ''Failed to fetch job executions''
        | Some t \<Rightarrow> found t ''job executions''))"

text \<open>\<open>date\<close> is \<open>new Date\<close> of a parameter, None for an invalid date, which the database refuses.\<close>

definition date_bound :: "(jsval \<Rightarrow> time option) \<Rightarrow> jsval \<Rightarrow> (time \<Rightarrow> row \<Rightarrow> bool) \<Rightarrow> (row \<Rightarrow> bool) option" where
  "date_bound date v test = (if truthy v then map_option test (date v) else Some (\<lambda>_. True))"

definition getRetentionAudit :: "(jsval \<Rightarrow> time option) \<Rightarrow> jsval \<Rightarrow> jsval \<Rightarrow> table \<Rightarrow> rt_result" where
  "getRetentionAudit date tenantId q audit =
     (if tenantId = JUndef then internal_failure ''Failed to fetch audit log''
      else (case (date_bound date (js_get q ''startDate'') (\<lambda>d r. \<not> is_null ''performed_at'' r \<and> \<not> before ''performed_at'' d r),
                  date_bound date (js_get q ''endDate'') (\<lambda>d r. \<not> is_null ''performed_at'' r \<and> \<not> after ''performed_at'' d r)) of
          (Some lo, Some hi) \<Rightarrow>
            (case limited (js_get q ''limit'') 100 1000 (order_desc ''performed_at'' (filter (\<lambda>r. col_eq ''tenant_id'' tenantId r \<and> lo r \<and> hi r \<and>
                    (\<not> truthy (js_get q ''operation'') \<or> col_eq ''operation'' (js_get q ''operation'') r) \<and>
                    (\<not> truthy (js_get q ''invoiceId'') \<or> col_eq ''invoice_id'' (js_get q ''invoiceId'') r)) audit)) of
               None \<Rightarrow> internal_failure ''Failed to fetch audit log''
             | Some t \<Rightarrow> found t ''audit log entries'')
        | _ \<Rightarrow> internal_failure ''Failed to fetch audit log''))"

section \<open>Preview\<close>

definition preview_sample :: "row \<Rightarrow> jsval" where
  "preview_sample i =
     JObj [(''id'', col ''id'' i), (''invoiceNumber'', col ''invoice_number'' i), (''createdAt'', col ''created_at'' i),
       (''customerName'', col ''customer_name'' i), (''customerEmail'', col ''customer_email'' i), (''customerTaxId'', col ''customer_tax_id'' i)]"

definition preview_policy :: "jsval \<Rightarrow> jsval \<Rightarrow> row \<Rightarrow> table \<Rightarrow> jsval" where
  "preview_policy piiFields days policy eligible =
     JObj [(''policyId'', col ''id'' policy), (''policyName'', col ''name'' policy), (''retentionDays'', days),
       (''piiFields'', js_or piiFields (col ''pii_fields'' policy)), (''eligibleCount'', JInt (int (length eligible))),
       (''sampleInvoices'', JArr (map preview_sample (take 10 eligible)))]"

fun preview_policies ::
  "retention_env \<Rightarrow> nat \<Rightarrow> string \<Rightarrow> jsval \<Rightarrow> jsval \<Rightarrow> table \<Rightarrow> table \<Rightarrow> (nat \<times> jsval) list" where
  "preview_policies c n tenantId retentionDays piiFields [] invoices = []"
| "preview_policies c n tenantId retentionDays piiFields (policy # policies) invoices =
     (let days = js_or retentionDays (col ''retention_days'' policy);
          eligible = (case re_reads c n of (now, holds) \<Rightarrow> getEligibleInvoices c now holds tenantId days 1000 invoices)
      in (length eligible, preview_policy piiFields days policy eligible)
         # preview_policies c (Suc n) tenantId retentionDays piiFields policies invoices)"

definition preview :: "retention_env \<Rightarrow> string \<Rightarrow> jsval \<Rightarrow> jsval \<Rightarrow> table \<Rightarrow> table \<Rightarrow> rt_result" where
  "preview c nowIso tenantId body policies invoices =
     (if tenantId = JUndef \<or> js_nullish body then internal_failure ''Failed to generate preview''
      else let policyId = js_get body ''policyId''; retentionDays = js_get body ''retentionDays''; piiFields = js_get body ''piiFields'';
               ps = (if truthy policyId
                     then (case List.find (active_tenant_policy policyId tenantId) policies of Some p \<Rightarrow> Some [p] | None \<Rightarrow> None)
                     else Some (getActivePolicies (str_of tenantId) policies))
           in (case ps of
                 None \<Rightarrow> rt_not_found ''Policy Not Found'' ''Active retention policy not found''
               | Some [] \<Rightarrow> RtJson 200 (JObj [(''data'', JObj [(''eligibleInvoices'', JArr []), (''totalEligible'', JInt 0), (''policies'', JArr []),
                     (''previewGenerated'', JStr nowIso)]), (''message'', JStr ''No active retention policies found'')])
               | Some ps' \<Rightarrow>
                   let pv = preview_policies c 0 (str_of tenantId) retentionDays piiFields ps' invoices;
                       n = sum_list (map fst pv)
                   in RtJson 200 (JObj [(''data'', JObj [(''eligibleInvoices'', JArr (map snd pv)), (''totalEligible'', JInt (int n)),
                        (''policies'', JArr (map (\<lambda>p. JObj [(''id'', col ''id'' p), (''name'', col ''name'' p),
                           (''retentionDays'', col ''retention_days'' p), (''piiFields'', col ''pii_fields'' p)]) ps')),
                        (''previewGenerated'', JStr nowIso)]),
                        (''message'', JStr (''Preview generated for '' @ show_nat n @ '' eligible invoices''))])))"

section \<open>No route can work\<close>

text \<open>Authentication does not set a tenant, and no other middleware runs before the routes.\<close>

lemma adminAuth_keeps_tenant:
  assumes "adminAuth (authenticateApiKey parse sha apiKeys []) (authenticateToken verify validated nodeEnv env) req = Next req'"
  shows "rq_tenantId req' = rq_tenantId req"
proof (cases "truthy (col ''x-api-key'' (rq_headers req))")
  case True
  then show ?thesis using assms by (auto simp: adminAuth_def authenticateApiKey_Next)
next
  case False
  then show ?thesis using assms by (auto simp: adminAuth_def authenticateToken_Next)
qed

definition is_500 :: "rt_result \<Rightarrow> bool" where
  "is_500 r = (case r of RtFail (AppErr _ _ st _) \<Rightarrow> st = 500 | _ \<Rightarrow> False)"



section \<open>A hold protects its invoice\<close>

definition new_hold :: "row \<Rightarrow> (jsval \<Rightarrow> jsval) \<Rightarrow> jsval \<Rightarrow> jsval \<Rightarrow> row \<Rightarrow> row" where
  "new_hold defaults expiry tenantId userId d =
     [(''tenant_id'', tenantId), (''invoice_id'', col ''invoiceId'' d), (''hold_reason'', col ''holdReason'' d),
      (''hold_type'', col ''holdType'' d),
      (''expires_at'', if truthy (col ''expiresAt'' d) then expiry (col ''expiresAt'' d) else JNull),
      (''placed_by'', userId), (''metadata'', js_or (col ''metadata'' d) (JObj []))] @ defaults"

lemma new_hold_cols:
  "col ''tenant_id'' (new_hold defaults expiry tenantId userId d) = tenantId"
  "col ''invoice_id'' (new_hold defaults expiry tenantId userId d) = col ''invoiceId'' d"
  "col ''status'' (new_hold defaults expiry tenantId userId d) = col ''status'' defaults"
  "col ''expires_at'' (new_hold defaults expiry tenantId userId d) =
     (if truthy (col ''expiresAt'' d) then expiry (col ''expiresAt'' d) else JNull)"
  by (simp_all add: new_hold_def col_def)

lemma postLegalHold_created:
  assumes "postLegalHold ok defaults expiry now tenantId userId (Inr d) invoices holds = (RtJson 201 b, holds', evs)"
  shows "holds' = holds @ [new_hold defaults expiry tenantId userId d] \<and>
    (\<exists>i\<in>set invoices. col_eq ''id'' (col ''invoiceId'' d) i)"
  using assms
  by (auto simp: postLegalHold_def Let_def new_hold_def internal_failure_def rt_not_found_def rt_conflict_def list_ex_iff
      split: if_splits)

text \<open>C18: Once a legal hold was placed with status 201, it stands in the table with the tenant and the
  invoice of the request, and whatever the retention job of that tenant does later, as long as the hold
  is in every state of the table the job reads and has not expired at those times, the invoice with all
  its personal data is unchanged.\<close>

theorem placed_hold_protects:
  assumes placed: "postLegalHold ok defaults expiry now (JStr tenantId) userId (Inr d) invoices0 holds = (RtJson 201 b, holds', evs)"
    and dflt: "col ''status'' defaults = JStr ''active''"
    and ids: "distinct (map (col ''id'') (rd_invoices db))" "\<And>t. set (re_select c t) \<subseteq> set t"
    and job: "re_parse c pl = Inr p" "rp_tenantId p = tenantId"
    and kept: "\<And>n. last holds' \<in> set (snd (re_reads c n))"
      "\<And>n. \<not> truthy (col ''expiresAt'' d) \<or> after ''expires_at'' (fst (re_reads c n)) (last holds')"
    and row: "r \<in> set (rd_invoices db)" "col ''id'' r = col ''invoiceId'' d"
  shows "r \<in> set (rd_invoices (snd (retention_handler c pl db)))"
proof -
  define h where "h = new_hold defaults expiry (JStr tenantId) userId d"
  have h: "holds' = holds @ [h]" and inv: "\<exists>i\<in>set invoices0. col_eq ''id'' (col ''invoiceId'' d) i"
    using postLegalHold_created[OF placed] by (auto simp: h_def)
  have hc: "col ''tenant_id'' h = JStr tenantId" "col ''invoice_id'' h = col ''invoiceId'' d" "col ''status'' h = JStr ''active''"
      "\<not> truthy (col ''expiresAt'' d) \<Longrightarrow> col ''expires_at'' h = JNull"
    using dflt by (simp_all add: h_def new_hold_cols)
  have held: "isUnderLegalHold (fst (re_reads c n)) (snd (re_reads c n)) tenantId (col ''id'' r)" for n
  proof -
    have "hold_active (fst (re_reads c n)) tenantId h"
      using h hc kept(2)[of n] by (auto simp: hold_active_def is_null_def js_nullish_def)
    moreover have "col_eq ''invoice_id'' (col ''id'' r) h" using hc(2) row(2) inv by (auto simp: col_eq_def)
    ultimately show ?thesis using kept(1)[of n] h by (auto simp: isUnderLegalHold_def list_ex_iff)
  qed
  then have "\<not> purgeable c p r" using job(2) by (simp add: purgeable_def)
  then have same: "purged_from c p r r' \<Longrightarrow> r' = r" for r' by (simp add: purged_from_def)
  obtain st where st: "run_inv c p (rd_invoices db) (rd_audit db) st"
      "rd_invoices (snd (retention_handler c pl db)) = rs_invoices st"
    using retention_handler_run[OF ids job(1)] by blast
  then obtain r' where r': "r' \<in> set (rs_invoices st)" "purged_from c p r r'"
    using row(1) by (metis (no_types, lifting) in_set_conv_nth list_all2_conv_all_nth run_inv_def)
  then show ?thesis using same[OF r'(2)] st(2) by simp
qed

definition sample_hold :: row where
  "sample_hold = [(''invoiceId'', JStr ''i1''), (''holdReason'', JStr ''audit''), (''holdType'', JStr ''audit'')]"

definition hold_env :: retention_env where
  "hold_env = (sample_retention False (\<lambda>_. True))\<lparr>re_reads := (\<lambda>n. (100, [new_hold [(''status'', JStr ''active'')] id (JStr ''a'') JUndef sample_hold]))\<rparr>"

theorem placed_hold_protects_witness:
  "old_invoice ''i1'' \<in> set (rd_invoices (snd (retention_handler hold_env JNull sample_retention_db)))"
proof -
  let ?h = "new_hold [(''status'', JStr ''active'')] id (JStr ''a'') JUndef sample_hold"
  have "postLegalHold (\<lambda>_. True) [(''status'', JStr ''active'')] id 5 (JStr ''a'') JUndef (Inr sample_hold) [old_invoice ''i1''] [] =
      (RtJson 201 (JObj [(''data'', JObj ?h), (''message'', JStr ''Legal hold created successfully'')]), [?h],
       [\<lparr>av_action = ''retention.legal_hold.create'', av_targetId = JUndef, av_statusCode = 201, av_before = JNull,
         av_after = snapshotLegalHold (Some ?h)\<rparr>])"
    by code_simp
  moreover have "distinct (map (col ''id'') (rd_invoices sample_retention_db))" "old_invoice ''i1'' \<in> set (rd_invoices sample_retention_db)"
    "col ''id'' (old_invoice ''i1'') = col ''invoiceId'' sample_hold" "\<not> truthy (col ''expiresAt'' sample_hold)"
    "rp_tenantId (sample_payload False) = ''a''" "col ''status'' [(''status'', JStr ''active'')] = JStr ''active''"
    by code_simp+
  moreover have "re_parse hold_env JNull = Inr (sample_payload False)" "set (re_select hold_env t) \<subseteq> set t"
    "last [?h] \<in> set (snd (re_reads hold_env n))" for t n
    by (simp_all add: hold_env_def sample_retention_def)
  ultimately show ?thesis by (intro placed_hold_protects) auto
qed

section \<open>Other routes\<close>

text \<open>Releasing needs an active hold of the tenant and touches no row with another id.\<close>

lemma release_scoped:
  assumes "releaseLegalHold now tenantId holdId body holds = (res, holds', evs)"
  shows "filter (\<lambda>h. \<not> col_eq ''id'' holdId h) holds' = filter (\<lambda>h. \<not> col_eq ''id'' holdId h) holds \<and>
    (holds' = holds \<or> (\<exists>h\<in>set holds. col_eq ''id'' holdId h \<and> col ''tenant_id'' h = tenantId \<and> col ''status'' h = JStr ''active''))"
proof -
  let ?f = "overlay [(''status'', JStr ''released''), (''released_at'', JInt now),
     (''release_reason'', js_or (js_get body ''releaseReason'') (JStr ''Released by user''))]"
  have id: "col_eq ''id'' holdId (?f h) = col_eq ''id'' holdId h" for h
    by (simp add: col_eq_def col_overlay_other amap_has_def)
  have "filter (\<lambda>h. \<not> col_eq ''id'' holdId h) (update_where (col_eq ''id'' holdId) ?f holds) = filter (\<lambda>h. \<not> col_eq ''id'' holdId h) holds"
    by (rule filter_update_where_disjoint) (simp_all add: id)
  then show ?thesis using assms
    by (auto simp: releaseLegalHold_def Let_def col_eq_def dest!: find_SomeD split: if_splits option.splits)
qed

text \<open>A limit that is no number is no limit; a policy update writes columns that do not exist; an invalid
  body raises in the handler of the validation error.\<close>

lemma limit_not_applied: "limited (JStr ''all'') 50 100 t = Some t"
proof -
  have "parse_int_any (JStr ''all'') = None" by code_simp
  then show ?thesis by (simp add: limited_def)
qed

lemma policy_update_refused:
  assumes "\<And>r. amap_has r ''retentionDays'' \<Longrightarrow> \<not> ok r" "col_eq ''id'' policyId r" "col_eq ''tenant_id'' tenantId r" "is_null ''deleted_at'' r"
    "tenantId \<noteq> JUndef"
  shows "putPolicy ok now tenantId policyId (Inr [(''retentionDays'', n)]) [r] =
    (internal_failure ''Failed to update retention policy'', [r], [])"
proof -
  have "amap_has (AList.update ''updated_at'' (JInt now) (overlay [(''retentionDays'', n)] r)) ''retentionDays''"
    by (simp add: amap_has_iff overlay_def)
  then show ?thesis using assms by (simp add: putPolicy_def Let_def)
qed

lemma invalid_body_raises: "fst (postPolicies ok defaults tenantId (Inl None) policies) = RtRaise"
  by (simp add: postPolicies_def zod_failure_def)

end
