(* ===== verification/Retry.thy ===== *)
theory Retry
  imports Prelude
begin

text \<open>
  Retrying with exponential backoff: \<open>src/src/utils/retry.js\<close>, and the contract (the locales
  \<open>retry_loop\<close> and \<open>eager_retry_loop\<close>) that this loop shares with the ones of
  \<open>services/soroban.js\<close> and \<open>workers/txSubmitter.js\<close>.

  The outcome of the \<open>n\<close>-th call of the wrapped operation is \<open>op n\<close>, an error or a value; the
  \<open>n\<close>-th result of \<open>Math.random()\<close> is \<open>rnd n\<close>. A run reports how often the operation was called,
  the result, the delays slept, and the calls made to \<open>onRetry\<close>.
\<close>

section \<open>The contract of a retry loop\<close>

text \<open>A run is abstracted to the number of calls made and the final outcome: the outcome is that
  of the last call, every earlier call failed with a retryable error, and there are at most
  \<open>maxr + 1\<close> calls.\<close>

locale retry_loop =
  fixes run :: "(nat \<Rightarrow> 'e + 'a) \<Rightarrow> nat \<times> ('e + 'a)"
    and maxr :: nat
    and retryable :: "'e \<Rightarrow> bool"
  assumes calls_bound: "run op = (n, r) \<Longrightarrow> 1 \<le> n \<and> n \<le> maxr + 1"
    and last_call: "run op = (n, r) \<Longrightarrow> r = op (n - 1)"
    and retried: "run op = (n, r) \<Longrightarrow> i < n - 1 \<Longrightarrow> \<exists>e. op i = Inl e \<and> retryable e"
begin

lemma stops_at:
  assumes "\<And>e. op i = Inl e \<Longrightarrow> \<not> retryable e"
  shows "fst (run op) \<le> i + 1"
proof (rule ccontr)
  assume "\<not> ?thesis"
  then have "i < fst (run op) - 1" by simp
  with retried[of op "fst (run op)" "snd (run op)" i] assms show False by auto
qed

lemma immediate:
  assumes "\<And>e. op 0 = Inl e \<Longrightarrow> \<not> retryable e"
  shows "run op = (1, op 0)"
proof -
  obtain n r where run: "run op = (n, r)" by fastforce
  have "n = 1" using stops_at[of op 0, OF assms] calls_bound[OF run] run by simp
  with last_call[OF run] run show ?thesis by simp
qed

lemma success_sound:
  assumes "run op = (n, Inr v)"
  shows "n \<le> maxr + 1 \<and> op (n - 1) = Inr v \<and> (\<forall>i<n - 1. \<exists>e. op i = Inl e \<and> retryable e)"
  using calls_bound[OF assms] last_call[OF assms] retried[OF assms] by auto

end

text \<open>A loop that only stops early on an error that is not retryable.\<close>

locale eager_retry_loop = retry_loop +
  assumes gives_up: "run op = (n, Inl e) \<Longrightarrow> n = maxr + 1 \<or> \<not> retryable e"
begin

lemma succeeds:
  assumes i: "i \<le> maxr" "op i = Inr v" and before: "\<forall>j<i. \<exists>e. op j = Inl e \<and> retryable e"
  shows "run op = (i + 1, Inr v)"
proof -
  obtain n r where run: "run op = (n, r)" by fastforce
  have le: "n \<le> i + 1" using stops_at[of op i] i(2) run by simp
  have "\<not> n - 1 < i"
  proof
    assume lt: "n - 1 < i"
    with before last_call[OF run] obtain e where "r = Inl e" "retryable e" by auto
    with gives_up[of op n e] run have "n = maxr + 1" by simp
    with lt i(1) show False by simp
  qed
  with le calls_bound[OF run] have "n = i + 1" by linarith
  with last_call[OF run] run i(2) show ?thesis by simp
qed

lemma exhausts:
  assumes "\<forall>j\<le>maxr. \<exists>e. op j = Inl e \<and> retryable e"
  shows "run op = (maxr + 1, op maxr)"
proof -
  obtain n r where run: "run op = (n, r)" by fastforce
  have "n - 1 \<le> maxr" using calls_bound[OF run] by linarith
  with assms last_call[OF run] obtain e where "r = Inl e" "retryable e" by auto
  with gives_up[of op n e] run have "n = maxr + 1" by simp
  with last_call[OF run] run show ?thesis by simp
qed

end

section \<open>withRetry\<close>

record ('e, 'a) retry_run =
  calls :: nat
  result :: "'e + 'a"
  delays :: "rat list"
  reports :: "(nat \<times> 'e) list"

text \<open>The \<open>while (true)\<close> loop, from a given value of \<open>attempt\<close>.\<close>

function withRetry_loop ::
  "nat \<Rightarrow> rat \<Rightarrow> rat \<Rightarrow> ('e \<Rightarrow> bool) \<Rightarrow> (nat \<Rightarrow> rat) \<Rightarrow> (nat \<Rightarrow> 'e + 'a) \<Rightarrow> nat \<Rightarrow>
   ('e, 'a) retry_run" where
  "withRetry_loop maxRetries baseDelay maxDelay shouldRetry rnd op attempt =
     (case op attempt of
        Inr v \<Rightarrow> \<lparr>calls = attempt + 1, result = Inr v, delays = [], reports = []\<rparr>
      | Inl e \<Rightarrow>
          if attempt < maxRetries \<and> shouldRetry e
          then let r = withRetry_loop maxRetries baseDelay maxDelay shouldRetry rnd op (attempt + 1);
                   delay = min (baseDelay * 2 ^ attempt) maxDelay;
                   jitteredDelay = delay * (8 / 10 + rnd attempt * (4 / 10))
               in r\<lparr>delays := jitteredDelay # delays r, reports := (attempt + 1, e) # reports r\<rparr>
          else \<lparr>calls = attempt + 1, result = Inl e, delays = [], reports = [(attempt + 1, e)]\<rparr>)"
  by pat_completeness auto
termination by (relation "measure (\<lambda>(mr, _, _, _, _, _, attempt). mr - attempt)") auto

declare withRetry_loop.simps [simp del]

record 'e retry_options =
  o_maxRetries :: "int option"
  o_baseDelay :: "int option"
  o_maxDelay :: "int option"
  o_shouldRetry :: "('e \<Rightarrow> bool) option"

definition opt_default :: "'x option \<Rightarrow> 'x \<Rightarrow> 'x" where
  "opt_default opt d = (case opt of None \<Rightarrow> d | Some x \<Rightarrow> x)"

definition capped :: "int \<Rightarrow> int \<Rightarrow> int" where
  "capped raw cap = max 0 (min raw cap)"

definition withRetry ::
  "(nat \<Rightarrow> rat) \<Rightarrow> (nat \<Rightarrow> 'e + 'a) \<Rightarrow> 'e retry_options \<Rightarrow> ('e, 'a) retry_run" where
  "withRetry rnd op opts =
     (let maxRetries = capped (opt_default (o_maxRetries opts) 3) 10;
          baseDelay = capped (opt_default (o_baseDelay opts) 500) 10000;
          maxDelay = capped (opt_default (o_maxDelay opts) 10000) 60000
      in withRetry_loop (nat maxRetries) (of_int baseDelay) (of_int maxDelay)
           (opt_default (o_shouldRetry opts) (\<lambda>_. True)) rnd op 0)"

section \<open>Sending mail\<close>

record smtp_error =
  message :: string
  response :: string
  code :: string

definition isPermanentSmtpError :: "smtp_error option \<Rightarrow> bool" where
  "isPermanentSmtpError err =
     (case err of
        None \<Rightarrow> False
      | Some e \<Rightarrow>
          (let m = to_lower (message e) in
           response e \<noteq> [] \<and>
             list_ex (starts_with (response e)) [''550'', ''551'', ''552'', ''553'', ''554''] \<or>
           list_ex (str_includes m)
             [''invalid recipient'', ''user unknown'', ''mailbox not found'', ''domain not found''] \<or>
           code e = ''EBADRQC'' \<or> code e = ''EDQUOT''))"

definition sendMailWithRetry ::
  "(nat \<Rightarrow> rat) \<Rightarrow> (nat \<Rightarrow> smtp_error option + 'a) \<Rightarrow> int option \<Rightarrow> int option \<Rightarrow>
   (smtp_error option, 'a) retry_run" where
  "sendMailWithRetry rnd sendMail maxAttempts baseDelayMs =
     withRetry rnd sendMail
       \<lparr>o_maxRetries = Some (opt_default maxAttempts 3 - 1),
        o_baseDelay = Some (opt_default baseDelayMs 1000), o_maxDelay = None,
        o_shouldRetry = Some (\<lambda>e. \<not> isPermanentSmtpError e)\<rparr>"

section \<open>The loop meets the contract\<close>

lemma withRetry_loop_done:
  assumes "\<And>e. op a = Inl e \<Longrightarrow> \<not> (a < mr \<and> sr e)"
  shows "withRetry_loop mr bd md sr rnd op a = \<lparr>calls = a + 1, result = op a, delays = [],
    reports = (case op a of Inl e \<Rightarrow> [(a + 1, e)] | Inr _ \<Rightarrow> [])\<rparr>"
  using assms by (subst withRetry_loop.simps) (auto split: sum.splits)

lemma withRetry_loop_again:
  assumes "op a = Inl e" "a < mr" "sr e"
  shows "withRetry_loop mr bd md sr rnd op a =
    (let r = withRetry_loop mr bd md sr rnd op (Suc a)
     in r\<lparr>delays := min (bd * 2 ^ a) md * (8 / 10 + rnd a * (4 / 10)) # delays r,
         reports := (a + 1, e) # reports r\<rparr>)"
  using assms by (subst withRetry_loop.simps) (simp add: Let_def)

lemma withRetry_loop_spec:
  fixes mr :: nat and k0 :: nat
  assumes "k0 \<le> mr" "r = withRetry_loop mr bd md sr rnd op k0"
  shows "k0 + 1 \<le> calls r \<and> calls r \<le> mr + 1 \<and> result r = op (calls r - 1) \<and>
    (\<forall>i. k0 \<le> i \<and> i < calls r - 1 \<longrightarrow> (\<exists>e. op i = Inl e \<and> sr e)) \<and>
    (\<forall>e. result r = Inl e \<longrightarrow> calls r = mr + 1 \<or> \<not> sr e) \<and>
    length (delays r) = calls r - 1 - k0"
  using assms
proof (induction "mr - k0" arbitrary: k0 r)
  case 0
  then show ?case by (auto simp: withRetry_loop_done)
next
  case (Suc k)
  show ?case
  proof (cases "\<exists>e. op k0 = Inl e \<and> k0 < mr \<and> sr e")
    case False
    then have "r = \<lparr>calls = k0 + 1, result = op k0, delays = [],
        reports = (case op k0 of Inl e \<Rightarrow> [(k0 + 1, e)] | Inr _ \<Rightarrow> [])\<rparr>"
      using Suc.prems(2) by (subst (asm) withRetry_loop_done) auto
    with False Suc.prems(1) Suc.hyps(2) show ?thesis by auto
  next
    case True
    then obtain e where e: "op k0 = Inl e" "k0 < mr" "sr e" by blast
    define r1 where "r1 = withRetry_loop mr bd md sr rnd op (Suc k0)"
    from Suc.hyps(1)[OF _ _ r1_def] Suc.hyps(2) e(2) have IH:
      "Suc k0 + 1 \<le> calls r1 \<and> calls r1 \<le> mr + 1 \<and> result r1 = op (calls r1 - 1) \<and>
       (\<forall>i. Suc k0 \<le> i \<and> i < calls r1 - 1 \<longrightarrow> (\<exists>e. op i = Inl e \<and> sr e)) \<and>
       (\<forall>e. result r1 = Inl e \<longrightarrow> calls r1 = mr + 1 \<or> \<not> sr e) \<and>
       length (delays r1) = calls r1 - 1 - Suc k0" by auto
    have r: "calls r = calls r1" "result r = result r1" "length (delays r) = Suc (length (delays r1))"
      using Suc.prems(2) e by (simp_all add: withRetry_loop_again r1_def Let_def)
    have "\<exists>e. op i = Inl e \<and> sr e" if "k0 \<le> i" "i < calls r - 1" for i
      using that IH e r by (cases "i = k0") auto
    with IH r show ?thesis by auto
  qed
qed

interpretation wr: eager_retry_loop
  "\<lambda>op. (calls (withRetry_loop mr bd md sr rnd op 0), result (withRetry_loop mr bd md sr rnd op 0))"
  mr sr
  for mr bd md sr rnd
proof (unfold_locales, goal_cases)
  case (1 op n r)
  then show ?case using withRetry_loop_spec[of 0 mr _ bd md sr rnd op] by force
next
  case (2 op n r)
  then show ?case using withRetry_loop_spec[of 0 mr _ bd md sr rnd op] by force
next
  case (3 op n r i)
  then show ?case using withRetry_loop_spec[of 0 mr _ bd md sr rnd op] by force
next
  case (4 op n e)
  then show ?case using withRetry_loop_spec[of 0 mr _ bd md sr rnd op] by force
qed

lemma jitter_bounds:
  assumes "(0::rat) \<le> d" "d \<le> md" "0 \<le> x" "x \<le> 1"
  shows "0 \<le> d * (8 / 10 + x * (4 / 10))" "d * (8 / 10 + x * (4 / 10)) \<le> md * (12 / 10)"
proof -
  have "0 \<le> 8 / 10 + x * (4 / 10)" "8 / 10 + x * (4 / 10) \<le> 12 / 10" using assms by auto
  then show "0 \<le> d * (8 / 10 + x * (4 / 10))" "d * (8 / 10 + x * (4 / 10)) \<le> md * (12 / 10)"
    using assms by (metis mult_nonneg_nonneg, metis mult_mono order_trans)
qed

lemma withRetry_loop_delays:
  assumes "0 \<le> bd" "0 \<le> md" "\<And>n. 0 \<le> rnd n \<and> rnd n \<le> 1"
    "d \<in> set (delays (withRetry_loop mr bd md sr rnd op k0))"
  shows "0 \<le> d \<and> d \<le> md * (12 / 10)"
  using assms
proof (induction mr bd md sr rnd op k0 rule: withRetry_loop.induct)
  case (1 mr bd md sr rnd op k0)
  show ?case
  proof (cases "\<exists>e. op k0 = Inl e \<and> k0 < mr \<and> sr e")
    case False
    with 1(5) show ?thesis by (subst (asm) withRetry_loop_done) auto
  next
    case True
    then obtain e where e: "op k0 = Inl e" "k0 < mr" "sr e" by blast
    let ?d = "min (bd * 2 ^ k0) md"
    have "d = ?d * (8 / 10 + rnd k0 * (4 / 10)) \<or>
        d \<in> set (delays (withRetry_loop mr bd md sr rnd op (Suc k0)))"
      using 1(5) e by (subst (asm) withRetry_loop_again) (auto simp: Let_def)
    then show ?thesis
    proof
      assume "d = ?d * (8 / 10 + rnd k0 * (4 / 10))"
      then show ?thesis using jitter_bounds[of ?d md "rnd k0"] 1(2-4) by auto
    next
      assume "d \<in> set (delays (withRetry_loop mr bd md sr rnd op (Suc k0)))"
      then show ?thesis using 1(1)[OF e(1)] e 1(2-4) by auto
    qed
  qed
qed

lemma withRetry_outcome:
  assumes "r = withRetry rnd op opts" "sr = opt_default (o_shouldRetry opts) (\<lambda>_. True)"
    "mr = nat (capped (opt_default (o_maxRetries opts) 3) 10)"
  shows "1 \<le> calls r \<and> calls r \<le> mr + 1 \<and> mr \<le> 10 \<and> result r = op (calls r - 1) \<and>
    (\<forall>i < calls r - 1. \<exists>e. op i = Inl e \<and> sr e) \<and>
    (\<forall>e. result r = Inl e \<longrightarrow> calls r = mr + 1 \<or> \<not> sr e)"
proof -
  have "mr \<le> 10" by (simp add: assms(3) capped_def)
  moreover have "r = withRetry_loop mr (of_int (capped (opt_default (o_baseDelay opts) 500) 10000))
      (of_int (capped (opt_default (o_maxDelay opts) 10000) 60000)) sr rnd op 0"
    by (simp add: assms withRetry_def Let_def)
  from withRetry_loop_spec[OF le0 this] have "0 + 1 \<le> calls r \<and> calls r \<le> mr + 1 \<and> result r = op (calls r - 1) \<and>
    (\<forall>i. 0 \<le> i \<and> i < calls r - 1 \<longrightarrow> (\<exists>e. op i = Inl e \<and> sr e)) \<and>
    (\<forall>e. result r = Inl e \<longrightarrow> calls r = mr + 1 \<or> \<not> sr e)" by blast
  ultimately show ?thesis by simp
qed

section \<open>Properties\<close>

text \<open>C36: \<open>withRetry\<close> is bounded whatever the options: at most eleven calls of the operation, the
  outcome is that of the last call, each earlier call failed with an error that \<open>shouldRetry\<close>
  accepts, and no delay exceeds 72 seconds (the 60 second cap plus 20 percent jitter).\<close>

theorem withRetry_bounded:
  assumes "\<forall>n. 0 \<le> rnd n \<and> rnd n \<le> 1"
  shows "1 \<le> calls (withRetry rnd op opts) \<and> calls (withRetry rnd op opts) \<le> 11 \<and>
    result (withRetry rnd op opts) = op (calls (withRetry rnd op opts) - 1) \<and>
    (\<forall>i < calls (withRetry rnd op opts) - 1.
       \<exists>e. op i = Inl e \<and> opt_default (o_shouldRetry opts) (\<lambda>_. True) e) \<and>
    length (delays (withRetry rnd op opts)) = calls (withRetry rnd op opts) - 1 \<and>
    (\<forall>d \<in> set (delays (withRetry rnd op opts)). 0 \<le> d \<and> d \<le> 72000)"
proof -
  let ?mr = "nat (capped (opt_default (o_maxRetries opts) 3) 10)"
  let ?bd = "rat_of_int (capped (opt_default (o_baseDelay opts) 500) 10000)"
  let ?md = "rat_of_int (capped (opt_default (o_maxDelay opts) 10000) 60000)"
  let ?sr = "opt_default (o_shouldRetry opts) (\<lambda>_. True)"
  let ?r = "withRetry_loop ?mr ?bd ?md ?sr rnd op 0"
  have r: "withRetry rnd op opts = ?r" by (simp add: withRetry_def Let_def)
  have mr: "?mr \<le> 10" by (simp add: capped_def)
  have md: "0 \<le> ?bd" "0 \<le> ?md" "?md \<le> 60000" by (simp_all add: capped_def)
  have "0 \<le> d \<and> d \<le> 72000" if "d \<in> set (delays ?r)" for d
    using withRetry_loop_delays[OF md(1,2) _ that] assms md(3) by auto
  with withRetry_loop_spec[of 0 ?mr ?r ?bd ?md ?sr rnd op] mr show ?thesis
    unfolding r by auto
qed

theorem withRetry_bounded_witness:
  "calls (withRetry (\<lambda>_. 1 / 2) (\<lambda>_. Inl () :: unit + unit)
     \<lparr>o_maxRetries = Some 1000, o_baseDelay = None, o_maxDelay = None, o_shouldRetry = None\<rparr>) \<le> 11"
  using withRetry_bounded[of "\<lambda>_. 1 / 2"] by auto

text \<open>A mail is delivered as soon as one of the allowed attempts succeeds after transient
  failures only, in exactly that many calls of the transport; a permanent SMTP error on the first
  attempt is final after one call.\<close>

theorem sendMail_outcome:
  assumes "1 \<le> maxAttempts" "maxAttempts \<le> 11"
  shows "(\<forall>i v. int i < maxAttempts \<longrightarrow> sendMail i = Inr v \<longrightarrow>
       (\<forall>j<i. \<exists>e. sendMail j = Inl e \<and> \<not> isPermanentSmtpError e) \<longrightarrow>
       calls (sendMailWithRetry rnd sendMail (Some maxAttempts) bd) = i + 1 \<and>
       result (sendMailWithRetry rnd sendMail (Some maxAttempts) bd) = Inr v) \<and>
    (\<forall>e. sendMail 0 = Inl e \<longrightarrow> isPermanentSmtpError e \<longrightarrow>
       calls (sendMailWithRetry rnd sendMail (Some maxAttempts) bd) = 1 \<and>
       result (sendMailWithRetry rnd sendMail (Some maxAttempts) bd) = Inl e)"
proof -
  let ?mr = "nat (maxAttempts - 1)"
  let ?bd = "rat_of_int (capped (opt_default bd 1000) 10000)"
  let ?sr = "\<lambda>e. \<not> isPermanentSmtpError e"
  have r: "sendMailWithRetry rnd sendMail (Some maxAttempts) bd =
      withRetry_loop ?mr ?bd (of_int (capped 10000 60000)) ?sr rnd sendMail 0"
    using assms by (simp add: sendMailWithRetry_def withRetry_def Let_def opt_default_def capped_def
        min_absorb1)
  have "calls (sendMailWithRetry rnd sendMail (Some maxAttempts) bd) = i + 1 \<and>
      result (sendMailWithRetry rnd sendMail (Some maxAttempts) bd) = Inr v"
    if "int i < maxAttempts" "sendMail i = Inr v"
      "\<forall>j<i. \<exists>e. sendMail j = Inl e \<and> \<not> isPermanentSmtpError e" for i v
    using wr.succeeds[of i ?mr sendMail v ?sr] that unfolding r by (simp add: nat_le_eq_zle)
  moreover have "calls (sendMailWithRetry rnd sendMail (Some maxAttempts) bd) = 1 \<and>
      result (sendMailWithRetry rnd sendMail (Some maxAttempts) bd) = Inl e"
    if "sendMail 0 = Inl e" "isPermanentSmtpError e" for e
    using wr.immediate[of sendMail ?sr] that unfolding r by simp
  ultimately show ?thesis by blast
qed

theorem sendMail_outcome_witness:
  "calls (sendMailWithRetry (\<lambda>_. 0) (\<lambda>n. if n = 0 then Inl None else Inr ()) (Some 3) None) = 2"
proof -
  let ?s = "\<lambda>n. if n = 0 then Inl None else Inr () :: smtp_error option + unit"
  have "\<forall>j<Suc 0. \<exists>e. ?s j = Inl e \<and> \<not> isPermanentSmtpError e"
    by (simp add: isPermanentSmtpError_def)
  with sendMail_outcome[of 3 ?s "\<lambda>_. 0" None, THEN conjunct1, rule_format, of 1 "()"]
  show ?thesis by simp
qed

end
