(* ===== verification/Maintenance.thy ===== *)
theory Maintenance
  imports Retention Retry Auth QueryParams
begin

text \<open>
  Maintenance work: the purge of expired idempotency keys (\<open>src/src/jobs/idempotencyPurge.js\<close>), the
  maturity reminders (\<open>src/src/jobs/maturityReminders.js\<close>) and the metrics endpoint with its labels
  (\<open>src/src/metrics.js\<close>).

  Statements on the database fail where an argument says so; before each batch of the purge other
  requests may change the table of keys. Environment variables are strings, empty where they are unset.
\<close>

section \<open>Purging idempotency keys\<close>

definition DEFAULT_BATCH_SIZE :: int where "DEFAULT_BATCH_SIZE = 1000"
definition DEFAULT_INTERVAL_MS :: int where "DEFAULT_INTERVAL_MS = 3600000"
definition DEFAULT_MAX_BATCHES :: int where "DEFAULT_MAX_BATCHES = 100"

definition getBatchSize :: "string \<Rightarrow> int" where
  "getBatchSize raw =
     (case parse_int_str raw of None \<Rightarrow> DEFAULT_BATCH_SIZE | Some n \<Rightarrow> if n < 1 then DEFAULT_BATCH_SIZE else min n 10000)"

definition getIntervalMs :: "string \<Rightarrow> int" where
  "getIntervalMs raw =
     (case parse_int_str raw of None \<Rightarrow> DEFAULT_INTERVAL_MS | Some n \<Rightarrow> if n < 60000 then DEFAULT_INTERVAL_MS else n)"

definition getMaxBatches :: "string \<Rightarrow> int" where
  "getMaxBatches raw =
     (case parse_int_str raw of None \<Rightarrow> DEFAULT_MAX_BATCHES | Some n \<Rightarrow> if n < 1 then DEFAULT_MAX_BATCHES else min n 1000)"

text \<open>The expired keys in the order of their expiry; the statement deletes the rows with the ids of the
  first ones and returns their number.\<close>

definition expired_keys :: "time \<Rightarrow> table \<Rightarrow> table" where
  "expired_keys now t = sort_key (num_of ''expires_at'') (filter (before ''expires_at'' now) t)"

definition deleteExpiredBatch :: "time \<Rightarrow> nat \<Rightarrow> table \<Rightarrow> nat \<times> table" where
  "deleteExpiredBatch now batchSize t =
     (let ids = col ''id'' ` set (take batchSize (expired_keys now t))
      in (length (filter (\<lambda>r. col ''id'' r \<in> ids) t), filter (\<lambda>r. col ''id'' r \<notin> ids) t))"

record purge_env =
  pe_clock :: "nat \<Rightarrow> time"
  pe_others :: "nat \<Rightarrow> table \<Rightarrow> table"
  pe_fails :: "nat \<Rightarrow> bool"

text \<open>The loop; the first argument counts the batches that are left.\<close>

fun purge_loop :: "nat \<Rightarrow> purge_env \<Rightarrow> nat \<Rightarrow> nat \<Rightarrow> nat \<Rightarrow> table \<Rightarrow> (string + nat \<times> nat) \<times> table" where
  "purge_loop 0 e batchSize batchCount totalDeleted t = (Inr (totalDeleted, batchCount), t)"
| "purge_loop (Suc left) e batchSize batchCount totalDeleted t =
     (let t1 = pe_others e batchCount t in
      if pe_fails e batchCount then (Inl ''database'', t1)
      else (case deleteExpiredBatch (pe_clock e batchCount) batchSize t1 of
          (deleted, t2) \<Rightarrow>
            if deleted = 0 then (Inr (totalDeleted, batchCount), t2)
            else if deleted < batchSize then (Inr (totalDeleted + deleted, Suc batchCount), t2)
            else purge_loop left e batchSize (Suc batchCount) (totalDeleted + deleted) t2))"

record purge_summary =
  ps_totalDeleted :: nat
  ps_batchCount :: nat
  ps_maxBatchesReached :: bool

definition purgeExpiredKeys :: "string \<Rightarrow> string \<Rightarrow> purge_env \<Rightarrow> table \<Rightarrow> (string + purge_summary) \<times> table" where
  "purgeExpiredKeys rawSize rawMax e t =
     (let maxBatches = nat (getMaxBatches rawMax) in
      case purge_loop maxBatches e (nat (getBatchSize rawSize)) 0 0 t of
        (Inl err, t') \<Rightarrow> (Inl err, t')
      | (Inr (totalDeleted, batchCount), t') \<Rightarrow>
          (Inr \<lparr>ps_totalDeleted = totalDeleted, ps_batchCount = batchCount, ps_maxBatchesReached = (batchCount \<ge> maxBatches)\<rparr>, t'))"

definition schedulePurge :: "int option \<Rightarrow> string \<Rightarrow> string \<Rightarrow> time \<Rightarrow> job_queue \<Rightarrow> queue_error + (string \<times> job_queue)" where
  "schedulePurge delay rawInterval hex now q =
     enqueue q (JStr ''idempotency_purge'') (Inr (JObj []))
       \<lparr>opt_priority = None, opt_delayMs = Some (case delay of Some d \<Rightarrow> d | None \<Rightarrow> getIntervalMs rawInterval)\<rparr> hex now"

definition triggerPurge :: "int option \<Rightarrow> string \<Rightarrow> string \<Rightarrow> time \<Rightarrow> job_queue \<Rightarrow> queue_error + (string \<times> job_queue)" where
  "triggerPurge delay rawInterval hex now q =
     schedulePurge (Some (case delay of Some d \<Rightarrow> d | None \<Rightarrow> 0)) rawInterval hex now q"

text \<open>Whether the worker runs, and the queue.\<close>

definition startPurgeWorker :: "string \<Rightarrow> string \<Rightarrow> time \<Rightarrow> bool \<times> job_queue \<Rightarrow> queue_error + (bool \<times> job_queue)" where
  "startPurgeWorker rawInterval hex now s =
     (if fst s then Inr s
      else (case schedulePurge None rawInterval hex now (snd s) of Inl e \<Rightarrow> Inl e | Inr (_, q) \<Rightarrow> Inr (True, q)))"

section \<open>Labels\<close>

definition REMINDER_REASON_ENUM :: "string list" where
  "REMINDER_REASON_ENUM = [''smtp_timeout'', ''smtp_reject'', ''template_error'', ''unknown'']"

definition JOB_TYPE_ENUM :: "string list" where
  "JOB_TYPE_ENUM = [''maturity_reminder'', ''webhook_replay'', ''unknown'']"

definition SOROBAN_RPC_METHOD_ENUM :: "string list" where
  "SOROBAN_RPC_METHOD_ENUM = [''contract_call'', ''simulate_transaction'', ''get_ledger_entries'', ''token_metadata'',
     ''legal_hold_status'', ''schema_version'', ''unknown'']"

definition SOROBAN_RETRY_CAUSE_ENUM :: "string list" where
  "SOROBAN_RETRY_CAUSE_ENUM = [''timeout'', ''429'', ''5xx'', ''unknown'']"

definition normalizeJobType :: "jsval \<Rightarrow> string" where
  "normalizeJobType raw = (if str_of raw \<in> set JOB_TYPE_ENUM then str_of raw else ''unknown'')"

definition methodAliases :: "(string \<times> string) list" where
  "methodAliases =
     [(''contract_call'', ''contract_call''), (''callsorobancontract'', ''contract_call''), (''invoke_contract'', ''contract_call''),
      (''invokecontract'', ''contract_call''), (''simulate_transaction'', ''simulate_transaction''),
      (''simulatetransaction'', ''simulate_transaction''), (''simulation'', ''simulate_transaction''),
      (''get_ledger_entries'', ''get_ledger_entries''), (''getledgerentries'', ''get_ledger_entries''),
      (''token_metadata'', ''token_metadata''), (''tokenmeta'', ''token_metadata''), (''legal_hold_status'', ''legal_hold_status''),
      (''get_legal_hold'', ''legal_hold_status''), (''schema_version'', ''schema_version''), (''get_schema_version'', ''schema_version'')]"

definition normalizeSorobanRpcMethod :: "jsval \<Rightarrow> string" where
  "normalizeSorobanRpcMethod raw =
     (let n = (case map_of methodAliases (to_lower (trim (str_of raw))) of Some m \<Rightarrow> m | None \<Rightarrow> ''unknown'')
      in if n \<in> set SOROBAN_RPC_METHOD_ENUM then n else ''unknown'')"

definition normalizeSorobanRpcOutcome :: "jsval \<Rightarrow> string" where
  "normalizeSorobanRpcOutcome raw =
     (let s = to_lower (trim (str_of raw)) in if s = ''circuit_open'' \<or> s = ''success'' then s else ''error'')"

definition normalizeSorobanRetryCause :: "jsval \<Rightarrow> string" where
  "normalizeSorobanRetryCause raw =
     (let s = to_lower (trim (str_of raw)) in if s \<in> set SOROBAN_RETRY_CAUSE_ENUM then s else ''unknown'')"

section \<open>The metrics endpoint\<close>

text \<open>The loop keeps the disjunction of the differences; characters are code units.\<close>

definition safeEqual :: "string \<Rightarrow> string \<Rightarrow> bool" where
  "safeEqual a b \<longleftrightarrow> length a = length b \<and> foldl (\<lambda>acc i. acc \<or> a ! i \<noteq> b ! i) False [0..<length a] = False"

definition LOOPBACK :: "string list" where
  "LOOPBACK = [''127.0.0.1'', ''::1'', ''::ffff:127.0.0.1'']"

definition extractClientIp :: "string \<Rightarrow> string \<Rightarrow> string" where
  "extractClientIp remoteAddress ip = (if remoteAddress \<noteq> [] then remoteAddress else ip)"

definition metricsAuth :: "string \<Rightarrow> string \<Rightarrow> string \<Rightarrow> request \<Rightarrow> handled" where
  "metricsAuth token remoteAddress ip req =
     (if token \<noteq> []
      then (if safeEqual (str_of (col ''authorization'' (rq_headers req))) (''Bearer '' @ token) \<or>
               safeEqual (str_of (col ''Authorization'' (rq_headers req))) (''Bearer '' @ token)
            then Next req else Respond 401 ''Unauthorized'')
      else if extractClientIp remoteAddress ip \<in> set LOOPBACK then Next req else Respond 401 ''Unauthorized'')"

section \<open>Maturity reminders\<close>

definition getMaxAttempts :: "jsval \<Rightarrow> int" where
  "getMaxAttempts raw =
     (case to_number raw of NFin q \<Rightarrow> max 1 (min (if 0 \<le> q then \<lfloor>q\<rfloor> else \<lceil>q\<rceil>) 10) | _ \<Rightarrow> 3)"

record dead_letter =
  dl_jobId :: string
  dl_invoiceId :: jsval
  dl_jobType :: string
  dl_reason :: string
  dl_attempts :: nat
  dl_targetDate :: jsval

definition persistReminderDeadLetter :: "(row \<Rightarrow> bool) \<Rightarrow> (jsval \<Rightarrow> string) \<Rightarrow> time \<Rightarrow> dead_letter \<Rightarrow> table \<Rightarrow> (string + unit) \<times> table" where
  "persistReminderDeadLetter ok stringify now d t =
     (let r = [(''job_id'', JStr (dl_jobId d)), (''invoice_id'', dl_invoiceId d), (''reason'', JStr (dl_reason d)),
            (''attempts'', JInt (int (dl_attempts d))),
            (''payload_metadata'', JStr (stringify (JObj [(''jobType'', JStr (dl_jobType d)), (''targetDate'', dl_targetDate d)]))),
            (''created_at'', JInt now)]
      in if ok r then (Inr (), t @ [r]) else (Inl ''database'', t))"

definition MAX_LIST_LIMIT :: int where "MAX_LIST_LIMIT = 200"

definition list_limit :: "jsval \<Rightarrow> int" where
  "list_limit v =
     (case to_number v of NFin q \<Rightarrow> max 1 (min (if 0 \<le> q then \<lfloor>q\<rfloor> else \<lceil>q\<rceil>) MAX_LIST_LIMIT) | _ \<Rightarrow> 50)"

definition listReminderDeadLetters :: "jsval \<Rightarrow> table \<Rightarrow> row list" where
  "listReminderDeadLetters options t =
     map (filter (\<lambda>(c, _). c \<in> {''id'', ''job_id'', ''invoice_id'', ''reason'', ''attempts'', ''payload_metadata'', ''created_at''})) (take (nat (list_limit (js_get options ''limit'')))
       (order_desc ''created_at'' (filter (\<lambda>r. \<not> truthy (js_get options ''reason'') \<or> col_eq ''reason'' (js_get options ''reason'') r) t)))"

text \<open>The handler. \<open>reasonOf\<close> is what the import of \<open>normalizeReminderReason\<close> binds: None, since the metrics
  module does not export it, and then calling it raises inside the catch block. The entry of the invoice
  is forgotten in any case.\<close>

definition maturityReminderHandler ::
  "(smtp_error option \<Rightarrow> string) option \<Rightarrow> (row \<Rightarrow> bool) \<Rightarrow> (jsval \<Rightarrow> string) \<Rightarrow> time \<Rightarrow> jsval \<Rightarrow> (nat \<Rightarrow> rat) \<Rightarrow>
   (nat \<Rightarrow> smtp_error option + unit) \<Rightarrow> job \<Rightarrow> table \<Rightarrow> (string, string) amap \<Rightarrow> (string + unit) \<times> table \<times> (string, string) amap" where
  "maturityReminderHandler reasonOf ok stringify now maxRaw rnd sendMail j letters invoiceJobs =
     (let invoiceId = js_get (payload j) ''invoiceId'';
          run = sendMailWithRetry rnd sendMail (Some (getMaxAttempts maxRaw)) None;
          jobs' = AList.delete (str_of invoiceId) invoiceJobs
      in case Retry.result run of
           Inr _ \<Rightarrow> (Inr (), letters, jobs')
         | Inl err \<Rightarrow>
             (case reasonOf of
                None \<Rightarrow> (Inl ''normalizeReminderReason is not a function'', letters, jobs')
              | Some f \<Rightarrow>
                  (Inr (), snd (persistReminderDeadLetter ok stringify now
                     \<lparr>dl_jobId = job_id j, dl_invoiceId = invoiceId, dl_jobType = normalizeJobType (JStr (job_type j)), dl_reason = f err,
                      dl_attempts = Retry.calls run, dl_targetDate = js_get (payload j) ''targetDate''\<rparr> letters), jobs')))"

type_synonym reminders = "job_queue \<times> (string, string) amap"

definition cancelReminder :: "string \<Rightarrow> reminders \<Rightarrow> bool \<times> reminders" where
  "cancelReminder invoiceId s =
     (case map_of (snd s) invoiceId of
        None \<Rightarrow> (False, s)
      | Some jobId \<Rightarrow>
          if jobId = [] then (False, s)
          else (case cancel (fst s) jobId of (cancelled, q) \<Rightarrow> (cancelled, (q, AList.delete invoiceId (snd s)))))"

definition scheduleReminder ::
  "jsval \<Rightarrow> string \<Rightarrow> time \<Rightarrow> string \<Rightarrow> jsval \<Rightarrow> string \<Rightarrow> time \<Rightarrow> reminders \<Rightarrow> queue_error + (string \<times> reminders)" where
  "scheduleReminder invoice invoiceId target targetIso email hex now s =
     (let pl = JObj [(''invoiceId'', JStr invoiceId), (''customer'', js_get invoice ''customer''), (''amount'', js_get invoice ''amount''),
            (''email'', email), (''targetDate'', JStr targetIso)]
      in case enqueue (fst s) (JStr ''maturity_reminder'') (Inr pl) \<lparr>opt_priority = None, opt_delayMs = Some (max (target - now) 0)\<rparr> hex now of
           Inl e \<Rightarrow> Inl e
         | Inr (jobId, q) \<Rightarrow>
             let s1 = (q, snd s);
                 s2 = (if amap_has (snd s) invoiceId then snd (cancelReminder invoiceId s1) else s1)
             in Inr (jobId, (fst s2, AList.update invoiceId jobId (snd s2))))"

section \<open>The purge is exact\<close>

lemma purge_settings:
  "1 \<le> getBatchSize raw \<and> getBatchSize raw \<le> 10000" "1 \<le> getMaxBatches raw \<and> getMaxBatches raw \<le> 1000" "60000 \<le> getIntervalMs raw"
  by (auto simp: getBatchSize_def getMaxBatches_def getIntervalMs_def DEFAULT_BATCH_SIZE_def DEFAULT_MAX_BATCHES_def
      DEFAULT_INTERVAL_MS_def split: option.splits)

lemma set_expired_keys: "set (expired_keys now t) = {r \<in> set t. before ''expires_at'' now r}"
  by (auto simp: expired_keys_def)

lemma batch_rows:
  assumes "distinct (map (col ''id'') t)" "V \<subseteq> set t"
  shows "filter (\<lambda>r. col ''id'' r \<notin> col ''id'' ` V) t = filter (\<lambda>r. r \<notin> V) t"
  using unique_row[OF assms(1)] assms(2) by (intro filter_cong refl) blast

lemma distinct_rows: "distinct (map f t) \<Longrightarrow> distinct t"
  by (simp add: distinct_map)

lemma filter_not_take: "distinct xs \<Longrightarrow> filter (\<lambda>x. x \<notin> set (take n xs)) xs = drop n xs"
proof -
  assume d: "distinct xs"
  have "filter (\<lambda>x. x \<notin> set (take n xs)) (take n xs @ drop n xs) = drop n xs"
    using set_take_disj_set_drop_if_distinct[OF d le_refl, of n] by (auto simp del: append_take_drop_id intro!: filter_True)
  then show ?thesis by simp
qed

lemma delete_batch:
  assumes "distinct (map (col ''id'') t)" "deleteExpiredBatch now n t = (k, t')"
  shows "k = min n (length (expired_keys now t))" "expired_keys now t' = drop n (expired_keys now t)"
    "filter (\<lambda>r. \<not> before ''expires_at'' now r) t' = filter (\<lambda>r. \<not> before ''expires_at'' now r) t"
    "distinct (map (col ''id'') t')" "set t' \<subseteq> set t"
proof -
  let ?S = "expired_keys now t"
  let ?V = "set (take n ?S)"
  have V: "?V \<subseteq> set t" using set_expired_keys set_take_subset by fastforce
  have V_before: "before ''expires_at'' now r" if "r \<in> ?V" for r
    using that in_set_takeD[of r n ?S] by (simp add: set_expired_keys)
  have t': "t' = filter (\<lambda>r. r \<notin> ?V) t"
    using assms batch_rows[OF assms(1) V] by (simp add: deleteExpiredBatch_def Let_def)
  have dS: "distinct ?S" using distinct_rows[OF assms(1)] by (simp add: expired_keys_def)
  have "k = length t - length t'"
    using assms(2) sum_length_filter_compl[of "\<lambda>r. col ''id'' r \<in> col ''id'' ` ?V" t]
    by (auto simp: deleteExpiredBatch_def Let_def)
  moreover have "length t' = length t - length (filter (\<lambda>r. r \<in> ?V) t)"
    using sum_length_filter_compl[of "\<lambda>r. r \<in> ?V" t] unfolding t' by simp
  moreover have "length (filter (\<lambda>r. r \<in> ?V) t) = card ?V"
    unfolding distinct_length_filter[OF distinct_rows[OF assms(1)]] using V by (simp add: Int_absorb2 Int_def[symmetric] inf.absorb1)
  moreover have "card ?V = min n (length ?S)" using dS by (simp add: distinct_card)
  moreover have "card ?V \<le> length t" by (metis V card_length card_mono finite_set le_trans)
  ultimately show "k = min n (length ?S)" by simp
  have "expired_keys now t' = filter (\<lambda>r. r \<notin> ?V) ?S"
    unfolding t' expired_keys_def by (simp add: filter_sort conj_commute)
  then show "expired_keys now t' = drop n ?S" using filter_not_take[OF dS] by simp
  have "filter (\<lambda>r. \<not> before ''expires_at'' now r) (filter (\<lambda>r. r \<notin> ?V) t) = filter (\<lambda>r. \<not> before ''expires_at'' now r) t"
    unfolding filter_filter using V_before by (intro filter_cong refl) auto
  then show "filter (\<lambda>r. \<not> before ''expires_at'' now r) t' = filter (\<lambda>r. \<not> before ''expires_at'' now r) t" unfolding t' .
  show "distinct (map (col ''id'') t')" "set t' \<subseteq> set t" unfolding t' using assms(1) by (auto simp: distinct_map_filter)
qed

definition quiet :: "time \<Rightarrow> purge_env" where
  "quiet now = \<lparr>pe_clock = (\<lambda>_. now), pe_others = (\<lambda>_ t. t), pe_fails = (\<lambda>_. False)\<rparr>"

lemma purge_loop_exact:
  assumes "0 < n" "distinct (map (col ''id'') t)"
  shows "\<exists>b. purge_loop m (quiet now) n i k t = (Inr (k + min (m * n) (length (expired_keys now t)), b),
       snd (purge_loop m (quiet now) n i k t)) \<and> b \<le> i + m \<and>
     expired_keys now (snd (purge_loop m (quiet now) n i k t)) = drop (m * n) (expired_keys now t) \<and>
     filter (\<lambda>r. \<not> before ''expires_at'' now r) (snd (purge_loop m (quiet now) n i k t)) = filter (\<lambda>r. \<not> before ''expires_at'' now r) t"
  using assms(2)
proof (induction m arbitrary: i k t)
  case (Suc m)
  obtain d t2 where del: "deleteExpiredBatch now n t = (d, t2)" by fastforce
  note b = delete_batch[OF Suc.prems del]
  show ?case
  proof (cases "d = 0 \<or> d < n")
    case True
    then have "length (expired_keys now t) < n \<or> length (expired_keys now t) = 0" using b(1) assms(1) by auto
    then have "length (expired_keys now t) \<le> n" using assms(1) by linarith
    then have l: "length (expired_keys now t) \<le> Suc m * n" by simp
    then show ?thesis using True del b assms(1) by (auto simp: quiet_def)
  next
    case False
    then have dn: "d = n" using b(1) by (auto simp: min_def split: if_splits)
    then have ge: "n \<le> length (expired_keys now t)" using b(1) by simp
    have step: "purge_loop (Suc m) (quiet now) n i k t = purge_loop m (quiet now) n (Suc i) (k + n) t2"
      using False del dn by (simp add: quiet_def)
    obtain bb where "purge_loop m (quiet now) n (Suc i) (k + n) t2 =
        (Inr (k + n + min (m * n) (length (expired_keys now t2)), bb), snd (purge_loop m (quiet now) n (Suc i) (k + n) t2))"
        "bb \<le> Suc i + m"
        "expired_keys now (snd (purge_loop m (quiet now) n (Suc i) (k + n) t2)) = drop (m * n) (expired_keys now t2)"
        "filter (\<lambda>r. \<not> before ''expires_at'' now r) (snd (purge_loop m (quiet now) n (Suc i) (k + n) t2)) =
          filter (\<lambda>r. \<not> before ''expires_at'' now r) t2"
      using Suc.IH[OF b(4)] by blast
    moreover have "k + n + min (m * n) (length (expired_keys now t) - n) = k + min (n + m * n) (length (expired_keys now t))"
      using ge by simp
    ultimately show ?thesis unfolding step using b(2,3) by (auto simp: add.commute)
  qed
qed (simp add: quiet_def)

text \<open>With unique ids and no other writer, the purge deletes the expired keys in the order of
  their expiry up to the configured number of batches times the batch size, reports the number it
  deleted, and leaves the keys that have not expired as they are, in their order.\<close>

theorem purge_exact:
  assumes "distinct (map (col ''id'') t)"
  shows "\<exists>s t'. purgeExpiredKeys rawSize rawMax (quiet now) t = (Inr s, t') \<and>
    ps_totalDeleted s = min (nat (getMaxBatches rawMax) * nat (getBatchSize rawSize)) (length (expired_keys now t)) \<and>
    int (ps_batchCount s) \<le> getMaxBatches rawMax \<and>
    expired_keys now t' = drop (nat (getMaxBatches rawMax) * nat (getBatchSize rawSize)) (expired_keys now t) \<and>
    filter (\<lambda>r. \<not> before ''expires_at'' now r) t' = filter (\<lambda>r. \<not> before ''expires_at'' now r) t"
proof -
  have "0 < nat (getBatchSize rawSize)" using purge_settings(1)[of rawSize] by simp
  from purge_loop_exact[OF this assms, of "nat (getMaxBatches rawMax)" now 0 0]
  obtain b t' where "purge_loop (nat (getMaxBatches rawMax)) (quiet now) (nat (getBatchSize rawSize)) 0 0 t =
      (Inr (min (nat (getMaxBatches rawMax) * nat (getBatchSize rawSize)) (length (expired_keys now t)), b), t')"
      "b \<le> nat (getMaxBatches rawMax)"
      "expired_keys now t' = drop (nat (getMaxBatches rawMax) * nat (getBatchSize rawSize)) (expired_keys now t)"
      "filter (\<lambda>r. \<not> before ''expires_at'' now r) t' = filter (\<lambda>r. \<not> before ''expires_at'' now r) t"
    by (metis add_0 snd_conv)
  then show ?thesis using purge_settings(2)[of rawMax] by (simp add: purgeExpiredKeys_def Let_def le_nat_iff)
qed

definition sample_keys :: table where
  "sample_keys = [[(''id'', JInt 1), (''expires_at'', JInt 5)], [(''id'', JInt 2), (''expires_at'', JInt 50)],
     [(''id'', JInt 3), (''expires_at'', JInt 3)]]"

theorem purge_exact_witness:
  "\<exists>s t'. purgeExpiredKeys ''1'' ''1'' (quiet 10) sample_keys = (Inr s, t') \<and>
    ps_totalDeleted s = min (nat (getMaxBatches ''1'') * nat (getBatchSize ''1'')) (length (expired_keys 10 sample_keys)) \<and>
    filter (\<lambda>r. \<not> before ''expires_at'' 10 r) t' = filter (\<lambda>r. \<not> before ''expires_at'' 10 r) sample_keys"
proof -
  have "distinct (map (col ''id'') sample_keys)" by (simp add: sample_keys_def col_def)
  from purge_exact[OF this] show ?thesis by blast
qed

text \<open>Whatever other requests write and whichever statement fails, a key that has not expired at any
  time of the run and that nobody else deletes is still there.\<close>

lemma purge_loop_spares:
  assumes "r \<in> set t" "distinct (map (col ''id'') t)" "\<And>i. \<not> before ''expires_at'' (pe_clock e i) r"
    and others: "\<And>i u. r \<in> set u \<Longrightarrow> distinct (map (col ''id'') u) \<Longrightarrow>
        r \<in> set (pe_others e i u) \<and> distinct (map (col ''id'') (pe_others e i u))"
  shows "r \<in> set (snd (purge_loop m e n i k t))"
  using assms(1,2)
proof (induction m arbitrary: i k t)
  case (Suc m)
  let ?u = "pe_others e i t"
  obtain d t2 where del: "deleteExpiredBatch (pe_clock e i) n ?u = (d, t2)" by fastforce
  have u: "r \<in> set ?u" "distinct (map (col ''id'') ?u)" using others Suc.prems by auto
  note b = delete_batch[OF u(2) del]
  have "r \<in> set (filter (\<lambda>r. \<not> before ''expires_at'' (pe_clock e i) r) t2)"
    unfolding b(3) using u assms(3) by simp
  then have "r \<in> set t2" by simp
  then show ?case using u del Suc.IH[OF \<open>r \<in> set t2\<close> b(4)] by (simp add: Let_def)
qed simp

lemma purge_spares_valid:
  assumes "r \<in> set t" "distinct (map (col ''id'') t)" "\<And>i. \<not> before ''expires_at'' (pe_clock e i) r"
    and "\<And>i u. r \<in> set u \<Longrightarrow> distinct (map (col ''id'') u) \<Longrightarrow>
        r \<in> set (pe_others e i u) \<and> distinct (map (col ''id'') (pe_others e i u))"
  shows "r \<in> set (snd (purgeExpiredKeys rawSize rawMax e t))"
  using purge_loop_spares[OF assms, of "nat (getMaxBatches rawMax)" "nat (getBatchSize rawSize)" 0 0]
  by (auto simp: purgeExpiredKeys_def Let_def split: prod.splits sum.splits)

text \<open>A failing statement rejects the run; the batches before it stay deleted.\<close>

lemma purge_failure: "pe_fails e 0 \<Longrightarrow> fst (purgeExpiredKeys rawSize rawMax e t) = Inl ''database''"
proof -
  assume "pe_fails e 0"
  moreover obtain m where "nat (getMaxBatches rawMax) = Suc m"
    using purge_settings(2)[of rawMax] by (metis gr0_implies_Suc int_one_le_iff_zero_less nat_0_iff not_gr_zero zero_less_nat_eq)
  ultimately show ?thesis by (simp add: purgeExpiredKeys_def Let_def)
qed

section \<open>The metrics endpoint and its labels\<close>

lemma foldl_or: "foldl (\<lambda>acc i. acc \<or> P i) b xs \<longleftrightarrow> b \<or> (\<exists>i \<in> set xs. P i)"
  by (induction xs arbitrary: b) auto

lemma safeEqual_iff: "safeEqual a b \<longleftrightarrow> a = b"
  unfolding safeEqual_def foldl_or list_eq_iff_nth_eq[of a b] by (simp add: Ball_def)

text \<open>The metrics are served only to the holder of the token, or to a loopback peer when no token
  is set: the comparison that does not stop at the first difference is equality of strings.\<close>

theorem metrics_authorised:
  "(metricsAuth token remoteAddress ip req = Next req \<longleftrightarrow>
      (if token = [] then (if remoteAddress = [] then ip else remoteAddress) \<in> {''127.0.0.1'', ''::1'', ''::ffff:127.0.0.1''}
       else \<exists>h \<in> {''authorization'', ''Authorization''}. str_of (col h (rq_headers req)) = ''Bearer '' @ token)) \<and>
   (metricsAuth token remoteAddress ip req = Next req \<or> metricsAuth token remoteAddress ip req = Respond 401 ''Unauthorized'')"
proof (cases "token = []")
  case True
  then show ?thesis
    by (cases "remoteAddress = []"; cases "extractClientIp remoteAddress ip \<in> set LOOPBACK")
      (simp_all add: metricsAuth_def extractClientIp_def LOOPBACK_def)
next
  case False
  then show ?thesis by (simp add: metricsAuth_def safeEqual_iff)
qed

text \<open>The labels of the counters come from fixed lists whatever the caller passes, so the number of
  time series stays bounded.\<close>

lemma method_alias_known: "map_of methodAliases k = Some m \<Longrightarrow> m \<in> set SOROBAN_RPC_METHOD_ENUM"
  by (auto simp: methodAliases_def SOROBAN_RPC_METHOD_ENUM_def split: if_splits)

lemma labels_bounded:
  "normalizeJobType raw \<in> set JOB_TYPE_ENUM"
  "normalizeSorobanRpcMethod raw \<in> set SOROBAN_RPC_METHOD_ENUM"
  "normalizeSorobanRpcOutcome raw \<in> {''circuit_open'', ''success'', ''error''}"
  "normalizeSorobanRetryCause raw \<in> set SOROBAN_RETRY_CAUSE_ENUM"
  by (auto simp: normalizeJobType_def JOB_TYPE_ENUM_def normalizeSorobanRpcMethod_def SOROBAN_RPC_METHOD_ENUM_def Let_def
      normalizeSorobanRpcOutcome_def normalizeSorobanRetryCause_def SOROBAN_RETRY_CAUSE_ENUM_def)

text \<open>The purge job is reported as \<open>unknown\<close>.\<close>

lemma purge_label: "normalizeJobType (JStr ''idempotency_purge'') = ''unknown''"
  by (simp add: normalizeJobType_def JOB_TYPE_ENUM_def str_of_def)

section \<open>Reminders\<close>

lemma max_attempts_range: "1 \<le> getMaxAttempts raw \<and> getMaxAttempts raw \<le> 10"
  by (simp add: getMaxAttempts_def split: jsnum.splits)

lemma list_limit_range: "1 \<le> list_limit v \<and> list_limit v \<le> 200"
  by (simp add: list_limit_def MAX_LIST_LIMIT_def split: jsnum.splits)

lemma listing_bounded: "length (listReminderDeadLetters options t) \<le> 200"
  using list_limit_range[of "js_get options ''limit''"]
  by (simp add: listReminderDeadLetters_def min.coboundedI2 nat_le_iff)

text \<open>The first attempt that succeeds, fails for good or is the last one decides.\<close>

lemma sendMail_decided:
  assumes "1 \<le> m" "m \<le> 10" "int i < m" "\<And>j. j < i \<Longrightarrow> \<exists>e. sendMail j = Inl e \<and> \<not> isPermanentSmtpError e"
    "int i = m - 1 \<or> \<not> (\<exists>e. sendMail i = Inl e \<and> \<not> isPermanentSmtpError e)"
  shows "Retry.calls (sendMailWithRetry rnd sendMail (Some m) None) = i + 1 \<and>
    Retry.result (sendMailWithRetry rnd sendMail (Some m) None) = sendMail i"
proof -
  let ?r = "sendMailWithRetry rnd sendMail (Some m) None"
  let ?sr = "\<lambda>e. \<not> isPermanentSmtpError e"
  have cap: "nat (capped (m - 1) 10) = nat (m - 1)" using assms(2) by (simp add: capped_def min_def)
  have o: "1 \<le> Retry.calls ?r" "Retry.calls ?r \<le> nat (m - 1) + 1" "Retry.result ?r = sendMail (Retry.calls ?r - 1)"
      "\<And>j. j < Retry.calls ?r - 1 \<Longrightarrow> \<exists>e. sendMail j = Inl e \<and> ?sr e"
      "\<And>e. Retry.result ?r = Inl e \<Longrightarrow> Retry.calls ?r = nat (m - 1) + 1 \<or> \<not> ?sr e"
    using withRetry_outcome[OF sendMailWithRetry_def refl refl, of rnd sendMail "Some m" None]
    by (auto simp: opt_default_def cap)
  have "\<not> i < Retry.calls ?r - 1" using o(2,4) assms(5) by fastforce
  moreover have "\<not> Retry.calls ?r - 1 < i"
  proof
    assume lt: "Retry.calls ?r - 1 < i"
    from assms(4)[OF lt] obtain e where "sendMail (Retry.calls ?r - 1) = Inl e" "?sr e" by blast
    with o(3,5) have "Retry.calls ?r = nat (m - 1) + 1" by auto
    with lt assms(3) show False by linarith
  qed
  ultimately have "Retry.calls ?r = i + 1" using o(1) by linarith
  then show ?thesis using o(3) by simp
qed

text \<open>A delivery is tried at most ten times. The first attempt that succeeds ends it without a dead
  letter. When it fails for good or on the last attempt the handler, as it is linked, rejects and
  records nothing; if the metrics module exported \<open>normalizeReminderReason\<close> it would resolve with
  exactly one dead letter that carries the reason and the number of attempts.\<close>

theorem reminder_outcome:
  assumes "int i < getMaxAttempts maxRaw" "\<And>j. j < i \<Longrightarrow> \<exists>e. sendMail j = Inl e \<and> \<not> isPermanentSmtpError e"
    "int i = getMaxAttempts maxRaw - 1 \<or> \<not> (\<exists>e. sendMail i = Inl e \<and> \<not> isPermanentSmtpError e)"
    "AList.delete (str_of (js_get (payload j) ''invoiceId'')) invoiceJobs = m"
  shows "i < 10 \<and>
    (sendMail i = Inr () \<longrightarrow>
       maturityReminderHandler reasonOf ok stringify now maxRaw rnd sendMail j letters invoiceJobs = (Inr (), letters, m)) \<and>
    (\<forall>e. sendMail i = Inl e \<longrightarrow>
       maturityReminderHandler None ok stringify now maxRaw rnd sendMail j letters invoiceJobs =
         (Inl ''normalizeReminderReason is not a function'', letters, m) \<and>
       (\<forall>f. (\<forall>r. ok r) \<longrightarrow> (\<exists>r. maturityReminderHandler (Some f) ok stringify now maxRaw rnd sendMail j letters invoiceJobs =
            (Inr (), letters @ [r], m) \<and>
          col ''reason'' r = JStr (f e) \<and> col ''attempts'' r = JInt (int (i + 1)) \<and> col ''job_id'' r = JStr (job_id j))))"
proof -
  note run = sendMail_decided[where sendMail = sendMail and i = i and rnd = rnd, OF max_attempts_range[THEN conjunct1] max_attempts_range[THEN conjunct2]
      assms(1-3), THEN conjunct1] sendMail_decided[where sendMail = sendMail and i = i and rnd = rnd, OF max_attempts_range[THEN conjunct1] max_attempts_range[THEN conjunct2]
      assms(1-3), THEN conjunct2]
  have "i < 10" using assms(1) max_attempts_range[of maxRaw] by linarith
  then show ?thesis
    using assms(4) by (simp add: maturityReminderHandler_def run persistReminderDeadLetter_def Let_def col_def)
qed

lemma attempts_default: "getMaxAttempts JUndef = 3"
  by (simp add: getMaxAttempts_def)

definition sample_reminder :: job where
  "sample_reminder = \<lparr>job_id = ''job-1'', job_type = ''maturity_reminder'', payload = JObj [(''invoiceId'', JStr ''inv'')],
     status = PROCESSING, priority = 0, delayMs = 0, createdAt = 0, startedAt = None, completedAt = None, attempts = 1, lastError = None\<rparr>"

theorem reminder_outcome_witness:
  "maturityReminderHandler None (\<lambda>_. True) (\<lambda>_. []) 0 JUndef (\<lambda>_. 0) (\<lambda>_. Inl None) sample_reminder [] [] =
     (Inl ''normalizeReminderReason is not a function'', [], [])"
proof -
  have "int 2 < getMaxAttempts JUndef" "int 2 = getMaxAttempts JUndef - 1" by (simp_all add: attempts_default)
  moreover have "\<exists>e. (\<lambda>_ :: nat. Inl None :: smtp_error option + unit) k = Inl e \<and> \<not> isPermanentSmtpError e" for k :: nat
    by (simp add: isPermanentSmtpError_def)
  moreover have "AList.delete (str_of (js_get (payload sample_reminder) ''invoiceId'')) [] = ([] :: (string, string) amap)" by simp
  ultimately show ?thesis
    using reminder_outcome[where i = 2 and maxRaw = JUndef and sendMail = "\<lambda>_. Inl None" and j = sample_reminder and invoiceJobs = "[]"
        and m = "[]"] by simp
qed

section \<open>One pending reminder for each invoice\<close>

definition reminder_of :: "string \<Rightarrow> job \<Rightarrow> bool" where
  "reminder_of invoiceId j \<longleftrightarrow> job_type j = ''maturity_reminder'' \<and> status j = PENDING \<and> str_of (js_get (payload j) ''invoiceId'') = invoiceId"

definition tracked :: "reminders \<Rightarrow> bool" where
  "tracked s \<longleftrightarrow> (\<forall>i. map_of (snd s) i \<noteq> Some []) \<and>
     (\<forall>i k j. map_of (jobs (fst s)) k = Some j \<longrightarrow> reminder_of i j \<longrightarrow> map_of (snd s) i = Some k)"

lemma tracked_unique:
  "tracked s \<Longrightarrow> map_of (jobs (fst s)) k = Some j \<Longrightarrow> map_of (jobs (fst s)) k' = Some j' \<Longrightarrow> reminder_of i j \<Longrightarrow> reminder_of i j' \<Longrightarrow> k = k'"
  by (metis option.inject tracked_def)

lemma cancelReminder_tracked: "tracked s \<Longrightarrow> tracked (snd (cancelReminder i s))"
  unfolding tracked_def cancelReminder_def cancel_def
  by (auto simp: delete_conv split: option.splits prod.splits if_splits)

lemma cancelReminder_gone:
  "tracked s \<Longrightarrow> map_of (jobs (fst (snd (cancelReminder i s)))) k = Some j \<Longrightarrow> \<not> reminder_of i j"
  unfolding tracked_def cancelReminder_def cancel_def
  by (auto simp: delete_conv split: option.splits prod.splits if_splits)

lemma enqueue_jobs:
  assumes "enqueue q (JStr t) (Inr p) opts hex now = Inr (k, q')"
  shows "k = ''job-'' @ hex \<and> (\<exists>j. jobs q' = AList.update k j (jobs q) \<and> job_type j = t \<and> payload j = p \<and> status j = PENDING \<and>
    delayMs j = num_or (opt_delayMs opts) 0)"
  using assms by (auto simp: enqueue_def persist_def Let_def split: if_splits)

text \<open>What scheduling does to the jobs and to the table.\<close>

lemma scheduleReminder_maps:
  assumes "tracked s" "map_of (snd s) invoiceId \<noteq> Some (''job-'' @ hex)"
    "scheduleReminder invoice invoiceId target targetIso email hex now s = Inr (jobId, s')"
  shows "\<exists>nj. reminder_of invoiceId nj \<and> jobId = ''job-'' @ hex \<and> delayMs nj = max (target - now) 0 \<and>
    (\<forall>k. map_of (jobs (fst s')) k =
       (if k = jobId then Some nj else if map_of (snd s) invoiceId = Some k then None else map_of (jobs (fst s)) k)) \<and>
    (\<forall>i. map_of (snd s') i = (if i = invoiceId then Some jobId else map_of (snd s) i))"
proof -
  obtain q where enq: "enqueue (fst s) (JStr ''maturity_reminder'')
      (Inr (JObj [(''invoiceId'', JStr invoiceId), (''customer'', js_get invoice ''customer''), (''amount'', js_get invoice ''amount''),
            (''email'', email), (''targetDate'', JStr targetIso)]))
      \<lparr>opt_priority = None, opt_delayMs = Some (max (target - now) 0)\<rparr> hex now = Inr (jobId, q)"
    and s': "s' = (let s2 = if amap_has (snd s) invoiceId then snd (cancelReminder invoiceId (q, snd s)) else (q, snd s)
       in (fst s2, AList.update invoiceId jobId (snd s2)))"
    using assms(3) by (auto simp: scheduleReminder_def Let_def split: sum.splits prod.splits)
  obtain nj where q: "jobs q = AList.update jobId nj (jobs (fst s))" "reminder_of invoiceId nj" "jobId = ''job-'' @ hex"
      "delayMs nj = max (target - now) 0"
    using enqueue_jobs[OF enq] by (auto simp: reminder_of_def str_of_def num_or_def)
  have "map_of (snd s) invoiceId \<noteq> Some []" using assms(1) by (simp add: tracked_def)
  then show ?thesis unfolding s' using q assms(2)
    by (intro exI[of _ nj])
      (auto simp: cancelReminder_def cancel_def amap_has_iff delete_conv update_conv Let_def split: option.splits if_splits)
qed

text \<open>The table of reminders keeps at most one pending reminder for each invoice: scheduling with a
  fresh job id withdraws the previous one, and the new job is the only pending reminder of the invoice;
  cancelling leaves none.\<close>

theorem single_reminder:
  assumes "tracked s" "map_of (jobs (fst s)) (''job-'' @ hex) = None" "\<And>i. map_of (snd s) i \<noteq> Some (''job-'' @ hex)"
    "scheduleReminder invoice invoiceId target targetIso email hex now s = Inr (jobId, s')"
  shows "tracked s' \<and> tracked (snd (cancelReminder invoiceId s)) \<and>
    (\<forall>k j. map_of (jobs (fst s')) k = Some j \<and> reminder_of invoiceId j \<longleftrightarrow> k = jobId \<and> map_of (jobs (fst s')) jobId = Some j) \<and>
    (\<forall>k j. map_of (jobs (fst (snd (cancelReminder invoiceId s)))) k = Some j \<longrightarrow> \<not> reminder_of invoiceId j)"
proof -
  have "map_of (snd s) invoiceId \<noteq> Some (''job-'' @ hex)" by (rule assms(3))
  from scheduleReminder_maps[OF assms(1) this assms(4)] obtain nj where nj: "reminder_of invoiceId nj"
    and J: "\<And>k. map_of (jobs (fst s')) k = (if k = jobId then Some nj else if map_of (snd s) invoiceId = Some k then None else map_of (jobs (fst s)) k)"
    and M: "\<And>i. map_of (snd s') i = (if i = invoiceId then Some jobId else map_of (snd s) i)" and id: "jobId = ''job-'' @ hex" by blast
  have only: "i = invoiceId" if "reminder_of i nj" for i using nj that by (simp add: reminder_of_def)
  have t: "map_of (snd s) i = Some k" "map_of (snd s) i \<noteq> Some []" if "map_of (jobs (fst s)) k = Some j" "reminder_of i j" for i k j
    using assms(1) that by (auto simp: tracked_def)
  have one: "k = jobId" if "map_of (jobs (fst s')) k = Some j" "reminder_of invoiceId j" for k j
    using that t(1)[OF _ that(2), of k] by (auto simp: J split: if_splits)
  have "tracked s'" unfolding tracked_def
  proof (intro conjI allI impI)
    show "map_of (snd s') i \<noteq> Some []" for i using assms(1) by (simp add: M id tracked_def)
    show "map_of (snd s') i = Some k" if "map_of (jobs (fst s')) k = Some j" "reminder_of i j" for i k j
    proof (cases "i = invoiceId")
      case True
      then show ?thesis using one[OF that(1)] that(2) by (simp add: M)
    next
      case False
      then have "k \<noteq> jobId" using that only[of i] J[of jobId] by auto
      then have "map_of (jobs (fst s)) k = Some j" using that(1) J[of k] by (simp split: if_splits)
      then show ?thesis using t(1)[OF _ that(2)] False M by simp
    qed
  qed
  moreover have "map_of (jobs (fst s')) jobId = Some nj" by (simp add: J)
  ultimately show ?thesis
    using one nj cancelReminder_tracked[OF assms(1)] cancelReminder_gone[OF assms(1)] by (metis option.inject)
qed

theorem single_reminder_witness:
  "\<exists>jobId s'. scheduleReminder JUndef ''inv'' 100 [] JUndef ''b'' 10 (new_JobQueue demo_opts, []) = Inr (jobId, s') \<and> tracked s'"
proof -
  have "tracked (new_JobQueue demo_opts, [])" "map_of (jobs (new_JobQueue demo_opts)) (''job-'' @ ''b'') = None"
    by (simp_all add: tracked_def new_JobQueue_def)
  moreover have "\<not> isl (scheduleReminder JUndef ''inv'' 100 [] JUndef ''b'' 10 (new_JobQueue demo_opts, []))" by code_simp
  then obtain jobId s' where "scheduleReminder JUndef ''inv'' 100 [] JUndef ''b'' 10 (new_JobQueue demo_opts, []) = Inr (jobId, s')"
    by (cases "scheduleReminder JUndef ''inv'' 100 [] JUndef ''b'' 10 (new_JobQueue demo_opts, [])") auto
  ultimately show ?thesis using single_reminder[of "(new_JobQueue demo_opts, [])" "''b''" JUndef "''inv''" 100 "[]" JUndef 10 jobId s']
    by simp
qed

text \<open>The delay is compared with the clock as if it were a point in time, so a reminder is ready at once
  whatever the due date, unless it lies further away than the clock is from its origin.\<close>

lemma reminder_ready_at_once:
  assumes "tracked s" "map_of (snd s) invoiceId \<noteq> Some (''job-'' @ hex)" "target \<le> 2 * now" "0 \<le> now"
    "scheduleReminder invoice invoiceId target targetIso email hex now s = Inr (jobId, s')"
  shows "\<exists>j. map_of (jobs (fst s')) jobId = Some j \<and> isReadyToProcess j now"
  using scheduleReminder_maps[OF assms(1,2,5)] assms(3,4) by (auto simp: isReadyToProcess_def reminder_of_def)

text \<open>The handler of an older reminder forgets the entry of the newer one, and the next call of
  \<open>scheduleReminder\<close> leaves both pending.\<close>

lemma newer_entry_forgotten:
  "maturityReminderHandler reasonOf ok stringify now JUndef rnd (\<lambda>_. Inr ()) sample_reminder [] [(''inv'', ''job-2'')] = (Inr (), [], [])"
  using sendMail_decided[of 3 0 "\<lambda>_. Inr ()" rnd]
  by (simp add: maturityReminderHandler_def sample_reminder_def attempts_default str_of_def Let_def)

end
