(* ===== verification/Worker.thy ===== *)
theory Worker
  imports JobQueue
begin

text \<open>
  The background worker of \<open>src/src/workers/worker.js\<close>.

  The worker calls the queue it was constructed with through \<open>dequeue\<close>, \<open>ack\<close>, \<open>retry\<close> and
  \<open>enqueue\<close>; the operations of the model take these methods as arguments. What the worker relies
  on is the locale \<open>work_source\<close>, interpreted on the job queue at the end of the theory. A job
  whose handler has been called and has not settled is an element of \<open>inflight\<close> (the pending
  promise of \<open>_processJob\<close>).
\<close>

section \<open>State\<close>

record ('q, 'h) worker =
  jobQueue :: 'q
  pollIntervalMs :: int
  maxConcurrency :: int
  handlers :: "(string, 'h) amap"
  isRunning :: bool
  processingCount :: int
  pollTimer :: bool
  inflight :: "job list"

datatype worker_error =
    BadJobType
  | HandlerNotFunction string
  | AlreadyRunning
  | NoHandlersRegistered
  | NoHandlerFor string "string list"
  | FromQueue queue_error

datatype handler_outcome = Resolved | Rejected string

section \<open>Operations\<close>

definition new_BackgroundWorker :: "'q \<Rightarrow> int option \<Rightarrow> int option \<Rightarrow> ('q, 'h) worker" where
  "new_BackgroundWorker q pollMs maxC =
     \<lparr>jobQueue = q,
      pollIntervalMs = max (case pollMs of None \<Rightarrow> 1000 | Some n \<Rightarrow> n) 10,
      maxConcurrency = max (case maxC of None \<Rightarrow> 2 | Some n \<Rightarrow> n) 1,
      handlers = [], isRunning = False, processingCount = 0, pollTimer = False, inflight = []\<rparr>"

text \<open>The handler argument is a function or, if not, what \<open>typeof\<close> says it is.\<close>

definition registerHandler ::
  "('q, 'h) worker \<Rightarrow> jsval \<Rightarrow> string + 'h \<Rightarrow> worker_error + ('q, 'h) worker" where
  "registerHandler w jobType handler =
     (case jobType of
        JStr t \<Rightarrow>
          if trim t = [] then Inl BadJobType
          else (case handler of
              Inl ty \<Rightarrow> Inl (HandlerNotFunction ty)
            | Inr h \<Rightarrow> Inr (w\<lparr>handlers := AList.update t h (handlers w)\<rparr>))
      | _ \<Rightarrow> Inl BadJobType)"

text \<open>The catch clause of \<open>_processJob\<close> (an error thrown by \<open>retry\<close> itself only rejects the
  promise) followed by its \<open>finally\<close>.\<close>

definition fail_job ::
  "('q \<Rightarrow> string \<Rightarrow> string \<Rightarrow> time \<Rightarrow> queue_error + 'q) \<Rightarrow> job \<Rightarrow> string \<Rightarrow> time \<Rightarrow>
   ('q, 'h) worker \<Rightarrow> ('q, 'h) worker" where
  "fail_job retr job err now w =
     (let w1 = (case retr (jobQueue w) (job_id job) err now of
                  Inl _ \<Rightarrow> w | Inr q' \<Rightarrow> w\<lparr>jobQueue := q'\<rparr>)
      in w1\<lparr>processingCount := processingCount w1 - 1\<rparr>)"

text \<open>\<open>_processJob\<close> up to the point where it awaits the handler, which runs within the
  \<open>while\<close> loop of \<open>_poll\<close>.\<close>

definition begin_job ::
  "('q \<Rightarrow> string \<Rightarrow> string \<Rightarrow> time \<Rightarrow> queue_error + 'q) \<Rightarrow> job \<Rightarrow> time \<Rightarrow>
   ('q, 'h) worker \<Rightarrow> ('q, 'h) worker" where
  "begin_job retr job now w =
     (if job_id job = [] \<or> job_type job = []
      then fail_job retr job ''Invalid job structure'' now w
      else (case map_of (handlers w) (job_type job) of
          None \<Rightarrow> fail_job retr job (''No handler for job type \"'' @ job_type job @ ''\"'') now w
        | Some h \<Rightarrow> w\<lparr>inflight := inflight w @ [job]\<rparr>))"

text \<open>The rest of \<open>_processJob\<close>, when the handler of the \<open>i\<close>-th pending job settles.\<close>

definition settle_job ::
  "('q \<Rightarrow> string \<Rightarrow> time \<Rightarrow> queue_error + 'q) \<Rightarrow>
   ('q \<Rightarrow> string \<Rightarrow> string \<Rightarrow> time \<Rightarrow> queue_error + 'q) \<Rightarrow> (queue_error \<Rightarrow> string) \<Rightarrow>
   nat \<Rightarrow> handler_outcome \<Rightarrow> time \<Rightarrow> ('q, 'h) worker \<Rightarrow> ('q, 'h) worker" where
  "settle_job ac retr msg i res now w =
     (let job = inflight w ! i;
          w0 = w\<lparr>inflight := take i (inflight w) @ drop (Suc i) (inflight w)\<rparr>
      in case res of
           Rejected err \<Rightarrow> fail_job retr job err now w0
         | Resolved \<Rightarrow>
             (case ac (jobQueue w0) (job_id job) now of
                Inl e \<Rightarrow> fail_job retr job (msg e) now w0
              | Inr q' \<Rightarrow> w0\<lparr>jobQueue := q', processingCount := processingCount w0 - 1\<rparr>))"

text \<open>The \<open>while\<close> loop of \<open>_poll\<close>: \<open>clk n\<close> is the clock during the \<open>n\<close>-th call of \<open>dequeue\<close> and
  \<open>tm n\<close> the time after it; a call that does not return is \<open>None\<close>.\<close>

partial_function (option) poll_loop ::
  "('c \<Rightarrow> 'q \<Rightarrow> (job option \<times> 'q) option) \<Rightarrow>
   ('q \<Rightarrow> string \<Rightarrow> string \<Rightarrow> time \<Rightarrow> queue_error + 'q) \<Rightarrow>
   (nat \<Rightarrow> 'c) \<Rightarrow> (nat \<Rightarrow> time) \<Rightarrow> nat \<Rightarrow> ('q, 'h) worker \<Rightarrow> ('q, 'h) worker option" where
  "poll_loop deq retr clk tm n w =
     (if processingCount w < maxConcurrency w
      then (case deq (clk n) (jobQueue w) of
              None \<Rightarrow> None
            | Some (None, q') \<Rightarrow> Some (w\<lparr>jobQueue := q'\<rparr>)
            | Some (Some job, q') \<Rightarrow>
                poll_loop deq retr clk tm (Suc n)
                  (begin_job retr job (tm n)
                    (w\<lparr>jobQueue := q', processingCount := processingCount w + 1\<rparr>)))
      else Some w)"

declare poll_loop.simps [code]

definition poll ::
  "('c \<Rightarrow> 'q \<Rightarrow> (job option \<times> 'q) option) \<Rightarrow>
   ('q \<Rightarrow> string \<Rightarrow> string \<Rightarrow> time \<Rightarrow> queue_error + 'q) \<Rightarrow>
   (nat \<Rightarrow> 'c) \<Rightarrow> (nat \<Rightarrow> time) \<Rightarrow> ('q, 'h) worker \<Rightarrow> ('q, 'h) worker option" where
  "poll deq retr clk tm w =
     (if \<not> isRunning w then Some w
      else map_option (\<lambda>w'. if isRunning w' then w'\<lparr>pollTimer := True\<rparr> else w')
             (poll_loop deq retr clk tm 0 w))"

text \<open>\<open>start\<close>: \<open>recover\<close> is \<open>restoreFromPersistence\<close> of the queue (a failed recovery leaves the
  queue as it is).\<close>

definition start ::
  "('q \<Rightarrow> 'q) \<Rightarrow> ('c \<Rightarrow> 'q \<Rightarrow> (job option \<times> 'q) option) \<Rightarrow>
   ('q \<Rightarrow> string \<Rightarrow> string \<Rightarrow> time \<Rightarrow> queue_error + 'q) \<Rightarrow>
   (nat \<Rightarrow> 'c) \<Rightarrow> (nat \<Rightarrow> time) \<Rightarrow> ('q, 'h) worker \<Rightarrow> worker_error + ('q, 'h) worker option" where
  "start recover deq retr clk tm w =
     (if isRunning w then Inl AlreadyRunning
      else if handlers w = [] then Inl NoHandlersRegistered
      else Inr (poll deq retr clk tm
             (w\<lparr>jobQueue := recover (jobQueue w), isRunning := True\<rparr>)))"

definition stop :: "('q, 'h) worker \<Rightarrow> ('q, 'h) worker" where
  "stop w = w\<lparr>isRunning := False, pollTimer := False\<rparr>"

text \<open>The wait of \<open>stop\<close>: \<open>cnt n\<close> and \<open>clk n\<close> are \<open>processingCount\<close> and the clock at the \<open>n\<close>-th
  test of the loop; the result says whether the warning about unfinished jobs is logged.\<close>

partial_function (option) stop_wait ::
  "(nat \<Rightarrow> int) \<Rightarrow> (nat \<Rightarrow> time) \<Rightarrow> time \<Rightarrow> int \<Rightarrow> nat \<Rightarrow> bool option" where
  "stop_wait cnt clk startTime timeoutMs n =
     (if cnt n > 0 \<and> clk n - startTime < timeoutMs
      then stop_wait cnt clk startTime timeoutMs (Suc n)
      else Some (cnt n > 0))"

declare stop_wait.simps [code]

definition worker_enqueue ::
  "(jsval \<Rightarrow> 'a \<Rightarrow> 'q \<Rightarrow> queue_error + (string \<times> 'q)) \<Rightarrow> string \<Rightarrow> 'a \<Rightarrow>
   ('q, 'h) worker \<Rightarrow> worker_error + (string \<times> ('q, 'h) worker)" where
  "worker_enqueue enq jobType arg w =
     (if \<not> amap_has (handlers w) jobType
      then Inl (NoHandlerFor jobType (amap_keys (handlers w)))
      else (case enq (JStr jobType) arg (jobQueue w) of
          Inl e \<Rightarrow> Inl (FromQueue e)
        | Inr (k, q') \<Rightarrow> Inr (k, w\<lparr>jobQueue := q'\<rparr>)))"

text \<open>\<open>buildJobContext\<close>: the keys of the payload that may be logged, primitives only.\<close>

definition context_keys :: "string list" where
  "context_keys = [''tenantId'', ''invoiceId'', ''correlationId'', ''performedBy'', ''policyId'',
     ''batchSize'']"

fun is_primitive :: "jsval \<Rightarrow> bool" where
  "is_primitive JNull = True"
| "is_primitive (JStr _) = True"
| "is_primitive (JNum _) = True"
| "is_primitive (JBool _) = True"
| "is_primitive _ = False"

fun obj_entries :: "jsval \<Rightarrow> (string \<times> jsval) list" where
  "obj_entries (JObj kvs) = kvs"
| "obj_entries _ = []"

definition buildJobContext :: "job \<Rightarrow> (string \<times> jsval) list" where
  "buildJobContext job =
     [(''jobId'', JStr (job_id job)), (''jobType'', JStr (job_type job)),
      (''attempt'', JInt (int (attempts job)))] @
     concat (map (\<lambda>k. case map_of (obj_entries (payload job)) k of
                        None \<Rightarrow> []
                      | Some v \<Rightarrow> if is_primitive v then [(k, v)] else []) context_keys)"

section \<open>Events\<close>

text \<open>What can happen to a worker: a poll (from \<open>start\<close> or the timer), a handler settling, a job
  being added to the queue, and \<open>stop\<close>.\<close>

inductive worker_step ::
  "('c \<Rightarrow> 'q \<Rightarrow> (job option \<times> 'q) option) \<Rightarrow> ('q \<Rightarrow> string \<Rightarrow> time \<Rightarrow> queue_error + 'q) \<Rightarrow>
   ('q \<Rightarrow> string \<Rightarrow> string \<Rightarrow> time \<Rightarrow> queue_error + 'q) \<Rightarrow> ('q \<Rightarrow> 'q \<Rightarrow> bool) \<Rightarrow> ('c \<Rightarrow> bool) \<Rightarrow>
   ('q, 'h) worker \<Rightarrow> ('q, 'h) worker \<Rightarrow> bool"
  for deq ac retr adds okclk where
  ev_start: "start id deq retr clk tm w = Inr (Some w') \<Longrightarrow> \<forall>n. okclk (clk n) \<Longrightarrow>
    worker_step deq ac retr adds okclk w w'"
| ev_poll: "poll deq retr clk tm w = Some w' \<Longrightarrow> \<forall>n. okclk (clk n) \<Longrightarrow>
    worker_step deq ac retr adds okclk w w'"
| ev_settle: "i < length (inflight w) \<Longrightarrow>
    worker_step deq ac retr adds okclk w (settle_job ac retr msg i res now w)"
| ev_add: "adds (jobQueue w) q' \<Longrightarrow> worker_step deq ac retr adds okclk w (w\<lparr>jobQueue := q'\<rparr>)"
| ev_register: "registerHandler w ty h = Inr w' \<Longrightarrow> worker_step deq ac retr adds okclk w w'"
| ev_stop: "worker_step deq ac retr adds okclk w (stop w)"

definition worker_inv :: "('q \<Rightarrow> bool) \<Rightarrow> ('q \<Rightarrow> string set) \<Rightarrow> ('q, 'h) worker \<Rightarrow> bool" where
  "worker_inv sound busy w \<longleftrightarrow> sound (jobQueue w) \<and>
     processingCount w = int (length (inflight w)) \<and> processingCount w \<le> maxConcurrency w \<and>
     distinct (map job_id (inflight w)) \<and> busy (jobQueue w) = job_id ` set (inflight w)"

section \<open>What the worker relies on\<close>

text \<open>
  The contract of a work source: \<open>busy q\<close> is the set of ids that have been handed out and not
  been settled. \<open>deq\<close> hands out an id that is not busy and makes it busy; settling a busy id by
  \<open>ac\<close> or \<open>retr\<close> succeeds and makes it free; adding work does not touch the busy ids.
\<close>

locale work_source =
  fixes deq :: "'c \<Rightarrow> 'q \<Rightarrow> (job option \<times> 'q) option"
    and ac :: "'q \<Rightarrow> string \<Rightarrow> time \<Rightarrow> queue_error + 'q"
    and retr :: "'q \<Rightarrow> string \<Rightarrow> string \<Rightarrow> time \<Rightarrow> queue_error + 'q"
    and adds :: "'q \<Rightarrow> 'q \<Rightarrow> bool"
    and okclk :: "'c \<Rightarrow> bool"
    and sound :: "'q \<Rightarrow> bool"
    and busy :: "'q \<Rightarrow> string set"
  assumes deq_sound: "sound q \<Longrightarrow> okclk c \<Longrightarrow> deq c q = Some (r, q') \<Longrightarrow> sound q'"
    and deq_none: "sound q \<Longrightarrow> okclk c \<Longrightarrow> deq c q = Some (None, q') \<Longrightarrow> busy q' = busy q"
    and deq_some: "sound q \<Longrightarrow> okclk c \<Longrightarrow> deq c q = Some (Some j, q') \<Longrightarrow>
      job_id j \<notin> busy q \<and> busy q' = insert (job_id j) (busy q)"
    and ac_ok: "sound q \<Longrightarrow> k \<in> busy q \<Longrightarrow>
      \<exists>q'. ac q k t = Inr q' \<and> sound q' \<and> busy q' = busy q - {k}"
    and retr_ok: "sound q \<Longrightarrow> k \<in> busy q \<Longrightarrow>
      \<exists>q'. retr q k e t = Inr q' \<and> sound q' \<and> busy q' = busy q - {k}"
    and adds_ok: "sound q \<Longrightarrow> adds q q' \<Longrightarrow> sound q' \<and> busy q' = busy q"
begin

abbreviation winv :: "('q, 'h) worker \<Rightarrow> bool" where
  "winv \<equiv> worker_inv sound busy"

lemma fail_job_inv:
  assumes "sound (jobQueue w)" "busy (jobQueue w) = insert (job_id j) (job_id ` set (inflight w))"
    "job_id j \<notin> job_id ` set (inflight w)" "distinct (map job_id (inflight w))"
    "processingCount w = int (length (inflight w)) + 1" "processingCount w \<le> maxConcurrency w"
  shows "winv (fail_job retr j e t w)"
proof -
  have "job_id j \<in> busy (jobQueue w)" using assms(2) by simp
  from retr_ok[OF assms(1) this] obtain q' where
    "retr (jobQueue w) (job_id j) e t = Inr q'" "sound q'" "busy q' = busy (jobQueue w) - {job_id j}"
    by blast
  with assms show ?thesis by (simp add: fail_job_def worker_inv_def)
qed

lemma begin_job_inv:
  assumes "sound (jobQueue w)" "busy (jobQueue w) = insert (job_id j) (job_id ` set (inflight w))"
    "job_id j \<notin> job_id ` set (inflight w)" "distinct (map job_id (inflight w))"
    "processingCount w = int (length (inflight w)) + 1" "processingCount w \<le> maxConcurrency w"
  shows "winv (begin_job retr j t w)"
  using assms
  by (auto simp: begin_job_def fail_job_inv worker_inv_def[where w = "inflight_update f w" for f w]
      split: option.splits)

lemma poll_loop_inv:
  fixes w w' :: "('q, 'h) worker"
  assumes "poll_loop deq retr clk tm n w = Some w'" "winv w" "\<forall>n. okclk (clk n)"
  shows "winv w'"
proof -
  define P where "P = (\<lambda>dq rt (clk :: nat \<Rightarrow> 'c) (tm :: nat \<Rightarrow> time) (n :: nat) (w :: ('q, 'h) worker) (w' :: ('q, 'h) worker).
    dq = deq \<longrightarrow> rt = retr \<longrightarrow> winv w \<longrightarrow> (\<forall>n. okclk (clk n)) \<longrightarrow> winv w')"
  have "P deq retr clk tm n w w'"
  proof (rule poll_loop.raw_induct[OF _ assms(1)], goal_cases)
    case (1 f dq rt clk tm n w w')
    show ?case unfolding P_def
    proof (intro impI)
      assume eq [simp]: "dq = deq" "rt = retr" and w: "winv w" and ok: "\<forall>n. okclk (clk n)"
      show "winv w'"
      proof (cases "processingCount w < maxConcurrency w")
        case False
        with 1(2) w show ?thesis by simp
      next
        case True
        with 1(2) obtain r q' where d: "deq (clk n) (jobQueue w) = Some (r, q')"
          by (auto split: option.splits)
        have i: "sound q'" using deq_sound[OF _ _ d] w ok by (simp add: worker_inv_def)
        show ?thesis
        proof (cases r)
          case None
          with 1(2) True d have "w' = w\<lparr>jobQueue := q'\<rparr>" by simp
          with deq_none[OF _ _ d[unfolded None]] w ok i show ?thesis by (simp add: worker_inv_def)
        next
          case (Some j)
          let ?w = "w\<lparr>jobQueue := q', processingCount := processingCount w + 1\<rparr>"
          have "winv (begin_job retr j (tm n) ?w)"
            using deq_some[OF _ _ d[unfolded Some]] w ok i True
            by (intro begin_job_inv) (auto simp: worker_inv_def)
          moreover have "f deq retr clk tm (Suc n) (begin_job retr j (tm n) ?w) = Some w'"
            using 1(2) True d Some by simp
          ultimately show ?thesis using 1(1) ok by (auto simp: P_def)
        qed
      qed
    qed
  qed
  with assms show ?thesis by (simp add: P_def)
qed

lemma winv_timer [simp]: "winv (w\<lparr>pollTimer := b\<rparr>) = winv w"
  by (simp add: worker_inv_def)

lemma poll_inv:
  assumes "poll deq retr clk tm w = Some w'" "winv w" "\<forall>n. okclk (clk n)"
  shows "winv w'"
  using assms(1,2) poll_loop_inv[OF _ assms(2,3)]
  by (auto simp: poll_def split: if_splits)

lemma distinct_remove_nth:
  assumes "distinct (map f xs)" "i < length xs"
  shows "distinct (map f (take i xs @ drop (Suc i) xs))"
    "f (xs ! i) \<notin> f ` set (take i xs @ drop (Suc i) xs)"
    "f ` set xs = insert (f (xs ! i)) (f ` set (take i xs @ drop (Suc i) xs))"
proof -
  have x: "xs = take i xs @ xs ! i # drop (Suc i) xs"
    using assms(2) by (simp add: id_take_nth_drop[symmetric])
  have d: "distinct (map f (take i xs @ xs ! i # drop (Suc i) xs))"
    using assms(1) x by simp
  then show "distinct (map f (take i xs @ drop (Suc i) xs))"
    "f (xs ! i) \<notin> f ` set (take i xs @ drop (Suc i) xs)" by auto
  show "f ` set xs = insert (f (xs ! i)) (f ` set (take i xs @ drop (Suc i) xs))"
    by (subst x) auto
qed

lemma settle_job_inv:
  assumes w: "winv w" and i: "i < length (inflight w)"
  shows "winv (settle_job ac retr msg i res t w)"
proof -
  let ?j = "inflight w ! i" and ?w = "w\<lparr>inflight := take i (inflight w) @ drop (Suc i) (inflight w)\<rparr>"
  from w have d: "distinct (map job_id (inflight w))" and s: "sound (jobQueue w)"
    and b: "busy (jobQueue w) = job_id ` set (inflight w)" by (auto simp: worker_inv_def)
  note r = distinct_remove_nth[OF d i]
  have len: "int (length (inflight ?w)) + 1 = int (length (inflight w))" using i by simp
  have fail: "winv (fail_job retr ?j e t ?w)" for e
    using w r s b len by (intro fail_job_inv) (auto simp: worker_inv_def)
  from ac_ok[OF s, of "job_id ?j" t] b i obtain q' where
    "ac (jobQueue w) (job_id ?j) t = Inr q'" "sound q'" "busy q' = busy (jobQueue w) - {job_id ?j}"
    by auto
  with w r b len have
    "winv (?w\<lparr>jobQueue := q', processingCount := processingCount ?w - 1\<rparr>)"
    by (simp add: worker_inv_def)
  with \<open>ac _ _ _ = _\<close> fail show ?thesis
    by (cases res) (simp_all add: settle_job_def Let_def)
qed

lemma worker_step_inv:
  assumes "worker_step deq ac retr adds okclk w w'" "winv w"
  shows "winv w'"
  using assms
proof (cases rule: worker_step.cases)
  case (ev_start clk tm)
  then have "poll deq retr clk tm (w\<lparr>jobQueue := id (jobQueue w), isRunning := True\<rparr>) = Some w'"
    by (auto simp: start_def split: if_splits)
  then show ?thesis
    by (rule poll_inv) (use assms(2) ev_start in \<open>auto simp: worker_inv_def\<close>)
next
  case (ev_add q')
  then show ?thesis using assms(2) adds_ok[of "jobQueue w" q'] by (simp add: worker_inv_def)
next
  case (ev_register ty h)
  then show ?thesis using assms(2)
    by (auto simp: registerHandler_def worker_inv_def split: jsval.splits sum.splits if_splits)
next
  case ev_stop
  then show ?thesis using assms(2) by (simp add: stop_def worker_inv_def)
qed (auto intro: poll_inv settle_job_inv assms(2))

lemma worker_run_inv:
  assumes "(worker_step deq ac retr adds okclk)\<^sup>*\<^sup>* w w'" "winv w"
  shows "winv w'"
  using assms by (induction rule: rtranclp_induct) (auto intro: worker_step_inv)

text \<open>A handler that resolves is acknowledged; the acknowledgement never fails.\<close>

lemma settle_resolved:
  assumes "winv w" "i < length (inflight w)"
  shows "\<exists>q'. ac (jobQueue w) (job_id (inflight w ! i)) t = Inr q' \<and>
    jobQueue (settle_job ac retr msg i Resolved t w) = q'"
  using assms ac_ok[of "jobQueue w" "job_id (inflight w ! i)" t]
  by (auto simp: settle_job_def Let_def worker_inv_def)

end

section \<open>The job queue is a work source\<close>

definition processing_ids :: "job_queue \<Rightarrow> string set" where
  "processing_ids q = {k. \<exists>j. map_of (jobs q) k = Some j \<and> status j = PROCESSING}"

definition nonneg_clock :: "(nat \<Rightarrow> time) \<Rightarrow> bool" where
  "nonneg_clock clk \<longleftrightarrow> (\<forall>n. 0 \<le> clk n)"

definition enqueues :: "job_queue \<Rightarrow> job_queue \<Rightarrow> bool" where
  "enqueues q q' \<longleftrightarrow> (\<exists>typ pl opts hex now k.
     enqueue q typ pl opts hex now = Inr (k, q') \<and> fresh_id k q)"

lemma processing_ids_update [simp]:
  "processing_ids (q\<lparr>jobs := AList.update k j (jobs q)\<rparr>) =
     (if status j = PROCESSING then insert k (processing_ids q) else processing_ids q - {k})"
  by (auto simp: processing_ids_def)

lemma processing_ids_cong [simp]:
  "processing_ids (q\<lparr>queue := xs\<rparr>) = processing_ids q"
  "processing_ids (q\<lparr>retryQueue := xs\<rparr>) = processing_ids q"
  by (auto simp: processing_ids_def)

interpretation jq: work_source dequeue ack retry enqueues nonneg_clock jq_inv processing_ids
proof (unfold_locales, goal_cases)
  case (1 q c r q')
  then show ?case by (auto simp: nonneg_clock_def intro: dequeue_inv)
next
  case (2 q c q')
  then have "dequeue_post c q (None, q')"
    by (intro dequeue_satisfies_post) (auto simp: nonneg_clock_def)
  then show ?case by (simp add: dequeue_post_def processing_ids_def)
next
  case (3 q c j q')
  then have "dequeue_post c q (Some j, q')"
    by (intro dequeue_satisfies_post) (auto simp: nonneg_clock_def)
  then obtain k j0 n where j0: "map_of (jobs q) k = Some j0" "isReadyToProcess j0 (c n)"
    "j = started j0 (c (Suc n))" "jobs q' = AList.update k j (jobs q)"
    by (auto simp: dequeue_post_def handed_out_def)
  moreover have "job_id j0 = k" using jq_invD[OF 3(1) j0(1)] by (simp add: job_ok_def)
  ultimately show ?case by (auto simp: processing_ids_def isReadyToProcess_def)
next
  case (4 q k t)
  then obtain j where j: "map_of (jobs q) k = Some j" "status j = PROCESSING"
    by (auto simp: processing_ids_def)
  with 4(1) have a: "ack q k t = Inr (q\<lparr>jobs :=
      AList.update k (j\<lparr>status := COMPLETED, completedAt := Some t\<rparr>) (jobs q)\<rparr>)"
    by (simp add: ack_def)
  from ack_inv[OF a 4(1)] a show ?case by simp
next
  case (5 q k e t)
  then obtain j where j: "map_of (jobs q) k = Some j" "status j = PROCESSING"
    by (auto simp: processing_ids_def)
  obtain q' where q': "retry q k e t = Inr q'" using j(1) that
    by (cases "int (attempts j) \<le> maxRetries q") (simp_all add: retry_def Let_def)
  moreover from q' 5(1) have "processing_ids q' = processing_ids q - {k}"
    by (cases rule: retry_cases) (auto simp: processing_ids_def)
  ultimately show ?case using retry_inv[OF q' 5(1) j] by blast
next
  case (6 q q')
  then obtain ty pl opts hex now k where e: "enqueue q ty pl opts hex now = Inr (k, q')"
    and f: "fresh_id k q" by (auto simp: enqueues_def)
  from e 6(1) have "processing_ids q' = processing_ids q"
    by (rule enqueue_cases) (use f in \<open>auto simp: processing_ids_def fresh_id_def\<close>)
  with enqueue_inv[OF e 6(1) f] show ?case by blast
qed

abbreviation queue_worker_step ::
  "(job_queue, 'h) worker \<Rightarrow> (job_queue, 'h) worker \<Rightarrow> bool" where
  "queue_worker_step \<equiv> worker_step dequeue ack retry enqueues nonneg_clock"

lemma new_worker_inv:
  assumes "jq_inv q" "processing_ids q = {}"
  shows "worker_inv jq_inv processing_ids (new_BackgroundWorker q pollMs maxC)"
  using assms by (simp add: worker_inv_def new_BackgroundWorker_def)

lemma stop_wait_returns_aux:
  assumes "startTime + timeoutMs \<le> clk N" "n \<le> N"
  shows "\<exists>b. stop_wait cnt clk startTime timeoutMs n = Some b"
  using assms(2)
proof (induction n rule: inc_induct)
  case base
  then show ?case using assms(1) by (subst stop_wait.simps) simp
next
  case (step n)
  then show ?case by (subst stop_wait.simps) auto
qed

section \<open>A concrete run\<close>

definition demo_worker :: "(job_queue, unit) worker" where
  "demo_worker = (new_BackgroundWorker demo_queue None None)\<lparr>handlers := [(''webhook'', ())]\<rparr>"

definition demo_worker' :: "(job_queue, unit) worker" where
  "demo_worker' = demo_worker\<lparr>jobQueue := demo_queue\<lparr>jobs := [(''job-a1'', started demo_job 3)],
     queue := []\<rparr>, isRunning := True, processingCount := 1, pollTimer := True,
     inflight := [started demo_job 3]\<rparr>"

lemma demo_start:
  "start id dequeue retry (\<lambda>_. int) int demo_worker = Inr (Some demo_worker')"
  by code_simp

lemma demo_worker_run: "queue_worker_step\<^sup>*\<^sup>* (new_BackgroundWorker demo_queue None None) demo_worker'"
proof -
  have "queue_worker_step (new_BackgroundWorker demo_queue None None) demo_worker"
    by (rule ev_register[of _ "JStr ''webhook''" "Inr ()"]) code_simp
  moreover have "queue_worker_step demo_worker demo_worker'"
    by (rule ev_start[OF demo_start]) (simp add: nonneg_clock_def)
  ultimately show ?thesis by (meson converse_rtranclp_into_rtranclp rtranclp.rtrancl_refl)
qed

lemma demo_processing: "processing_ids demo_queue = {}"
  by (auto simp: processing_ids_def demo_queue_def demo_job_def)

section \<open>Properties\<close>

text \<open>C7: The worker never runs more than \<open>maxConcurrency\<close> jobs. Whatever happens to it, its
  counter is the number of handlers that have not settled, and no job runs twice at the same time:
  the ids in flight are pairwise different and are exactly the ids the queue has handed out.\<close>

theorem worker_concurrency_bound:
  assumes "jq_reachable opts q" "processing_ids q = {}"
    "queue_worker_step\<^sup>*\<^sup>* (new_BackgroundWorker q pollMs maxC) w"
  shows "processingCount w = int (length (inflight w)) \<and>
     int (length (inflight w)) \<le> maxConcurrency w \<and> distinct (map job_id (inflight w)) \<and>
     processing_ids (jobQueue w) = job_id ` set (inflight w)"
  using jq.worker_run_inv[OF assms(3) new_worker_inv[OF jq_reachable_inv[OF assms(1)] assms(2)]]
  by (simp add: worker_inv_def)

theorem worker_concurrency_bound_witness:
  "processingCount demo_worker' = 1 \<and> int (length (inflight demo_worker')) \<le> 2 \<and>
   processing_ids (jobQueue demo_worker') = {''job-a1''}"
  using worker_concurrency_bound[OF demo_reachable demo_processing demo_worker_run]
  by (simp add: demo_worker'_def demo_worker_def demo_job_def new_BackgroundWorker_def)

text \<open>A handler that resolves completes its job: the acknowledgement cannot fail, and the job
  ends up completed. One that rejects sends its job to the retry queue or marks it failed. In
  both cases the slot is free again.\<close>

theorem worker_settles_job:
  assumes "jq_reachable opts q" "processing_ids q = {}"
    "queue_worker_step\<^sup>*\<^sup>* (new_BackgroundWorker q pollMs maxC) w" "i < length (inflight w)"
  shows "\<exists>j. map_of (jobs (jobQueue (settle_job ack retry msg i res now w)))
        (job_id (inflight w ! i)) = Some j \<and>
     (res = Resolved \<longrightarrow> status j = COMPLETED) \<and>
     (res \<noteq> Resolved \<longrightarrow> status j \<in> {RETRYING, FAILED}) \<and>
     processingCount (settle_job ack retry msg i res now w) = processingCount w - 1"
proof -
  let ?k = "job_id (inflight w ! i)"
  have inv: "worker_inv jq_inv processing_ids w"
    by (rule jq.worker_run_inv[OF assms(3) new_worker_inv[OF jq_reachable_inv[OF assms(1)] assms(2)]])
  then have q: "jq_inv (jobQueue w)" "?k \<in> processing_ids (jobQueue w)"
    using assms(4) by (auto simp: worker_inv_def)
  then obtain j where j: "map_of (jobs (jobQueue w)) ?k = Some j" "status j = PROCESSING"
    by (auto simp: processing_ids_def)
  show ?thesis
  proof (cases res)
    case Resolved
    then show ?thesis using j q(1) by (simp add: settle_job_def ack_def)
  next
    case (Rejected e)
    then show ?thesis using j q(1)
      by (cases "int (attempts j) \<le> maxRetries (jobQueue w)")
        (simp_all add: settle_job_def fail_job_def retry_def Let_def)
  qed
qed

theorem worker_settles_job_witness:
  "\<exists>j. map_of (jobs (jobQueue (settle_job ack retry (\<lambda>_. []) 0 Resolved 9 demo_worker'))) ''job-a1''
     = Some j \<and> status j = COMPLETED"
  using worker_settles_job[OF demo_reachable demo_processing demo_worker_run, of 0 "\<lambda>_. []" Resolved 9]
  by (auto simp: demo_worker'_def demo_job_def)

text \<open>\<open>stop\<close> always returns: it waits for the handlers in flight at most until \<open>timeoutMs\<close>
  have passed, and no new job is taken afterwards because polling a stopped worker does
  nothing.\<close>

theorem stop_returns:
  assumes "\<forall>b. \<exists>N. \<forall>n\<ge>N. b \<le> clk n"
  shows "(\<exists>b. stop_wait cnt clk startTime timeoutMs 0 = Some b) \<and>
    poll deq retr clk' tm (stop w) = Some (stop w)"
proof
  from assms obtain N where "startTime + timeoutMs \<le> clk N" by blast
  then show "\<exists>b. stop_wait cnt clk startTime timeoutMs 0 = Some b"
    by (rule stop_wait_returns_aux) simp
  show "poll deq retr clk' tm (stop w) = Some (stop w)" by (simp add: poll_def stop_def)
qed

theorem stop_returns_witness:
  "(\<exists>b. stop_wait (\<lambda>_. 1) int 0 10000 0 = Some b) \<and>
   poll dequeue retry (\<lambda>_. int) int (stop demo_worker') = Some (stop demo_worker')"
proof -
  have "\<forall>b. \<exists>N. \<forall>n\<ge>N. b \<le> int n" by (metis int_nat_eq nat_le_iff zle_int linorder_linear)
  from stop_returns[OF this] show ?thesis .
qed

end
