(* ===== verification/CircuitBreaker.thy ===== *)
theory CircuitBreaker
  imports Prelude
begin

text \<open>
  The circuit breaker of \<open>src/src/utils/circuitBreaker.js\<close>.

  \<open>execute\<close> is asynchronous: it decides whether to call the operation (\<open>admit\<close>), awaits it, and
  then runs \<open>onSuccess\<close> or \<open>onFailure\<close> (\<open>settle\<close>). Other calls may be admitted and settled in
  between, so the two halves are separate steps of the model and \<open>execute\<close> is their composition.
  The transitions reported to \<open>onStateChange\<close> and to the metric are kept in \<open>transitions\<close>.
\<close>

section \<open>State\<close>

datatype breaker_state = CLOSED | OPEN | HALF_OPEN

record breaker =
  failureThreshold :: int
  recoveryTimeout :: int
  hasFallback :: bool
  state :: breaker_state
  failureCount :: int
  nextAttemptTime :: time
  transitions :: "(breaker_state \<times> breaker_state) list"

datatype ('a, 'e) outcome = Success 'a | Failure 'e

text \<open>How a call of \<open>execute\<close> ends: with the value of the operation, with its error, with the
  fallback (called with the error, or without an argument when the circuit is open), or with the
  error of code \<open>CIRCUIT_OPEN\<close>.\<close>

datatype ('a, 'e) exec_result = Returned 'a | Threw 'e | Fallback "'e option" | CircuitOpen

section \<open>Operations\<close>

definition int_or :: "int option \<Rightarrow> int \<Rightarrow> int" where
  "int_or opt d = (case opt of None \<Rightarrow> d | Some n \<Rightarrow> if n = 0 then d else n)"

definition new_CircuitBreaker :: "int option \<Rightarrow> int option \<Rightarrow> bool \<Rightarrow> time \<Rightarrow> breaker" where
  "new_CircuitBreaker threshold timeout fallback now =
     \<lparr>failureThreshold = int_or threshold 5, recoveryTimeout = int_or timeout 10000,
      hasFallback = fallback, state = CLOSED, failureCount = 0, nextAttemptTime = now,
      transitions = []\<rparr>"

definition transitionState :: "breaker_state \<Rightarrow> breaker \<Rightarrow> breaker" where
  "transitionState s b =
     (if state b \<noteq> s then b\<lparr>state := s, transitions := transitions b @ [(state b, s)]\<rparr> else b)"

definition breaker_reset :: "time \<Rightarrow> breaker \<Rightarrow> breaker" where
  "breaker_reset now b = (transitionState CLOSED b)\<lparr>failureCount := 0, nextAttemptTime := now\<rparr>"

definition onSuccess :: "breaker \<Rightarrow> breaker" where
  "onSuccess b =
     (let b1 = b\<lparr>failureCount := 0\<rparr>
      in if state b1 = HALF_OPEN then transitionState CLOSED b1 else b1)"

definition onFailure :: "time \<Rightarrow> 'e \<Rightarrow> breaker \<Rightarrow> ('a, 'e) exec_result \<times> breaker" where
  "onFailure now e b =
     (let b1 = b\<lparr>failureCount := failureCount b + 1\<rparr>;
          b2 = (if state b1 = HALF_OPEN \<or> failureCount b1 \<ge> failureThreshold b1
                then (transitionState OPEN b1)\<lparr>nextAttemptTime := now + recoveryTimeout b1\<rparr>
                else b1)
      in (if state b2 = OPEN \<and> hasFallback b2 then Fallback (Some e) else Threw e, b2))"

text \<open>The part of \<open>execute\<close> before the operation is called: \<open>None\<close> when it is called.\<close>

definition admit :: "time \<Rightarrow> breaker \<Rightarrow> ('a, 'e) exec_result option \<times> breaker" where
  "admit now b =
     (if state b = OPEN
      then if now \<ge> nextAttemptTime b then (None, transitionState HALF_OPEN b)
           else (Some (if hasFallback b then Fallback None else CircuitOpen), b)
      else (None, b))"

fun settle :: "time \<Rightarrow> ('a, 'e) outcome \<Rightarrow> breaker \<Rightarrow> ('a, 'e) exec_result \<times> breaker" where
  "settle now (Success v) b = (Returned v, onSuccess b)"
| "settle now (Failure e) b = onFailure now e b"

text \<open>A call during which no other call touches the breaker.\<close>

definition execute ::
  "time \<Rightarrow> time \<Rightarrow> ('a, 'e) outcome \<Rightarrow> breaker \<Rightarrow> ('a, 'e) exec_result \<times> breaker" where
  "execute now later res b =
     (case admit now b of
        (Some r, b') \<Rightarrow> (r, b')
      | (None, b') \<Rightarrow> settle later res b')"

section \<open>Invariant\<close>

inductive breaker_step :: "breaker \<Rightarrow> breaker \<Rightarrow> bool" where
  bs_admit: "admit now b = (r :: (jsval, jsval) exec_result option, b') \<Longrightarrow> breaker_step b b'"
| bs_settle: "settle now (res :: (jsval, jsval) outcome) b = (r, b') \<Longrightarrow> breaker_step b b'"
| bs_reset: "breaker_step b (breaker_reset now b)"

definition legal_transition :: "breaker_state \<times> breaker_state \<Rightarrow> bool" where
  "legal_transition p \<longleftrightarrow> p \<in> {(CLOSED, OPEN), (OPEN, HALF_OPEN), (HALF_OPEN, CLOSED),
     (HALF_OPEN, OPEN), (OPEN, CLOSED)}"

text \<open>A list of transitions is a path from one state to another.\<close>

fun path :: "breaker_state \<Rightarrow> (breaker_state \<times> breaker_state) list \<Rightarrow> breaker_state \<Rightarrow> bool" where
  "path s [] t = (s = t)"
| "path s ((a, b) # ts) t = (s = a \<and> legal_transition (a, b) \<and> path b ts t)"

lemma path_snoc: "path s (ts @ [(a, b)]) t \<longleftrightarrow> path s ts a \<and> legal_transition (a, b) \<and> b = t"
  by (induction s ts a rule: path.induct) auto

definition breaker_inv :: "breaker \<Rightarrow> bool" where
  "breaker_inv b \<longleftrightarrow> 0 \<le> failureCount b \<and> path CLOSED (transitions b) (state b) \<and>
     (state b = CLOSED \<longrightarrow> failureCount b < max 1 (failureThreshold b))"

lemma new_breaker_inv: "breaker_inv (new_CircuitBreaker th to fb now)"
  by (simp add: breaker_inv_def new_CircuitBreaker_def)

lemma transitionState_path:
  assumes "path CLOSED (transitions b) (state b)" "state b = s \<or> legal_transition (state b, s)"
  shows "path CLOSED (transitions (transitionState s b)) s"
  using assms by (auto simp: transitionState_def path_snoc)

lemma transitionState_sel [simp]:
  "state (transitionState s b) = s" "failureCount (transitionState s b) = failureCount b"
  "failureThreshold (transitionState s b) = failureThreshold b"
  "recoveryTimeout (transitionState s b) = recoveryTimeout b"
  "hasFallback (transitionState s b) = hasFallback b"
  "nextAttemptTime (transitionState s b) = nextAttemptTime b"
  by (auto simp: transitionState_def)

lemma breaker_step_inv:
  assumes "breaker_step b b'" "breaker_inv b"
  shows "breaker_inv b'"
  using assms
proof (induction rule: breaker_step.induct)
  case (bs_admit now b r b')
  then show ?case
    by (auto simp: admit_def breaker_inv_def legal_transition_def split: if_splits
        intro!: transitionState_path)
next
  case (bs_settle now res b r b')
  then show ?case
    by (cases "state b"; cases res)
      (auto simp: onSuccess_def onFailure_def Let_def breaker_inv_def legal_transition_def
        split: if_splits intro!: transitionState_path)
next
  case (bs_reset b now)
  then show ?case
    by (cases "state b") (auto simp: breaker_reset_def breaker_inv_def legal_transition_def
        intro!: transitionState_path)
qed

section \<open>When the circuit opens\<close>

definition is_failure :: "('a, 'e) outcome \<Rightarrow> bool" where
  "is_failure r = (case r of Failure _ \<Rightarrow> True | Success _ \<Rightarrow> False)"

definition settle_all :: "breaker \<Rightarrow> (time \<times> ('a, 'e) outcome) list \<Rightarrow> breaker" where
  "settle_all b rs = foldl (\<lambda>b (t, r). snd (settle t r b)) b rs"

text \<open>The number of failures at the end of a list of outcomes, and whether \<open>n\<close> failures in a row
  occur in it.\<close>

definition trailing_failures :: "(time \<times> ('a, 'e) outcome) list \<Rightarrow> nat" where
  "trailing_failures rs = length (takeWhile (is_failure \<circ> snd) (rev rs))"

definition failures_in_a_row :: "nat \<Rightarrow> (time \<times> ('a, 'e) outcome) list \<Rightarrow> bool" where
  "failures_in_a_row n rs \<longleftrightarrow> (\<exists>xs ys zs. rs = xs @ ys @ zs \<and> length ys = n \<and>
     (\<forall>r\<in>set ys. is_failure (snd r)))"

lemma trailing_failures_snoc:
  "trailing_failures (rs @ [r]) = (if is_failure (snd r) then Suc (trailing_failures rs) else 0)"
  by (simp add: trailing_failures_def)

lemma trailing_in_a_row: "n \<le> trailing_failures rs \<Longrightarrow> failures_in_a_row n rs"
proof -
  assume n: "n \<le> trailing_failures rs"
  let ?s = "take n (rev rs)"
  have "take n (takeWhile (is_failure \<circ> snd) (rev rs)) = ?s"
    using n unfolding trailing_failures_def by (metis takeWhile_eq_take take_take min.absorb1)
  then have f: "\<forall>r\<in>set ?s. is_failure (snd r)"
    by (metis comp_apply in_set_takeD set_takeWhileD)
  have "n \<le> length (rev rs)" using n unfolding trailing_failures_def
    by (rule order_trans) (rule length_takeWhile_le)
  then have "length ?s = n" by simp
  moreover have "rs = rev (drop n (rev rs)) @ rev ?s"
    by (metis append_take_drop_id rev_append rev_rev_ident)
  ultimately show ?thesis using f unfolding failures_in_a_row_def
    by (intro exI[of _ "rev (drop n (rev rs))"] exI[of _ "rev ?s"] exI[of _ "[]"]) simp
qed

lemma failures_in_a_row_snoc:
  "failures_in_a_row n (rs @ [r]) \<longleftrightarrow>
     failures_in_a_row n rs \<or> n \<le> trailing_failures (rs @ [r])"
proof
  assume "failures_in_a_row n (rs @ [r])"
  then obtain xs ys zs where e: "rs @ [r] = xs @ ys @ zs" and l: "length ys = n"
    and f: "\<forall>r\<in>set ys. is_failure (snd r)" by (auto simp: failures_in_a_row_def)
  show "failures_in_a_row n rs \<or> n \<le> trailing_failures (rs @ [r])"
  proof (cases zs rule: rev_cases)
    case Nil
    then have "rev (rs @ [r]) = rev ys @ rev xs" using e by (metis append_Nil2 rev_append)
    moreover have "takeWhile (is_failure \<circ> snd) (rev ys @ rev xs) =
        rev ys @ takeWhile (is_failure \<circ> snd) (rev xs)"
      using f by (intro takeWhile_append2) auto
    ultimately show ?thesis using l unfolding trailing_failures_def by simp
  next
    case (snoc zs' z)
    then have "rs = xs @ ys @ zs'" using e by simp
    with l f show ?thesis unfolding failures_in_a_row_def by blast
  qed
next
  assume "failures_in_a_row n rs \<or> n \<le> trailing_failures (rs @ [r])"
  then show "failures_in_a_row n (rs @ [r])"
  proof
    assume "failures_in_a_row n rs"
    then obtain xs ys zs where "rs = xs @ ys @ zs" "length ys = n"
      "\<forall>r\<in>set ys. is_failure (snd r)" by (auto simp: failures_in_a_row_def)
    then show ?thesis unfolding failures_in_a_row_def
      by (intro exI[of _ xs] exI[of _ ys] exI[of _ "zs @ [r]"]) simp
  qed (rule trailing_in_a_row)
qed

lemma settle_all_snoc: "settle_all b (rs @ [r]) = snd (settle (fst r) (snd r) (settle_all b rs))"
  by (simp add: settle_all_def split_beta)

lemma settle_all_char:
  assumes "0 < failureThreshold b" "state b = CLOSED" "failureCount b = 0"
  shows "failureThreshold (settle_all b rs) = failureThreshold b \<and>
    failureCount (settle_all b rs) = int (trailing_failures rs) \<and>
    state (settle_all b rs) =
      (if failures_in_a_row (nat (failureThreshold b)) rs then OPEN else CLOSED)"
proof (induction rs rule: rev_induct)
  case Nil
  then show ?case using assms
    by (simp add: settle_all_def trailing_failures_def failures_in_a_row_def)
next
  case (snoc r rs)
  then show ?case using assms(1)
    by (cases "snd r")
      (auto simp: settle_all_snoc onSuccess_def onFailure_def Let_def failures_in_a_row_snoc
        trailing_failures_snoc is_failure_def)
qed

section \<open>Properties\<close>



text \<open>An open circuit fails fast and recovers through a trial call. A failure that opens the
  circuit at time \<open>t\<close> makes every call before \<open>t + recoveryTimeout\<close> return the fallback or the
  circuit-open error without calling the operation and without changing the breaker; a later call
  runs the operation in the half-open state, whose success closes the circuit with a clear
  failure count and whose failure opens it again for another \<open>recoveryTimeout\<close>.\<close>

theorem breaker_fail_fast_and_recover:
  fixes e :: 'e
  assumes "onFailure t e b0 = ((r :: ('a, 'e) exec_result), b)" "state b0 \<noteq> OPEN" "state b = OPEN"
  shows "(\<forall>now < t + recoveryTimeout b0.
       execute now later (res :: ('a, 'e) outcome) b =
         (if hasFallback b0 then Fallback None else CircuitOpen, b)) \<and>
     (\<forall>now \<ge> t + recoveryTimeout b0.
       (\<forall>v. state (snd (execute now later (Success v :: ('a, 'e) outcome) b)) = CLOSED \<and>
            failureCount (snd (execute now later (Success v :: ('a, 'e) outcome) b)) = 0 \<and>
            fst (execute now later (Success v :: ('a, 'e) outcome) b) = Returned v) \<and>
       (\<forall>e'. state (snd (execute now later (Failure e' :: ('a, 'e) outcome) b)) = OPEN \<and>
            nextAttemptTime (snd (execute now later (Failure e' :: ('a, 'e) outcome) b)) =
              later + recoveryTimeout b0))"
proof -
  have b: "nextAttemptTime b = t + recoveryTimeout b0" "hasFallback b = hasFallback b0"
    "recoveryTimeout b = recoveryTimeout b0"
    using assms by (auto simp: onFailure_def Let_def split: if_splits)
  show ?thesis
    using assms(3) b
    by (auto simp: execute_def admit_def onSuccess_def onFailure_def Let_def)
qed

theorem breaker_fail_fast_and_recover_witness:
  "execute 15 16 (Success () :: (unit, unit) outcome)
     (snd (onFailure 10 () (new_CircuitBreaker (Some 1) (Some 10) False 0)
        :: (unit, unit) exec_result \<times> breaker)) =
   (CircuitOpen, snd (onFailure 10 () (new_CircuitBreaker (Some 1) (Some 10) False 0)
        :: (unit, unit) exec_result \<times> breaker))"
proof -
  let ?b0 = "new_CircuitBreaker (Some 1) (Some 10) False 0"
  let ?o = "onFailure 10 () ?b0 :: (unit, unit) exec_result \<times> breaker"
  have "state ?b0 \<noteq> OPEN" "state (snd ?o) = OPEN" "recoveryTimeout ?b0 = 10" "\<not> hasFallback ?b0"
    by (simp_all add: new_CircuitBreaker_def int_or_def onFailure_def Let_def)
  with breaker_fail_fast_and_recover[of 10 "()" ?b0 "fst ?o" "snd ?o" 16
      "Success () :: (unit, unit) outcome"] show ?thesis by simp
qed

text \<open>Under any interleaving of calls, the reported state changes form a path of legal
  transitions from \<open>CLOSED\<close> to the current state, and a closed circuit has recorded fewer failures
  than its threshold.\<close>

theorem breaker_transitions_legal:
  assumes "breaker_step\<^sup>*\<^sup>* (new_CircuitBreaker th timeout fallback now) b"
  shows "path CLOSED (transitions b) (state b) \<and>
    (state b = CLOSED \<longrightarrow> failureCount b < max 1 (failureThreshold b))"
proof -
  have "breaker_inv b" using assms
    by (induction rule: rtranclp_induct) (auto intro: new_breaker_inv breaker_step_inv)
  then show ?thesis by (simp add: breaker_inv_def)
qed

theorem breaker_transitions_legal_witness:
  "path CLOSED [(CLOSED, OPEN)]
     (state (snd (settle 3 (Failure JNull :: (jsval, jsval) outcome)
        (new_CircuitBreaker (Some 1) None False 0))))"
proof -
  let ?b = "new_CircuitBreaker (Some 1) None False 0"
  let ?s = "settle 3 (Failure JNull :: (jsval, jsval) outcome) ?b"
  have "breaker_step\<^sup>*\<^sup>* ?b (snd ?s)"
    by (rule r_into_rtranclp) (rule bs_settle[OF prod.collapse[symmetric]])
  moreover have "transitions (snd ?s) = [(CLOSED, OPEN)]"
    by (simp add: new_CircuitBreaker_def int_or_def onFailure_def transitionState_def Let_def)
  ultimately show ?thesis using breaker_transitions_legal[of "Some 1" None False 0 "snd ?s"] by metis
qed

end
