(* ===== verification/Soroban.thy ===== *)
theory Soroban
  imports Retry CircuitBreaker
begin

text \<open>
  Calls of Soroban contracts: \<open>src/src/services/soroban.js\<close>. Classification of errors into
  transient and permanent ones, the backoff with jitter, the retry loop with its elapsed-time
  budget, and \<open>callSorobanContract\<close>, which runs the loop inside the shared circuit breaker.
  Errors are JavaScript values; the metrics are represented by the labels they are given.
\<close>

section \<open>Classification of errors\<close>

datatype error_category = Network | RateLimit | Rpc5xx | Permanent

record classification =
  retryable :: bool
  category :: error_category
  reason :: string

text \<open>The code points of the class \<open>\w\<close>, between which and their complement \<open>\b\<close> lies.\<close>

definition is_word :: "char \<Rightarrow> bool" where
  "is_word c \<longleftrightarrow> is_alnum c \<or> c = CHR ''_''"

text \<open>Whether \<open>/\bphrase\b/i\<close> matches at this position, \<open>prev\<close> telling whether the preceding
  character is a word character (the phrases start and end with one), and the search for it.\<close>

definition phrase_here :: "bool \<Rightarrow> string \<Rightarrow> string \<Rightarrow> bool" where
  "phrase_here prev p s \<longleftrightarrow> \<not> prev \<and> starts_with (to_lower s) p \<and>
     (case drop (length p) s of [] \<Rightarrow> True | c # _ \<Rightarrow> \<not> is_word c)"

fun has_phrase :: "bool \<Rightarrow> string \<Rightarrow> string \<Rightarrow> bool" where
  "has_phrase prev p [] = phrase_here prev p []"
| "has_phrase prev p (c # s) = (phrase_here prev p (c # s) \<or> has_phrase (is_word c) p s)"

definition rate_limit_phrases :: "string list" where
  "rate_limit_phrases = [''too many requests'', ''rate-limit'', ''rate limit'', ''rate-limited'',
     ''rate limited'', ''rate exceeded'']"

definition gateway_phrases :: "string list" where
  "gateway_phrases = [''service unavailable'', ''bad gateway'', ''gateway timeout'']"

definition timeout_phrases :: "string list" where
  "timeout_phrases = [''timeout'', ''timed out'', ''etimedout'']"

definition network_phrases :: "string list" where
  "network_phrases = [''network'', ''econnrefused'', ''econnreset'']"

definition matches_any :: "string list \<Rightarrow> string \<Rightarrow> bool" where
  "matches_any ps m = list_ex (\<lambda>p. has_phrase False p m) ps"

text \<open>\<open>toUpperCase\<close> within Latin-1 (sharp s becomes two letters).\<close>

definition upper_char :: "char \<Rightarrow> string" where
  "upper_char c =
     (if code_of c = 223 then ''SS''
      else if 97 \<le> code_of c \<and> code_of c \<le> 122 \<or>
              224 \<le> code_of c \<and> code_of c \<le> 254 \<and> code_of c \<noteq> 247
      then [char_of (code_of c - 32)] else [c])"

definition to_upper :: "string \<Rightarrow> string" where
  "to_upper s = concat (map upper_char s)"

definition retryable_network_codes :: "string list" where
  "retryable_network_codes = [''ETIMEDOUT'', ''ECONNRESET'', ''ECONNREFUSED'']"

definition is_object :: "jsval \<Rightarrow> bool" where
  "is_object v \<longleftrightarrow> (case v of JArr _ \<Rightarrow> True | JObj _ \<Rightarrow> True | _ \<Rightarrow> False)"

definition str_or_empty :: "jsval \<Rightarrow> string" where
  "str_or_empty v = (case v of JStr s \<Rightarrow> s | _ \<Rightarrow> [])"

definition raw_status :: "jsval \<Rightarrow> jsval" where
  "raw_status err = js_coalesce (js_get err ''status'')
     (let r = js_get err ''response'' in if truthy r then js_get r ''status'' else r)"

definition classifySorobanError :: "jsval \<Rightarrow> classification" where
  "classifySorobanError err =
     (if \<not> is_object err
      then \<lparr>retryable = False, category = Permanent, reason = ''invalid-error-shape''\<rparr>
      else
        let code = to_upper (str_or_empty (js_get err ''code''));
            st = raw_status err;
            msg = str_or_empty (js_get err ''message'')
        in if code \<in> set retryable_network_codes
           then \<lparr>retryable = True, category = Network, reason = ''network-code:'' @ code\<rparr>
           else if st = JInt 429
           then \<lparr>retryable = True, category = RateLimit, reason = ''status:429''\<rparr>
           else if st = JInt 502 then \<lparr>retryable = True, category = Rpc5xx, reason = ''status:502''\<rparr>
           else if st = JInt 503 then \<lparr>retryable = True, category = Rpc5xx, reason = ''status:503''\<rparr>
           else if st = JInt 504 then \<lparr>retryable = True, category = Rpc5xx, reason = ''status:504''\<rparr>
           else if matches_any rate_limit_phrases msg
           then \<lparr>retryable = True, category = RateLimit, reason = ''message:rate-limit''\<rparr>
           else if matches_any gateway_phrases msg
           then \<lparr>retryable = True, category = Rpc5xx, reason = ''message:rpc-5xx''\<rparr>
           else if matches_any timeout_phrases msg
           then \<lparr>retryable = True, category = Network, reason = ''message:timeout''\<rparr>
           else if matches_any network_phrases msg
           then \<lparr>retryable = True, category = Network, reason = ''message:network''\<rparr>
           else \<lparr>retryable = False, category = Permanent, reason = ''no-transient-signal''\<rparr>)"

definition isRetryable :: "jsval \<Rightarrow> bool" where
  "isRetryable err = retryable (classifySorobanError err)"

definition getRetryCauseLabel :: "classification \<Rightarrow> string" where
  "getRetryCauseLabel c =
     (if \<not> retryable c then ''unknown''
      else if category c = RateLimit then ''429''
      else if category c = Rpc5xx then ''5xx''
      else if reason c = ''network-code:ETIMEDOUT'' \<or> reason c = ''message:timeout'' then ''timeout''
      else ''unknown'')"

section \<open>Backoff\<close>

definition js_round :: "rat \<Rightarrow> int" where
  "js_round x = \<lfloor>x + 1 / 2\<rfloor>"

definition computeBackoff :: "nat \<Rightarrow> int \<Rightarrow> int \<Rightarrow> rat \<Rightarrow> int" where
  "computeBackoff attempt baseDelay maxDelay rnd =
     (let safeCap = min maxDelay 60000;
          safeBase = min baseDelay 10000;
          ex = rat_of_int (safeBase * 2 ^ attempt);
          jitter = ex * (2 / 10) * (rnd * 2 - 1)
      in min (max 0 (js_round (ex + jitter))) safeCap)"

section \<open>withRetry\<close>

record soroban_config =
  maxRetries :: int
  baseDelay :: int
  maxDelay :: int
  maxElapsedMs :: int

text \<open>The project defaults, when the environment sets none of the variables.\<close>

definition SOROBAN_RETRY_CONFIG :: soroban_config where
  "SOROBAN_RETRY_CONFIG = \<lparr>maxRetries = 3, baseDelay = 200, maxDelay = 5000, maxElapsedMs = 10000\<rparr>"

record 'a soroban_run =
  rpc_calls :: nat
  rpc_result :: "jsval + 'a"
  sleeps :: "int list"
  causes :: "string list"
  budgetExhausted :: bool

text \<open>The \<open>for\<close> loop from a given \<open>attempt \<le> maxRetries\<close>; \<open>clk n\<close> is the time when the \<open>n\<close>-th
  call has failed.\<close>

function soroban_loop ::
  "nat \<Rightarrow> soroban_config \<Rightarrow> time \<Rightarrow> (nat \<Rightarrow> time) \<Rightarrow> (nat \<Rightarrow> rat) \<Rightarrow> (nat \<Rightarrow> jsval + 'a) \<Rightarrow> nat \<Rightarrow>
   'a soroban_run" where
  "soroban_loop mr cfg startTime clk rnd op attempt =
     (case op attempt of
        Inr v \<Rightarrow> \<lparr>rpc_calls = attempt + 1, rpc_result = Inr v, sleeps = [], causes = [],
                  budgetExhausted = False\<rparr>
      | Inl err \<Rightarrow>
          if attempt \<ge> mr \<or> \<not> retryable (classifySorobanError err)
          then \<lparr>rpc_calls = attempt + 1, rpc_result = Inl err, sleeps = [], causes = [],
                budgetExhausted = False\<rparr>
          else if clk attempt - startTime \<ge> min (maxElapsedMs cfg) 120000
          then \<lparr>rpc_calls = attempt + 1, rpc_result = Inl err, sleeps = [], causes = [],
                budgetExhausted = True\<rparr>
          else
            let r = soroban_loop mr cfg startTime clk rnd op (attempt + 1)
            in r\<lparr>sleeps := computeBackoff attempt (baseDelay cfg) (maxDelay cfg) (rnd attempt) # sleeps r,
                 causes := getRetryCauseLabel (classifySorobanError err) # causes r\<rparr>)"
  by pat_completeness auto
termination by (relation "measure (\<lambda>(mr, _, _, _, _, _, attempt). mr - attempt)") auto

declare soroban_loop.simps [simp del]

text \<open>With a negative \<open>maxRetries\<close> the body never runs and \<open>lastErr\<close> is thrown undefined.\<close>

definition soroban_withRetry ::
  "soroban_config \<Rightarrow> time \<Rightarrow> (nat \<Rightarrow> time) \<Rightarrow> (nat \<Rightarrow> rat) \<Rightarrow> (nat \<Rightarrow> jsval + 'a) \<Rightarrow> 'a soroban_run" where
  "soroban_withRetry cfg startTime clk rnd op =
     (let mr = min (maxRetries cfg) 10
      in if mr < 0
         then \<lparr>rpc_calls = 0, rpc_result = Inl JUndef, sleeps = [], causes = [],
               budgetExhausted = False\<rparr>
         else soroban_loop (nat mr) cfg startTime clk rnd op 0)"

section \<open>callSorobanContract\<close>

text \<open>The shared breaker has no fallback. The result carries the outcome label given to the
  duration timer and the number of RPC calls made.\<close>

definition getSorobanOutcomeLabel :: "('a, jsval) exec_result \<Rightarrow> string" where
  "getSorobanOutcomeLabel r =
     (case r of Returned _ \<Rightarrow> ''success'' | CircuitOpen \<Rightarrow> ''circuit_open'' | Threw e \<Rightarrow>
        if is_object e \<and> js_get e ''code'' = JStr ''CIRCUIT_OPEN'' then ''circuit_open'' else ''error''
      | Fallback _ \<Rightarrow> ''success'')"

record 'a contract_call =
  cc_result :: "('a, jsval) exec_result"
  cc_label :: string
  cc_rpc_calls :: nat
  cc_breaker :: breaker

definition callSorobanContract ::
  "soroban_config \<Rightarrow> time \<Rightarrow> time \<Rightarrow> (nat \<Rightarrow> time) \<Rightarrow> (nat \<Rightarrow> rat) \<Rightarrow> (nat \<Rightarrow> jsval + 'a) \<Rightarrow>
   breaker \<Rightarrow> 'a contract_call" where
  "callSorobanContract cfg now later clk rnd op b =
     (case admit now b of
        (Some r, b') \<Rightarrow> \<lparr>cc_result = r, cc_label = getSorobanOutcomeLabel r, cc_rpc_calls = 0,
                         cc_breaker = b'\<rparr>
      | (None, b') \<Rightarrow>
          let run = soroban_withRetry cfg now clk rnd op;
              res = (case rpc_result run of Inr v \<Rightarrow> Success v | Inl e \<Rightarrow> Failure e);
              settled = settle later res b'
          in \<lparr>cc_result = fst settled, cc_label = getSorobanOutcomeLabel (fst settled),
              cc_rpc_calls = rpc_calls run, cc_breaker = snd settled\<rparr>)"

section \<open>Lemmas\<close>

lemma has_phrase_sublist: "has_phrase prev p s \<Longrightarrow> sublist p (to_lower s)"
proof (induction prev p s rule: has_phrase.induct)
  case (1 prev p)
  then show ?case by (auto simp: phrase_here_def starts_with_iff_prefix prefix_imp_sublist)
next
  case (2 prev p c s)
  then show ?case
    by (auto simp: phrase_here_def starts_with_iff_prefix to_lower_def sublist_Cons_right)
qed

lemma matches_any_sublist: "matches_any ps m \<Longrightarrow> \<exists>p\<in>set ps. sublist p (to_lower m)"
  by (auto simp: matches_any_def list_ex_iff intro: has_phrase_sublist)

lemma computeBackoff_bounds:
  assumes "0 \<le> maxd"
  shows "0 \<le> computeBackoff n base maxd rnd \<and> computeBackoff n base maxd rnd \<le> min maxd 60000"
proof -
  have m: "0 \<le> min (max 0 x) b \<and> min (max 0 x) b \<le> b" if "0 \<le> b" for x b :: int
    using that by auto
  show ?thesis unfolding computeBackoff_def Let_def by (rule m) (use assms in simp)
qed

lemma soroban_loop_done:
  assumes "\<And>e. op a = Inl e \<Longrightarrow> mr \<le> a \<or> \<not> isRetryable e \<or>
    clk a - st \<ge> min (maxElapsedMs cfg) 120000"
  shows "rpc_calls (soroban_loop mr cfg st clk rnd op a) = a + 1"
    "rpc_result (soroban_loop mr cfg st clk rnd op a) = op a"
    "sleeps (soroban_loop mr cfg st clk rnd op a) = []"
proof -
  have "\<exists>x. soroban_loop mr cfg st clk rnd op a = \<lparr>rpc_calls = a + 1, rpc_result = op a,
      sleeps = [], causes = [], budgetExhausted = x\<rparr>"
  proof (cases "op a")
    case (Inl e)
    then show ?thesis using assms[OF Inl]
      by (subst soroban_loop.simps) (auto simp only: isRetryable_def sum.case split: if_split)
  next
    case (Inr v)
    then show ?thesis by (subst soroban_loop.simps) auto
  qed
  then show "rpc_calls (soroban_loop mr cfg st clk rnd op a) = a + 1"
    "rpc_result (soroban_loop mr cfg st clk rnd op a) = op a"
    "sleeps (soroban_loop mr cfg st clk rnd op a) = []" by auto
qed

lemma soroban_loop_again:
  assumes "op a = Inl e" "a < mr" "isRetryable e" "clk a - st < min (maxElapsedMs cfg) 120000"
  shows "rpc_calls (soroban_loop mr cfg st clk rnd op a) =
      rpc_calls (soroban_loop mr cfg st clk rnd op (Suc a))"
    "rpc_result (soroban_loop mr cfg st clk rnd op a) =
      rpc_result (soroban_loop mr cfg st clk rnd op (Suc a))"
    "sleeps (soroban_loop mr cfg st clk rnd op a) =
      computeBackoff a (baseDelay cfg) (maxDelay cfg) (rnd a) #
        sleeps (soroban_loop mr cfg st clk rnd op (Suc a))"
proof -
  have n: "\<not> (mr \<le> a \<or> \<not> retryable (classifySorobanError e))"
    "\<not> min (maxElapsedMs cfg) 120000 \<le> clk a - st"
    using assms by (auto simp: isRetryable_def)
  then have "soroban_loop mr cfg st clk rnd op a =
      (let r = soroban_loop mr cfg st clk rnd op (a + 1)
       in r\<lparr>sleeps := computeBackoff a (baseDelay cfg) (maxDelay cfg) (rnd a) # sleeps r,
            causes := getRetryCauseLabel (classifySorobanError e) # causes r\<rparr>)"
    using assms(1) by (subst soroban_loop.simps) (simp only: sum.case if_False)
  then show "rpc_calls (soroban_loop mr cfg st clk rnd op a) =
      rpc_calls (soroban_loop mr cfg st clk rnd op (Suc a))"
    "rpc_result (soroban_loop mr cfg st clk rnd op a) =
      rpc_result (soroban_loop mr cfg st clk rnd op (Suc a))"
    "sleeps (soroban_loop mr cfg st clk rnd op a) =
      computeBackoff a (baseDelay cfg) (maxDelay cfg) (rnd a) #
        sleeps (soroban_loop mr cfg st clk rnd op (Suc a))"
    by (simp_all add: Let_def)
qed

lemma soroban_loop_spec:
  assumes "k0 \<le> mr" "r = soroban_loop mr cfg st clk rnd op k0"
  shows "k0 + 1 \<le> rpc_calls r \<and> rpc_calls r \<le> mr + 1 \<and> rpc_result r = op (rpc_calls r - 1) \<and>
    (\<forall>i. k0 \<le> i \<and> i < rpc_calls r - 1 \<longrightarrow> (\<exists>e. op i = Inl e \<and> isRetryable e) \<and>
       clk i - st < min (maxElapsedMs cfg) 120000) \<and>
    length (sleeps r) = rpc_calls r - 1 - k0 \<and>
    (0 \<le> maxDelay cfg \<longrightarrow> (\<forall>d\<in>set (sleeps r). 0 \<le> d \<and> d \<le> min (maxDelay cfg) 60000))"
  using assms
proof (induction "mr - k0" arbitrary: k0 r)
  case 0
  then have m: "mr \<le> k0" by simp
  have "rpc_calls r = k0 + 1" "rpc_result r = op k0" "sleeps r = []"
    unfolding 0(3) by (rule soroban_loop_done; simp add: m)+
  with 0(2) show ?case by auto
next
  case (Suc k)
  show ?case
  proof (cases "\<exists>e. op k0 = Inl e \<and> isRetryable e \<and> clk k0 - st < min (maxElapsedMs cfg) 120000")
    case False
    then have "rpc_calls r = k0 + 1" "rpc_result r = op k0" "sleeps r = []"
      unfolding Suc.prems(2) by (intro soroban_loop_done; force simp: not_less)+
    with Suc.prems(1) show ?thesis by auto
  next
    case True
    then obtain e where e: "op k0 = Inl e" "isRetryable e"
      "clk k0 - st < min (maxElapsedMs cfg) 120000" by blast
    have lt: "k0 < mr" using Suc.hyps(2) by simp
    note r = soroban_loop_again[where rnd = rnd and op = op and a = k0 and clk = clk and cfg = cfg and st = st,
        OF e(1) lt e(2,3), folded Suc.prems(2)]
    define r1 where "r1 = soroban_loop mr cfg st clk rnd op (Suc k0)"
    from Suc.hyps(1)[OF _ _ r1_def] Suc.hyps(2) lt have IH:
      "Suc k0 + 1 \<le> rpc_calls r1" "rpc_calls r1 \<le> mr + 1" "rpc_result r1 = op (rpc_calls r1 - 1)"
      "\<And>i. Suc k0 \<le> i \<Longrightarrow> i < rpc_calls r1 - 1 \<Longrightarrow> (\<exists>e. op i = Inl e \<and> isRetryable e) \<and>
         clk i - st < min (maxElapsedMs cfg) 120000"
      "length (sleeps r1) = rpc_calls r1 - 1 - Suc k0"
      "0 \<le> maxDelay cfg \<Longrightarrow> \<forall>d\<in>set (sleeps r1). 0 \<le> d \<and> d \<le> min (maxDelay cfg) 60000"
      by auto
    have f1: "(\<exists>e. op i = Inl e \<and> isRetryable e) \<and> clk i - st < min (maxElapsedMs cfg) 120000"
      if "k0 \<le> i" "i < rpc_calls r1 - 1" for i
      using that IH(4)[of i] e by (cases "i = k0") auto
    have f2: "\<forall>d\<in>set (sleeps r). 0 \<le> d \<and> d \<le> min (maxDelay cfg) 60000"
      if "0 \<le> maxDelay cfg"
      using IH(6)[OF that] computeBackoff_bounds[OF that] r(3) by (simp add: r1_def)
    have f3: "length (sleeps r) = Suc (length (sleeps r1))" "rpc_calls r = rpc_calls r1"
      "rpc_result r = rpc_result r1"
      by (simp_all only: r r1_def list.size)
    show ?thesis
    proof (intro conjI allI impI)
      show "k0 + 1 \<le> rpc_calls r" "rpc_calls r \<le> mr + 1" "rpc_result r = op (rpc_calls r - 1)"
        "length (sleeps r) = rpc_calls r - 1 - k0"
        using IH(1-3,5) f3 by simp_all
    qed (use f1 f2 f3(2) in auto)
  qed
qed

lemma soroban_withRetry_loop:
  assumes "0 \<le> maxRetries cfg"
  shows "soroban_withRetry cfg st clk rnd op =
    soroban_loop (nat (min (maxRetries cfg) 10)) cfg st clk rnd op 0"
proof -
  have "\<not> min (maxRetries cfg) 10 < 0" using assms by simp
  then show ?thesis by (simp only: soroban_withRetry_def Let_def if_False)
qed

interpretation sr: retry_loop
  "\<lambda>op. (rpc_calls (soroban_loop mr cfg st clk rnd op 0), rpc_result (soroban_loop mr cfg st clk rnd op 0))"
  mr isRetryable
  for mr cfg st clk rnd
proof (unfold_locales, goal_cases)
  case (1 op n r)
  then show ?case using soroban_loop_spec[of 0 mr _ cfg st clk rnd op] by force
next
  case (2 op n r)
  then show ?case using soroban_loop_spec[of 0 mr _ cfg st clk rnd op] by force
next
  case (3 op n r i)
  then show ?case using soroban_loop_spec[of 0 mr _ cfg st clk rnd op] by force
qed

section \<open>Properties\<close>

text \<open>Free text cannot make a permanent error retryable unless it spells out one of the listed
  phrases. An error without a structured code, status or response is retryable only if its message
  contains, up to case, one of the transient phrases; a message without letters (such as bare
  status digits) is never retried.\<close>

theorem no_injected_retry:
  assumes "js_get err ''code'' = JUndef" "js_get err ''status'' = JUndef"
    "js_get err ''response'' = JUndef" "js_get err ''message'' = JStr m" "isRetryable err"
  shows "(\<exists>p \<in> set (rate_limit_phrases @ gateway_phrases @ timeout_phrases @ network_phrases).
      sublist p (to_lower m)) \<and> (\<exists>c \<in> set (to_lower m). is_lower c)"
proof -
  have "to_upper [] \<notin> set retryable_network_codes" by code_simp
  moreover have "raw_status err = JUndef"
    using assms by (simp add: raw_status_def js_coalesce_def js_nullish_def)
  ultimately have "matches_any rate_limit_phrases m \<or> matches_any gateway_phrases m \<or>
      matches_any timeout_phrases m \<or> matches_any network_phrases m"
    using assms by (auto simp: isRetryable_def classifySorobanError_def str_or_empty_def Let_def
        split: if_splits)
  then obtain p where p: "p \<in> set (rate_limit_phrases @ gateway_phrases @ timeout_phrases @
      network_phrases)" "sublist p (to_lower m)"
    by (auto dest!: matches_any_sublist)
  have "\<forall>p \<in> set (rate_limit_phrases @ gateway_phrases @ timeout_phrases @ network_phrases).
      \<exists>c\<in>set p. is_lower c" by code_simp
  with p have "\<exists>c \<in> set (to_lower m). is_lower c" by (meson set_mono_sublist subsetD)
  with p show ?thesis by blast
qed

theorem no_injected_retry_witness:
  "\<exists>p \<in> set (rate_limit_phrases @ gateway_phrases @ timeout_phrases @ network_phrases).
     sublist p (to_lower ''Timeout'')"
proof -
  have "matches_any timeout_phrases ''Timeout''" by code_simp
  then have "isRetryable (JObj [(''message'', JStr ''Timeout'')])"
    by (simp add: isRetryable_def classifySorobanError_def is_object_def str_or_empty_def Let_def)
  note r = no_injected_retry[OF _ _ _ _ this, of "''Timeout''"]
  show ?thesis by (rule conjunct1[OF r]) simp_all
qed

text \<open>A contract call is bounded. Whatever the configuration with a non-negative delay cap, one
  call makes at most eleven RPC attempts and none at all while the circuit is open; the attempts
  before the last failed with retryable errors inside the elapsed-time budget (at most two
  minutes), and every pause lies between zero and the smaller of \<open>maxDelay\<close> and one minute.\<close>

theorem soroban_retry_bounded:
  assumes "0 \<le> maxRetries cfg" "0 \<le> maxDelay cfg"
    "r = soroban_withRetry cfg st clk rnd op"
  shows "1 \<le> rpc_calls r \<and> rpc_calls r \<le> 11 \<and> int (rpc_calls r) \<le> maxRetries cfg + 1 \<and>
    rpc_result r = op (rpc_calls r - 1) \<and>
    (\<forall>i < rpc_calls r - 1. (\<exists>e. op i = Inl e \<and> isRetryable e) \<and>
       clk i - st < min (maxElapsedMs cfg) 120000) \<and>
    length (sleeps r) = rpc_calls r - 1 \<and>
    (\<forall>d \<in> set (sleeps r). 0 \<le> d \<and> d \<le> min (maxDelay cfg) 60000)"
proof -
  let ?mr = "nat (min (maxRetries cfg) 10)"
  have "?mr \<le> 10" "int ?mr \<le> maxRetries cfg" using assms(1) by auto
  moreover have "r = soroban_loop ?mr cfg st clk rnd op 0"
    unfolding assms(3) by (rule soroban_withRetry_loop[OF assms(1)])
  note s = soroban_loop_spec[OF le0 this]
  ultimately have "rpc_calls r \<le> 11" "int (rpc_calls r) \<le> maxRetries cfg + 1" by linarith+
  with s assms(2) show ?thesis by simp
qed

theorem soroban_retry_bounded_witness:
  "rpc_calls (soroban_withRetry SOROBAN_RETRY_CONFIG 0 (\<lambda>_. 0) (\<lambda>_. 0)
     (\<lambda>_. Inl (JObj [(''status'', JInt 503)]) :: jsval + unit)) \<le> 4"
  using soroban_retry_bounded[OF _ _ refl, of SOROBAN_RETRY_CONFIG 0 "\<lambda>_. 0" "\<lambda>_. 0"
      "\<lambda>_. Inl (JObj [(''status'', JInt 503)]) :: jsval + unit"]
  by (simp add: SOROBAN_RETRY_CONFIG_def)

text \<open>C21: The retries of one contract call count as a single result for the circuit breaker. When
  the breaker is open and its recovery time has not come, the call makes no RPC attempt, is
  labelled \<open>circuit_open\<close> and leaves the breaker alone; when the breaker is closed, an operation
  that keeps failing adds exactly one to its failure count, however often it was retried, and a
  success resets the count.\<close>

theorem contract_call_breaker:
  fixes op :: "nat \<Rightarrow> jsval + 'a"
  assumes "\<not> hasFallback b" "c = callSorobanContract cfg now later clk rnd op b"
  shows "(state b = OPEN \<and> now < nextAttemptTime b \<longrightarrow>
      cc_rpc_calls c = 0 \<and> cc_result c = CircuitOpen \<and> cc_label c = ''circuit_open'' \<and>
      cc_breaker c = b) \<and>
    (state b = CLOSED \<and> 0 \<le> maxRetries cfg \<and> (\<forall>n. \<exists>e. op n = Inl e) \<longrightarrow>
      failureCount (cc_breaker c) = failureCount b + 1 \<and> 1 \<le> cc_rpc_calls c \<and>
      (\<exists>e. cc_result c = Threw e \<and> op (cc_rpc_calls c - 1) = Inl e)) \<and>
    (\<forall>v. state b = CLOSED \<and> 0 \<le> maxRetries cfg \<and> op 0 = Inr v \<longrightarrow>
      failureCount (cc_breaker c) = 0 \<and> cc_result c = Returned v \<and> cc_rpc_calls c = 1)"
proof (intro conjI impI allI)
  assume "state b = OPEN \<and> now < nextAttemptTime b"
  then show "cc_rpc_calls c = 0" "cc_result c = CircuitOpen" "cc_label c = ''circuit_open''"
    "cc_breaker c = b"
    using assms by (simp_all add: callSorobanContract_def admit_def getSorobanOutcomeLabel_def)
next
  assume a: "state b = CLOSED \<and> 0 \<le> maxRetries cfg \<and> (\<forall>n. \<exists>e. op n = Inl e)"
  let ?mr = "nat (min (maxRetries cfg) 10)" and ?r = "soroban_withRetry cfg now clk rnd op"
  have r: "?r = soroban_loop ?mr cfg now clk rnd op 0"
    using a by (simp add: soroban_withRetry_loop)
  from soroban_loop_spec[of 0 ?mr ?r cfg now clk rnd op] r
  have s: "1 \<le> rpc_calls ?r" "rpc_result ?r = op (rpc_calls ?r - 1)" by auto
  from a obtain e where e: "op (rpc_calls ?r - 1) = Inl e" by blast
  let ?f = "onFailure later e b :: ('a, jsval) exec_result \<times> breaker"
  have c: "c = \<lparr>cc_result = fst ?f, cc_label = getSorobanOutcomeLabel (fst ?f),
      cc_rpc_calls = rpc_calls ?r, cc_breaker = snd ?f\<rparr>"
    using a s(2) e assms(2) by (simp add: callSorobanContract_def admit_def Let_def)
  show "failureCount (cc_breaker c) = failureCount b + 1" "1 \<le> cc_rpc_calls c"
    "\<exists>e. cc_result c = Threw e \<and> op (cc_rpc_calls c - 1) = Inl e"
    using c s(1) e assms(1) by (simp_all add: onFailure_def Let_def)
next
  fix v assume a: "state b = CLOSED \<and> 0 \<le> maxRetries cfg \<and> op 0 = Inr v"
  let ?mr = "nat (min (maxRetries cfg) 10)" and ?r = "soroban_withRetry cfg now clk rnd op"
  have r: "?r = soroban_loop ?mr cfg now clk rnd op 0"
    using a by (simp add: soroban_withRetry_loop)
  have "rpc_calls ?r = 1" "rpc_result ?r = Inr v"
    using sr.immediate[of op ?mr cfg now clk rnd] a unfolding r by auto
  then show "failureCount (cc_breaker c) = 0" "cc_result c = Returned v" "cc_rpc_calls c = 1"
    using a assms(2)
    by (simp_all add: callSorobanContract_def admit_def Let_def onSuccess_def)
qed

theorem contract_call_breaker_witness:
  "failureCount (cc_breaker (callSorobanContract SOROBAN_RETRY_CONFIG 0 5 (\<lambda>_. 0) (\<lambda>_. 0)
     (\<lambda>_. Inl JNull :: jsval + unit) (new_CircuitBreaker None None False 0))) = 1"
  using contract_call_breaker[OF _ refl, where b = "new_CircuitBreaker None None False 0" and
      cfg = SOROBAN_RETRY_CONFIG and op = "\<lambda>_. Inl JNull :: jsval + unit"]
  by (simp add: SOROBAN_RETRY_CONFIG_def new_CircuitBreaker_def)

end
