(* ===== verification/DurableQueue.thy ===== *)
theory DurableQueue
  imports Worker Retry "HOL-Library.Multiset"
begin

text \<open>
  The database-backed queue: class \<open>DurableJobQueue\<close> and the payload helpers of
  \<open>src/src/workers/jobQueue.js\<close>, and the transaction submitter built on it,
  \<open>src/src/workers/txSubmitter.js\<close>.

  The table \<open>tx_submissions\<close> is a map from id to row; whether a statement succeeds is an argument
  (\<open>db_ok\<close>). The digest of a canonical payload (\<open>JSON.stringify\<close> and SHA-256) and \<open>JSON.parse\<close> are
  arguments too. Three names that the module uses but never binds (\<open>SECRET_KEY_PATTERN\<close>,
  \<open>REDACTED\<close>, \<open>NON_TERMINAL_STATUSES\<close>) raise a \<open>ReferenceError\<close> where they are evaluated.
\<close>

section \<open>Payload helpers\<close>

fun sortKeys :: "jsval \<Rightarrow> jsval" where
  "sortKeys (JArr vs) = JArr (map sortKeys vs)"
| "sortKeys (JObj kvs) = JObj (sort_key fst (map (\<lambda>(k, v). (k, sortKeys v)) kvs))"
| "sortKeys v = v"

definition computePayloadFingerprint :: "(jsval \<Rightarrow> string) \<Rightarrow> jsval \<Rightarrow> string" where
  "computePayloadFingerprint digest p = digest (sortKeys p)"

text \<open>The reducer of \<open>sanitizePayloadForPersistence\<close> evaluates \<open>SECRET_KEY_PATTERN\<close> for the first
  entry of an object, so only values without a non-empty object get through.\<close>

fun sanitizePayloadForPersistence :: "jsval \<Rightarrow> queue_error + jsval"
and sanitize_array :: "jsval list \<Rightarrow> queue_error + jsval list" where
  "sanitizePayloadForPersistence (JArr vs) =
     (case sanitize_array vs of Inl e \<Rightarrow> Inl e | Inr ws \<Rightarrow> Inr (JArr ws))"
| "sanitizePayloadForPersistence (JObj []) = Inr (JObj [])"
| "sanitizePayloadForPersistence (JObj (_ # _)) = Inl (ReferenceError ''SECRET_KEY_PATTERN'')"
| "sanitizePayloadForPersistence v = Inr v"
| "sanitize_array [] = Inr []"
| "sanitize_array (v # vs) =
     (case sanitizePayloadForPersistence v of
        Inl e \<Rightarrow> Inl e
      | Inr w \<Rightarrow> (case sanitize_array vs of Inl e \<Rightarrow> Inl e | Inr ws \<Rightarrow> Inr (w # ws)))"

section \<open>The queue\<close>

record tx_row =
  row_id :: string
  row_job_type :: string
  payload_fingerprint :: string
  row_payload :: jsval
  row_status :: job_status
  row_attempts :: nat
  row_priority :: int
  delay_until_ms :: int
  last_error :: "string option"
  created_at :: time
  started_at :: "time option"
  completed_at :: "time option"

record durable_queue =
  base :: job_queue
  rows :: "(string, tx_row) amap"
  restored :: bool

datatype durable_error = QueueError queue_error | DbError | NoKnexInstance | SyntaxError

definition new_DurableJobQueue ::
  "queue_options \<Rightarrow> bool \<Rightarrow> (string, tx_row) amap \<Rightarrow> durable_error + durable_queue" where
  "new_DurableJobQueue opts dbIsFunction table =
     (if \<not> dbIsFunction then Inl NoKnexInstance
      else Inr \<lparr>base = new_JobQueue opts, rows = table, restored = False\<rparr>)"

definition durable_enqueue ::
  "(jsval \<Rightarrow> string) \<Rightarrow> bool \<Rightarrow> durable_queue \<Rightarrow> jsval \<Rightarrow> string + jsval \<Rightarrow> enqueue_options \<Rightarrow>
   string \<Rightarrow> time \<Rightarrow> (durable_error + string) \<times> durable_queue" where
  "durable_enqueue digest db_ok q ty pl opts hex now =
     (case enqueue (base q) ty pl opts hex now of
        Inl e \<Rightarrow> (Inl (QueueError e), q)
      | Inr (jobId, b') \<Rightarrow>
          let q1 = q\<lparr>base := b'\<rparr> in
          (case (pl, map_of (jobs b') jobId) of
             (Inr p, Some job) \<Rightarrow>
               (case sanitizePayloadForPersistence p of
                  Inl e \<Rightarrow> (Inl (QueueError e), q1)
                | Inr sp \<Rightarrow>
                    if \<not> db_ok then (Inl DbError, q1)
                    else (Inr jobId, q1\<lparr>rows := AList.update jobId
                      \<lparr>row_id = jobId, row_job_type = job_type job,
                       payload_fingerprint = computePayloadFingerprint digest sp,
                       row_payload = sp, row_status = status job, row_attempts = attempts job,
                       row_priority = priority job, delay_until_ms = delayMs job,
                       last_error = lastError job, created_at = createdAt job,
                       started_at = None, completed_at = None\<rparr> (rows q1)\<rparr>))
           | _ \<Rightarrow> (Inl DbError, q1)))"

text \<open>\<open>_persistJobState\<close>: an \<open>UPDATE\<close> of the row with that id, if there is one. A failure is
  caught by the callers.\<close>

definition persistJobState :: "bool \<Rightarrow> job \<Rightarrow> durable_queue \<Rightarrow> durable_queue" where
  "persistJobState db_ok job q =
     (case map_of (rows q) (job_id job) of
        None \<Rightarrow> q
      | Some r \<Rightarrow>
          if \<not> db_ok then q
          else q\<lparr>rows := AList.update (job_id job)
            (r\<lparr>row_status := status job, row_attempts := attempts job,
               row_priority := priority job, delay_until_ms := delayMs job,
               last_error := lastError job, started_at := startedAt job,
               completed_at := completedAt job\<rparr>) (rows q)\<rparr>)"

definition persist_by_id :: "bool \<Rightarrow> string \<Rightarrow> durable_queue \<Rightarrow> durable_queue" where
  "persist_by_id db_ok jobId q =
     (case getJob (base q) jobId of None \<Rightarrow> q | Some job \<Rightarrow> persistJobState db_ok job q)"

definition durable_ack :: "bool \<Rightarrow> durable_queue \<Rightarrow> string \<Rightarrow> time \<Rightarrow> queue_error + durable_queue" where
  "durable_ack db_ok q jobId now =
     (case ack (base q) jobId now of
        Inl e \<Rightarrow> Inl e
      | Inr b' \<Rightarrow> Inr (persist_by_id db_ok jobId (q\<lparr>base := b'\<rparr>)))"

definition durable_retry ::
  "bool \<Rightarrow> durable_queue \<Rightarrow> string \<Rightarrow> string \<Rightarrow> time \<Rightarrow> queue_error + durable_queue" where
  "durable_retry db_ok q jobId err now =
     (case retry (base q) jobId err now of
        Inl e \<Rightarrow> Inl e
      | Inr b' \<Rightarrow> Inr (persist_by_id db_ok jobId (q\<lparr>base := b'\<rparr>)))"

definition durable_dequeue ::
  "bool \<Rightarrow> (nat \<Rightarrow> time) \<Rightarrow> durable_queue \<Rightarrow> (job option \<times> durable_queue) option" where
  "durable_dequeue db_ok clk q =
     (case dequeue clk (base q) of
        None \<Rightarrow> None
      | Some (None, b') \<Rightarrow> Some (None, q\<lparr>base := b'\<rparr>)
      | Some (Some job, b') \<Rightarrow> Some (Some job, persistJobState db_ok job (q\<lparr>base := b'\<rparr>)))"

definition rowToJob :: "(string \<Rightarrow> string + jsval) \<Rightarrow> tx_row \<Rightarrow> durable_error + job" where
  "rowToJob parse r =
     (case (case row_payload r of JStr s \<Rightarrow> parse s | v \<Rightarrow> Inr v) of
        Inl _ \<Rightarrow> Inl SyntaxError
      | Inr p \<Rightarrow> Inr \<lparr>job_id = row_id r, job_type = row_job_type r, payload = p,
            status = row_status r, priority = row_priority r, delayMs = delay_until_ms r,
            createdAt = created_at r, startedAt = started_at r, completedAt = completed_at r,
            attempts = row_attempts r, lastError = last_error r\<rparr>)"

text \<open>The loop of \<open>restore\<close> over the rows of the query: restored and skipped counts.\<close>

fun restore_rows ::
  "(string \<Rightarrow> string + jsval) \<Rightarrow> tx_row list \<Rightarrow> nat \<Rightarrow> nat \<Rightarrow> durable_queue \<Rightarrow>
   (durable_error + (nat \<times> nat)) \<times> durable_queue" where
  "restore_rows parse [] n m q = (Inr (n, m), q)"
| "restore_rows parse (r # rs) n m q =
     (if amap_has (jobs (base q)) (row_id r) then restore_rows parse rs n (m + 1) q
      else (case rowToJob parse r of
          Inl e \<Rightarrow> (Inl e, q)
        | Inr job0 \<Rightarrow>
            let (job, q1) =
                  (if row_status r = PROCESSING
                   then (job0\<lparr>status := PENDING, startedAt := None\<rparr>,
                         q\<lparr>rows := AList.update (row_id r)
                             (r\<lparr>row_status := PENDING, started_at := None\<rparr>) (rows q)\<rparr>)
                   else (job0, q));
                b1 = (base q1)\<lparr>jobs := AList.update (job_id job) job (jobs (base q1))\<rparr>;
                b2 = (if status job = RETRYING
                      then b1\<lparr>retryQueue := retryQueue b1 @ [job_id job]\<rparr>
                      else b1\<lparr>queue := queue b1 @ [job_id job]\<rparr>)
            in restore_rows parse rs (n + 1) m (q1\<lparr>base := b2\<rparr>)))"

text \<open>\<open>restore\<close>: \<open>statuses\<close> is what the name \<open>NON_TERMINAL_STATUSES\<close> is bound to, \<open>None\<close> when it is
  unbound.\<close>

definition durable_restore ::
  "job_status list option \<Rightarrow> (string \<Rightarrow> string + jsval) \<Rightarrow> durable_queue \<Rightarrow>
   (durable_error + (nat \<times> nat)) \<times> durable_queue" where
  "durable_restore statuses parse q =
     (if restored q then (Inr (0, 0), q)
      else (case statuses of
          None \<Rightarrow> (Inl (QueueError (ReferenceError ''NON_TERMINAL_STATUSES'')), q)
        | Some sts \<Rightarrow>
            let found = sort_key created_at (filter (\<lambda>r. row_status r \<in> set sts) (map snd (rows q)))
            in case restore_rows parse found 0 0 q of
                 (Inl e, q') \<Rightarrow> (Inl e, q')
               | (Inr c, q') \<Rightarrow> (Inr c, q'\<lparr>restored := True\<rparr>)))"

text \<open>The module binds no such name.\<close>

definition NON_TERMINAL_STATUSES :: "job_status list option" where
  "NON_TERMINAL_STATUSES = None"

section \<open>Submitting transactions\<close>

text \<open>\<open>str\<close> is the conversion \<open>String(...)\<close>.\<close>

definition isRetryableSubmitError :: "(jsval \<Rightarrow> string) \<Rightarrow> jsval \<Rightarrow> bool" where
  "isRetryableSubmitError str err \<longleftrightarrow>
     (case err of JArr _ \<Rightarrow> True | JObj _ \<Rightarrow> True | _ \<Rightarrow> False) \<and>
     (let code = to_lower (str (js_or (js_get err ''code'') (JStr [])));
          msg = to_lower (str (js_or (js_get err ''message'') err));
          res = js_get err ''result'';
          resultCode = js_or (js_get res ''code'') (js_get (js_get res ''result'') ''code'')
      in code \<in> {''etimedout'', ''econnreset'', ''eai_again'', ''enotfound''} \<or>
         list_ex (str_includes msg)
           [''tx_bad_seq'', ''timeout'', ''timed out'', ''transaction_timeout''] \<or>
         (case resultCode of JStr c \<Rightarrow> str_includes (to_lower c) ''tx_bad_seq'' | _ \<Rightarrow> False))"

definition computeTxBackoff :: "nat \<Rightarrow> int \<Rightarrow> int \<Rightarrow> int" where
  "computeTxBackoff attempt base_delay max_delay = max 0 (min (base_delay * 2 ^ attempt) max_delay)"

record tx_config =
  tx_maxRetries :: int
  tx_baseDelayMs :: int
  tx_maxDelayMs :: int

definition DEFAULT_CONFIG :: tx_config where
  "DEFAULT_CONFIG = \<lparr>tx_maxRetries = min 3 10, tx_baseDelayMs = min 500 10000,
     tx_maxDelayMs = min 20000 60000\<rparr>"

function submit_loop ::
  "('e \<Rightarrow> bool) \<Rightarrow> nat \<Rightarrow> tx_config \<Rightarrow> (nat \<Rightarrow> 'e + 'a) \<Rightarrow> nat \<Rightarrow> nat \<times> ('e + 'a) \<times> int list" where
  "submit_loop retryable mr cfg op attempt =
     (case op attempt of
        Inr v \<Rightarrow> (attempt + 1, Inr v, [])
      | Inl err \<Rightarrow>
          if attempt \<ge> mr \<or> \<not> retryable err then (attempt + 1, Inl err, [])
          else (case submit_loop retryable mr cfg op (attempt + 1) of
              (n, r, ds) \<Rightarrow> (n, r,
                 computeTxBackoff attempt (tx_baseDelayMs cfg) (tx_maxDelayMs cfg) # ds)))"
  by pat_completeness auto
termination by (relation "measure (\<lambda>(_, mr, _, _, attempt). mr - attempt)") auto

declare submit_loop.simps [simp del]

text \<open>With a negative \<open>maxRetries\<close> the loop is not entered and \<open>undefined\<close> is thrown.\<close>

definition submitWithRetry ::
  "(jsval \<Rightarrow> string) \<Rightarrow> tx_config \<Rightarrow> (nat \<Rightarrow> jsval + 'a) \<Rightarrow> nat \<times> (jsval + 'a) \<times> int list" where
  "submitWithRetry str cfg op =
     (if tx_maxRetries cfg < 0 then (0, Inl JUndef, [])
      else submit_loop (isRetryableSubmitError str) (nat (tx_maxRetries cfg)) cfg op 0)"

datatype 'a submit_result = InvalidPayload | MissingXdr | Submitted "nat \<times> (jsval + 'a) \<times> int list"

definition handleTxSubmitJob ::
  "(jsval \<Rightarrow> string) \<Rightarrow> tx_config \<Rightarrow> job \<Rightarrow> (jsval \<Rightarrow> nat \<Rightarrow> jsval + 'a) \<Rightarrow> 'a submit_result" where
  "handleTxSubmitJob str cfg job submitFn =
     (if \<not> (case payload job of JArr _ \<Rightarrow> True | JObj _ \<Rightarrow> True | _ \<Rightarrow> False) then InvalidPayload
      else (case js_get (payload job) ''signedTransactionXdr'' of
          JStr xdr \<Rightarrow>
            if trim xdr = [] then MissingXdr
            else Submitted (submitWithRetry str cfg (submitFn (payload job)))
        | _ \<Rightarrow> MissingXdr))"

text \<open>\<open>createTxSubmitterWorker\<close>: the class \<open>JobQueue\<close> is destructured from a module that exports it
  as the module itself, so the non-durable branch constructs \<open>undefined\<close>.\<close>

datatype create_error = TypeError | CreateError durable_error

definition tx_queue_options :: queue_options where
  "tx_queue_options = \<lparr>opt_maxRetries = Some 0, opt_maxQueueSize = None, opt_persistence = False\<rparr>"

record tx_controller =
  txQueue :: durable_queue
  tc_restored :: bool
  txRunning :: bool

definition createTxSubmitterWorker ::
  "bool \<Rightarrow> bool \<Rightarrow> (string, tx_row) amap \<Rightarrow> create_error + tx_controller" where
  "createTxSubmitterWorker durable dbIsFunction table =
     (if \<not> durable then Inl TypeError
      else (case new_DurableJobQueue tx_queue_options dbIsFunction table of
          Inl e \<Rightarrow> Inl (CreateError e)
        | Inr q \<Rightarrow> Inr \<lparr>txQueue = q, tc_restored = False, txRunning = False\<rparr>))"

definition ensureRestored ::
  "(string \<Rightarrow> string + jsval) \<Rightarrow> tx_controller \<Rightarrow> (durable_error + (nat \<times> nat)) \<times> tx_controller" where
  "ensureRestored parse c =
     (if tc_restored c then (Inr (0, 0), c)
      else (case durable_restore NON_TERMINAL_STATUSES parse (txQueue c) of
          (Inl e, q') \<Rightarrow> (Inl e, c\<lparr>txQueue := q'\<rparr>)
        | (Inr s, q') \<Rightarrow> (Inr s, c\<lparr>txQueue := q', tc_restored := True\<rparr>)))"

definition enqueueTxSubmission ::
  "(string \<Rightarrow> string + jsval) \<Rightarrow> (jsval \<Rightarrow> string) \<Rightarrow> bool \<Rightarrow> string + jsval \<Rightarrow> enqueue_options \<Rightarrow> string \<Rightarrow>
   time \<Rightarrow> tx_controller \<Rightarrow> (durable_error + string) \<times> tx_controller" where
  "enqueueTxSubmission parse digest db_ok pl opts hex now c =
     (case ensureRestored parse c of
        (Inl e, c1) \<Rightarrow> (Inl e, c1)
      | (Inr _, c1) \<Rightarrow>
          (case durable_enqueue digest db_ok (txQueue c1) (JStr ''submit_soroban_tx'') pl opts hex now of
             (r, q') \<Rightarrow> (r, c1\<lparr>txQueue := q'\<rparr>)))"

definition tx_start ::
  "(string \<Rightarrow> string + jsval) \<Rightarrow> tx_controller \<Rightarrow> (durable_error + unit) \<times> tx_controller" where
  "tx_start parse c =
     (case ensureRestored parse c of
        (Inl e, c1) \<Rightarrow> (Inl e, c1)
      | (Inr _, c1) \<Rightarrow> (Inr (), c1\<lparr>txRunning := True\<rparr>))"

section \<open>Canonical payloads\<close>

lemma sort_key_unique:
  fixes xs ys :: "(string \<times> 'a) list"
  assumes "distinct (map fst xs)" "mset xs = mset ys"
  shows "sort_key fst xs = sort_key fst ys"
proof (rule sort_key_inj_key_eq)
  show "mset xs = mset (sort_key fst ys)" using assms(2) by simp
  show "inj_on fst (set xs)" using assms(1) by (simp add: distinct_map)
qed simp

lemma sortKeys_sorted: "sortKeys (JObj kvs) = JObj kvs' \<Longrightarrow> sorted (map fst kvs')"
  by auto

section \<open>The queue seen by the worker\<close>

lemma base_persist [simp]: "base (persistJobState ok j q) = base q" "base (persist_by_id ok k q) = base q"
  by (auto simp: persistJobState_def persist_by_id_def split: option.splits)

definition durable_inv :: "durable_queue \<Rightarrow> bool" where
  "durable_inv q = jq_inv (base q)"

definition durable_busy :: "durable_queue \<Rightarrow> string set" where
  "durable_busy q = processing_ids (base q)"

definition durable_adds :: "durable_queue \<Rightarrow> durable_queue \<Rightarrow> bool" where
  "durable_adds q q' = enqueues (base q) (base q')"

text \<open>Writing the rows does not change what the worker sees, so the durable queue is a work source
  because the queue below it is one.\<close>

interpretation dq: work_source "durable_dequeue ok1" "durable_ack ok2" "durable_retry ok3"
  durable_adds nonneg_clock durable_inv durable_busy
  for ok1 ok2 ok3
proof (unfold_locales, goal_cases)
  case (1 q c r q')
  then obtain b' where "dequeue c (base q) = Some (r, b')" "base q' = b'"
    by (auto simp: durable_dequeue_def split: option.splits)
  with 1 jq.deq_sound show ?case unfolding durable_inv_def by blast
next
  case (2 q c q')
  then have "dequeue c (base q) = Some (None, base q')"
    by (auto simp: durable_dequeue_def split: option.splits)
  with 2 show ?case unfolding durable_inv_def durable_busy_def by (rule_tac jq.deq_none)
next
  case (3 q c j q')
  then have "dequeue c (base q) = Some (Some j, base q')"
    by (auto simp: durable_dequeue_def split: option.splits)
  with 3 show ?case unfolding durable_inv_def durable_busy_def by (rule_tac jq.deq_some)
next
  case (4 q k t)
  then obtain b' where "ack (base q) k t = Inr b'" "jq_inv b'"
    "processing_ids b' = processing_ids (base q) - {k}"
    using jq.ac_ok[of "base q" k t] unfolding durable_inv_def durable_busy_def by blast
  then show ?case by (simp add: durable_ack_def durable_inv_def durable_busy_def)
next
  case (5 q k e t)
  then obtain b' where "retry (base q) k e t = Inr b'" "jq_inv b'"
    "processing_ids b' = processing_ids (base q) - {k}"
    using jq.retr_ok[of "base q" k e t] unfolding durable_inv_def durable_busy_def by blast
  then show ?case by (simp add: durable_retry_def durable_inv_def durable_busy_def)
next
  case (6 q q')
  then show ?case using jq.adds_ok unfolding durable_inv_def durable_busy_def durable_adds_def by blast
qed

section \<open>The submission loop\<close>

lemma submit_loop_done:
  assumes "\<And>e. op a = Inl e \<Longrightarrow> mr \<le> a \<or> \<not> P e"
  shows "submit_loop P mr cfg op a = (a + 1, op a, [])"
  using assms by (subst submit_loop.simps) (auto split: sum.splits)

lemma submit_loop_again:
  assumes "op a = Inl e" "a < mr" "P e"
  shows "submit_loop P mr cfg op a =
    (case submit_loop P mr cfg op (Suc a) of (n, r, ds) \<Rightarrow>
       (n, r, computeTxBackoff a (tx_baseDelayMs cfg) (tx_maxDelayMs cfg) # ds))"
  using assms by (subst submit_loop.simps) simp

lemma submit_loop_spec:
  assumes "k0 \<le> mr" "submit_loop P mr cfg op k0 = (n, r, ds)"
  shows "k0 + 1 \<le> n \<and> n \<le> mr + 1 \<and> r = op (n - 1) \<and>
    (\<forall>i. k0 \<le> i \<and> i < n - 1 \<longrightarrow> (\<exists>e. op i = Inl e \<and> P e)) \<and>
    (\<forall>e. r = Inl e \<longrightarrow> n = mr + 1 \<or> \<not> P e)"
  using assms
proof (induction "mr - k0" arbitrary: k0 n r ds)
  case 0
  then have "(n, r, ds) = (k0 + 1, op k0, [])" by (subst (asm) submit_loop_done) auto
  with 0 show ?case by auto
next
  case (Suc k)
  show ?case
  proof (cases "\<exists>e. op k0 = Inl e \<and> P e")
    case False
    then have "(n, r, ds) = (k0 + 1, op k0, [])"
      using Suc.prems(2) by (subst (asm) submit_loop_done) auto
    with False Suc.prems(1) show ?thesis by auto
  next
    case True
    then obtain e where e: "op k0 = Inl e" "P e" by blast
    have lt: "k0 < mr" using Suc.hyps(2) by simp
    obtain ds' where r1: "submit_loop P mr cfg op (Suc k0) = (n, r, ds')"
      using Suc.prems(2) submit_loop_again[where op = op and a = k0 and P = P and cfg = cfg, OF e(1) lt e(2)]
      by (cases "submit_loop P mr cfg op (Suc k0)") auto
    from Suc.hyps(1)[OF _ _ r1] Suc.hyps(2) lt have IH:
      "Suc k0 + 1 \<le> n" "n \<le> mr + 1" "r = op (n - 1)"
      "\<And>i. Suc k0 \<le> i \<Longrightarrow> i < n - 1 \<Longrightarrow> \<exists>e. op i = Inl e \<and> P e"
      "\<And>e. r = Inl e \<Longrightarrow> n = mr + 1 \<or> \<not> P e" by auto
    have "\<exists>e. op i = Inl e \<and> P e" if "k0 \<le> i" "i < n - 1" for i
      using that IH(4)[of i] e by (cases "i = k0") auto
    with IH(1-3,5) show ?thesis by auto
  qed
qed

interpretation tx: eager_retry_loop
  "\<lambda>op. (fst (submit_loop P mr cfg op 0), fst (snd (submit_loop P mr cfg op 0)))" mr P
  for P mr cfg
proof (unfold_locales, goal_cases)
  case (1 op n r)
  then show ?case using submit_loop_spec[of 0 mr P cfg op]
    by (cases "submit_loop P mr cfg op 0") auto
next
  case (2 op n r)
  then show ?case using submit_loop_spec[of 0 mr P cfg op]
    by (cases "submit_loop P mr cfg op 0") auto
next
  case (3 op n r i)
  then show ?case using submit_loop_spec[of 0 mr P cfg op]
    by (cases "submit_loop P mr cfg op 0") auto
next
  case (4 op n e)
  then show ?case using submit_loop_spec[of 0 mr P cfg op]
    by (cases "submit_loop P mr cfg op 0") auto
qed

section \<open>Properties\<close>

text \<open>The fingerprint of a payload does not depend on the order of its keys: two objects with
  the same entries (and no repeated key) have the same fingerprint, whatever the digest.\<close>

theorem fingerprint_key_order:
  assumes "distinct (map fst kvs)" "mset kvs = mset kvs'"
  shows "computePayloadFingerprint digest (JObj kvs) = computePayloadFingerprint digest (JObj kvs')"
proof -
  let ?f = "\<lambda>(k, v). (k, sortKeys v)"
  have "map fst (map ?f kvs) = map fst kvs" by (simp add: split_beta)
  then have "distinct (map fst (map ?f kvs))" using assms(1) by metis
  moreover have "mset (map ?f kvs) = mset (map ?f kvs')" using assms(2) by simp
  ultimately show ?thesis
    unfolding computePayloadFingerprint_def sortKeys.simps by (metis sort_key_unique)
qed

theorem fingerprint_key_order_witness:
  "computePayloadFingerprint (\<lambda>_. ''x'') (JObj [(''b'', JNull), (''a'', JBool True)]) =
   computePayloadFingerprint (\<lambda>_. ''x'') (JObj [(''a'', JBool True), (''b'', JNull)])"
  by (rule fingerprint_key_order) simp_all

text \<open>The transaction submitter cannot accept or run a transaction. Creating it without a durable
  queue throws; with one, restoring the queue raises a \<open>ReferenceError\<close> (the module does not bind
  \<open>NON_TERMINAL_STATUSES\<close>), so every call of \<open>start\<close> and of \<open>enqueueTxSubmission\<close> is rejected and
  leaves the controller, its queue and the table unchanged.\<close>

theorem tx_submitter_unusable:
  assumes "createTxSubmitterWorker durable dbIsFunction table = r"
  shows "(\<not> durable \<longrightarrow> r = Inl TypeError) \<and>
    (\<forall>c. r = Inr c \<longrightarrow>
       tx_start parse c = (Inl (QueueError (ReferenceError ''NON_TERMINAL_STATUSES'')), c) \<and>
       enqueueTxSubmission parse digest db_ok pl opts hex now c =
         (Inl (QueueError (ReferenceError ''NON_TERMINAL_STATUSES'')), c))"
  using assms
  by (auto simp: createTxSubmitterWorker_def new_DurableJobQueue_def tx_start_def ensureRestored_def
      enqueueTxSubmission_def durable_restore_def NON_TERMINAL_STATUSES_def split: if_splits)

theorem tx_submitter_unusable_witness:
  "\<exists>c. createTxSubmitterWorker True True [] = Inr c \<and> \<not> txRunning (snd (tx_start (\<lambda>_. Inl []) c))"
  using tx_submitter_unusable[OF refl, of True True "[]" "\<lambda>_. Inl []"]
  by (auto simp: createTxSubmitterWorker_def new_DurableJobQueue_def)

text \<open>A durable enqueue of a payload with at least one field is half done: the promise is
  rejected with a \<open>ReferenceError\<close>, no row is written, and yet the job waits in the in-memory
  queue.\<close>

theorem durable_enqueue_half_done:
  assumes "enqueue (base q) ty (Inr (JObj (kv # kvs))) opts hex now = Inr (k, b')"
    "\<not> persistence (base q)"
  shows "durable_enqueue digest db_ok q ty (Inr (JObj (kv # kvs))) opts hex now =
      (Inl (QueueError (ReferenceError ''SECRET_KEY_PATTERN'')), q\<lparr>base := b'\<rparr>) \<and>
    k \<in> set (queue b')"
proof -
  have "\<exists>j. map_of (jobs b') k = Some j" "k \<in> set (queue b')"
    using assms by (auto simp: enqueue_def Let_def split: jsval.splits if_splits)
  then show ?thesis using assms(1) by (auto simp: durable_enqueue_def Let_def)
qed

theorem durable_enqueue_half_done_witness:
  "\<exists>b'. snd (durable_enqueue (\<lambda>_. []) True \<lparr>base = new_JobQueue tx_queue_options, rows = [],
      restored = False\<rparr> (JStr ''submit_soroban_tx'')
      (Inr (JObj [(''signedTransactionXdr'', JStr ''AAAA'')])) \<lparr>opt_priority = None, opt_delayMs = None\<rparr>
      ''c3'' 7) = \<lparr>base = b', rows = [], restored = False\<rparr> \<and> ''job-c3'' \<in> set (queue b')"
proof -
  let ?q = "\<lparr>base = new_JobQueue tx_queue_options, rows = [], restored = False\<rparr>"
  let ?p = "[(''signedTransactionXdr'', JStr ''AAAA'')]"
  obtain b' where "enqueue (base ?q) (JStr ''submit_soroban_tx'') (Inr (JObj ?p))
      \<lparr>opt_priority = None, opt_delayMs = None\<rparr> ''c3'' 7 = Inr (''job-c3'', b')"
    by (simp add: enqueue_def new_JobQueue_def tx_queue_options_def num_or_def trim_def is_ws_def
        code_of_def Let_def)
  from durable_enqueue_half_done[OF this] show ?thesis by (simp add: new_JobQueue_def)
qed

text \<open>Submitting a transaction stops at the first attempt that succeeds or fails with a
  permanent error: with \<open>maxRetries \<ge> 0\<close> the operation is called at most \<open>maxRetries + 1\<close> times,
  the outcome is that of the last call, all earlier calls failed with transient errors, and an
  error outcome means the last error was permanent or the attempts are used up.\<close>

theorem submitWithRetry_outcome:
  assumes "0 \<le> tx_maxRetries cfg" "submitWithRetry str cfg op = (n, r, ds)"
  shows "1 \<le> n \<and> int n \<le> tx_maxRetries cfg + 1 \<and> r = op (n - 1) \<and>
    (\<forall>i < n - 1. \<exists>e. op i = Inl e \<and> isRetryableSubmitError str e) \<and>
    (\<forall>e. r = Inl e \<longrightarrow> int n = tx_maxRetries cfg + 1 \<or> \<not> isRetryableSubmitError str e)"
proof -
  have "submit_loop (isRetryableSubmitError str) (nat (tx_maxRetries cfg)) cfg op 0 = (n, r, ds)"
    using assms by (simp add: submitWithRetry_def)
  from submit_loop_spec[OF le0 this] assms(1) show ?thesis by auto
qed

theorem submitWithRetry_outcome_witness:
  "\<exists>n r ds. submitWithRetry (\<lambda>_. []) DEFAULT_CONFIG (\<lambda>_. Inl JNull :: jsval + unit) = (n, r, ds) \<and>
     r = Inl JNull \<and> n \<le> 4"
proof -
  obtain n r ds where e: "submitWithRetry (\<lambda>_. []) DEFAULT_CONFIG (\<lambda>_. Inl JNull :: jsval + unit) =
      (n, r, ds)" by (metis prod_cases3)
  from submitWithRetry_outcome[OF _ e] have "r = Inl JNull \<and> n \<le> 4" by (simp add: DEFAULT_CONFIG_def)
  with e show ?thesis by blast
qed

end
