(* ===== verification/JobPersistence.thy ===== *)
theory JobPersistence
  imports JobQueue "HOL-Library.Multiset"
begin

text \<open>
  The persistence adapter of the job queue, \<open>src/src/workers/jobPersistence.js\<close>: the table
  \<open>background_jobs\<close> as a list of rows and the adapter's functions on it. Every function catches the
  errors of the database, so each has an argument \<open>db_ok\<close> telling whether the statement succeeds.
  \<open>JSON.stringify\<close> and \<open>JSON.parse\<close> are the arguments \<open>stringify\<close> and \<open>parse\<close>.
\<close>

section \<open>Rows\<close>

record bg_row =
  r_id :: string
  r_type :: string
  r_payload :: jsval
  r_status :: job_status
  r_priority :: int
  r_delay_ms :: int
  r_created_at :: time
  r_started_at :: "time option"
  r_completed_at :: "time option"
  r_attempts :: nat
  r_last_error :: "string option"
  r_acked_at :: "time option"

definition DEFAULT_MAX_RECOVERY_ROWS :: nat where
  "DEFAULT_MAX_RECOVERY_ROWS = 1000"

text \<open>\<open>sanitisePayload\<close>: a JSONB column arrives as a value or as text; what is not a plain object
  is refused.\<close>

definition sanitisePayload :: "(string \<Rightarrow> string + jsval) \<Rightarrow> jsval \<Rightarrow> string + jsval" where
  "sanitisePayload parse raw =
     (case (case raw of
              JStr s \<Rightarrow> parse s
            | JUndef \<Rightarrow> Inl ''undefined is not valid JSON''
            | v \<Rightarrow> Inr (json_clone v)) of
        Inl err \<Rightarrow> Inl err
      | Inr parsed \<Rightarrow>
          (case parsed of
             JObj kvs \<Rightarrow> Inr (JObj kvs)
           | _ \<Rightarrow> Inl ''payload must be a plain object''))"

definition toRow :: "(jsval \<Rightarrow> string) \<Rightarrow> job \<Rightarrow> bg_row" where
  "toRow stringify job =
     \<lparr>r_id = job_id job, r_type = job_type job, r_payload = JStr (stringify (payload job)),
      r_status = status job, r_priority = priority job, r_delay_ms = delayMs job,
      r_created_at = createdAt job, r_started_at = startedAt job,
      r_completed_at = completedAt job, r_attempts = attempts job, r_last_error = lastError job,
      r_acked_at = None\<rparr>"

section \<open>The adapter\<close>

text \<open>\<open>id\<close> is the primary key: inserting an id that is present is an error of the database.\<close>

definition persistJob :: "(jsval \<Rightarrow> string) \<Rightarrow> bool \<Rightarrow> job \<Rightarrow> bg_row list \<Rightarrow> bg_row list" where
  "persistJob stringify db_ok job table =
     (if \<not> db_ok \<or> job_id job \<in> r_id ` set table then table else table @ [toRow stringify job])"

definition updateJobStatus :: "bool \<Rightarrow> job \<Rightarrow> bg_row list \<Rightarrow> bg_row list" where
  "updateJobStatus db_ok job table =
     (if \<not> db_ok then table
      else map (\<lambda>r. if r_id r = job_id job
                    then r\<lparr>r_status := status job, r_delay_ms := delayMs job,
                           r_started_at := startedAt job, r_completed_at := completedAt job,
                           r_attempts := attempts job, r_last_error := lastError job\<rparr>
                    else r) table)"

definition ackJob :: "bool \<Rightarrow> string \<Rightarrow> time \<Rightarrow> bg_row list \<Rightarrow> bg_row list" where
  "ackJob db_ok jobId now table =
     (if \<not> db_ok then table
      else map (\<lambda>r. if r_id r = jobId then r\<lparr>r_status := COMPLETED, r_acked_at := Some now\<rparr> else r)
             table)"

definition recoverable :: "bg_row \<Rightarrow> bool" where
  "recoverable r \<longleftrightarrow> r_status r \<in> {PENDING, PROCESSING, RETRYING} \<and> r_acked_at r = None"

definition recovered_job :: "bg_row \<Rightarrow> jsval \<Rightarrow> job" where
  "recovered_job r p =
     \<lparr>job_id = r_id r, job_type = r_type r, payload = p, status = PENDING,
      priority = r_priority r, delayMs = r_delay_ms r, createdAt = r_created_at r,
      startedAt = None, completedAt = None, attempts = r_attempts r, lastError = r_last_error r\<rparr>"

definition recoverUnackedJobs ::
  "(string \<Rightarrow> string + jsval) \<Rightarrow> bool \<Rightarrow> nat \<Rightarrow> bg_row list \<Rightarrow> job list" where
  "recoverUnackedJobs parse db_ok maxRecoveryRows table =
     (if \<not> db_ok then []
      else concat (map (\<lambda>r. case sanitisePayload parse (r_payload r) of
                              Inl _ \<Rightarrow> []
                            | Inr p \<Rightarrow> [recovered_job r p])
             (take maxRecoveryRows (sort_key r_created_at (filter recoverable table)))))"

definition prunable :: "time \<Rightarrow> bg_row \<Rightarrow> bool" where
  "prunable cutoff r \<longleftrightarrow> r_status r \<in> {COMPLETED, FAILED} \<and>
     (case r_completed_at r of None \<Rightarrow> False | Some t \<Rightarrow> t < cutoff)"

definition pruneCompleted :: "bool \<Rightarrow> time \<Rightarrow> int \<Rightarrow> bg_row list \<Rightarrow> nat \<times> bg_row list" where
  "pruneCompleted db_ok now olderThanMs table =
     (if \<not> db_ok then (0, table)
      else let cutoff = now - olderThanMs
           in (length (filter (prunable cutoff) table), filter (\<lambda>r. \<not> prunable cutoff r) table))"

section \<open>Lemmas\<close>

abbreviation table_wf :: "bg_row list \<Rightarrow> bool" where
  "table_wf table \<equiv> distinct (map r_id table)"

lemma recovered_from_row:
  assumes "j \<in> set (recoverUnackedJobs parse True n table)"
  obtains r p where "r \<in> set table" "recoverable r" "sanitisePayload parse (r_payload r) = Inr p"
    "j = recovered_job r p"
proof -
  from assms obtain r where r: "r \<in> set (take n (sort_key r_created_at (filter recoverable table)))"
    and j: "j \<in> set (case sanitisePayload parse (r_payload r) of Inl _ \<Rightarrow> [] | Inr p \<Rightarrow> [recovered_job r p])"
    by (auto simp: recoverUnackedJobs_def)
  have "r \<in> set (filter recoverable table)" using in_set_takeD[OF r] by simp
  with j that show ?thesis by (cases "sanitisePayload parse (r_payload r)") auto
qed

lemma length_recover: "length (recoverUnackedJobs parse ok n table) \<le> n"
proof -
  have "length (concat (map (\<lambda>r. case f r of Inl _ \<Rightarrow> [] | Inr p \<Rightarrow> [g r p]) rs)) \<le> length rs"
    for f :: "bg_row \<Rightarrow> string + jsval" and g :: "bg_row \<Rightarrow> jsval \<Rightarrow> job" and rs
    by (induction rs) (auto split: sum.splits)
  from this[of recovered_job "\<lambda>r. sanitisePayload parse (r_payload r)"
      "take n (sort_key r_created_at (filter recoverable table))"]
  show ?thesis by (simp add: recoverUnackedJobs_def)
qed

section \<open>Properties\<close>



text \<open>An acknowledged job is never replayed and an unacknowledged one is not forgotten. After
  \<open>ackJob\<close> no recovery returns that id, whatever updates of other jobs or prunings follow the
  table; a job that was persisted in a live state with a payload that survives JSON comes back
  with the same payload, priority, delay and attempts.\<close>

theorem acked_not_replayed:
  assumes "parse (stringify (payload job)) = Inr (json_clone (payload job))" "payload job = JObj kvs"
    "status job \<in> {PENDING, PROCESSING, RETRYING}" "job_id job \<notin> r_id ` set table"
  shows "job_id job \<notin> job_id ` set (recoverUnackedJobs parse ok n
      (ackJob True (job_id job) now (persistJob stringify True job table))) \<and>
    (length (filter recoverable (persistJob stringify True job table)) \<le> n \<longrightarrow>
      job\<lparr>payload := json_clone (payload job), status := PENDING, startedAt := None, completedAt := None\<rparr>
        \<in> set (recoverUnackedJobs parse True n (persistJob stringify True job table)))"
proof (intro conjI impI notI)
  let ?t = "ackJob True (job_id job) now (persistJob stringify True job table)"
  assume "job_id job \<in> job_id ` set (recoverUnackedJobs parse ok n ?t)"
  then obtain j where j: "j \<in> set (recoverUnackedJobs parse ok n ?t)" "job_id j = job_id job" by auto
  then have "ok" by (cases ok) (simp_all add: recoverUnackedJobs_def)
  with j(1) obtain r p where r: "r \<in> set ?t" "recoverable r" "j = recovered_job r p"
    by (auto elim: recovered_from_row)
  with j(2) show False
    by (auto simp: recovered_job_def ackJob_def recoverable_def split: if_splits)
next
  let ?t = "persistJob stringify True job table" and ?r = "toRow stringify job"
  let ?f = "\<lambda>r. case sanitisePayload parse (r_payload r) of Inl _ \<Rightarrow> [] | Inr p \<Rightarrow> [recovered_job r p]"
  assume n: "length (filter recoverable ?t) \<le> n"
  then have e: "recoverUnackedJobs parse True n ?t =
      concat (map ?f (sort_key r_created_at (filter recoverable ?t)))"
    by (simp add: recoverUnackedJobs_def)
  have r: "?r \<in> set ?t" "recoverable ?r"
    using assms(3,4) by (auto simp: persistJob_def toRow_def recoverable_def)
  have "sanitisePayload parse (r_payload ?r) = Inr (json_clone (payload job))"
    using assms(1,2) by (simp add: sanitisePayload_def toRow_def)
  moreover have "recovered_job ?r (json_clone (payload job)) =
      job\<lparr>payload := json_clone (payload job), status := PENDING, startedAt := None, completedAt := None\<rparr>"
    by (simp add: recovered_job_def toRow_def)
  ultimately have fr: "?f ?r = [job\<lparr>payload := json_clone (payload job), status := PENDING,
      startedAt := None, completedAt := None\<rparr>]" by simp
  have "?r \<in> set (sort_key r_created_at (filter recoverable ?t))" using r by simp
  then have "?f ?r \<in> set (map ?f (sort_key r_created_at (filter recoverable ?t)))"
    unfolding set_map by (rule imageI)
  then show "job\<lparr>payload := json_clone (payload job), status := PENDING, startedAt := None,
      completedAt := None\<rparr> \<in> set (recoverUnackedJobs parse True n ?t)"
    unfolding e set_concat by (rule UN_I) (simp only: fr, simp)
qed

theorem acked_not_replayed_witness:
  "''job-a1'' \<notin> job_id ` set (recoverUnackedJobs (\<lambda>_. Inr (JObj [])) True 9
     (ackJob True ''job-a1'' 4 (persistJob (\<lambda>_. ''{}'') True demo_job [])))"
  using acked_not_replayed[of "\<lambda>_. Inr (JObj [])" "\<lambda>_. ''{}''" demo_job "[]" "[]" True 9 4]
  by (simp add: demo_job_def)

end
