(* ===== verification/SorobanSim.thy ===== *)
theory SorobanSim
  imports CacheStore Soroban
begin

text \<open>
  Simulation of Soroban transactions with a footprint cache: \<open>src/src/services/sorobanSim.js\<close>.

  The cache is an association list bounded by \<open>MAX_CACHE_SIZE\<close>, the last element being the most
  recently used one; an entry is also stale once the ledger has moved past the one it was recorded
  at. It is shown to be a sound cache in the sense of the locale \<open>sound_cache\<close>.
\<close>

section \<open>The footprint cache\<close>

record 'f fp_entry =
  footprint :: 'f
  timestamp :: time
  ledgerSequence :: "int option"

type_synonym 'f fp_cache = "(string, 'f fp_entry) amap"

definition MAX_CACHE_SIZE :: nat where
  "MAX_CACHE_SIZE = 1000"

definition CACHE_TTL_MS :: int where
  "CACHE_TTL_MS = 5 * 60 * 1000"

definition generateCacheKey :: "string \<Rightarrow> string \<Rightarrow> string \<Rightarrow> string" where
  "generateCacheKey operation invoiceId funderPublicKey =
     operation @ '':'' @ invoiceId @ '':'' @ funderPublicKey"

definition stale_ledger :: "int option \<Rightarrow> 'f fp_entry \<Rightarrow> bool" where
  "stale_ledger currentLedger e =
     (case (currentLedger, ledgerSequence e) of (Some cur, Some l) \<Rightarrow> l < cur | _ \<Rightarrow> False)"

definition getCachedFootprint ::
  "time \<Rightarrow> string \<Rightarrow> int option \<Rightarrow> 'f fp_cache \<Rightarrow> 'f option \<times> 'f fp_cache" where
  "getCachedFootprint now key currentLedger c =
     (case map_of c key of
        None \<Rightarrow> (None, c)
      | Some e \<Rightarrow>
          if now - timestamp e > CACHE_TTL_MS \<or> stale_ledger currentLedger e
          then (None, AList.delete key c)
          else (Some (footprint e), touch key e c))"

definition cacheFootprint ::
  "time \<Rightarrow> string \<Rightarrow> 'f \<Rightarrow> int option \<Rightarrow> 'f fp_cache \<Rightarrow> 'f fp_cache" where
  "cacheFootprint now key fp ledger c =
     (let c1 = (if amap_has c key then AList.delete key c
                else if length c \<ge> MAX_CACHE_SIZE then AList.delete (fst (hd c)) c
                else c)
      in AList.update key \<lparr>footprint = fp, timestamp = now, ledgerSequence = ledger\<rparr> c1)"

definition clearFootprintCache :: "'f fp_cache \<Rightarrow> 'f fp_cache" where
  "clearFootprintCache c = []"

section \<open>Errors\<close>

datatype sim_error_type =
  INSUFFICIENT_RESOURCES | INVALID_AUTH | CONTRACT_ERROR | NETWORK_ERROR | VALIDATION_ERROR

record app_error =
  ae_status :: int
  ae_code :: string
  ae_detail :: string
  ae_retryable :: bool

text \<open>An error caught by \<open>simulateOrThrow\<close>: its message, and its code and detail if it is an
  \<open>AppError\<close>, whose message is its title.\<close>

record sim_error =
  se_message :: string
  se_app_code :: "string option"
  se_app_detail :: string

definition parseSimulationError :: "string \<Rightarrow> sim_error_type" where
  "parseSimulationError m =
     (let message = to_lower m in
      if str_includes message ''insufficient'' \<or> str_includes message ''resource''
      then INSUFFICIENT_RESOURCES
      else if str_includes message ''auth'' \<or> str_includes message ''signature'' \<or>
              str_includes message ''permission''
      then INVALID_AUTH
      else if str_includes message ''contract'' \<or> str_includes message ''invoke'' then CONTRACT_ERROR
      else if str_includes message ''network'' \<or> str_includes message ''timeout'' \<or>
              str_includes message ''rpc''
      then NETWORK_ERROR
      else VALIDATION_ERROR)"

fun error_type_upper :: "sim_error_type \<Rightarrow> string" where
  "error_type_upper INSUFFICIENT_RESOURCES = ''INSUFFICIENT_RESOURCES''"
| "error_type_upper INVALID_AUTH = ''INVALID_AUTH''"
| "error_type_upper CONTRACT_ERROR = ''CONTRACT_ERROR''"
| "error_type_upper NETWORK_ERROR = ''NETWORK_ERROR''"
| "error_type_upper VALIDATION_ERROR = ''VALIDATION_ERROR''"

definition createSimulationError :: "sim_error \<Rightarrow> app_error" where
  "createSimulationError e =
     (let errorType = parseSimulationError (se_message e);
          isRetryable = (errorType = NETWORK_ERROR)
      in \<lparr>ae_status = (if isRetryable then 503 else 400),
          ae_code = (case se_app_code e of
                       Some c \<Rightarrow> c | None \<Rightarrow> ''SIMULATION_'' @ error_type_upper errorType),
          ae_detail = (if se_message e = [] then ''Transaction simulation failed'' else se_message e),
          ae_retryable = isRetryable\<rparr>)"

section \<open>simulateOrThrow\<close>

record sim_params =
  operation :: jsval
  invoiceId :: jsval
  funderPublicKey :: jsval
  transactionXdr :: jsval
  useCache :: bool
  currentLedger :: "int option"

definition nonempty_string :: "jsval \<Rightarrow> bool" where
  "nonempty_string v = (case v of JStr s \<Rightarrow> s \<noteq> [] | _ \<Rightarrow> False)"

definition validation_messages :: "sim_params \<Rightarrow> string list" where
  "validation_messages p =
     (if nonempty_string (operation p) then [] else [''operation is required and must be a string.'']) @
     (if nonempty_string (invoiceId p) then [] else [''invoiceId is required and must be a string.'']) @
     (if nonempty_string (funderPublicKey p) then []
      else [''funderPublicKey is required and must be a string.'']) @
     (if truthy (transactionXdr p) then [] else [''transactionXdr is required.''])"

fun join_spaces :: "string list \<Rightarrow> string" where
  "join_spaces [] = []"
| "join_spaces [s] = s"
| "join_spaces (s # ss) = s @ '' '' @ join_spaces ss"

definition validateSimulationParams :: "sim_params \<Rightarrow> sim_error option" where
  "validateSimulationParams p =
     (case validation_messages p of
        [] \<Rightarrow> None
      | es \<Rightarrow> Some \<lparr>se_message = ''Simulation Parameter Validation Error'',
                    se_app_code = Some ''VALIDATION_ERROR'', se_app_detail = join_spaces es\<rparr>)"

record 'f sim_result =
  sr_success :: bool
  sr_footprint :: "'f option"
  sr_cached :: bool
  sr_error :: "app_error option"

definition sim_failure :: "sim_error \<Rightarrow> 'f sim_result" where
  "sim_failure e = \<lparr>sr_success = False, sr_footprint = None, sr_cached = False,
     sr_error = Some (createSimulationError e)\<rparr>"

definition too_short :: "jsval \<Rightarrow> bool" where
  "too_short v = (\<not> truthy v \<or> (case v of JStr s \<Rightarrow> length s < 10 | JArr vs \<Rightarrow> length vs < 10 | _ \<Rightarrow> False))"

text \<open>The operation given to \<open>callSorobanContract\<close>: it rejects a short XDR and otherwise answers with
  the fixed footprint \<open>mock\<close>.\<close>

definition simulationOperation :: "'f \<Rightarrow> jsval \<Rightarrow> nat \<Rightarrow> jsval + 'f" where
  "simulationOperation mock xdr n =
     (if too_short xdr
      then Inl (JObj [(''message'', JStr ''Invalid transaction XDR: too short'')])
      else Inr mock)"

definition str_of :: "jsval \<Rightarrow> string" where
  "str_of v = (case v of JStr s \<Rightarrow> s | _ \<Rightarrow> [])"

record 'f sim_state =
  fp_cache :: "'f fp_cache"
  sim_breaker :: breaker

definition simulateOrThrow ::
  "'f \<Rightarrow> soroban_config \<Rightarrow> time \<Rightarrow> time \<Rightarrow> (nat \<Rightarrow> time) \<Rightarrow> (nat \<Rightarrow> rat) \<Rightarrow> sim_params \<Rightarrow> 'f sim_state \<Rightarrow>
   'f sim_result \<times> 'f sim_state" where
  "simulateOrThrow mock cfg now later clk rnd p s =
     (case validateSimulationParams p of
        Some e \<Rightarrow> (sim_failure e, s)
      | None \<Rightarrow>
          let key = generateCacheKey (str_of (operation p)) (str_of (invoiceId p)) (str_of (funderPublicKey p));
              looked = (if useCache p then getCachedFootprint now key (currentLedger p) (fp_cache s)
                        else (None, fp_cache s));
              s1 = s\<lparr>fp_cache := snd looked\<rparr>
          in (case fst looked of
                Some fp \<Rightarrow> (\<lparr>sr_success = True, sr_footprint = Some fp, sr_cached = True, sr_error = None\<rparr>, s1)
              | None \<Rightarrow>
                  let call = callSorobanContract cfg now later clk rnd
                               (simulationOperation mock (transactionXdr p)) (sim_breaker s1);
                      s2 = s1\<lparr>sim_breaker := cc_breaker call\<rparr>
                  in (case cc_result call of
                        Returned fp \<Rightarrow>
                          (\<lparr>sr_success = True, sr_footprint = Some fp, sr_cached = False, sr_error = None\<rparr>,
                           if useCache p then s2\<lparr>fp_cache := cacheFootprint later key fp None (fp_cache s2)\<rparr>
                           else s2)
                      | Threw e \<Rightarrow>
                          (sim_failure \<lparr>se_message = str_of (js_get e ''message''), se_app_code = None, se_app_detail = []\<rparr>, s2)
                      | CircuitOpen \<Rightarrow>
                          (sim_failure \<lparr>se_message = ''Circuit Breaker is OPEN. Operation failed fast.'',
                             se_app_code = None, se_app_detail = []\<rparr>, s2)
                      | Fallback _ \<Rightarrow>
                          (\<lparr>sr_success = True, sr_footprint = None, sr_cached = False, sr_error = None\<rparr>, s2))))"

text \<open>\<open>simulateOrThrowSync\<close>: the error of a failed result is thrown.\<close>

definition simulateOrThrowSync ::
  "'f \<Rightarrow> soroban_config \<Rightarrow> time \<Rightarrow> time \<Rightarrow> (nat \<Rightarrow> time) \<Rightarrow> (nat \<Rightarrow> rat) \<Rightarrow> sim_params \<Rightarrow> 'f sim_state \<Rightarrow>
   (app_error + 'f sim_result) \<times> 'f sim_state" where
  "simulateOrThrowSync mock cfg now later clk rnd p s =
     (let (r, s') = simulateOrThrow mock cfg now later clk rnd p s
      in (case sr_error r of Some e \<Rightarrow> Inl e | None \<Rightarrow> Inr r, s'))"

section \<open>The footprint cache is sound\<close>

definition fp_ok :: "'f fp_cache \<Rightarrow> bool" where
  "fp_ok c \<longleftrightarrow> amap_wf c \<and> length c \<le> MAX_CACHE_SIZE"

definition fp_peek :: "'f fp_cache \<Rightarrow> string \<Rightarrow> ('f \<times> time) option" where
  "fp_peek c k = map_option (\<lambda>e. (footprint e, timestamp e + CACHE_TTL_MS)) (map_of c k)"

lemma get_footprint_cases:
  obtains (miss) "map_of c k = None" "getCachedFootprint t k cur c = (None, c)"
  | (stale) e where "map_of c k = Some e" "getCachedFootprint t k cur c = (None, AList.delete k c)"
  | (hit) e where "map_of c k = Some e" "t \<le> timestamp e + CACHE_TTL_MS" "\<not> stale_ledger cur e"
      "getCachedFootprint t k cur c = (Some (footprint e), touch k e c)"
proof (cases "map_of c k")
  case (Some e)
  then show ?thesis using stale[of e] hit[of e]
    by (cases "t - timestamp e > CACHE_TTL_MS \<or> stale_ledger cur e") (auto simp: getCachedFootprint_def)
qed (simp add: miss getCachedFootprint_def)

lemma cacheFootprint_touch:
  assumes "fp_ok c"
  shows "\<exists>c1. cacheFootprint t k fp l c = c1 @ [(k, \<lparr>footprint = fp, timestamp = t, ledgerSequence = l\<rparr>)] \<and>
    k \<notin> set (amap_keys c1) \<and> amap_wf c1 \<and> length c1 < MAX_CACHE_SIZE \<and>
    (\<forall>k' v. map_of c1 k' = Some v \<longrightarrow> map_of c k' = Some v)"
proof -
  let ?c1 = "if amap_has c k then AList.delete k c
             else if length c \<ge> MAX_CACHE_SIZE then AList.delete (fst (hd c)) c else c"
  have d: "length (AList.delete k' c) < MAX_CACHE_SIZE" if "k' \<in> set (amap_keys c)" for k'
  proof -
    have "length (AList.delete k' c) = length (filter (\<lambda>x. x \<noteq> k') (amap_keys c))"
      by (metis amap_keys_delete length_map)
    also have "\<dots> < length (amap_keys c)" using that by (intro length_filter_less[of k']) auto
    finally show ?thesis using assms by (simp add: fp_ok_def)
  qed
  have h: "fst (hd c) \<in> set (amap_keys c)" if "length c \<ge> MAX_CACHE_SIZE"
    using that by (cases c) (auto simp: MAX_CACHE_SIZE_def)
  have "k \<notin> set (amap_keys ?c1)"
    by (auto simp: amap_keys_delete[unfolded set_map] amap_has_def simp del: set_map
        simp flip: amap_keys_delete) (auto simp: amap_keys_delete)
  moreover have "amap_wf ?c1" using assms by (simp add: fp_ok_def)
  moreover have "length ?c1 < MAX_CACHE_SIZE"
    using d[of k] d[OF h] by (auto simp: amap_has_def)
  moreover have "\<forall>k' v. map_of ?c1 k' = Some v \<longrightarrow> map_of c k' = Some v"
    by (auto simp: amap_get_delete split: if_splits)
  moreover have "cacheFootprint t k fp l c = ?c1 @ [(k, \<lparr>footprint = fp, timestamp = t, ledgerSequence = l\<rparr>)]"
    if "k \<notin> set (amap_keys ?c1)"
    using that unfolding cacheFootprint_def Let_def by (rule amap_set_new)
  ultimately show ?thesis by blast
qed

text \<open>Seen through the locale: a stored value is a footprint with its ledger, its lifetime is the
  fixed \<open>CACHE_TTL_MS\<close>.\<close>

lemma fp_peek_append:
  assumes "k \<notin> set (amap_keys c1)"
  shows "fp_peek (c1 @ [(k, e)]) k = Some (footprint e, timestamp e + CACHE_TTL_MS)"
    "k' \<noteq> k \<Longrightarrow> fp_peek (c1 @ [(k, e)]) k' = fp_peek c1 k'"
proof -
  have "map_of c1 k = None" using assms by (simp add: map_of_eq_None_iff)
  then show "fp_peek (c1 @ [(k, e)]) k = Some (footprint e, timestamp e + CACHE_TTL_MS)"
    by (simp add: fp_peek_def map_add_def)
  show "fp_peek (c1 @ [(k, e)]) k' = fp_peek c1 k'" if "k' \<noteq> k"
    using that by (simp add: fp_peek_def map_add_def split: option.splits)
qed

lemma fp_get_ok:
  assumes "fp_ok c"
  shows "fp_ok (snd (getCachedFootprint t k cur c))"
proof (cases rule: get_footprint_cases[of c k t cur])
  case miss
  then show ?thesis using assms by simp
next
  case (stale e)
  then show ?thesis using assms order_trans[OF length_amap_delete_le[of k c]] by (simp add: fp_ok_def)
next
  case (hit e)
  have "k \<in> set (amap_keys c)" using map_of_SomeD[OF hit(1)] by force
  then have "length (touch k e c) = length c"
    using assms by (simp add: fp_ok_def length_touch del: set_map)
  then show ?thesis using hit assms by (simp add: fp_ok_def wf_touch)
qed

lemma fp_get_forgets:
  assumes "fp_peek (snd (getCachedFootprint t k cur c)) k' = Some p"
  shows "fp_peek c k' = Some p"
proof (cases rule: get_footprint_cases[of c k t cur])
  case miss
  then show ?thesis using assms by simp
next
  case (stale e)
  then show ?thesis using assms by (cases "k' = k") (simp_all add: fp_peek_def)
next
  case (hit e)
  then show ?thesis using assms by (cases "k' = k") (simp_all add: fp_peek_def map_of_touch)
qed

lemma fp_put_same:
  assumes "fp_ok c" "fp_peek (cacheFootprint t k fp l c) k = Some p"
  shows "p = (fp, t + CACHE_TTL_MS)"
  using cacheFootprint_touch[OF assms(1), of t k fp l] assms(2) by (auto simp: fp_peek_append)

lemma fp_put_other:
  assumes "fp_ok c" "k' \<noteq> k" "fp_peek (cacheFootprint t k fp l c) k' = Some p"
  shows "fp_peek c k' = Some p"
proof -
  from cacheFootprint_touch[OF assms(1), of t k fp l] obtain c1 e
    where c1: "cacheFootprint t k fp l c = c1 @ [(k, e)]" "k \<notin> set (amap_keys c1)"
      "\<forall>k' v. map_of c1 k' = Some v \<longrightarrow> map_of c k' = Some v" by blast
  from assms(3) have "fp_peek c1 k' = Some p"
    unfolding c1(1) fp_peek_append(2)[OF c1(2) assms(2)] .
  with c1(3) show ?thesis by (auto simp: fp_peek_def)
qed

interpretation fpc: sound_cache "\<lambda>q k. getCachedFootprint (fst q) k (snd q)" fst
  "\<lambda>t k x. cacheFootprint t k (fst x) (snd x)" AList.delete fp_peek fst "\<lambda>_. CACHE_TTL_MS" fp_ok
proof (unfold_locales, goal_cases)
  case (1 c q k v)
  then show ?case
    by (cases rule: get_footprint_cases[of c k "fst q" "snd q"]) (auto simp: fp_peek_def)
next
  case (2 c q k k' p)
  show ?case by (rule fp_get_forgets[OF 2(2)])
next
  case (3 c t k x p)
  then show ?case by (rule fp_put_same)
next
  case (4 c k' k t x p)
  then show ?case by (rule fp_put_other)
next
  case (5 c k)
  then show ?case by (simp add: fp_peek_def)
next
  case (6 c k k' p)
  then show ?case by (cases "k' = k") (auto simp: fp_peek_def)
next
  case (7 c q k)
  then show ?case by (rule fp_get_ok)
next
  case (8 c t k x)
  from cacheFootprint_touch[OF this, of t k "fst x" "snd x"] show ?case by (auto simp: fp_ok_def)
next
  case (9 c k)
  then show ?case using order_trans[OF length_amap_delete_le[of k c]] by (simp add: fp_ok_def)
qed

abbreviation fp_run ::
  "'f fp_cache \<Rightarrow> (time \<times> int option, string, 'f \<times> int option) cache_op \<Rightarrow> 'f fp_cache" where
  "fp_run \<equiv> fpc.run1"

section \<open>Properties\<close>

text \<open>A cached footprint is never reused too late. After any history of lookups and stores on an
  empty cache, a lookup that hits returns the footprint last stored under the key, at most
  \<open>CACHE_TTL_MS\<close> ago; the cache holds at most \<open>MAX_CACHE_SIZE\<close> footprints; and an entry recorded at a
  ledger older than the current one is refused and dropped.\<close>

theorem footprint_cache_sound:
  assumes "getCachedFootprint t k cur (foldl fp_run [] ops) = (r, c')"
  shows "(\<forall>fp. r = Some fp \<longrightarrow>
      (\<exists>e. last_write fst (\<lambda>_. CACHE_TTL_MS) k ops = Some (fp, e) \<and> t \<le> e)) \<and>
    length c' \<le> MAX_CACHE_SIZE \<and>
    (\<forall>e. map_of (foldl fp_run [] ops) k = Some e \<and> stale_ledger cur e \<longrightarrow>
       r = None \<and> \<not> amap_has c' k)"
proof -
  let ?c = "foldl fp_run [] ops"
  have ok0: "fp_ok []" by (simp add: fp_ok_def)
  have ok: "fp_ok ?c" by (rule fpc.ok_run[OF ok0])
  have "\<exists>e. last_write fst (\<lambda>_. CACHE_TTL_MS) k ops = Some (fp, e) \<and> t \<le> e" if "r = Some fp" for fp
    using fpc.hit_is_last_write[OF ok0 _, of "(t, cur)" k ops fp] that assms by (simp add: fp_peek_def)
  moreover have "length c' \<le> MAX_CACHE_SIZE"
    using fp_get_ok[OF ok, of t k cur] assms by (simp add: fp_ok_def)
  moreover have "r = None \<and> \<not> amap_has c' k" if "map_of ?c k = Some e" "stale_ledger cur e" for e
    using assms that by (auto simp: getCachedFootprint_def amap_has_iff)
  ultimately show ?thesis by blast
qed

theorem footprint_cache_sound_witness:
  "getCachedFootprint 5 ''k'' (Some 8) (foldl fp_run [] [Put 1 ''k'' (''fp'', Some 9)]) =
     (Some ''fp'', [(''k'', \<lparr>footprint = ''fp'', timestamp = 1, ledgerSequence = Some 9\<rparr>)]) \<and>
   (\<exists>e. last_write fst (\<lambda>_. CACHE_TTL_MS) ''k'' [Put 1 ''k'' (''fp'', Some (9 :: int)) ::
      (time \<times> int option, string, string \<times> int option) cache_op] = Some (''fp'', e) \<and> 5 \<le> e)"
proof -
  have g: "getCachedFootprint 5 ''k'' (Some 8) (foldl fp_run [] [Put 1 ''k'' (''fp'', Some 9)]) =
     (Some ''fp'', [(''k'', \<lparr>footprint = ''fp'', timestamp = 1, ledgerSequence = Some 9\<rparr>)])"
    by (simp add: getCachedFootprint_def cacheFootprint_def amap_has_def touch_def stale_ledger_def
        CACHE_TTL_MS_def MAX_CACHE_SIZE_def Let_def)
  from footprint_cache_sound[OF g] g show ?thesis by simp
qed

text \<open>An open circuit is reported as a bad request. When the breaker is open, a simulation that is
  not answered from the cache fails with status 400 and the advice not to retry, although the
  failure is transient, and it makes no RPC call.\<close>

theorem simulate_circuit_open_is_400:
  assumes "validateSimulationParams p = None" "\<not> useCache p" "\<not> hasFallback (sim_breaker s)"
    "state (sim_breaker s) = OPEN" "now < nextAttemptTime (sim_breaker s)"
  shows "simulateOrThrow mock cfg now later clk rnd p s =
     (\<lparr>sr_success = False, sr_footprint = None, sr_cached = False,
       sr_error = Some \<lparr>ae_status = 400, ae_code = ''SIMULATION_VALIDATION_ERROR'',
         ae_detail = ''Circuit Breaker is OPEN. Operation failed fast.'', ae_retryable = False\<rparr>\<rparr>, s)"
proof -
  have "parseSimulationError ''Circuit Breaker is OPEN. Operation failed fast.'' = VALIDATION_ERROR"
    by code_simp
  with assms show ?thesis
    by (simp add: simulateOrThrow_def callSorobanContract_def admit_def Let_def sim_failure_def
        createSimulationError_def)
qed

theorem simulate_circuit_open_is_400_witness:
  "\<exists>e. sr_error (fst (simulateOrThrow ''fp'' SOROBAN_RETRY_CONFIG 5 6 (\<lambda>_. 0) (\<lambda>_. 0)
     \<lparr>operation = JStr ''fund'', invoiceId = JStr ''inv1'', funderPublicKey = JStr ''G1'',
      transactionXdr = JStr ''AAAAAAAAAAAA'', useCache = False, currentLedger = None\<rparr>
     \<lparr>fp_cache = [], sim_breaker = (new_CircuitBreaker None None False 0)\<lparr>state := OPEN, nextAttemptTime := 9\<rparr>\<rparr>))
     = Some e \<and> ae_status e = 400"
proof -
  let ?p = "\<lparr>operation = JStr ''fund'', invoiceId = JStr ''inv1'', funderPublicKey = JStr ''G1'',
      transactionXdr = JStr ''AAAAAAAAAAAA'', useCache = False, currentLedger = None\<rparr>"
  let ?s = "\<lparr>fp_cache = [], sim_breaker =
      (new_CircuitBreaker None None False 0)\<lparr>state := OPEN, nextAttemptTime := 9\<rparr>\<rparr> :: string sim_state"
  have "validateSimulationParams ?p = None"
    by (simp add: validateSimulationParams_def validation_messages_def nonempty_string_def)
  then show ?thesis
    using simulate_circuit_open_is_400[of ?p ?s 5 "''fp''" SOROBAN_RETRY_CONFIG 6]
    by (simp add: new_CircuitBreaker_def)
qed

end
