(* ===== verification/EscrowRead.thy ===== *)
theory EscrowRead
  imports JsNumber Soroban
begin

text \<open>
  Reading escrow state and the legal-hold gate: \<open>src/src/services/escrowRead.js\<close> and
  \<open>src/src/middleware/legalHoldGate.js\<close>.

  The result of a call of \<open>callSorobanContract\<close> is an error or a value (\<open>call_outcome\<close> relates it to
  the model of that function); the answer of the projection query is an error or an optional row;
  \<open>JSON.parse\<close> is an argument. Response objects are association lists, the spread operator
  overwrites the entries present. The adapters answer with objects (spreading a string or an array is
  not modelled).
\<close>

section \<open>The tri-state\<close>

datatype legal_hold_status = HELD | NOT_HELD | UNKNOWN

record legal_hold_envelope =
  lh_status :: legal_hold_status
  lh_reason :: "string option"
  lh_errorCode :: "string option"

definition coerceLegalHoldStatus :: "jsval \<Rightarrow> legal_hold_status" where
  "coerceLegalHoldStatus raw =
     (if raw = JBool True \<or> raw = JInt 1 \<or> raw = JStr ''true'' then HELD else NOT_HELD)"

text \<open>What \<open>callSorobanContract\<close> throws or returns; its breaker has no fallback.\<close>

definition call_outcome :: "'a contract_call \<Rightarrow> jsval + 'a" where
  "call_outcome c =
     (case cc_result c of
        Returned v \<Rightarrow> Inr v
      | Threw e \<Rightarrow> Inl e
      | CircuitOpen \<Rightarrow> Inl (JObj [(''message'', JStr ''Circuit Breaker is OPEN. Operation failed fast.''),
                                (''code'', JStr ''CIRCUIT_OPEN'')])
      | Fallback _ \<Rightarrow> Inl JUndef)"

definition err_code :: "jsval \<Rightarrow> string option" where
  "err_code err = (case js_get err ''code'' of JStr c \<Rightarrow> Some c | _ \<Rightarrow> None)"

definition fetchLegalHoldStatus :: "jsval + jsval \<Rightarrow> legal_hold_envelope" where
  "fetchLegalHoldStatus call =
     (case call of
        Inr res \<Rightarrow> \<lparr>lh_status = coerceLegalHoldStatus res, lh_reason = None, lh_errorCode = None\<rparr>
      | Inl err \<Rightarrow> \<lparr>lh_status = UNKNOWN, lh_reason = Some ''rpc_error'', lh_errorCode = err_code err\<rparr>)"

definition fetchLegalHold :: "jsval + jsval \<Rightarrow> bool" where
  "fetchLegalHold call = (lh_status (fetchLegalHoldStatus call) = HELD)"

section \<open>Base state\<close>

definition id_start :: "char \<Rightarrow> bool" where
  "id_start c = is_alnum c"

definition id_char :: "char \<Rightarrow> bool" where
  "id_char c \<longleftrightarrow> is_alnum c \<or> c \<in> {CHR ''.'', CHR ''_'', CHR '':'', CHR ''-''}"

definition INVOICE_ID_RE :: "string \<Rightarrow> bool" where
  "INVOICE_ID_RE s =
     (case s of [] \<Rightarrow> False | c # r \<Rightarrow> id_start c \<and> list_all id_char r \<and> length r \<le> 127)"

definition validateInvoiceId :: "jsval \<Rightarrow> string option" where
  "validateInvoiceId v =
     (case v of
        JStr s \<Rightarrow>
          if trim s = [] then Some ''invoiceId must be a non-empty string''
          else if \<not> INVOICE_ID_RE (trim s)
          then Some ''invoiceId contains invalid characters (allowed: a-z A-Z 0-9 _ -)''
          else None
      | _ \<Rightarrow> Some ''invoiceId must be a non-empty string'')"

type_synonym obj = "(string \<times> jsval) list"

record projection =
  latest_event_body :: jsval
  latest_event_type :: jsval
  latest_event_id :: jsval
  latest_ledger_sequence :: jsval
  latest_paging_token :: jsval
  latest_observed_at :: jsval

definition parseEventBody :: "(string \<Rightarrow> string + jsval) \<Rightarrow> jsval \<Rightarrow> jsval" where
  "parseEventBody parse rawBody =
     (case rawBody of
        JStr s \<Rightarrow>
          if s = [] then JObj []
          else (case parse s of
              Inl _ \<Rightarrow> JObj []
            | Inr p \<Rightarrow> if is_object p then p else JObj [])
      | _ \<Rightarrow> if is_object rawBody then rawBody else JObj [])"

definition coerceFundedAmount :: "jsval \<Rightarrow> rat" where
  "coerceFundedAmount raw = (case to_number raw of NFin q \<Rightarrow> if q < 0 then 0 else q | _ \<Rightarrow> 0)"

definition has_own :: "jsval \<Rightarrow> string \<Rightarrow> bool" where
  "has_own v k = (case v of JObj kvs \<Rightarrow> amap_has kvs k | _ \<Rightarrow> False)"

definition projection_status :: "jsval \<Rightarrow> projection \<Rightarrow> string" where
  "projection_status body p =
     (let pick = (\<lambda>v other. case v of JStr s \<Rightarrow> if s \<noteq> [] then s else other | _ \<Rightarrow> other)
      in pick (js_get body ''status'') (pick (latest_event_type p) ''unknown''))"

text \<open>\<open>_readBaseStateFromProjection\<close>: a failed query counts as no row.\<close>

definition readBaseStateFromProjection ::
  "(string \<Rightarrow> string + jsval) \<Rightarrow> string \<Rightarrow> jsval + projection option \<Rightarrow> obj option" where
  "readBaseStateFromProjection parse safeId query =
     (case query of
        Inl _ \<Rightarrow> None
      | Inr None \<Rightarrow> None
      | Inr (Some p) \<Rightarrow>
          let eventBody = parseEventBody parse (latest_event_body p);
              st = projection_status eventBody p
          in if \<not> (st \<noteq> ''unknown'' \<or>
                   list_ex (has_own eventBody)
                     [''fundedAmount'', ''ledgerCloseTime'', ''maturityDate'', ''maturityTimestamp''])
             then None
             else Some
               [(''invoiceId'', JStr safeId), (''status'', JStr st),
                (''fundedAmount'', JNum (NFin (coerceFundedAmount (js_get eventBody ''fundedAmount'')))),
                (''latest_ledger_sequence'',
                   (case to_number (latest_ledger_sequence p) of NFin q \<Rightarrow> JNum (NFin q) | _ \<Rightarrow> JNull)),
                (''latest_event_type'', js_or (latest_event_type p) JNull),
                (''latest_event_id'', js_or (latest_event_id p) JNull),
                (''latest_paging_token'', js_or (latest_paging_token p) JNull),
                (''latest_observed_at'', js_or (latest_observed_at p) JNull),
                (''source'', JStr ''projection''), (''fromProjection'', JBool True)])"

definition neutral_state :: "string \<Rightarrow> obj" where
  "neutral_state invoiceId =
     [(''invoiceId'', JStr invoiceId), (''status'', JStr ''not_found''), (''fundedAmount'', JInt 0),
      (''source'', JStr ''rpc_stub'')]"

text \<open>\<open>_fetchBaseEscrowState\<close>: \<open>adapter\<close> is the outcome of the injected adapter, if there is one;
  \<open>stub\<close> tells whether the call of the neutral stub goes through (it fails when the circuit is
  open).\<close>

definition fetchBaseEscrowState ::
  "(string \<Rightarrow> string + jsval) \<Rightarrow> string \<Rightarrow> (jsval + jsval) option \<Rightarrow> jsval + projection option \<Rightarrow>
   jsval option \<Rightarrow> jsval + jsval" where
  "fetchBaseEscrowState parse invoiceId adapter query stub_error =
     (case adapter of
        Some r \<Rightarrow> r
      | None \<Rightarrow>
          (case readBaseStateFromProjection parse invoiceId query of
             Some st \<Rightarrow> Inr (JObj st)
           | None \<Rightarrow>
               (case stub_error of
                  Some e \<Rightarrow> Inl e
                | None \<Rightarrow> Inr (JObj (neutral_state invoiceId)))))"

section \<open>readEscrowState\<close>

datatype read_error = InvalidInvoiceId string | ReadFailed jsval | ReadTypeError

fun spread :: "jsval \<Rightarrow> obj" where
  "spread (JObj kvs) = kvs"
| "spread _ = []"

definition set_field :: "string \<Rightarrow> jsval \<Rightarrow> obj \<Rightarrow> obj" where
  "set_field k v o1 = AList.update k v o1"

definition opt_field :: "string \<Rightarrow> string option \<Rightarrow> obj \<Rightarrow> obj" where
  "opt_field k v o1 = (case v of None \<Rightarrow> o1 | Some s \<Rightarrow> if s = [] then o1 else set_field k (JStr s) o1)"

fun status_str :: "legal_hold_status \<Rightarrow> string" where
  "status_str HELD = ''held''"
| "status_str NOT_HELD = ''not_held''"
| "status_str UNKNOWN = ''unknown''"

text \<open>The fields derived from the legal-hold envelope: the boolean is true for an unreadable
  status.\<close>

definition with_legal_hold :: "legal_hold_envelope \<Rightarrow> obj \<Rightarrow> obj" where
  "with_legal_hold env o1 =
     opt_field ''legalHoldErrorCode'' (lh_errorCode env)
       (opt_field ''legalHoldReason'' (lh_reason env)
         (set_field ''legalHoldStatus'' (JStr (status_str (lh_status env)))
           (set_field ''legal_hold'' (JBool (lh_status env = HELD \<or> lh_status env = UNKNOWN)) o1)))"

definition with_ledger_time :: "jsval \<Rightarrow> obj \<Rightarrow> obj" where
  "with_ledger_time baseState o1 =
     (let t = js_get baseState ''ledgerCloseTime''
      in if js_nullish t then o1 else set_field ''ledgerCloseTime'' t o1)"

text \<open>The token metadata is best effort: \<open>None\<close> when no asset is given, an error is dropped.\<close>

definition token_field :: "(jsval + jsval) option \<Rightarrow> jsval" where
  "token_field meta = (case meta of Some (Inr v) \<Rightarrow> v | _ \<Rightarrow> JNull)"

definition readEscrowState ::
  "(string \<Rightarrow> string + jsval) \<Rightarrow> jsval \<Rightarrow> (jsval + jsval) option \<Rightarrow> jsval + projection option \<Rightarrow>
   jsval option \<Rightarrow> jsval + jsval \<Rightarrow> (jsval + jsval) option \<Rightarrow> read_error + obj" where
  "readEscrowState parse invoiceId adapter query stub_error legalCall meta =
     (case (validateInvoiceId invoiceId, invoiceId) of
        (None, JStr s) \<Rightarrow>
          (case fetchBaseEscrowState parse (trim s) adapter query stub_error of
             Inl e \<Rightarrow> Inl (ReadFailed e)
           | Inr baseState \<Rightarrow>
               if js_nullish baseState then Inl ReadTypeError
               else Inr (with_ledger_time baseState
                 (set_field ''funding_token'' (token_field meta)
                   (with_legal_hold (fetchLegalHoldStatus legalCall) (spread baseState)))))
      | (Some why, _) \<Rightarrow> Inl (InvalidInvoiceId why)
      | (None, _) \<Rightarrow> Inl ReadTypeError)"

text \<open>The attestation log: digests are given by their hexadecimal form, a missing one is empty.\<close>

definition fetchAttestationAppendLog :: "jsval + (jsval \<times> string option) list option \<Rightarrow> (jsval \<times> string) list" where
  "fetchAttestationAppendLog call =
     (case call of
        Inl _ \<Rightarrow> []
      | Inr None \<Rightarrow> []
      | Inr (Some es) \<Rightarrow> map (\<lambda>(i, d). (i, case d of None \<Rightarrow> [] | Some h \<Rightarrow> h)) es)"

definition attestation_values :: "(jsval \<times> string) list \<Rightarrow> jsval" where
  "attestation_values as = JArr (map (\<lambda>(i, d). JObj [(''index'', i), (''digest'', JStr d)]) as)"

definition readEscrowStateWithAttestations ::
  "(string \<Rightarrow> string + jsval) \<Rightarrow> jsval \<Rightarrow> (jsval + jsval) option \<Rightarrow> jsval + projection option \<Rightarrow>
   jsval option \<Rightarrow> jsval + jsval \<Rightarrow> jsval + (jsval \<times> string option) list option \<Rightarrow>
   (jsval + jsval) option \<Rightarrow> read_error + obj" where
  "readEscrowStateWithAttestations parse invoiceId adapter query stub_error legalCall attCall meta =
     (case (validateInvoiceId invoiceId, invoiceId) of
        (None, JStr s) \<Rightarrow>
          (case fetchBaseEscrowState parse (trim s) adapter query stub_error of
             Inl e \<Rightarrow> Inl (ReadFailed e)
           | Inr baseState \<Rightarrow>
               if js_nullish baseState then Inl ReadTypeError
               else Inr (with_ledger_time baseState
                 (set_field ''funding_token'' (token_field meta)
                   (set_field ''attestations'' (attestation_values (fetchAttestationAppendLog attCall))
                     (with_legal_hold (fetchLegalHoldStatus legalCall) (spread baseState))))))
      | (Some why, _) \<Rightarrow> Inl (InvalidInvoiceId why)
      | (None, _) \<Rightarrow> Inl ReadTypeError)"

definition readFundedAmount ::
  "(string \<Rightarrow> string + jsval) \<Rightarrow> jsval \<Rightarrow> (jsval + jsval) option \<Rightarrow> jsval + projection option \<Rightarrow>
   jsval option \<Rightarrow> read_error + rat" where
  "readFundedAmount parse invoiceId adapter query stub_error =
     (case (validateInvoiceId invoiceId, invoiceId) of
        (None, JStr s) \<Rightarrow>
          (case fetchBaseEscrowState parse (trim s) adapter query stub_error of
             Inl e \<Rightarrow> Inl (ReadFailed e)
           | Inr baseState \<Rightarrow>
               Inr (case to_number (if is_object baseState then js_get baseState ''fundedAmount''
                                    else baseState) of
                      NFin q \<Rightarrow> q | _ \<Rightarrow> 0))
      | (Some why, _) \<Rightarrow> Inl (InvalidInvoiceId why)
      | (None, _) \<Rightarrow> Inl ReadTypeError)"

text \<open>\<open>getEscrowStateWithProjection\<close>: \<open>cached\<close> is the answer of the cache (\<open>None\<close> without one or on
  a miss); the second result is what is stored in the cache, with the ledger if it is known.\<close>

definition getEscrowStateWithProjection ::
  "(string \<Rightarrow> string + jsval) \<Rightarrow> string \<Rightarrow> jsval option \<Rightarrow> jsval + projection option \<Rightarrow>
   jsval option \<Rightarrow> jsval + jsval \<Rightarrow> (jsval + jsval) \<times> (jsval \<times> jsval) option" where
  "getEscrowStateWithProjection parse invoiceId cached query stub_error legalCall =
     (case cached of
        Some v \<Rightarrow> (Inr v, None)
      | None \<Rightarrow>
          (case readBaseStateFromProjection parse (trim invoiceId) query of
             Some st \<Rightarrow> (Inr (JObj st), Some (JObj st, js_get (JObj st) ''latest_ledger_sequence''))
           | None \<Rightarrow>
               (case fetchBaseEscrowState parse (trim invoiceId) None query stub_error of
                  Inl e \<Rightarrow> (Inl e, None)
                | Inr baseState \<Rightarrow>
                    let st = JObj
                      (set_field ''source'' (js_or (js_get baseState ''source'') (JStr ''rpc_stub''))
                        (set_field ''latest_event_type''
                           (js_or (js_get baseState ''latest_event_type'') (JStr ''live_read''))
                           (with_legal_hold (fetchLegalHoldStatus legalCall) (spread baseState))))
                    in (Inr st, Some (st, JUndef)))))"

section \<open>The gate\<close>

text \<open>What the gate does with a request: pass it on or answer with a status.\<close>

datatype gate_result = Next | Problem int string

text \<open>The three ways to read the hold: an adapter for the envelope (whose status may be any value),
  the boolean adapter, or the service.\<close>

datatype hold_source =
    StatusAdapter "jsval + jsval"
  | BooleanAdapter "jsval + jsval"
  | Service "jsval + jsval"

definition gate_of_status :: "jsval \<Rightarrow> gate_result" where
  "gate_of_status st =
     (if st = JStr ''held'' then Problem 423 ''Legal Hold Active''
      else if st = JStr ''unknown'' then Problem 503 ''Legal Hold Status Unavailable''
      else Next)"

definition legalHoldGate :: "jsval \<Rightarrow> jsval \<Rightarrow> hold_source \<Rightarrow> gate_result" where
  "legalHoldGate paramId bodyId src =
     (case (if truthy paramId then paramId else bodyId) of
        JStr s \<Rightarrow>
          if trim s = [] then Problem 400 ''Bad Request''
          else (case src of
              StatusAdapter (Inl _) \<Rightarrow> Problem 503 ''Legal Hold Status Unavailable''
            | StatusAdapter (Inr env) \<Rightarrow> gate_of_status (js_get env ''status'')
            | BooleanAdapter (Inl _) \<Rightarrow> Problem 503 ''Legal Hold Status Unavailable''
            | BooleanAdapter (Inr raw) \<Rightarrow> gate_of_status (JStr (status_str (coerceLegalHoldStatus raw)))
            | Service call \<Rightarrow> gate_of_status (JStr (status_str (lh_status (fetchLegalHoldStatus call)))))
      | _ \<Rightarrow> Problem 400 ''Bad Request'')"

section \<open>Lemmas\<close>

lemma map_of_set_field [simp]: "map_of (set_field k v o1) = (map_of o1)(k \<mapsto> v)"
  by (simp add: set_field_def)

lemma map_of_opt_field_other [simp]: "k' \<noteq> k \<Longrightarrow> map_of (opt_field k v o1) k' = map_of o1 k'"
  by (simp add: opt_field_def split: option.splits)

lemma map_of_with_legal_hold [simp]:
  "map_of (with_legal_hold env o1) ''legal_hold'' = Some (JBool (lh_status env \<noteq> NOT_HELD))"
  by (cases "lh_status env") (simp_all add: with_legal_hold_def)

lemma map_of_with_ledger_time_other [simp]:
  "k \<noteq> ''ledgerCloseTime'' \<Longrightarrow> map_of (with_ledger_time b o1) k = map_of o1 k"
  by (simp add: with_ledger_time_def Let_def)

lemma legal_hold_of_call:
  "lh_status (fetchLegalHoldStatus call) = NOT_HELD \<longleftrightarrow>
     (\<exists>v. call = Inr v \<and> v \<noteq> JBool True \<and> v \<noteq> JInt 1 \<and> v \<noteq> JStr ''true'')"
  by (auto simp: fetchLegalHoldStatus_def coerceLegalHoldStatus_def split: sum.splits)

lemma gate_of_status_next:
  "gate_of_status (JStr (status_str st)) = Next \<longleftrightarrow> st = NOT_HELD"
  by (cases st) (simp_all add: gate_of_status_def)

lemma gate_service:
  assumes "(if truthy p then p else b) = JStr s" "trim s \<noteq> []"
  shows "legalHoldGate p b (Service r) =
    (case r of
       Inl _ \<Rightarrow> Problem 503 ''Legal Hold Status Unavailable''
     | Inr v \<Rightarrow> if v \<in> {JBool True, JInt 1, JStr ''true''} then Problem 423 ''Legal Hold Active'' else Next)"
  using assms
  by (cases r) (simp_all add: legalHoldGate_def fetchLegalHoldStatus_def coerceLegalHoldStatus_def gate_of_status_def)

lemma readEscrowState_ok:
  assumes "readEscrowState parse i adapter query stub_error legalCall meta = Inr st"
  obtains s b where "i = JStr s" "validateInvoiceId i = None"
    "fetchBaseEscrowState parse (trim s) adapter query stub_error = Inr b"
    "st = with_ledger_time b (set_field ''funding_token'' (token_field meta)
            (with_legal_hold (fetchLegalHoldStatus legalCall) (spread b)))"
  using assms unfolding readEscrowState_def
  by (auto split: option.splits jsval.splits sum.splits if_splits)

section \<open>Properties\<close>



text \<open>A status adapter that answers with an object whose \<open>status\<close> is neither of the two
  blocking constants (for instance a misspelt or missing one) lets every request with an invoice id
  pass: on that path the gate does not fail closed.\<close>
lemma gate_status_adapter_open:
  assumes "(if truthy p then p else b) = JStr s" "trim s \<noteq> []"
    "js_get env ''status'' \<noteq> JStr ''held''" "js_get env ''status'' \<noteq> JStr ''unknown''"
  shows "legalHoldGate p b (StatusAdapter (Inr env)) = Next"
  using assms by (simp add: legalHoldGate_def gate_of_status_def)

text \<open>A base state is never fabricated. Without an adapter the status and the amount come
  from the projection row, the amount being finite and not negative; without a usable row the
  answer is the neutral state with status not found and amount zero, and \<open>readFundedAmount\<close>
  returns zero.\<close>
theorem base_state_not_fabricated:
  assumes "validateInvoiceId (JStr s) = None"
  shows "(readBaseStateFromProjection parse (trim s) query = None \<longrightarrow>
      fetchBaseEscrowState parse (trim s) None query None = Inr (JObj (neutral_state (trim s))) \<and>
      readFundedAmount parse (JStr s) None query None = Inr 0) \<and>
    (\<forall>st. readBaseStateFromProjection parse (trim s) query = Some st \<longrightarrow>
      (\<exists>q p. query = Inr (Some p) \<and> 0 \<le> q \<and>
        map_of st ''fundedAmount'' = Some (JNum (NFin q)) \<and>
        map_of st ''status'' =
          Some (JStr (projection_status (parseEventBody parse (latest_event_body p)) p)) \<and>
        readFundedAmount parse (JStr s) None query None = Inr q))"
proof (intro conjI impI allI)
  assume n: "readBaseStateFromProjection parse (trim s) query = None"
  then show f: "fetchBaseEscrowState parse (trim s) None query None = Inr (JObj (neutral_state (trim s)))"
    by (simp add: fetchBaseEscrowState_def)
  show "readFundedAmount parse (JStr s) None query None = Inr 0"
    using assms by (simp add: readFundedAmount_def f neutral_state_def is_object_def)
next
  fix st assume r: "readBaseStateFromProjection parse (trim s) query = Some st"
  then obtain p where p: "query = Inr (Some p)"
    by (auto simp: readBaseStateFromProjection_def split: sum.splits option.splits)
  let ?q = "coerceFundedAmount (js_get (parseEventBody parse (latest_event_body p)) ''fundedAmount'')"
  have st: "map_of st ''fundedAmount'' = Some (JNum (NFin ?q))"
    "map_of st ''status'' = Some (JStr (projection_status (parseEventBody parse (latest_event_body p)) p))"
    using r p by (auto simp: readBaseStateFromProjection_def Let_def split: if_splits)
  have f: "readFundedAmount parse (JStr s) None query None = Inr ?q"
    using assms r st(1) by (simp add: readFundedAmount_def fetchBaseEscrowState_def is_object_def)
  have "0 \<le> ?q" by (simp add: coerceFundedAmount_def split: jsnum.splits)
  then show "\<exists>q p. query = Inr (Some p) \<and> 0 \<le> q \<and>
        map_of st ''fundedAmount'' = Some (JNum (NFin q)) \<and>
        map_of st ''status'' =
          Some (JStr (projection_status (parseEventBody parse (latest_event_body p)) p)) \<and>
        readFundedAmount parse (JStr s) None query None = Inr q"
    using p st f by blast
qed

theorem base_state_not_fabricated_witness:
  "readFundedAmount (\<lambda>_. Inl []) (JStr '' inv_1 '') None (Inr None) None = Inr 0"
proof -
  have v: "validateInvoiceId (JStr '' inv_1 '') = None" by code_simp
  show ?thesis
    using base_state_not_fabricated[OF v, of "\<lambda>_. Inl []" "Inr None"]
    by (simp add: readBaseStateFromProjection_def)
qed

end
