(* ===== verification/EscrowDerived.thy ===== *)
theory EscrowDerived
  imports EscrowRead
begin

text \<open>
  The derived display fields of an escrow: \<open>src/src/services/escrowDerived.js\<close>.

  A \<open>Date\<close> is its time value in milliseconds, \<open>None\<close> for an invalid date. \<open>Date.parse\<close>, applied to
  the string a value converts to, is an argument; the wall clock is an argument too. Quotients are
  exact.
\<close>

section \<open>Dates\<close>

datatype date_arg = DDate "time option" | DVal jsval

definition time_clip :: "rat \<Rightarrow> time option" where
  "time_clip q =
     (if \<bar>q\<bar> \<le> 8640000000000000 then Some (if 0 \<le> q then \<lfloor>q\<rfloor> else \<lceil>q\<rceil>) else None)"

definition time_of_num :: "jsnum \<Rightarrow> time option" where
  "time_of_num n = (case n of NFin q \<Rightarrow> time_clip q | _ \<Rightarrow> None)"

text \<open>\<open>new Date(v)\<close>\<close>

definition new_Date :: "(jsval \<Rightarrow> time option) \<Rightarrow> jsval \<Rightarrow> time option" where
  "new_Date parse v =
     (case v of
        JStr _ \<Rightarrow> parse v
      | JArr _ \<Rightarrow> parse v
      | JObj _ \<Rightarrow> parse v
      | _ \<Rightarrow> time_of_num (to_number v))"

definition date_nullish :: "date_arg \<Rightarrow> bool" where
  "date_nullish d = (case d of DVal v \<Rightarrow> js_nullish v | DDate _ \<Rightarrow> False)"

section \<open>Validation\<close>

definition MS_PER_DAY :: int where "MS_PER_DAY = 24 * 60 * 60 * 1000"
definition EPOCH_SECONDS_THRESHOLD :: rat where "EPOCH_SECONDS_THRESHOLD = 100000000000"
definition MAX_FUTURE_DAYS :: int where "MAX_FUTURE_DAYS = 50 * 365"
definition MAX_OVERDUE_DAYS :: int where "MAX_OVERDUE_DAYS = 365"

datatype ledger_time = LDate "time option" | LSeconds rat

definition validateLedgerCloseTimeUnit :: "date_arg \<Rightarrow> ledger_time option" where
  "validateLedgerCloseTimeUnit d =
     (case d of
        DDate t \<Rightarrow> Some (LDate t)
      | DVal v \<Rightarrow>
          if js_nullish v \<or> v = JInt 0 then None
          else (case to_number v of
              NFin num \<Rightarrow>
                if num < 0 then None
                else if num \<ge> EPOCH_SECONDS_THRESHOLD then None
                else Some (LSeconds num)
            | _ \<Rightarrow> None))"

definition days_between :: "time \<Rightarrow> time \<Rightarrow> int" where
  "days_between m r = (m - r) div MS_PER_DAY"

definition validateMaturityDateBounds :: "time \<Rightarrow> time \<Rightarrow> bool" where
  "validateMaturityDateBounds m r =
     (let daysDiff = days_between m r
      in if daysDiff > MAX_FUTURE_DAYS then False
         else if daysDiff < - MAX_OVERDUE_DAYS then False
         else True)"

section \<open>The fields\<close>

record time_opts =
  ledgerCloseTime :: date_arg
  opt_now :: date_arg

definition ledger_date :: "date_arg \<Rightarrow> time option" where
  "ledger_date d =
     (if date_nullish d then None
      else (case validateLedgerCloseTimeUnit d of
          None \<Rightarrow> None
        | Some l \<Rightarrow>
            (case (case l of LDate t \<Rightarrow> t | LSeconds q \<Rightarrow> time_clip (q * 1000)) of
               Some t \<Rightarrow> if t > 0 then Some t else None
             | None \<Rightarrow> None)))"

definition resolveReferenceTime :: "time \<Rightarrow> time_opts \<Rightarrow> time" where
  "resolveReferenceTime wall opts =
     (case ledger_date (ledgerCloseTime opts) of
        Some t \<Rightarrow> t
      | None \<Rightarrow>
          (case opt_now opts of
             DDate (Some t) \<Rightarrow> t
           | _ \<Rightarrow> wall))"

definition computeApyPercent :: "jsval \<Rightarrow> rat option" where
  "computeApyPercent annualRatePercent =
     (case annualRatePercent of
        JNum (NFin q) \<Rightarrow> if q < 0 then None else Some (of_int (js_round (q * 100)) / 100)
      | _ \<Rightarrow> None)"

definition computeFundedPercent :: "jsval \<Rightarrow> jsval \<Rightarrow> rat option" where
  "computeFundedPercent fundedAmount totalAmount =
     (case (fundedAmount, totalAmount) of
        (JNum (NFin f), JNum (NFin t)) \<Rightarrow>
          if t \<le> 0 then None else Some (of_int (js_round (f / t * 10000)) / 100)
      | _ \<Rightarrow> None)"

text \<open>The second argument is a \<open>Date\<close> or an options object.\<close>

datatype days_opts = DateOpt "time option" | ObjOpt time_opts

definition as_time_opts :: "days_opts \<Rightarrow> time_opts" where
  "as_time_opts o1 =
     (case o1 of
        DateOpt t \<Rightarrow> \<lparr>ledgerCloseTime = DVal JUndef, opt_now = DDate t\<rparr>
      | ObjOpt o2 \<Rightarrow> o2)"

definition computeDaysToMaturity ::
  "(jsval \<Rightarrow> time option) \<Rightarrow> time \<Rightarrow> date_arg \<Rightarrow> days_opts \<Rightarrow> int option" where
  "computeDaysToMaturity parse wall maturityDate opts =
     (if date_nullish maturityDate then None
      else (case (case maturityDate of DDate t \<Rightarrow> t | DVal v \<Rightarrow> new_Date parse v) of
          None \<Rightarrow> None
        | Some maturity \<Rightarrow>
            let reference = resolveReferenceTime wall (as_time_opts opts)
            in if \<not> validateMaturityDateBounds maturity reference then None
               else Some (days_between maturity reference)))"

record derived_fields =
  apyPercent :: "rat option"
  fundedPercent :: "rat option"
  daysToMaturity :: "int option"

definition computeEscrowDerivedFields ::
  "(jsval \<Rightarrow> time option) \<Rightarrow> time \<Rightarrow> jsval \<Rightarrow> days_opts \<Rightarrow> derived_fields" where
  "computeEscrowDerivedFields parse wall st opts =
     (let maturity = js_coalesce (js_get st ''maturityDate'') (js_coalesce (js_get st ''maturityTimestamp'') JNull)
      in \<lparr>apyPercent = computeApyPercent (js_get st ''annualRatePercent''),
          fundedPercent = computeFundedPercent (js_get st ''fundedAmount'') (js_get st ''totalAmount''),
          daysToMaturity = computeDaysToMaturity parse wall (DVal maturity) opts\<rparr>)"

section \<open>Lemmas\<close>

lemma days_between_iff: "days_between m r = d \<longleftrightarrow> d * MS_PER_DAY \<le> m - r \<and> m - r < (d + 1) * MS_PER_DAY"
proof
  assume "days_between m r = d"
  then have "m - r = MS_PER_DAY * d + (m - r) mod MS_PER_DAY"
    unfolding days_between_def by (metis mult_div_mod_eq)
  moreover have "0 \<le> (m - r) mod MS_PER_DAY" "(m - r) mod MS_PER_DAY < MS_PER_DAY"
    by (simp_all add: MS_PER_DAY_def)
  ultimately show "d * MS_PER_DAY \<le> m - r \<and> m - r < (d + 1) * MS_PER_DAY"
    by (simp add: algebra_simps)
next
  assume "d * MS_PER_DAY \<le> m - r \<and> m - r < (d + 1) * MS_PER_DAY"
  then show "days_between m r = d"
    unfolding days_between_def
    by (intro int_div_pos_eq[where r = "m - r - MS_PER_DAY * d"]) (auto simp: algebra_simps)
qed

lemma js_round_error: "\<bar>of_int (js_round q) - q\<bar> \<le> 1 / 2"
  unfolding js_round_def by linarith

lemma js_round_hundredth: "\<bar>of_int (js_round q) - q\<bar> / 100 \<le> 1 / 200"
  using js_round_error[of q] by simp

lemma js_round_mono: "p \<le> q \<Longrightarrow> js_round p \<le> js_round q"
  unfolding js_round_def by (intro floor_mono) simp

lemma ledger_date_seconds:
  assumes "0 < n" "n < 100000000000"
  shows "ledger_date (DVal (JInt n)) = Some (n * 1000)"
proof -
  have "time_clip (rat_of_int n * 1000) = Some (n * 1000)"
  proof -
    have e: "rat_of_int n * 1000 = rat_of_int (n * 1000)" by simp
    have "\<bar>rat_of_int (n * 1000)\<bar> \<le> 8640000000000000"
    proof -
      have "\<bar>n * 1000\<bar> \<le> 8640000000000000" using assms by simp
      then show ?thesis by (metis of_int_abs of_int_le_iff of_int_numeral)
    qed
    then show ?thesis
      using assms unfolding e time_clip_def floor_of_int ceiling_of_int by simp
  qed
  moreover have "rat_of_int n < 100000000000" using assms by (metis of_int_less_iff of_int_numeral)
  ultimately show ?thesis
    using assms
    by (simp add: ledger_date_def date_nullish_def js_nullish_def validateLedgerCloseTimeUnit_def
        EPOCH_SECONDS_THRESHOLD_def)
qed

lemma ledger_date_millis:
  assumes "100000000000 \<le> n"
  shows "ledger_date (DVal (JInt n)) = None"
proof -
  have "rat_of_int n \<ge> 100000000000" using assms by (metis of_int_le_iff of_int_numeral)
  then show ?thesis
    using assms
    by (simp add: ledger_date_def date_nullish_def js_nullish_def validateLedgerCloseTimeUnit_def
        EPOCH_SECONDS_THRESHOLD_def)
qed

section \<open>Properties\<close>

text \<open>Days to maturity are exact: a result \<open>d\<close> is returned exactly when the maturity is a
  valid date whose distance from the reference time lies in day \<open>d\<close> (the start inclusive) and \<open>d\<close> is
  between 365 days overdue and fifty years ahead. The reference is the ledger close time whenever
  that is a number of seconds below the threshold, whatever the wall clock and the override say; a
  close time in milliseconds is refused and the override or the wall clock is used.\<close>
theorem days_to_maturity_exact:
  shows "(computeDaysToMaturity parse wall (DDate mat) opts = Some d \<longleftrightarrow>
      (\<exists>m r. mat = Some m \<and> r = resolveReferenceTime wall (as_time_opts opts) \<and>
        d * 86400000 \<le> m - r \<and> m - r < (d + 1) * 86400000 \<and> - 365 \<le> d \<and> d \<le> 18250)) \<and>
    (\<forall>n nw. 0 < n \<and> n < 100000000000 \<longrightarrow>
      resolveReferenceTime wall \<lparr>ledgerCloseTime = DVal (JInt n), opt_now = nw\<rparr> = n * 1000) \<and>
    (\<forall>n t. 100000000000 \<le> n \<longrightarrow>
      resolveReferenceTime wall \<lparr>ledgerCloseTime = DVal (JInt n), opt_now = DDate (Some t)\<rparr> = t \<and>
      resolveReferenceTime wall \<lparr>ledgerCloseTime = DVal (JInt n), opt_now = DVal JUndef\<rparr> = wall)"
proof (intro conjI allI impI)
  let ?r = "resolveReferenceTime wall (as_time_opts opts)"
  have "computeDaysToMaturity parse wall (DDate mat) opts = Some d \<longleftrightarrow>
      (\<exists>m. mat = Some m \<and> days_between m ?r = d \<and> - 365 \<le> d \<and> d \<le> 18250)"
    by (cases mat)
      (auto simp: computeDaysToMaturity_def date_nullish_def Let_def validateMaturityDateBounds_def
        MAX_FUTURE_DAYS_def MAX_OVERDUE_DAYS_def)
  then show "computeDaysToMaturity parse wall (DDate mat) opts = Some d \<longleftrightarrow>
      (\<exists>m r. mat = Some m \<and> r = ?r \<and>
        d * 86400000 \<le> m - r \<and> m - r < (d + 1) * 86400000 \<and> - 365 \<le> d \<and> d \<le> 18250)"
    unfolding days_between_iff by (simp add: MS_PER_DAY_def)
qed (auto simp: resolveReferenceTime_def ledger_date_seconds ledger_date_millis)

theorem days_to_maturity_exact_witness:
  "resolveReferenceTime 0 \<lparr>ledgerCloseTime = DVal (JInt 1700000000), opt_now = DVal JUndef\<rparr> = 1700000000000 \<and>
   resolveReferenceTime 5 \<lparr>ledgerCloseTime = DVal (JInt 1700000000000), opt_now = DVal JUndef\<rparr> = 5"
proof
  note x = days_to_maturity_exact[of "\<lambda>_. None" _ None "DateOpt None" 0, THEN conjunct2]
  show "resolveReferenceTime 0 \<lparr>ledgerCloseTime = DVal (JInt 1700000000), opt_now = DVal JUndef\<rparr> = 1700000000000"
    using x[THEN conjunct1, rule_format, of 1700000000 0 "DVal JUndef"] by simp
  show "resolveReferenceTime 5 \<lparr>ledgerCloseTime = DVal (JInt 1700000000000), opt_now = DVal JUndef\<rparr> = 5"
    using x[THEN conjunct2, rule_format, of 1700000000000 5] by simp
qed

text \<open>The percentages are within half a hundredth of the exact value, a larger funded amount
  never shows a smaller percentage, and an escrow funded with its full face value shows exactly
  one hundred.\<close>
theorem percentages_rounded:
  shows "(0 < t \<longrightarrow> (\<exists>p. computeFundedPercent (JNum (NFin f)) (JNum (NFin t)) = Some p \<and>
        \<bar>p - 100 * f / t\<bar> \<le> 1 / 200)) \<and>
    (0 < t \<and> f \<le> f' \<longrightarrow> the (computeFundedPercent (JNum (NFin f)) (JNum (NFin t)))
        \<le> the (computeFundedPercent (JNum (NFin f')) (JNum (NFin t)))) \<and>
    (0 < t \<longrightarrow> computeFundedPercent (JNum (NFin t)) (JNum (NFin t)) = Some 100) \<and>
    (0 \<le> f \<longrightarrow> (\<exists>p. computeApyPercent (JNum (NFin f)) = Some p \<and> \<bar>p - f\<bar> \<le> 1 / 200))"
proof (intro conjI impI)
  assume t: "0 < t"
  have "\<bar>of_int (js_round (f / t * 10000)) / 100 - 100 * f / t\<bar>
      = \<bar>of_int (js_round (f / t * 10000)) - f / t * 10000\<bar> / 100"
    by (simp add: field_simps abs_if)
  also have "\<dots> \<le> 1 / 200" by (rule js_round_hundredth)
  finally show "\<exists>p. computeFundedPercent (JNum (NFin f)) (JNum (NFin t)) = Some p \<and>
      \<bar>p - 100 * f / t\<bar> \<le> 1 / 200"
    using t by (intro exI[where x = "of_int (js_round (f / t * 10000)) / 100"] conjI)
      (simp_all only: computeFundedPercent_def, simp)
next
  assume t: "0 < t \<and> f \<le> f'"
  then have "f / t * 10000 \<le> f' / t * 10000" by (intro mult_right_mono divide_right_mono) auto
  then show "the (computeFundedPercent (JNum (NFin f)) (JNum (NFin t)))
      \<le> the (computeFundedPercent (JNum (NFin f')) (JNum (NFin t)))"
    using t js_round_mono by (auto simp: computeFundedPercent_def intro!: divide_right_mono)
next
  assume "0 < t"
  then show "computeFundedPercent (JNum (NFin t)) (JNum (NFin t)) = Some 100"
    by (simp add: computeFundedPercent_def js_round_def floor_eq_iff)
next
  assume f: "0 \<le> f"
  have "\<bar>of_int (js_round (f * 100)) / 100 - f\<bar> = \<bar>of_int (js_round (f * 100)) - f * 100\<bar> / 100"
    by (simp add: field_simps abs_if)
  also have "\<dots> \<le> 1 / 200" by (rule js_round_hundredth)
  finally show "\<exists>p. computeApyPercent (JNum (NFin f)) = Some p \<and> \<bar>p - f\<bar> \<le> 1 / 200"
    using f by (intro exI[where x = "of_int (js_round (f * 100)) / 100"] conjI)
      (simp_all only: computeApyPercent_def, simp)
qed

theorem percentages_rounded_witness:
  "\<exists>p. computeFundedPercent (JNum (NFin 1)) (JNum (NFin 3)) = Some p \<and> \<bar>p - 100 * 1 / 3\<bar> \<le> 1 / 200"
  using percentages_rounded[of 3 1] by simp

end
