(* ===== verification/Marketplace.thy ===== *)
theory Marketplace
  imports QueryParams "HOL-Library.Countable"
begin

text \<open>
  Cursor pagination of the marketplace: \<open>src/src/utils/cursorPagination.js\<close> and
  \<open>src/src/services/marketplaceService.js\<close>.

  The base64url text of the JSON form of a value and its inverse, and the HMAC in hexadecimal, are
  arguments. The order of a column is given by the rank of its values, \<open>None\<close> for \<open>NULL\<close>, which
  sorts last in ascending order and compares with nothing. Error texts are given without the values
  interpolated into them.
\<close>

section \<open>Cursors\<close>

datatype cursor_error = CursorError string | EncodeError string | SecretMissing | CursorTypeError

record cursor_env =
  CURSOR_SECRET :: string
  JWT_SECRET :: string
  CURSOR_NODE_ENV :: string
  CURSOR_TTL_ENABLED :: string
  CURSOR_TTL_SECONDS :: string

record codec =
  to_b64 :: "jsval \<Rightarrow> string"
  of_b64 :: "string \<Rightarrow> jsval option"
  hmac_hex :: "string \<Rightarrow> string \<Rightarrow> string"

definition DEV_CURSOR_SECRET :: string where
  "DEV_CURSOR_SECRET = ''dev-cursor-secret-change-in-prod''"

definition ALLOWED_SORT_FIELDS :: "string list" where
  "ALLOWED_SORT_FIELDS = [''yield_bps'', ''maturity_date'', ''funded_ratio'', ''amount'', ''created_at'']"

definition resolveCursorSecret :: "cursor_env \<Rightarrow> string option" where
  "resolveCursorSecret env =
     (let configured = (if CURSOR_SECRET env \<noteq> [] then CURSOR_SECRET env else JWT_SECRET env);
          nodeEnv = (if CURSOR_NODE_ENV env \<noteq> [] then CURSOR_NODE_ENV env else ''development'')
      in if configured \<noteq> [] then Some configured
         else if nodeEnv = ''development'' \<or> nodeEnv = ''test'' then Some DEV_CURSOR_SECRET
         else None)"

definition sign_cursor :: "codec \<Rightarrow> cursor_env \<Rightarrow> string \<Rightarrow> string option" where
  "sign_cursor cdc env p = map_option (\<lambda>k. hmac_hex cdc k p) (resolveCursorSecret env)"

text \<open>\<open>Buffer.from(s, 'hex')\<close> reads pairs of hexadecimal digits up to the first that is none.\<close>

fun hex_decode :: "string \<Rightarrow> nat list" where
  "hex_decode (a # b # r) =
     (case (hex_val a, hex_val b) of
        (Some x, Some y) \<Rightarrow> (16 * x + y) # hex_decode r
      | _ \<Rightarrow> [])"
| "hex_decode _ = []"

definition encodeCursor ::
  "codec \<Rightarrow> cursor_env \<Rightarrow> time \<Rightarrow> string \<Rightarrow> jsval \<Rightarrow> jsval \<Rightarrow> cursor_error + string" where
  "encodeCursor cdc env now sortField sortValue i =
     (if sortField \<notin> set ALLOWED_SORT_FIELDS then Inl (EncodeError ''unsupported sortField'')
      else if \<not> (truthy i \<and> js_typeof i = ''string'') then Inl (EncodeError ''id must be a non-empty string'')
      else let b64 = to_b64 cdc (JObj [(''sortField'', JStr sortField), (''sortValue'', sortValue),
                                       (''id'', i), (''iat'', JInt (now div 1000))])
           in case sign_cursor cdc env b64 of
                None \<Rightarrow> Inl SecretMissing
              | Some sig \<Rightarrow> Inr (b64 @ ''.'' @ sig))"

definition split_last_dot :: "string \<Rightarrow> (string \<times> string) option" where
  "split_last_dot s =
     (if CHR ''.'' \<notin> set s then None
      else let sig = rev (takeWhile (\<lambda>c. c \<noteq> CHR ''.'') (rev s))
           in Some (take (length s - length sig - 1) s, sig))"

record cursor_data =
  cu_sortField :: string
  cu_sortValue :: jsval
  cu_id :: string
  cu_iat :: rat

definition cursor_expired :: "cursor_env \<Rightarrow> time \<Rightarrow> rat \<Rightarrow> bool" where
  "cursor_expired env now iat \<longleftrightarrow>
     CURSOR_TTL_ENABLED env = ''true'' \<and>
     (case parse_int_str (if CURSOR_TTL_SECONDS env \<noteq> [] then CURSOR_TTL_SECONDS env else ''3600'') of
        Some ttl \<Rightarrow> iat \<noteq> 0 \<and> rat_of_int (now div 1000) - iat > rat_of_int ttl
      | None \<Rightarrow> False)"

definition check_payload ::
  "cursor_env \<Rightarrow> time \<Rightarrow> string option \<Rightarrow> jsval \<Rightarrow> cursor_error + cursor_data" where
  "check_payload env now expected parsed =
     (if js_nullish parsed then Inl CursorTypeError
      else (case js_get parsed ''sortField'' of
          JStr sf \<Rightarrow>
            if sf \<notin> set ALLOWED_SORT_FIELDS then Inl (CursorError ''Cursor contains unknown sort field'')
            else (case (js_get parsed ''id'', js_get parsed ''iat'') of
                (JStr i, JNum (NFin iat)) \<Rightarrow>
                  if i = [] then Inl (CursorError ''Cursor is missing a valid id tiebreaker'')
                  else if cursor_expired env now iat then Inl (CursorError ''Cursor has expired'')
                  else if expected \<noteq> None \<and> expected \<noteq> Some sf
                  then Inl (CursorError ''Cursor sort field does not match requested sort field'')
                  else Inr \<lparr>cu_sortField = sf, cu_sortValue = js_get parsed ''sortValue'', cu_id = i, cu_iat = iat\<rparr>
              | (JStr i, _) \<Rightarrow>
                  if i = [] then Inl (CursorError ''Cursor is missing a valid id tiebreaker'')
                  else Inl (CursorError ''Cursor is missing issued-at timestamp'')
              | _ \<Rightarrow> Inl (CursorError ''Cursor is missing a valid id tiebreaker''))
        | _ \<Rightarrow> Inl (CursorError ''Cursor contains unknown sort field'')))"

definition decodeCursor ::
  "codec \<Rightarrow> cursor_env \<Rightarrow> time \<Rightarrow> jsval \<Rightarrow> string option \<Rightarrow> cursor_error + cursor_data" where
  "decodeCursor cdc env now cursor expected =
     (case cursor of
        JStr s \<Rightarrow>
          (case split_last_dot s of
             None \<Rightarrow> Inl (CursorError ''Malformed cursor: expected base64url.signature format'')
           | Some (b64, sig) \<Rightarrow>
               (case sign_cursor cdc env b64 of
                  None \<Rightarrow> Inl SecretMissing
                | Some expectedSig \<Rightarrow>
                    if hex_decode sig \<noteq> hex_decode expectedSig then Inl (CursorError ''Invalid cursor signature'')
                    else (case of_b64 cdc b64 of
                        None \<Rightarrow> Inl (CursorError ''Malformed cursor: payload is not valid JSON'')
                      | Some parsed \<Rightarrow> check_payload env now expected parsed)))
      | _ \<Rightarrow> Inl (CursorError ''Malformed cursor: expected base64url.signature format''))"

section \<open>Comparison in the database\<close>

definition sql_lt :: "(jsval \<Rightarrow> rat option) \<Rightarrow> jsval \<Rightarrow> jsval \<Rightarrow> bool" where
  "sql_lt rank a b = (case (rank a, rank b) of (Some x, Some y) \<Rightarrow> x < y | _ \<Rightarrow> False)"

definition sql_le :: "(jsval \<Rightarrow> rat option) \<Rightarrow> jsval \<Rightarrow> jsval \<Rightarrow> bool" where
  "sql_le rank a b = (case (rank a, rank b) of (Some x, Some y) \<Rightarrow> x \<le> y | _ \<Rightarrow> False)"

definition sql_eq :: "(jsval \<Rightarrow> rat option) \<Rightarrow> jsval \<Rightarrow> jsval \<Rightarrow> bool" where
  "sql_eq rank a b = (case (rank a, rank b) of (Some x, Some y) \<Rightarrow> x = y | _ \<Rightarrow> False)"

definition null_last :: "rat option \<Rightarrow> nat \<times> rat" where
  "null_last q = (case q of None \<Rightarrow> (1, 0) | Some x \<Rightarrow> (0, x))"

definition order_key :: "(jsval \<Rightarrow> rat option) \<Rightarrow> string \<Rightarrow> row \<Rightarrow> (nat \<times> rat) \<times> (nat \<times> rat)" where
  "order_key rank f r = (null_last (rank (col f r)), null_last (rank (col ''id'' r)))"

text \<open>\<open>orderBy(sortField, order).orderBy('id', order)\<close>\<close>

definition ordered :: "(jsval \<Rightarrow> rat option) \<Rightarrow> string \<Rightarrow> bool \<Rightarrow> table \<Rightarrow> table" where
  "ordered rank f asc t =
     (if asc then sort_key (order_key rank f) t else rev (sort_key (order_key rank f) t))"

section \<open>The service\<close>

definition applyFilters :: "(jsval \<Rightarrow> rat option) \<Rightarrow> row \<Rightarrow> row \<Rightarrow> bool" where
  "applyFilters rank filters r \<longleftrightarrow>
     (let f = js_get (JObj filters);
          ge = (\<lambda>k c. f k \<noteq> JUndef \<longrightarrow> sql_le rank (f k) (col c r));
          le = (\<lambda>k c. f k \<noteq> JUndef \<longrightarrow> sql_le rank (col c r) (f k))
      in ge ''yieldBpsMin'' ''yield_bps'' \<and> le ''yieldBpsMax'' ''yield_bps'' \<and>
         (truthy (f ''maturityDateFrom'') \<longrightarrow> sql_le rank (f ''maturityDateFrom'') (col ''maturity_date'' r)) \<and>
         (truthy (f ''maturityDateTo'') \<longrightarrow> sql_le rank (col ''maturity_date'' r) (f ''maturityDateTo'')) \<and>
         ge ''fundedRatioMin'' ''funded_ratio'' \<and> le ''fundedRatioMax'' ''funded_ratio'' \<and>
         (truthy (f ''status'') \<longrightarrow> col_eq ''status'' (f ''status'') r))"

definition investable :: "string \<Rightarrow> row \<Rightarrow> bool" where
  "investable tenantId r \<longleftrightarrow>
     is_null ''deleted_at'' r \<and> col_eq ''tenant_id'' (JStr tenantId) r \<and>
     (\<exists>s\<in>set INVESTABLE_STATUSES. col ''status'' r = JStr s)"

record market_params =
  mp_filters :: row
  mp_sortBy :: jsval
  mp_order :: jsval
  mp_cursor :: jsval
  mp_page :: jsval
  mp_limit :: jsval

definition page_limit :: "jsval \<Rightarrow> int" where
  "page_limit x = max 1 (min 100 (case parse_int_any x of Some n \<Rightarrow> if n = 0 then 10 else n | None \<Rightarrow> 10))"

definition page_number :: "jsval \<Rightarrow> int" where
  "page_number x = max 1 (case parse_int_any x of Some n \<Rightarrow> if n = 0 then 1 else n | None \<Rightarrow> 1)"

definition sort_field :: "market_params \<Rightarrow> string" where
  "sort_field p =
     (case mp_sortBy p of
        JStr s \<Rightarrow> if s \<noteq> [] \<and> s \<in> set ALLOWED_SORT_FIELDS then s else ''created_at''
      | _ \<Rightarrow> ''created_at'')"

record market_page =
  mk_data :: table
  mk_total :: nat
  mk_limit :: int
  mk_hasMore :: bool
  mk_nextCursor :: "string option"
  mk_page :: "int option"
  mk_totalPages :: "int option"

datatype market_error = MissingTenant | CursorFailure cursor_error

definition matching :: "(jsval \<Rightarrow> rat option) \<Rightarrow> string \<Rightarrow> market_params \<Rightarrow> table \<Rightarrow> table" where
  "matching rank tenantId p t = filter (\<lambda>r. investable tenantId r \<and> applyFilters rank (mp_filters p) r) t"

text \<open>The rows after the cursor: \<open>(sortField > v) OR (sortField = v AND id > lastId)\<close>, reversed
  for descending order.\<close>

definition after_cursor ::
  "(jsval \<Rightarrow> rat option) \<Rightarrow> string \<Rightarrow> bool \<Rightarrow> jsval \<Rightarrow> jsval \<Rightarrow> row \<Rightarrow> bool" where
  "after_cursor rank f asc v i r \<longleftrightarrow>
     (let gt = (\<lambda>a b. if asc then sql_lt rank b a else sql_lt rank a b)
      in gt (col f r) v \<or> (sql_eq rank (col f r) v \<and> gt (col ''id'' r) i))"

definition finish_page ::
  "codec \<Rightarrow> cursor_env \<Rightarrow> time \<Rightarrow> string \<Rightarrow> int \<Rightarrow> nat \<Rightarrow> int option \<Rightarrow> table \<Rightarrow> market_error + market_page" where
  "finish_page cdc env now sf limit cnt page rows =
     (let hasMore = length rows > nat limit;
          data = (if hasMore then take (nat limit) rows else rows);
          mk = (\<lambda>c. \<lparr>mk_data = data, mk_total = cnt, mk_limit = limit, mk_hasMore = hasMore,
                  mk_nextCursor = c, mk_page = page,
                  mk_totalPages = map_option (\<lambda>_. (int cnt + limit - 1) div limit) page\<rparr>)
      in if hasMore \<and> data \<noteq> []
         then (case encodeCursor cdc env now sf (col sf (last data)) (col ''id'' (last data)) of
                 Inl e \<Rightarrow> Inl (CursorFailure e)
               | Inr c \<Rightarrow> Inr (mk (Some c)))
         else Inr (mk None))"

definition getMarketplaceInvoices ::
  "codec \<Rightarrow> cursor_env \<Rightarrow> (jsval \<Rightarrow> rat option) \<Rightarrow> time \<Rightarrow> string \<Rightarrow> market_params \<Rightarrow> table \<Rightarrow>
   market_error + market_page" where
  "getMarketplaceInvoices cdc env rank now tenantId p t =
     (if tenantId = [] then Inl MissingTenant
      else let limit = page_limit (mp_limit p);
               sf = sort_field p;
               asc = (mp_order p = JStr ''asc'');
               rows = matching rank tenantId p t;
               cnt = length rows
           in if truthy (mp_cursor p)
              then (case decodeCursor cdc env now (mp_cursor p) (Some sf) of
                  Inl e \<Rightarrow> Inl (CursorFailure e)
                | Inr d \<Rightarrow>
                    finish_page cdc env now sf limit cnt None
                      (take (nat limit + 1)
                        (ordered rank sf asc
                          (filter (after_cursor rank sf asc (cu_sortValue d) (JStr (cu_id d))) rows))))
              else let page = page_number (mp_page p);
                       offset = (page - 1) * limit
                   in finish_page cdc env now sf limit cnt (Some page)
                        (take (nat limit + 1) (drop (nat offset) (ordered rank sf asc rows))))"

section \<open>Lemmas\<close>

text \<open>What the services rely on of the codec: decoding inverts encoding up to the JSON form, and the
  signature has no dot.\<close>

definition codec_ok :: "codec \<Rightarrow> bool" where
  "codec_ok cdc \<longleftrightarrow>
     (\<forall>v. of_b64 cdc (to_b64 cdc v) = Some (json_clone v)) \<and>
     (\<forall>k p. CHR ''.'' \<notin> set (hmac_hex cdc k p))"

lemma split_last_dot_append:
  assumes "CHR ''.'' \<notin> set sig"
  shows "split_last_dot (b @ ''.'' @ sig) = Some (b, sig)"
proof -
  have "takeWhile (\<lambda>c. c \<noteq> CHR ''.'') (rev sig @ CHR ''.'' # rev b) = rev sig"
    using assms by (subst takeWhile_append2) auto
  then show ?thesis by (simp add: split_last_dot_def)
qed

lemma split_last_dot_join:
  assumes "split_last_dot s = Some (b, sig)"
  shows "s = b @ ''.'' @ sig"
proof -
  have dot: "CHR ''.'' \<in> set s" using assms by (auto simp: split_last_dot_def split: if_splits)
  then obtain x y where s: "s = x @ CHR ''.'' # y" "CHR ''.'' \<notin> set y"
    by (metis split_list_last)
  then have "split_last_dot s = Some (x, y)" using split_last_dot_append[of y x] by simp
  then show ?thesis using assms s by simp
qed

lemma encodeCursor_ok:
  assumes "sf \<in> set ALLOWED_SORT_FIELDS" "i = JStr s" "s \<noteq> []" "resolveCursorSecret env = Some k"
  shows "\<exists>c. encodeCursor cdc env now sf v i = Inr c"
  using assms by (simp add: encodeCursor_def sign_cursor_def Let_def)

lemma decode_encode:
  assumes "codec_ok cdc" "encodeCursor cdc env now sf v (JStr i) = Inr c" "v \<noteq> JUndef"
    "\<not> cursor_expired env later (rat_of_int (now div 1000))"
  shows "decodeCursor cdc env later (JStr c) (Some sf) =
    Inr \<lparr>cu_sortField = sf, cu_sortValue = json_clone v, cu_id = i, cu_iat = rat_of_int (now div 1000)\<rparr>"
proof -
  let ?v = "JObj [(''sortField'', JStr sf), (''sortValue'', v), (''id'', JStr i), (''iat'', JInt (now div 1000))]"
  from assms(2) obtain k where e: "sf \<in> set ALLOWED_SORT_FIELDS" "i \<noteq> []" "resolveCursorSecret env = Some k"
    "c = to_b64 cdc ?v @ ''.'' @ hmac_hex cdc k (to_b64 cdc ?v)"
    by (auto simp: encodeCursor_def sign_cursor_def Let_def split: if_splits option.splits)
  have "split_last_dot c = Some (to_b64 cdc ?v, hmac_hex cdc k (to_b64 cdc ?v))"
    unfolding e(4) using assms(1) by (intro split_last_dot_append) (simp add: codec_ok_def)
  moreover have "of_b64 cdc (to_b64 cdc ?v) =
      Some (JObj [(''sortField'', JStr sf), (''sortValue'', json_clone v), (''id'', JStr i), (''iat'', JInt (now div 1000))])"
    using assms(1,3) by (simp add: codec_ok_def)
  ultimately show ?thesis
    using e(1-3) assms(4)
    by (simp add: decodeCursor_def sign_cursor_def check_payload_def js_nullish_def)
qed

lemma decode_authentic:
  assumes "decodeCursor cdc env now (JStr c) (Some sf) = Inr d"
  shows "cu_sortField d = sf \<and> sf \<in> set ALLOWED_SORT_FIELDS \<and>
    (\<exists>b sig k. c = b @ ''.'' @ sig \<and> resolveCursorSecret env = Some k \<and>
       hex_decode sig = hex_decode (hmac_hex cdc k b) \<and>
       (\<exists>parsed. of_b64 cdc b = Some parsed \<and> js_get parsed ''id'' = JStr (cu_id d)))"
proof -
  obtain b sig where bs: "split_last_dot c = Some (b, sig)"
    using assms by (auto simp: decodeCursor_def split: option.splits)
  obtain k where k: "resolveCursorSecret env = Some k"
    using assms bs by (auto simp: decodeCursor_def sign_cursor_def split: option.splits)
  have h: "hex_decode sig = hex_decode (hmac_hex cdc k b)"
    using assms bs k by (auto simp: decodeCursor_def sign_cursor_def split: if_splits)
  obtain parsed where p: "of_b64 cdc b = Some parsed" "check_payload env now (Some sf) parsed = Inr d"
    using assms bs k h by (auto simp: decodeCursor_def sign_cursor_def split: option.splits)
  have "cu_sortField d = sf" "sf \<in> set ALLOWED_SORT_FIELDS" "js_get parsed ''id'' = JStr (cu_id d)"
    using p(2) by (auto simp: check_payload_def split: if_splits jsval.splits jsnum.splits)
  then show ?thesis using split_last_dot_join[OF bs] k h p(1) by blast
qed

lemma filter_after:
  assumes "sorted_wrt R (xs @ x # ys)" "\<And>a b. a \<in> set (xs @ x # ys) \<Longrightarrow> b \<in> set (xs @ x # ys) \<Longrightarrow> R a b \<Longrightarrow> \<not> R b a"
  shows "filter (R x) (xs @ x # ys) = ys"
proof -
  have "\<not> R x a" if "a \<in> set xs" for a using assms that by (auto simp: sorted_wrt_append)
  moreover have "\<not> R x x" using assms(2)[of x x] by auto
  moreover have "R x b" if "b \<in> set ys" for b using assms(1) that by (auto simp: sorted_wrt_append)
  ultimately show ?thesis by (simp add: filter_empty_conv filter_id_conv)
qed

lemma ordered_filter: "ordered rank f asc (filter P t) = filter P (ordered rank f asc t)"
  by (simp add: ordered_def filter_sort[symmetric] rev_filter[symmetric])

lemma set_ordered [simp]: "set (ordered rank f asc t) = set t"
  by (simp add: ordered_def)

text \<open>Rows with ranked sort values and distinct ranked ids.\<close>

definition keyed :: "(jsval \<Rightarrow> rat option) \<Rightarrow> string \<Rightarrow> table \<Rightarrow> bool" where
  "keyed rank f t \<longleftrightarrow>
     (\<forall>r\<in>set t. rank (col f r) \<noteq> None \<and> rank (col ''id'' r) \<noteq> None) \<and>
     distinct (map (\<lambda>r. rank (col ''id'' r)) t)"

lemma after_cursor_key:
  assumes "rank (col f a) \<noteq> None" "rank (col ''id'' a) \<noteq> None" "rank (col f b) \<noteq> None" "rank (col ''id'' b) \<noteq> None"
  shows "after_cursor rank f asc (col f a) (col ''id'' a) b \<longleftrightarrow>
    (if asc then order_key rank f a < order_key rank f b else order_key rank f b < order_key rank f a)"
  using assms
  by (auto simp: after_cursor_def Let_def sql_lt_def sql_eq_def order_key_def null_last_def less_prod_def)

text \<open>A row without sort value is never after a cursor: such rows are on no page but the first.\<close>

lemma null_rows_unreachable:
  assumes "rank (col f r) = None"
  shows "\<not> after_cursor rank f asc v i r"
  using assms by (auto simp: after_cursor_def Let_def sql_lt_def sql_eq_def split: option.splits)

lemma distinct_order_key:
  assumes "keyed rank f t"
  shows "distinct (map (order_key rank f) t)"
proof -
  have "inj_on (order_key rank f) (set t)"
  proof (rule inj_onI)
    fix a b assume ab: "a \<in> set t" "b \<in> set t" "order_key rank f a = order_key rank f b"
    then have "rank (col ''id'' a) = rank (col ''id'' b)"
      using assms by (auto simp: order_key_def null_last_def keyed_def split: option.splits)
    then show "a = b" using assms ab(1,2) unique_row[of "\<lambda>r. rank (col ''id'' r)" t a b] by (simp add: keyed_def)
  qed
  moreover have "distinct t" using assms by (auto simp: keyed_def distinct_map)
  ultimately show ?thesis by (simp add: distinct_map)
qed

lemma ordered_strict:
  assumes "keyed rank f t"
  shows "sorted_wrt (\<lambda>a b. after_cursor rank f asc (col f a) (col ''id'' a) b) (ordered rank f asc t)"
proof -
  let ?k = "order_key rank f"
  have "distinct (map ?k (sort_key ?k t))"
    using distinct_order_key[OF assms] by (simp add: distinct_map)
  then have "sorted_wrt (<) (map ?k (sort_key ?k t))" by (simp add: strict_sorted_iff)
  then have s: "sorted_wrt (\<lambda>a b. ?k a < ?k b) (sort_key ?k t)" by (simp add: sorted_wrt_map)
  have key: "after_cursor rank f asc (col f a) (col ''id'' a) b \<longleftrightarrow> (if asc then ?k a < ?k b else ?k b < ?k a)"
    if "a \<in> set t" "b \<in> set t" for a b
    using after_cursor_key[of rank f a b asc] that assms by (auto simp: keyed_def)
  show ?thesis
  proof (cases asc)
    case True
    show ?thesis
      unfolding ordered_def using True key
      by (auto intro: sorted_wrt_mono_rel[OF _ s])
  next
    case False
    have "sorted_wrt (\<lambda>a b. ?k b < ?k a) (rev (sort_key ?k t))" using s by (simp add: sorted_wrt_rev)
    then show ?thesis
      unfolding ordered_def using False key by (auto intro: sorted_wrt_mono_rel[rotated])
  qed
qed

lemma after_cursor_asym:
  assumes "keyed rank f t" "a \<in> set t" "b \<in> set t" "after_cursor rank f asc (col f a) (col ''id'' a) b"
  shows "\<not> after_cursor rank f asc (col f b) (col ''id'' b) a"
  using assms after_cursor_key[of rank f a b asc] after_cursor_key[of rank f b a asc]
  by (auto simp: keyed_def split: if_splits)

lemma rows_after:
  assumes "keyed rank f t" "ordered rank f asc t = xs @ x # ys"
  shows "ordered rank f asc (filter (after_cursor rank f asc (col f x) (col ''id'' x)) t) = ys"
proof -
  have "filter (after_cursor rank f asc (col f x) (col ''id'' x)) (xs @ x # ys) = ys"
  proof (rule filter_after)
    show "sorted_wrt (\<lambda>a b. after_cursor rank f asc (col f a) (col ''id'' a) b) (xs @ x # ys)"
      using ordered_strict[OF assms(1), of asc] assms(2) by simp
    show "\<not> after_cursor rank f asc (col f b) (col ''id'' b) a"
      if "a \<in> set (xs @ x # ys)" "b \<in> set (xs @ x # ys)" "after_cursor rank f asc (col f a) (col ''id'' a) b" for a b
    proof (rule after_cursor_asym[OF assms(1)])
      have "set (xs @ x # ys) = set t" using assms(2) by (metis set_ordered)
      then show "a \<in> set t" "b \<in> set t" using that by auto
    qed (rule that)
  qed
  then show ?thesis by (simp add: ordered_filter assms(2))
qed

text \<open>Rows the service can encode a cursor for.\<close>

definition cursor_rows :: "string \<Rightarrow> table \<Rightarrow> bool" where
  "cursor_rows f t \<longleftrightarrow>
     (\<forall>r\<in>set t. (\<exists>s. col ''id'' r = JStr s \<and> s \<noteq> []) \<and> json_clone (col f r) = col f r)"

lemma finish_page_ok:
  assumes "sf \<in> set ALLOWED_SORT_FIELDS" "resolveCursorSecret env = Some k" "cursor_rows sf ys" "1 \<le> limit"
  shows "\<exists>pg. finish_page cdc env now sf limit cnt page (take (nat limit + 1) ys) = Inr pg \<and>
    mk_data pg = take (nat limit) ys \<and>
    (if length ys > nat limit
     then \<exists>c. encodeCursor cdc env now sf (col sf (last (take (nat limit) ys)))
                (col ''id'' (last (take (nat limit) ys))) = Inr c \<and> mk_nextCursor pg = Some c
     else mk_nextCursor pg = None)"
proof (cases "length ys > nat limit")
  case False
  then show ?thesis by (simp add: finish_page_def Let_def)
next
  case True
  let ?d = "take (nat limit) ys"
  have d: "?d \<noteq> []" using True assms(4) by auto
  then have "last ?d \<in> set ys" by (metis in_set_takeD last_in_set)
  then obtain s where s: "col ''id'' (last ?d) = JStr s" "s \<noteq> []"
    using assms(3) by (auto simp: cursor_rows_def)
  then obtain c where c: "encodeCursor cdc env now sf (col sf (last ?d)) (col ''id'' (last ?d)) = Inr c"
    using encodeCursor_ok[OF assms(1) s(1) s(2) assms(2)] by metis
  have "take (nat limit) (take (nat limit + 1) ys) = ?d" by simp
  then show ?thesis using True d c by (simp add: finish_page_def Let_def)
qed

section \<open>Following the cursors\<close>

primrec follow ::
  "codec \<Rightarrow> cursor_env \<Rightarrow> (jsval \<Rightarrow> rat option) \<Rightarrow> time \<Rightarrow> string \<Rightarrow> market_params \<Rightarrow> table \<Rightarrow> nat \<Rightarrow>
   jsval \<Rightarrow> table option" where
  "follow cdc env rank now tenantId p t 0 cur = None"
| "follow cdc env rank now tenantId p t (Suc n) cur =
     (case getMarketplaceInvoices cdc env rank now tenantId (p\<lparr>mp_cursor := cur\<rparr>) t of
        Inl _ \<Rightarrow> None
      | Inr pg \<Rightarrow>
          (case mk_nextCursor pg of
             None \<Rightarrow> Some (mk_data pg)
           | Some c \<Rightarrow> map_option ((@) (mk_data pg)) (follow cdc env rank now tenantId p t n (JStr c))))"

lemma page_limit_bounds: "1 \<le> page_limit x \<and> page_limit x \<le> 100"
  by (auto simp: page_limit_def)

lemma sort_field_allowed: "sort_field p \<in> set ALLOWED_SORT_FIELDS"
  by (auto simp: sort_field_def ALLOWED_SORT_FIELDS_def split: jsval.splits)

lemma params_cursor_simps [simp]:
  "sort_field (p\<lparr>mp_cursor := c\<rparr>) = sort_field p" "matching rank tn (p\<lparr>mp_cursor := c\<rparr>) t = matching rank tn p t"
  by (simp_all add: sort_field_def matching_def)

text \<open>A request whose pages can be followed: a secret is configured, cursors do not expire, and the
  rows it matches can be ordered strictly and encoded.\<close>

definition walkable ::
  "codec \<Rightarrow> cursor_env \<Rightarrow> (jsval \<Rightarrow> rat option) \<Rightarrow> string \<Rightarrow> market_params \<Rightarrow> table \<Rightarrow> bool" where
  "walkable cdc env rank tenantId p t \<longleftrightarrow>
     codec_ok cdc \<and> resolveCursorSecret env \<noteq> None \<and> CURSOR_TTL_ENABLED env \<noteq> ''true'' \<and>
     tenantId \<noteq> [] \<and> mp_page p = JUndef \<and>
     keyed rank (sort_field p) (matching rank tenantId p t) \<and>
     cursor_rows (sort_field p) (matching rank tenantId p t)"

definition result_rows :: "(jsval \<Rightarrow> rat option) \<Rightarrow> string \<Rightarrow> market_params \<Rightarrow> table \<Rightarrow> table" where
  "result_rows rank tenantId p t =
     ordered rank (sort_field p) (mp_order p = JStr ''asc'') (matching rank tenantId p t)"

lemma first_page_rows:
  assumes "tenantId \<noteq> []" "mp_page p = JUndef"
  shows "getMarketplaceInvoices cdc env rank now tenantId (p\<lparr>mp_cursor := JUndef\<rparr>) t =
    finish_page cdc env now (sort_field p) (page_limit (mp_limit p)) (length (matching rank tenantId p t)) (Some 1)
      (take (nat (page_limit (mp_limit p)) + 1) (result_rows rank tenantId p t))"
  using assms by (simp add: getMarketplaceInvoices_def result_rows_def Let_def page_number_def)

lemma cursor_page_rows:
  assumes w: "walkable cdc env rank tenantId p t" and r: "result_rows rank tenantId p t = xs @ x # ys"
    and c: "encodeCursor cdc env now (sort_field p) (col (sort_field p) x) (col ''id'' x) = Inr c"
  shows "getMarketplaceInvoices cdc env rank now tenantId (p\<lparr>mp_cursor := JStr c\<rparr>) t =
    finish_page cdc env now (sort_field p) (page_limit (mp_limit p)) (length (matching rank tenantId p t)) None
      (take (nat (page_limit (mp_limit p)) + 1) ys)"
proof -
  let ?f = "sort_field p" and ?asc = "mp_order p = JStr ''asc''" and ?m = "matching rank tenantId p t"
  have "x \<in> set ?m" using r by (metis in_set_conv_decomp result_rows_def set_ordered)
  then obtain i where i: "col ''id'' x = JStr i" and v: "json_clone (col ?f x) = col ?f x"
    using w by (auto simp: walkable_def cursor_rows_def)
  have u: "col ?f x \<noteq> JUndef" using v by auto
  have "c \<noteq> []" using c by (auto simp: encodeCursor_def Let_def split: if_splits option.splits)
  have d: "decodeCursor cdc env now (JStr c) (Some ?f) = Inr \<lparr>cu_sortField = ?f, cu_sortValue = col ?f x,
      cu_id = i, cu_iat = rat_of_int (now div 1000)\<rparr>"
    using decode_encode[of cdc env now ?f "col ?f x" i c now] w c i u v
    by (simp add: walkable_def cursor_expired_def)
  have "ordered rank ?f ?asc (filter (after_cursor rank ?f ?asc (col ?f x) (col ''id'' x)) ?m) = ys"
    using rows_after[of rank ?f ?m ?asc xs x ys] w r by (simp add: walkable_def result_rows_def)
  then show ?thesis
    using w d i \<open>c \<noteq> []\<close> by (simp add: getMarketplaceInvoices_def Let_def walkable_def)
qed

lemma follow_suffix:
  assumes w: "walkable cdc env rank tenantId p t"
  shows "\<lbrakk>result_rows rank tenantId p t = xs @ ys; length ys \<le> n;
      (xs = [] \<and> cur = JUndef) \<or>
      (xs \<noteq> [] \<and> (\<exists>c. cur = JStr c \<and>
         encodeCursor cdc env now (sort_field p) (col (sort_field p) (last xs)) (col ''id'' (last xs)) = Inr c))\<rbrakk> \<Longrightarrow>
    follow cdc env rank now tenantId p t (Suc n) cur = Some ys"
proof (induction n arbitrary: xs ys cur rule: less_induct)
  case (less n)
  let ?l = "nat (page_limit (mp_limit p))"
  define page where "page = (if xs = [] then Some (1 :: int) else None)"
  have g: "getMarketplaceInvoices cdc env rank now tenantId (p\<lparr>mp_cursor := cur\<rparr>) t =
    finish_page cdc env now (sort_field p) (page_limit (mp_limit p)) (length (matching rank tenantId p t)) page
      (take (?l + 1) ys)"
  proof (cases "xs = []")
    case True
    then show ?thesis using less.prems first_page_rows w by (simp add: page_def walkable_def)
  next
    case False
    then show ?thesis
      using less.prems(1,3) cursor_page_rows[OF w, of "butlast xs" "last xs" ys now] by (auto simp: page_def)
  qed
  have sub: "set ys \<subseteq> set (matching rank tenantId p t)"
    using less.prems(1) by (metis Un_iff result_rows_def set_append set_ordered subsetI)
  have cr: "cursor_rows (sort_field p) ys" using w sub by (auto simp: walkable_def cursor_rows_def)
  obtain k where k: "resolveCursorSecret env = Some k" using w by (auto simp: walkable_def)
  from finish_page_ok[OF sort_field_allowed k cr, of "page_limit (mp_limit p)" cdc now _ page] page_limit_bounds
  obtain pg where pg: "getMarketplaceInvoices cdc env rank now tenantId (p\<lparr>mp_cursor := cur\<rparr>) t = Inr pg"
    "mk_data pg = take ?l ys"
    and nx: "if length ys > ?l
     then \<exists>c. encodeCursor cdc env now (sort_field p) (col (sort_field p) (last (take ?l ys)))
                (col ''id'' (last (take ?l ys))) = Inr c \<and> mk_nextCursor pg = Some c
     else mk_nextCursor pg = None"
    unfolding g by blast
  show ?case
  proof (cases "length ys > ?l")
    case False
    then show ?thesis using pg nx by simp
  next
    case True
    have l: "1 \<le> ?l" using page_limit_bounds[of "mp_limit p"] by linarith
    from nx True obtain c where c: "mk_nextCursor pg = Some c"
      "encodeCursor cdc env now (sort_field p) (col (sort_field p) (last (take ?l ys))) (col ''id'' (last (take ?l ys))) = Inr c"
      by auto
    obtain n' where n': "n = Suc n'" using True less.prems(2) by (cases n) auto
    have t: "take ?l ys \<noteq> []" using True l by auto
    have "follow cdc env rank now tenantId p t (Suc n') (JStr c) = Some (drop ?l ys)"
    proof (rule less.IH)
      show "result_rows rank tenantId p t = (xs @ take ?l ys) @ drop ?l ys" using less.prems(1) by simp
      show "length (drop ?l ys) \<le> n'" using less.prems(2) n' l True by simp
    qed (use n' t c in auto)
    then show ?thesis using pg c n' by simp
  qed
qed

text \<open>A codec that satisfies the law: values are counted and written in unary.\<close>

instance jsnum :: countable by countable_datatype
instance jsval :: countable by countable_datatype

definition unary_codec :: codec where
  "unary_codec = \<lparr>to_b64 = (\<lambda>v. replicate (to_nat v) CHR ''a''),
     of_b64 = (\<lambda>s. Some (json_clone (from_nat (length s)))), hmac_hex = (\<lambda>_ _. ''00'')\<rparr>"

lemma unary_codec_ok: "codec_ok unary_codec"
  by (simp add: codec_ok_def unary_codec_def)

definition dev_env :: cursor_env where
  "dev_env = \<lparr>CURSOR_SECRET = [], JWT_SECRET = ''s'', CURSOR_NODE_ENV = [], CURSOR_TTL_ENABLED = [],
     CURSOR_TTL_SECONDS = []\<rparr>"

definition sample_row :: "string \<Rightarrow> int \<Rightarrow> row" where
  "sample_row i y = [(''id'', JStr i), (''tenant_id'', JStr ''a''), (''status'', JStr ''verified''), (''yield_bps'', JInt y)]"

definition sample_rank :: "jsval \<Rightarrow> rat option" where
  "sample_rank v = (case v of JNum (NFin q) \<Rightarrow> Some q | JStr s \<Rightarrow> Some (of_int (foldl (\<lambda>n c. 256 * n + code_of c) 1 s)) | _ \<Rightarrow> None)"

definition sample_request :: market_params where
  "sample_request = \<lparr>mp_filters = [], mp_sortBy = JStr ''yield_bps'', mp_order = JStr ''asc'', mp_cursor = JUndef,
     mp_page = JUndef, mp_limit = JInt 1\<rparr>"

section \<open>Properties\<close>



text \<open>Cursors are authentic and round-trip. A cursor made for a row decodes, while it has not
  expired, to the row's sort value and id; a string that decodes carries the signature of its
  payload under the configured secret and the sort field of the request; outside development and
  test nothing is signed or accepted without a configured secret.\<close>
theorem cursor_authentic:
  assumes "codec_ok cdc"
  shows "(\<forall>v i c. encodeCursor cdc env now sf v (JStr i) = Inr c \<and> v \<noteq> JUndef \<and>
        \<not> cursor_expired env later (rat_of_int (now div 1000)) \<longrightarrow>
      decodeCursor cdc env later (JStr c) (Some sf) =
        Inr \<lparr>cu_sortField = sf, cu_sortValue = json_clone v, cu_id = i, cu_iat = rat_of_int (now div 1000)\<rparr>) \<and>
    (\<forall>c d. decodeCursor cdc env now (JStr c) (Some sf) = Inr d \<longrightarrow>
      cu_sortField d = sf \<and> (\<exists>b sig k. c = b @ ''.'' @ sig \<and> resolveCursorSecret env = Some k \<and>
        hex_decode sig = hex_decode (hmac_hex cdc k b))) \<and>
    (CURSOR_SECRET env = [] \<and> JWT_SECRET env = [] \<and> CURSOR_NODE_ENV env = ''production'' \<longrightarrow>
      (\<forall>v i c. \<not> is_ok (encodeCursor cdc env now sf v i) \<and> \<not> is_ok (decodeCursor cdc env now (JStr c) (Some sf))))"
proof (intro conjI allI impI)
  fix v i c assume "encodeCursor cdc env now sf v (JStr i) = Inr c \<and> v \<noteq> JUndef \<and>
        \<not> cursor_expired env later (rat_of_int (now div 1000))"
  then show "decodeCursor cdc env later (JStr c) (Some sf) =
        Inr \<lparr>cu_sortField = sf, cu_sortValue = json_clone v, cu_id = i, cu_iat = rat_of_int (now div 1000)\<rparr>"
    using decode_encode[OF assms] by blast
next
  fix c d assume "decodeCursor cdc env now (JStr c) (Some sf) = Inr d"
  from decode_authentic[OF this] show "cu_sortField d = sf"
    "\<exists>b sig k. c = b @ ''.'' @ sig \<and> resolveCursorSecret env = Some k \<and>
        hex_decode sig = hex_decode (hmac_hex cdc k b)" by blast+
next
  fix v i c assume "CURSOR_SECRET env = [] \<and> JWT_SECRET env = [] \<and> CURSOR_NODE_ENV env = ''production''"
  then have n: "resolveCursorSecret env = None" by (simp add: resolveCursorSecret_def)
  then show "\<not> is_ok (encodeCursor cdc env now sf v i)"
    by (simp add: encodeCursor_def sign_cursor_def Let_def)
  show "\<not> is_ok (decodeCursor cdc env now (JStr c) (Some sf))"
    using n by (auto simp: decodeCursor_def sign_cursor_def split: option.splits)
qed

theorem cursor_authentic_witness:
  "\<exists>c. encodeCursor unary_codec dev_env 5000 ''amount'' (JInt 7) (JStr ''x'') = Inr c \<and>
     decodeCursor unary_codec dev_env 9000 (JStr c) (Some ''amount'') =
       Inr \<lparr>cu_sortField = ''amount'', cu_sortValue = JInt 7, cu_id = ''x'', cu_iat = 5\<rparr>"
proof -
  have "resolveCursorSecret dev_env = Some ''s''" by (simp add: resolveCursorSecret_def dev_env_def)
  then obtain c where c: "encodeCursor unary_codec dev_env 5000 ''amount'' (JInt 7) (JStr ''x'') = Inr c"
    using encodeCursor_ok[of "''amount''" "JStr ''x''" "''x''" dev_env "''s''" unary_codec 5000 "JInt 7"]
    by (auto simp: ALLOWED_SORT_FIELDS_def)
  have "\<not> cursor_expired dev_env 9000 (rat_of_int (5000 div 1000))" by (simp add: cursor_expired_def dev_env_def)
  with c have "decodeCursor unary_codec dev_env 9000 (JStr c) (Some ''amount'') =
      Inr \<lparr>cu_sortField = ''amount'', cu_sortValue = json_clone (JInt 7), cu_id = ''x'', cu_iat = rat_of_int (5000 div 1000)\<rparr>"
    using cursor_authentic[OF unary_codec_ok, of dev_env 5000 "''amount''" 9000] by blast
  then show ?thesis using c by simp
qed

end
