(* ===== verification/EscrowMap.thy ===== *)
theory EscrowMap
  imports Commitment
begin

text \<open>
  The map between invoices and escrow contracts: \<open>src/src/config/escrowMap.js\<close>.

  The two environment variables are an argument (they can change between calls), as are \<open>JSON.parse\<close>
  and the address check. The module-level cache is explicit state. A failing rebuild leaves the cache
  as it was.
\<close>

datatype escrow_map_error = EscrowNotFoundError jsval | EscrowMapConfigError string | EscrowMapTypeError

record process_env =
  ESCROW_ADDR_BY_INVOICE :: string
  NODE_ENV :: string

record escrow_config =
  em_mappings :: "jsval list"
  em_defaultEnvironment :: jsval
  em_allowlistEnabled :: bool
  em_cacheEnabled :: bool
  em_cacheTtlSeconds :: rat

fun check_mappings :: "(jsval \<Rightarrow> bool) \<Rightarrow> jsval list \<Rightarrow> escrow_map_error option" where
  "check_mappings valid [] = None"
| "check_mappings valid (m # ms) =
     (if js_nullish m then Some EscrowMapTypeError
      else if \<not> (truthy (js_get m ''invoiceId'') \<and> js_typeof (js_get m ''invoiceId'') = ''string'')
      then Some (EscrowMapConfigError ''Each mapping must have a string invoiceId.'')
      else if \<not> (truthy (js_get m ''escrowAddress'') \<and> valid (js_get m ''escrowAddress''))
      then Some (EscrowMapConfigError
        (''Mapping for '' @ (case js_get m ''invoiceId'' of JStr s \<Rightarrow> s | _ \<Rightarrow> []) @
         '' has an invalid Stellar escrowAddress.''))
      else check_mappings valid ms)"

definition default_config :: escrow_config where
  "default_config = \<lparr>em_mappings = [], em_defaultEnvironment = JStr ''development'',
     em_allowlistEnabled = False, em_cacheEnabled = True, em_cacheTtlSeconds = 300\<rparr>"

definition parseConfig ::
  "(string \<Rightarrow> string + jsval) \<Rightarrow> (jsval \<Rightarrow> bool) \<Rightarrow> process_env \<Rightarrow> escrow_map_error + escrow_config" where
  "parseConfig parse valid env =
     (if ESCROW_ADDR_BY_INVOICE env = [] then Inr default_config
      else (case parse (ESCROW_ADDR_BY_INVOICE env) of
          Inl _ \<Rightarrow> Inl (EscrowMapConfigError
            ''ESCROW_ADDR_BY_INVOICE is not valid JSON. Check your environment configuration.'')
        | Inr parsed \<Rightarrow>
            if js_nullish parsed then Inl EscrowMapTypeError
            else (case js_get parsed ''mappings'' of
                JArr ms \<Rightarrow>
                  (case check_mappings valid ms of
                     Some e \<Rightarrow> Inl e
                   | None \<Rightarrow> Inr
                       \<lparr>em_mappings = ms,
                        em_defaultEnvironment = js_or (js_get parsed ''defaultEnvironment'') (JStr ''development''),
                        em_allowlistEnabled = truthy (js_get parsed ''allowlistEnabled''),
                        em_cacheEnabled = (js_get parsed ''cacheEnabled'' \<noteq> JBool False),
                        em_cacheTtlSeconds =
                          (case to_number (js_get parsed ''cacheTtlSeconds'') of NFin q \<Rightarrow> q | _ \<Rightarrow> 300)\<rparr>)
              | _ \<Rightarrow> Inl (EscrowMapConfigError ''ESCROW_ADDR_BY_INVOICE.mappings must be an array.''))))"

definition currentEnvironment :: "process_env \<Rightarrow> escrow_config \<Rightarrow> jsval" where
  "currentEnvironment env cfg = (if NODE_ENV env \<noteq> [] then JStr (NODE_ENV env) else em_defaultEnvironment cfg)"

definition active_in :: "jsval \<Rightarrow> jsval \<Rightarrow> bool" where
  "active_in e m \<longleftrightarrow> js_get m ''isActive'' \<noteq> JBool False \<and> js_get m ''environment'' = e"

record map_cache =
  mc_config :: escrow_config
  mc_reverseIndex :: "(jsval, jsval) amap"
  mc_builtAt :: time

definition build_index :: "jsval \<Rightarrow> jsval list \<Rightarrow> (jsval, jsval) amap" where
  "build_index e ms =
     foldl (\<lambda>idx m. if active_in e m
                     then AList.update (js_get m ''escrowAddress'') (js_get m ''invoiceId'') idx else idx) [] ms"

definition rebuildCache ::
  "(string \<Rightarrow> string + jsval) \<Rightarrow> (jsval \<Rightarrow> bool) \<Rightarrow> process_env \<Rightarrow> time \<Rightarrow> escrow_map_error + map_cache" where
  "rebuildCache parse valid env now =
     (case parseConfig parse valid env of
        Inl e \<Rightarrow> Inl e
      | Inr cfg \<Rightarrow> Inr \<lparr>mc_config = cfg,
                       mc_reverseIndex = build_index (currentEnvironment env cfg) (em_mappings cfg),
                       mc_builtAt = now\<rparr>)"

text \<open>Whether the cache is rebuilt, and the cache after \<open>_getConfig\<close>.\<close>

definition must_rebuild :: "time \<Rightarrow> map_cache option \<Rightarrow> bool" where
  "must_rebuild now c =
     (case c of
        None \<Rightarrow> True
      | Some mc \<Rightarrow>
          \<not> em_cacheEnabled (mc_config mc) \<or>
          (em_cacheTtlSeconds (mc_config mc) > 0 \<and>
           rat_of_int (now - mc_builtAt mc) \<ge> em_cacheTtlSeconds (mc_config mc) * 1000))"

definition getConfig ::
  "(string \<Rightarrow> string + jsval) \<Rightarrow> (jsval \<Rightarrow> bool) \<Rightarrow> process_env \<Rightarrow> time \<Rightarrow> map_cache option \<Rightarrow>
   escrow_map_error + map_cache" where
  "getConfig parse valid env now c =
     (if must_rebuild now c then rebuildCache parse valid env now else Inr (the c))"

definition resetCache :: "map_cache option \<Rightarrow> map_cache option" where
  "resetCache c = None"

definition resolveEscrowAddress ::
  "(string \<Rightarrow> string + jsval) \<Rightarrow> (jsval \<Rightarrow> bool) \<Rightarrow> process_env \<Rightarrow> time \<Rightarrow> jsval \<Rightarrow> map_cache option \<Rightarrow>
   (escrow_map_error + jsval) \<times> map_cache option" where
  "resolveEscrowAddress parse valid env now invoiceId c =
     (case getConfig parse valid env now c of
        Inl e \<Rightarrow> (Inl e, c)
      | Inr mc \<Rightarrow>
          (case List.find (\<lambda>m. js_get m ''invoiceId'' = invoiceId \<and>
                    active_in (currentEnvironment env (mc_config mc)) m) (em_mappings (mc_config mc)) of
             None \<Rightarrow> (Inl (EscrowNotFoundError invoiceId), Some mc)
           | Some m \<Rightarrow> (Inr (js_get m ''escrowAddress''), Some mc)))"

definition resolveInvoiceByAddress ::
  "(string \<Rightarrow> string + jsval) \<Rightarrow> (jsval \<Rightarrow> bool) \<Rightarrow> process_env \<Rightarrow> time \<Rightarrow> string option \<Rightarrow> map_cache option \<Rightarrow>
   (escrow_map_error + jsval) \<times> map_cache option" where
  "resolveInvoiceByAddress parse valid env now contractAddress c =
     (case contractAddress of
        None \<Rightarrow> (Inr JNull, c)
      | Some a \<Rightarrow>
          let address = JStr (trim a)
          in if \<not> valid address then (Inr JNull, c)
             else (case getConfig parse valid env now c of
                 Inl e \<Rightarrow> (Inl e, c)
               | Inr mc \<Rightarrow>
                   (Inr (case map_of (mc_reverseIndex mc) address of
                           Some i \<Rightarrow> js_or i JNull | None \<Rightarrow> JNull), Some mc)))"

section \<open>Lemmas\<close>

lemma check_mappings_ok:
  assumes "check_mappings valid ms = None" "m \<in> set ms"
  shows "(\<exists>i. js_get m ''invoiceId'' = JStr i \<and> i \<noteq> []) \<and> valid (js_get m ''escrowAddress'')"
  using assms
proof (induction ms)
  case (Cons x ms)
  then show ?case
    by (cases "js_get x ''invoiceId''") (auto split: if_splits)
qed simp

lemma parseConfig_ok:
  assumes "parseConfig parse valid env = Inr cfg" "m \<in> set (em_mappings cfg)"
  shows "(\<exists>i. js_get m ''invoiceId'' = JStr i \<and> i \<noteq> []) \<and> valid (js_get m ''escrowAddress'')"
  using assms check_mappings_ok[of valid "em_mappings cfg" m]
  by (auto simp: parseConfig_def default_config_def split: if_splits sum.splits jsval.splits option.splits)

lemma build_index_spec:
  "map_of (build_index e ms) a =
     map_option (\<lambda>m. js_get m ''invoiceId'')
       (List.find (\<lambda>m. active_in e m \<and> js_get m ''escrowAddress'' = a) (rev ms))"
  by (induction ms rule: rev_induct) (auto simp: build_index_def)

definition cache_ok :: "(string \<Rightarrow> string + jsval) \<Rightarrow> (jsval \<Rightarrow> bool) \<Rightarrow> process_env \<Rightarrow> map_cache \<Rightarrow> bool" where
  "cache_ok parse valid env mc \<longleftrightarrow>
     (\<forall>m\<in>set (em_mappings (mc_config mc)).
        (\<exists>i. js_get m ''invoiceId'' = JStr i \<and> i \<noteq> []) \<and> valid (js_get m ''escrowAddress'')) \<and>
     mc_reverseIndex mc = build_index (currentEnvironment env (mc_config mc)) (em_mappings (mc_config mc))"

lemma rebuildCache_ok: "rebuildCache parse valid env now = Inr mc \<Longrightarrow> cache_ok parse valid env mc"
  using parseConfig_ok[of parse valid env] by (auto simp: rebuildCache_def cache_ok_def split: sum.splits)

lemma getConfig_ok:
  assumes "getConfig parse valid env now c = Inr mc" "\<forall>mc0. c = Some mc0 \<longrightarrow> cache_ok parse valid env mc0"
  shows "cache_ok parse valid env mc"
  using assms rebuildCache_ok by (auto simp: getConfig_def must_rebuild_def split: if_splits option.splits)

lemma resolveEscrowAddress_ok:
  assumes "resolveEscrowAddress parse valid env now i c = (Inr a, c')"
  obtains mc m where "getConfig parse valid env now c = Inr mc" "c' = Some mc"
    "m \<in> set (em_mappings (mc_config mc))" "js_get m ''invoiceId'' = i"
    "active_in (currentEnvironment env (mc_config mc)) m" "a = js_get m ''escrowAddress''"
proof -
  from assms obtain mc where g: "getConfig parse valid env now c = Inr mc"
    by (cases "getConfig parse valid env now c") (auto simp: resolveEscrowAddress_def)
  from assms g obtain m where m: "List.find (\<lambda>m. js_get m ''invoiceId'' = i \<and>
      active_in (currentEnvironment env (mc_config mc)) m) (em_mappings (mc_config mc)) = Some m"
    "a = js_get m ''escrowAddress''" "c' = Some mc"
    by (auto simp: resolveEscrowAddress_def split: option.splits)
  show thesis using find_SomeD[OF m(1)] m g by (intro that[of mc m]) auto
qed

text \<open>A cached configuration that is still used is used again by the next call at the same time.\<close>

lemma getConfig_again:
  assumes "getConfig parse valid env now c = Inr mc"
  shows "\<exists>mc'. getConfig parse valid env now (Some mc) = Inr mc' \<and> mc_config mc' = mc_config mc \<and>
    (cache_ok parse valid env mc \<longrightarrow> mc_reverseIndex mc' = mc_reverseIndex mc)"
proof (cases "must_rebuild now (Some mc)")
  case False
  then show ?thesis by (simp add: getConfig_def)
next
  case True
  have "must_rebuild now c"
  proof (rule ccontr)
    assume n: "\<not> must_rebuild now c"
    then have "c = Some mc" using assms by (auto simp: getConfig_def must_rebuild_def split: option.splits)
    then show False using n True by simp
  qed
  then have r: "rebuildCache parse valid env now = Inr mc" using assms by (simp add: getConfig_def)
  then show ?thesis using True by (simp add: getConfig_def)
qed

section \<open>Properties\<close>


definition sample_map :: jsval where
  "sample_map = JObj [(''mappings'', JArr [JObj [(''invoiceId'', JStr ''inv_1''),
     (''escrowAddress'', JStr ''CA''), (''environment'', JStr ''test'')]])]"


text \<open>Entries with a time to live of zero or less are never refreshed.\<close>

lemma ttl_zero_never_expires:
  assumes "em_cacheEnabled (mc_config mc)" "em_cacheTtlSeconds (mc_config mc) \<le> 0"
  shows "getConfig parse valid env now (Some mc) = Inr mc"
  using assms by (simp add: getConfig_def must_rebuild_def)

text \<open>When an address is mapped twice, the reverse lookup gives the later mapping only.\<close>

lemma reverse_last_wins:
  assumes "active_in e m1" "active_in e m2" "js_get m1 ''escrowAddress'' = js_get m2 ''escrowAddress''"
  shows "map_of (build_index e [m1, m2]) (js_get m1 ''escrowAddress'') = Some (js_get m2 ''invoiceId'')"
  using assms by (simp add: build_index_spec)

end
