(* ===== verification/Invest.thy ===== *)
theory Invest
  imports Marketplace EscrowMap EscrowRead "HOL-Library.Multiset"
begin

text \<open>
  Investment opportunities: \<open>src/src/services/investService.js\<close> and the batched escrow reads of
  \<open>src/src/services/escrowBatchRead.js\<close>.

  The workers of a batch interleave at their awaits: a batch is a step relation over the ids that
  are waiting, the ids being read and the reads that are done. \<open>idle\<close> is the number of workers that
  are about to take an id.
\<close>

section \<open>Batched reads\<close>

record read_failure =
  rf_message :: string
  rf_code :: jsval

text \<open>A promise that settles after some time, or never. A promise that settles at the very moment
  of the timeout counts as late.\<close>

type_synonym 'a timed = "(time \<times> (read_failure + 'a)) option"

definition withTimeout :: "(int \<Rightarrow> string) \<Rightarrow> 'a timed \<Rightarrow> time \<Rightarrow> string \<Rightarrow> read_failure + 'a" where
  "withTimeout shows_int promise ms i =
     (case promise of
        Some (d, r) \<Rightarrow> if d < ms then r
          else Inl \<lparr>rf_message = ''On-chain read timed out after '' @ shows_int ms @ ''ms'' @
                      (if i = [] then [] else '' for '' @ i), rf_code = JStr ''ETIMEDOUT''\<rparr>
      | None \<Rightarrow> Inl \<lparr>rf_message = ''On-chain read timed out after '' @ shows_int ms @ ''ms'' @
                      (if i = [] then [] else '' for '' @ i), rf_code = JStr ''ETIMEDOUT''\<rparr>)"

record batch =
  idle :: nat
  remaining :: "jsval list"
  active :: "jsval list"
  finished :: "(jsval \<times> (read_failure + jsval)) list"

definition new_batch :: "int \<Rightarrow> jsval list \<Rightarrow> batch" where
  "new_batch concurrency invoiceIds =
     \<lparr>idle = nat (min concurrency (int (length invoiceIds))), remaining = invoiceIds, active = [], finished = []\<rparr>"

inductive batch_step :: "(jsval \<Rightarrow> read_failure + jsval) \<Rightarrow> batch \<Rightarrow> batch \<Rightarrow> bool" for read where
  skip: "idle b > 0 \<Longrightarrow> remaining b = i # rest \<Longrightarrow> \<not> truthy i \<Longrightarrow>
     batch_step read b (b\<lparr>remaining := rest\<rparr>)"
| start: "idle b > 0 \<Longrightarrow> remaining b = i # rest \<Longrightarrow> truthy i \<Longrightarrow>
     batch_step read b (b\<lparr>idle := idle b - 1, remaining := rest, active := active b @ [i]\<rparr>)"
| settle: "active b = xs @ i # ys \<Longrightarrow>
     batch_step read b (b\<lparr>idle := idle b + 1, active := xs @ ys, finished := finished b @ [(i, read i)]\<rparr>)"

inductive_cases batch_stepE: "batch_step read b b'"

inductive batch_reach :: "(jsval \<Rightarrow> read_failure + jsval) \<Rightarrow> batch \<Rightarrow> batch \<Rightarrow> bool" for read b where
  batch_refl: "batch_reach read b b"
| batch_next: "batch_reach read b c \<Longrightarrow> batch_step read c d \<Longrightarrow> batch_reach read b d"

text \<open>All workers have returned: nothing is being read, and no worker has an id to take.\<close>

definition settled :: "batch \<Rightarrow> bool" where
  "settled b \<longleftrightarrow> active b = [] \<and> (remaining b = [] \<or> idle b = 0)"

definition batch_results :: "batch \<Rightarrow> jsval list" where
  "batch_results b = List.map_filter (\<lambda>(i, r). case r of Inr v \<Rightarrow> Some v | Inl _ \<Rightarrow> None) (finished b)"

definition batch_errors :: "batch \<Rightarrow> (jsval \<times> string \<times> jsval) list" where
  "batch_errors b = List.map_filter (\<lambda>(i, r). case r of
      Inl e \<Rightarrow> Some (i, (if rf_message e = [] then ''Unknown error'' else rf_message e),
                       js_or (rf_code e) (JStr ''INTERNAL_ERROR''))
    | Inr _ \<Rightarrow> None) (finished b)"

lemma batch_conservation:
  assumes "batch_step read b b'"
  shows "mset (filter truthy (remaining b')) + mset (active b') + mset (map fst (finished b')) =
      mset (filter truthy (remaining b)) + mset (active b) + mset (map fst (finished b)) \<and>
    idle b' + length (active b') = idle b + length (active b)"
  using assms by (cases rule: batch_step.cases) auto

lemma reachable_conservation:
  assumes "batch_reach read b c"
  shows "mset (filter truthy (remaining c)) + mset (active c) + mset (map fst (finished c)) =
      mset (filter truthy (remaining b)) + mset (active b) + mset (map fst (finished b)) \<and>
    idle c + length (active c) = idle b + length (active b)"
  using assms by induction (use batch_conservation in fastforce)+

lemma reachable_outcomes:
  assumes "batch_reach read b c" "\<forall>(i, r)\<in>set (finished b). r = read i"
  shows "\<forall>(i, r)\<in>set (finished c). r = read i"
  using assms by induction (auto elim!: batch_stepE)

definition work_left :: "batch \<Rightarrow> nat" where
  "work_left b = 2 * length (remaining b) + length (active b)"

lemma batch_step_decreases: "batch_step read b b' \<Longrightarrow> work_left b' < work_left b"
  by (cases rule: batch_step.cases) (auto simp: work_left_def)

lemma batch_progress: "\<not> settled b \<Longrightarrow> \<exists>b'. batch_step read b b'"
proof (cases "active b")
  case Nil
  moreover assume "\<not> settled b"
  ultimately obtain i rest where "remaining b = i # rest" "idle b > 0"
    by (cases "remaining b") (auto simp: settled_def)
  then show ?thesis using batch_step.skip batch_step.start by blast
next
  case (Cons i ys)
  then have "active b = [] @ i # ys" by simp
  then show ?thesis using batch_step.settle by blast
qed

lemma reach_settled: "\<exists>c. batch_reach read b c \<and> settled c"
proof -
  have "\<exists>c. batch_reach read b c \<and> settled c" if "batch_reach read b d" for d
    using that
  proof (induction "work_left d" arbitrary: d rule: less_induct)
    case less
    show ?case
    proof (cases "settled d")
      case False
      then obtain d' where d': "batch_step read d d'" using batch_progress by blast
      then show ?thesis using less.hyps[OF batch_step_decreases[OF d']] less.prems batch_reach.batch_next by blast
    qed (use less.prems in blast)
  qed
  then show ?thesis using batch_reach.batch_refl by blast
qed



section \<open>Opportunities\<close>

record opportunity =
  op_invoiceId :: jsval
  op_fundedBps :: int
  op_maturityAt :: "string option"
  op_yieldBps :: jsval
  op_onChain :: row

text \<open>\<open>toISO\<close> is \<open>new Date(v).toISOString()\<close>, which raises a \<open>RangeError\<close> (\<open>None\<close>) for an invalid
  date; the service then fails as a whole.\<close>

definition toOpportunityDto :: "(jsval \<Rightarrow> string option) \<Rightarrow> row \<Rightarrow> opportunity option" where
  "toOpportunityDto toISO r =
     (let ratio = (if col ''funded_ratio'' r = JUndef then NFin 0 else to_number (col ''funded_ratio'' r));
          bps = (case ratio of NFin q \<Rightarrow> js_round (q * 100) | _ \<Rightarrow> 0);
          m = col ''maturity_date'' r;
          mk = (\<lambda>d. \<lparr>op_invoiceId = col ''id'' r, op_fundedBps = bps, op_maturityAt = d,
                 op_yieldBps = (if col ''yield_bps'' r = JUndef then JNull
                                else JNum (to_number (col ''yield_bps'' r))),
                 op_onChain = [(''escrowAddress'', JNull), (''ledgerIndex'', JNull)]\<rparr>)
      in if \<not> truthy m then Some (mk None)
         else map_option (\<lambda>d. mk (Some d)) (toISO m))"

fun sequence_opt :: "'a option list \<Rightarrow> 'a list option" where
  "sequence_opt [] = Some []"
| "sequence_opt (x # xs) =
     (case x of None \<Rightarrow> None | Some a \<Rightarrow> map_option (Cons a) (sequence_opt xs))"

datatype invest_error = InvestMissingTenant | InvestRangeError

record invest_page =
  ip_data :: "opportunity list"
  ip_total :: nat
  ip_page :: int
  ip_limit :: int
  ip_totalPages :: int

definition limit_of :: "int \<Rightarrow> jsval \<Rightarrow> int" where
  "limit_of dflt x = max 1 (min 100 (case parse_int x of Some n \<Rightarrow> if n = 0 then dflt else n | None \<Rightarrow> dflt))"

definition page_from :: "jsval \<Rightarrow> int" where
  "page_from x = max 1 (case parse_int x of Some n \<Rightarrow> if n = 0 then 1 else n | None \<Rightarrow> 1)"

text \<open>The page of a tenant's investable rows, newest first.\<close>

definition opportunity_rows :: "string \<Rightarrow> int \<Rightarrow> int \<Rightarrow> table \<Rightarrow> table" where
  "opportunity_rows tenantId page limit t =
     take (nat limit) (drop (nat ((page - 1) * limit)) (order_desc ''created_at'' (filter (investable tenantId) t)))"

definition getOpportunities ::
  "(jsval \<Rightarrow> string option) \<Rightarrow> string \<Rightarrow> jsval \<Rightarrow> jsval \<Rightarrow> table \<Rightarrow> invest_error + invest_page" where
  "getOpportunities toISO tenantId page limit t =
     (if tenantId = [] then Inl InvestMissingTenant
      else let pageNum = page_from page;
               limitSize = limit_of 10 limit;
               cnt = length (filter (investable tenantId) t)
           in case sequence_opt (map (toOpportunityDto toISO) (opportunity_rows tenantId pageNum limitSize t)) of
                None \<Rightarrow> Inl InvestRangeError
              | Some ds \<Rightarrow> Inr \<lparr>ip_data = ds, ip_total = cnt, ip_page = pageNum, ip_limit = limitSize,
                              ip_totalPages = (int cnt + limitSize - 1) div limitSize\<rparr>)"

definition filterTenantOwnedInvoiceIds :: "jsval list \<Rightarrow> string \<Rightarrow> table \<Rightarrow> jsval list" where
  "filterTenantOwnedInvoiceIds invoiceIds tenantId t =
     (let ownedIds = map (col ''id'') (filter (\<lambda>r. col ''id'' r \<in> set invoiceIds \<and>
            col_eq ''tenant_id'' (JStr tenantId) r \<and> is_null ''deleted_at'' r) t)
      in filter (\<lambda>i. i \<in> set ownedIds) invoiceIds)"

text \<open>The batched reads are a function of the ids, with results and errors.\<close>

type_synonym batch_reader = "jsval list \<Rightarrow> jsval list \<times> (jsval \<times> string \<times> jsval) list"

definition result_for :: "jsval \<Rightarrow> jsval list \<Rightarrow> row" where
  "result_for i results =
     (case List.find (\<lambda>r. js_get r ''invoiceId'' = i) results of Some r \<Rightarrow> spread r | None \<Rightarrow> [])"

definition error_for :: "jsval \<Rightarrow> (jsval \<times> string \<times> jsval) list \<Rightarrow> jsval" where
  "error_for i errors =
     (case List.find (\<lambda>(j, _). j = i) errors of Some (_, e, _) \<Rightarrow> JStr e | None \<Rightarrow> JNull)"

definition merge_state :: "jsval list \<times> (jsval \<times> string \<times> jsval) list \<Rightarrow> opportunity \<Rightarrow> opportunity" where
  "merge_state reads it =
     it\<lparr>op_onChain := AList.update ''syncError'' (error_for (op_invoiceId it) (snd reads))
          (overlay (result_for (op_invoiceId it) (fst reads)) (op_onChain it))\<rparr>"

record invest_list =
  il_data :: "opportunity list"
  il_limit :: int
  il_nextCursor :: jsval
  il_count :: nat
  il_hasMore :: bool

text \<open>Rows are ordered by id; the second result is the list of ids whose state is read.\<close>

definition listInvestments ::
  "(jsval \<Rightarrow> string option) \<Rightarrow> (jsval \<Rightarrow> rat option) \<Rightarrow> batch_reader \<Rightarrow> string \<Rightarrow> jsval \<Rightarrow> jsval \<Rightarrow> table \<Rightarrow>
   invest_error + invest_list \<times> jsval list" where
  "listInvestments toISO rank batchRead tenantId cursor limit t =
     (if tenantId = [] then Inl InvestMissingTenant
      else let limitSize = limit_of 10 limit;
               rows = take (nat limitSize) (sort_key (\<lambda>r. null_last (rank (col ''id'' r)))
                 (filter (\<lambda>r. investable tenantId r \<and> (truthy cursor \<longrightarrow> sql_lt rank cursor (col ''id'' r))) t))
           in case sequence_opt (map (toOpportunityDto toISO) rows) of
                None \<Rightarrow> Inl InvestRangeError
              | Some candidates \<Rightarrow>
                  let ids = filterTenantOwnedInvoiceIds (map op_invoiceId candidates) tenantId t;
                      items = filter (\<lambda>it. op_invoiceId it \<in> set ids) candidates;
                      data = map (merge_state (batchRead ids)) items
                  in Inr (\<lparr>il_data = data, il_limit = limitSize,
                       il_nextCursor = (if data \<noteq> [] then op_invoiceId (last data) else JNull),
                       il_count = length data, il_hasMore = (int (length data) = limitSize)\<rparr>, ids))"

text \<open>\<open>resolve\<close> is \<open>resolveEscrowAddress\<close>, an error leaves the address empty.\<close>

definition enrich ::
  "(jsval \<Rightarrow> escrow_map_error + jsval) \<Rightarrow> jsval list \<Rightarrow> opportunity \<Rightarrow> opportunity" where
  "enrich resolve results it =
     (let addr = (case resolve (op_invoiceId it) of Inr a \<Rightarrow> (if truthy a then a else JStr []) | Inl _ \<Rightarrow> JStr [])
      in it\<lparr>op_onChain := AList.update ''ledgerIndex'' JNull
             (AList.update ''escrowAddress'' addr (result_for (op_invoiceId it) results))\<rparr>)"

definition listOpportunities ::
  "(jsval \<Rightarrow> string option) \<Rightarrow> (jsval \<Rightarrow> escrow_map_error + jsval) \<Rightarrow> batch_reader \<Rightarrow> string \<Rightarrow> jsval \<Rightarrow> jsval \<Rightarrow>
   table \<Rightarrow> invest_error + invest_page \<times> jsval list" where
  "listOpportunities toISO resolve batchRead tenantId page limit t =
     (if tenantId = [] then Inl InvestMissingTenant
      else let pageNum = page_from page;
               limitSize = limit_of 20 limit;
               cnt = length (filter (investable tenantId) t)
           in case sequence_opt (map (toOpportunityDto toISO) (opportunity_rows tenantId pageNum limitSize t)) of
                None \<Rightarrow> Inl InvestRangeError
              | Some candidates \<Rightarrow>
                  let ids = filterTenantOwnedInvoiceIds (map op_invoiceId candidates) tenantId t;
                      items = filter (\<lambda>it. op_invoiceId it \<in> set ids) candidates
                  in Inr (\<lparr>ip_data = map (enrich resolve (fst (batchRead ids))) items, ip_total = cnt,
                       ip_page = pageNum, ip_limit = limitSize,
                       ip_totalPages = (int cnt + limitSize - 1) div limitSize\<rparr>, ids))"

lemma sequence_opt_set:
  "sequence_opt (map f xs) = Some ys \<Longrightarrow> y \<in> set ys \<Longrightarrow> \<exists>x\<in>set xs. f x = Some y"
  by (induction xs arbitrary: ys) (auto split: option.splits)

lemma toOpportunityDto_id: "toOpportunityDto toISO r = Some d \<Longrightarrow> op_invoiceId d = col ''id'' r"
  by (auto simp: toOpportunityDto_def Let_def split: if_splits)

lemma sequence_opt_length: "sequence_opt xs = Some ys \<Longrightarrow> length ys = length xs"
  by (induction xs arbitrary: ys) (auto split: option.splits)

lemma opportunity_rows_investable: "r \<in> set (opportunity_rows tn pg l t) \<Longrightarrow> r \<in> set t \<and> investable tn r"
  unfolding opportunity_rows_def by (auto dest!: in_set_takeD in_set_dropD)

lemma dto_ids_investable:
  assumes "sequence_opt (map (toOpportunityDto toISO) rows) = Some ds" "d \<in> set ds"
    "\<And>r. r \<in> set rows \<Longrightarrow> r \<in> set t \<and> investable tn r"
  shows "\<exists>r\<in>set t. investable tn r \<and> col ''id'' r = op_invoiceId d"
  using sequence_opt_set[OF assms(1,2)] assms(3) toOpportunityDto_id by metis

lemma op_invoiceId_merge [simp]:
  "op_invoiceId (merge_state x it) = op_invoiceId it" "op_invoiceId (enrich f y it) = op_invoiceId it"
  by (simp_all add: merge_state_def enrich_def Let_def)

lemma owned_ids:
  "i \<in> set (filterTenantOwnedInvoiceIds ids tn t) \<Longrightarrow>
   i \<in> set ids \<and> (\<exists>r\<in>set t. col ''id'' r = i \<and> col ''tenant_id'' r = JStr tn \<and> is_null ''deleted_at'' r)"
  by (auto simp: filterTenantOwnedInvoiceIds_def Let_def)

lemma limit_of_bounds: "1 \<le> limit_of n x \<and> limit_of n x \<le> 100"
  by (auto simp: limit_of_def)

lemma dtos_bounded:
  assumes "sequence_opt (map f (take (nat (limit_of n x)) rows)) = Some ds"
  shows "length ds \<le> 100"
proof -
  have "length ds \<le> nat (limit_of n x)" using sequence_opt_length[OF assms] by simp
  then show ?thesis using limit_of_bounds[of n x] by linarith
qed

lemma getOpportunities_scoped:
  assumes "getOpportunities toISO tn page limit t = Inr pg"
  shows "length (ip_data pg) \<le> 100 \<and>
    (\<forall>d\<in>set (ip_data pg). \<exists>r\<in>set t. investable tn r \<and> col ''id'' r = op_invoiceId d)"
proof -
  let ?rows = "opportunity_rows tn (page_from page) (limit_of 10 limit) t"
  have s: "sequence_opt (map (toOpportunityDto toISO) ?rows) = Some (ip_data pg)"
    using assms by (auto simp: getOpportunities_def Let_def split: if_splits option.splits)
  show ?thesis
    using dtos_bounded[OF s[unfolded opportunity_rows_def]] dto_ids_investable[OF s] opportunity_rows_investable
    by blast
qed

lemma listOpportunities_scoped:
  assumes "listOpportunities toISO resolve batchRead tn page limit t = Inr (pg, ids)"
  shows "length (ip_data pg) \<le> 100 \<and>
    (\<forall>d\<in>set (ip_data pg). op_invoiceId d \<in> set ids \<and>
       (\<exists>r\<in>set t. investable tn r \<and> col ''id'' r = op_invoiceId d)) \<and>
    (\<forall>i\<in>set ids. \<exists>r\<in>set t. col ''id'' r = i \<and> col ''tenant_id'' r = JStr tn \<and> is_null ''deleted_at'' r)"
proof -
  let ?rows = "opportunity_rows tn (page_from page) (limit_of 20 limit) t"
  obtain cs where s: "sequence_opt (map (toOpportunityDto toISO) ?rows) = Some cs"
    and ids: "ids = filterTenantOwnedInvoiceIds (map op_invoiceId cs) tn t"
    and d: "ip_data pg = map (enrich resolve (fst (batchRead ids))) (filter (\<lambda>it. op_invoiceId it \<in> set ids) cs)"
    using assms by (auto simp: listOpportunities_def Let_def split: if_splits option.splits)
  have "length (ip_data pg) \<le> 100"
    using dtos_bounded[OF s[unfolded opportunity_rows_def]] unfolding d by (simp add: le_trans[OF length_filter_le])
  moreover have "\<exists>r\<in>set t. investable tn r \<and> col ''id'' r = op_invoiceId it" if "it \<in> set cs" for it
    using dto_ids_investable[OF s that] opportunity_rows_investable by blast
  ultimately show ?thesis using owned_ids[of _ "map op_invoiceId cs" tn t] by (auto simp: d ids)
qed

lemma listInvestments_scoped:
  assumes "listInvestments toISO rank batchRead tn cursor limit t = Inr (pg, ids)"
  shows "length (il_data pg) \<le> 100 \<and>
    (\<forall>d\<in>set (il_data pg). op_invoiceId d \<in> set ids \<and>
       (\<exists>r\<in>set t. investable tn r \<and> col ''id'' r = op_invoiceId d)) \<and>
    (\<forall>i\<in>set ids. \<exists>r\<in>set t. col ''id'' r = i \<and> col ''tenant_id'' r = JStr tn \<and> is_null ''deleted_at'' r)"
proof -
  let ?rows = "take (nat (limit_of 10 limit)) (sort_key (\<lambda>r. null_last (rank (col ''id'' r)))
     (filter (\<lambda>r. investable tn r \<and> (truthy cursor \<longrightarrow> sql_lt rank cursor (col ''id'' r))) t))"
  obtain cs where s: "sequence_opt (map (toOpportunityDto toISO) ?rows) = Some cs"
    and ids: "ids = filterTenantOwnedInvoiceIds (map op_invoiceId cs) tn t"
    and d: "il_data pg = map (merge_state (batchRead ids)) (filter (\<lambda>it. op_invoiceId it \<in> set ids) cs)"
    using assms by (auto simp: listInvestments_def Let_def split: if_splits option.splits)
  have "length (il_data pg) \<le> 100"
    using dtos_bounded[OF s] unfolding d by (simp add: le_trans[OF length_filter_le])
  moreover have "\<exists>r\<in>set t. investable tn r \<and> col ''id'' r = op_invoiceId it" if "it \<in> set cs" for it
    by (rule dto_ids_investable[OF s that]) (auto dest!: in_set_takeD)
  ultimately show ?thesis using owned_ids[of _ "map op_invoiceId cs" tn t] by (auto simp: d ids)
qed

text \<open>C17: opportunities never leave the tenant. Every opportunity that the three listings return is
  the id of a live invoice of the tenant whose status is investable, at most a hundred are returned,
  and the on-chain state is read only for ids that a live invoice of the tenant has.\<close>
theorem opportunities_tenant_scoped:
  shows "(\<forall>pg. getOpportunities toISO tn page limit t = Inr pg \<longrightarrow> length (ip_data pg) \<le> 100 \<and>
      (\<forall>d\<in>set (ip_data pg). \<exists>r\<in>set t. investable tn r \<and> col ''id'' r = op_invoiceId d)) \<and>
    (\<forall>pg ids. listOpportunities toISO resolve batchRead tn page limit t = Inr (pg, ids) \<longrightarrow>
      length (ip_data pg) \<le> 100 \<and>
      (\<forall>d\<in>set (ip_data pg). op_invoiceId d \<in> set ids \<and>
         (\<exists>r\<in>set t. investable tn r \<and> col ''id'' r = op_invoiceId d)) \<and>
      (\<forall>i\<in>set ids. \<exists>r\<in>set t. col ''id'' r = i \<and> col ''tenant_id'' r = JStr tn \<and> is_null ''deleted_at'' r)) \<and>
    (\<forall>pg ids. listInvestments toISO rank batchRead tn cursor limit t = Inr (pg, ids) \<longrightarrow>
      length (il_data pg) \<le> 100 \<and>
      (\<forall>d\<in>set (il_data pg). op_invoiceId d \<in> set ids \<and>
         (\<exists>r\<in>set t. investable tn r \<and> col ''id'' r = op_invoiceId d)) \<and>
      (\<forall>i\<in>set ids. \<exists>r\<in>set t. col ''id'' r = i \<and> col ''tenant_id'' r = JStr tn \<and> is_null ''deleted_at'' r))"
  by (rule conjI[OF _ conjI]; intro allI impI)
    (erule getOpportunities_scoped listOpportunities_scoped listInvestments_scoped)+

theorem opportunities_tenant_scoped_witness:
  "\<exists>pg. getOpportunities (\<lambda>_. None) ''a'' JUndef JUndef [sample_row ''x'' 500] = Inr pg \<and>
     (\<forall>d\<in>set (ip_data pg). \<exists>r\<in>set [sample_row ''x'' 500]. investable ''a'' r \<and> col ''id'' r = op_invoiceId d)"
proof -
  have "\<exists>pg. getOpportunities (\<lambda>_. None) ''a'' JUndef JUndef [sample_row ''x'' 500] = Inr pg"
    by (simp add: getOpportunities_def Let_def opportunity_rows_def order_desc_def page_from_def limit_of_def
        investable_def is_null_def js_nullish_def col_def sample_row_def INVESTABLE_STATUSES_def toOpportunityDto_def)
  then obtain pg where "getOpportunities (\<lambda>_. None) ''a'' JUndef JUndef [sample_row ''x'' 500] = Inr pg" ..
  then show ?thesis
    using opportunities_tenant_scoped[of "\<lambda>_. None" "''a''" JUndef JUndef "[sample_row ''x'' 500]"
        "\<lambda>_. Inl EscrowMapTypeError" "\<lambda>_. ([], [])" sample_rank JUndef] by blast
qed

end
