(* ===== verification/Indexer.thy ===== *)
theory Indexer
  imports EscrowMap EscrowRead
begin

text \<open>
  The escrow event indexer: \<open>src/src/jobs/escrowIndexer.js\<close>.

  The store is a record of the cursor, the events by id and the projection by invoice (both as
  insertion-ordered maps; the projection keeps the event it was made from). Whether a transaction
  fails, the answer of Horizon and the reverse lookup of an address are arguments; so are
  \<open>StrKey.isValidContractId\<close> and the text \<open>String(v)\<close> of a value that is no string.
\<close>

section \<open>Validation\<close>

definition js_text :: "(jsval \<Rightarrow> string) \<Rightarrow> jsval \<Rightarrow> string" where
  "js_text str v = (case v of JStr s \<Rightarrow> s | _ \<Rightarrow> str v)"

definition INVOICE_ID_REGEX :: "string \<Rightarrow> bool" where
  "INVOICE_ID_REGEX s \<longleftrightarrow>
     list_all (\<lambda>c. is_alnum c \<or> c = CHR ''_'' \<or> c = CHR ''-'') s \<and> 1 \<le> length s \<and> length s \<le> 128"

definition base32_char :: "char \<Rightarrow> bool" where
  "base32_char c \<longleftrightarrow> is_upper c \<or> (50 \<le> code_of c \<and> code_of c \<le> 55)"

text \<open>\<open>checksum\<close> is false where the library function raises.\<close>

definition isValidStellarContractId :: "(string \<Rightarrow> bool) \<Rightarrow> jsval \<Rightarrow> bool" where
  "isValidStellarContractId checksum v =
     (case v of
        JStr s \<Rightarrow> length s = 56 \<and> hd s = CHR ''C'' \<and> list_all base32_char (tl s) \<and> checksum s
      | _ \<Rightarrow> False)"

definition isValidTxHash :: "jsval \<Rightarrow> bool" where
  "isValidTxHash v =
     (case v of JStr s \<Rightarrow> length s = 64 \<and> list_all (\<lambda>c. hex_val c \<noteq> None) s | _ \<Rightarrow> False)"

section \<open>Events\<close>

record event =
  ev_eventId :: string
  ev_invoiceId :: string
  ev_eventType :: string
  ev_ledgerSequence :: int
  ev_pagingToken :: string
  ev_contractId :: "string option"
  ev_txHash :: "string option"
  ev_eventBody :: jsval
  ev_observedAt :: jsval

definition valid_candidate :: "(jsval \<Rightarrow> string) \<Rightarrow> jsval \<Rightarrow> string option" where
  "valid_candidate str v =
     (if js_nullish v then None
      else let s = trim (js_text str v) in if INVOICE_ID_REGEX s then Some s else None)"

definition labelled :: "(jsval \<Rightarrow> string) \<Rightarrow> jsval \<Rightarrow> string option" where
  "labelled str v =
     (case valid_candidate str (js_get v ''invoice_id'') of
        Some s \<Rightarrow> Some s
      | None \<Rightarrow> valid_candidate str (js_get v ''invoiceId''))"

definition event_topics :: "jsval \<Rightarrow> jsval list" where
  "event_topics r =
     (case js_get r ''topics'' of
        JArr ts \<Rightarrow> ts
      | _ \<Rightarrow> (case js_get r ''topic'' of JArr ts \<Rightarrow> ts | _ \<Rightarrow> []))"

fun first_some :: "('a \<Rightarrow> 'b option) \<Rightarrow> 'a list \<Rightarrow> 'b option" where
  "first_some f [] = None"
| "first_some f (x # xs) = (case f x of Some y \<Rightarrow> Some y | None \<Rightarrow> first_some f xs)"

text \<open>The third source: the reverse lookup, which may raise.\<close>

definition from_contract ::
  "(jsval \<Rightarrow> string) \<Rightarrow> (string \<Rightarrow> bool) \<Rightarrow> (string \<Rightarrow> 'e + jsval) \<Rightarrow> jsval \<Rightarrow> 'e + string option" where
  "from_contract str checksum reverseLookup r =
     (let cid = js_get r ''contract_id''
      in if \<not> truthy cid then Inr None
         else (case reverseLookup (js_text str cid) of
             Inl e \<Rightarrow> Inl e
           | Inr resolved \<Rightarrow>
               if resolved = JStr (js_text str cid) \<or> isValidStellarContractId checksum resolved then Inr None
               else Inr (valid_candidate str resolved)))"

definition deriveInvoiceId ::
  "(jsval \<Rightarrow> string) \<Rightarrow> (string \<Rightarrow> bool) \<Rightarrow> (string \<Rightarrow> 'e + jsval) \<Rightarrow> jsval \<Rightarrow> 'e + string option" where
  "deriveInvoiceId str checksum reverseLookup r =
     (if \<not> is_object r then Inr None
      else (case labelled str r of
          Some i \<Rightarrow> Inr (Some i)
        | None \<Rightarrow>
            (case (if is_object (js_get r ''value'') then labelled str (js_get r ''value'') else None) of
               Some i \<Rightarrow> Inr (Some i)
             | None \<Rightarrow>
                 (case first_some (\<lambda>t. if is_object t then labelled str t else None) (event_topics r) of
                    Some i \<Rightarrow> Inr (Some i)
                  | None \<Rightarrow> from_contract str checksum reverseLookup r))))"

definition opt_text :: "(jsval \<Rightarrow> string) \<Rightarrow> jsval \<Rightarrow> string option" where
  "opt_text str v = (if truthy v then Some (trim (js_text str v)) else None)"

definition text_or_empty :: "(jsval \<Rightarrow> string) \<Rightarrow> jsval \<Rightarrow> string" where
  "text_or_empty str v = trim (js_text str (js_or v (JStr [])))"

definition normalizeEvent ::
  "(jsval \<Rightarrow> string) \<Rightarrow> (string \<Rightarrow> bool) \<Rightarrow> string \<Rightarrow> jsval \<Rightarrow> string + event" where
  "normalizeEvent str checksum nowIso raw =
     (if \<not> is_object raw then Inl ''Event payload must be an object.''
      else let invoiceId = text_or_empty str (js_get raw ''invoiceId'');
               eventId = text_or_empty str (js_get raw ''eventId'');
               eventType = text_or_empty str (js_get raw ''eventType'');
               pagingToken = text_or_empty str (js_get raw ''pagingToken'');
               contractId = opt_text str (js_get raw ''contractId'');
               txHash = opt_text str (js_get raw ''txHash'')
           in if \<not> INVOICE_ID_REGEX invoiceId then Inl ''Invalid invoiceId format.''
              else if eventId = [] then Inl ''eventId is required.''
              else if eventType = [] then Inl ''eventType is required.''
              else (case to_number (js_get raw ''ledgerSequence'') of
                  NFin q \<Rightarrow>
                    if \<not> is_integer_rat q \<or> q \<le> 0 then Inl ''ledgerSequence must be a positive integer.''
                    else if contractId \<noteq> None \<and> contractId \<noteq> Some [] \<and>
                            \<not> isValidStellarContractId checksum (JStr (the contractId))
                    then Inl ''Invalid contractId format or checksum.''
                    else if txHash \<noteq> None \<and> txHash \<noteq> Some [] \<and> \<not> isValidTxHash (JStr (the txHash))
                    then Inl ''Invalid txHash format.''
                    else Inr \<lparr>ev_eventId = eventId, ev_invoiceId = invoiceId, ev_eventType = eventType,
                           ev_ledgerSequence = \<lfloor>q\<rfloor>, ev_pagingToken = pagingToken,
                           ev_contractId = contractId, ev_txHash = txHash,
                           ev_eventBody = js_or (js_get raw ''eventBody'') (JObj []),
                           ev_observedAt = js_or (js_get raw ''observedAt'') (JStr nowIso)\<rparr>
                | _ \<Rightarrow> Inl ''ledgerSequence must be a positive integer.''))"

section \<open>The store\<close>

record event_store =
  es_cursor :: "string option"
  es_events :: "(string, event) amap"
  es_projection :: "(string, event) amap"

definition loadCursor :: "event_store \<Rightarrow> string option" where
  "loadCursor s = es_cursor s"

definition saveCursor :: "string \<Rightarrow> event_store \<Rightarrow> event_store" where
  "saveCursor c s = s\<lparr>es_cursor := Some c\<rparr>"

definition findProjection :: "string \<Rightarrow> event_store \<Rightarrow> event option" where
  "findProjection i s = map_of (es_projection s) i"

text \<open>\<open>onConflict('event_id').ignore()\<close> and \<open>onConflict('invoice_id').merge(...)\<close>\<close>

definition upsertEvent :: "event \<Rightarrow> event_store \<Rightarrow> event_store" where
  "upsertEvent e s =
     (if amap_has (es_events s) (ev_eventId e) then s
      else s\<lparr>es_events := AList.update (ev_eventId e) e (es_events s)\<rparr>)"

definition upsertProjection :: "event \<Rightarrow> event_store \<Rightarrow> event_store" where
  "upsertProjection e s = s\<lparr>es_projection := AList.update (ev_invoiceId e) e (es_projection s)\<rparr>"

text \<open>The row of \<open>escrow_event_projection\<close> written for an event, as the read service sees it.\<close>

definition projection_row :: "(jsval \<Rightarrow> string) \<Rightarrow> event \<Rightarrow> projection" where
  "projection_row stringify e =
     \<lparr>latest_event_body = JStr (stringify (ev_eventBody e)), latest_event_type = JStr (ev_eventType e),
      latest_event_id = JStr (ev_eventId e), latest_ledger_sequence = JInt (ev_ledgerSequence e),
      latest_paging_token = js_or (JStr (ev_pagingToken e)) JNull, latest_observed_at = ev_observedAt e\<rparr>"

text \<open>Paging tokens are compared as strings, by code units.\<close>

definition shouldReplaceProjection :: "event option \<Rightarrow> event \<Rightarrow> bool" where
  "shouldReplaceProjection current e =
     (case current of
        None \<Rightarrow> True
      | Some p \<Rightarrow>
          if ev_ledgerSequence e > ev_ledgerSequence p then True
          else if ev_ledgerSequence e < ev_ledgerSequence p then False
          else ev_pagingToken p < ev_pagingToken e)"

text \<open>The body of the transaction for a normalized event.\<close>

definition store_event :: "event \<Rightarrow> event_store \<Rightarrow> event_store" where
  "store_event e s =
     (let s1 = upsertEvent e s
      in if shouldReplaceProjection (findProjection (ev_invoiceId e) s1) e then upsertProjection e s1 else s1)"

text \<open>\<open>fails\<close>: the transaction is rolled back and raises.\<close>

definition persistEscrowEvent ::
  "(jsval \<Rightarrow> string) \<Rightarrow> (string \<Rightarrow> bool) \<Rightarrow> string \<Rightarrow> bool \<Rightarrow> jsval \<Rightarrow> event_store \<Rightarrow>
   (string + event) \<times> event_store" where
  "persistEscrowEvent str checksum nowIso fails raw s =
     (case normalizeEvent str checksum nowIso raw of
        Inl e \<Rightarrow> (Inl e, s)
      | Inr e \<Rightarrow> if fails then (Inl ''transaction failed'', s) else (Inr e, store_event e s))"

section \<open>Fetching and cycles\<close>

definition horizon_event :: "(jsval \<Rightarrow> string) \<Rightarrow> string \<Rightarrow> string \<Rightarrow> jsval \<Rightarrow> jsval" where
  "horizon_event str nowIso i r =
     JObj [(''eventId'', JStr (js_text str (js_or (js_get r ''id'') (JStr [])))),
       (''invoiceId'', JStr i), (''eventType'', js_or (js_get r ''type'') (JStr ''contract_event'')),
       (''ledgerSequence'', JNum (to_number (js_or (js_get r ''ledger'') (JInt 0)))),
       (''pagingToken'', JStr (js_text str (js_or (js_get r ''paging_token'') (JStr [])))),
       (''contractId'', js_or (js_get r ''contract_id'') JNull),
       (''txHash'', js_or (js_get r ''tx_hash'') JNull),
       (''eventBody'', r), (''observedAt'', JStr nowIso)]"

fun horizon_events ::
  "(jsval \<Rightarrow> string) \<Rightarrow> (string \<Rightarrow> bool) \<Rightarrow> (string \<Rightarrow> 'e + jsval) \<Rightarrow> string \<Rightarrow> jsval list \<Rightarrow> 'e + jsval list" where
  "horizon_events str checksum rev_lookup nowIso [] = Inr []"
| "horizon_events str checksum rev_lookup nowIso (r # rs) =
     (case deriveInvoiceId str checksum rev_lookup r of
        Inl e \<Rightarrow> Inl e
      | Inr i \<Rightarrow>
          (case horizon_events str checksum rev_lookup nowIso rs of
             Inl e \<Rightarrow> Inl e
           | Inr evs \<Rightarrow> Inr (case i of None \<Rightarrow> evs | Some j \<Rightarrow> horizon_event str nowIso j r # evs)))"

definition cursor_text :: "string option \<Rightarrow> jsval" where
  "cursor_text c = (case c of Some s \<Rightarrow> JStr s | None \<Rightarrow> JStr [])"

definition next_cursor :: "(jsval \<Rightarrow> string) \<Rightarrow> string option \<Rightarrow> jsval list \<Rightarrow> string option" where
  "next_cursor str cursor records =
     (if records \<noteq> []
      then Some (js_text str (js_or (js_get (last records) ''paging_token'') (cursor_text cursor)))
      else (case cursor of Some s \<Rightarrow> if s = [] then None else Some s | None \<Rightarrow> None))"

text \<open>\<open>answer\<close>: the records of the response, or the error of the request.\<close>

definition fetchEscrowEventsFromHorizon ::
  "(jsval \<Rightarrow> string) \<Rightarrow> (string \<Rightarrow> bool) \<Rightarrow> (string \<Rightarrow> 'e + jsval) \<Rightarrow> string \<Rightarrow> 'e + jsval list \<Rightarrow>
   string option \<Rightarrow> 'e + jsval list \<times> string option" where
  "fetchEscrowEventsFromHorizon str checksum rev_lookup nowIso answer cursor =
     (case answer of
        Inl e \<Rightarrow> Inl e
      | Inr records \<Rightarrow>
          (case horizon_events str checksum rev_lookup nowIso records of
             Inl e \<Rightarrow> Inl e
           | Inr evs \<Rightarrow> Inr (evs, next_cursor str cursor records)))"

record cycle_summary =
  cy_processed :: nat
  cy_skipped :: nat
  cy_cursorBefore :: "string option"
  cy_cursorAfter :: "string option"

fun persist_all ::
  "(jsval \<Rightarrow> string) \<Rightarrow> (string \<Rightarrow> bool) \<Rightarrow> string \<Rightarrow> (nat \<Rightarrow> bool) \<Rightarrow> nat \<Rightarrow> jsval list \<Rightarrow> event_store \<Rightarrow>
   nat \<times> nat \<times> event_store" where
  "persist_all str checksum nowIso fails n [] s = (0, 0, s)"
| "persist_all str checksum nowIso fails n (raw # raws) s =
     (case persistEscrowEvent str checksum nowIso (fails n) raw s of
        (r, s') \<Rightarrow>
          (case persist_all str checksum nowIso fails (Suc n) raws s' of
             (p, k, s'') \<Rightarrow> if is_ok r then (Suc p, k, s'') else (p, Suc k, s'')))"

definition advance :: "string option \<Rightarrow> string option \<Rightarrow> event_store \<Rightarrow> event_store" where
  "advance nxt cursor s =
     (case nxt of
        None \<Rightarrow> s
      | Some c \<Rightarrow> if c \<noteq> [] \<and> nxt \<noteq> cursor then saveCursor c s else s)"

definition or_cursor :: "string option \<Rightarrow> string option \<Rightarrow> string option" where
  "or_cursor a b = (case a of Some c \<Rightarrow> if c \<noteq> [] then Some c else (case b of Some d \<Rightarrow> if d \<noteq> [] then b else None | None \<Rightarrow> None)
     | None \<Rightarrow> (case b of Some d \<Rightarrow> if d \<noteq> [] then b else None | None \<Rightarrow> None))"

definition runEscrowIndexerCycle ::
  "(jsval \<Rightarrow> string) \<Rightarrow> (string \<Rightarrow> bool) \<Rightarrow> string \<Rightarrow> (nat \<Rightarrow> bool) \<Rightarrow>
   (string option \<Rightarrow> 'e + jsval list \<times> string option) \<Rightarrow> event_store \<Rightarrow> ('e + cycle_summary) \<times> event_store" where
  "runEscrowIndexerCycle str checksum nowIso fails fetch s =
     (let cursor = loadCursor s
      in case fetch cursor of
           Inl e \<Rightarrow> (Inl e, s)
         | Inr (raws, nxt) \<Rightarrow>
             (case persist_all str checksum nowIso fails 0 raws s of
                (p, k, s') \<Rightarrow>
                  (Inr \<lparr>cy_processed = p, cy_skipped = k, cy_cursorBefore = cursor,
                        cy_cursorAfter = or_cursor nxt cursor\<rparr>, advance nxt cursor s')))"

section \<open>The handle\<close>

record indexer =
  ix_timer :: bool
  ix_running :: bool

text \<open>\<open>runCycle\<close> up to its first await, and its end (the \<open>finally\<close> block); the result tells whether a
  cycle was started.\<close>

definition runCycle_begin :: "indexer \<Rightarrow> bool \<times> indexer" where
  "runCycle_begin x = (if ix_running x then (False, x) else (True, x\<lparr>ix_running := True\<rparr>))"

definition runCycle_end :: "indexer \<Rightarrow> indexer" where
  "runCycle_end x = x\<lparr>ix_running := False\<rparr>"

definition indexer_start :: "indexer \<Rightarrow> bool \<times> indexer" where
  "indexer_start x =
     (if ix_timer x then (False, x)
      else (case runCycle_begin x of (began, x') \<Rightarrow> (began, x'\<lparr>ix_timer := True\<rparr>)))"

definition indexer_stop :: "indexer \<Rightarrow> indexer" where
  "indexer_stop x = (if ix_timer x then x\<lparr>ix_timer := False\<rparr> else x)"

section \<open>Lemmas\<close>

definition ev_key :: "event \<Rightarrow> int \<times> string" where
  "ev_key e = (ev_ledgerSequence e, ev_pagingToken e)"

definition empty_store :: event_store where
  "empty_store = \<lparr>es_cursor = None, es_events = [], es_projection = []\<rparr>"

lemma shouldReplace_iff: "shouldReplaceProjection (Some p) e \<longleftrightarrow> ev_key p < ev_key e"
  by (auto simp: shouldReplaceProjection_def ev_key_def less_prod_def)

lemma store_event_projection:
  "findProjection i (store_event e s) =
     (if ev_invoiceId e = i \<and> shouldReplaceProjection (findProjection i s) e then Some e else findProjection i s)"
  by (auto simp: store_event_def upsertEvent_def upsertProjection_def findProjection_def Let_def)

lemma store_event_events:
  "map_of (es_events (store_event e s)) j =
     (if j = ev_eventId e \<and> map_of (es_events s) j = None then Some e else map_of (es_events s) j)"
  by (auto simp: store_event_def upsertEvent_def upsertProjection_def Let_def amap_has_iff)

text \<open>The normalized events of a batch.\<close>

definition accepted :: "(jsval \<Rightarrow> string) \<Rightarrow> (string \<Rightarrow> bool) \<Rightarrow> string \<Rightarrow> jsval list \<Rightarrow> event list" where
  "accepted str checksum nowIso raws =
     List.map_filter (\<lambda>r. case normalizeEvent str checksum nowIso r of Inr e \<Rightarrow> Some e | Inl _ \<Rightarrow> None) raws"

lemma persist_all_accepted:
  assumes "persist_all str checksum nowIso (\<lambda>_. False) n raws s = (p, k, s')"
  shows "s' = fold store_event (accepted str checksum nowIso raws) s \<and>
    p = length (accepted str checksum nowIso raws) \<and> p + k = length raws"
  using assms
proof (induction raws arbitrary: n s p k s')
  case Nil
  then show ?case by (simp add: accepted_def map_filter_simps)
next
  case (Cons r raws)
  show ?case
  proof (cases "normalizeEvent str checksum nowIso r")
    case (Inl e)
    then show ?thesis
      using Cons by (auto simp: persistEscrowEvent_def accepted_def map_filter_simps split: prod.splits)
  next
    case (Inr e)
    then show ?thesis
      using Cons by (auto simp: persistEscrowEvent_def accepted_def map_filter_simps split: prod.splits)
  qed
qed

definition latest :: "string \<Rightarrow> event list \<Rightarrow> event option \<Rightarrow> bool" where
  "latest i es r =
     (case r of
        None \<Rightarrow> \<forall>e\<in>set es. ev_invoiceId e \<noteq> i
      | Some p \<Rightarrow> p \<in> set es \<and> ev_invoiceId p = i \<and>
                   (\<forall>e\<in>set es. ev_invoiceId e = i \<longrightarrow> ev_key e \<le> ev_key p))"

lemma projection_latest: "latest i es (findProjection i (fold store_event es empty_store))"
proof (induction es rule: rev_induct)
  case Nil
  then show ?case by (simp add: latest_def findProjection_def empty_store_def)
next
  case (snoc e es)
  let ?p = "findProjection i (fold store_event es empty_store)"
  show ?case
  proof (cases ?p)
    case None
    then show ?thesis
      using snoc by (auto simp: latest_def store_event_projection shouldReplaceProjection_def)
  next
    case (Some p)
    then show ?thesis
      using snoc by (auto simp: latest_def store_event_projection shouldReplace_iff not_less intro: order.strict_implies_order order_trans)
  qed
qed

lemma latest_unique:
  assumes "latest i es r" "latest i es' r'" "set es = set es'"
    "\<And>a b. a \<in> set es \<Longrightarrow> b \<in> set es \<Longrightarrow> ev_invoiceId a = ev_invoiceId b \<Longrightarrow> ev_key a = ev_key b \<Longrightarrow> a = b"
  shows "r = r'"
proof (cases r)
  case None
  then show ?thesis using assms(1-3) by (cases r') (auto simp: latest_def)
next
  case (Some p)
  then obtain p' where p': "r' = Some p'" using assms(1-3) by (cases r') (auto simp: latest_def)
  have "ev_key p = ev_key p'"
    using assms(1-3) Some p' by (intro antisym) (auto simp: latest_def)
  then show ?thesis using assms Some p' by (auto simp: latest_def)
qed

lemma normalizeEvent_ok:
  assumes "normalizeEvent str checksum nowIso raw = Inr e"
  shows "ev_eventId e \<noteq> [] \<and> ev_eventType e \<noteq> [] \<and> INVOICE_ID_REGEX (ev_invoiceId e) \<and> 0 < ev_ledgerSequence e"
  using assms
  by (auto simp: normalizeEvent_def Let_def is_integer_rat_def split: if_splits jsnum.splits)

lemma accepted_ok:
  assumes "e \<in> set (accepted str checksum nowIso raws)"
  shows "ev_eventId e \<noteq> [] \<and> ev_eventType e \<noteq> [] \<and> INVOICE_ID_REGEX (ev_invoiceId e) \<and> 0 < ev_ledgerSequence e"
proof -
  obtain raw where "normalizeEvent str checksum nowIso raw = Inr e"
    using assms by (auto simp: accepted_def List.map_filter_def split: sum.splits)
  then show ?thesis by (rule normalizeEvent_ok)
qed

section \<open>Properties\<close>

text \<open>C28: the projection converges to the latest event, in whatever order events arrive. After the
  delivery of any raw events (over any number of cycles, duplicates included) with no failing
  transaction, the projection of an invoice is an accepted event of that invoice with the greatest
  ledger sequence and, within it, the greatest paging token, and exists if there is any; every
  delivered event is counted as processed or skipped; and two deliveries of the same set of events,
  in different orders or with repetitions, give the same projection when no two events of an invoice
  share ledger and token.\<close>
theorem projection_converges:
  assumes "persist_all str checksum nowIso (\<lambda>_. False) 0 raws empty_store = (p, k, s)"
    "persist_all str checksum nowIso (\<lambda>_. False) 0 raws' empty_store = (p', k', s')"
  shows "latest i (accepted str checksum nowIso raws) (findProjection i s) \<and>
    p + k = length raws \<and> p = length (accepted str checksum nowIso raws) \<and>
    (set raws = set raws' \<and>
     (\<forall>a\<in>set (accepted str checksum nowIso raws). \<forall>b\<in>set (accepted str checksum nowIso raws).
        ev_invoiceId a = ev_invoiceId b \<and> ev_key a = ev_key b \<longrightarrow> a = b) \<longrightarrow>
     findProjection i s = findProjection i s')"
proof (intro conjI impI)
  note a = persist_all_accepted[OF assms(1)] and a' = persist_all_accepted[OF assms(2)]
  show l: "latest i (accepted str checksum nowIso raws) (findProjection i s)"
    using projection_latest a by simp
  show "p + k = length raws" "p = length (accepted str checksum nowIso raws)" using a by simp_all
  assume h: "set raws = set raws' \<and>
     (\<forall>a\<in>set (accepted str checksum nowIso raws). \<forall>b\<in>set (accepted str checksum nowIso raws).
        ev_invoiceId a = ev_invoiceId b \<and> ev_key a = ev_key b \<longrightarrow> a = b)"
  have l': "latest i (accepted str checksum nowIso raws') (findProjection i s')"
    using projection_latest a' by simp
  have "set (accepted str checksum nowIso raws) = set (accepted str checksum nowIso raws')"
    using h by (auto simp: accepted_def List.map_filter_def)
  then show "findProjection i s = findProjection i s'"
    using latest_unique[OF l l'] h by blast
qed

definition sample_event :: "string \<Rightarrow> int \<Rightarrow> jsval" where
  "sample_event i n = JObj [(''invoiceId'', JStr ''inv_1''), (''eventId'', JStr i), (''eventType'', JStr ''funded''),
     (''ledgerSequence'', JInt n)]"

theorem projection_converges_witness:
  "map_option ev_eventId (findProjection ''inv_1'' (snd (snd (persist_all (\<lambda>_. []) (\<lambda>_. False) []
     (\<lambda>_. False) 0 [sample_event ''b'' 7, sample_event ''a'' 5] empty_store)))) = Some ''b''"
proof -
  let ?raws = "[sample_event ''b'' 7, sample_event ''a'' 5]"
  obtain p k s where s: "persist_all (\<lambda>_. []) (\<lambda>_. False) [] (\<lambda>_. False) 0 ?raws empty_store = (p, k, s)"
    by (metis prod_cases3)
  have acc: "map (\<lambda>e. (ev_eventId e, ev_invoiceId e, ev_ledgerSequence e))
      (accepted (\<lambda>_. []) (\<lambda>_. False) [] ?raws) = [(''b'', ''inv_1'', 7), (''a'', ''inv_1'', 5)]"
    by code_simp
  have l: "latest ''inv_1'' (accepted (\<lambda>_. []) (\<lambda>_. False) [] ?raws) (findProjection ''inv_1'' s)"
    using projection_converges[OF s s, of "''inv_1''"] by blast
  obtain e1 e2 where es: "accepted (\<lambda>_. []) (\<lambda>_. False) [] ?raws = [e1, e2]"
    "ev_eventId e1 = ''b''" "ev_invoiceId e1 = ''inv_1''" "ev_ledgerSequence e1 = 7"
    "ev_invoiceId e2 = ''inv_1''" "ev_ledgerSequence e2 = 5"
    using acc by (cases "accepted (\<lambda>_. []) (\<lambda>_. False) [] ?raws"; cases "tl (accepted (\<lambda>_. []) (\<lambda>_. False) [] ?raws)") auto
  then have "findProjection ''inv_1'' s = Some e1"
    using l by (cases "findProjection ''inv_1'' s") (auto simp: latest_def ev_key_def less_eq_prod_def)
  then show ?thesis using s es by simp
qed

text \<open>A transaction that fails for a passing reason loses its event: it counts as skipped, the cursor
  moves past it, and later cycles start behind it.\<close>

lemma failed_event_is_passed:
  assumes "fetch (es_cursor s) = Inr ([raw], Some c)" "c \<noteq> []" "es_cursor s \<noteq> Some c" "fails 0"
  shows "snd (runEscrowIndexerCycle str checksum nowIso fails fetch s) = s\<lparr>es_cursor := Some c\<rparr>"
  using assms
  by (auto simp: runEscrowIndexerCycle_def loadCursor_def saveCursor_def advance_def persistEscrowEvent_def
      Let_def split: sum.splits)

text \<open>The order of paging tokens is that of strings, not of the numbers they write.\<close>

lemma token_order_is_textual: "\<not> (''9'' < (''10'' :: string))"
  by (simp add: less_char_def)

text \<open>While a cycle runs no second one is started.\<close>

lemma no_overlapping_cycles:
  "fst (runCycle_begin x) \<longleftrightarrow> \<not> ix_running x" "ix_running (snd (runCycle_begin x))"
  "fst (indexer_start x) \<Longrightarrow> \<not> ix_running x"
  by (auto simp: runCycle_begin_def indexer_start_def split: if_splits)

text \<open>Ids that the read service accepts but the indexer drops.\<close>

lemma dotted_ids_are_dropped: "validateInvoiceId (JStr ''inv.1'') = None \<and> \<not> INVOICE_ID_REGEX ''inv.1''"
  by code_simp

end
