(* ===== verification/Reconcile.thy ===== *)
theory Reconcile
  imports Marketplace EscrowRead
begin

text \<open>
  Nightly reconciliation: \<open>src/src/jobs/reconcileEscrow.js\<close>.

  The async generator over the database is the list it yields. Ids have a rank in the order of the
  primary key. \<open>read\<close> is the outcome of \<open>readFundedAmount\<close> for an id; times are arguments.
\<close>

section \<open>Configuration\<close>

datatype reconcile_status = MATCH | MISMATCH | ERR

definition RECONCILABLE_STATUSES :: "string list" where
  "RECONCILABLE_STATUSES = [''linked_escrow'', ''funded'', ''partially_funded'']"

definition DEFAULT_PAGE_SIZE :: rat where "DEFAULT_PAGE_SIZE = 100"

definition threshold_of :: "string \<Rightarrow> int" where
  "threshold_of env = max 1 (case parse_int_str env of Some n \<Rightarrow> if n = 0 then 1 else n | None \<Rightarrow> 1)"

definition getDriftThreshold :: "string \<Rightarrow> int" where
  "getDriftThreshold env = threshold_of env"

definition getMismatchAlertThreshold :: "string \<Rightarrow> int" where
  "getMismatchAlertThreshold env = threshold_of env"

datatype alert_channel = LogOnly | SentryOnly | SentryAndLog

definition getMismatchAlertChannel :: "string \<Rightarrow> alert_channel" where
  "getMismatchAlertChannel env =
     (if env = ''log'' then LogOnly else if env = ''sentry'' then SentryOnly else SentryAndLog)"

record alert_env =
  ae_threshold :: string
  ae_channel :: string
  ae_sentryEnabled :: bool

text \<open>Whether an alert is written to the log and whether it goes to Sentry.\<close>

definition raiseReconciliationMismatchAlert :: "alert_env \<Rightarrow> bool \<times> bool" where
  "raiseReconciliationMismatchAlert env =
     (let ch = getMismatchAlertChannel (ae_channel env)
      in if getMismatchAlertThreshold (ae_threshold env) > 1 then (False, False)
         else (ch = LogOnly \<or> ch = SentryAndLog, (ch = SentryOnly \<or> ch = SentryAndLog) \<and> ae_sentryEnabled env))"

definition toFundedTotal :: "jsval \<Rightarrow> rat" where
  "toFundedTotal v = (case to_number v of NFin q \<Rightarrow> q | _ \<Rightarrow> 0)"

section \<open>Iterating over the database\<close>

definition reconcilable :: "row \<Rightarrow> bool" where
  "reconcilable r \<longleftrightarrow> (\<exists>s\<in>set RECONCILABLE_STATUSES. col ''status'' r = JStr s) \<and> is_null ''deleted_at'' r"

text \<open>The left join with the summaries: an invoice without summary has a null total, one with
  several appears once for each.\<close>

definition joined :: "table \<Rightarrow> table \<Rightarrow> (jsval \<times> jsval) list" where
  "joined invoices summaries =
     concat (map (\<lambda>r. case filter (\<lambda>s. col ''invoice_id'' s = col ''id'' r) summaries of
         [] \<Rightarrow> [(col ''id'' r, JNull)]
       | ss \<Rightarrow> map (\<lambda>s. (col ''id'' r, col ''total_funded'' s)) ss) (filter reconcilable invoices))"

definition page_size :: "jsval \<Rightarrow> nat" where
  "page_size opt =
     (case to_number opt of
        NFin q \<Rightarrow>
          let raw = (if q = 0 then DEFAULT_PAGE_SIZE else q);
              tr = (if 0 \<le> raw then \<lfloor>raw\<rfloor> else \<lceil>raw\<rceil>)
          in nat (min (max 1 tr) 1000)
      | NNaN \<Rightarrow> 100
      | NPosInf \<Rightarrow> 1000
      | NNegInf \<Rightarrow> 1)"

definition beyond :: "(jsval \<Rightarrow> rat) \<Rightarrow> jsval option \<Rightarrow> jsval \<times> jsval \<Rightarrow> bool" where
  "beyond rank lastId r = (case lastId of None \<Rightarrow> True | Some i \<Rightarrow> rank i < rank (fst r))"

definition db_page ::
  "(jsval \<Rightarrow> rat) \<Rightarrow> nat \<Rightarrow> (jsval \<times> jsval) list \<Rightarrow> jsval option \<Rightarrow> (jsval \<times> jsval) list" where
  "db_page rank n rows lastId =
     take n (sort_key (\<lambda>r. rank (fst r)) (filter (beyond rank lastId) rows))"

lemma beyond_shrinks:
  assumes "db_page rank n rows lastId \<noteq> []"
  shows "length (filter (beyond rank (Some (fst (last (db_page rank n rows lastId))))) rows)
    < length (filter (beyond rank lastId) rows)"
proof -
  let ?l = "last (db_page rank n rows lastId)"
  have l: "?l \<in> set (filter (beyond rank lastId) rows)"
    using last_in_set[OF assms] by (auto simp: db_page_def dest!: in_set_takeD)
  have "filter (beyond rank (Some (fst ?l))) rows =
      filter (beyond rank (Some (fst ?l))) (filter (beyond rank lastId) rows)"
    unfolding filter_filter
  proof (rule filter_cong[OF refl])
    fix x
    have "beyond rank lastId x" if "beyond rank (Some (fst ?l)) x"
      using l that by (cases lastId) (auto simp: beyond_def)
    then show "beyond rank (Some (fst ?l)) x \<longleftrightarrow> beyond rank lastId x \<and> beyond rank (Some (fst ?l)) x" by blast
  qed
  moreover have "\<not> beyond rank (Some (fst ?l)) ?l" by (simp add: beyond_def)
  ultimately show ?thesis using filter_length_less[OF l] by simp
qed

function iterate_pages ::
  "(jsval \<Rightarrow> rat) \<Rightarrow> nat \<Rightarrow> (jsval \<times> jsval) list \<Rightarrow> jsval option \<Rightarrow> (jsval \<times> jsval) list" where
  "iterate_pages rank n rows lastId =
     (let pg = db_page rank n rows lastId
      in if pg = [] then []
         else pg @ (if length pg < n then []
                    else iterate_pages rank n rows (Some (fst (last pg)))))"
  by pat_completeness auto
termination
  by (relation "measure (\<lambda>(rank, n, rows, lastId). length (filter (beyond rank lastId) rows))")
    (auto simp: beyond_shrinks)

declare iterate_pages.simps [simp del]

definition iterateInvoicesFromDb ::
  "(jsval \<Rightarrow> string) \<Rightarrow> (jsval \<Rightarrow> rat) \<Rightarrow> jsval \<Rightarrow> table \<Rightarrow> table \<Rightarrow> (string \<times> rat) list" where
  "iterateInvoicesFromDb str rank pageSize invoices summaries =
     map (\<lambda>(i, total_funded). (case i of JStr s \<Rightarrow> s | _ \<Rightarrow> str i, toFundedTotal total_funded))
       (iterate_pages rank (page_size pageSize) (joined invoices summaries) None)"

section \<open>Reconciling\<close>

record reconcile_result =
  rr_invoiceId :: string
  rr_status :: reconcile_status
  rr_dbFundedTotal :: rat
  rr_onChainAmount :: "rat option"
  rr_driftMagnitude :: "rat option"
  rr_error :: "read_error option"
  rr_reconciledAt :: string

text \<open>The result of an invoice and, for a mismatch (which also counts), where its alert goes.\<close>

definition reconcileInvoice ::
  "alert_env \<Rightarrow> (string \<Rightarrow> read_error + rat) \<Rightarrow> string \<Rightarrow> string \<Rightarrow> rat \<Rightarrow> reconcile_result \<times> (bool \<times> bool) option" where
  "reconcileInvoice env read nowIso invoiceId dbFundedTotal =
     (case read invoiceId of
        Inr onChainAmount \<Rightarrow>
          let matches = (onChainAmount = dbFundedTotal)
          in (\<lparr>rr_invoiceId = invoiceId, rr_status = (if matches then MATCH else MISMATCH),
               rr_dbFundedTotal = dbFundedTotal, rr_onChainAmount = Some onChainAmount,
               rr_driftMagnitude = Some (if matches then 0 else \<bar>dbFundedTotal - onChainAmount\<bar>),
               rr_error = None, rr_reconciledAt = nowIso\<rparr>,
              if matches then None else Some (raiseReconciliationMismatchAlert env))
      | Inl e \<Rightarrow>
          (\<lparr>rr_invoiceId = invoiceId, rr_status = ERR, rr_dbFundedTotal = dbFundedTotal,
            rr_onChainAmount = None, rr_driftMagnitude = None, rr_error = Some e, rr_reconciledAt = nowIso\<rparr>,
           None))"

record reconcile_summary =
  rs_total :: nat
  rs_matches :: nat
  rs_mismatches :: nat
  rs_errors :: nat
  rs_reconciledAt :: string
  rs_results :: "reconcile_result list"

record reconcile_metrics =
  rm_mismatchedGauge :: nat
  rm_driftGauge :: rat
  rm_mismatchIncrements :: nat
  rm_logAlerts :: nat
  rm_sentryAlerts :: nat
  rm_driftAlert :: bool

definition with_status :: "reconcile_status \<Rightarrow> reconcile_result list \<Rightarrow> reconcile_result list" where
  "with_status st rs = filter (\<lambda>r. rr_status r = st) rs"

definition summarize :: "string \<Rightarrow> reconcile_result list \<Rightarrow> reconcile_summary" where
  "summarize nowIso results =
     \<lparr>rs_total = length results, rs_matches = length (with_status MATCH results),
      rs_mismatches = length (with_status MISMATCH results), rs_errors = length (with_status ERR results),
      rs_reconciledAt = nowIso, rs_results = results\<rparr>"

definition post_run_metrics ::
  "string \<Rightarrow> reconcile_summary \<Rightarrow> (bool \<times> bool) option list \<Rightarrow> reconcile_metrics" where
  "post_run_metrics thr s alerts =
     \<lparr>rm_mismatchedGauge = rs_mismatches s,
      rm_driftGauge = foldl (\<lambda>acc r. acc + case_option 0 id (rr_driftMagnitude r)) 0 (rs_results s),
      rm_mismatchIncrements = length (filter (\<lambda>a. a \<noteq> None) alerts),
      rm_logAlerts = length (filter (\<lambda>a. case a of Some (l, _) \<Rightarrow> l | None \<Rightarrow> False) alerts),
      rm_sentryAlerts = length (filter (\<lambda>a. case a of Some (_, t) \<Rightarrow> t | None \<Rightarrow> False) alerts),
      rm_driftAlert = (int (rs_mismatches s) \<ge> getDriftThreshold thr)\<rparr>"

text \<open>A failure to persist the summary is logged only.\<close>

definition persistReconciliationSummary ::
  "bool \<Rightarrow> reconcile_summary \<Rightarrow> reconcile_summary list \<Rightarrow> reconcile_summary list" where
  "persistReconciliationSummary db_ok s runs = (if db_ok then runs @ [s] else runs)"

text \<open>\<open>scan\<close> is the message of a query that is rejected while the generator runs: nothing is
  summarised or persisted then.\<close>

definition performReconciliation ::
  "(jsval \<Rightarrow> string) \<Rightarrow> (jsval \<Rightarrow> rat) \<Rightarrow> alert_env \<Rightarrow> (string \<Rightarrow> read_error + rat) \<Rightarrow> string \<Rightarrow> string \<Rightarrow>
   string option \<Rightarrow> bool \<Rightarrow> jsval \<Rightarrow> table \<Rightarrow> table \<Rightarrow> reconcile_summary list \<Rightarrow>
   (string + reconcile_summary \<times> reconcile_metrics) \<times> reconcile_summary list" where
  "performReconciliation str rank env read nowIso thr scan db_ok pageSize invoices summaries runs =
     (case scan of
        Some e \<Rightarrow> (Inl e, runs)
      | None \<Rightarrow>
          let outs = map (\<lambda>(i, fundedTotal). reconcileInvoice env read nowIso i fundedTotal)
                (iterateInvoicesFromDb str rank pageSize invoices summaries);
              summary = summarize nowIso (map fst outs)
          in (Inr (summary, post_run_metrics thr summary (map snd outs)),
              persistReconciliationSummary db_ok summary runs))"

text \<open>The handler turns a failure into a regular result, with \<open>success\<close> false.\<close>

definition handleReconciliationJob ::
  "(jsval \<Rightarrow> string) \<Rightarrow> (jsval \<Rightarrow> rat) \<Rightarrow> alert_env \<Rightarrow> (string \<Rightarrow> read_error + rat) \<Rightarrow> string \<Rightarrow> string \<Rightarrow>
   string option \<Rightarrow> bool \<Rightarrow> table \<Rightarrow> table \<Rightarrow> reconcile_summary list \<Rightarrow>
   (bool \<times> (string + reconcile_summary)) \<times> reconcile_summary list" where
  "handleReconciliationJob str rank env read nowIso thr scan db_ok invoices summaries runs =
     (case performReconciliation str rank env read nowIso thr scan db_ok JUndef invoices summaries runs of
        (Inr (summary, _), runs') \<Rightarrow> ((True, Inr summary), runs')
      | (Inl e, runs') \<Rightarrow> ((False, Inl e), runs'))"

definition getReconciliationSummary :: "bool \<Rightarrow> (string \<Rightarrow> rat) \<Rightarrow> reconcile_summary list \<Rightarrow> reconcile_summary option" where
  "getReconciliationSummary db_ok rank_at runs =
     (if \<not> db_ok then None
      else (case sort_key (\<lambda>s. - rank_at (rs_reconciledAt s)) runs of [] \<Rightarrow> None | s # _ \<Rightarrow> Some s))"

section \<open>Lemmas\<close>

lemma page_size_bounds: "1 \<le> page_size x \<and> page_size x \<le> 1000"
  by (cases "to_number x") (auto simp: page_size_def Let_def)

lemma sorted_strict_ids:
  assumes "distinct (map (\<lambda>r. rank (fst r)) rows)"
  shows "sorted_wrt (\<lambda>a b. rank (fst a) < rank (fst b)) (sort_key (\<lambda>r. rank (fst r)) rows)"
proof -
  have "distinct (map (\<lambda>r. rank (fst r)) (sort_key (\<lambda>r. rank (fst r)) rows))"
    using assms by (simp add: distinct_map)
  then have "sorted_wrt (<) (map (\<lambda>r. rank (fst r)) (sort_key (\<lambda>r. rank (fst r)) rows))"
    by (simp add: strict_sorted_iff)
  then show ?thesis by (simp add: sorted_wrt_map)
qed

lemma db_page_suffix:
  assumes d: "distinct (map (\<lambda>r. rank (fst r)) rows)"
    and l: "sort_key (\<lambda>r. rank (fst r)) rows = xs @ ys"
    and c: "lastId = (if xs = [] then None else Some (fst (last xs)))"
  shows "db_page rank n rows lastId = take n ys"
proof (cases "xs = []")
  case True
  then show ?thesis using l c by (simp add: db_page_def beyond_def)
next
  case False
  then have xs: "xs @ ys = butlast xs @ last xs # ys" by simp
  have "filter (\<lambda>b. rank (fst (last xs)) < rank (fst b)) (butlast xs @ last xs # ys) = ys"
    by (rule filter_after) (use sorted_strict_ids[OF d] l xs in \<open>auto simp: less_not_sym\<close>)
  moreover have "beyond rank lastId = (\<lambda>b. rank (fst (last xs)) < rank (fst b))"
    using c False by (simp add: beyond_def fun_eq_iff)
  ultimately show ?thesis
    using l xs by (simp add: db_page_def filter_sort[symmetric])
qed

lemma iterate_pages_suffix:
  assumes "distinct (map (\<lambda>r. rank (fst r)) rows)" "1 \<le> n"
    "sort_key (\<lambda>r. rank (fst r)) rows = xs @ ys" "lastId = (if xs = [] then None else Some (fst (last xs)))"
  shows "iterate_pages rank n rows lastId = ys"
  using assms(3,4)
proof (induction "length ys" arbitrary: xs ys lastId rule: less_induct)
  case less
  have pg: "db_page rank n rows lastId = take n ys"
    using db_page_suffix[OF assms(1) less.prems] .
  show ?case
  proof (cases "n < length ys \<or> n = length ys")
    case False
    then show ?thesis by (cases "ys = []") (simp_all add: iterate_pages.simps[of rank n rows lastId] pg assms(2))
  next
    case True
    then have t: "take n ys \<noteq> []" "length (take n ys) = n" using assms(2) by auto
    have "iterate_pages rank n rows (Some (fst (last (take n ys)))) = drop n ys"
    proof (rule less.hyps)
      show "length (drop n ys) < length ys" using True assms(2) by auto
      show "sort_key (\<lambda>r. rank (fst r)) rows = (xs @ take n ys) @ drop n ys" using less.prems(1) by simp
      show "Some (fst (last (take n ys))) =
          (if xs @ take n ys = [] then None else Some (fst (last (xs @ take n ys))))" using t(1) by simp
    qed
    then show ?thesis using t by (simp add: iterate_pages.simps[of rank n rows lastId] pg)
  qed
qed

lemma foldl_sum: "foldl (\<lambda>acc r. acc + f r) (a :: rat) rs = a + sum_list (map f rs)"
  by (induction rs arbitrary: a) auto

lemma status_partition: "length rs = length (with_status MATCH rs) + length (with_status MISMATCH rs) + length (with_status ERR rs)"
proof (induction rs)
  case (Cons r rs)
  then show ?case by (cases "rr_status r") (auto simp: with_status_def)
qed (simp add: with_status_def)

section \<open>Properties\<close>

lemma alerts_of_mismatches:
  fixes P :: "(bool \<times> bool) option \<Rightarrow> bool"
  assumes "\<forall>(r, a)\<in>set outs. a = (if rr_status r = MISMATCH then Some x else None)" "\<not> P None"
  shows "length (filter P (map snd outs)) =
    (if P (Some x) then length (with_status MISMATCH (map fst outs)) else 0)"
  using assms by (induction outs) (auto simp: with_status_def filter_map)


definition sample_funded :: "string \<Rightarrow> row" where
  "sample_funded i = [(''id'', JStr i), (''status'', JStr ''funded'')]"


text \<open>A run whose scan fails ends as a regular result of the job and leaves no record.\<close>

lemma failed_run_is_a_result:
  "handleReconciliationJob str rank env read nowIso thr (Some e) db_ok invoices summaries runs = ((False, Inl e), runs)"
  by (simp add: handleReconciliationJob_def performReconciliation_def)

text \<open>With a per-invoice threshold above one no mismatch ever raises an alert.\<close>

lemma threshold_silences_alerts:
  "getMismatchAlertThreshold (ae_threshold env) > 1 \<Longrightarrow> raiseReconciliationMismatchAlert env = (False, False)"
  by (simp add: raiseReconciliationMismatchAlert_def Let_def)

end
