(* ===== verification/Webhooks.thy ===== *)
theory Webhooks
  imports Marketplace Retry "HOL-Library.Multiset"
begin

text \<open>
  Webhooks: \<open>src/src/services/webhooks.js\<close>, \<open>src/src/jobs/webhookDelivery.js\<close>,
  \<open>src/src/jobs/webhookReplay.js\<close> and the replay loop of \<open>src/src/routes/adminWebhooks.js\<close>.

  The HMAC (as hexadecimal text), \<open>JSON.stringify\<close>, the clock, the outcomes of the requests and
  what the database accepts are arguments. Log lines and counters of the metrics registry are left
  out, except that an emission reports how many requests it made. The url and the secret in the
  settings of a tenant are strings when present.
\<close>

section \<open>Signatures\<close>

definition TOLERANCE_MS :: int where "TOLERANCE_MS = 5 * 60 * 1000"
definition MAX_SIGNATURE_HEADER_LENGTH :: nat where "MAX_SIGNATURE_HEADER_LENGTH = 256"
definition MAX_SIGNATURE_HEADER_PARTS :: nat where "MAX_SIGNATURE_HEADER_PARTS = 10"

fun webhook_sortKeys :: "jsval \<Rightarrow> jsval" where
  "webhook_sortKeys (JArr vs) = JArr (map webhook_sortKeys vs)"
| "webhook_sortKeys (JObj kvs) = JObj (sort_key fst (map (\<lambda>(k, v). (k, webhook_sortKeys v)) kvs))"
| "webhook_sortKeys v = v"

definition createSignature :: "(string \<Rightarrow> string \<Rightarrow> string) \<Rightarrow> string \<Rightarrow> string \<Rightarrow> int \<Rightarrow> string" where
  "createSignature hmac secret rawBody timestamp = hmac secret (show_int timestamp @ ''.'' @ rawBody)"

definition createSignatureHeader :: "(string \<Rightarrow> string \<Rightarrow> string) \<Rightarrow> time \<Rightarrow> string \<Rightarrow> string \<Rightarrow> string" where
  "createSignatureHeader hmac now secret rawBody =
     (let timestamp = now div 1000
      in ''t='' @ show_int timestamp @ '',v1='' @ createSignature hmac secret rawBody timestamp)"

text \<open>The loop over the parts: timestamp (none when it is no number) and signature.\<close>

definition read_part :: "int option \<times> string option \<Rightarrow> string \<Rightarrow> int option \<times> string option" where
  "read_part ts part =
     (if starts_with part ''t='' then (parse_int_str (drop 2 part), snd ts)
      else if starts_with part ''v1='' then (fst ts, Some (drop 3 part)) else ts)"

definition signature_fields :: "string \<Rightarrow> int option \<times> string option" where
  "signature_fields h = foldl read_part (None, None) (split_on (CHR '','') h)"

datatype verify_result = SigValid | SigInvalid string | SigRangeError

text \<open>\<open>crypto.timingSafeEqual\<close> raises a RangeError when its buffers differ in length.\<close>

definition timingSafeEqual :: "nat list \<Rightarrow> nat list \<Rightarrow> bool option" where
  "timingSafeEqual a b = (if length a = length b then Some (a = b) else None)"

definition verifySignature ::
  "(string \<Rightarrow> string \<Rightarrow> string) \<Rightarrow> time \<Rightarrow> int \<Rightarrow> string \<Rightarrow> string \<Rightarrow> jsval \<Rightarrow> verify_result" where
  "verifySignature hmac now toleranceMs secret rawBody signatureHeader =
     (case signatureHeader of
        JStr h \<Rightarrow>
          if MAX_SIGNATURE_HEADER_LENGTH < length h \<or> MAX_SIGNATURE_HEADER_PARTS < length (split_on (CHR '','') h)
          then SigInvalid ''Invalid signature header format''
          else (case signature_fields h of
              (Some timestamp, Some signature) \<Rightarrow>
                if timestamp = 0 \<or> signature = [] then SigInvalid ''Invalid signature header format''
                else if \<bar>now - timestamp * 1000\<bar> > toleranceMs then SigInvalid ''Timestamp outside tolerance window''
                else (case timingSafeEqual (hex_decode signature)
                            (hex_decode (createSignature hmac secret rawBody timestamp)) of
                    None \<Rightarrow> SigRangeError
                  | Some True \<Rightarrow> SigValid
                  | Some False \<Rightarrow> SigInvalid ''Signature mismatch'')
            | _ \<Rightarrow> SigInvalid ''Invalid signature header format'')
      | _ \<Rightarrow> SigInvalid ''Invalid signature header format'')"

section \<open>Delivery\<close>

text \<open>An error of a request: code and name of a failed fetch, or the status of a response.\<close>

record webhook_error =
  wh_code :: jsval
  wh_name :: string
  wh_status :: int
  wh_message :: string

definition RETRYABLE_CODES :: "jsval list" where
  "RETRYABLE_CODES = map JStr [''ECONNRESET'', ''ETIMEDOUT'', ''ECONNREFUSED'', ''ENOTFOUND'', ''EAI_AGAIN'']"

text \<open>\<open>shouldRetry\<close> of \<open>emitWebhook\<close> and of the delivery job: the job looks at the name first.\<close>

definition emit_shouldRetry :: "webhook_error \<Rightarrow> bool" where
  "emit_shouldRetry e =
     (if truthy (wh_code e) then wh_code e \<in> set RETRYABLE_CODES \<or> wh_name e = ''AbortError''
      else if wh_status e \<noteq> 0 then 500 \<le> wh_status e \<and> wh_status e < 600
      else False)"

definition shouldRetry :: "webhook_error \<Rightarrow> bool" where
  "shouldRetry e =
     (if wh_name e = ''AbortError'' then True
      else if truthy (wh_code e) then wh_code e \<in> set RETRYABLE_CODES
      else if wh_status e \<noteq> 0 then 500 \<le> wh_status e \<and> wh_status e < 600
      else False)"

text \<open>The outcome of one \<open>fetch\<close>: it rejects, or there is a response with a status.\<close>

type_synonym fetch_outcome = "webhook_error + int"

definition response_ok :: "int \<Rightarrow> bool" where
  "response_ok s \<longleftrightarrow> 200 \<le> s \<and> s < 300"

definition http_error :: "string \<Rightarrow> int \<Rightarrow> webhook_error" where
  "http_error what s = \<lparr>wh_code = JUndef, wh_name = ''Error'', wh_status = s, wh_message = what @ show_int s\<rparr>"

definition sendWebhookRequest :: "fetch_outcome \<Rightarrow> webhook_error + int" where
  "sendWebhookRequest out =
     (case out of
        Inl e \<Rightarrow> Inl e
      | Inr s \<Rightarrow> if response_ok s then Inr s else Inl (http_error ''Webhook responded with '' s))"

record webhook_env =
  wv_maxRetries :: string
  wv_baseDelay :: "int option"
  wv_maxDelay :: "int option"

text \<open>\<open>Number(process.env.WEBHOOK_MAX_RETRIES || 3)\<close>, and what it means for a loop that compares an
  integer counter with it.\<close>

definition env_maxRetries :: "webhook_env \<Rightarrow> jsnum" where
  "env_maxRetries env = (if wv_maxRetries env = [] then NFin 3 else str_to_number (wv_maxRetries env))"

definition retries_of :: "jsnum \<Rightarrow> int" where
  "retries_of n = (case n of NFin q \<Rightarrow> \<lceil>q\<rceil> | NPosInf \<Rightarrow> 10 | _ \<Rightarrow> 0)"

definition webhook_options :: "webhook_env \<Rightarrow> (webhook_error \<Rightarrow> bool) \<Rightarrow> webhook_error retry_options" where
  "webhook_options env sr =
     \<lparr>o_maxRetries = Some (retries_of (env_maxRetries env)), o_baseDelay = wv_baseDelay env,
      o_maxDelay = wv_maxDelay env, o_shouldRetry = Some sr\<rparr>"

definition num_plus_one :: "jsnum \<Rightarrow> jsval" where
  "num_plus_one n = JNum (case n of NFin q \<Rightarrow> NFin (q + 1) | _ \<Rightarrow> n)"

record emission =
  em_url :: string
  em_header :: string
  em_body :: string
  em_requests :: nat
  em_audit :: "(nat \<times> jsval) list"
  em_dead :: table

definition no_emission :: "table \<Rightarrow> emission" where
  "no_emission dead = \<lparr>em_url = [], em_header = [], em_body = [], em_requests = 0, em_audit = [], em_dead = dead\<rparr>"

text \<open>An insert that the database refuses is logged only.\<close>

definition try_insert :: "(row \<Rightarrow> bool) \<Rightarrow> row \<Rightarrow> table \<Rightarrow> table" where
  "try_insert acceptable r t = (if acceptable r then t @ [r] else t)"

definition emit_payload :: "string \<Rightarrow> string \<Rightarrow> string \<Rightarrow> row \<Rightarrow> jsval" where
  "emit_payload nowIso ev invoiceId additionalData =
     webhook_sortKeys (JObj (overlay additionalData
       [(''event'', JStr ev), (''timestamp'', JStr nowIso), (''invoiceId'', JStr invoiceId)]))"

definition status_or_null :: "webhook_error \<Rightarrow> jsval" where
  "status_or_null e = (if wh_status e \<noteq> 0 then JInt (wh_status e) else JNull)"

text \<open>The tenant of the invoice with its url and secret, if the webhook is configured.\<close>

definition webhook_target :: "table \<Rightarrow> table \<Rightarrow> string \<Rightarrow> (jsval \<times> string \<times> string) option" where
  "webhook_target invoices tenants invoiceId =
     (case List.find (col_eq ''id'' (JStr invoiceId)) invoices of
        None \<Rightarrow> None
      | Some invoice \<Rightarrow>
          let tenant_id = col ''tenant_id'' invoice
          in case List.find (col_eq ''id'' tenant_id) tenants of
               None \<Rightarrow> None
             | Some tenant \<Rightarrow>
                 let settings = col ''settings'' tenant
                 in (case (js_get settings ''webhook_url'', js_get settings ''webhook_secret'') of
                       (JStr url, JStr secret) \<Rightarrow>
                         if url = [] \<or> secret = [] then None else Some (tenant_id, url, secret)
                     | _ \<Rightarrow> None))"

definition emitWebhook ::
  "(string \<Rightarrow> string \<Rightarrow> string) \<Rightarrow> (jsval \<Rightarrow> string) \<Rightarrow> webhook_env \<Rightarrow> (nat \<Rightarrow> rat) \<Rightarrow> (nat \<Rightarrow> fetch_outcome) \<Rightarrow>
   (row \<Rightarrow> bool) \<Rightarrow> time \<Rightarrow> string \<Rightarrow> table \<Rightarrow> table \<Rightarrow> string \<Rightarrow> string \<Rightarrow> row \<Rightarrow> table \<Rightarrow> emission" where
  "emitWebhook hmac stringify env rnd net acceptable now nowIso invoices tenants ev invoiceId additionalData dead =
     (case webhook_target invoices tenants invoiceId of
        None \<Rightarrow> no_emission dead
      | Some (tenant_id, url, secret) \<Rightarrow>
          let payload = emit_payload nowIso ev invoiceId additionalData;
              body = stringify payload;
              r = withRetry rnd (\<lambda>n. sendWebhookRequest (net n)) (webhook_options env emit_shouldRetry);
              failed = map (\<lambda>(attempt, e). (attempt, status_or_null e)) (reports r)
          in \<lparr>em_url = url, em_header = createSignatureHeader hmac now secret body, em_body = body,
              em_requests = calls r,
              em_audit = failed @ (case result r of Inr s \<Rightarrow> [(1, JInt s)] | Inl _ \<Rightarrow> []),
              em_dead = (case result r of
                  Inr _ \<Rightarrow> dead
                | Inl e \<Rightarrow> try_insert acceptable
                    [(''tenant_id'', tenant_id), (''invoice_id'', JStr invoiceId), (''event'', JStr ev),
                     (''payload'', JStr body), (''last_error'', JStr (wh_message e)),
                     (''attempts'', num_plus_one (env_maxRetries env)), (''created_at'', JStr nowIso)] dead)\<rparr>)"

section \<open>The delivery job\<close>

definition job_writeDeadLetter ::
  "(jsval \<Rightarrow> string) \<Rightarrow> (row \<Rightarrow> bool) \<Rightarrow> string \<Rightarrow> jsval \<Rightarrow> jsval \<Rightarrow> jsval \<Rightarrow> jsval \<Rightarrow> string \<Rightarrow> nat \<Rightarrow> table \<Rightarrow> table" where
  "job_writeDeadLetter stringify acceptable nowIso tenantId invoiceId ev payload lastError attempts dead =
     try_insert acceptable
       [(''tenant_id'', tenantId), (''invoice_id'', invoiceId), (''event'', ev), (''payload'', JStr (stringify payload)),
        (''last_error'', JStr lastError), (''attempts'', JInt (int attempts)), (''created_at'', JStr nowIso)] dead"

datatype delivery_error = DeliveryTypeError string | DeliveryFailed webhook_error

definition delivery_payload :: "string \<Rightarrow> jsval \<Rightarrow> jsval" where
  "delivery_payload nowIso p =
     (let tr = (if js_get p ''transition'' = JUndef then JObj [] else js_get p ''transition'')
      in JObj [(''event'', js_get p ''event''), (''invoiceId'', js_get p ''invoiceId''),
               (''tenantId'', js_get p ''tenantId''), (''timestamp'', JStr nowIso),
               (''transition'', JObj [(''from'', js_get tr ''from''), (''to'', js_get tr ''to''),
                  (''actor'', js_get tr ''actor''), (''reason'', js_or (js_get tr ''reason'') JNull),
                  (''transitionedAt'', js_get tr ''transitionedAt'')])])"

text \<open>The handler imports \<open>sortKeys\<close> from the webhook service. \<open>sorter\<close> is what the import binds: the
  service's \<open>module.exports\<close> has no such member, so it is undefined and calling it raises.\<close>

definition imported_sortKeys :: "(jsval \<Rightarrow> jsval) option" where
  "imported_sortKeys = None"

definition webhookDeliveryHandler ::
  "(jsval \<Rightarrow> jsval) option \<Rightarrow> (jsval \<Rightarrow> string) \<Rightarrow> webhook_env \<Rightarrow> (nat \<Rightarrow> rat) \<Rightarrow> (nat \<Rightarrow> fetch_outcome) \<Rightarrow>
   (row \<Rightarrow> bool) \<Rightarrow> string \<Rightarrow> jsval \<Rightarrow> table \<Rightarrow> nat \<times> (delivery_error + unit) \<times> table" where
  "webhookDeliveryHandler sorter stringify env rnd net acceptable nowIso p dead =
     (case sorter of
        None \<Rightarrow> (0, Inl (DeliveryTypeError ''sortKeys is not a function''), dead)
      | Some f \<Rightarrow>
          let payload = f (delivery_payload nowIso p);
              r = withRetry rnd (\<lambda>n. sendWebhookRequest (net n)) (webhook_options env shouldRetry)
          in (case result r of
                Inr _ \<Rightarrow> (calls r, Inr (), dead)
              | Inl e \<Rightarrow> (calls r, Inl (DeliveryFailed e),
                  job_writeDeadLetter stringify acceptable nowIso (js_get p ''tenantId'') (js_get p ''invoiceId'')
                    (js_get p ''event'') payload (wh_message e) (calls r) dead)))"

section \<open>Dead letters\<close>

datatype replay_error =
    NotFound string
  | AlreadyResolved string
  | NoSecret jsval
  | ReplayFailed webhook_error

definition writeDeadLetter ::
  "(jsval \<Rightarrow> string) \<Rightarrow> string \<Rightarrow> string \<Rightarrow> string \<Rightarrow> string \<Rightarrow> jsval \<Rightarrow> string \<Rightarrow> nat \<Rightarrow> string \<Rightarrow> table \<Rightarrow> string \<times> table" where
  "writeDeadLetter stringify new_id tenantId invoiceId ev payload webhookUrl attempts lastError dead =
     (new_id, dead @ [[(''id'', JStr new_id), (''tenant_id'', JStr tenantId), (''invoice_id'', JStr invoiceId),
        (''event'', JStr ev), (''payload'', JStr (stringify payload)), (''webhook_url'', JStr webhookUrl),
        (''attempts'', JInt (int attempts)), (''last_error'', JStr lastError), (''resolved'', JBool False)]])"

definition resolveDeadLetter :: "string \<Rightarrow> string \<Rightarrow> table \<Rightarrow> table" where
  "resolveDeadLetter nowIso deadLetterId dead =
     update_where (col_eq ''id'' (JStr deadLetterId))
       (overlay [(''resolved'', JBool True), (''resolved_at'', JStr nowIso), (''updated_at'', JStr nowIso)]) dead"

definition tenant_secret :: "table \<Rightarrow> jsval \<Rightarrow> jsval" where
  "tenant_secret tenants tenant_id =
     (case List.find (col_eq ''id'' tenant_id) tenants of
        None \<Rightarrow> JUndef
      | Some t \<Rightarrow> js_get (col ''settings'' t) ''webhook_secret'')"

text \<open>\<open>net\<close> is the outcome of the one request of this replay. The result says whether a request was
  made and how the replay ended.\<close>

definition replayWebhook ::
  "table \<Rightarrow> string \<Rightarrow> fetch_outcome \<Rightarrow> string \<Rightarrow> table \<Rightarrow> bool \<times> (replay_error + unit) \<times> table" where
  "replayWebhook tenants nowIso net deadLetterId dead =
     (case List.find (col_eq ''id'' (JStr deadLetterId)) dead of
        None \<Rightarrow> (False, Inl (NotFound deadLetterId), dead)
      | Some r \<Rightarrow>
          if truthy (col ''resolved'' r) then (False, Inl (AlreadyResolved deadLetterId), dead)
          else if \<not> truthy (tenant_secret tenants (col ''tenant_id'' r))
          then (False, Inl (NoSecret (col ''tenant_id'' r)), dead)
          else (case net of
              Inl e \<Rightarrow> (True, Inl (ReplayFailed e), dead)
            | Inr s \<Rightarrow>
                if \<not> response_ok s then (True, Inl (ReplayFailed (http_error ''Webhook replay responded with '' s)), dead)
                else (True, Inr (), resolveDeadLetter nowIso deadLetterId dead)))"

text \<open>The job handler: the outcome label of the counter, and the error that is raised again.\<close>

definition replay_label :: "replay_error \<Rightarrow> string" where
  "replay_label e = (case e of AlreadyResolved _ \<Rightarrow> ''already_resolved'' | NotFound _ \<Rightarrow> ''not_found'' | _ \<Rightarrow> ''failure'')"

definition webhookReplayHandler ::
  "table \<Rightarrow> string \<Rightarrow> fetch_outcome \<Rightarrow> string \<Rightarrow> table \<Rightarrow> string option \<times> (replay_error option + unit) \<times> table" where
  "webhookReplayHandler tenants nowIso net deadLetterId dead =
     (if deadLetterId = [] then (None, Inl None, dead)
      else (case replayWebhook tenants nowIso net deadLetterId dead of
          (_, Inr _, dead') \<Rightarrow> (Some ''success'', Inr (), dead')
        | (_, Inl e, dead') \<Rightarrow> (Some (replay_label e), Inl (Some e), dead')))"

text \<open>The loop of the batch route over the ids it selected, with the requests' outcomes in order.\<close>

fun replay_batch ::
  "table \<Rightarrow> string \<Rightarrow> (string \<Rightarrow> fetch_outcome) \<Rightarrow> string list \<Rightarrow> table \<Rightarrow>
   string list \<times> (string \<times> replay_error) list \<times> table" where
  "replay_batch tenants nowIso net [] dead = ([], [], dead)"
| "replay_batch tenants nowIso net (i # ids) dead =
     (case replayWebhook tenants nowIso (net i) i dead of
        (_, Inr _, dead1) \<Rightarrow>
          (case replay_batch tenants nowIso net ids dead1 of (ok, bad, dead') \<Rightarrow> (i # ok, bad, dead'))
      | (_, Inl e, dead1) \<Rightarrow>
          (case replay_batch tenants nowIso net ids dead1 of (ok, bad, dead') \<Rightarrow> (ok, (i, e) # bad, dead')))"

text \<open>The rows a batch request selects.\<close>

definition unresolved :: "row \<Rightarrow> bool" where
  "unresolved r \<longleftrightarrow> col ''resolved'' r = JBool False"

definition row_ids :: "table \<Rightarrow> string list" where
  "row_ids t = List.map_filter (\<lambda>r. case col ''id'' r of JStr i \<Rightarrow> Some i | _ \<Rightarrow> None) t"

definition batch_cap :: "jsval \<Rightarrow> jsnum" where
  "batch_cap limit =
     (case to_number (if limit = JUndef then JInt 50 else limit) of
        NFin q \<Rightarrow> NFin (min (if q = 0 then 50 else q) 200)
      | NNaN \<Rightarrow> NFin 50
      | NPosInf \<Rightarrow> NFin 200
      | NNegInf \<Rightarrow> NNegInf)"

text \<open>\<open>Inl\<close> is a response with status 400. A negative limit is refused by the database.\<close>

definition batch_select :: "jsval \<Rightarrow> jsval \<Rightarrow> jsval \<Rightarrow> table \<Rightarrow> (string + string list) option" where
  "batch_select ids tenantId limit dead =
     (if \<not> truthy ids \<and> \<not> truthy tenantId then Some (Inl ''Provide either ids array or tenantId filter.'')
      else if truthy ids
      then (case ids of
          JArr (v # vs) \<Rightarrow>
            Some (Inr (row_ids (filter (\<lambda>r. unresolved r \<and> col ''id'' r \<in> set (take 200 (v # vs))) dead)))
        | _ \<Rightarrow> Some (Inl ''ids must be a non-empty array.''))
      else (case batch_cap limit of
          NFin q \<Rightarrow>
            if q < 0 then None
            else Some (Inr (row_ids (take (nat \<lfloor>q\<rfloor>)
              (sort_key (num_of ''created_at'') (filter (\<lambda>r. unresolved r \<and> col_eq ''tenant_id'' tenantId r) dead)))))
        | _ \<Rightarrow> None))"

section \<open>Lemmas on signatures\<close>

lemma parse_show_int:
  assumes "0 \<le> i"
  shows "parse_int_str (show_int i) = Some i"
proof -
  let ?s = "show_nat (nat i)"
  have all: "\<forall>c\<in>set ?s. is_digit c \<and> \<not> is_ws c \<and> c \<noteq> CHR ''-'' \<and> c \<noteq> CHR ''+''"
    using show_nat_chars digit_char_digit by metis
  obtain c r where cr: "?s = c # r" using show_nat_ne by (cases ?s) auto
  have "trim_start ?s = ?s" using all cr by (simp add: trim_start_def)
  moreover have "sign_split ?s = (1, ?s)" using all cr by simp
  moreover have "takeWhile is_digit ?s = ?s" using all by (metis takeWhile_eq_all_conv)
  ultimately show ?thesis
    using assms by (simp add: parse_int_str_def show_int_def digits_val_show Let_def show_nat_ne del: takeWhile_eq_all_conv)
qed

definition hex_text :: "nat \<Rightarrow> string \<Rightarrow> bool" where
  "hex_text n s \<longleftrightarrow> length s = n \<and> (\<forall>c\<in>set s. hex_val c \<noteq> None)"

lemma hex_val_comma: "hex_val (CHR '','') = None"
  by code_simp

lemma length_hex_decode_le: "length (hex_decode s) \<le> length s div 2"
  by (induction s rule: hex_decode.induct) (auto split: option.splits)

lemma length_hex_decode: "\<forall>c\<in>set s. hex_val c \<noteq> None \<Longrightarrow> length (hex_decode s) = length s div 2"
  by (induction s rule: hex_decode.induct) (auto split: option.splits)

lemma header_fields:
  assumes "0 \<le> now" "hex_text 64 (createSignature hmac secret body (now div 1000))"
  shows "split_on (CHR '','') (createSignatureHeader hmac now secret body) =
      [''t='' @ show_int (now div 1000), ''v1='' @ createSignature hmac secret body (now div 1000)]"
    "signature_fields (createSignatureHeader hmac now secret body) =
      (Some (now div 1000), Some (createSignature hmac secret body (now div 1000)))"
proof -
  let ?t = "''t='' @ show_int (now div 1000)" and ?v = "''v1='' @ createSignature hmac secret body (now div 1000)"
  have "CHR '','' \<notin> set (show_nat m)" for m
    using show_nat_chars digit_char_digit(4) by metis
  then have t: "CHR '','' \<notin> set ?t" by (simp add: show_int_def)
  have v: "CHR '','' \<notin> set ?v" using assms(2) hex_val_comma by (auto simp: hex_text_def)
  have h: "createSignatureHeader hmac now secret body = ?t @ CHR '','' # ?v"
    by (simp add: createSignatureHeader_def Let_def)
  show s: "split_on (CHR '','') (createSignatureHeader hmac now secret body) = [?t, ?v]"
    unfolding h split_on_append[OF t] split_on_none[OF v] ..
  show "signature_fields (createSignatureHeader hmac now secret body) =
      (Some (now div 1000), Some (createSignature hmac secret body (now div 1000)))"
    unfolding signature_fields_def s using parse_show_int[of "now div 1000"] assms(1)
    by (simp add: read_part_def starts_with_def)
qed

section \<open>Properties\<close>

text \<open>C22: webhook signatures round-trip and cannot be reused. With an HMAC of 64 hexadecimal digits, the
  header made at a time \<open>t\<close> verifies for the same secret and body at \<open>now\<close> exactly when \<open>now\<close> is within
  the tolerance of the second of \<open>t\<close>; and whatever header verifies has at most 256 characters and carries
  a timestamp within the tolerance and a signature of at least 64 characters whose bytes are those of
  the HMAC of that timestamp and the body.\<close>
theorem webhook_signature_authentic:
  assumes "\<forall>k m. hex_text 64 (hmac k m)"
  shows "(1000 \<le> t \<and> t < 10 ^ 16 \<longrightarrow>
      verifySignature hmac now tol secret body (JStr (createSignatureHeader hmac t secret body)) =
        (if \<bar>now - t div 1000 * 1000\<bar> \<le> tol then SigValid
         else SigInvalid ''Timestamp outside tolerance window'')) \<and>
    (verifySignature hmac now tol secret body hdr = SigValid \<longrightarrow>
      (\<exists>h ts sig. hdr = JStr h \<and> length h \<le> 256 \<and> signature_fields h = (Some ts, Some sig) \<and>
         \<bar>now - ts * 1000\<bar> \<le> tol \<and> 64 \<le> length sig \<and>
         hex_decode sig = hex_decode (hmac secret (show_int ts @ ''.'' @ body))))"
proof (intro conjI impI)
  assume t: "1000 \<le> t \<and> t < 10 ^ 16"
  let ?h = "createSignatureHeader hmac t secret body"
  have sig: "hex_text 64 (createSignature hmac secret body (t div 1000))"
    using assms by (simp add: createSignature_def)
  have t0: "0 \<le> t" using t by simp
  note f = header_fields[OF t0 sig]
  have "t div 1000 < 10 ^ 16" using t by simp linarith
  then have "nat (t div 1000) < 10 ^ 16" using t by (simp add: nat_less_iff)
  then have "length (show_nat (nat (t div 1000))) \<le> 16" by (rule length_show_nat[rotated]) simp
  moreover have "0 \<le> t div 1000" using t0 by (rule pos_imp_zdiv_nonneg_iff[THEN iffD2, rotated]) simp
  ultimately have "length ?h \<le> 256"
    using sig by (simp add: createSignatureHeader_def Let_def hex_text_def show_int_def)
  moreover have "1000 \<le> t" using t by simp
  then have "t div 1000 \<noteq> 0" using zdiv_mono1[of 1000 t 1000] by simp
  moreover have "createSignature hmac secret body (t div 1000) \<noteq> []" using sig by (auto simp: hex_text_def)
  ultimately show "verifySignature hmac now tol secret body (JStr ?h) =
      (if \<bar>now - t div 1000 * 1000\<bar> \<le> tol then SigValid
       else SigInvalid ''Timestamp outside tolerance window'')"
    by (simp add: verifySignature_def f timingSafeEqual_def MAX_SIGNATURE_HEADER_LENGTH_def
        MAX_SIGNATURE_HEADER_PARTS_def)
next
  assume v: "verifySignature hmac now tol secret body hdr = SigValid"
  then obtain h ts sig where h: "hdr = JStr h" "length h \<le> 256" "signature_fields h = (Some ts, Some sig)"
      "\<bar>now - ts * 1000\<bar> \<le> tol" "timingSafeEqual (hex_decode sig) (hex_decode (createSignature hmac secret body ts)) = Some True"
    by (auto simp: verifySignature_def MAX_SIGNATURE_HEADER_LENGTH_def split: jsval.splits if_splits option.splits prod.splits bool.splits)
  then have e: "hex_decode sig = hex_decode (hmac secret (show_int ts @ ''.'' @ body))"
    by (auto simp: timingSafeEqual_def createSignature_def split: if_splits)
  have "length (hex_decode (hmac secret (show_int ts @ ''.'' @ body))) = 32"
    using length_hex_decode[of "hmac secret (show_int ts @ ''.'' @ body)"] assms by (simp add: hex_text_def)
  then have "64 \<le> length sig" using length_hex_decode_le[of sig] e by simp
  with h e show "\<exists>h ts sig. hdr = JStr h \<and> length h \<le> 256 \<and> signature_fields h = (Some ts, Some sig) \<and>
         \<bar>now - ts * 1000\<bar> \<le> tol \<and> 64 \<le> length sig \<and>
         hex_decode sig = hex_decode (hmac secret (show_int ts @ ''.'' @ body))"
    by blast
qed

theorem webhook_signature_authentic_witness:
  "verifySignature (\<lambda>_ _. replicate 64 (CHR ''a'')) 1700000100000 TOLERANCE_MS ''s'' ''b''
     (JStr (createSignatureHeader (\<lambda>_ _. replicate 64 (CHR ''a'')) 1700000000000 ''s'' ''b'')) = SigValid"
proof -
  have a: "hex_val (CHR ''a'') = Some 10" by code_simp
  have h: "\<forall>k m. hex_text 64 ((\<lambda>_ _. replicate 64 (CHR ''a'')) k m)" by (simp add: hex_text_def a)
  show ?thesis
    using webhook_signature_authentic[OF h, of 1700000000000 1700000100000 TOLERANCE_MS "''s''" "''b''"]
    by (simp add: TOLERANCE_MS_def)
qed

text \<open>An emitted webhook is delivered or dead-lettered. Without a configured target nothing happens.
  With one, between one and eleven requests are made, all with the header that signs the body with the
  tenant's secret; each but the last failed with a network error, a timeout or a 5xx response; when the
  last response is a success no dead letter is written, and otherwise exactly one row with the payload
  and the error is offered to the database, either because all attempts were used or because the error is
  not to be retried.\<close>
theorem emission_outcome:
  assumes "e = emitWebhook hmac stringify env rnd net acceptable now nowIso invoices tenants ev i extra dead"
  shows "case webhook_target invoices tenants i of
      None \<Rightarrow> e = no_emission dead
    | Some (tid, url, secret) \<Rightarrow>
        em_url e = url \<and> em_header e = createSignatureHeader hmac now secret (em_body e) \<and>
        1 \<le> em_requests e \<and> em_requests e \<le> 11 \<and>
        (\<forall>j < em_requests e - 1. \<exists>err. sendWebhookRequest (net j) = Inl err \<and> emit_shouldRetry err) \<and>
        (case sendWebhookRequest (net (em_requests e - 1)) of
           Inr s \<Rightarrow> 200 \<le> s \<and> s < 300 \<and> em_dead e = dead
         | Inl err \<Rightarrow>
             (em_requests e = nat (capped (retries_of (env_maxRetries env)) 10) + 1 \<or> \<not> emit_shouldRetry err) \<and>
             (\<exists>r. em_dead e = (if acceptable r then dead @ [r] else dead) \<and> col ''tenant_id'' r = tid \<and>
                col ''invoice_id'' r = JStr i \<and> col ''payload'' r = JStr (em_body e) \<and>
                col ''last_error'' r = JStr (wh_message err)))"
proof (cases "webhook_target invoices tenants i")
  case None
  then show ?thesis using assms by (simp add: emitWebhook_def)
next
  case (Some t)
  then obtain tid url secret where t: "webhook_target invoices tenants i = Some (tid, url, secret)" by (cases t) auto
  let ?op = "\<lambda>n. sendWebhookRequest (net n)" and ?opts = "webhook_options env emit_shouldRetry"
  define r where "r = withRetry rnd ?op ?opts"
  note o = withRetry_outcome[OF r_def refl refl]
  have sr: "opt_default (o_shouldRetry ?opts) (\<lambda>_. True) = emit_shouldRetry"
    "opt_default (o_maxRetries ?opts) 3 = retries_of (env_maxRetries env)"
    by (simp_all add: webhook_options_def opt_default_def)
  have e: "em_url e = url" "em_header e = createSignatureHeader hmac now secret (em_body e)" "em_requests e = calls r"
    "em_dead e = (case result r of Inr _ \<Rightarrow> dead | Inl err \<Rightarrow> try_insert acceptable
        [(''tenant_id'', tid), (''invoice_id'', JStr i), (''event'', JStr ev), (''payload'', JStr (em_body e)),
         (''last_error'', JStr (wh_message err)), (''attempts'', num_plus_one (env_maxRetries env)),
         (''created_at'', JStr nowIso)] dead)"
    using assms by (auto simp: emitWebhook_def t Let_def r_def split: sum.splits)
  have "200 \<le> s \<and> s < 300" if "?op n = Inr s" for n s
    using that by (auto simp: sendWebhookRequest_def response_ok_def split: sum.splits if_splits)
  then show ?thesis
    using o[unfolded sr] e t by (auto split: sum.splits simp: try_insert_def col_def)
qed

definition sample_invoice_row :: row where
  "sample_invoice_row = [(''id'', JStr ''i1''), (''tenant_id'', JStr ''t1'')]"

definition sample_tenant :: row where
  "sample_tenant = [(''id'', JStr ''t1''), (''settings'', JObj [(''webhook_url'', JStr ''u''), (''webhook_secret'', JStr ''s'')])]"

theorem emission_outcome_witness:
  "em_requests (emitWebhook (\<lambda>_ _. []) (\<lambda>_. []) \<lparr>wv_maxRetries = [], wv_baseDelay = None, wv_maxDelay = None\<rparr>
     (\<lambda>_. 0) (\<lambda>_. Inr 503) (\<lambda>_. True) 0 [] [sample_invoice_row] [sample_tenant] ''funded'' ''i1'' [] []) = 4"
proof -
  let ?env = "\<lparr>wv_maxRetries = [], wv_baseDelay = None, wv_maxDelay = None\<rparr>"
  let ?e = "emitWebhook (\<lambda>_ _. []) (\<lambda>_. []) ?env
     (\<lambda>_. 0) (\<lambda>_. Inr 503) (\<lambda>_. True) 0 [] [sample_invoice_row] [sample_tenant] ''funded'' ''i1'' [] []"
  have t: "webhook_target [sample_invoice_row] [sample_tenant] ''i1'' = Some (JStr ''t1'', ''u'', ''s'')" by code_simp
  have s: "sendWebhookRequest (Inr 503) = Inl (http_error ''Webhook responded with '' 503)"
    by (simp add: sendWebhookRequest_def response_ok_def)
  have r: "emit_shouldRetry (http_error ''Webhook responded with '' 503)" by (simp add: emit_shouldRetry_def http_error_def)
  have m: "nat (capped (retries_of (env_maxRetries ?env)) 10) = 3" by code_simp
  show ?thesis
    using emission_outcome[of ?e, OF refl] s r m
    by (simp add: t)
qed

section \<open>Replaying dead letters\<close>

definition is_resolved :: "string \<Rightarrow> table \<Rightarrow> bool" where
  "is_resolved i dead \<longleftrightarrow> (\<exists>r. List.find (col_eq ''id'' (JStr i)) dead = Some r \<and> truthy (col ''resolved'' r))"

lemma find_update_where:
  assumes "\<And>r. P (f r) = P r"
  shows "List.find P (update_where hit f t) = map_option (\<lambda>r. if hit r then f r else r) (List.find P t)"
  unfolding update_where_def using assms by (induction t) auto

lemma col_eq_find: "List.find (col_eq k v) t = Some r \<Longrightarrow> col_eq k v r"
  by (auto simp: find_Some_iff)

lemma find_resolve:
  "List.find (col_eq ''id'' (JStr j)) (resolveDeadLetter nowIso i dead) =
    map_option (\<lambda>r. if j = i then overlay [(''resolved'', JBool True), (''resolved_at'', JStr nowIso),
        (''updated_at'', JStr nowIso)] r else r) (List.find (col_eq ''id'' (JStr j)) dead)"
proof -
  let ?f = "overlay [(''resolved'', JBool True), (''resolved_at'', JStr nowIso), (''updated_at'', JStr nowIso)]"
  have "col_eq ''id'' v (?f r) = col_eq ''id'' v r" for v r by (simp add: col_eq_def overlay_def)
  then have "List.find (col_eq ''id'' (JStr j)) (resolveDeadLetter nowIso i dead) =
      map_option (\<lambda>r. if col_eq ''id'' (JStr i) r then ?f r else r) (List.find (col_eq ''id'' (JStr j)) dead)"
    unfolding resolveDeadLetter_def by (rule find_update_where)
  also have "\<dots> = map_option (\<lambda>r. if j = i then ?f r else r) (List.find (col_eq ''id'' (JStr j)) dead)"
  proof (cases "List.find (col_eq ''id'' (JStr j)) dead")
    case (Some r)
    then show ?thesis using col_eq_find[OF Some] by (auto simp: col_eq_def)
  qed simp
  finally show ?thesis .
qed

lemma resolved_row: "truthy (col ''resolved'' (overlay [(''resolved'', JBool True), (''resolved_at'', a), (''updated_at'', b)] r))"
  by (simp add: overlay_def)

lemma replay_cases:
  assumes "replayWebhook tenants nowIso net i dead = (req, res, dead')"
  shows "(res = Inr () \<and> \<not> is_resolved i dead \<and> is_resolved i dead' \<and> req \<and> (\<exists>s. net = Inr s \<and> response_ok s) \<and>
      dead' = resolveDeadLetter nowIso i dead) \<or>
    ((\<exists>e. res = Inl e) \<and> dead' = dead \<and> (is_resolved i dead \<longrightarrow> \<not> req \<and> res = Inl (AlreadyResolved i)))"
  using assms
  by (auto simp: replayWebhook_def is_resolved_def find_resolve resolved_row split: option.splits if_splits sum.splits)

lemma is_resolved_keeps: "is_resolved j dead \<Longrightarrow> is_resolved j (resolveDeadLetter nowIso i dead)"
  unfolding is_resolved_def find_resolve by (cases "j = i") (auto simp: resolved_row)

text \<open>A dead letter is delivered successfully at most once. Whatever ids a batch replays, with
  repetitions, in whatever state the table is: every id ends in exactly one of the two lists per
  occurrence; no id is listed twice as replayed, none of the replayed was resolved before, all of them
  are resolved afterwards and had a successful response; resolved rows stay resolved and are not sent
  again; and the rows of all other ids are untouched.\<close>
theorem replay_at_most_once:
  assumes "replay_batch tenants nowIso net ids dead = (ok, bad, dead')"
  shows "distinct ok \<and> mset ids = mset ok + mset (map fst bad) \<and>
    (\<forall>i\<in>set ok. \<not> is_resolved i dead \<and> is_resolved i dead' \<and> (\<exists>s. net i = Inr s \<and> 200 \<le> s \<and> s < 300)) \<and>
    (\<forall>i. is_resolved i dead \<longrightarrow> is_resolved i dead') \<and>
    (\<forall>j. j \<notin> set ok \<longrightarrow> List.find (col_eq ''id'' (JStr j)) dead' = List.find (col_eq ''id'' (JStr j)) dead)"
  using assms
proof (induction ids arbitrary: dead ok bad)
  case (Cons i ids)
  obtain req res dead1 where r: "replayWebhook tenants nowIso (net i) i dead = (req, res, dead1)"
    by (metis prod_cases3)
  obtain ok1 bad1 where b: "replay_batch tenants nowIso net ids dead1 = (ok1, bad1, dead')"
    using Cons.prems r by (auto split: sum.splits prod.splits)
  note IH = Cons.IH[OF b] and c = replay_cases[OF r]
  show ?case
  proof (cases res)
    case (Inl e)
    then have "ok = ok1" "bad = (i, e) # bad1" "dead1 = dead" using Cons.prems r b c by auto
    then show ?thesis using IH by simp
  next
    case (Inr u)
    then have "replay_batch tenants nowIso net (i # ids) dead = (i # ok1, bad1, dead')" using r b by simp
    then have ok: "ok = i # ok1" "bad = bad1" using Cons.prems by simp_all
    have d: "dead1 = resolveDeadLetter nowIso i dead" "\<not> is_resolved i dead" "is_resolved i dead1"
      "\<exists>s. net i = Inr s \<and> 200 \<le> s \<and> s < 300"
      using c Inr by (auto simp: response_ok_def)
    have keep: "is_resolved j dead1" if "is_resolved j dead" for j using that d(1) is_resolved_keeps by simp
    have other: "List.find (col_eq ''id'' (JStr j)) dead1 = List.find (col_eq ''id'' (JStr j)) dead" if "j \<noteq> i" for j
      using that by (cases "List.find (col_eq ''id'' (JStr j)) dead") (simp_all add: d(1) find_resolve)
    have "i \<notin> set ok1" using IH d(3) by blast
    then have "distinct ok" "mset (i # ids) = mset ok + mset (map fst bad)" using IH ok by simp_all
    moreover have "\<forall>j\<in>set ok. \<not> is_resolved j dead \<and> is_resolved j dead' \<and> (\<exists>s. net j = Inr s \<and> 200 \<le> s \<and> s < 300)"
      unfolding ok(1) using IH d(2-4) keep by (metis set_ConsD)
    moreover have "\<forall>j. is_resolved j dead \<longrightarrow> is_resolved j dead'" using IH keep by blast
    moreover have "\<forall>j. j \<notin> set ok \<longrightarrow> List.find (col_eq ''id'' (JStr j)) dead' = List.find (col_eq ''id'' (JStr j)) dead"
      unfolding ok(1) using IH other by (metis list.set_intros)
    ultimately show ?thesis by blast
  qed
qed simp

definition sample_dead :: row where
  "sample_dead = [(''id'', JStr ''d1''), (''tenant_id'', JStr ''t1''), (''resolved'', JBool False)]"

theorem replay_at_most_once_witness:
  "distinct (fst (replay_batch [sample_tenant] [] (\<lambda>_. Inr 200) [''d1'', ''d1''] [sample_dead])) \<and>
   fst (replay_batch [sample_tenant] [] (\<lambda>_. Inr 200) [''d1'', ''d1''] [sample_dead]) = [''d1'']"
proof -
  obtain ok bad d where b: "replay_batch [sample_tenant] [] (\<lambda>_. Inr 200) [''d1'', ''d1''] [sample_dead] = (ok, bad, d)"
    by (metis prod_cases3)
  have "fst (replay_batch [sample_tenant] [] (\<lambda>_. Inr 200) [''d1'', ''d1''] [sample_dead]) = [''d1'']" by code_simp
  then show ?thesis using replay_at_most_once[OF b] b by simp
qed

section \<open>Deviations\<close>

text \<open>Every delivery job fails before its first request, and writes no dead letter.\<close>

lemma delivery_job_never_sends:
  "webhookDeliveryHandler imported_sortKeys stringify env rnd net acceptable nowIso p dead =
    (0, Inl (DeliveryTypeError ''sortKeys is not a function''), dead)"
  by (simp add: webhookDeliveryHandler_def imported_sortKeys_def)

text \<open>With the column \<open>webhook_url\<close> not nullable, no dead letter of an emission is stored.\<close>

lemma dead_letters_refused:
  assumes "\<And>r. acceptable r \<Longrightarrow> \<not> is_null ''webhook_url'' r"
  shows "em_dead (emitWebhook hmac stringify env rnd net acceptable now nowIso invoices tenants ev i extra dead) = dead"
  by (auto simp: emitWebhook_def no_emission_def try_insert_def Let_def is_null_def col_def js_nullish_def
      split: option.splits sum.splits dest!: assms)

text \<open>A signature of the wrong length does not lead to a mismatch but to a RangeError.\<close>

lemma short_signature_raises:
  "verifySignature (\<lambda>_ _. replicate 64 (CHR ''a'')) 5000 TOLERANCE_MS ''s'' ''b'' (JStr ''t=5,v1=00'') = SigRangeError"
  by code_simp

end
