(* ===== verification/Kyc.thy ===== *)
theory Kyc
  imports Webhooks Invoices
begin

text \<open>
  KYC: \<open>src/src/services/kycService.js\<close>, the webhook of \<open>src/src/routes/kyc.js\<close> and the gate
  \<open>src/src/middleware/kycGating.js\<close>.

  The environment, the answer of the provider, failures of the database, the clock and \<open>JSON.parse\<close>
  are arguments; timestamps in the database are their ISO texts. The service uses three names it does
  not declare (\<open>DEFAULT_STATUS_CACHE_TTL_SECONDS\<close>, \<open>STATUS_CACHE_KEY_PREFIX\<close>, \<open>kycStatusCache\<close>):
  evaluating one raises a ReferenceError. Log calls are left out.
\<close>

section \<open>Statuses\<close>

definition PENDING :: string where "PENDING = ''pending''"
definition VERIFIED :: string where "VERIFIED = ''verified''"
definition REJECTED :: string where "REJECTED = ''rejected''"
definition EXEMPTED :: string where "EXEMPTED = ''exempted''"
definition UNKNOWN :: string where "UNKNOWN = ''unknown''"

lemmas kyc_statuses = PENDING_def VERIFIED_def REJECTED_def EXEMPTED_def UNKNOWN_def

definition KYC_STATUSES :: "string list" where
  "KYC_STATUSES = [PENDING, VERIFIED, REJECTED, EXEMPTED, UNKNOWN]"

definition PROVIDER_STATUS_MAP :: "(string \<times> string) list" where
  "PROVIDER_STATUS_MAP =
     [(''pending'', PENDING), (''in_review'', PENDING), (''reviewing'', PENDING), (''queued'', PENDING),
      (''submitted'', PENDING), (''verified'', VERIFIED), (''approved'', VERIFIED), (''pass'', VERIFIED),
      (''success'', VERIFIED), (''rejected'', REJECTED), (''denied'', REJECTED), (''declined'', REJECTED),
      (''failed'', REJECTED), (''exempted'', EXEMPTED), (''exempt'', EXEMPTED), (''waived'', EXEMPTED)]"

definition normalizeProviderStatus :: "jsval \<Rightarrow> string" where
  "normalizeProviderStatus st =
     (case st of
        JStr s \<Rightarrow>
          let normalized = to_lower (trim s)
          in if normalized = [] then UNKNOWN
             else (case map_of PROVIDER_STATUS_MAP normalized of None \<Rightarrow> UNKNOWN | Some k \<Rightarrow> k)
      | _ \<Rightarrow> UNKNOWN)"

definition canFundWithKycStatus :: "jsval \<Rightarrow> bool" where
  "canFundWithKycStatus st \<longleftrightarrow> st = JStr VERIFIED \<or> st = JStr EXEMPTED"

section \<open>Configuration and the status cache\<close>

datatype kyc_error =
    KycError string
  | KycReferenceError string
  | KycDbError string

record kyc_env =
  ke_apiKey :: string
  ke_url :: string
  ke_secret :: string
  ke_ttl :: string

record kyc_config =
  kc_enabled :: bool
  kc_apiKey :: "string option"
  kc_baseUrl :: "string option"
  kc_apiSecret :: "string option"

definition or_null :: "string \<Rightarrow> string option" where
  "or_null s = (if s = [] then None else Some s)"

definition getKycProviderConfig :: "kyc_env \<Rightarrow> kyc_config" where
  "getKycProviderConfig env =
     \<lparr>kc_enabled = (ke_apiKey env \<noteq> [] \<and> ke_url env \<noteq> []), kc_apiKey = or_null (ke_apiKey env),
      kc_baseUrl = or_null (ke_url env), kc_apiSecret = or_null (ke_secret env)\<rparr>"

definition getStatusCacheTtlMs :: "kyc_env \<Rightarrow> kyc_error + int" where
  "getStatusCacheTtlMs env =
     (if ke_ttl env = [] then Inl (KycReferenceError ''DEFAULT_STATUS_CACHE_TTL_SECONDS'')
      else (case str_to_number (ke_ttl env) of
          NFin seconds \<Rightarrow> if seconds \<le> 0 then Inr 0 else Inr \<lfloor>seconds * 1000\<rfloor>
        | _ \<Rightarrow> Inr 0))"

definition statusCacheKey :: "string \<Rightarrow> kyc_error + string" where
  "statusCacheKey smeId = Inl (KycReferenceError ''STATUS_CACHE_KEY_PREFIX'')"

definition valid_sme :: "jsval \<Rightarrow> bool" where
  "valid_sme v \<longleftrightarrow> truthy v \<and> js_typeof v = ''string''"

definition invalidateKycStatusCache :: "jsval \<Rightarrow> kyc_error + unit" where
  "invalidateKycStatusCache smeId =
     (if \<not> valid_sme smeId then Inr () else Inl (KycReferenceError ''kycStatusCache''))"

text \<open>What a call of the loader does: its result, the table afterwards, whether the provider was
  asked.\<close>

type_synonym 'a load = "(kyc_error + 'a) \<times> table \<times> bool"

definition readProviderStatusCached :: "kyc_env \<Rightarrow> string \<Rightarrow> table \<Rightarrow> 'a load \<Rightarrow> 'a load" where
  "readProviderStatusCached env smeId rows loader =
     (case getStatusCacheTtlMs env of
        Inl e \<Rightarrow> (Inl e, rows, False)
      | Inr ttlMs \<Rightarrow>
          if ttlMs \<le> 0 then loader
          else (case statusCacheKey smeId of
              Inl e \<Rightarrow> (Inl e, rows, False)
            | Inr _ \<Rightarrow> (Inl (KycReferenceError ''kycStatusCache''), rows, False)))"

section \<open>Records\<close>

record kyc_view =
  kv_smeId :: jsval
  kv_status :: jsval
  kv_recordId :: jsval
  kv_verifiedAt :: jsval
  kv_updatedAt :: jsval

text \<open>The messages of failing reads and writes.\<close>

record kyc_io =
  io_read :: "string option"
  io_write :: "string option"

definition readKycRecord :: "kyc_io \<Rightarrow> jsval \<Rightarrow> table \<Rightarrow> kyc_error + kyc_view option" where
  "readKycRecord io smeId rows =
     (if \<not> valid_sme smeId then Inl (KycError ''Invalid SME ID'')
      else (case io_read io of
          Some e \<Rightarrow> Inl (KycDbError e)
        | None \<Rightarrow>
            (case List.find (col_eq ''sme_id'' smeId) rows of
               None \<Rightarrow> Inr None
             | Some r \<Rightarrow>
                 if \<not> truthy (col ''status'' r) then Inr None
                 else Inr (Some \<lparr>kv_smeId = col ''sme_id'' r, kv_status = col ''status'' r,
                        kv_recordId = js_or (col ''provider_record_id'' r) JNull,
                        kv_verifiedAt = js_or (col ''verified_at'' r) JNull,
                        kv_updatedAt = js_or (col ''updated_at'' r) JNull\<rparr>))))"

definition persistKycRecord ::
  "kyc_io \<Rightarrow> string \<Rightarrow> jsval \<Rightarrow> jsval \<Rightarrow> jsval \<Rightarrow> jsval \<Rightarrow> table \<Rightarrow> (kyc_error + kyc_view) \<times> table" where
  "persistKycRecord io nowIso smeId st providerRecordId verifiedAt rows =
     (if \<not> valid_sme smeId then (Inl (KycError ''Invalid SME ID''), rows)
      else
        let normalizedStatus = normalizeProviderStatus st;
            flds = [(''sme_id'', smeId), (''status'', JStr normalizedStatus),
                    (''provider_record_id'', js_or providerRecordId JNull),
                    (''verified_at'', js_or verifiedAt JNull), (''updated_at'', JStr nowIso)];
            view = \<lparr>kv_smeId = smeId, kv_status = JStr normalizedStatus, kv_recordId = js_or providerRecordId JNull,
                    kv_verifiedAt = js_or verifiedAt JNull, kv_updatedAt = JStr nowIso\<rparr>
        in (case (io_read io, io_write io) of
              (Some e, _) \<Rightarrow> (Inl (KycDbError e), rows)
            | (None, Some e) \<Rightarrow> (Inl (KycDbError e), rows)
            | (None, None) \<Rightarrow>
                (case List.find (col_eq ''sme_id'' smeId) rows of
                   Some _ \<Rightarrow> (Inr view, update_where (col_eq ''sme_id'' smeId) (overlay flds) rows)
                 | None \<Rightarrow> (Inr view, rows @ [flds]))))"

section \<open>The provider\<close>

datatype provider_answer =
    NetworkError string
  | HttpError int string
  | BodyError string
  | Answer jsval

fun js_or_chain :: "jsval list \<Rightarrow> jsval" where
  "js_or_chain [] = JUndef"
| "js_or_chain [v] = v"
| "js_or_chain (v # vs) = (if truthy v then v else js_or_chain vs)"

definition new_record_id :: "string \<Rightarrow> time \<Rightarrow> string" where
  "new_record_id smeId now = ''kyc_'' @ smeId @ ''_'' @ show_int now"

definition verifyWithExternalProvider ::
  "kyc_env \<Rightarrow> kyc_io \<Rightarrow> provider_answer \<Rightarrow> time \<Rightarrow> string \<Rightarrow> string \<Rightarrow> table \<Rightarrow> kyc_view load" where
  "verifyWithExternalProvider env io ans now nowIso smeId rows =
     (if \<not> kc_enabled (getKycProviderConfig env) then (Inl (KycError ''KYC provider not configured''), rows, False)
      else (case ans of
          NetworkError m \<Rightarrow> (Inl (KycError m), rows, True)
        | HttpError s body \<Rightarrow>
            (Inl (KycError (show_int s @ (if body = [] then [] else '': '' @ body))), rows, True)
        | BodyError m \<Rightarrow> (Inl (KycError m), rows, True)
        | Answer data \<Rightarrow>
            if js_nullish data then (Inl (KycError ''TypeError''), rows, True)
            else
              let recordId = js_or_chain [js_get data ''recordId'', js_get data ''providerRecordId'',
                    js_get data ''provider_record_id'', JStr (new_record_id smeId now)];
                  verifiedAt = js_or_chain [js_get data ''verifiedAt'', js_get data ''verified_at'', JNull];
                  st = normalizeProviderStatus (js_or_chain [js_get data ''status'', js_get data ''kycStatus'',
                    js_get data ''result'', JStr []])
              in (case persistKycRecord io nowIso (JStr smeId) (JStr st) recordId verifiedAt rows of
                    (Inl e, rows') \<Rightarrow> (Inl e, rows', True)
                  | (Inr p, rows') \<Rightarrow> (Inr (p\<lparr>kv_smeId := JUndef, kv_updatedAt := JUndef\<rparr>), rows', True))))"

definition pending_view :: kyc_view where
  "pending_view = \<lparr>kv_smeId = JUndef, kv_status = JStr PENDING, kv_recordId = JUndef, kv_verifiedAt = JUndef,
     kv_updatedAt = JUndef\<rparr>"

type_synonym mock_store = "(string, kyc_view) amap"

definition getKycStatus ::
  "kyc_env \<Rightarrow> kyc_io \<Rightarrow> provider_answer \<Rightarrow> time \<Rightarrow> string \<Rightarrow> mock_store \<Rightarrow> jsval \<Rightarrow> table \<Rightarrow> kyc_view load" where
  "getKycStatus env io ans now nowIso mock sme rows =
     (case sme of
        JStr smeId \<Rightarrow>
          if smeId = [] then (Inl (KycError ''Invalid SME ID''), rows, False)
          else if kc_enabled (getKycProviderConfig env)
          then (case readProviderStatusCached env smeId rows
                       (verifyWithExternalProvider env io ans now nowIso smeId rows) of
              (Inr v, rows', asked) \<Rightarrow> (Inr v, rows', asked)
            | (Inl _, rows', asked) \<Rightarrow>
                (case readKycRecord io sme rows' of
                   Inl e \<Rightarrow> (Inl e, rows', asked)
                 | Inr (Some r) \<Rightarrow> (Inr r, rows', asked)
                 | Inr None \<Rightarrow> (Inr pending_view, rows', asked)))
          else (case readKycRecord io sme rows of
              Inl e \<Rightarrow> (Inl e, rows, False)
            | Inr (Some r) \<Rightarrow> (Inr r, rows, False)
            | Inr None \<Rightarrow>
                (case map_of mock smeId of
                   Some m \<Rightarrow> (Inr m, rows, False)
                 | None \<Rightarrow> (Inr pending_view, rows, False)))
      | _ \<Rightarrow> (Inl (KycError ''Invalid SME ID''), rows, False))"

section \<open>Manual decisions\<close>

text \<open>The mock store is written before the database, so it keeps the entry when the database
  fails.\<close>

definition mark_sme ::
  "kyc_io \<Rightarrow> string \<Rightarrow> string \<Rightarrow> jsval \<Rightarrow> jsval \<Rightarrow> jsval \<Rightarrow> mock_store \<Rightarrow> table \<Rightarrow>
   (kyc_error + kyc_view) \<times> mock_store \<times> table" where
  "mark_sme io nowIso st recordId verifiedAt sme mock rows =
     (case sme of
        JStr smeId \<Rightarrow>
          if smeId = [] then (Inl (KycError ''Invalid SME ID''), mock, rows)
          else
            let m = \<lparr>kv_smeId = JUndef, kv_status = JStr st, kv_recordId = recordId, kv_verifiedAt = verifiedAt,
                     kv_updatedAt = JUndef\<rparr>;
                mock' = AList.update smeId m mock
            in (case persistKycRecord io nowIso sme (JStr st) recordId verifiedAt rows of
                  (Inl e, rows') \<Rightarrow> (Inl e, mock', rows')
                | (Inr _, rows') \<Rightarrow> (Inr m, mock', rows'))
      | _ \<Rightarrow> (Inl (KycError ''Invalid SME ID''), mock, rows))"

definition sme_text :: "jsval \<Rightarrow> string" where
  "sme_text v = (case v of JStr s \<Rightarrow> s | _ \<Rightarrow> [])"

definition verifySmeSafe ::
  "kyc_io \<Rightarrow> time \<Rightarrow> string \<Rightarrow> jsval \<Rightarrow> jsval \<Rightarrow> mock_store \<Rightarrow> table \<Rightarrow> (kyc_error + kyc_view) \<times> mock_store \<times> table" where
  "verifySmeSafe io now nowIso opt_recordId sme mock rows =
     mark_sme io nowIso VERIFIED (js_or opt_recordId (JStr (new_record_id (sme_text sme) now))) (JStr nowIso) sme mock rows"

definition rejectSmeKyc ::
  "kyc_io \<Rightarrow> time \<Rightarrow> string \<Rightarrow> jsval \<Rightarrow> mock_store \<Rightarrow> table \<Rightarrow> (kyc_error + kyc_view) \<times> mock_store \<times> table" where
  "rejectSmeKyc io now nowIso sme mock rows =
     mark_sme io nowIso REJECTED (JStr (new_record_id (sme_text sme) now)) JUndef sme mock rows"

definition exemptSmeFromKyc ::
  "kyc_io \<Rightarrow> time \<Rightarrow> string \<Rightarrow> jsval \<Rightarrow> mock_store \<Rightarrow> table \<Rightarrow> (kyc_error + kyc_view) \<times> mock_store \<times> table" where
  "exemptSmeFromKyc io now nowIso sme mock rows =
     mark_sme io nowIso EXEMPTED (JStr (new_record_id (sme_text sme) now)) JUndef sme mock rows"

text \<open>The store is cleared, then the cache, which is not declared.\<close>

definition resetMockRecords :: "mock_store \<Rightarrow> (kyc_error + unit) \<times> mock_store" where
  "resetMockRecords mock = (Inl (KycReferenceError ''kycStatusCache''), [])"

section \<open>The webhook and the gate\<close>

text \<open>A response with its error text (empty when there is none), or an error that reaches the
  framework.\<close>

datatype kyc_response = KResponse int string | KRaised

text \<open>From the parsed payload on.\<close>

definition kyc_ingest :: "kyc_io \<Rightarrow> string \<Rightarrow> jsval \<Rightarrow> table \<Rightarrow> kyc_response \<times> table" where
  "kyc_ingest io nowIso payload rows =
     (if js_nullish payload then (KRaised, rows)
      else
        let smeId = js_or (js_get payload ''smeId'') (js_get payload ''sme_id'');
            st = js_or_chain [js_get payload ''status'', js_get payload ''kycStatus'', js_get payload ''kyc_status''];
            providerRecordId = js_or_chain [js_get payload ''recordId'', js_get payload ''providerRecordId'',
              js_get payload ''provider_record_id'', JNull];
            verifiedAt = js_or_chain [js_get payload ''verifiedAt'', js_get payload ''verified_at'', JNull]
        in if \<not> valid_sme smeId then (KResponse 400 ''Missing or invalid smeId'', rows)
           else if \<not> (truthy st \<and> js_typeof st = ''string'') then (KResponse 400 ''Missing or invalid status'', rows)
           else (case persistKycRecord io nowIso smeId st providerRecordId verifiedAt rows of
               (Inr _, rows') \<Rightarrow> (KResponse 200 [], rows')
             | (Inl e, rows') \<Rightarrow>
                 (KResponse 400 (case e of KycDbError m \<Rightarrow> m | KycError m \<Rightarrow> m | KycReferenceError m \<Rightarrow> m), rows')))"

definition kyc_webhook ::
  "(string \<Rightarrow> string \<Rightarrow> string) \<Rightarrow> (string \<Rightarrow> jsval option) \<Rightarrow> kyc_env \<Rightarrow> kyc_io \<Rightarrow> time \<Rightarrow> string \<Rightarrow> jsval \<Rightarrow> string \<Rightarrow>
   table \<Rightarrow> kyc_response \<times> table" where
  "kyc_webhook hmac parse env io now nowIso signatureHeader rawBody rows =
     (case kc_apiSecret (getKycProviderConfig env) of
        None \<Rightarrow> (KResponse 503 ''KYC webhook ingestion is not configured'', rows)
      | Some secret \<Rightarrow>
          if \<not> truthy signatureHeader then (KResponse 401 ''Missing X-Signature header'', rows)
          else (case verifySignature hmac now TOLERANCE_MS secret rawBody signatureHeader of
              SigRangeError \<Rightarrow> (KRaised, rows)
            | SigInvalid _ \<Rightarrow> (KResponse 401 ''Invalid webhook signature'', rows)
            | SigValid \<Rightarrow>
                (case parse rawBody of
                   None \<Rightarrow> (KResponse 400 ''Invalid JSON payload'', rows)
                 | Some payload \<Rightarrow> kyc_ingest io nowIso payload rows)))"

definition kycGatingMiddleware :: "jsval \<Rightarrow> jsval \<Rightarrow> kyc_response option" where
  "kycGatingMiddleware body user =
     (if js_nullish body then Some KRaised
      else
        let targetState = js_or (js_get body ''state'') (js_get body ''targetState'')
        in if targetState \<in> JStr ` set CAPITAL_MOVING_STATES \<and>
              (\<not> truthy user \<or> \<not> truthy (js_get user ''isKycVerified''))
           then Some (KResponse 403 ''KYC_REQUIRED'') else None)"

section \<open>Lemmas\<close>

lemma normalize_range: "normalizeProviderStatus v \<in> set KYC_STATUSES"
proof (cases "\<exists>s k. v = JStr s \<and> to_lower (trim s) \<noteq> [] \<and> map_of PROVIDER_STATUS_MAP (to_lower (trim s)) = Some k")
  case True
  then obtain s k where k: "v = JStr s" "to_lower (trim s) \<noteq> []" "map_of PROVIDER_STATUS_MAP (to_lower (trim s)) = Some k"
    by blast
  have "k \<in> snd ` set PROVIDER_STATUS_MAP" using map_of_SomeD[OF k(3)] by force
  also have "snd ` set PROVIDER_STATUS_MAP \<subseteq> set KYC_STATUSES" by (simp add: PROVIDER_STATUS_MAP_def KYC_STATUSES_def)
  finally show ?thesis using k by (simp add: normalizeProviderStatus_def)
next
  case False
  then have "normalizeProviderStatus v = UNKNOWN"
    by (auto simp: normalizeProviderStatus_def Let_def split: jsval.splits option.splits)
  then show ?thesis by (simp add: KYC_STATUSES_def)
qed

lemma normalize_idem: "normalizeProviderStatus (JStr (normalizeProviderStatus v)) = normalizeProviderStatus v"
proof -
  have "\<forall>k\<in>set KYC_STATUSES. normalizeProviderStatus (JStr k) = k" by code_simp
  then show ?thesis using normalize_range by blast
qed

lemma normalize_ne: "normalizeProviderStatus v \<noteq> []"
proof -
  have "\<forall>k\<in>set KYC_STATUSES. k \<noteq> []" by code_simp
  then show ?thesis using normalize_range by blast
qed

lemma valid_sme_iff: "valid_sme v \<longleftrightarrow> (\<exists>s. v = JStr s \<and> s \<noteq> [])"
  by (cases v) (auto simp: valid_sme_def)

lemma persist_ok:
  assumes "persistKycRecord io nowIso sme st prid vat rows = (Inr v, rows')"
  shows "valid_sme sme \<and> kv_status v = JStr (normalizeProviderStatus st) \<and>
    (\<exists>r. List.find (col_eq ''sme_id'' sme) rows' = Some r \<and> col ''status'' r = JStr (normalizeProviderStatus st)) \<and>
    (\<forall>j. j \<noteq> sme \<longrightarrow> List.find (col_eq ''sme_id'' j) rows' = List.find (col_eq ''sme_id'' j) rows)"
proof -
  define flds where "flds = [(''sme_id'', sme), (''status'', JStr (normalizeProviderStatus st)),
      (''provider_record_id'', js_or prid JNull), (''verified_at'', js_or vat JNull), (''updated_at'', JStr nowIso)]"
  have sme: "valid_sme sme" using assms by (auto simp: persistKycRecord_def split: if_splits)
  have v: "kv_status v = JStr (normalizeProviderStatus st)"
    and rows': "rows' = (case List.find (col_eq ''sme_id'' sme) rows of
        Some _ \<Rightarrow> update_where (col_eq ''sme_id'' sme) (overlay flds) rows | None \<Rightarrow> rows @ [flds])"
    using assms by (auto simp: persistKycRecord_def flds_def Let_def split: if_splits option.splits)
  have nn: "\<not> js_nullish sme" using sme truthy_not_nullish by (auto simp: valid_sme_def)
  have f: "col ''sme_id'' flds = sme" "col ''status'' flds = JStr (normalizeProviderStatus st)"
    "col ''sme_id'' (overlay flds r) = sme" "col ''status'' (overlay flds r) = JStr (normalizeProviderStatus st)" for r
    by (simp_all add: flds_def col_def overlay_def)
  show ?thesis
  proof (cases "List.find (col_eq ''sme_id'' sme) rows")
    case None
    then have r: "rows' = rows @ [flds]" using rows' by simp
    have "List.find (col_eq ''sme_id'' sme) rows' = Some flds"
      by (simp add: r find_append None col_eq_def f nn)
    moreover have "List.find (col_eq ''sme_id'' j) rows' = List.find (col_eq ''sme_id'' j) rows" if "j \<noteq> sme" for j
      using that by (auto simp: r find_append col_eq_def f split: option.splits)
    ultimately show ?thesis using sme v f by blast
  next
    case (Some x)
    then have r: "rows' = update_where (col_eq ''sme_id'' sme) (overlay flds) rows" using rows' by simp
    have hit: "List.find (col_eq ''sme_id'' sme) (update_where (col_eq ''sme_id'' sme) (overlay flds) t) =
        map_option (overlay flds) (List.find (col_eq ''sme_id'' sme) t)" for t
      by (induction t) (auto simp: update_where_def col_eq_def f nn)
    have other: "List.find (col_eq ''sme_id'' j) (update_where (col_eq ''sme_id'' sme) (overlay flds) t) =
        List.find (col_eq ''sme_id'' j) t" if "j \<noteq> sme" for j t
      using that by (induction t) (auto simp: update_where_def col_eq_def f)
    show ?thesis using sme v f hit[of rows] other[of _ rows] Some by (simp add: r)
  qed
qed

lemma persist_failed: "persistKycRecord io nowIso sme st prid vat rows = (Inl e, rows') \<Longrightarrow> rows' = rows"
  by (auto simp: persistKycRecord_def Let_def split: if_splits option.splits)

lemma read_record:
  assumes "List.find (col_eq ''sme_id'' (JStr s)) rows = Some r" "col ''status'' r = JStr k" "k \<noteq> []" "s \<noteq> []" "io_read io = None"
  shows "\<exists>v. readKycRecord io (JStr s) rows = Inr (Some v) \<and> kv_status v = JStr k"
  using assms by (simp add: readKycRecord_def valid_sme_iff)

text \<open>Unless caching is switched off the provider is not asked, and the status is the persisted one.\<close>

definition cache_off :: "kyc_env \<Rightarrow> bool" where
  "cache_off env \<longleftrightarrow> (\<exists>n\<le>0. getStatusCacheTtlMs env = Inr n)"

lemma cached_read_raises:
  assumes "\<not> cache_off env"
  shows "\<exists>e. readProviderStatusCached env s rows ld = (Inl e, rows, False)"
  using assms by (auto simp: readProviderStatusCached_def cache_off_def statusCacheKey_def split: sum.splits)

lemma status_persisted:
  assumes "s \<noteq> []" "\<not> kc_enabled (getKycProviderConfig env) \<or> \<not> cache_off env"
    "readKycRecord io (JStr s) rows = Inr (Some v)"
  shows "getKycStatus env io ans now nowIso mock (JStr s) rows = (Inr v, rows, False)"
proof (cases "kc_enabled (getKycProviderConfig env)")
  case True
  then obtain e where "readProviderStatusCached env s rows
      (verifyWithExternalProvider env io ans now nowIso s rows) = (Inl e, rows, False)"
    using cached_read_raises assms(2) by blast
  then show ?thesis using assms(1,3) True by (simp add: getKycStatus_def)
qed (use assms in \<open>simp add: getKycStatus_def\<close>)

lemma ingest_other:
  assumes "kyc_ingest io nowIso payload rows = (resp, rows')" "resp \<noteq> KResponse 200 []"
  shows "rows' = rows"
  using assms
  by (auto simp: kyc_ingest_def Let_def dest: persist_failed split: if_splits prod.splits sum.splits)

lemma ingest_200:
  assumes "kyc_ingest io nowIso payload rows = (KResponse 200 [], rows')"
  shows "\<exists>smeId st v prid vat. smeId \<noteq> [] \<and>
     JStr smeId = js_or (js_get payload ''smeId'') (js_get payload ''sme_id'') \<and>
     JStr st = js_or_chain [js_get payload ''status'', js_get payload ''kycStatus'', js_get payload ''kyc_status''] \<and>
     persistKycRecord io nowIso (JStr smeId) (JStr st) prid vat rows = (Inr v, rows')"
proof -
  let ?sme = "js_or (js_get payload ''smeId'') (js_get payload ''sme_id'')"
  let ?st = "js_or_chain [js_get payload ''status'', js_get payload ''kycStatus'', js_get payload ''kyc_status'']"
  obtain prid vat v where p: "valid_sme ?sme" "truthy ?st" "js_typeof ?st = ''string''"
      "persistKycRecord io nowIso ?sme ?st prid vat rows = (Inr v, rows')"
    using assms unfolding kyc_ingest_def Let_def
    by (auto simp del: js_or_chain.simps split: if_splits prod.splits sum.splits)
  from p(1) obtain smeId where sme: "?sme = JStr smeId" "smeId \<noteq> []" unfolding valid_sme_iff by blast
  from p(3) obtain st where st: "?st = JStr st" by (cases ?st) (simp_all del: js_or_chain.simps)
  show ?thesis using p(4) sme st by metis
qed

section \<open>Properties\<close>


definition sample_kyc_env :: kyc_env where
  "sample_kyc_env = \<lparr>ke_apiKey = ''k'', ke_url = ''u'', ke_secret = ''s'', ke_ttl = []\<rparr>"

definition sample_kyc_io :: kyc_io where
  "sample_kyc_io = \<lparr>io_read = None, io_write = None\<rparr>"

definition sample_kyc_payload :: jsval where
  "sample_kyc_payload = JObj [(''smeId'', JStr ''a''), (''status'', JStr ''Denied'')]"


text \<open>Funding is only opened by a recorded decision. A status read that allows funding comes from
  the provider's answer to this very call, which is then recorded in the table and possible only with
  caching switched off; or from the table; or, without a provider and without a record, from the mock
  store. Whenever caching is not switched off the provider is not asked at all.\<close>
theorem kyc_funding_sound:
  assumes "getKycStatus env io ans now nowIso mock (JStr smeId) rows = (Inr v, rows', asked)"
    "canFundWithKycStatus (kv_status v)"
  shows "((\<exists>r. List.find (col_eq ''sme_id'' (JStr smeId)) rows' = Some r \<and> col ''status'' r = kv_status v) \<or>
     \<not> kc_enabled (getKycProviderConfig env) \<and> readKycRecord io (JStr smeId) rows = Inr None \<and> map_of mock smeId = Some v) \<and>
    (asked \<longrightarrow> cache_off env \<and> kc_enabled (getKycProviderConfig env)) \<and>
    (rows' \<noteq> rows \<longrightarrow> (\<exists>data. ans = Answer data \<and> asked \<and>
       kv_status v = JStr (normalizeProviderStatus (js_or_chain [js_get data ''status'', js_get data ''kycStatus'',
         js_get data ''result'', JStr []]))))"
proof -
  have ne: "smeId \<noteq> []" using assms(1) by (auto simp: getKycStatus_def)
  have pend: "\<not> canFundWithKycStatus (kv_status pending_view)" by code_simp
  have rec: "\<exists>r. List.find (col_eq ''sme_id'' (JStr smeId)) t = Some r \<and> col ''status'' r = kv_status x"
    if "readKycRecord io (JStr smeId) t = Inr (Some x)" for t x
    using that by (auto simp: readKycRecord_def split: if_splits option.splits)
  let ?ld = "verifyWithExternalProvider env io ans now nowIso smeId rows"
  show ?thesis
  proof (cases "kc_enabled (getKycProviderConfig env)")
    case False
    then show ?thesis using assms ne pend rec
      by (auto simp: getKycStatus_def split: sum.splits option.splits)
  next
    case en: True
    show ?thesis
    proof (cases "fst (readProviderStatusCached env smeId rows ?ld)")
      case (Inl e)
      obtain t a where p: "readProviderStatusCached env smeId rows ?ld = (Inl e, t, a)" using Inl by (metis prod.collapse)
      have t: "t = rows" "a \<longrightarrow> cache_off env"
        using p by (auto simp: readProviderStatusCached_def verifyWithExternalProvider_def statusCacheKey_def cache_off_def Let_def
            dest: persist_failed split: sum.splits if_splits provider_answer.splits prod.splits)
      then show ?thesis using assms ne pend rec en p
        by (auto simp: getKycStatus_def split: sum.splits option.splits)
    next
      case (Inr w)
      then obtain t a where p: "readProviderStatusCached env smeId rows ?ld = (Inr w, t, a)" by (metis prod.collapse)
      then have eq: "w = v" "t = rows'" "a = asked" using assms(1) ne en by (simp_all add: getKycStatus_def)
      have off: "cache_off env" and ld: "?ld = (Inr v, rows', asked)"
        using p eq by (auto simp: readProviderStatusCached_def statusCacheKey_def cache_off_def split: sum.splits if_splits)
      obtain data st prid vat q where d: "ans = Answer data" "asked" "kv_status v = kv_status q"
          "st = normalizeProviderStatus (js_or_chain [js_get data ''status'', js_get data ''kycStatus'', js_get data ''result'', JStr []])"
          "persistKycRecord io nowIso (JStr smeId) (JStr st) prid vat rows = (Inr q, rows')"
        using ld unfolding verifyWithExternalProvider_def Let_def
        by (auto simp del: js_or_chain.simps split: if_splits provider_answer.splits prod.splits sum.splits)
      have s: "kv_status v = JStr st" using persist_ok[OF d(5)] d(3,4) normalize_idem by simp
      have "\<exists>r. List.find (col_eq ''sme_id'' (JStr smeId)) rows' = Some r \<and> col ''status'' r = kv_status v"
        using persist_ok[OF d(5)] d(4) s normalize_idem by auto
      then show ?thesis using off en d(1,2,4) s by blast
    qed
  qed
qed

theorem kyc_funding_sound_witness:
  "cache_off (sample_kyc_env\<lparr>ke_ttl := ''0''\<rparr>)"
proof -
  let ?env = "sample_kyc_env\<lparr>ke_ttl := ''0''\<rparr>" and ?ans = "Answer (JObj [(''status'', JStr ''approved'')])"
  obtain r t a where g: "getKycStatus ?env sample_kyc_io ?ans 0 [] [] (JStr ''a'') [] = (r, t, a)" by (metis prod_cases3)
  have "map_sum id kv_status (fst (getKycStatus ?env sample_kyc_io ?ans 0 [] [] (JStr ''a'') [])) = Inr (JStr ''verified'') \<and>
      snd (snd (getKycStatus ?env sample_kyc_io ?ans 0 [] [] (JStr ''a'') []))" by code_simp
  then obtain v where v: "r = Inr v" "kv_status v = JStr ''verified''" a using g by (cases r) auto
  have "canFundWithKycStatus (kv_status v)" by (simp add: v(2) canFundWithKycStatus_def VERIFIED_def)
  then show ?thesis using kyc_funding_sound[OF g[unfolded v(1)]] v(3) by blast
qed

section \<open>Deviations\<close>

text \<open>With the default configuration a provider that is set up is never asked.\<close>

lemma provider_never_asked:
  assumes "ke_ttl env = []"
  shows "\<exists>r. getKycStatus env io ans now nowIso mock (JStr s) rows = (r, rows, False)"
proof (cases "s = [] \<or> \<not> kc_enabled (getKycProviderConfig env)")
  case True
  then show ?thesis by (auto simp: getKycStatus_def split: sum.splits option.splits)
next
  case False
  then have "\<not> cache_off env" using assms by (simp add: cache_off_def getStatusCacheTtlMs_def)
  from cached_read_raises[OF this] obtain e where
    "readProviderStatusCached env s rows (verifyWithExternalProvider env io ans now nowIso s rows) = (Inl e, rows, False)"
    by blast
  then show ?thesis using False by (simp add: getKycStatus_def split: sum.splits option.splits)
qed

text \<open>The gate for state changes reads a flag of the user, not the status of the service.\<close>

lemma gate_needs_flag:
  assumes "kycGatingMiddleware body user = None" "js_or (js_get body ''state'') (js_get body ''targetState'') = JStr s"
    "s \<in> set CAPITAL_MOVING_STATES"
  shows "truthy (js_get user ''isKycVerified'')"
  using assms by (auto simp: kycGatingMiddleware_def Let_def split: if_splits)

end
