(* ===== verification/EscrowSubmit.thy ===== *)
theory EscrowSubmit
  imports QueryParams
begin

text \<open>
  Submission of \<open>fund_escrow\<close>: \<open>src/src/services/escrowSubmit.js\<close>. The memo, the check that
  the contract exists, the construction of the transaction, the three signing modes and the errors.

  The Stellar SDK and the RPC server are the record \<open>sdk\<close> of their functions, over one type of
  opaque objects; a function that may throw or reject returns a sum, \<open>Inl\<close> being the error. Every
  call of the server is recorded, in order, together with the reasons given to the counter of
  rejections. An unset environment variable is the empty string, as the code tests only whether it is
  truthy.
\<close>

section \<open>Conversions of the language\<close>

text \<open>\<open>String(v)\<close>. The text of a number that is no integer below 10 to the 21 is an argument.\<close>

definition num_text :: "(rat \<Rightarrow> string) \<Rightarrow> jsnum \<Rightarrow> string" where
  "num_text nt n =
     (case n of
        NFin q \<Rightarrow> if is_integer_rat q \<and> \<bar>q\<bar> < 10 ^ 21 then show_int \<lfloor>q\<rfloor> else nt q
      | NNaN \<Rightarrow> ''NaN'' | NPosInf \<Rightarrow> ''Infinity'' | NNegInf \<Rightarrow> ''-Infinity'')"

fun join_with :: "string \<Rightarrow> string list \<Rightarrow> string" where
  "join_with sep [] = []"
| "join_with sep [s] = s"
| "join_with sep (s # t # ss) = s @ sep @ join_with sep (t # ss)"

fun js_String :: "(rat \<Rightarrow> string) \<Rightarrow> jsval \<Rightarrow> string" where
  "js_String nt (JStr s) = s"
| "js_String nt (JNum n) = num_text nt n"
| "js_String nt (JBool b) = (if b then ''true'' else ''false'')"
| "js_String nt JUndef = ''undefined''"
| "js_String nt JNull = ''null''"
| "js_String nt (JArr vs) = join_with '','' (map (\<lambda>v. if js_nullish v then [] else js_String nt v) vs)"
| "js_String nt (JObj kvs) = ''[object Object]''"

text \<open>\<open>BigInt(v)\<close>: None is a \<open>SyntaxError\<close>, \<open>RangeError\<close> or \<open>TypeError\<close>.\<close>

definition bigint_of_string :: "string \<Rightarrow> int option" where
  "bigint_of_string s0 =
     (let s = trim s0; pre = to_lower (take 2 s); int_of = map_option floor in
      if s = [] then Some 0
      else if pre = ''0x'' then int_of (radix_val 16 (drop 2 s))
      else if pre = ''0o'' then int_of (radix_val 8 (drop 2 s))
      else if pre = ''0b'' then int_of (radix_val 2 (drop 2 s))
      else (case sign_split s of (g, ds) \<Rightarrow>
          if ds \<noteq> [] \<and> all_digits ds then Some (g * int (digits_val ds)) else None))"

fun js_BigInt :: "(rat \<Rightarrow> string) \<Rightarrow> jsval \<Rightarrow> int option" where
  "js_BigInt nt (JStr s) = bigint_of_string s"
| "js_BigInt nt (JNum (NFin q)) = (if is_integer_rat q then Some \<lfloor>q\<rfloor> else None)"
| "js_BigInt nt (JNum _) = None"
| "js_BigInt nt (JBool b) = Some (if b then 1 else 0)"
| "js_BigInt nt JUndef = None"
| "js_BigInt nt JNull = None"
| "js_BigInt nt v = bigint_of_string (js_String nt v)"

text \<open>\<open>Buffer.byteLength(s, 'utf8')\<close> within Latin-1.\<close>

definition utf8_length :: "string \<Rightarrow> nat" where
  "utf8_length s = sum_list (map (\<lambda>c. if code_of c < 128 then 1 else 2) s)"

section \<open>Modes, results and errors\<close>

definition DELEGATED :: string where "DELEGATED = ''delegated''"
definition CUSTODIAL :: string where "CUSTODIAL = ''custodial''"
definition STUBBED :: string where "STUBBED = ''stubbed''"

definition key_pattern_char :: "char \<Rightarrow> bool" where
  "key_pattern_char c \<longleftrightarrow> is_alnum c \<or> c \<in> set ''._:-''"

definition IDEMPOTENCY_KEY_PATTERN :: "string \<Rightarrow> bool" where
  "IDEMPOTENCY_KEY_PATTERN s \<longleftrightarrow> list_all key_pattern_char s \<and> 8 \<le> length s \<and> length s \<le> 128"

definition MEMO_MAX_BYTES :: nat where "MEMO_MAX_BYTES = 28"

datatype submit_error =
    EscrowSubmitError string "string option" "int option"
  | OtherError jsval

record submit_result =
  sr_status :: string
  sr_escrowAddress :: jsval
  sr_unsignedXdr :: jsval
  sr_txHash :: jsval
  sr_ledger :: jsval

definition submit_failed :: "string \<Rightarrow> submit_error" where
  "submit_failed m = EscrowSubmitError m None None"

definition type_error :: submit_error where
  "type_error = OtherError (JObj [(''name'', JStr ''TypeError'')])"

record memo =
  memo_type :: string
  memo_value :: string

definition buildMemo :: "(rat \<Rightarrow> string) \<Rightarrow> jsval \<Rightarrow> submit_error + memo" where
  "buildMemo nt invoiceId =
     (let memoValue = ''lq:'' @ js_String nt invoiceId; n = utf8_length memoValue in
      if n > MEMO_MAX_BYTES
      then Inl (submit_failed (''Escrow memo truncation detected: '' @ [CHR 34] @ memoValue @ [CHR 34] @ '' is '' @
             show_nat n @ '' bytes, exceeds Stellar limit of '' @ show_nat MEMO_MAX_BYTES @
             ''. Invoice ID would be lost.''))
      else Inr \<lparr>memo_type = ''text'', memo_value = memoValue\<rparr>)"

section \<open>The SDK and the server\<close>

record 'o sdk =
  newServer :: "string \<Rightarrow> jsval option"
  contractCodeKey :: "jsval \<Rightarrow> 'o option"
  getLedgerEntry :: "'o \<Rightarrow> jsval + jsval"
  getAccount :: "string \<Rightarrow> jsval + 'o"
  newContract :: "jsval \<Rightarrow> jsval + 'o"
  addressScVal :: "jsval \<Rightarrow> jsval + 'o"
  i128ScVal :: "int \<Rightarrow> jsval + 'o"
  contractCall :: "'o \<Rightarrow> string \<Rightarrow> 'o list \<Rightarrow> jsval + 'o"
  newBuilder :: "'o \<Rightarrow> string \<Rightarrow> 'o \<Rightarrow> jsval + 'o"
  finishTx :: "'o \<Rightarrow> memo \<Rightarrow> int \<Rightarrow> jsval + 'o"
  simulateTransaction :: "'o \<Rightarrow> jsval + jsval"
  prepareTransaction :: "'o \<Rightarrow> jsval + 'o"
  toXDR :: "'o \<Rightarrow> string"
  fromSecret :: "string \<Rightarrow> 'o option"
  sign :: "'o \<Rightarrow> 'o \<Rightarrow> 'o"
  sendTransaction :: "'o \<Rightarrow> jsval + jsval"

record submit_env =
  es_ESCROW_SIGNING_MODE :: string
  es_SOROBAN_RPC_URL :: string
  es_STELLAR_NETWORK_PASSPHRASE :: string
  es_ESCROW_PLATFORM_ADDRESS :: string
  es_ESCROW_PLATFORM_SECRET :: string

datatype 'o rpc = GetLedgerEntry 'o | GetAccount string | Simulate 'o | Prepare 'o | Send 'o

type_synonym 'o submit_run = "(submit_error + submit_result) \<times> 'o rpc list \<times> string list"

section \<open>Preflight\<close>

definition val_nonempty :: "jsval \<Rightarrow> bool" where
  "val_nonempty v =
     (case v of
        JStr s \<Rightarrow> s \<noteq> []
      | JArr vs \<Rightarrow> vs \<noteq> []
      | JObj _ \<Rightarrow> (case to_number (js_get v ''length'') of NFin q \<Rightarrow> 0 < q | NPosInf \<Rightarrow> True | _ \<Rightarrow> False)
      | _ \<Rightarrow> False)"

definition preflightContractExists :: "'o sdk \<Rightarrow> jsval \<Rightarrow> submit_error option \<times> 'o rpc list \<times> string list" where
  "preflightContractExists sdk escrowAddress =
     (case contractCodeKey sdk escrowAddress of
        None \<Rightarrow> (Some (EscrowSubmitError ''Invalid escrow contract address.'' (Some ''INVALID_CONTRACT_ADDRESS'') (Some 400)),
                 [], [''invalid_address''])
      | Some ledgerKey \<Rightarrow>
          (case getLedgerEntry sdk ledgerKey of
             Inl _ \<Rightarrow> (Some (EscrowSubmitError ''Escrow contract preflight failed; please retry.''
                        (Some ''PREFLIGHT_RPC_ERROR'') (Some 503)), [GetLedgerEntry ledgerKey], [''rpc_error''])
           | Inr response \<Rightarrow>
               if val_nonempty (js_get response ''val'') then (None, [GetLedgerEntry ledgerKey], [])
               else (Some (EscrowSubmitError ''Escrow contract not found on the network.'' (Some ''CONTRACT_NOT_FOUND'')
                      (Some 404)), [GetLedgerEntry ledgerKey], [''not_found''])))"

section \<open>Building the transaction\<close>

definition fund_operation :: "'o sdk \<Rightarrow> (rat \<Rightarrow> string) \<Rightarrow> jsval \<Rightarrow> jsval \<Rightarrow> jsval \<Rightarrow> submit_error + 'o" where
  "fund_operation sdk nt escrowAddress investorAddress amountStroops =
     (case newContract sdk escrowAddress of
        Inl e \<Rightarrow> Inl (OtherError e)
      | Inr contract \<Rightarrow>
          (case addressScVal sdk investorAddress of
             Inl e \<Rightarrow> Inl (OtherError e)
           | Inr investor \<Rightarrow>
               (case js_BigInt nt amountStroops of
                  None \<Rightarrow> Inl (OtherError (JObj [(''name'', JStr ''SyntaxError'')]))
                | Some n \<Rightarrow>
                    (case i128ScVal sdk n of
                       Inl e \<Rightarrow> Inl (OtherError e)
                     | Inr amt \<Rightarrow>
                         (case contractCall sdk contract ''fund_escrow'' [investor, amt] of
                            Inl e \<Rightarrow> Inl (OtherError e) | Inr operation \<Rightarrow> Inr operation)))))"

definition build_tx :: "'o sdk \<Rightarrow> (rat \<Rightarrow> string) \<Rightarrow> string \<Rightarrow> jsval \<Rightarrow> 'o \<Rightarrow> 'o \<Rightarrow> submit_error + 'o" where
  "build_tx sdk nt passphrase invoiceId sourceAccount operation =
     (case newBuilder sdk sourceAccount passphrase operation of
        Inl e \<Rightarrow> Inl (OtherError e)
      | Inr builder \<Rightarrow>
          (case buildMemo nt invoiceId of
             Inl e \<Rightarrow> Inl e
           | Inr m \<Rightarrow> (case finishTx sdk builder m 180 of Inl e \<Rightarrow> Inl (OtherError e) | Inr tx \<Rightarrow> Inr tx)))"

section \<open>Signing and submission\<close>

definition stubbedResult :: "jsval \<Rightarrow> submit_result" where
  "stubbedResult escrowAddress =
     \<lparr>sr_status = STUBBED, sr_escrowAddress = escrowAddress, sr_unsignedXdr = JNull, sr_txHash = JNull,
      sr_ledger = JNull\<rparr>"

text \<open>\<open>stringify\<close> is \<open>JSON.stringify\<close>.\<close>

definition signAndSubmit ::
  "'o sdk \<Rightarrow> (rat \<Rightarrow> string) \<Rightarrow> (jsval \<Rightarrow> string) \<Rightarrow> string \<Rightarrow> 'o \<Rightarrow> jsval \<Rightarrow>
   (submit_error + submit_result) \<times> 'o rpc list" where
  "signAndSubmit sdk nt stringify secret preparedTx escrowAddress =
     (if secret = [] then (Inl (submit_failed ''ESCROW_PLATFORM_SECRET is required for custodial signing mode.''), [])
      else (case fromSecret sdk secret of
          None \<Rightarrow> (Inl (submit_failed ''ESCROW_PLATFORM_SECRET is not a valid Stellar secret key.''), [])
        | Some keypair \<Rightarrow>
            let signed = sign sdk keypair preparedTx in
            (case sendTransaction sdk signed of
               Inl e \<Rightarrow> (Inl (OtherError e), [Send signed])
             | Inr response \<Rightarrow>
                 (if js_nullish response then Inl type_error
                  else if js_get response ''status'' = JStr ''ERROR''
                  then Inl (submit_failed (''Transaction submission failed: '' @ stringify (js_get response ''errorResult'')))
                  else Inr \<lparr>sr_status = ''submitted'', sr_escrowAddress = escrowAddress, sr_unsignedXdr = JNull,
                         sr_txHash = js_get response ''hash'',
                         sr_ledger = (if truthy (js_get response ''latestLedger'')
                                      then JStr (js_String nt (js_get response ''latestLedger'')) else JNull)\<rparr>,
                  [Send signed]))))"

text \<open>From the simulation on.\<close>

definition submit_built ::
  "'o sdk \<Rightarrow> (rat \<Rightarrow> string) \<Rightarrow> (jsval \<Rightarrow> string) \<Rightarrow> submit_env \<Rightarrow> string \<Rightarrow> jsval \<Rightarrow> 'o \<Rightarrow>
   (submit_error + submit_result) \<times> 'o rpc list" where
  "submit_built sdk nt stringify env mode escrowAddress tx =
     (case simulateTransaction sdk tx of
        Inl e \<Rightarrow> (Inl (OtherError e), [Simulate tx])
      | Inr simResult \<Rightarrow>
          if js_nullish simResult then (Inl type_error, [Simulate tx])
          else if truthy (js_get simResult ''error'')
          then (Inl (submit_failed (''Soroban simulation failed: '' @ js_String nt (js_get simResult ''error''))), [Simulate tx])
          else (case prepareTransaction sdk tx of
              Inl e \<Rightarrow> (Inl (OtherError e), [Simulate tx, Prepare tx])
            | Inr preparedTx \<Rightarrow>
                if mode = DELEGATED
                then (Inr \<lparr>sr_status = ''requires_signature'', sr_escrowAddress = escrowAddress,
                        sr_unsignedXdr = JStr (toXDR sdk preparedTx), sr_txHash = JNull, sr_ledger = JNull\<rparr>,
                      [Simulate tx, Prepare tx])
                else if mode = CUSTODIAL
                then (case signAndSubmit sdk nt stringify (es_ESCROW_PLATFORM_SECRET env) preparedTx escrowAddress of
                    (r, sent) \<Rightarrow> (r, [Simulate tx, Prepare tx] @ sent))
                else (Inl (submit_failed (''Unknown ESCROW_SIGNING_MODE: '' @ [CHR 34] @ mode @ [CHR 34])),
                      [Simulate tx, Prepare tx])))"

definition signing_mode :: "submit_env \<Rightarrow> string" where
  "signing_mode env = to_lower (if es_ESCROW_SIGNING_MODE env = [] then STUBBED else es_ESCROW_SIGNING_MODE env)"

definition submitFundEscrow ::
  "'o sdk \<Rightarrow> (rat \<Rightarrow> string) \<Rightarrow> (jsval \<Rightarrow> string) \<Rightarrow> submit_env \<Rightarrow> jsval \<Rightarrow> jsval \<Rightarrow> jsval \<Rightarrow> jsval \<Rightarrow> 'o submit_run" where
  "submitFundEscrow sdk nt stringify env escrowAddress investorAddress amountStroops invoiceId =
     (let mode = signing_mode env; platformAddress = es_ESCROW_PLATFORM_ADDRESS env in
      if mode = STUBBED then (Inr (stubbedResult escrowAddress), [], [])
      else if es_SOROBAN_RPC_URL env = [] then (Inl (submit_failed ''SOROBAN_RPC_URL is not configured.''), [], [])
      else if es_STELLAR_NETWORK_PASSPHRASE env = []
      then (Inl (submit_failed ''STELLAR_NETWORK_PASSPHRASE is not configured.''), [], [])
      else if platformAddress = [] then (Inl (submit_failed ''ESCROW_PLATFORM_ADDRESS is not configured.''), [], [])
      else (case newServer sdk (es_SOROBAN_RPC_URL env) of
          Some e \<Rightarrow> (Inl (OtherError e), [], [])
        | None \<Rightarrow>
            (case preflightContractExists sdk escrowAddress of
               (Some e, rpcs, rejected) \<Rightarrow> (Inl e, rpcs, rejected)
             | (None, rpcs, rejected) \<Rightarrow>
                 (case getAccount sdk platformAddress of
                    Inl e \<Rightarrow> (Inl (OtherError e), rpcs @ [GetAccount platformAddress], rejected)
                  | Inr sourceAccount \<Rightarrow>
                      (case fund_operation sdk nt escrowAddress investorAddress amountStroops of
                         Inl e \<Rightarrow> (Inl e, rpcs @ [GetAccount platformAddress], rejected)
                       | Inr operation \<Rightarrow>
                           (case build_tx sdk nt (es_STELLAR_NETWORK_PASSPHRASE env) invoiceId sourceAccount operation of
                              Inl e \<Rightarrow> (Inl e, rpcs @ [GetAccount platformAddress], rejected)
                            | Inr tx \<Rightarrow>
                                (case submit_built sdk nt stringify env mode escrowAddress tx of
                                   (r, rpcs') \<Rightarrow> (r, rpcs @ [GetAccount platformAddress] @ rpcs', rejected))))))))"

section \<open>What a submission is\<close>

text \<open>The transaction the request stands for: the call of \<open>fund_escrow\<close> on the escrow contract with
  the investor and the amount, of the platform account, with the memo of the invoice.\<close>

definition fund_tx ::
  "'o sdk \<Rightarrow> (rat \<Rightarrow> string) \<Rightarrow> submit_env \<Rightarrow> jsval \<Rightarrow> jsval \<Rightarrow> jsval \<Rightarrow> jsval \<Rightarrow> 'o \<Rightarrow> bool" where
  "fund_tx sdk nt env escrowAddress investorAddress amountStroops invoiceId tx \<longleftrightarrow>
     (\<exists>acct contract investor n amt op builder.
        getAccount sdk (es_ESCROW_PLATFORM_ADDRESS env) = Inr acct \<and>
        newContract sdk escrowAddress = Inr contract \<and> addressScVal sdk investorAddress = Inr investor \<and>
        js_BigInt nt amountStroops = Some n \<and> i128ScVal sdk n = Inr amt \<and>
        contractCall sdk contract ''fund_escrow'' [investor, amt] = Inr op \<and>
        newBuilder sdk acct (es_STELLAR_NETWORK_PASSPHRASE env) op = Inr builder \<and>
        utf8_length (''lq:'' @ js_String nt invoiceId) \<le> MEMO_MAX_BYTES \<and>
        finishTx sdk builder \<lparr>memo_type = ''text'', memo_value = ''lq:'' @ js_String nt invoiceId\<rparr> 180 = Inr tx)"

definition contract_deployed :: "'o sdk \<Rightarrow> jsval \<Rightarrow> 'o \<Rightarrow> bool" where
  "contract_deployed sdk escrowAddress k \<longleftrightarrow>
     contractCodeKey sdk escrowAddress = Some k \<and>
     (\<exists>response. getLedgerEntry sdk k = Inr response \<and> val_nonempty (js_get response ''val''))"

section \<open>Lemmas\<close>

lemma preflight_passes:
  "preflightContractExists sdk a = (None, rpcs, rej) \<Longrightarrow>
     rej = [] \<and> (\<exists>k. rpcs = [GetLedgerEntry k] \<and> contract_deployed sdk a k)"
  by (auto simp: preflightContractExists_def contract_deployed_def split: option.splits sum.splits if_splits)

lemma preflight_rejects:
  "preflightContractExists sdk a = (Some e, rpcs, rej) \<Longrightarrow>
     length rpcs \<le> 1 \<and> (\<forall>t. Send t \<notin> set rpcs) \<and> length rej = 1 \<and> (\<exists>m c s. e = EscrowSubmitError m (Some c) (Some s))"
  by (auto simp: preflightContractExists_def split: option.splits sum.splits if_splits)

lemma fund_operation_ok:
  "fund_operation sdk nt a i amount = Inr op \<Longrightarrow>
     \<exists>contract investor n amt. newContract sdk a = Inr contract \<and> addressScVal sdk i = Inr investor \<and>
       js_BigInt nt amount = Some n \<and> i128ScVal sdk n = Inr amt \<and>
       contractCall sdk contract ''fund_escrow'' [investor, amt] = Inr op"
  by (auto simp: fund_operation_def split: sum.splits option.splits)

lemma buildMemo_ok:
  "buildMemo nt i = Inr m \<longleftrightarrow>
     m = \<lparr>memo_type = ''text'', memo_value = ''lq:'' @ js_String nt i\<rparr> \<and>
     utf8_length (''lq:'' @ js_String nt i) \<le> MEMO_MAX_BYTES"
  by (auto simp: buildMemo_def Let_def)

lemma build_tx_ok:
  "build_tx sdk nt pp i acct op = Inr tx \<Longrightarrow>
     \<exists>builder. newBuilder sdk acct pp op = Inr builder \<and> utf8_length (''lq:'' @ js_String nt i) \<le> MEMO_MAX_BYTES \<and>
       finishTx sdk builder \<lparr>memo_type = ''text'', memo_value = ''lq:'' @ js_String nt i\<rparr> 180 = Inr tx"
  by (auto simp: build_tx_def buildMemo_ok split: sum.splits)

lemma signAndSubmit_cases:
  assumes "signAndSubmit sdk nt stringify secret p a = (r, sent)"
  obtains e where "r = Inl e" "sent = []"
  | kp where "secret \<noteq> []" "fromSecret sdk secret = Some kp" "sent = [Send (sign sdk kp p)]"
      "\<And>x. r = Inr x \<Longrightarrow> sr_status x = ''submitted'' \<and> sr_escrowAddress x = a \<and> sr_unsignedXdr x = JNull \<and>
        (\<exists>response. sendTransaction sdk (sign sdk kp p) = Inr response \<and>
           js_get response ''status'' \<noteq> JStr ''ERROR'' \<and> sr_txHash x = js_get response ''hash'')"
proof (cases "secret = [] \<or> fromSecret sdk secret = None")
  case True
  then show ?thesis using assms that(1) by (auto simp: signAndSubmit_def split: if_splits)
next
  case False
  then obtain kp where kp: "secret \<noteq> []" "fromSecret sdk secret = Some kp" by auto
  show ?thesis
    by (rule that(2)[OF kp])
      (use assms kp in \<open>auto simp: signAndSubmit_def Let_def split: sum.splits if_splits\<close>)
qed

text \<open>Where a run ends: before the transaction is simulated, or in \<^const>\<open>submit_built\<close>.\<close>

lemma submit_cases:
  assumes "submitFundEscrow sdk nt stringify env a i amount invId = (r, rpcs, rej)"
  obtains (stubbed) "signing_mode env = STUBBED" "r = Inr (stubbedResult a)" "rpcs = []" "rej = []"
  | (early) e where "signing_mode env \<noteq> STUBBED" "r = Inl e" "\<And>t. Send t \<notin> set rpcs"
      "rej \<noteq> [] \<Longrightarrow> length rpcs \<le> 1 \<and> (\<exists>m c s. e = EscrowSubmitError m (Some c) (Some s))"
  | (built) k tx rpcs' where "signing_mode env \<noteq> STUBBED" "rej = []" "contract_deployed sdk a k"
      "fund_tx sdk nt env a i amount invId tx"
      "submit_built sdk nt stringify env (signing_mode env) a tx = (r, rpcs')"
      "rpcs = [GetLedgerEntry k, GetAccount (es_ESCROW_PLATFORM_ADDRESS env)] @ rpcs'"
proof -
  let ?addr = "es_ESCROW_PLATFORM_ADDRESS env"
  consider (m) "signing_mode env = STUBBED"
    | (config) e where "signing_mode env \<noteq> STUBBED" "r = Inl e" "rpcs = []" "rej = []"
    | (pre) e where "signing_mode env \<noteq> STUBBED" "preflightContractExists sdk a = (Some e, rpcs, rej)" "r = Inl e"
    | (account) p e where "signing_mode env \<noteq> STUBBED" "preflightContractExists sdk a = (None, p, rej)" "r = Inl e"
        "rpcs = p @ [GetAccount ?addr]"
    | (tx) p acct op tx rpcs' where "signing_mode env \<noteq> STUBBED" "preflightContractExists sdk a = (None, p, rej)"
        "getAccount sdk ?addr = Inr acct" "fund_operation sdk nt a i amount = Inr op"
        "build_tx sdk nt (es_STELLAR_NETWORK_PASSPHRASE env) invId acct op = Inr tx"
        "submit_built sdk nt stringify env (signing_mode env) a tx = (r, rpcs')"
        "rpcs = p @ [GetAccount ?addr] @ rpcs'"
    using assms unfolding submitFundEscrow_def Let_def
    by (auto split: if_splits option.splits prod.splits sum.splits)
  then show thesis
  proof cases
    case m
    then show thesis using assms stubbed by (simp add: submitFundEscrow_def Let_def)
  next
    case (config e)
    then show thesis using early[of e] by simp
  next
    case (pre e)
    then show thesis using preflight_rejects[OF pre(2)] early[of e] by simp
  next
    case (account p e)
    then show thesis using preflight_passes[OF account(2)] early[of e] by auto
  next
    case (tx p acct op tx rpcs')
    from preflight_passes[OF tx(2)] obtain k where k: "rej = []" "p = [GetLedgerEntry k]" "contract_deployed sdk a k"
      by blast
    have "fund_tx sdk nt env a i amount invId tx"
      unfolding fund_tx_def using tx(3) fund_operation_ok[OF tx(4)] build_tx_ok[OF tx(5)] by blast
    then show thesis using built[OF tx(1) k(1,3) _ tx(6)] tx(7) k(2) by simp
  qed
qed

lemma submit_built_cases:
  assumes "submit_built sdk nt stringify env mode a tx = (r, rpcs)"
  obtains (failed) e where "r = Inl e" "\<And>t. Send t \<notin> set rpcs"
  | (delegated) p where "mode = DELEGATED" "prepareTransaction sdk tx = Inr p" "rpcs = [Simulate tx, Prepare tx]"
      "r = Inr \<lparr>sr_status = ''requires_signature'', sr_escrowAddress = a, sr_unsignedXdr = JStr (toXDR sdk p),
             sr_txHash = JNull, sr_ledger = JNull\<rparr>"
  | (custodial) p kp where "mode = CUSTODIAL" "prepareTransaction sdk tx = Inr p"
      "es_ESCROW_PLATFORM_SECRET env \<noteq> []"
      "fromSecret sdk (es_ESCROW_PLATFORM_SECRET env) = Some kp"
      "rpcs = [Simulate tx, Prepare tx, Send (sign sdk kp p)]"
      "\<And>x. r = Inr x \<Longrightarrow> sr_status x = ''submitted'' \<and> sr_escrowAddress x = a \<and> sr_unsignedXdr x = JNull \<and>
        (\<exists>response. sendTransaction sdk (sign sdk kp p) = Inr response \<and>
           js_get response ''status'' \<noteq> JStr ''ERROR'' \<and> sr_txHash x = js_get response ''hash'')"
proof -
  consider (f) e where "r = Inl e" "\<And>t. Send t \<notin> set rpcs"
    | (d) p where "mode = DELEGATED" "prepareTransaction sdk tx = Inr p" "rpcs = [Simulate tx, Prepare tx]"
        "r = Inr \<lparr>sr_status = ''requires_signature'', sr_escrowAddress = a, sr_unsignedXdr = JStr (toXDR sdk p),
               sr_txHash = JNull, sr_ledger = JNull\<rparr>"
    | (c) p sent where "mode = CUSTODIAL" "prepareTransaction sdk tx = Inr p"
        "signAndSubmit sdk nt stringify (es_ESCROW_PLATFORM_SECRET env) p a = (r, sent)"
        "rpcs = [Simulate tx, Prepare tx] @ sent"
    using assms unfolding submit_built_def by (auto split: sum.splits if_splits prod.splits)
  then show thesis
  proof cases
    case f
    then show thesis by (rule failed)
  next
    case d
    then show thesis by (rule delegated)
  next
    case (c p sent)
    show thesis
      by (rule signAndSubmit_cases[OF c(3)])
        (use c custodial[OF c(1,2)] failed in \<open>auto simp del: split_paired_All\<close>)
  qed
qed

text \<open>The secret matters only in the custodial mode, and there only through the keypair the SDK makes of
  it: neither results nor errors carry it. Two secrets the SDK refuses cannot be told apart.\<close>

lemma secret_confined:
  assumes "env' = env\<lparr>es_ESCROW_PLATFORM_SECRET := s\<rparr>"
    "signing_mode env \<noteq> CUSTODIAL \<or>
     es_ESCROW_PLATFORM_SECRET env \<noteq> [] \<and> s \<noteq> [] \<and> fromSecret sdk s = fromSecret sdk (es_ESCROW_PLATFORM_SECRET env)"
  shows "submitFundEscrow sdk nt stringify env' a i amount invId = submitFundEscrow sdk nt stringify env a i amount invId"
proof -
  have m: "signing_mode env' = signing_mode env" using assms(1) by (simp add: signing_mode_def)
  have f: "es_ESCROW_PLATFORM_ADDRESS env' = es_ESCROW_PLATFORM_ADDRESS env"
    "es_STELLAR_NETWORK_PASSPHRASE env' = es_STELLAR_NETWORK_PASSPHRASE env" "es_SOROBAN_RPC_URL env' = es_SOROBAN_RPC_URL env"
    using assms(1) by simp_all
  have b: "submit_built sdk nt stringify env' (signing_mode env) a tx = submit_built sdk nt stringify env (signing_mode env) a tx"
    for tx
    using assms by (auto simp: submit_built_def signAndSubmit_def split: sum.splits)
  show ?thesis unfolding submitFundEscrow_def Let_def m f b ..
qed

text \<open>Outside the stubbed mode an invoice whose memo is too long is never funded: nothing is sent, yet
  the account has been read.\<close>

lemma utf8_length_append [simp]: "utf8_length (s @ t) = utf8_length s + utf8_length t"
  by (simp add: utf8_length_def)

lemma utf8_length_ge: "length s \<le> utf8_length s"
  unfolding utf8_length_def by (induction s) auto

lemma long_invoice_not_submitted:
  assumes "signing_mode env \<noteq> STUBBED" "25 < length (js_String nt invId)"
    "submitFundEscrow sdk nt stringify env a i amount invId = (r, rpcs, rej)"
  shows "(\<exists>e. r = Inl e) \<and> (\<forall>t. Send t \<notin> set rpcs)"
  using assms(3)
proof (cases rule: submit_cases)
  case (built k tx rpcs')
  have "utf8_length ''lq:'' = 3" by code_simp
  then have "\<not> utf8_length (''lq:'' @ js_String nt invId) \<le> MEMO_MAX_BYTES"
    using utf8_length_ge[of "js_String nt invId"] assms(2) by (simp add: MEMO_MAX_BYTES_def del: append_Cons append_Nil)
  then show ?thesis using built(4) by (auto simp: fund_tx_def)
qed (use assms(1) in auto)

text \<open>A transaction is sent only at the end of a custodial run.\<close>

lemma sent_custodial:
  assumes "submitFundEscrow sdk nt stringify env a i amount invId = (r, rpcs, rej)" "Send t \<in> set rpcs"
  shows "signing_mode env = CUSTODIAL \<and>
      (\<exists>k tx p kp. contract_deployed sdk a k \<and> fund_tx sdk nt env a i amount invId tx \<and>
         prepareTransaction sdk tx = Inr p \<and> es_ESCROW_PLATFORM_SECRET env \<noteq> [] \<and>
         fromSecret sdk (es_ESCROW_PLATFORM_SECRET env) = Some kp \<and> t = sign sdk kp p \<and>
         rpcs = [GetLedgerEntry k, GetAccount (es_ESCROW_PLATFORM_ADDRESS env), Simulate tx, Prepare tx, Send t])"
  using assms(1)
proof (cases rule: submit_cases)
  case (built k tx rpcs')
  from built(5) show ?thesis
    by (cases rule: submit_built_cases) (use built assms(2) in auto)
qed (use assms(2) in auto)

text \<open>C6: capital moves only on the platform's own signature of the requested transaction. Whatever the
  SDK and the server answer, a transaction is sent at most once, as the last of the calls preflight,
  account, simulation, preparation; only in the custodial mode; after the contract was found on the
  ledger; and it is the prepared call of \<open>fund_escrow\<close> with the investor, the amount and the memo of
  the request, signed with the key of the configured secret. A returned result tells what happened:
  \<open>stubbed\<close> without any call, \<open>requires_signature\<close> with the prepared transaction and nothing sent,
  \<open>submitted\<close> with the hash of an answer that is no error. A run that the preflight rejects made at
  most one call and fails with a code and a status.\<close>
theorem escrow_submission_sound:
  assumes "submitFundEscrow sdk nt stringify env a i amount invId = (r, rpcs, rej)"
  shows "(\<forall>t. Send t \<in> set rpcs \<longrightarrow>
      signing_mode env = CUSTODIAL \<and>
      (\<exists>k tx p kp. contract_deployed sdk a k \<and> fund_tx sdk nt env a i amount invId tx \<and>
         prepareTransaction sdk tx = Inr p \<and> es_ESCROW_PLATFORM_SECRET env \<noteq> [] \<and>
         fromSecret sdk (es_ESCROW_PLATFORM_SECRET env) = Some kp \<and> t = sign sdk kp p \<and>
         rpcs = [GetLedgerEntry k, GetAccount (es_ESCROW_PLATFORM_ADDRESS env), Simulate tx, Prepare tx, Send t])) \<and>
    (\<forall>x. r = Inr x \<longrightarrow> sr_escrowAddress x = a \<and>
      (sr_status x = ''stubbed'' \<and> signing_mode env = STUBBED \<and> rpcs = [] \<or>
       sr_status x = ''requires_signature'' \<and> signing_mode env = DELEGATED \<and> (\<forall>t. Send t \<notin> set rpcs) \<and>
         (\<exists>tx p. fund_tx sdk nt env a i amount invId tx \<and> prepareTransaction sdk tx = Inr p \<and>
            sr_unsignedXdr x = JStr (toXDR sdk p)) \<or>
       sr_status x = ''submitted'' \<and> signing_mode env = CUSTODIAL \<and>
         (\<exists>t response. Send t \<in> set rpcs \<and> sendTransaction sdk t = Inr response \<and>
            js_get response ''status'' \<noteq> JStr ''ERROR'' \<and> sr_txHash x = js_get response ''hash''))) \<and>
    (rej \<noteq> [] \<longrightarrow> length rpcs \<le> 1 \<and> (\<exists>m c s. r = Inl (EscrowSubmitError m (Some c) (Some s))))"
proof (intro conjI)
  show "rej \<noteq> [] \<longrightarrow> length rpcs \<le> 1 \<and> (\<exists>m c s. r = Inl (EscrowSubmitError m (Some c) (Some s)))"
    using assms by (cases rule: submit_cases) auto
  show "\<forall>x. r = Inr x \<longrightarrow> sr_escrowAddress x = a \<and>
      (sr_status x = ''stubbed'' \<and> signing_mode env = STUBBED \<and> rpcs = [] \<or>
       sr_status x = ''requires_signature'' \<and> signing_mode env = DELEGATED \<and> (\<forall>t. Send t \<notin> set rpcs) \<and>
         (\<exists>tx p. fund_tx sdk nt env a i amount invId tx \<and> prepareTransaction sdk tx = Inr p \<and>
            sr_unsignedXdr x = JStr (toXDR sdk p)) \<or>
       sr_status x = ''submitted'' \<and> signing_mode env = CUSTODIAL \<and>
         (\<exists>t response. Send t \<in> set rpcs \<and> sendTransaction sdk t = Inr response \<and>
            js_get response ''status'' \<noteq> JStr ''ERROR'' \<and> sr_txHash x = js_get response ''hash''))"
    using assms
  proof (cases rule: submit_cases)
    case stubbed
    then show ?thesis by (simp add: stubbedResult_def STUBBED_def)
  next
    case (built k tx rpcs')
    from built(5) show ?thesis by (cases rule: submit_built_cases) (use built in auto)
  qed simp
qed (use sent_custodial[OF assms] in blast)

definition sample_sdk :: "string sdk" where
  "sample_sdk =
     \<lparr>newServer = (\<lambda>_. None), contractCodeKey = (\<lambda>_. Some ''key''), getLedgerEntry = (\<lambda>_. Inr (JObj [(''val'', JStr ''wasm'')])),
      getAccount = (\<lambda>s. Inr s), newContract = (\<lambda>_. Inr ''contract''), addressScVal = (\<lambda>_. Inr ''investor''),
      i128ScVal = (\<lambda>n. Inr (show_int n)), contractCall = (\<lambda>c f args. Inr (c @ f @ concat args)),
      newBuilder = (\<lambda>acct pp op. Inr (acct @ op)), finishTx = (\<lambda>b m t. Inr (b @ memo_value m)),
      simulateTransaction = (\<lambda>_. Inr (JObj [])), prepareTransaction = (\<lambda>tx. Inr (''prepared:'' @ tx)),
      toXDR = (\<lambda>tx. tx), fromSecret = (\<lambda>s. Some s), sign = (\<lambda>kp tx. kp @ '':'' @ tx),
      sendTransaction = (\<lambda>tx. Inr (JObj [(''status'', JStr ''PENDING''), (''hash'', JStr ''h1'')]))\<rparr>"

definition sample_submit_env :: submit_env where
  "sample_submit_env =
     \<lparr>es_ESCROW_SIGNING_MODE = ''custodial'', es_SOROBAN_RPC_URL = ''https://rpc'', es_STELLAR_NETWORK_PASSPHRASE = ''Test'',
      es_ESCROW_PLATFORM_ADDRESS = ''GP'', es_ESCROW_PLATFORM_SECRET = ''S1''\<rparr>"

lemma sample_submission:
  "submitFundEscrow sample_sdk (\<lambda>_. []) (\<lambda>_. []) sample_submit_env (JStr ''C1'') (JStr ''G1'') (JStr ''500'')
     (JStr ''inv_1'') =
   (Inr \<lparr>sr_status = ''submitted'', sr_escrowAddress = JStr ''C1'', sr_unsignedXdr = JNull, sr_txHash = JStr ''h1'',
       sr_ledger = JNull\<rparr>,
    [GetLedgerEntry ''key'', GetAccount ''GP'', Simulate ''GPcontractfund_escrowinvestor500lq:inv_1'',
     Prepare ''GPcontractfund_escrowinvestor500lq:inv_1'',
     Send ''S1:prepared:GPcontractfund_escrowinvestor500lq:inv_1''], [])"
  by code_simp

theorem escrow_submission_sound_witness:
  "signing_mode sample_submit_env = CUSTODIAL \<and>
   (\<exists>tx. fund_tx sample_sdk (\<lambda>_. []) sample_submit_env (JStr ''C1'') (JStr ''G1'') (JStr ''500'') (JStr ''inv_1'') tx)"
  using escrow_submission_sound[OF sample_submission] by auto

end
