(* ===== verification/FundRoute.thy ===== *)
theory FundRoute
  imports EscrowSubmit EscrowRead EscrowMap Commitment Invest
begin

text \<open>
  The funding route: \<open>src/src/routes/invest.js\<close>. Validation of the request, the legal hold gate,
  the address of the escrow, the submission of the transaction and the record of the commitment, in the
  order of the handler; and the listing of opportunities.

  The handler awaits a promise that is resolved only when the gate passes the request on. When the gate
  answers itself the promise stays pending: \<open>FundGateBlocked\<close> is the answer of the gate, with the handler
  never returning. \<open>FundRaised\<close> is an error passed to the error handler of the application.
\<close>

section \<open>Validation\<close>

definition invoice_id_char :: "char \<Rightarrow> bool" where
  "invoice_id_char c \<longleftrightarrow> is_alnum c \<or> c = CHR ''_'' \<or> c = CHR ''-''"

definition INVOICE_ID_RE :: "string \<Rightarrow> bool" where
  "INVOICE_ID_RE s \<longleftrightarrow> list_all invoice_id_char s \<and> 3 \<le> length s \<and> length s \<le> 64"

definition positive_integer :: "jsnum \<Rightarrow> bool" where
  "positive_integer n = (case n of NFin q \<Rightarrow> is_integer_rat q \<and> 0 < q | _ \<Rightarrow> False)"

text \<open>\<open>RegExp.test\<close> converts its argument to a string.\<close>

definition validateFundInvoiceBody ::
  "(rat \<Rightarrow> string) \<Rightarrow> (string \<Rightarrow> bool) \<Rightarrow> (string \<Rightarrow> bool) \<Rightarrow> jsval \<Rightarrow> string list" where
  "validateFundInvoiceBody nt pk ct body =
     (case body of
        JObj _ \<Rightarrow>
          let invoiceId = js_get body ''invoiceId''; investorAddress = js_get body ''investorAddress'';
              amountStroops = js_get body ''amountStroops''
          in (if \<not> truthy invoiceId \<or> \<not> INVOICE_ID_RE (js_String nt invoiceId)
              then [''invoiceId must be an alphanumeric string (3-64 chars, hyphens/underscores allowed).''] else []) @
             (if \<not> truthy investorAddress \<or> \<not> isValidStellarAddress pk ct investorAddress
              then [''investorAddress must be a valid Stellar public key (G... or C...).''] else []) @
             (if \<not> truthy amountStroops \<or> \<not> positive_integer (to_number amountStroops)
              then [''amountStroops must be a positive integer representing the fund amount in stroops.''] else [])
      | _ \<Rightarrow> [''Request body must be a JSON object.''])"

section \<open>The handler\<close>

record 'o fund_io =
  fi_sdk :: "'o sdk"
  fi_nt :: "rat \<Rightarrow> string"
  fi_stringify :: "jsval \<Rightarrow> string"
  fi_env :: submit_env
  fi_pk :: "string \<Rightarrow> bool"
  fi_ct :: "string \<Rightarrow> bool"
  fi_parse :: "string \<Rightarrow> string + jsval"
  fi_valid :: "jsval \<Rightarrow> bool"
  fi_process_env :: process_env
  fi_sha256 :: "string \<Rightarrow> string"

datatype fund_response = FundJson int jsval | FundGateBlocked int string | FundRaised

record 'o fund_run =
  fr_response :: fund_response
  fr_rpcs :: "'o rpc list"
  fr_rejected :: "string list"
  fr_cache :: "map_cache option"
  fr_table :: table

definition fund_error :: "string \<Rightarrow> string \<Rightarrow> (string \<times> jsval) list \<Rightarrow> bool \<Rightarrow> jsval" where
  "fund_error cd m details again =
     JObj [(''error'', JObj ([(''code'', JStr cd), (''message'', JStr m)] @ details @ [(''retryable'', JBool again)]))]"

definition fund_key :: "'o fund_io \<Rightarrow> jsval \<Rightarrow> string" where
  "fund_key io body =
     fi_sha256 io (js_String (fi_nt io) (js_get body ''investorAddress'') @ '':'' @ js_String (fi_nt io) (js_get body ''invoiceId'') @
       '':'' @ js_String (fi_nt io) (js_get body ''amountStroops''))"

definition fund_params :: "'o fund_io \<Rightarrow> jsval \<Rightarrow> jsval \<Rightarrow> submit_result \<Rightarrow> commitment_params" where
  "fund_params io body escrowAddress sr =
     \<lparr>cp_invoiceId = js_get body ''invoiceId'', cp_investorAddress = js_get body ''investorAddress'',
      cp_escrowAddress = escrowAddress, cp_amountStroops = JStr (js_String (fi_nt io) (js_get body ''amountStroops'')),
      cp_status = JStr (sr_status sr), cp_unsignedXdr = sr_unsignedXdr sr, cp_txHash = sr_txHash sr, cp_ledger = sr_ledger sr,
      cp_idempotencyKey = JStr (fund_key io body)\<rparr>"

definition if_truthy :: "string \<Rightarrow> jsval \<Rightarrow> (string \<times> jsval) list" where
  "if_truthy k v = (if truthy v then [(k, v)] else [])"

definition fund_json :: "jsval \<Rightarrow> jsval \<Rightarrow> submit_result \<Rightarrow> row \<Rightarrow> jsval" where
  "fund_json body escrowAddress sr commitment =
     JObj ([(''commitmentId'', col ''id'' commitment), (''invoiceId'', js_get body ''invoiceId''),
            (''escrowAddress'', escrowAddress), (''status'', JStr (sr_status sr))] @
           if_truthy ''unsignedXdr'' (sr_unsignedXdr sr) @ if_truthy ''txHash'' (sr_txHash sr) @ if_truthy ''ledger'' (sr_ledger sr))"

text \<open>\<open>hold\<close> is the outcome of the contract call that reads the legal hold; the route has no
  parameter \<open>invoiceId\<close>.\<close>

definition postFundInvoice ::
  "'o fund_io \<Rightarrow> time \<Rightarrow> jsval + jsval \<Rightarrow> (table \<Rightarrow> row \<Rightarrow> bool) \<Rightarrow> string \<Rightarrow> jsval \<Rightarrow> map_cache option \<Rightarrow> table \<Rightarrow> 'o fund_run" where
  "postFundInvoice io now hold accepts newId body c t =
     (let errs = validateFundInvoiceBody (fi_nt io) (fi_pk io) (fi_ct io) body; invoiceId = js_get body ''invoiceId'';
          amountText = js_String (fi_nt io) (js_get body ''amountStroops'') in
      if errs \<noteq> []
      then \<lparr>fr_response = FundJson 400 (fund_error ''VALIDATION_ERROR'' (hd errs) [(''details'', JArr (map JStr errs))] False),
            fr_rpcs = [], fr_rejected = [], fr_cache = c, fr_table = t\<rparr>
      else (case legalHoldGate JUndef invoiceId (Service hold) of
          Problem st title \<Rightarrow> \<lparr>fr_response = FundGateBlocked st title, fr_rpcs = [], fr_rejected = [], fr_cache = c, fr_table = t\<rparr>
        | Next \<Rightarrow>
            (case resolveEscrowAddress (fi_parse io) (fi_valid io) (fi_process_env io) now invoiceId c of
               (Inl (EscrowNotFoundError _), c') \<Rightarrow>
                 \<lparr>fr_response = FundJson 422 (fund_error ''ESCROW_NOT_FOUND''
                    (''No escrow contract is configured for invoice: '' @ js_String (fi_nt io) invoiceId) [] False),
                  fr_rpcs = [], fr_rejected = [], fr_cache = c', fr_table = t\<rparr>
             | (Inl _, c') \<Rightarrow> \<lparr>fr_response = FundRaised, fr_rpcs = [], fr_rejected = [], fr_cache = c', fr_table = t\<rparr>
             | (Inr escrowAddress, c') \<Rightarrow>
                 (case submitFundEscrow (fi_sdk io) (fi_nt io) (fi_stringify io) (fi_env io) escrowAddress
                         (js_get body ''investorAddress'') (JStr amountText) invoiceId of
                    (Inl (EscrowSubmitError _ _ _), rpcs, rej) \<Rightarrow>
                      \<lparr>fr_response = FundJson 502 (fund_error ''ESCROW_SUBMIT_FAILED''
                         ''Failed to prepare the escrow transaction. Please try again.'' [] True),
                       fr_rpcs = rpcs, fr_rejected = rej, fr_cache = c', fr_table = t\<rparr>
                  | (Inl (OtherError _), rpcs, rej) \<Rightarrow>
                      \<lparr>fr_response = FundRaised, fr_rpcs = rpcs, fr_rejected = rej, fr_cache = c', fr_table = t\<rparr>
                  | (Inr sr, rpcs, rej) \<Rightarrow>
                      (case persistCommitment (fi_pk io) (fi_ct io) accepts newId now (fund_params io body escrowAddress sr) t of
                         (Inl _, t') \<Rightarrow> \<lparr>fr_response = FundRaised, fr_rpcs = rpcs, fr_rejected = rej, fr_cache = c', fr_table = t'\<rparr>
                       | (Inr commitment, t') \<Rightarrow>
                           \<lparr>fr_response = FundJson 200 (fund_json body escrowAddress sr commitment),
                            fr_rpcs = rpcs, fr_rejected = rej, fr_cache = c', fr_table = t'\<rparr>)))))"

section \<open>Opportunities\<close>

definition getOpportunitiesRoute ::
  "(jsval \<Rightarrow> string option) \<Rightarrow> (jsval \<Rightarrow> escrow_map_error + jsval) \<Rightarrow> batch_reader \<Rightarrow> string \<Rightarrow> jsval \<Rightarrow> table \<Rightarrow>
   invest_error + invest_page \<times> jsval list" where
  "getOpportunitiesRoute toISO resolve batchRead tenantId query t =
     (let num = (\<lambda>v d. if truthy v then (case parse_int v of Some n \<Rightarrow> JInt n | None \<Rightarrow> JNum NNaN) else JInt d)
      in listOpportunities toISO resolve batchRead tenantId (num (js_get query ''page'') 1) (num (js_get query ''limit'') 20) t)"

section \<open>Lemmas\<close>

text \<open>What the gate lets through.\<close>

lemma gate_next:
  assumes "legalHoldGate JUndef v (Service hold) = Next"
  shows "\<exists>s h. v = JStr s \<and> hold = Inr h \<and> h \<notin> {JBool True, JInt 1, JStr ''true''}"
proof -
  obtain s where s: "v = JStr s" "trim s \<noteq> []"
    using assms by (cases v) (auto simp: legalHoldGate_def split: if_splits)
  then have "(if truthy JUndef then JUndef else v) = JStr s" by simp
  from gate_service[OF this s(2), of hold] assms show ?thesis
    using s(1) by (cases hold) (auto split: if_splits)
qed

text \<open>What a request is when the handler gets as far as the submission.\<close>

definition fund_admitted ::
  "'o fund_io \<Rightarrow> time \<Rightarrow> jsval + jsval \<Rightarrow> jsval \<Rightarrow> map_cache option \<Rightarrow> jsval \<Rightarrow> map_cache option \<Rightarrow> bool" where
  "fund_admitted io now hold body c escrowAddress c' \<longleftrightarrow>
     validateFundInvoiceBody (fi_nt io) (fi_pk io) (fi_ct io) body = [] \<and>
     legalHoldGate JUndef (js_get body ''invoiceId'') (Service hold) = Next \<and>
     resolveEscrowAddress (fi_parse io) (fi_valid io) (fi_process_env io) now (js_get body ''invoiceId'') c = (Inr escrowAddress, c')"

lemma fund_cases:
  assumes "run = postFundInvoice io now hold accepts newId body c t"
  obtains (refused) "fr_rpcs run = []" "fr_table run = t" "\<And>j. fr_response run \<noteq> FundJson 200 j"
  | (failed) a c' e rpcs rej where "fund_admitted io now hold body c a c'"
      "submitFundEscrow (fi_sdk io) (fi_nt io) (fi_stringify io) (fi_env io) a (js_get body ''investorAddress'')
         (JStr (js_String (fi_nt io) (js_get body ''amountStroops''))) (js_get body ''invoiceId'') = (Inl e, rpcs, rej)"
      "fr_rpcs run = rpcs" "fr_table run = t" "\<And>j. fr_response run \<noteq> FundJson 200 j"
  | (submitted) a c' sr rpcs rej res t' where "fund_admitted io now hold body c a c'"
      "submitFundEscrow (fi_sdk io) (fi_nt io) (fi_stringify io) (fi_env io) a (js_get body ''investorAddress'')
         (JStr (js_String (fi_nt io) (js_get body ''amountStroops''))) (js_get body ''invoiceId'') = (Inr sr, rpcs, rej)"
      "persistCommitment (fi_pk io) (fi_ct io) accepts newId now (fund_params io body a sr) t = (res, t')"
      "fr_rpcs run = rpcs" "fr_table run = t'"
      "fr_response run = (case res of Inl _ \<Rightarrow> FundRaised | Inr r \<Rightarrow> FundJson 200 (fund_json body a sr r))"
proof (cases "validateFundInvoiceBody (fi_nt io) (fi_pk io) (fi_ct io) body = [] \<and>
     legalHoldGate JUndef (js_get body ''invoiceId'') (Service hold) = Next")
  case False
  then show ?thesis using refused unfolding assms postFundInvoice_def Let_def
    by (auto split: gate_result.splits)
next
  case ok: True
  obtain ra c' where ra: "resolveEscrowAddress (fi_parse io) (fi_valid io) (fi_process_env io) now (js_get body ''invoiceId'') c = (ra, c')"
    by fastforce
  show ?thesis
  proof (cases ra)
    case (Inl e)
    show ?thesis
      by (rule refused) (cases e; simp add: assms postFundInvoice_def ok ra Inl)+
  next
    case (Inr a)
    have adm: "fund_admitted io now hold body c a c'" using ok ra Inr by (simp add: fund_admitted_def)
    obtain r rpcs rej where sub: "submitFundEscrow (fi_sdk io) (fi_nt io) (fi_stringify io) (fi_env io) a
        (js_get body ''investorAddress'') (JStr (js_String (fi_nt io) (js_get body ''amountStroops''))) (js_get body ''invoiceId'') =
        (r, rpcs, rej)" by (metis prod_cases3)
    show ?thesis
    proof (cases r)
      case (Inl e)
      show ?thesis
        by (rule failed[OF adm sub[unfolded Inl]]) (cases e; simp add: assms postFundInvoice_def ok ra \<open>ra = Inr a\<close> sub Inl)+
    next
      case sr: (Inr sr)
      obtain res t' where p: "persistCommitment (fi_pk io) (fi_ct io) accepts newId now (fund_params io body a sr) t = (res, t')"
        by fastforce
      show ?thesis
        by (rule submitted[OF adm sub[unfolded sr] p])
          (cases res; simp add: assms postFundInvoice_def ok ra \<open>ra = Inr a\<close> sub sr p)+
    qed
  qed
qed

lemma fund_params_key [simp]: "cp_idempotencyKey (fund_params io body a sr) = JStr (fund_key io body)"
  by (simp add: fund_params_def)

lemma persist_outcome:
  assumes "persistCommitment pk ct accepts newId now p t = (res, t')"
  shows "(case res of
       Inl _ \<Rightarrow> t' = t
     | Inr r \<Rightarrow> col ''idempotency_key'' r = cp_idempotencyKey p \<and>
         (t' = t \<and> r \<in> set t \<or> r = commitment_row newId now p \<and> t' = t @ [r]))"
  using assms
  by (auto simp: persistCommitment_def idempotent_lookup_def insert_commitment_def Let_def commitment_row_def col_def
      dest: find_SomeD split: option.splits if_splits)

text \<open>Whether a transaction is sent does not depend on what has been recorded: the deterministic key of
  the commitment is looked up only after the submission, so a repeated request sends again.\<close>

lemma record_does_not_prevent_sending:
  "fr_rpcs (postFundInvoice io now hold accepts newId body c t) = fr_rpcs (postFundInvoice io now hold accepts newId body c t')"
  unfolding postFundInvoice_def Let_def
  by (auto split: gate_result.splits prod.splits sum.splits escrow_map_error.splits submit_error.splits)

text \<open>C3: a request to fund an invoice moves capital only when it may, and is answered with success only
  when it is recorded. A transaction is sent only if the body is valid, the legal hold of the invoice
  was read and is not set, and the invoice is mapped to an escrow contract that exists; it is then the
  call of \<open>fund_escrow\<close> on that contract with the investor and the amount of the request. An answer
  200 names a commitment of the table with the key of this request, either an earlier one or the one
  appended with the invoice, investor, amount and transaction of this request. No other answer changes
  the table.\<close>
theorem fund_invoice_sound:
  assumes "run = postFundInvoice io now hold accepts newId body c t"
  shows "(\<forall>s. Send s \<in> set (fr_rpcs run) \<longrightarrow>
      (\<exists>h. hold = Inr h \<and> h \<notin> {JBool True, JInt 1, JStr ''true''}) \<and>
      (\<exists>a c' k tx p kp. fund_admitted io now hold body c a c' \<and> signing_mode (fi_env io) = CUSTODIAL \<and>
         contract_deployed (fi_sdk io) a k \<and>
         fund_tx (fi_sdk io) (fi_nt io) (fi_env io) a (js_get body ''investorAddress'')
           (JStr (js_String (fi_nt io) (js_get body ''amountStroops''))) (js_get body ''invoiceId'') tx \<and>
         prepareTransaction (fi_sdk io) tx = Inr p \<and> s = sign (fi_sdk io) kp p)) \<and>
    (\<forall>j. fr_response run = FundJson 200 j \<longrightarrow>
      (\<exists>r a c' sr. r \<in> set (fr_table run) \<and> fund_admitted io now hold body c a c' \<and> j = fund_json body a sr r \<and>
         col ''idempotency_key'' r = JStr (fund_key io body) \<and>
         (fr_table run = t \<and> r \<in> set t \<or>
          fr_table run = t @ [r] \<and> r = commitment_row newId now (fund_params io body a sr)))) \<and>
    ((\<forall>j. fr_response run \<noteq> FundJson 200 j) \<longrightarrow> fr_table run = t)"
  using assms
proof (cases rule: fund_cases)
  case refused
  then show ?thesis by simp
next
  case (failed a c' e rpcs rej)
  then show ?thesis using sent_custodial[OF failed(2)] gate_next[of "js_get body ''invoiceId''" hold]
    by (fastforce simp: fund_admitted_def)
next
  case (submitted a c' sr rpcs rej res t')
  note sent = sent_custodial[OF submitted(2)] and rec = persist_outcome[OF submitted(3)]
  have g: "\<exists>h. hold = Inr h \<and> h \<notin> {JBool True, JInt 1, JStr ''true''}"
    using submitted(1) gate_next[of "js_get body ''invoiceId''" hold] by (auto simp: fund_admitted_def)
  show ?thesis
  proof (cases res)
    case (Inl e)
    then show ?thesis using sent g submitted rec by fastforce
  next
    case (Inr r)
    have "r \<in> set t'" using rec Inr by auto
    then show ?thesis using sent g submitted rec Inr by fastforce
  qed
qed

definition sample_fund_io :: "string fund_io" where
  "sample_fund_io =
     \<lparr>fi_sdk = sample_sdk, fi_nt = (\<lambda>_. []), fi_stringify = (\<lambda>_. []), fi_env = sample_submit_env,
      fi_pk = (\<lambda>s. s = ''G1''), fi_ct = (\<lambda>s. s = ''C1''),
      fi_parse = (\<lambda>_. Inr (JObj [(''mappings'', JArr [JObj [(''invoiceId'', JStr ''inv_1''), (''escrowAddress'', JStr ''C1''),
         (''environment'', JStr ''development'')]])])),
      fi_valid = (\<lambda>v. v = JStr ''C1''),
      fi_process_env = \<lparr>ESCROW_ADDR_BY_INVOICE = ''map'', NODE_ENV = ''development''\<rparr>, fi_sha256 = (\<lambda>s. s)\<rparr>"

definition sample_fund_body :: "string \<Rightarrow> jsval" where
  "sample_fund_body amount =
     JObj [(''invoiceId'', JStr ''inv_1''), (''investorAddress'', JStr ''G1''), (''amountStroops'', JStr amount)]"

definition sample_fund_run :: "string \<Rightarrow> table \<Rightarrow> string fund_run" where
  "sample_fund_run amount t =
     postFundInvoice sample_fund_io 0 (Inr (JBool False)) (\<lambda>_ _. True) ''c1'' (sample_fund_body amount) None t"

lemma sample_fund_io_fields [simp]:
  "fi_sdk sample_fund_io = sample_sdk" "fi_env sample_fund_io = sample_submit_env" "fi_nt sample_fund_io = (\<lambda>_. [])"
  "fi_stringify sample_fund_io = (\<lambda>_. [])"
  by (simp_all add: sample_fund_io_def)

lemma sample_fund_body_fields [simp]:
  "js_get (sample_fund_body n) ''investorAddress'' = JStr ''G1''" "js_get (sample_fund_body n) ''invoiceId'' = JStr ''inv_1''"
  "js_get (sample_fund_body n) ''amountStroops'' = JStr n"
  by (simp_all add: sample_fund_body_def)

lemma sample_admitted:
  "\<exists>c'. fund_admitted sample_fund_io 0 (Inr (JBool False)) (sample_fund_body ''500'') None (JStr ''C1'') c'"
proof -
  have "validateFundInvoiceBody (\<lambda>_. []) (fi_pk sample_fund_io) (fi_ct sample_fund_io) (sample_fund_body ''500'') = []"
    "legalHoldGate JUndef (JStr ''inv_1'') (Service (Inr (JBool False))) = Next"
    "fst (resolveEscrowAddress (fi_parse sample_fund_io) (fi_valid sample_fund_io) (fi_process_env sample_fund_io) 0
       (JStr ''inv_1'') None) = Inr (JStr ''C1'')"
    by code_simp+
  then show ?thesis by (simp add: fund_admitted_def) (metis prod.collapse)
qed

lemma sample_fund_params_valid:
  "validate_params (fi_pk sample_fund_io) (fi_ct sample_fund_io) (fund_params sample_fund_io (sample_fund_body ''500'') a sr) = None"
proof -
  have "digits_val ''500'' = 500" "all_digits ''500''"
    "validateAddress (fi_pk sample_fund_io) (fi_ct sample_fund_io) (JStr ''G1'') = None" by code_simp+
  then show ?thesis by (simp add: validate_params_def fund_params_def validateAmountStroops_def MAX_STROOP_AMOUNT_def)
qed

lemma sample_fund_run_500:
  "Send ''S1:prepared:GPcontractfund_escrowinvestor500lq:inv_1'' \<in> set (fr_rpcs (sample_fund_run ''500'' t)) \<and>
   (\<exists>j. fr_response (sample_fund_run ''500'' t) = FundJson 200 j)"
proof -
  from sample_admitted obtain c' where "fund_admitted sample_fund_io 0 (Inr (JBool False)) (sample_fund_body ''500'') None (JStr ''C1'') c'"
    by blast
  then show ?thesis
    by (auto simp: sample_fund_run_def postFundInvoice_def fund_admitted_def sample_submission persistCommitment_def
        sample_fund_params_valid insert_commitment_def Let_def split: option.split)
qed

theorem fund_invoice_sound_witness:
  "(\<exists>a c' k tx. fund_admitted sample_fund_io 0 (Inr (JBool False)) (sample_fund_body ''500'') None a c' \<and>
     contract_deployed sample_sdk a k \<and>
     fund_tx sample_sdk (\<lambda>_. []) sample_submit_env a (JStr ''G1'') (JStr ''500'') (JStr ''inv_1'') tx) \<and>
   length (fr_table (sample_fund_run ''500'' [])) = 1"
  using fund_invoice_sound[OF sample_fund_run_def[of "''500''" "[]"]] sample_fund_run_500[of "[]"] by fastforce

text \<open>The amount is validated with \<open>Number\<close>, converted with \<open>BigInt\<close> and checked again when the commitment
  is recorded. A hexadecimal amount passes the first two and fails the third: the transaction is sent, the
  request fails and no commitment exists. An amount in exponent notation passes the first only and is
  answered as an internal error.\<close>

lemma sent_but_not_recorded:
  "fr_rpcs (sample_fund_run ''0x10'' []) \<noteq> [] \<and>
   last (fr_rpcs (sample_fund_run ''0x10'' [])) = Send ''S1:prepared:GPcontractfund_escrowinvestor16lq:inv_1'' \<and>
   fr_response (sample_fund_run ''0x10'' []) = FundRaised \<and> fr_table (sample_fund_run ''0x10'' []) = []"
  by code_simp

lemma exponent_amount_raises:
  "validateFundInvoiceBody (\<lambda>_. []) (\<lambda>_. True) (\<lambda>_. True) (sample_fund_body ''1e3'') = [] \<and>
   fr_response (sample_fund_run ''1e3'' []) = FundRaised"
  by code_simp

text \<open>A repeated request sends a second transaction, while the table keeps one commitment.\<close>

lemma repeated_request_sends_again:
  assumes "t = fr_table (sample_fund_run ''500'' [])"
  shows "Send ''S1:prepared:GPcontractfund_escrowinvestor500lq:inv_1'' \<in> set (fr_rpcs (sample_fund_run ''500'' t)) \<and>
    fr_table (sample_fund_run ''500'' t) = t"
proof -
  from sample_admitted obtain c' where "fund_admitted sample_fund_io 0 (Inr (JBool False)) (sample_fund_body ''500'') None (JStr ''C1'') c'"
    by blast
  moreover have key: "fund_key sample_fund_io (sample_fund_body ''500'') \<noteq> []" by code_simp
  ultimately show ?thesis unfolding assms
    by (simp add: sample_fund_run_def postFundInvoice_def fund_admitted_def sample_submission persistCommitment_def
        sample_fund_params_valid insert_commitment_def Let_def idempotent_lookup_def key)
qed

text \<open>Identifiers of 26 to 64 characters are valid for the route but too long for the memo.\<close>

lemma long_invoice_never_funded:
  assumes "signing_mode (fi_env io) \<noteq> STUBBED" "js_get body ''invoiceId'' = JStr i" "25 < length i"
  shows "fr_response (postFundInvoice io now hold accepts newId body c t) \<noteq> FundJson 200 j"
proof (cases rule: fund_cases[OF refl, of io now hold accepts newId body c t])
  case (3 a c' sr rpcs rej res t')
  from 3(2) show ?thesis unfolding assms(2)
    using long_invoice_not_submitted[of "fi_env io" "fi_nt io" "JStr i"] assms(1,3) by (metis Inl_Inr_False js_String.simps(1))
qed auto

end
