(* ===== verification/ContractRefresh.thy ===== *)
theory ContractRefresh
  imports EscrowSubmit EscrowRead Commitment
begin

text \<open>
  The version of the deployed escrow contract: \<open>src/src/config/escrowVersions.js\<close>, the refresh job
  \<open>src/src/jobs/contractListRefresh.js\<close> and the administration routes
  \<open>src/src/routes/adminEscrow.js\<close>.

  A read of the ledger is an argument: its entries, each decoded by the SDK to a version or an error. The
  operator alerts are the list of what the metric and the log are given; the map of alerted mismatches
  is an insertion-ordered map.
\<close>

section \<open>Registry and comparison\<close>

definition REGISTRY :: "(string \<times> nat) list" where
  "REGISTRY = [(''1.0.0'', 1), (''1.1.0'', 2), (''1.2.0'', 3)]"

datatype version_status = VCurrent | VAhead | VUnknown

definition status_text :: "version_status \<Rightarrow> string" where
  "status_text s = (case s of VCurrent \<Rightarrow> ''current'' | VAhead \<Rightarrow> ''ahead'' | VUnknown \<Rightarrow> ''unknown'')"

definition max_entry :: "string \<times> nat \<Rightarrow> (string \<times> nat) list \<Rightarrow> string \<times> nat" where
  "max_entry e es = foldl (\<lambda>best cur. if snd cur > snd best then cur else best) e es"

definition compare_registry :: "(string \<times> nat) list \<Rightarrow> nat \<Rightarrow> version_status \<times> string option" where
  "compare_registry entries onChainVersion =
     (case entries of
        [] \<Rightarrow> (VUnknown, None)
      | e # es \<Rightarrow>
          let m = max_entry e es in
          if onChainVersion = snd m then (VCurrent, Some (fst m))
          else if onChainVersion > snd m then (VAhead, Some (fst m))
          else (VUnknown, map_option fst (List.find (\<lambda>x. snd x = onChainVersion) entries)))"

definition compareVersions :: "nat \<Rightarrow> version_status \<times> string option" where
  "compareVersions onChainVersion = compare_registry REGISTRY onChainVersion"

section \<open>Reading the version\<close>

datatype refresh_error = INVALID_CONTRACT_ID string | RPC_ERROR string

definition isValidContractId :: "(string \<Rightarrow> bool) \<Rightarrow> jsval \<Rightarrow> bool" where
  "isValidContractId ct v = isValidStellarContractAddress ct v"

text \<open>One attempt of the operation: without a URL of the server \<open>startsWith\<close> raises.\<close>

definition schema_attempt :: "string option \<Rightarrow> jsval + (jsval + nat) list option \<Rightarrow> jsval + nat" where
  "schema_attempt rpcUrl answer =
     (case rpcUrl of
        None \<Rightarrow> Inl (JObj [(''name'', JStr ''TypeError''), (''message'', JStr ''Cannot read properties of undefined'')])
      | Some _ \<Rightarrow>
          (case answer of
             Inl e \<Rightarrow> Inl e
           | Inr (Some (entry # _)) \<Rightarrow> entry
           | Inr _ \<Rightarrow> Inl (JObj [(''message'', JStr ''SCHEMA_VERSION not found in contract persistent storage'')])))"

record read_io =
  ri_ct :: "string \<Rightarrow> bool"
  ri_nt :: "rat \<Rightarrow> string"
  ri_ESCROW_CONTRACT_ID :: jsval
  ri_rpcUrl :: "string option"
  ri_config :: soroban_config
  ri_later :: time
  ri_clk :: "nat \<Rightarrow> time"
  ri_rnd :: "nat \<Rightarrow> rat"
  ri_answers :: "nat \<Rightarrow> jsval + (jsval + nat) list option"

definition getOnChainSchemaVersion :: "read_io \<Rightarrow> time \<Rightarrow> jsval \<Rightarrow> breaker \<Rightarrow> (refresh_error + nat) \<times> breaker" where
  "getOnChainSchemaVersion io now contractId b =
     (let i = js_or contractId (ri_ESCROW_CONTRACT_ID io) in
      if \<not> isValidContractId (ri_ct io) i then (Inl (INVALID_CONTRACT_ID ''Invalid or missing ESCROW_CONTRACT_ID''), b)
      else let c = callSorobanContract (ri_config io) now (ri_later io) (ri_clk io) (ri_rnd io)
                     (\<lambda>n. schema_attempt (ri_rpcUrl io) (ri_answers io n)) b
           in (case call_outcome c of
                 Inr v \<Rightarrow> Inr v
               | Inl e \<Rightarrow> Inl (RPC_ERROR (''RPC read failed: '' @ js_String (ri_nt io) (js_get e ''message''))),
               cc_breaker c))"

section \<open>Alerts\<close>

definition MISMATCH_STATUSES :: "version_status list" where
  "MISMATCH_STATUSES = [VAhead, VUnknown]"

type_synonym alerted = "(string, string) amap"

record version_alert =
  va_contractId :: jsval
  va_expectedVersion :: "string option"
  va_observedVersion :: nat
  va_status :: version_status

definition dedupeMapKey :: "(rat \<Rightarrow> string) \<Rightarrow> jsval \<Rightarrow> string" where
  "dedupeMapKey nt contractId = (if truthy contractId then js_String nt contractId else ''<default>'')"

definition signature :: "string option \<Rightarrow> nat \<Rightarrow> string" where
  "signature expectedVersion observedVersion =
     (case expectedVersion of Some (x # xs) \<Rightarrow> x # xs | _ \<Rightarrow> ''none'') @ ''|'' @ show_nat observedVersion"

definition raiseVersionMismatchAlert ::
  "(rat \<Rightarrow> string) \<Rightarrow> jsval \<Rightarrow> nat \<Rightarrow> string option \<Rightarrow> version_status \<Rightarrow> alerted \<Rightarrow> version_alert list \<times> alerted" where
  "raiseVersionMismatchAlert nt contractId observedVersion expectedVersion st m =
     (let mapKey = dedupeMapKey nt contractId; sig = signature expectedVersion observedVersion in
      if map_of m mapKey = Some sig then ([], m)
      else ([\<lparr>va_contractId = js_or contractId JNull, va_expectedVersion = expectedVersion,
              va_observedVersion = observedVersion, va_status = st\<rparr>], AList.update mapKey sig m))"

definition resetVersionMismatchAlertState :: "alerted \<Rightarrow> alerted" where
  "resetVersionMismatchAlertState m = []"

section \<open>The job\<close>

record refresh_result =
  rf_onChainVersion :: nat
  rf_knownVersion :: "string option"
  rf_status :: version_status

text \<open>What the job does with the outcome of the read.\<close>

definition refresh_with ::
  "(rat \<Rightarrow> string) \<Rightarrow> jsval \<Rightarrow> jsval \<times> (refresh_error + nat) \<Rightarrow> alerted \<Rightarrow>
   (refresh_error + refresh_result) \<times> version_alert list \<times> alerted" where
  "refresh_with nt envId call m =
     (case call of
        (_, Inl e) \<Rightarrow> (Inl e, [], m)
      | (contractId, Inr onChainVersion) \<Rightarrow>
          (case compareVersions onChainVersion of (st, knownVersion) \<Rightarrow>
             let resolvedId = js_or (js_or contractId envId) JNull;
                 r = Inr \<lparr>rf_onChainVersion = onChainVersion, rf_knownVersion = knownVersion, rf_status = st\<rparr>
             in if st \<in> set MISMATCH_STATUSES
                then (r, raiseVersionMismatchAlert nt resolvedId onChainVersion knownVersion st m)
                else (r, [], AList.delete (dedupeMapKey nt resolvedId) m)))"

definition runContractListRefresh ::
  "read_io \<Rightarrow> time \<Rightarrow> jsval \<Rightarrow> breaker \<Rightarrow> alerted \<Rightarrow>
   ((refresh_error + refresh_result) \<times> version_alert list \<times> alerted) \<times> breaker" where
  "runContractListRefresh io now contractId b m =
     (case getOnChainSchemaVersion io now contractId b of
        (r, b') \<Rightarrow> (refresh_with (ri_nt io) (ri_ESCROW_CONTRACT_ID io) (contractId, r) m, b'))"

section \<open>Administration routes\<close>

text \<open>\<open>AdminProblem\<close> is the application error passed on, with status, title and detail.\<close>

datatype admin_response = AdminJson int jsval | AdminProblem int string string

definition known_json :: "string option \<Rightarrow> jsval" where
  "known_json k = (case k of Some s \<Rightarrow> JStr s | None \<Rightarrow> JNull)"

definition refresh_fields :: "refresh_result \<Rightarrow> (string \<times> jsval) list" where
  "refresh_fields r =
     [(''onChainVersion'', JInt (int (rf_onChainVersion r))), (''knownVersion'', known_json (rf_knownVersion r)),
      (''status'', JStr (status_text (rf_status r)))]"

definition postRefresh ::
  "read_io \<Rightarrow> time \<Rightarrow> breaker \<Rightarrow> alerted \<Rightarrow> admin_response \<times> version_alert list \<times> alerted \<times> breaker" where
  "postRefresh io now b m =
     (case runContractListRefresh io now JUndef b m of
        ((r, alerts, m'), b') \<Rightarrow>
          ((case r of
              Inr x \<Rightarrow> AdminJson 202 (JObj ([(''message'', JStr ''Contract list refresh triggered.'')] @ refresh_fields x))
            | Inl (INVALID_CONTRACT_ID d) \<Rightarrow> AdminProblem 400 ''Validation Error'' d
            | Inl (RPC_ERROR _) \<Rightarrow> AdminProblem 502 ''Upstream Error''
                ''Soroban RPC read failed. Retry after confirming RPC health.''), alerts, m', b'))"

definition getVersion :: "read_io \<Rightarrow> time \<Rightarrow> breaker \<Rightarrow> admin_response \<times> breaker" where
  "getVersion io now b =
     (case getOnChainSchemaVersion io now JUndef b of
        (r, b') \<Rightarrow>
          ((case r of
              Inr v \<Rightarrow> (case compareVersions v of (st, k) \<Rightarrow>
                AdminJson 200 (JObj (refresh_fields \<lparr>rf_onChainVersion = v, rf_knownVersion = k, rf_status = st\<rparr>)))
            | Inl (INVALID_CONTRACT_ID d) \<Rightarrow> AdminProblem 400 ''Validation Error'' d
            | Inl (RPC_ERROR _) \<Rightarrow> AdminProblem 502 ''Upstream Error'' ''Soroban RPC read failed.''), b'))"

section \<open>Lemmas\<close>

lemma max_entry_is_max:
  "max_entry e es \<in> set (e # es) \<and> (\<forall>x\<in>set (e # es). snd x \<le> snd (max_entry e es))"
proof (induction es arbitrary: e)
  case Nil
  then show ?case by (simp add: max_entry_def)
next
  case (Cons x es)
  let ?b = "if snd x > snd e then x else e"
  have "max_entry e (x # es) = max_entry ?b es" by (simp add: max_entry_def)
  then show ?case using Cons[of ?b] by (auto split: if_splits)
qed

text \<open>The comparison says what it should for every registry: current for the greatest version, ahead
  above it, unknown below.\<close>

lemma compare_registry_spec:
  assumes "entries \<noteq> []"
  shows "fst (compare_registry entries v) = VCurrent \<longleftrightarrow> v = Max (snd ` set entries)"
    "fst (compare_registry entries v) = VAhead \<longleftrightarrow> v > Max (snd ` set entries)"
    "fst (compare_registry entries v) = VUnknown \<longleftrightarrow> v < Max (snd ` set entries)"
proof -
  obtain e es where e: "entries = e # es" using assms by (cases entries) auto
  have m: "Max (snd ` set entries) = snd (max_entry e es)"
    using max_entry_is_max[of e es] unfolding e by (intro Max_eqI) auto
  show "fst (compare_registry entries v) = VCurrent \<longleftrightarrow> v = Max (snd ` set entries)"
    "fst (compare_registry entries v) = VAhead \<longleftrightarrow> v > Max (snd ` set entries)"
    "fst (compare_registry entries v) = VUnknown \<longleftrightarrow> v < Max (snd ` set entries)"
    unfolding m using e by (auto simp: compare_registry_def Let_def)
qed

definition latest_version :: nat where
  "latest_version = Max (snd ` set REGISTRY)"

lemma mismatch_iff: "fst (compareVersions v) \<in> set MISMATCH_STATUSES \<longleftrightarrow> v \<noteq> latest_version"
proof -
  have "REGISTRY \<noteq> []" by (simp add: REGISTRY_def)
  note s = compare_registry_spec[OF this, of v, folded compareVersions_def latest_version_def]
  show ?thesis using s by (cases "fst (compareVersions v)") (auto simp: MISMATCH_STATUSES_def)
qed

text \<open>Labels of the registry have no separator, so a signature determines the observed version.\<close>

definition sig_of :: "nat \<Rightarrow> string" where
  "sig_of v = signature (snd (compareVersions v)) v"

lemma known_label: "snd (compareVersions v) = Some s \<Longrightarrow> s \<in> fst ` set REGISTRY"
  by (auto simp: compareVersions_def compare_registry_def Let_def REGISTRY_def max_entry_def split: if_splits)

lemma bar_free: "CHR ''|'' \<notin> set (case snd (compareVersions v) of Some (x # xs) \<Rightarrow> x # xs | _ \<Rightarrow> ''none'')"
  using known_label[of v] by (auto simp: REGISTRY_def split: option.splits list.splits)

lemma bar_not_shown: "CHR ''|'' \<notin> set (show_nat n)"
proof
  assume "CHR ''|'' \<in> set (show_nat n)"
  then obtain d where "d < 10" "CHR ''|'' = digit_char d" using show_nat_chars by blast
  then have "is_digit (CHR ''|'')" using digit_char_digit(1) by metis
  then show False by (simp add: is_digit_def code_of_def)
qed

lemma sig_of_inj: "sig_of v = sig_of w \<longleftrightarrow> v = w"
proof
  have s: "split_on (CHR ''|'') (sig_of u) =
      [case snd (compareVersions u) of Some (x # xs) \<Rightarrow> x # xs | _ \<Rightarrow> ''none'', show_nat u]" for u
    using split_on_append[OF bar_free[of u], of "show_nat u"] split_on_none[OF bar_not_shown[of u]]
    by (simp add: sig_of_def signature_def)
  assume "sig_of v = sig_of w"
  then have "show_nat v = show_nat w" using s[of v] s[of w] by simp
  then show "v = w" using digits_val_show by metis
qed simp

section \<open>A sequence of runs\<close>

definition run_key :: "(rat \<Rightarrow> string) \<Rightarrow> jsval \<Rightarrow> jsval \<Rightarrow> string" where
  "run_key nt envId contractId = dedupeMapKey nt (js_or (js_or contractId envId) JNull)"

fun refresh_all ::
  "(rat \<Rightarrow> string) \<Rightarrow> jsval \<Rightarrow> (jsval \<times> (refresh_error + nat)) list \<Rightarrow> alerted \<Rightarrow> version_alert list \<times> alerted" where
  "refresh_all nt envId [] m = ([], m)"
| "refresh_all nt envId (c # cs) m =
     (case refresh_with nt envId c m of (_, alerts, m') \<Rightarrow>
        (case refresh_all nt envId cs m' of (rest, m'') \<Rightarrow> (alerts @ rest, m'')))"

text \<open>The abstract rule: a version that differs from the registry is reported unless it is the one that
  was read last.\<close>

fun fresh_mismatches :: "nat option \<Rightarrow> (refresh_error + nat) list \<Rightarrow> nat list" where
  "fresh_mismatches seen [] = []"
| "fresh_mismatches seen (Inl e # rs) = fresh_mismatches seen rs"
| "fresh_mismatches seen (Inr v # rs) =
     (if v \<noteq> latest_version \<and> seen \<noteq> Some v then [v] else []) @ fresh_mismatches (Some v) rs"

definition remembered :: "nat option \<Rightarrow> string option" where
  "remembered seen = (case seen of Some v \<Rightarrow> if v = latest_version then None else Some (sig_of v) | None \<Rightarrow> None)"

abbreviation alerts_of :: "(rat \<Rightarrow> string) \<Rightarrow> string \<Rightarrow> version_alert list \<Rightarrow> nat list" where
  "alerts_of nt k as \<equiv> map va_observedVersion (filter (\<lambda>a. dedupeMapKey nt (va_contractId a) = k) as)"

text \<open>One run: it alerts according to the rule for its own contract and leaves the others alone.\<close>

lemma refresh_with_step:
  assumes "refresh_with nt envId (cid, Inr v) m = (r, as, m')"
  shows "run_key nt envId cid = k \<Longrightarrow> map_of m k = remembered seen \<Longrightarrow>
      alerts_of nt k as = (if v \<noteq> latest_version \<and> seen \<noteq> Some v then [v] else []) \<and> map_of m' k = remembered (Some v)"
    "run_key nt envId cid \<noteq> k \<Longrightarrow> alerts_of nt k as = [] \<and> map_of m' k = map_of m k"
proof -
  let ?id = "js_or (js_or cid envId) JNull"
  have key: "dedupeMapKey nt (js_or ?id JNull) = run_key nt envId cid" by (auto simp: run_key_def js_or_def)
  show "alerts_of nt k as = (if v \<noteq> latest_version \<and> seen \<noteq> Some v then [v] else []) \<and> map_of m' k = remembered (Some v)"
    if k: "run_key nt envId cid = k" and m: "map_of m k = remembered seen"
  proof (cases "v = latest_version")
    case True
    then show ?thesis using assms mismatch_iff[of v] k
      by (auto simp: refresh_with_def Let_def remembered_def run_key_def split: prod.splits if_splits)
  next
    case False
    have "remembered seen = Some (sig_of v) \<longleftrightarrow> seen = Some v"
      using False by (auto simp: remembered_def sig_of_inj split: option.splits)
    then show ?thesis using assms mismatch_iff[of v] k m False key
      by (auto simp: refresh_with_def raiseVersionMismatchAlert_def Let_def remembered_def run_key_def sig_of_def
          split: prod.splits if_splits)
  qed
  show "alerts_of nt k as = [] \<and> map_of m' k = map_of m k" if "run_key nt envId cid \<noteq> k"
    using assms that key
    by (auto simp: refresh_with_def raiseVersionMismatchAlert_def Let_def run_key_def split: prod.splits if_splits)
qed

lemma refresh_all_alerts:
  assumes "refresh_all nt envId cs m = (as, m')" "map_of m k = remembered seen"
  shows "alerts_of nt k as = fresh_mismatches seen (map snd (filter (\<lambda>c. run_key nt envId (fst c) = k) cs))"
  using assms
proof (induction cs arbitrary: m as m' seen)
  case (Cons c cs)
  obtain cid x where c: "c = (cid, x)" by fastforce
  obtain r a1 m1 where s: "refresh_with nt envId c m = (r, a1, m1)" by (metis prod_cases3)
  obtain a2 where rest: "refresh_all nt envId cs m1 = (a2, m')" "as = a1 @ a2"
    using Cons.prems(1) s by (auto split: prod.splits)
  show ?case
  proof (cases x)
    case (Inl e)
    then have "a1 = []" "m1 = m" using s c by (auto simp: refresh_with_def)
    then show ?thesis using Cons.IH[OF rest(1)] Cons.prems(2) rest(2) c Inl by simp
  next
    case (Inr v)
    note step = refresh_with_step[OF s[unfolded c Inr]]
    show ?thesis
    proof (cases "run_key nt envId cid = k")
      case True
      from step(1)[OF True Cons.prems(2)] Cons.IH[OF rest(1), of "Some v"] show ?thesis
        using rest(2) c Inr True by simp
    next
      case False
      from step(2)[OF False] Cons.IH[OF rest(1), of seen] Cons.prems(2) show ?thesis
        using rest(2) c False by simp
    qed
  qed
qed simp

text \<open>C33: operators hear of every change of the deployed contract once. For any sequence of runs, of one
  or several contracts and with failing reads in between, the alerts of a contract are exactly the
  versions that differ from the latest of the registry and from the version read before them; failed
  reads neither alert nor forget, and runs of other contracts have no influence.\<close>
theorem version_alerts_exact:
  assumes "refresh_all nt envId calls0 [] = (alerts, m)"
  shows "alerts_of nt k alerts =
    fresh_mismatches None (map snd (filter (\<lambda>c. run_key nt envId (fst c) = k) calls0))"
  by (rule refresh_all_alerts[OF assms]) (simp add: remembered_def)

theorem version_alerts_exact_witness:
  "alerts_of (\<lambda>_. []) ''C1'' (fst (refresh_all (\<lambda>_. []) (JStr ''C1'')
     [(JUndef, Inr 4), (JStr ''C2'', Inr 3), (JUndef, Inr 4), (JUndef, Inl (RPC_ERROR [])), (JUndef, Inr 4), (JUndef, Inr 3),
      (JUndef, Inr 4)] [])) = [4, 4]"
proof -
  let ?cs = "[(JUndef, Inr 4), (JStr ''C2'', Inr 3), (JUndef, Inr 4), (JUndef, Inl (RPC_ERROR [])), (JUndef, Inr 4), (JUndef, Inr 3),
      (JUndef, Inr 4)] :: (jsval \<times> (refresh_error + nat)) list"
  have "fresh_mismatches None (map snd (filter (\<lambda>c. run_key (\<lambda>_. []) (JStr ''C1'') (fst c) = ''C1'') ?cs)) = [4, 4]"
    by code_simp
  then show ?thesis using version_alerts_exact[where nt = "\<lambda>_. []" and envId = "JStr ''C1''" and ?calls0.0 = ?cs and k = "''C1''",
        OF prod.collapse[symmetric]] by simp
qed

text \<open>The alert of a known older version names that version as the expected one.\<close>

lemma older_version_expected_itself: "compareVersions 1 = (VUnknown, Some ''1.0.0'')"
  by code_simp

text \<open>A version is reported only for a valid contract.\<close>

lemma read_needs_valid_id:
  "getOnChainSchemaVersion io now c b = (Inr v, b') \<Longrightarrow> isValidContractId (ri_ct io) (js_or c (ri_ESCROW_CONTRACT_ID io))"
  by (auto simp: getOnChainSchemaVersion_def Let_def split: if_splits)

lemma invalid_id_no_call:
  assumes "\<not> isValidContractId (ri_ct io) (ri_ESCROW_CONTRACT_ID io)"
  shows "postRefresh io now b m = (AdminProblem 400 ''Validation Error'' ''Invalid or missing ESCROW_CONTRACT_ID'', [], m, b)"
  using assms
  by (simp add: postRefresh_def runContractListRefresh_def getOnChainSchemaVersion_def refresh_with_def js_or_def Let_def)

text \<open>Without a URL of the server every read fails, whatever the ledger holds.\<close>

lemma schema_attempt_value: "schema_attempt u a = Inr v \<longleftrightarrow> u \<noteq> None \<and> (\<exists>es. a = Inr (Some (Inr v # es)))"
  by (auto simp: schema_attempt_def split: option.splits sum.splits list.splits)

end
