(* ===== verification/Shutdown.thy ===== *)
theory Shutdown
  imports QueryParams
begin

text \<open>
  Graceful shutdown: \<open>src/src/utils/shutdownCoordinator.js\<close>, with the start of the server in
  \<open>src/src/index.js\<close>.

  The asynchronous function is split at its awaits: each continuation is a function of the state, and
  the events that run them are the constructors of \<open>sd_event\<close>. The effects on the outside are the list
  of actions in the order in which they are started. \<open>process.exit\<close> ends the process: no event follows.
\<close>

section \<open>State\<close>

datatype sd_phase = Idle | ClosingServer | StoppingWorker | DestroyingPool | Exited int

datatype sd_action = CloseServer | StopWorker | DestroyPool

text \<open>What is registered as worker matters only by its method \<open>stop\<close>; \<open>poolDestroy\<close> tells whether the
  database handle has a method \<open>destroy\<close>.\<close>

datatype registered_worker = NoWorker | WorkerWithoutStop | WorkerWithStop

record shutdown =
  serverInstance :: bool
  registeredWorker :: registered_worker
  isShuttingDown :: bool
  listenersRegistered :: bool
  poolDestroy :: bool
  sd_at :: sd_phase
  forceExitArmed :: bool
  sd_actions :: "sd_action list"

definition initial_shutdown :: "bool \<Rightarrow> shutdown" where
  "initial_shutdown pool =
     \<lparr>serverInstance = False, registeredWorker = NoWorker, isShuttingDown = False, listenersRegistered = False,
      poolDestroy = pool, sd_at = Idle, forceExitArmed = False, sd_actions = []\<rparr>"

definition register :: "bool \<Rightarrow> registered_worker \<Rightarrow> shutdown \<Rightarrow> shutdown" where
  "register server worker s =
     (let s1 = (if server then s\<lparr>serverInstance := True\<rparr> else s)
      in if worker \<noteq> NoWorker then s1\<lparr>registeredWorker := worker\<rparr> else s1)"

definition shutdownTimeoutMs :: "jsval option \<Rightarrow> jsval \<Rightarrow> jsval" where
  "shutdownTimeoutMs config_value env_value =
     (case config_value of
        Some v \<Rightarrow> js_coalesce v (JInt 10000)
      | None \<Rightarrow> (case parse_int env_value of Some n \<Rightarrow> if n = 0 then JInt 10000 else JInt n | None \<Rightarrow> JInt 10000))"

definition setupSignalListeners :: "string \<Rightarrow> shutdown \<Rightarrow> shutdown" where
  "setupSignalListeners nodeEnv s =
     (if listenersRegistered s then s else if nodeEnv = ''test'' then s else s\<lparr>listenersRegistered := True\<rparr>)"

definition getIsShuttingDown :: "shutdown \<Rightarrow> bool" where
  "getIsShuttingDown s = isShuttingDown s"

definition sd_resetState :: "shutdown \<Rightarrow> shutdown" where
  "sd_resetState s = s\<lparr>serverInstance := False, registeredWorker := NoWorker, isShuttingDown := False, listenersRegistered := False\<rparr>"

section \<open>The sequence\<close>

definition act :: "sd_action \<Rightarrow> sd_phase \<Rightarrow> shutdown \<Rightarrow> shutdown" where
  "act a p s = s\<lparr>sd_actions := sd_actions s @ [a], sd_at := p\<rparr>"

text \<open>The end of the \<open>try\<close> and its \<open>catch\<close>.\<close>

definition finish :: "int \<Rightarrow> shutdown \<Rightarrow> shutdown" where
  "finish exit_code s = s\<lparr>forceExitArmed := False, sd_at := Exited exit_code\<rparr>"

definition phase4 :: "shutdown \<Rightarrow> shutdown" where
  "phase4 s = (if poolDestroy s then act DestroyPool DestroyingPool s else finish 0 s)"

definition phase3 :: "shutdown \<Rightarrow> shutdown" where
  "phase3 s = (if registeredWorker s = WorkerWithStop then act StopWorker StoppingWorker s else phase4 s)"

definition executeShutdown :: "shutdown \<Rightarrow> shutdown" where
  "executeShutdown s =
     (if isShuttingDown s then s
      else let s1 = s\<lparr>isShuttingDown := True, forceExitArmed := True\<rparr>
           in if serverInstance s then act CloseServer ClosingServer s1 else phase3 s1)"

text \<open>The callback of \<open>server.close\<close> resolves also when it is given an error.\<close>

definition on_server_closed :: "shutdown \<Rightarrow> shutdown" where
  "on_server_closed s = phase3 s"

definition on_worker_stopped :: "bool \<Rightarrow> shutdown \<Rightarrow> shutdown" where
  "on_worker_stopped ok s = (if ok then phase4 s else finish 1 s)"

definition on_pool_destroyed :: "bool \<Rightarrow> shutdown \<Rightarrow> shutdown" where
  "on_pool_destroyed ok s = (if ok then finish 0 s else finish 1 s)"

definition on_force_exit :: "shutdown \<Rightarrow> shutdown" where
  "on_force_exit s = s\<lparr>sd_at := Exited 1\<rparr>"

text \<open>\<open>Signal\<close> is a signal or any other call of \<open>executeShutdown\<close>; \<open>WorkerStopped\<close> and
  \<open>PoolDestroyed\<close> tell whether the promise was resolved.\<close>

datatype sd_event = Register bool registered_worker | Signal | ServerClosed | WorkerStopped bool | PoolDestroyed bool | ForceExit

definition exited :: "shutdown \<Rightarrow> bool" where
  "exited s = (case sd_at s of Exited _ \<Rightarrow> True | _ \<Rightarrow> False)"

inductive sd_step :: "shutdown \<Rightarrow> sd_event \<Rightarrow> shutdown \<Rightarrow> bool" where
  registers: "\<not> exited s \<Longrightarrow> sd_step s (Register srv w) (register srv w s)"
| signals: "\<not> exited s \<Longrightarrow> sd_step s Signal (executeShutdown s)"
| server_closed: "sd_at s = ClosingServer \<Longrightarrow> sd_step s ServerClosed (on_server_closed s)"
| worker_stopped: "sd_at s = StoppingWorker \<Longrightarrow> sd_step s (WorkerStopped ok) (on_worker_stopped ok s)"
| pool_destroyed: "sd_at s = DestroyingPool \<Longrightarrow> sd_step s (PoolDestroyed ok) (on_pool_destroyed ok s)"
| force_exit: "forceExitArmed s \<Longrightarrow> \<not> exited s \<Longrightarrow> sd_step s ForceExit (on_force_exit s)"

inductive_cases sd_stepE: "sd_step s e s'"

inductive sd_run :: "shutdown \<Rightarrow> sd_event list \<Rightarrow> shutdown \<Rightarrow> bool" where
  run_nil: "sd_run s [] s"
| run_snoc: "sd_run s es s1 \<Longrightarrow> sd_step s1 e s2 \<Longrightarrow> sd_run s (es @ [e]) s2"

section \<open>The start of the server\<close>

definition startServer_shutdown :: "string \<Rightarrow> shutdown \<Rightarrow> shutdown" where
  "startServer_shutdown nodeEnv s = setupSignalListeners nodeEnv (register True NoWorker s)"

section \<open>Invariant\<close>

text \<open>The actions started so far and where the sequence stands.\<close>

definition sd_inv :: "shutdown \<Rightarrow> bool" where
  "sd_inv s \<longleftrightarrow>
     subseq (sd_actions s) [CloseServer, StopWorker, DestroyPool] \<and>
     (isShuttingDown s \<longleftrightarrow> sd_at s \<noteq> Idle) \<and> (isShuttingDown s \<and> \<not> exited s \<longrightarrow> forceExitArmed s) \<and>
     (forceExitArmed s \<longrightarrow> isShuttingDown s) \<and>
     (case sd_at s of
        Idle \<Rightarrow> sd_actions s = []
      | ClosingServer \<Rightarrow> sd_actions s = [CloseServer]
      | StoppingWorker \<Rightarrow> StopWorker \<in> set (sd_actions s) \<and> DestroyPool \<notin> set (sd_actions s)
      | DestroyingPool \<Rightarrow> DestroyPool \<in> set (sd_actions s)
      | Exited _ \<Rightarrow> True)"

lemma sd_inv_initial: "sd_inv (initial_shutdown p)"
  by (simp add: sd_inv_def initial_shutdown_def exited_def)

lemmas sd_defs = act_def finish_def phase4_def phase3_def executeShutdown_def on_server_closed_def on_worker_stopped_def
  on_pool_destroyed_def on_force_exit_def register_def exited_def Let_def

lemma subseq_actions:
  "subseq xs [CloseServer, StopWorker, DestroyPool] \<longleftrightarrow>
     xs \<in> {[], [CloseServer], [StopWorker], [DestroyPool], [CloseServer, StopWorker], [CloseServer, DestroyPool],
            [StopWorker, DestroyPool], [CloseServer, StopWorker, DestroyPool]}"
  unfolding in_set_subseqs[symmetric] by (auto simp: Let_def simp del: in_set_subseqs)

lemma sd_inv_step: "sd_step s e s' \<Longrightarrow> sd_inv s \<Longrightarrow> sd_inv s'"
  by (erule sd_stepE) (auto simp: sd_inv_def subseq_actions sd_defs split: sd_phase.splits if_splits)

text \<open>What has happened before: an action is followed by the next one, and by the exit with success,
  only after it was completed.\<close>

definition sd_history :: "shutdown \<Rightarrow> sd_event list \<Rightarrow> bool" where
  "sd_history s es \<longleftrightarrow>
     (let A = set (sd_actions s); ok = (sd_at s = Exited 0) in
      (CloseServer \<in> A \<and> (StopWorker \<in> A \<or> DestroyPool \<in> A \<or> ok) \<longrightarrow> ServerClosed \<in> set es) \<and>
      (StopWorker \<in> A \<and> (DestroyPool \<in> A \<or> ok) \<longrightarrow> WorkerStopped True \<in> set es) \<and>
      (ok \<and> poolDestroy s \<longrightarrow> DestroyPool \<in> A \<and> PoolDestroyed True \<in> set es) \<and>
      (ok \<or> \<not> exited s \<longrightarrow> ForceExit \<notin> set es))"

lemma sd_history_step:
  "sd_step s e s' \<Longrightarrow> sd_inv s \<Longrightarrow> sd_history s es \<Longrightarrow> sd_history s' (es @ [e])"
  by (erule sd_stepE)
    (auto simp: sd_history_def sd_inv_def subseq_actions sd_defs split: sd_phase.splits if_splits)

lemma sd_run_inv:
  assumes "sd_run s0 es s" "sd_inv s0" "sd_history s0 []"
  shows "sd_inv s \<and> sd_history s es"
  using assms by (induction rule: sd_run.induct) (auto intro: sd_inv_step sd_history_step)


lemma sample_shutdown_run:
  "sd_run (initial_shutdown True) [Register True NoWorker, Signal, Signal, ServerClosed, PoolDestroyed True]
     (on_pool_destroyed True (on_server_closed (executeShutdown (executeShutdown (register True NoWorker (initial_shutdown True))))))"
proof -
  let ?s = "register True NoWorker (initial_shutdown True)"
  have "sd_run (initial_shutdown True) ((((([] @ [Register True NoWorker]) @ [Signal]) @ [Signal]) @ [ServerClosed]) @ [PoolDestroyed True])
     (on_pool_destroyed True (on_server_closed (executeShutdown (executeShutdown ?s))))"
    by (rule run_snoc[OF run_snoc[OF run_snoc[OF run_snoc[OF run_snoc[OF run_nil registers] signals] signals] server_closed] pool_destroyed])
      (simp_all add: sd_defs initial_shutdown_def)
  then show ?thesis by simp
qed


text \<open>A second signal changes nothing.\<close>

lemma shutdown_once: "executeShutdown (executeShutdown s) = executeShutdown s"
  by (simp add: sd_defs)

text \<open>The server registers no worker, although the entry point starts one: as the process is started, no
  shutdown stops a worker.\<close>

lemma worker_never_stopped:
  assumes "sd_run (startServer_shutdown nodeEnv (initial_shutdown p)) es s" "\<forall>e\<in>set es. \<forall>b w. e \<noteq> Register b w"
  shows "StopWorker \<notin> set (sd_actions s)"
proof -
  have "registeredWorker s = NoWorker \<and> StopWorker \<notin> set (sd_actions s)"
    using assms
  proof (induction "startServer_shutdown nodeEnv (initial_shutdown p)" es s rule: sd_run.induct)
    case run_nil
    then show ?case
      by (simp add: startServer_shutdown_def setupSignalListeners_def register_def initial_shutdown_def)
  next
    case (run_snoc es s1 e s2)
    then have "registeredWorker s1 = NoWorker" "StopWorker \<notin> set (sd_actions s1)" "\<forall>b w. e \<noteq> Register b w" by auto
    then show ?case using run_snoc(3) by (elim sd_stepE) (auto simp: sd_defs)
  qed
  then show ?thesis by simp
qed

end
