(* ===== verification/Health.thy ===== *)
theory Health
  imports Storage Kyc Reconcile
begin

text \<open>
  Health checks: \<open>src/src/services/health.js\<close> and the probes \<open>/health\<close>, \<open>/healthz\<close>, \<open>/ready\<close>
  and \<open>/readyz\<close> of \<open>src/src/app.js\<close>.

  What a dependency answers is an argument: the time it takes in milliseconds and an error message or
  the answer, None when it never comes. The race with a timer is decided by the times; an answer at the
  very time of the timer counts. An unset environment variable is the empty string.
\<close>

section \<open>Timers and numbers from the environment\<close>

definition DEFAULT_SOROBAN_HEALTH_TIMEOUT_MS :: int where "DEFAULT_SOROBAN_HEALTH_TIMEOUT_MS = 5000"
definition MIN_SOROBAN_HEALTH_TIMEOUT_MS :: int where "MIN_SOROBAN_HEALTH_TIMEOUT_MS = 250"
definition MAX_SOROBAN_HEALTH_TIMEOUT_MS :: int where "MAX_SOROBAN_HEALTH_TIMEOUT_MS = 10000"

definition resolveSorobanHealthTimeoutMs :: "string \<Rightarrow> int" where
  "resolveSorobanHealthTimeoutMs env =
     (case parse_int_str env of
        None \<Rightarrow> DEFAULT_SOROBAN_HEALTH_TIMEOUT_MS
      | Some n \<Rightarrow> clamp MIN_SOROBAN_HEALTH_TIMEOUT_MS MAX_SOROBAN_HEALTH_TIMEOUT_MS n)"

text \<open>\<open>parseInt(env, 10) || d\<close>, and the delay \<open>setTimeout\<close> makes of a number.\<close>

definition env_int_or :: "string \<Rightarrow> int \<Rightarrow> int" where
  "env_int_or env d = (case parse_int_str env of Some n \<Rightarrow> if n = 0 then d else n | None \<Rightarrow> d)"

definition timer_delay :: "int \<Rightarrow> int" where
  "timer_delay n = (if 1 \<le> n \<and> n \<le> 2147483647 then n else 1)"

type_synonym 'a answer = "(int \<times> (string + 'a)) option"

text \<open>The outcome of an operation that a timer interrupts: the time when it settles, and the answer
  unless the timer was first.\<close>

definition raced :: "int \<Rightarrow> 'a answer \<Rightarrow> int \<times> (string + 'a) option" where
  "raced tmo a =
     (case a of
        None \<Rightarrow> (tmo, None)
      | Some (latency, r) \<Rightarrow> if tmo < latency then (tmo, None) else (latency, Some r))"

section \<open>Checks\<close>

record check =
  ck_status :: string
  ck_latency :: "int option"
  ck_error :: "string option"

definition check_of :: "string \<Rightarrow> int option \<Rightarrow> string option \<Rightarrow> check" where
  "check_of s l e = \<lparr>ck_status = s, ck_latency = l, ck_error = e\<rparr>"

definition classifySorobanLatency :: "string \<Rightarrow> string \<Rightarrow> int \<Rightarrow> string" where
  "classifySorobanLatency warn fail latencyMs =
     (if latencyMs \<le> env_int_or warn 200 then ''healthy''
      else if latencyMs \<le> env_int_or fail 500 then ''degraded'' else ''unhealthy'')"

record soroban_health_env =
  sh_SOROBAN_RPC_URL :: string
  sh_SOROBAN_HEALTH_TIMEOUT_MS :: string
  sh_SOROBAN_LATENCY_WARN_MS :: string
  sh_SOROBAN_LATENCY_FAIL_MS :: string

text \<open>The answer of \<open>fetch\<close>: whether the status is a success, and the status. An aborted fetch rejects.\<close>

type_synonym http_answer = "(bool \<times> int) answer"

definition aborted :: string where "aborted = ''This operation was aborted''"

definition http_error :: "int \<Rightarrow> string" where
  "http_error st = ''HTTP '' @ show_int st"

definition checkSorobanHealth :: "soroban_health_env \<Rightarrow> http_answer \<Rightarrow> check" where
  "checkSorobanHealth e a =
     (if sh_SOROBAN_RPC_URL e = [] then check_of ''unknown'' None (Some ''SOROBAN_RPC_URL not configured'')
      else (case raced (resolveSorobanHealthTimeoutMs (sh_SOROBAN_HEALTH_TIMEOUT_MS e)) a of
          (latency, Some (Inr (ok, st))) \<Rightarrow>
            if ok then check_of (classifySorobanLatency (sh_SOROBAN_LATENCY_WARN_MS e) (sh_SOROBAN_LATENCY_FAIL_MS e) latency)
                         (Some latency) None
            else check_of ''unhealthy'' (Some latency) (Some (http_error st))
        | (latency, Some (Inl m)) \<Rightarrow> check_of ''unhealthy'' (Some latency) (Some m)
        | (latency, None) \<Rightarrow> check_of ''unhealthy'' (Some latency) (Some aborted)))"

section \<open>Database\<close>

text \<open>The pool of the database client, when there is one: counters of methods it may lack. \<open>kx_max\<close> is the
  configured size of the pool.\<close>

record pool_methods =
  pm_numUsed :: "nat option"
  pm_numFree :: "nat option"
  pm_numPendingAcquires :: "nat option"

record knex_pool =
  kx_pool :: "pool_methods option"
  kx_max :: "nat option"

record pool_metrics =
  po_used :: nat
  po_free :: nat
  po_pending :: nat
  po_max :: nat

definition or_zero :: "nat option \<Rightarrow> nat" where
  "or_zero v = (case v of Some n \<Rightarrow> n | None \<Rightarrow> 0)"

definition inspectPoolHealth :: "knex_pool \<Rightarrow> pool_metrics option" where
  "inspectPoolHealth db =
     (case kx_pool db of
        None \<Rightarrow> None
      | Some pool \<Rightarrow> Some
          \<lparr>po_used = or_zero (pm_numUsed pool), po_free = or_zero (pm_numFree pool),
           po_pending = or_zero (pm_numPendingAcquires pool),
           po_max = (if or_zero (kx_max db) = 0 then 10 else or_zero (kx_max db))\<rparr>)"

record db_health_env =
  dh_DATABASE_URL :: string
  dh_DB_HEALTH_PROBE_TIMEOUT_MS :: string
  dh_DB_POOL_SATURATION_RATIO :: string

definition saturationRatio :: "db_health_env \<Rightarrow> jsnum" where
  "saturationRatio e =
     (case parse_float_str (dh_DB_POOL_SATURATION_RATIO e) of
        NFin q \<Rightarrow> if q = 0 then NFin (8 / 10) else NFin q | NNaN \<Rightarrow> NFin (8 / 10) | n \<Rightarrow> n)"

definition atSaturation :: "jsnum \<Rightarrow> pool_metrics \<Rightarrow> bool" where
  "atSaturation ratio m =
     (case ratio of
        NFin q \<Rightarrow> int (po_used m) \<ge> \<lceil>rat_of_nat (po_max m) * q\<rceil> | NNegInf \<Rightarrow> True | _ \<Rightarrow> False)"

record db_check =
  db_status :: string
  db_latency :: "int option"
  db_pool :: "pool_metrics option"
  db_error :: "string option"

definition checkDatabaseHealth :: "db_health_env \<Rightarrow> knex_pool \<Rightarrow> unit answer \<Rightarrow> db_check" where
  "checkDatabaseHealth e db a =
     (if dh_DATABASE_URL e = [] then \<lparr>db_status = ''not_configured'', db_latency = None, db_pool = None, db_error = None\<rparr>
      else let poolMetrics = inspectPoolHealth db;
               probeTimeoutMs = timer_delay (env_int_or (dh_DB_HEALTH_PROBE_TIMEOUT_MS e) 2000)
           in (case raced probeTimeoutMs a of
                 (latency, Some (Inr _)) \<Rightarrow>
                   \<lparr>db_status = (case poolMetrics of
                        Some m \<Rightarrow> if po_pending m > 0 \<or> atSaturation (saturationRatio e) m then ''degraded'' else ''healthy''
                      | None \<Rightarrow> ''healthy''),
                    db_latency = Some latency, db_pool = poolMetrics, db_error = None\<rparr>
               | (latency, Some (Inl _)) \<Rightarrow>
                   \<lparr>db_status = ''unhealthy'', db_latency = Some latency, db_pool = poolMetrics,
                    db_error = Some ''Database unreachable''\<rparr>
               | (latency, None) \<Rightarrow>
                   \<lparr>db_status = ''unhealthy'', db_latency = Some latency, db_pool = poolMetrics,
                    db_error = Some ''Connection pool acquire timeout''\<rparr>))"

section \<open>Reconciliation, KYC provider, indexer and storage\<close>

record reconciliation_check =
  rc_status :: string
  rc_lastRun :: "string option"
  rc_mismatches :: "nat option"
  rc_error :: "string option"

text \<open>\<open>parse_date\<close> is the time of a date, None for an invalid one, for which no comparison holds. The read
  of the summary catches its own errors.\<close>

definition checkReconciliationHealth ::
  "(string \<Rightarrow> time option) \<Rightarrow> time \<Rightarrow> bool \<Rightarrow> (string \<Rightarrow> rat) \<Rightarrow> reconcile_summary list \<Rightarrow> reconciliation_check" where
  "checkReconciliationHealth parse_date now db_ok rank_at runs =
     (case getReconciliationSummary db_ok rank_at runs of
        None \<Rightarrow> \<lparr>rc_status = ''not_run'', rc_lastRun = None, rc_mismatches = None,
                 rc_error = Some ''Reconciliation has not been run yet''\<rparr>
      | Some s \<Rightarrow>
          if (case parse_date (rs_reconciledAt s) of Some d \<Rightarrow> now - d > 25 * (1000 * 60 * 60) | None \<Rightarrow> False)
          then \<lparr>rc_status = ''stale'', rc_lastRun = Some (rs_reconciledAt s), rc_mismatches = None,
                rc_error = Some ''Reconciliation not run recently''\<rparr>
          else if rs_mismatches s > 0
          then \<lparr>rc_status = ''mismatches'', rc_lastRun = Some (rs_reconciledAt s), rc_mismatches = Some (rs_mismatches s),
                rc_error = None\<rparr>
          else \<lparr>rc_status = ''healthy'', rc_lastRun = Some (rs_reconciledAt s), rc_mismatches = None, rc_error = None\<rparr>)"

definition checkKycHealth :: "kyc_env \<Rightarrow> http_answer \<Rightarrow> check" where
  "checkKycHealth e a =
     (if \<not> kc_enabled (getKycProviderConfig e) then check_of ''disabled'' None None
      else (case raced 5000 a of
          (latency, Some (Inr (ok, st))) \<Rightarrow>
            if ok \<or> st < 500 then check_of ''healthy'' (Some latency) None
            else check_of ''unhealthy'' (Some latency) (Some (http_error st))
        | (latency, Some (Inl m)) \<Rightarrow> check_of ''unhealthy'' (Some latency) (Some m)
        | (latency, None) \<Rightarrow> check_of ''unhealthy'' (Some latency) (Some aborted)))"

record indexer_config =
  ic_ESCROW_INDEXER_ENABLED :: string
  ic_ESCROW_INDEXER_STALE_THRESHOLD_SECONDS :: rat

record indexer_check =
  ix_status :: string
  ix_elapsedSeconds :: "jsnum option"
  ix_lastAdvance :: jsval
  ix_threshold :: "rat option"
  ix_error :: "string option"

text \<open>\<open>gauge\<close> is what the method \<open>get\<close> of the metrics library returns: any value. The subtraction converts
  it to a number. The text of the error names the numbers and is left out.\<close>

definition seconds_since :: "time \<Rightarrow> jsval \<Rightarrow> jsnum" where
  "seconds_since now gauge =
     (case to_number (js_or gauge (JInt 0)) of
        NFin q \<Rightarrow> NFin (rat_of_int (now div 1000) - q) | NPosInf \<Rightarrow> NNegInf | NNegInf \<Rightarrow> NPosInf | NNaN \<Rightarrow> NNaN)"

definition exceeds :: "jsnum \<Rightarrow> rat \<Rightarrow> bool" where
  "exceeds n t = (case n of NFin q \<Rightarrow> q > t | NPosInf \<Rightarrow> True | _ \<Rightarrow> False)"

definition checkIndexerStaleness :: "string + indexer_config \<Rightarrow> time \<Rightarrow> jsval \<Rightarrow> indexer_check" where
  "checkIndexerStaleness cfg now gauge =
     (case cfg of
        Inl m \<Rightarrow> \<lparr>ix_status = ''error'', ix_elapsedSeconds = None, ix_lastAdvance = JUndef, ix_threshold = None, ix_error = Some m\<rparr>
      | Inr c \<Rightarrow>
          if ic_ESCROW_INDEXER_ENABLED c \<noteq> ''true''
          then \<lparr>ix_status = ''disabled'', ix_elapsedSeconds = None, ix_lastAdvance = JUndef, ix_threshold = None, ix_error = None\<rparr>
          else if gauge = JUndef \<or> gauge = JInt 0
          then \<lparr>ix_status = ''healthy'', ix_elapsedSeconds = None, ix_lastAdvance = JInt 0,
                ix_threshold = Some (ic_ESCROW_INDEXER_STALE_THRESHOLD_SECONDS c), ix_error = None\<rparr>
          else let elapsed = seconds_since now gauge;
                   t = ic_ESCROW_INDEXER_STALE_THRESHOLD_SECONDS c; threshold = (if t = 0 then 300 else t)
               in if exceeds elapsed threshold
                  then \<lparr>ix_status = ''stale'', ix_elapsedSeconds = Some elapsed, ix_lastAdvance = gauge, ix_threshold = Some threshold,
                        ix_error = Some ''Cursor has not advanced''\<rparr>
                  else \<lparr>ix_status = ''healthy'', ix_elapsedSeconds = Some elapsed, ix_lastAdvance = gauge,
                        ix_threshold = Some threshold, ix_error = None\<rparr>)"

definition checkStorageHealth :: "storage_env \<Rightarrow> (int \<times> (jsval + unit)) option \<Rightarrow> probe_result" where
  "checkStorageHealth e a = probeS3Connectivity e JUndef a"

definition probe_status :: "probe_result \<Rightarrow> string" where
  "probe_status r = (case r of ProbeSkipped s _ _ \<Rightarrow> s | ProbeHealthy _ \<Rightarrow> ''healthy'' | ProbeUnhealthy _ _ _ \<Rightarrow> ''unhealthy'')"

section \<open>Composition\<close>

record health_checks =
  hc_soroban :: check
  hc_database :: db_check
  hc_kyc :: check
  hc_indexer :: indexer_check
  hc_storage :: probe_result

definition performHealthChecks :: "health_checks \<Rightarrow> bool \<times> health_checks" where
  "performHealthChecks c =
     ((ck_status (hc_soroban c) = ''healthy'' \<or> ck_status (hc_soroban c) = ''unknown'') \<and>
      (ck_status (hc_kyc c) = ''healthy'' \<or> ck_status (hc_kyc c) = ''disabled'') \<and>
      (ix_status (hc_indexer c) = ''healthy'' \<or> ix_status (hc_indexer c) = ''disabled'') \<and>
      probe_status (hc_storage c) \<noteq> ''not_configured'' \<and> probe_status (hc_storage c) \<noteq> ''unhealthy'', c)"

text \<open>The readiness checks, with the value given to the gauge.\<close>

definition performReadinessChecks :: "db_check \<Rightarrow> check \<Rightarrow> probe_result \<Rightarrow> bool \<times> rat" where
  "performReadinessChecks database soroban storage =
     (let storageOk = probe_status storage \<in> {''healthy'', ''in_memory'', ''disabled''};
          dbReady = db_status database \<in> {''healthy'', ''degraded''};
          sorobanReady = ck_status soroban \<in> {''healthy'', ''degraded'', ''unknown''};
          healthy = (dbReady \<and> sorobanReady \<and> storageOk)
      in (healthy,
          if \<not> dbReady \<or> \<not> storageOk then 0
          else if db_status database = ''degraded'' \<or> ck_status soroban = ''degraded'' then 1 / 2
          else if healthy then 1 else 0))"

section \<open>The probes of the application\<close>

definition getHealth :: "string \<Rightarrow> int \<times> jsval" where
  "getHealth nowIso =
     (200, JObj [(''status'', JStr ''ok''), (''service'', JStr ''liquifact-api''), (''version'', JStr ''0.1.0''),
             (''timestamp'', JStr nowIso)])"

definition getReady :: "health_checks \<Rightarrow> int \<times> bool" where
  "getReady c = (if fst (performHealthChecks c) then (200, True) else (503, False))"

definition getReadyz :: "db_check \<Rightarrow> check \<Rightarrow> probe_result \<Rightarrow> int \<times> bool" where
  "getReadyz d s p = (if fst (performReadinessChecks d s p) then (200, True) else (503, False))"

section \<open>Lemmas\<close>

lemma timeout_bounds: "250 \<le> resolveSorobanHealthTimeoutMs e \<and> resolveSorobanHealthTimeoutMs e \<le> 10000"
  using clamp_bounds[of 250 10000]
  by (auto simp: resolveSorobanHealthTimeoutMs_def DEFAULT_SOROBAN_HEALTH_TIMEOUT_MS_def MIN_SOROBAN_HEALTH_TIMEOUT_MS_def
      MAX_SOROBAN_HEALTH_TIMEOUT_MS_def split: option.splits)

lemma raced_bound: "fst (raced tmo a) \<le> tmo"
  by (auto simp: raced_def split: option.splits)

lemma raced_answer: "raced tmo a = (l, Some r) \<longleftrightarrow> a = Some (l, r) \<and> l \<le> tmo"
  by (auto simp: raced_def split: option.splits if_splits)

lemma soroban_statuses:
  "ck_status (checkSorobanHealth e a) \<in> {''healthy'', ''degraded'', ''unknown''} \<longleftrightarrow>
     sh_SOROBAN_RPC_URL e = [] \<or>
     (\<exists>l st. a = Some (l, Inr (True, st)) \<and> l \<le> resolveSorobanHealthTimeoutMs (sh_SOROBAN_HEALTH_TIMEOUT_MS e) \<and>
        (l \<le> env_int_or (sh_SOROBAN_LATENCY_WARN_MS e) 200 \<or> l \<le> env_int_or (sh_SOROBAN_LATENCY_FAIL_MS e) 500))"
proof (cases "sh_SOROBAN_RPC_URL e = []")
  case True
  then show ?thesis by (simp add: checkSorobanHealth_def check_of_def)
next
  case False
  let ?t = "resolveSorobanHealthTimeoutMs (sh_SOROBAN_HEALTH_TIMEOUT_MS e)"
  obtain l r where r: "raced ?t a = (l, r)" by fastforce
  show ?thesis
  proof (cases r)
    case None
    then have "\<nexists>l r. a = Some (l, r) \<and> l \<le> ?t" using r by (auto simp: raced_def split: option.splits if_splits)
    then show ?thesis using False r None by (auto simp: checkSorobanHealth_def check_of_def)
  next
    case (Some x)
    then have "a = Some (l, x)" "l \<le> ?t" using r raced_answer by metis+
    then show ?thesis using False r Some
      by (cases x) (auto simp: checkSorobanHealth_def check_of_def classifySorobanLatency_def split: if_splits)
  qed
qed

lemma database_statuses:
  "db_status (checkDatabaseHealth e db a) \<in> {''healthy'', ''degraded''} \<longleftrightarrow>
     dh_DATABASE_URL e \<noteq> [] \<and> (\<exists>l. a = Some (l, Inr ()) \<and> l \<le> timer_delay (env_int_or (dh_DB_HEALTH_PROBE_TIMEOUT_MS e) 2000))"
proof -
  let ?t = "timer_delay (env_int_or (dh_DB_HEALTH_PROBE_TIMEOUT_MS e) 2000)"
  obtain l r where r: "raced ?t a = (l, r)" by fastforce
  show ?thesis
  proof (cases r)
    case None
    then have "\<nexists>l r. a = Some (l, r) \<and> l \<le> ?t" using r by (auto simp: raced_def split: option.splits if_splits)
    then show ?thesis using r None by (auto simp: checkDatabaseHealth_def Let_def)
  next
    case (Some x)
    then have "a = Some (l, x)" "l \<le> ?t" using r raced_answer by metis+
    then show ?thesis using r Some by (cases x) (auto simp: checkDatabaseHealth_def Let_def split: option.splits)
  qed
qed

lemma storage_statuses:
  "probe_status (checkStorageHealth e a) \<in> {''healthy'', ''in_memory'', ''disabled''} \<longleftrightarrow>
     isProbeExplicitlyDisabled e \<or> isInMemoryFallbackActive e \<or>
     se_S3_BUCKET e \<noteq> [] \<and> hasCredentialsConfigured e \<and> (\<exists>l. a = Some (l, Inr ()) \<and> l \<le> probe_timeout e JUndef)"
  by (auto simp: checkStorageHealth_def probe_status_def probeS3Connectivity_def getConfiguredBucket_def Let_def
      split: option.splits sum.splits prod.splits)

lemma getReadyz_ready:
  "getReadyz d s p = (200, True) \<longleftrightarrow>
     db_status d \<in> {''healthy'', ''degraded''} \<and> ck_status s \<in> {''healthy'', ''degraded'', ''unknown''} \<and>
     probe_status p \<in> {''healthy'', ''in_memory'', ''disabled''}"
  by (simp only: getReadyz_def performReadinessChecks_def Let_def fst_conv split: if_split) simp

lemma latency_bounded:
  "case ck_latency (checkSorobanHealth e a) of Some l \<Rightarrow> l \<le> 10000 | None \<Rightarrow> True"
  "case db_latency (checkDatabaseHealth de db da) of
     Some l \<Rightarrow> l \<le> timer_delay (env_int_or (dh_DB_HEALTH_PROBE_TIMEOUT_MS de) 2000) | None \<Rightarrow> True"
proof -
  have t: "fst (raced (resolveSorobanHealthTimeoutMs (sh_SOROBAN_HEALTH_TIMEOUT_MS e)) a) \<le> 10000"
    using raced_bound timeout_bounds order.trans by blast
  show "case ck_latency (checkSorobanHealth e a) of Some l \<Rightarrow> l \<le> 10000 | None \<Rightarrow> True"
    using t by (auto simp: checkSorobanHealth_def check_of_def split: option.splits sum.splits prod.splits)
  show "case db_latency (checkDatabaseHealth de db da) of
     Some l \<Rightarrow> l \<le> timer_delay (env_int_or (dh_DB_HEALTH_PROBE_TIMEOUT_MS de) 2000) | None \<Rightarrow> True"
    using raced_bound[of "timer_delay (env_int_or (dh_DB_HEALTH_PROBE_TIMEOUT_MS de) 2000)" da]
    by (auto simp: checkDatabaseHealth_def Let_def split: option.splits sum.splits prod.splits)
qed


text \<open>Divergences between the probes and their descriptions: the full check ignores the database and is
  failed by a slow Soroban server, the gauge may show a degraded service that is not ready, and a gauge
  whose \<open>get\<close> returns an object (a promise) never becomes stale.\<close>

lemma ready_ignores_database: "getReady (c\<lparr>hc_database := d\<rparr>) = getReady c"
  by (simp add: getReady_def performHealthChecks_def)

lemma slow_soroban_not_ready: "ck_status (hc_soroban c) = ''degraded'' \<Longrightarrow> getReady c = (503, False)"
  by (simp add: getReady_def performHealthChecks_def)

lemma gauge_half_not_ready:
  assumes "db_status d = ''degraded''" "ck_status s = ''unhealthy''" "probe_status p = ''healthy''"
  shows "performReadinessChecks d s p = (False, 1 / 2)"
  using assms by (simp add: performReadinessChecks_def Let_def)

lemma promise_never_stale:
  assumes "ic_ESCROW_INDEXER_ENABLED c = ''true''"
  shows "ix_status (checkIndexerStaleness (Inr c) now (JObj kvs)) = ''healthy''"
  using assms by (simp add: checkIndexerStaleness_def seconds_since_def exceeds_def js_or_def Let_def)

text \<open>With a number the cursor is stale exactly when it has not advanced for longer than the threshold.\<close>

lemma staleness_exact:
  assumes "ic_ESCROW_INDEXER_ENABLED c = ''true''" "t \<noteq> 0" "0 < ic_ESCROW_INDEXER_STALE_THRESHOLD_SECONDS c"
  shows "ix_status (checkIndexerStaleness (Inr c) now (JInt t)) =
    (if rat_of_int (now div 1000 - t) > ic_ESCROW_INDEXER_STALE_THRESHOLD_SECONDS c then ''stale'' else ''healthy'')"
  using assms by (simp add: checkIndexerStaleness_def seconds_since_def exceeds_def js_or_def Let_def)

text \<open>A negative timeout of the database probe is a timer of one millisecond.\<close>

lemma negative_probe_timeout: "timer_delay (env_int_or ''-2000'' 2000) = 1"
  by code_simp

end
