(* ===== verification/InvestorRoutes.thy ===== *)
theory InvestorRoutes
  imports Commitment CacheStore QueryParams
begin

text \<open>
  The investor routes: \<open>src/src/routes/investor.js\<close>, behind the response cache. The handlers are
  functions of the authenticated principal, the query and the store of locks; the middleware in front of
  them is \<open>cacheResponse\<close> of theory \<open>CacheStore\<close> with the keys of the principal.
\<close>

section \<open>Answers\<close>

definition CACHE_TTL_MS :: int where "CACHE_TTL_MS = 15000"

definition error_json :: "int \<Rightarrow> string \<Rightarrow> int \<times> jsval" where
  "error_json st m = (st, JObj [(''error'', JStr m)])"

definition lock_json :: "investor_lock \<Rightarrow> jsval" where
  "lock_json l =
     JObj [(''funderAddress'', JStr (lk_funderAddress l)), (''claimNotBefore'', JStr (lk_claimNotBefore l)),
           (''investorEffectiveYieldBps'', JInt (lk_yieldBps l)), (''invoiceId'', JStr (lk_invoiceId l)),
           (''stale'', JBool (lk_stale l))]"

definition locks_json :: "lock_page \<Rightarrow> jsval" where
  "locks_json p =
     JObj [(''data'', JArr (map lock_json (pg_data p))),
           (''meta'', JObj [(''total'', JInt (int (pg_total p))), (''page'', JInt (pg_page p)), (''limit'', JInt (pg_limit p)),
              (''totalPages'', JInt (pg_totalPages p)), (''hasMore'', JBool (pg_hasMore p)),
              (''stale'', JBool (list_ex lk_stale (pg_data p)))]),
           (''message'', JStr ''Investor locks retrieved.'')]"

section \<open>GET /locks\<close>

text \<open>A number of the query: refused unless it is in the range, and its default when it is absent.\<close>

definition query_int :: "jsval \<Rightarrow> int option \<Rightarrow> int \<Rightarrow> int option" where
  "query_int raw hi dflt =
     (if raw = JUndef then Some dflt
      else (case parse_int raw of
          None \<Rightarrow> None
        | Some v \<Rightarrow> if v < 1 \<or> (case hi of Some h \<Rightarrow> v > h | None \<Rightarrow> False) then None else Some v))"

text \<open>The filter on the invoice compares with \<open>===\<close>: a value that is no string matches nothing.\<close>

definition for_invoice :: "(string option \<Rightarrow> lock_store \<Rightarrow> lock_page) \<Rightarrow> jsval \<Rightarrow> lock_store \<Rightarrow> lock_page" where
  "for_invoice f invoiceId m =
     (case invoiceId of JStr i \<Rightarrow> f (Some i) m | v \<Rightarrow> if truthy v then f None [] else f None m)"

definition authorised_scope ::
  "(string \<Rightarrow> bool) \<Rightarrow> (string \<Rightarrow> bool) \<Rightarrow> jsval \<Rightarrow> string option \<Rightarrow> (int \<times> jsval) + string option" where
  "authorised_scope pk ct user requested =
     (if isInvestorLockAdmin user then Inr requested
      else (case getBoundFunderAddress user of
          None \<Rightarrow> Inl (error_json 403 ''Authenticated investor is not bound to a funderAddress'')
        | Some b \<Rightarrow>
            if validateAddress pk ct (JStr b) \<noteq> None
            then Inl (error_json 403 ''Authenticated investor has an invalid bound funderAddress'')
            else if (case requested of Some r \<Rightarrow> r \<noteq> [] \<and> r \<noteq> b | None \<Rightarrow> False)
            then Inl (error_json 403 ''funderAddress is not authorized for this caller'')
            else Inr (Some b)))"

definition answer_locks ::
  "(string \<Rightarrow> bool) \<Rightarrow> (string \<Rightarrow> bool) \<Rightarrow> jsval \<Rightarrow> string option \<Rightarrow> int \<Rightarrow> int \<Rightarrow> jsval \<Rightarrow> lock_store \<Rightarrow> int \<times> jsval" where
  "answer_locks pk ct user requested lmt pg invoiceId m =
     (case authorised_scope pk ct user requested of
        Inl e \<Rightarrow> e
      | Inr effective \<Rightarrow>
          (200, locks_json
             (case effective of
                Some (x # xs) \<Rightarrow> for_invoice (\<lambda>i. getInvestorLocksByAddress (x # xs) i lmt pg) invoiceId m
              | _ \<Rightarrow> for_invoice (\<lambda>i. getAllInvestorLocks i lmt pg) invoiceId m)))"

definition getLocks ::
  "(string \<Rightarrow> bool) \<Rightarrow> (string \<Rightarrow> bool) \<Rightarrow> jsval \<Rightarrow> jsval \<Rightarrow> lock_store \<Rightarrow> int \<times> jsval" where
  "getLocks pk ct user query m =
     (let given = (case query of JObj kvs \<Rightarrow> amap_has kvs ''funderAddress'' | _ \<Rightarrow> False);
          requested = (if given then (case js_get query ''funderAddress'' of JStr s \<Rightarrow> Some (trim s) | _ \<Rightarrow> None) else None) in
      if given \<and> requested = None then error_json 400 ''funderAddress must be a single string value''
      else (case (if given then validateAddress pk ct (JStr (the requested)) else None) of
          Some why \<Rightarrow> error_json 400 why
        | None \<Rightarrow>
            (case query_int (js_get query ''limit'') (Some 100) 20 of
               None \<Rightarrow> error_json 400 ''limit must be an integer between 1 and 100''
             | Some lmt \<Rightarrow>
                 (case query_int (js_get query ''page'') None 1 of
                    None \<Rightarrow> error_json 400 ''page must be an integer >= 1''
                  | Some pg \<Rightarrow>
                      answer_locks pk ct user requested lmt pg (js_get query ''invoiceId'') m))))"

section \<open>GET /locks/:invoiceId\<close>

definition getLock ::
  "(string \<Rightarrow> bool) \<Rightarrow> (string \<Rightarrow> bool) \<Rightarrow> jsval \<Rightarrow> string \<Rightarrow> jsval \<Rightarrow> lock_store \<Rightarrow> int \<times> jsval" where
  "getLock pk ct user invoiceId funderAddress m =
     (if \<not> truthy funderAddress then error_json 400 ''funderAddress query parameter is required''
      else (case validateAddress pk ct funderAddress of
          Some why \<Rightarrow> error_json 400 why
        | None \<Rightarrow>
            let requested = (case funderAddress of JStr s \<Rightarrow> trim s | _ \<Rightarrow> []) in
            (case (if isInvestorLockAdmin user then None
                   else (case getBoundFunderAddress user of
                       None \<Rightarrow> Some (error_json 403 ''Authenticated investor is not bound to a funderAddress'')
                     | Some b \<Rightarrow>
                         if validateAddress pk ct (JStr b) \<noteq> None
                         then Some (error_json 403 ''Authenticated investor has an invalid bound funderAddress'')
                         else if requested \<noteq> b then Some (error_json 403 ''funderAddress is not authorized for this caller'')
                         else None)) of
               Some e \<Rightarrow> e
             | None \<Rightarrow>
                 (case getInvestorLock invoiceId requested m of
                    None \<Rightarrow> error_json 404 ''Lock not found''
                  | Some l \<Rightarrow> (200, JObj [(''data'', lock_json l), (''message'', JStr ''Investor lock retrieved.'')])))))"

section \<open>Requests through the cache\<close>

record lock_request =
  lr_user :: jsval
  lr_tenant :: "string option"
  lr_url :: string
  lr_query :: jsval
  lr_cacheControl :: "string option"
  lr_now :: time
  lr_later :: time
  lr_get_ok :: bool
  lr_set_ok :: bool
  lr_locks :: lock_store

definition locks_key :: "lock_request \<Rightarrow> string" where
  "locks_key rq = makeInvestorLocksKey (lr_tenant rq) (lr_user rq) (lr_url rq)"

definition serve_locks ::
  "(string \<Rightarrow> bool) \<Rightarrow> (string \<Rightarrow> bool) \<Rightarrow> lock_request \<Rightarrow> jsval mem_cache \<Rightarrow> cache_response \<times> jsval mem_cache" where
  "serve_locks pk ct rq c =
     cacheResponse CACHE_TTL_MS (lr_get_ok rq) (lr_set_ok rq) (lr_now rq) (lr_later rq)
       \<lparr>cacheControl = lr_cacheControl rq, req_key = locks_key rq\<rparr>
       (getLocks pk ct (lr_user rq) (lr_query rq) (lr_locks rq)) c"

fun serve_all ::
  "(string \<Rightarrow> bool) \<Rightarrow> (string \<Rightarrow> bool) \<Rightarrow> lock_request list \<Rightarrow> jsval mem_cache \<Rightarrow> (lock_request \<times> jsval) list" where
  "serve_all pk ct [] c = []"
| "serve_all pk ct (rq # rqs) c =
     (case serve_locks pk ct rq c of (r, c') \<Rightarrow> (rq, sent r) # serve_all pk ct rqs c')"

section \<open>Lemmas\<close>

text \<open>A body that shows locks of one funder only.\<close>

definition own_locks :: "string \<Rightarrow> jsval \<Rightarrow> bool" where
  "own_locks a body \<longleftrightarrow> (\<forall>ls. js_get body ''data'' = JArr ls \<longrightarrow> (\<forall>l\<in>set ls. js_get l ''funderAddress'' = JStr a))"

lemma own_locks_error [simp]: "own_locks a (snd (error_json st m))"
  by (simp add: own_locks_def error_json_def)

lemma for_invoice_by_address:
  "l \<in> set (pg_data (for_invoice (\<lambda>i. getInvestorLocksByAddress a i lmt pg) v m)) \<Longrightarrow> lk_funderAddress l = a"
  by (auto simp: for_invoice_def getInvestorLocksByAddress_def page_of_def invoice_filter_def Let_def
      dest!: in_set_takeD in_set_dropD split: jsval.splits option.splits if_splits)

lemma own_locks_page:
  assumes "\<And>l. l \<in> set (pg_data p) \<Longrightarrow> lk_funderAddress l = a"
  shows "own_locks a (locks_json p)"
  using assms by (auto simp: own_locks_def locks_json_def lock_json_def)

lemma authorised_bound:
  assumes "\<not> isInvestorLockAdmin user" "authorised_scope pk ct user requested = Inr eff"
  shows "\<exists>x xs. getBoundFunderAddress user = Some (x # xs) \<and> eff = Some (x # xs)"
proof -
  from assms obtain b where b: "getBoundFunderAddress user = Some b" "eff = Some b" "validateAddress pk ct (JStr b) = None"
    by (auto simp: authorised_scope_def split: option.splits if_splits)
  then have "b \<noteq> []" by (auto simp: validateAddress_def)
  then show ?thesis using b by (cases b) auto
qed

lemma answer_locks_own:
  assumes "\<not> isInvestorLockAdmin user"
  shows "getBoundFunderAddress user = Some a \<Longrightarrow> own_locks a (snd (answer_locks pk ct user requested lmt pg v m))"
    "fst (answer_locks pk ct user requested lmt pg v m) = 200 \<Longrightarrow> getBoundFunderAddress user \<noteq> None"
proof -
  show "own_locks a (snd (answer_locks pk ct user requested lmt pg v m))" if a: "getBoundFunderAddress user = Some a"
  proof (cases "authorised_scope pk ct user requested")
    case (Inl e)
    then show ?thesis using a assms by (auto simp: answer_locks_def authorised_scope_def split: if_splits option.splits)
  next
    case (Inr eff)
    from authorised_bound[OF assms this] obtain x xs where "a = x # xs" "eff = Some (x # xs)" using a by auto
    then show ?thesis using Inr by (auto simp: answer_locks_def intro!: own_locks_page dest: for_invoice_by_address)
  qed
  show "getBoundFunderAddress user \<noteq> None" if "fst (answer_locks pk ct user requested lmt pg v m) = 200"
    using that assms by (auto simp: answer_locks_def authorised_scope_def error_json_def split: option.splits)
qed

lemma getLocks_cases:
  "(\<exists>m0. getLocks pk ct user query m = error_json 400 m0) \<or>
   (\<exists>requested lmt pg. getLocks pk ct user query m =
      answer_locks pk ct user requested lmt pg (js_get query ''invoiceId'') m)"
  unfolding getLocks_def Let_def
  by (split if_split, intro conjI impI, blast, split option.split, intro conjI impI allI, split option.split,
      intro conjI impI allI, blast, split option.split, intro conjI impI allI, blast, blast, blast)

lemma getLocks_own:
  assumes "\<not> isInvestorLockAdmin user"
  shows "getBoundFunderAddress user = Some a \<Longrightarrow> own_locks a (snd (getLocks pk ct user query m))"
    "fst (getLocks pk ct user query m) = 200 \<Longrightarrow> getBoundFunderAddress user \<noteq> None"
proof -
  consider (refused) m0 where "getLocks pk ct user query m = error_json 400 m0"
    | (answered) requested lmt pg where
        "getLocks pk ct user query m = answer_locks pk ct user requested lmt pg (js_get query ''invoiceId'') m"
    using getLocks_cases by blast
  note c = this
  show "own_locks a (snd (getLocks pk ct user query m))" if "getBoundFunderAddress user = Some a"
    using c by cases (simp_all add: answer_locks_own(1)[OF assms that])
  show "getBoundFunderAddress user \<noteq> None" if "fst (getLocks pk ct user query m) = 200"
    using c by cases (use that answer_locks_own(2)[OF assms] in \<open>simp_all add: error_json_def\<close>)
qed

lemma getLocks_status: "200 \<le> fst (getLocks pk ct user query m) \<and> fst (getLocks pk ct user query m) < 300 \<Longrightarrow>
    fst (getLocks pk ct user query m) = 200"
  using getLocks_cases[of pk ct user query m]
  by (auto simp: error_json_def answer_locks_def authorised_scope_def split: sum.splits option.splits if_splits)

section \<open>Scopes of the cache\<close>

definition scope_address :: "jsval \<Rightarrow> string" where
  "scope_address user = (case getBoundFunderAddress user of None \<Rightarrow> ''unbound'' | Some a \<Rightarrow> a)"

text \<open>Tenants and addresses are separated by colons in a key.\<close>

definition colon_free :: "lock_request \<Rightarrow> bool" where
  "colon_free rq \<longleftrightarrow> CHR '':'' \<notin> set (tenant_or_unknown (lr_tenant rq)) \<and> CHR '':'' \<notin> set (scope_address (lr_user rq))"

lemma locks_key_scope:
  assumes "locks_key r1 = locks_key r2" "colon_free r1" "colon_free r2" "\<not> isInvestorLockAdmin (lr_user r2)"
  shows "\<not> isInvestorLockAdmin (lr_user r1) \<and> scope_address (lr_user r1) = scope_address (lr_user r2)"
proof -
  let ?t = "\<lambda>r. tenant_or_unknown (lr_tenant r)" and ?s = "\<lambda>r. getInvestorLockPrincipalScope (lr_user r)"
  have "?t r1 @ '':'' @ (?s r1 @ '':'' @ lr_url r1) = ?t r2 @ '':'' @ (?s r2 @ '':'' @ lr_url r2)"
    using assms(1) by (simp add: locks_key_def makeInvestorLocksKey_def)
  from split_at_colon[OF _ _ this] assms(2,3) have s: "?s r1 @ '':'' @ lr_url r1 = ?s r2 @ '':'' @ lr_url r2"
    by (simp add: colon_free_def)
  have s2: "?s r2 = ''funder:'' @ scope_address (lr_user r2)"
    using assms(4) by (simp add: getInvestorLockPrincipalScope_def scope_address_def)
  then have n1: "\<not> isInvestorLockAdmin (lr_user r1)" using s by (auto simp: getInvestorLockPrincipalScope_def)
  then have "?s r1 = ''funder:'' @ scope_address (lr_user r1)"
    by (simp add: getInvestorLockPrincipalScope_def scope_address_def)
  then have "scope_address (lr_user r1) @ '':'' @ lr_url r1 = scope_address (lr_user r2) @ '':'' @ lr_url r2"
    using s s2 by simp
  from split_at_colon[OF _ _ this] assms(2,3) n1 show ?thesis by (simp add: colon_free_def)
qed

text \<open>Every entry of the cache is fit for every request that would be served with it.\<close>

definition cache_scoped :: "jsval mem_cache \<Rightarrow> bool" where
  "cache_scoped c \<longleftrightarrow>
     (\<forall>rq body e. colon_free rq \<and> \<not> isInvestorLockAdmin (lr_user rq) \<and> store_peek c (locks_key rq) = Some (body, e) \<longrightarrow>
        own_locks (scope_address (lr_user rq)) body)"

lemma cache_scoped_get: "cache_scoped c \<Longrightarrow> cache_scoped (snd (cache_get t k c))"
  using peek_get unfolding cache_scoped_def by blast

lemma cache_scoped_set:
  assumes "cache_scoped c" "store_ok c" "colon_free rq" "fst (getLocks pk ct (lr_user rq) q m) = 200"
  shows "cache_scoped (cache_set t (locks_key rq) (snd (getLocks pk ct (lr_user rq) q m)) ttl c)"
  unfolding cache_scoped_def
proof (intro allI impI, elim conjE)
  fix r body e
  assume r: "colon_free r" "\<not> isInvestorLockAdmin (lr_user r)"
    and p: "store_peek (cache_set t (locks_key rq) (snd (getLocks pk ct (lr_user rq) q m)) ttl c) (locks_key r) = Some (body, e)"
  show "own_locks (scope_address (lr_user r)) body"
  proof (cases "locks_key r = locks_key rq")
    case True
    from locks_key_scope[OF True[symmetric] assms(3) r(1,2)]
    have s: "\<not> isInvestorLockAdmin (lr_user rq)" "scope_address (lr_user rq) = scope_address (lr_user r)" by simp_all
    obtain a where a: "getBoundFunderAddress (lr_user rq) = Some a" using getLocks_own(2)[OF s(1) assms(4)] by blast
    have "body = snd (getLocks pk ct (lr_user rq) q m)" using peek_set_same[OF assms(2)] p True by fastforce
    then show ?thesis using getLocks_own(1)[OF s(1) a] s(2) a by (simp add: scope_address_def)
  next
    case False
    then show ?thesis using peek_set_other[OF assms(2) False p] assms(1) r by (auto simp: cache_scoped_def)
  qed
qed

lemma serve_locks_step:
  assumes "serve_locks pk ct rq c = (r, c')" "cache_scoped c" "store_ok c" "colon_free rq"
  shows "cache_scoped c' \<and> store_ok c' \<and>
    (\<not> isInvestorLockAdmin (lr_user rq) \<longrightarrow> getBoundFunderAddress (lr_user rq) = Some a \<longrightarrow> own_locks a (sent r))"
proof -
  let ?h = "getLocks pk ct (lr_user rq) (lr_query rq) (lr_locks rq)"
  obtain v c1 where g: "cache_get (lr_now rq) (locks_key rq) c = (v, c1)" by fastforce
  have c1: "cache_scoped c1" "store_ok c1"
    using cache_scoped_get[OF assms(2), of "lr_now rq" "locks_key rq"] store_ok_get[OF assms(3), of "lr_now rq" "locks_key rq"] g
    by simp_all
  have set: "cache_scoped (cache_set t (locks_key rq) (snd ?h) ttl c1) \<and> store_ok (cache_set t (locks_key rq) (snd ?h) ttl c1)"
    if "200 \<le> fst ?h" "fst ?h < 300" for t ttl
    using cache_scoped_set[OF c1 assms(4)] store_ok_set[OF c1(2)] getLocks_status that by blast
  have hit: "own_locks (scope_address (lr_user rq)) b" if "v = Some b" "\<not> isInvestorLockAdmin (lr_user rq)" for b
    using mem.get_hit[OF assms(3), of "lr_now rq" "locks_key rq" b] g that assms(2,4) by (auto simp: cache_scoped_def)
  have own: "own_locks a (snd ?h)" if "\<not> isInvestorLockAdmin (lr_user rq)" "getBoundFunderAddress (lr_user rq) = Some a"
    using getLocks_own(1) that by blast
  show ?thesis
    using assms(1) g c1 set hit own assms(2,3)
    by (auto simp: serve_locks_def cacheResponse_def Let_def scope_address_def split: if_splits option.splits)
qed


definition sample_lock :: "string \<Rightarrow> investor_lock" where
  "sample_lock a = \<lparr>lk_funderAddress = a, lk_claimNotBefore = ''2026-01-01'', lk_yieldBps = 5, lk_invoiceId = ''i1'', lk_stale = True\<rparr>"

definition sample_lock_request :: "string \<Rightarrow> lock_request" where
  "sample_lock_request a =
     \<lparr>lr_user = JObj [(''funderAddress'', JStr a)], lr_tenant = Some ''t1'', lr_url = ''/locks'', lr_query = JObj [],
      lr_cacheControl = None, lr_now = 0, lr_later = 1, lr_get_ok = True, lr_set_ok = True,
      lr_locks = [(''i1:GA'', sample_lock ''GA''), (''i1:GB'', sample_lock ''GB'')]\<rparr>"

definition sample_served :: "(lock_request \<times> jsval) list" where
  "sample_served = serve_all (\<lambda>_. True) (\<lambda>_. True) [sample_lock_request ''GA'', sample_lock_request ''GB''] (new_MemoryCacheStore None)"


text \<open>A request for another funder is refused, and one without a bound address never succeeds.\<close>

lemma foreign_funder_refused:
  assumes "\<not> isInvestorLockAdmin user" "getBoundFunderAddress user = Some b" "validateAddress pk ct (JStr b) = None"
    "a \<noteq> b" "a \<noteq> []"
  shows "authorised_scope pk ct user (Some a) = Inl (error_json 403 ''funderAddress is not authorized for this caller'')"
  using assms by (simp add: authorised_scope_def)

text \<open>A single lock is shown only to its funder or an administrator, and it is the lock of that invoice.\<close>

lemma single_lock_own:
  assumes "getLock pk ct user i (JStr f) m = (200, body)"
  shows "(isInvestorLockAdmin user \<or> getBoundFunderAddress user = Some (trim f)) \<and>
    (\<exists>l. getInvestorLock i (trim f) m = Some l \<and> js_get body ''data'' = lock_json l)"
  using assms by (auto simp: getLock_def Let_def error_json_def split: option.splits if_splits)

end
