(* ===== verification/ReadRoutes.thy ===== *)
theory ReadRoutes
  imports Marketplace EscrowDerived EscrowMap HttpErrors Auth
begin

text \<open>
  Routes that read: \<open>src/src/routes/marketplace.js\<close>, \<open>src/src/routes/reconciliation.js\<close>,
  \<open>src/src/routes/sme/metrics.js\<close>, and the handlers for invoices and escrow states of
  \<open>src/src/app.js\<close> and \<open>src/src/routes/v1/index.js\<close>. The authentication in front of them is in theory
  \<open>Auth\<close>, the response cache in \<open>CacheStore\<close>.
\<close>

text \<open>\<open>RNext\<close> is an error passed to the error handler, \<open>RUnhandled\<close> a rejection nobody handles.\<close>

datatype 'a route_result = RJson int jsval | ROk 'a | RNext | RUnhandled

section \<open>Marketplace\<close>

definition validation_problem :: "(string \<times> string) list \<Rightarrow> 'a route_result" where
  "validation_problem errs =
     RJson 400 (JObj [(''type'', JStr ''https://liquifact.io/problems/validation-error''), (''title'', JStr ''Validation Error''),
        (''status'', JInt 400), (''detail'', JStr ''Query parameters contain invalid values.''),
        (''fieldErrors'', JObj (map (\<lambda>(k, m). (k, JStr m)) errs))])"

definition market_params_of :: "validated \<Rightarrow> market_params" where
  "market_params_of v =
     \<lparr>mp_filters = v_filters v, mp_sortBy = js_get (JObj (v_sorting v)) ''sortBy'', mp_order = js_get (JObj (v_sorting v)) ''order'',
      mp_cursor = js_get (JObj (v_pagination v)) ''cursor'', mp_page = js_get (JObj (v_pagination v)) ''page'',
      mp_limit = js_get (JObj (v_pagination v)) ''limit''\<rparr>"

definition public_status :: "jsval \<Rightarrow> bool" where
  "public_status st \<longleftrightarrow> (\<exists>s\<in>set INVESTABLE_STATUSES. st = JStr s)"

definition getMarketplace ::
  "codec \<Rightarrow> cursor_env \<Rightarrow> (jsval \<Rightarrow> rat option) \<Rightarrow> (string \<Rightarrow> bool) \<Rightarrow> time \<Rightarrow> string \<Rightarrow> jsval \<Rightarrow> table \<Rightarrow> market_page route_result" where
  "getMarketplace cdc env rank dparse now tenantId query t =
     (case validateMarketplaceQueryParams dparse query of
        None \<Rightarrow> RNext
      | Some v \<Rightarrow>
          let st = js_get (JObj (v_filters v)) ''status'' in
          if fieldErrors v \<noteq> [] then validation_problem (fieldErrors v)
          else if truthy st \<and> \<not> public_status st
          then validation_problem [(''status'', ''Invalid status for marketplace. Must be one of: '' @ join_comma INVESTABLE_STATUSES)]
          else (case getMarketplaceInvoices cdc env rank now tenantId (market_params_of v) t of
              Inl (CursorFailure (CursorError m)) \<Rightarrow> validation_problem [(''cursor'', m)]
            | Inl _ \<Rightarrow> RNext
            | Inr p \<Rightarrow> ROk p))"

section \<open>Reconciliation runs\<close>

definition MAX_LIMIT :: int where "MAX_LIMIT = 100"
definition DEFAULT_LIMIT :: int where "DEFAULT_LIMIT = 20"

definition run_columns :: "string list" where
  "run_columns = [''id'', ''total'', ''matches'', ''mismatches'', ''errors'', ''reconciled_at'', ''created_at'']"

definition select_run :: "row \<Rightarrow> row" where
  "select_run r = map (\<lambda>c. (c, col c r)) run_columns"

text \<open>\<open>orderBy('reconciled_at', 'desc').limit(l).offset(o)\<close>\<close>

definition newest_first :: "(jsval \<Rightarrow> rat) \<Rightarrow> table \<Rightarrow> table" where
  "newest_first rank t = sort_key (\<lambda>r. - rank (col ''reconciled_at'' r)) t"

definition run_page :: "(jsval \<Rightarrow> rat) \<Rightarrow> int \<Rightarrow> int \<Rightarrow> table \<Rightarrow> table" where
  "run_page rank lmt pg t = map select_run (take (nat lmt) (drop (nat ((pg - 1) * lmt)) (newest_first rank t)))"

record runs_answer =
  ra_data :: table
  ra_total :: nat
  ra_page :: int
  ra_limit :: int
  ra_totalPages :: int
  ra_hasMore :: bool

definition total_pages :: "int \<Rightarrow> table \<Rightarrow> int" where
  "total_pages lmt t = (int (length t) + lmt - 1) div lmt"

text \<open>\<open>db_ok\<close>: both queries succeed.\<close>

definition getRuns :: "(jsval \<Rightarrow> rat) \<Rightarrow> string \<Rightarrow> bool \<Rightarrow> jsval \<Rightarrow> table \<Rightarrow> runs_answer route_result" where
  "getRuns rank now db_ok query t =
     (let rawLimit = js_get query ''limit''; rawPage = js_get query ''page'';
          bad = (\<lambda>m. RJson 400 (error_envelope now (JStr m) ''INVALID_PAGINATION'' JNull)) in
      if rawLimit \<noteq> JUndef \<and> (case parse_int rawLimit of Some v \<Rightarrow> v < 1 \<or> v > MAX_LIMIT | None \<Rightarrow> True)
      then bad (''limit must be an integer between 1 and '' @ show_int MAX_LIMIT)
      else if rawPage \<noteq> JUndef \<and> (case parse_int rawPage of Some v \<Rightarrow> v < 1 | None \<Rightarrow> True)
      then bad ''page must be an integer >= 1''
      else let lmt = (if rawLimit = JUndef then DEFAULT_LIMIT else min (the (parse_int rawLimit)) MAX_LIMIT);
               pg = (if rawPage = JUndef then 1 else max 1 (the (parse_int rawPage)))
           in if \<not> db_ok then RNext
              else ROk \<lparr>ra_data = run_page rank lmt pg t, ra_total = length t, ra_page = pg, ra_limit = lmt,
                        ra_totalPages = total_pages lmt t, ra_hasMore = (pg < total_pages lmt t)\<rparr>)"

section \<open>SME metrics\<close>

text \<open>The service exports no \<open>getSmeInvoiceCounts\<close>: \<open>counts\<close> is None.\<close>

definition getSmeMetrics :: "string \<Rightarrow> (string \<Rightarrow> jsval \<Rightarrow> jsval) option \<Rightarrow> jsval \<Rightarrow> string \<Rightarrow> jsval route_result" where
  "getSmeMetrics now counts user tenantId =
     (if tenantId = [] then RJson 400 (JObj [(''error'', JStr ''Bad Request''), (''message'', JStr ''Tenant context required'')])
      else (case counts of
          None \<Rightarrow> RNext
        | Some f \<Rightarrow> ROk (f tenantId (js_or (js_get user ''id'') (js_get user ''sub'')))))"

definition exported_counts :: "(string \<Rightarrow> jsval \<Rightarrow> jsval) option" where
  "exported_counts = None"

section \<open>Invoices of the application\<close>

definition text_opt :: "jsval \<Rightarrow> string option" where
  "text_opt v = (case v of JStr s \<Rightarrow> Some s | _ \<Rightarrow> None)"

text \<open>The handler is asynchronous and without \<open>catch\<close>.\<close>

definition getInvoicesRoute ::
  "(jsval \<Rightarrow> jsval \<Rightarrow> bool) \<Rightarrow> (jsval \<Rightarrow> rat) \<Rightarrow> (string \<Rightarrow> bool) \<Rightarrow> jsval \<Rightarrow> table \<Rightarrow> table route_result" where
  "getInvoicesRoute le rank dparse query t =
     (case validateInvoiceQueryParams dparse query of
        None \<Rightarrow> RUnhandled
      | Some v \<Rightarrow>
          if fieldErrors v \<noteq> [] then validation_problem (fieldErrors v)
          else (case getInvoices le rank (QueryArg (v_filters v) (text_opt (js_get (JObj (v_sorting v)) ''sortBy''))
                        (text_opt (js_get (JObj (v_sorting v)) ''order''))) JUndef t of
              Inr rows \<Rightarrow> ROk rows
            | Inl _ \<Rightarrow> RUnhandled))"

text \<open>\<open>schema_ok\<close> is the verdict of the Zod schema.\<close>

definition postInvoicesRoute :: "bool \<Rightarrow> jsval \<Rightarrow> jsval route_result" where
  "postInvoicesRoute schema_ok errs =
     (if \<not> schema_ok
      then RJson 400 (JObj [(''type'', JStr ''https://liquifact.io/problems/validation-error''), (''title'', JStr ''Validation Error''),
             (''status'', JInt 400), (''detail'', JStr ''Invoice payload contains invalid or missing fields.''), (''fieldErrors'', errs)])
      else RJson 201 (JObj [(''data'', JObj [(''id'', JStr ''placeholder''), (''status'', JStr ''pending_verification'')]),
             (''message'', JStr ''Invoice upload will be implemented with verification and tokenization.'')]))"

section \<open>Escrow states\<close>

definition clean_id :: "string \<Rightarrow> string" where
  "clean_id s = filter (\<lambda>c. \<not> is_ws c) (trim s)"

definition map_error_text :: "(jsval \<Rightarrow> string) \<Rightarrow> escrow_map_error \<Rightarrow> string" where
  "map_error_text str e =
     (case e of
        EscrowNotFoundError i \<Rightarrow> ''No active escrow contract mapped for invoiceId: '' @ str i
      | EscrowMapConfigError m \<Rightarrow> m
      | EscrowMapTypeError \<Rightarrow> ''Cannot read properties of null'')"

definition num_or_null :: "rat option \<Rightarrow> jsval" where
  "num_or_null q = (case q of Some x \<Rightarrow> JNum (NFin x) | None \<Rightarrow> JNull)"

text \<open>\<open>{...state, ...derived, escrowAddress}\<close>\<close>

definition escrow_data :: "jsval \<Rightarrow> derived_fields \<Rightarrow> jsval \<Rightarrow> jsval" where
  "escrow_data st d escrowAddress =
     JObj (AList.update ''escrowAddress'' escrowAddress
       (AList.update ''daysToMaturity'' (num_or_null (map_option rat_of_int (daysToMaturity d)))
         (AList.update ''fundedPercent'' (num_or_null (fundedPercent d))
           (AList.update ''apyPercent'' (num_or_null (apyPercent d)) (EscrowRead.spread st)))))"

definition state_message :: "jsval \<Rightarrow> string" where
  "state_message st =
     (if truthy (js_get st ''fromProjection'') then ''Escrow state read from event projection.''
      else ''Escrow state read from live Soroban contract.'')"

definition escrow_json :: "jsval \<Rightarrow> derived_fields \<Rightarrow> jsval \<Rightarrow> jsval" where
  "escrow_json st d a = JObj [(''data'', escrow_data st d a), (''message'', JStr (state_message st))]"

definition no_mapping :: "string \<Rightarrow> 'a route_result" where
  "no_mapping i = RJson 404 (JObj [(''error'', JStr (''No escrow contract mapping found for invoice ID '' @ [CHR 39] @ i @ [CHR 39]))])"

definition error_500 :: "string \<Rightarrow> 'a route_result" where
  "error_500 m = RJson 500 (JObj [(''error'', JStr (if m = [] then ''Error fetching escrow state'' else m))])"

definition error_text :: "jsval \<Rightarrow> string" where
  "error_text e = (case js_get e ''message'' of JStr m \<Rightarrow> m | _ \<Rightarrow> [])"

text \<open>\<open>state\<close> and \<open>resolved\<close> are the outcomes of the two services for an invoice; the wall clock is the
  reference time.\<close>

definition getEscrowRoute ::
  "(jsval \<Rightarrow> string) \<Rightarrow> (jsval \<Rightarrow> time option) \<Rightarrow> time \<Rightarrow> (jsval \<Rightarrow> escrow_map_error + jsval) \<Rightarrow> (string \<Rightarrow> jsval + jsval) \<Rightarrow>
   string \<Rightarrow> jsval route_result" where
  "getEscrowRoute str parse wall resolved state0 param =
     (let invoiceId = clean_id param in
      case resolved (JStr invoiceId) of
        Inl e \<Rightarrow> error_500 (map_error_text str e)
      | Inr escrowAddress \<Rightarrow>
          if \<not> truthy escrowAddress then no_mapping invoiceId
          else (case state0 invoiceId of
              Inl e \<Rightarrow> error_500 (error_text e)
            | Inr st \<Rightarrow>
                ROk (escrow_json st (computeEscrowDerivedFields parse wall st (ObjOpt \<lparr>ledgerCloseTime = DVal JUndef, opt_now = DVal JUndef\<rparr>))
                       escrowAddress)))"

definition v1_getEscrow ::
  "(jsval \<Rightarrow> time option) \<Rightarrow> time \<Rightarrow> (jsval \<Rightarrow> escrow_map_error + jsval) \<Rightarrow> (jsval \<Rightarrow> read_error + obj) \<Rightarrow> string \<Rightarrow> jsval route_result" where
  "v1_getEscrow parse wall resolved read param =
     (let invoiceId = clean_id param in
      case resolved (JStr invoiceId) of
        Inl _ \<Rightarrow> RNext
      | Inr escrowAddress \<Rightarrow>
          if \<not> truthy escrowAddress then no_mapping invoiceId
          else (case read (JStr invoiceId) of
              Inl _ \<Rightarrow> RNext
            | Inr kvs \<Rightarrow>
                let st = JObj kvs in
                ROk (escrow_json st (computeEscrowDerivedFields parse wall st
                       (ObjOpt \<lparr>ledgerCloseTime = DVal (js_get st ''ledgerCloseTime''), opt_now = DVal JUndef\<rparr>)) escrowAddress)))"

section \<open>Lemmas\<close>

lemma finish_page_rows: "finish_page cdc env now sf lmt cnt pg rows = Inr p \<Longrightarrow> set (mk_data p) \<subseteq> set rows"
  by (auto simp: finish_page_def Let_def dest: in_set_takeD split: if_splits sum.splits)

lemma market_rows:
  "getMarketplaceInvoices cdc env rank now tn p t = Inr page \<Longrightarrow> set (mk_data page) \<subseteq> set (matching rank tn p t)"
  by (fastforce simp: getMarketplaceInvoices_def Let_def set_ordered split: if_splits sum.splits
      dest!: finish_page_rows in_set_takeD in_set_dropD)

text \<open>The marketplace shows only public invoices of the tenant: rows that are not deleted, with a public
  status, and with the status that was asked for.\<close>

lemma marketplace_public:
  assumes "getMarketplace cdc env rank dparse now tn query t = ROk p" "r \<in> set (mk_data p)"
  shows "r \<in> set t \<and> col_eq ''tenant_id'' (JStr tn) r \<and> is_null ''deleted_at'' r \<and> public_status (col ''status'' r)"
proof -
  from assms(1) obtain v where "getMarketplaceInvoices cdc env rank now tn (market_params_of v) t = Inr p"
    by (auto simp: getMarketplace_def validation_problem_def Let_def
        split: option.splits if_splits sum.splits market_error.splits cursor_error.splits)
  from market_rows[OF this] assms(2) show ?thesis by (auto simp: matching_def investable_def public_status_def)
qed

text \<open>The pages of the history are the whole history, newest first, each of at most \<open>limit\<close> rows, and no
  row carries the results of single invoices.\<close>

lemma run_pages_cover:
  assumes "1 \<le> lmt"
  shows "concat (map (\<lambda>k. run_page rank lmt (int k + 1) t) [0..<nat (total_pages lmt t)]) = map select_run (newest_first rank t)"
proof -
  let ?rows = "newest_first rank t" and ?n = "nat (total_pages lmt t)"
  define l where "l = nat lmt"
  then have l: "lmt = int l" "1 \<le> l" using assms by simp_all
  have len: "length ?rows = length t" by (simp add: newest_first_def)
  have n: "?n = (length t + l - 1) div l"
  proof -
    have "int (length t) + lmt - 1 = int (length t + l - 1)" using l by simp
    then show ?thesis unfolding total_pages_def l(1) by (simp only: of_nat_div[symmetric] nat_int)
  qed
  have "run_page rank lmt (int k + 1) t = map select_run (take l (drop (k * l) ?rows))" for k
    using l by (simp add: run_page_def nat_mult_distrib)
  then have "concat (map (\<lambda>k. run_page rank lmt (int k + 1) t) [0..<?n]) =
      map select_run (concat (map (\<lambda>k. take l (drop (k * l) ?rows)) [0..<?n]))"
    by (simp add: map_concat comp_def)
  also have "\<dots> = map select_run (take (?n * l) ?rows)" by (simp only: concat_pages)
  also have "\<dots> = map select_run ?rows" using ceil_div_covers[of l "length t"] l(2) n len by (simp add: mult.commute)
  finally show ?thesis .
qed

lemma runs_hide_results: "r \<in> set (run_page rank lmt pg t) \<Longrightarrow> map fst r = run_columns \<and> ''results'' \<notin> set (map fst r)"
  by (auto simp: run_page_def select_run_def comp_def) (simp_all add: run_columns_def)

lemma runs_limit:
  assumes "getRuns rank now db_ok query t = ROk a"
  shows "1 \<le> ra_limit a \<and> ra_limit a \<le> 100 \<and> 1 \<le> ra_page a \<and> int (length (ra_data a)) \<le> ra_limit a"
proof -
  have "1 \<le> ra_limit a \<and> ra_limit a \<le> 100 \<and> 1 \<le> ra_page a"
    using assms by (auto simp: getRuns_def Let_def MAX_LIMIT_def DEFAULT_LIMIT_def split: if_splits option.splits)
  moreover have "ra_data a = run_page rank (ra_limit a) (ra_page a) t"
    using assms by (auto simp: getRuns_def Let_def split: if_splits)
  ultimately show ?thesis by (auto simp: run_page_def)
qed

text \<open>The dashboard never succeeds: the service has no such function.\<close>

lemma sme_metrics_fail: "getSmeMetrics now exported_counts user tn \<noteq> ROk x"
  by (simp add: getSmeMetrics_def exported_counts_def)

text \<open>The listing of the application needs no tenant: without parameters it gives every row.\<close>

lemma invoices_of_all_tenants:
  assumes "validateInvoiceQueryParams dparse query = Some no_params"
  shows "\<exists>rows. getInvoicesRoute le rank dparse query t = ROk rows \<and> set rows = set t"
  using assms
  by (auto simp: getInvoicesRoute_def no_params_def getInvoices_def applyQueryOptions_def order_by_def text_opt_def Let_def)

lemma no_query_no_params: "validateInvoiceQueryParams dparse (JObj []) = Some no_params"
  by (simp add: validateInvoiceQueryParams_def check_order_def check_sortBy_def check_date_def check_text_def check_status_def)

text \<open>An invoice that is not mapped is an internal error, not a missing resource: the resolver raises and
  its address is never empty, so that the answer 404 is unreachable.\<close>

lemma unmapped_is_500:
  assumes "resolved (JStr (clean_id param)) = Inl (EscrowNotFoundError i)"
  shows "getEscrowRoute str parse wall resolved state0 param =
    error_500 (''No active escrow contract mapped for invoiceId: '' @ str i)"
    "v1_getEscrow parse wall resolved read param = RNext"
  using assms by (simp_all add: getEscrowRoute_def v1_getEscrow_def map_error_text_def Let_def)

lemma escrow_address_truthy:
  assumes "resolveEscrowAddress jparse valid penv now i c = (Inr a, c')" "\<And>v. valid v \<Longrightarrow> truthy v"
    "\<forall>mc0. c = Some mc0 \<longrightarrow> cache_ok jparse valid penv mc0"
  shows "truthy a"
proof -
  from assms(1) obtain mc m where "getConfig jparse valid penv now c = Inr mc" "m \<in> set (em_mappings (mc_config mc))"
    "a = js_get m ''escrowAddress''"
    by (rule resolveEscrowAddress_ok)
  then show ?thesis using getConfig_ok[OF _ assms(3)] assms(2) by (fastforce simp: cache_ok_def)
qed

end
