(* ===== verification/RedisCache.thy ===== *)
theory RedisCache
  imports CircuitBreaker EscrowRead QueryParams
begin

text \<open>
  The summary cache of escrow states in Redis (\<open>src/src/cache/redis.js\<close>) and its use by
  \<open>getEscrowStateWithProjection\<close> of \<open>src/src/services/escrowRead.js\<close>.

  What the Redis server answers is an argument: when the promise of a command settles and with what.
  \<open>parse\<close> is \<open>JSON.parse\<close>, \<open>stringify\<close> is \<open>JSON.stringify\<close>. The commands sent to the server are part
  of the result. A call is split at the await inside the breaker, so that other calls can run in
  between.
\<close>

section \<open>Configuration\<close>

definition DEFAULT_TTL_SECONDS :: int where "DEFAULT_TTL_SECONDS = 30"
definition MIN_TTL_SECONDS :: int where "MIN_TTL_SECONDS = 5"
definition MAX_TTL_SECONDS :: int where "MAX_TTL_SECONDS = 300"
definition DEFAULT_LEDGER_GAP_THRESHOLD :: int where "DEFAULT_LEDGER_GAP_THRESHOLD = 3"
definition MAX_LEDGER_GAP_THRESHOLD :: int where "MAX_LEDGER_GAP_THRESHOLD = 1000"
definition DEFAULT_TIMEOUT_MS :: int where "DEFAULT_TIMEOUT_MS = 500"
definition MIN_TIMEOUT_MS :: int where "MIN_TIMEOUT_MS = 50"
definition MAX_TIMEOUT_MS :: int where "MAX_TIMEOUT_MS = 5000"

text \<open>An absent variable and an empty one are the same to \<open>rawValue || ''\<close>.\<close>

definition parsePositiveInt :: "string \<Rightarrow> int \<Rightarrow> int \<Rightarrow> int \<Rightarrow> int" where
  "parsePositiveInt rawValue fallback lo hi =
     (case parse_int_str rawValue of None \<Rightarrow> fallback | Some parsed \<Rightarrow> min (max parsed lo) hi)"

record redis_config =
  rcf_enabled :: bool
  rcf_redisUrl :: string
  rcf_ttlSeconds :: int
  rcf_ledgerGapThreshold :: int
  rcf_timeoutMs :: int

definition parseRedisEscrowCacheConfig :: "(string \<Rightarrow> string) \<Rightarrow> redis_config" where
  "parseRedisEscrowCacheConfig env =
     \<lparr>rcf_enabled = (to_lower (env ''REDIS_ESCROW_CACHE_ENABLED'') = ''true'' \<and> env ''REDIS_URL'' \<noteq> []),
      rcf_redisUrl = env ''REDIS_URL'',
      rcf_ttlSeconds = parsePositiveInt (env ''REDIS_ESCROW_CACHE_TTL_SECONDS'') DEFAULT_TTL_SECONDS MIN_TTL_SECONDS MAX_TTL_SECONDS,
      rcf_ledgerGapThreshold = parsePositiveInt (env ''REDIS_ESCROW_LEDGER_GAP_THRESHOLD'') DEFAULT_LEDGER_GAP_THRESHOLD 1 MAX_LEDGER_GAP_THRESHOLD,
      rcf_timeoutMs = parsePositiveInt (env ''REDIS_ESCROW_CACHE_TIMEOUT_MS'') DEFAULT_TIMEOUT_MS MIN_TIMEOUT_MS MAX_TIMEOUT_MS\<rparr>"

section \<open>The shared client\<close>

text \<open>The client made when the module is loaded and its flag, which two listeners of the client set.\<close>

datatype link_event = LConnect | LError

record redis_link =
  rl_client :: bool
  isRedisConnected :: bool

definition load_link :: "string option \<Rightarrow> string option \<Rightarrow> redis_link" where
  "load_link NODE_ENV USE_REDIS_TEST =
     \<lparr>rl_client = (NODE_ENV \<noteq> Some ''test'' \<or> USE_REDIS_TEST = Some ''true''), isRedisConnected = False\<rparr>"

definition on_link :: "link_event \<Rightarrow> redis_link \<Rightarrow> redis_link" where
  "on_link ev l = (if rl_client l then l\<lparr>isRedisConnected := (ev = LConnect)\<rparr> else l)"

definition getRedisClient :: "redis_link \<Rightarrow> bool \<times> bool" where
  "getRedisClient l = (rl_client l, isRedisConnected l)"

text \<open>The client counts as available exactly if the last event was a connection.\<close>

lemma link_available:
  "getRedisClient (fold on_link evs (load_link e t)) =
     (rl_client (load_link e t), rl_client (load_link e t) \<and> evs \<noteq> [] \<and> last evs = LConnect)"
  by (induction evs rule: rev_induct) (auto simp: getRedisClient_def load_link_def on_link_def)

section \<open>The cache\<close>

record summary_cache =
  sc_client :: bool
  sc_ttlSeconds :: int
  sc_ledgerGapThreshold :: int
  sc_keyPrefix :: string
  sc_timeoutMs :: int
  sc_circuitBreaker :: breaker

text \<open>The breaker of the constructor, with a fallback that returns null.\<close>

definition new_RedisEscrowSummaryCache :: "bool \<Rightarrow> redis_config \<Rightarrow> time \<Rightarrow> summary_cache" where
  "new_RedisEscrowSummaryCache client cfg now =
     \<lparr>sc_client = client, sc_ttlSeconds = rcf_ttlSeconds cfg, sc_ledgerGapThreshold = rcf_ledgerGapThreshold cfg,
      sc_keyPrefix = ''escrow:summary'', sc_timeoutMs = rcf_timeoutMs cfg,
      sc_circuitBreaker = new_CircuitBreaker (Some 5) (Some 10000) True now\<rparr>"

text \<open>\<open>createRedisClient\<close> makes a client only if the cache is enabled; \<open>given\<close> says whether the caller
  passed one.\<close>

definition createRedisEscrowSummaryCache :: "(string \<Rightarrow> string) \<Rightarrow> bool \<Rightarrow> time \<Rightarrow> summary_cache option" where
  "createRedisEscrowSummaryCache env given now =
     (let config = parseRedisEscrowCacheConfig env
      in if given \<or> rcf_enabled config then Some (new_RedisEscrowSummaryCache True config now) else None)"

definition id_char :: "char \<Rightarrow> bool" where
  "id_char c \<longleftrightarrow> is_alnum c \<or> c \<in> set '':_-''"

definition isValidInvoiceId :: "jsval \<Rightarrow> bool" where
  "isValidInvoiceId v = (case v of JStr s \<Rightarrow> 1 \<le> length s \<and> length s \<le> 128 \<and> list_all id_char s | _ \<Rightarrow> False)"

definition sc_key :: "summary_cache \<Rightarrow> string \<Rightarrow> string" where
  "sc_key c invoiceId = sc_keyPrefix c @ '':'' @ invoiceId"

datatype redis_cmd = GET string | SET string string int | DEL string

text \<open>A reply that is pending for good is \<open>None\<close>; otherwise it comes after some milliseconds, with an
  error or with a text or null. The timer fires first when both are due.\<close>

type_synonym redis_reply = "(int \<times> (jsval + string option)) option"

definition timeout_error :: jsval where
  "timeout_error = JObj [(''message'', JStr ''Redis operation timed out'')]"

definition withTimeout :: "redis_reply \<Rightarrow> int \<Rightarrow> (string option, jsval) outcome" where
  "withTimeout promise ms =
     (case promise of
        Some (d, Inr v) \<Rightarrow> if d < ms then Success v else Failure timeout_error
      | Some (d, Inl e) \<Rightarrow> Failure (if d < ms then e else timeout_error)
      | None \<Rightarrow> Failure timeout_error)"

text \<open>Both catch blocks count the event in \<open>redisCacheFailOpenTotal\<close> before they answer. \<open>metrics\<close> are
  the names the module of metrics exports; the member of a name it lacks is undefined.\<close>

definition fail_open :: "string set \<Rightarrow> 'a \<Rightarrow> string + 'a" where
  "fail_open metrics answer =
     (if ''redisCacheFailOpenTotal'' \<in> metrics then Inr answer else Inl ''TypeError'')"

definition metrics_exports :: "string set" where
  "metrics_exports = set
     [''registry'', ''getRegistry'', ''metricsAuth'', ''metricsHandler'', ''registerJobQueue'', ''registerWorker'',
      ''refreshMetrics'', ''resetMetricsForTests'', ''escrowIndexerEventsProcessedTotal'', ''escrowIndexerEventsSkippedTotal'',
      ''escrowIndexerCycleFailuresTotal'', ''escrowIndexerLastCursorAdvanceTimestampSeconds'', ''escrowReconciliationMismatches'',
      ''maturityReminderDeliveryAttemptsTotal'', ''maturityReminderDeliverySuccessTotal'', ''maturityReminderDeadLetterTotal'',
      ''contractWasmVersionMismatchAlertsTotal'', ''readinessGauge'', ''escrowReconciliationMismatchedInvoicesGauge'',
      ''escrowReconciliationDriftMagnitudeGauge'', ''escrowReconciliationDriftAlertsTotal'', ''footprintCacheHitsTotal'',
      ''footprintCacheMissesTotal'', ''footprintCacheEvictionsTotal'', ''sorobanCircuitBreakerStateTransitionsTotal'',
      ''sorobanRpcCallDurationSeconds'', ''sorobanRpcRetryCausesTotal'', ''webhookReplayTotal'', ''bodySizeLimitRejectionsTotal'',
      ''normalizeJobType'', ''normalizeSorobanRpcMethod'', ''normalizeSorobanRpcOutcome'', ''normalizeSorobanRetryCause'',
      ''startMetricsRefresh'', ''stopMetricsRefresh'']"

subsection \<open>Reading\<close>

datatype summary_result = Miss string | Hit jsval

definition ledger_gap :: "summary_cache \<Rightarrow> jsval \<Rightarrow> jsval \<Rightarrow> bool" where
  "ledger_gap c currentLedger cachedLedger =
     (case (currentLedger, cachedLedger) of
        (JNum (NFin a), JNum (NFin b)) \<Rightarrow> \<bar>a - b\<bar> > of_int (sc_ledgerGapThreshold c)
      | _ \<Rightarrow> False)"

text \<open>What follows the await: the result of the breaker decides. A member of null or undefined raises
  inside the try block.\<close>

definition getSummary_finish ::
  "string set \<Rightarrow> (string \<Rightarrow> string + jsval) \<Rightarrow> summary_cache \<Rightarrow> string \<Rightarrow> jsval \<Rightarrow>
   (string option, jsval) exec_result \<Rightarrow> (string + summary_result) \<times> redis_cmd list" where
  "getSummary_finish metrics parse c key currentLedger r =
     (let failed = (fail_open metrics (Miss ''fail_open''), []) in
      case r of
        Fallback _ \<Rightarrow> (Inr (Miss ''miss''), [])
      | Returned None \<Rightarrow> (Inr (Miss ''miss''), [])
      | Returned (Some raw) \<Rightarrow>
          (case parse raw of
             Inl _ \<Rightarrow> failed
           | Inr entry \<Rightarrow>
               if js_nullish entry then failed
               else if ledger_gap c currentLedger (js_get entry ''cachedLedger'')
               then (Inr (Miss ''ledger_gap''), [DEL key])
               else (Inr (Hit (js_get entry ''summary'')), []))
      | Threw _ \<Rightarrow> failed
      | CircuitOpen \<Rightarrow> failed)"

text \<open>A whole call during which no other call touches the breaker; \<open>reply\<close> answers the GET.\<close>

definition getSummary ::
  "string set \<Rightarrow> (string \<Rightarrow> string + jsval) \<Rightarrow> time \<Rightarrow> time \<Rightarrow> redis_reply \<Rightarrow> jsval \<Rightarrow> jsval \<Rightarrow> summary_cache \<Rightarrow>
   (string + summary_result) \<times> redis_cmd list \<times> summary_cache" where
  "getSummary metrics parse now later reply invoiceId currentLedger c =
     (case invoiceId of
        JStr i \<Rightarrow>
          if \<not> sc_client c \<or> \<not> isValidInvoiceId invoiceId then (Inr (Miss ''invalid_input''), [], c)
          else
            let key = sc_key c i;
                sent = (if fst (admit now (sc_circuitBreaker c) :: (string option, jsval) exec_result option \<times> breaker) = None
                        then [GET key] else []);
                (r, b) = execute now later (withTimeout reply (sc_timeoutMs c)) (sc_circuitBreaker c);
                (answer, evict) = getSummary_finish metrics parse c key currentLedger r
            in (answer, sent @ evict, c\<lparr>sc_circuitBreaker := b\<rparr>)
      | _ \<Rightarrow> (Inr (Miss ''invalid_input''), [], c))"

subsection \<open>Writing\<close>

definition summary_payload :: "jsval \<Rightarrow> jsval \<Rightarrow> string \<Rightarrow> jsval" where
  "summary_payload summary currentLedger stamp =
     JObj [(''summary'', summary),
           (''cachedLedger'', if number_isFinite currentLedger then currentLedger else JNull),
           (''cachedAt'', JStr stamp)]"

definition setSummary_finish :: "string set \<Rightarrow> (string option, jsval) exec_result \<Rightarrow> string + bool" where
  "setSummary_finish metrics r =
     (case r of
        Fallback _ \<Rightarrow> Inr False
      | Returned v \<Rightarrow> Inr (v \<noteq> None)
      | Threw _ \<Rightarrow> fail_open metrics False
      | CircuitOpen \<Rightarrow> fail_open metrics False)"

definition setSummary ::
  "string set \<Rightarrow> (jsval \<Rightarrow> string) \<Rightarrow> time \<Rightarrow> time \<Rightarrow> string \<Rightarrow> redis_reply \<Rightarrow> jsval \<Rightarrow> jsval \<Rightarrow> jsval \<Rightarrow> summary_cache \<Rightarrow>
   (string + bool) \<times> redis_cmd list \<times> summary_cache" where
  "setSummary metrics stringify now later stamp reply invoiceId summary currentLedger c =
     (case invoiceId of
        JStr i \<Rightarrow>
          if \<not> sc_client c \<or> \<not> isValidInvoiceId invoiceId then (Inr False, [], c)
          else
            let sent = (if fst (admit now (sc_circuitBreaker c) :: (string option, jsval) exec_result option \<times> breaker) = None
                        then [SET (sc_key c i) (stringify (summary_payload summary currentLedger stamp)) (sc_ttlSeconds c)] else []);
                (r, b) = execute now later (withTimeout reply (sc_timeoutMs c)) (sc_circuitBreaker c)
            in (setSummary_finish metrics r, sent, c\<lparr>sc_circuitBreaker := b\<rparr>)
      | _ \<Rightarrow> (Inr False, [], c))"

subsection \<open>The read path\<close>

text \<open>\<open>getEscrowStateWithProjection\<close> around the cache, which is asked without a ledger. \<open>g\<close> and \<open>w\<close> hold
  the clock and the reply of the GET and of the SET.\<close>

record redis_io =
  io_now :: time
  io_later :: time
  io_reply :: redis_reply

definition cached_read ::
  "string set \<Rightarrow> (string \<Rightarrow> string + jsval) \<Rightarrow> (jsval \<Rightarrow> string) \<Rightarrow> redis_io \<Rightarrow> redis_io \<Rightarrow> string \<Rightarrow> string \<Rightarrow>
   jsval + projection option \<Rightarrow> jsval option \<Rightarrow> jsval + jsval \<Rightarrow> summary_cache option \<Rightarrow>
   (jsval + jsval) \<times> redis_cmd list \<times> summary_cache option" where
  "cached_read metrics parse stringify g w stamp invoiceId query stub_error legalCall cache =
     (let uncached = getEscrowStateWithProjection parse invoiceId None query stub_error legalCall in
      case cache of
        None \<Rightarrow> (fst uncached, [], None)
      | Some c \<Rightarrow>
          (case getSummary metrics parse (io_now g) (io_later g) (io_reply g) (JStr (trim invoiceId)) JUndef c of
             (Inl e, cmds, c1) \<Rightarrow> (Inl (JStr e), cmds, Some c1)
           | (Inr (Hit v), cmds, c1) \<Rightarrow> (Inr v, cmds, Some c1)
           | (Inr (Miss _), cmds, c1) \<Rightarrow>
               (case uncached of
                  (Inr st, Some (s, ledger)) \<Rightarrow>
                    (case setSummary metrics stringify (io_now w) (io_later w) stamp (io_reply w) (JStr (trim invoiceId)) s ledger c1 of
                       (Inl e, cmds2, c2) \<Rightarrow> (Inl (JStr e), cmds @ cmds2, Some c2)
                     | (Inr _, cmds2, c2) \<Rightarrow> (Inr st, cmds @ cmds2, Some c2))
                | (r, _) \<Rightarrow> (r, cmds, Some c1))))"

section \<open>Configuration within bounds\<close>

lemma parsePositiveInt_bounds:
  "lo \<le> fallback \<Longrightarrow> fallback \<le> hi \<Longrightarrow>
   lo \<le> parsePositiveInt raw fallback lo hi \<and> parsePositiveInt raw fallback lo hi \<le> hi"
  by (auto simp: parsePositiveInt_def split: option.split)

lemma redis_config_bounds:
  "5 \<le> rcf_ttlSeconds (parseRedisEscrowCacheConfig env) \<and> rcf_ttlSeconds (parseRedisEscrowCacheConfig env) \<le> 300"
  "1 \<le> rcf_ledgerGapThreshold (parseRedisEscrowCacheConfig env) \<and> rcf_ledgerGapThreshold (parseRedisEscrowCacheConfig env) \<le> 1000"
  "50 \<le> rcf_timeoutMs (parseRedisEscrowCacheConfig env) \<and> rcf_timeoutMs (parseRedisEscrowCacheConfig env) \<le> 5000"
  by (simp_all add: parseRedisEscrowCacheConfig_def parsePositiveInt_bounds DEFAULT_TTL_SECONDS_def MIN_TTL_SECONDS_def
      MAX_TTL_SECONDS_def DEFAULT_LEDGER_GAP_THRESHOLD_def MAX_LEDGER_GAP_THRESHOLD_def DEFAULT_TIMEOUT_MS_def
      MIN_TIMEOUT_MS_def MAX_TIMEOUT_MS_def)

section \<open>Failures of Redis\<close>

lemma metrics_lack_counter: "''redisCacheFailOpenTotal'' \<notin> metrics_exports"
  by (simp add: metrics_exports_def)

lemma fail_open_exported: "fail_open metrics_exports answer = Inl ''TypeError''"
  by (simp add: fail_open_def metrics_lack_counter)

lemma key_injective [simp]: "sc_key c i = sc_key c j \<longleftrightarrow> i = j"
  by (simp add: sc_key_def)

text \<open>With the counter the cache never raises.\<close>

lemma getSummary_fails_open:
  assumes "''redisCacheFailOpenTotal'' \<in> metrics"
  shows "is_ok (fst (getSummary metrics parse now later reply i cur c))"
  using assms by (auto simp: getSummary_def getSummary_finish_def fail_open_def Let_def
      split: jsval.split prod.split exec_result.split option.split sum.split)

lemma setSummary_fails_open:
  assumes "''redisCacheFailOpenTotal'' \<in> metrics"
  shows "is_ok (fst (setSummary metrics stringify now later stamp reply i s cur c))"
  using assms by (auto simp: setSummary_def setSummary_finish_def fail_open_def Let_def
      split: jsval.split prod.split exec_result.split)

text \<open>A read whose command fails while the breaker is closed: below the threshold the breaker throws.\<close>

lemma execute_failure_closed:
  assumes "state b = CLOSED" "failureCount b + 1 < failureThreshold b"
  shows "execute now later (Failure e) b = (Threw e, b\<lparr>failureCount := failureCount b + 1\<rparr>)"
  using assms by (simp add: execute_def admit_def onFailure_def Let_def)

lemma getSummary_raises:
  assumes "sc_client c" "isValidInvoiceId (JStr i)"
    and "state (sc_circuitBreaker c) = CLOSED"
    and "failureCount (sc_circuitBreaker c) + 1 < failureThreshold (sc_circuitBreaker c)"
    and "withTimeout reply (sc_timeoutMs c) = Failure e"
  shows "fst (getSummary metrics_exports parse now later reply (JStr i) cur c) = Inl ''TypeError''"
  using assms by (simp add: getSummary_def execute_failure_closed getSummary_finish_def fail_open_exported Let_def)

lemma outage_breaks_reads:
  assumes "sc_client c" "isValidInvoiceId (JStr (trim i))"
    and "state (sc_circuitBreaker c) = CLOSED"
    and "failureCount (sc_circuitBreaker c) + 1 < failureThreshold (sc_circuitBreaker c)"
    and "withTimeout (io_reply g) (sc_timeoutMs c) = Failure e"
  shows "fst (cached_read metrics_exports parse stringify g w stamp i query stub_error legalCall (Some c)) = Inl (JStr ''TypeError'')"
  using getSummary_raises[OF assms, of parse "io_now g" "io_later g" JUndef]
  by (auto simp: cached_read_def Let_def split: prod.split sum.split summary_result.split)

text \<open>The read path asks without a ledger, so no entry is evicted for its age in ledgers.\<close>

lemma read_path_never_evicts:
  "fst (getSummary metrics parse now later reply i JUndef c) \<noteq> Inr (Miss ''ledger_gap'')"
  by (auto simp: getSummary_def getSummary_finish_def fail_open_def ledger_gap_def Let_def
      split: jsval.split prod.split exec_result.split option.split sum.split)

text \<open>Every read is a hit, the answer without the cache, or the missing counter.\<close>

lemma cached_read_cases:
  assumes "cached_read metrics parse stringify g w stamp i query stub_error legalCall (Some c) = (r, cmds, c')"
  shows "r = Inl (JStr ''TypeError'') \<and> ''redisCacheFailOpenTotal'' \<notin> metrics \<or>
    (\<exists>v. fst (getSummary metrics parse (io_now g) (io_later g) (io_reply g) (JStr (trim i)) JUndef c) = Inr (Hit v) \<and> r = Inr v) \<or>
    r = fst (getEscrowStateWithProjection parse i None query stub_error legalCall)"
proof -
  have te: "fst (getSummary metrics parse n l rep k cur c) = Inl e \<Longrightarrow> e = ''TypeError'' \<and> ''redisCacheFailOpenTotal'' \<notin> metrics"
    for n l rep k cur e
    by (auto simp: getSummary_def getSummary_finish_def fail_open_def Let_def
        split: jsval.splits prod.splits exec_result.splits option.splits sum.splits if_splits)
  have ts: "fst (setSummary metrics stringify n l stamp rep k st cur c1) = Inl e \<Longrightarrow> e = ''TypeError'' \<and> ''redisCacheFailOpenTotal'' \<notin> metrics"
    for n l rep k st cur c1 e
    by (auto simp: setSummary_def setSummary_finish_def fail_open_def Let_def
        split: jsval.splits prod.splits exec_result.splits if_splits)
  show ?thesis
    using assms te ts
    by (auto simp: cached_read_def Let_def split: prod.splits sum.splits summary_result.splits option.splits; metis fst_conv)
qed

section \<open>Interleaved calls\<close>

text \<open>Calls of the cache interleave at the await inside the breaker. The state holds the breaker and the
  commands sent so far; the events are the summaries handed to Redis and the answers. The replies obey
  the one rule relied on: a GET returns null or a text that was sent in a SET of the same key.\<close>

datatype summary_event =
    Stored string jsval jsval string
  | Served string jsval "string + summary_result"
  | Quiet

definition honest_reply :: "redis_cmd list \<Rightarrow> string \<Rightarrow> (string option, jsval) outcome \<Rightarrow> bool" where
  "honest_reply sent key r = (\<forall>raw. r = Success (Some raw) \<longrightarrow> (\<exists>t. SET key raw t \<in> set sent))"

inductive summary_step ::
  "string set \<Rightarrow> (string \<Rightarrow> string + jsval) \<Rightarrow> (jsval \<Rightarrow> string) \<Rightarrow> summary_cache \<Rightarrow>
   breaker \<times> redis_cmd list \<Rightarrow> summary_event \<Rightarrow> breaker \<times> redis_cmd list \<Rightarrow> bool"
  for metrics parse stringify c where
  get_sent: "isValidInvoiceId (JStr i) \<Longrightarrow> admit now b = (None :: (string option, jsval) exec_result option, b') \<Longrightarrow>
    summary_step metrics parse stringify c (b, sent) Quiet (b', sent @ [GET (sc_key c i)])"
| get_blocked: "isValidInvoiceId (JStr i) \<Longrightarrow> admit now b = (Some r, b') \<Longrightarrow>
    getSummary_finish metrics parse c (sc_key c i) cur r = (answer, evict) \<Longrightarrow>
    summary_step metrics parse stringify c (b, sent) (Served i cur answer) (b', sent @ evict)"
| get_settled: "isValidInvoiceId (JStr i) \<Longrightarrow> honest_reply sent (sc_key c i) res \<Longrightarrow> settle now res b = (r, b') \<Longrightarrow>
    getSummary_finish metrics parse c (sc_key c i) cur r = (answer, evict) \<Longrightarrow>
    summary_step metrics parse stringify c (b, sent) (Served i cur answer) (b', sent @ evict)"
| set_sent: "isValidInvoiceId (JStr i) \<Longrightarrow> admit now b = (None :: (string option, jsval) exec_result option, b') \<Longrightarrow>
    summary_step metrics parse stringify c (b, sent) (Stored i s ledger stamp)
      (b', sent @ [SET (sc_key c i) (stringify (summary_payload s ledger stamp)) (sc_ttlSeconds c)])"
| set_settled: "settle now (res :: (string option, jsval) outcome) b = (r, b') \<Longrightarrow>
    summary_step metrics parse stringify c (b, sent) Quiet (b', sent)"

inductive_cases servedE: "summary_step metrics parse stringify c (b, sent) (Served i cur answer) st'"

inductive summary_run ::
  "string set \<Rightarrow> (string \<Rightarrow> string + jsval) \<Rightarrow> (jsval \<Rightarrow> string) \<Rightarrow> summary_cache \<Rightarrow> summary_event list \<Rightarrow>
   breaker \<times> redis_cmd list \<Rightarrow> bool"
  for metrics parse stringify c where
  run_start: "summary_run metrics parse stringify c [] (sc_circuitBreaker c, [])"
| run_step: "summary_run metrics parse stringify c evs st \<Longrightarrow> summary_step metrics parse stringify c st ev st' \<Longrightarrow>
    summary_run metrics parse stringify c (evs @ [ev]) st'"

text \<open>A call in which no other call interferes is two steps.\<close>

lemma getSummary_steps:
  assumes "sc_client c" "isValidInvoiceId (JStr i)"
    and "admit now (sc_circuitBreaker c) = (None :: (string option, jsval) exec_result option, b1)"
    and "honest_reply (sent @ [GET (sc_key c i)]) (sc_key c i) (withTimeout reply (sc_timeoutMs c))"
    and "getSummary metrics parse now later reply (JStr i) cur c = (answer, cmds, c')"
  shows "summary_step metrics parse stringify c (sc_circuitBreaker c, sent) Quiet (b1, sent @ [GET (sc_key c i)]) \<and>
    summary_step metrics parse stringify c (b1, sent @ [GET (sc_key c i)]) (Served i cur answer)
      (sc_circuitBreaker c', sent @ cmds)"
proof -
  obtain r b2 where settled: "settle later (withTimeout reply (sc_timeoutMs c)) b1 = (r, b2)" by force
  obtain a evict where finish: "getSummary_finish metrics parse c (sc_key c i) cur r = (a, evict)" by force
  have "answer = a" "cmds = GET (sc_key c i) # evict" "sc_circuitBreaker c' = b2"
    using assms settled finish by (auto simp: getSummary_def execute_def Let_def)
  then show ?thesis
    using get_sent[OF assms(2,3)] get_settled[OF assms(2,4) settled finish] by simp
qed

lemma setSummary_steps:
  assumes "sc_client c" "isValidInvoiceId (JStr i)"
    and "admit now (sc_circuitBreaker c) = (None :: (string option, jsval) exec_result option, b1)"
    and "setSummary metrics stringify now later stamp reply (JStr i) s ledger c = (answer, cmds, c')"
  shows "summary_step metrics parse stringify c (sc_circuitBreaker c, sent) (Stored i s ledger stamp) (b1, sent @ cmds) \<and>
    summary_step metrics parse stringify c (b1, sent @ cmds) Quiet (sc_circuitBreaker c', sent @ cmds)"
proof -
  obtain r b2 where settled: "settle later (withTimeout reply (sc_timeoutMs c)) b1 = (r, b2)" by force
  have "cmds = [SET (sc_key c i) (stringify (summary_payload s ledger stamp)) (sc_ttlSeconds c)]" "sc_circuitBreaker c' = b2"
    using assms settled by (auto simp: setSummary_def execute_def Let_def)
  then show ?thesis
    using set_sent[OF assms(2,3), where stringify = stringify] set_settled[OF settled] by simp
qed

text \<open>Every SET was sent for a summary that was handed to the cache.\<close>

definition sets_accounted :: "(jsval \<Rightarrow> string) \<Rightarrow> summary_cache \<Rightarrow> summary_event list \<Rightarrow> redis_cmd list \<Rightarrow> bool" where
  "sets_accounted stringify c evs sent \<longleftrightarrow> (\<forall>k raw t. SET k raw t \<in> set sent \<longrightarrow>
     (\<exists>i s l stamp. Stored i s l stamp \<in> set evs \<and> k = sc_key c i \<and> raw = stringify (summary_payload s l stamp)))"

lemma finish_sends_no_set:
  assumes "getSummary_finish metrics parse c k cur r = (a, evict)"
  shows "SET k' raw t \<notin> set evict"
  using assms by (auto simp: getSummary_finish_def Let_def split: exec_result.splits option.splits sum.splits if_splits)

lemma step_accounted:
  assumes "summary_step metrics parse stringify c (b, sent) ev (b', sent')" "sets_accounted stringify c evs sent"
  shows "sets_accounted stringify c (evs @ [ev]) sent'"
  using assms(1)
proof (cases rule: summary_step.cases)
  case (set_sent i now s ledger stamp)
  then show ?thesis using assms(2) unfolding sets_accounted_def by fastforce
qed (use assms(2) finish_sends_no_set in \<open>unfold sets_accounted_def, fastforce\<close>)+

lemma run_accounted: "summary_run metrics parse stringify c evs st \<Longrightarrow> sets_accounted stringify c evs (snd st)"
proof (induction rule: summary_run.induct)
  case run_start
  then show ?case by (simp add: sets_accounted_def)
next
  case (run_step evs st ev st')
  then show ?case using step_accounted[of metrics parse stringify c "fst st" "snd st" ev "fst st'" "snd st'" evs] by simp
qed

lemma settled_value: "settle now res b = (Returned v, b') \<Longrightarrow> res = Success v"
  by (cases res) (auto simp: onFailure_def Let_def split: if_splits)

lemma blocked_value: "admit now b \<noteq> (Some (Returned v), b')"
  by (auto simp: admit_def)

lemma finish_hit:
  assumes "getSummary_finish metrics parse c key cur r = (Inr (Hit v), evict)"
  obtains raw entry where "r = Returned (Some raw)" "parse raw = Inr entry"
    "\<not> ledger_gap c cur (js_get entry ''cachedLedger'')" "v = js_get entry ''summary''"
  using assms by (auto simp: getSummary_finish_def fail_open_def Let_def
      split: exec_result.splits option.splits sum.splits if_splits)

lemma step_hit:
  assumes "summary_step metrics parse stringify c (b, sent) (Served i cur (Inr (Hit v))) st'"
  obtains raw entry t where "SET (sc_key c i) raw t \<in> set sent" "parse raw = Inr entry"
    "\<not> ledger_gap c cur (js_get entry ''cachedLedger'')" "v = js_get entry ''summary''"
  using assms
proof (rule servedE)
  fix i0 now r b' cur0 evict
  assume "isValidInvoiceId (JStr i)" "admit now b = (Some r, b')"
    "getSummary_finish metrics parse c (sc_key c i) cur r = (Inr (Hit v), evict)"
  then show thesis by (metis finish_hit blocked_value)
next
  fix res now r b' evict
  assume honest: "honest_reply sent (sc_key c i) res" and settled: "settle now res b = (r, b')"
    and finish: "getSummary_finish metrics parse c (sc_key c i) cur r = (Inr (Hit v), evict)"
  obtain raw entry where raw: "r = Returned (Some raw)" and entry: "parse raw = Inr entry"
      "\<not> ledger_gap c cur (js_get entry ''cachedLedger'')" "v = js_get entry ''summary''"
    using finish_hit[OF finish] by metis
  then have "res = Success (Some raw)" using settled settled_value by metis
  then show thesis using that entry honest unfolding honest_reply_def by metis
qed

text \<open>The payload survives the text: the summary as JSON keeps it, and the ledger it was stored for.\<close>

lemma payload_members:
  "js_get (json_clone (summary_payload s l stamp)) ''summary'' = (if s = JUndef then JUndef else json_clone s)"
  "js_get (json_clone (summary_payload s l stamp)) ''cachedLedger'' = (if number_isFinite l then l else JNull)"
  by (auto simp: summary_payload_def number_isFinite_def split: jsval.splits jsnum.splits elim: is_finite_num.elims)

definition json_survives :: "(string \<Rightarrow> string + jsval) \<Rightarrow> (jsval \<Rightarrow> string) \<Rightarrow> summary_event \<Rightarrow> bool" where
  "json_survives parse stringify ev =
     (case ev of
        Stored _ s l stamp \<Rightarrow> parse (stringify (summary_payload s l stamp)) = Inr (json_clone (summary_payload s l stamp))
      | _ \<Rightarrow> True)"

lemma hit_at_step:
  assumes "summary_run metrics parse stringify c evs st"
    and "list_all (json_survives parse stringify) evs"
    and "evs = before @ Served i cur (Inr (Hit v)) # after"
  shows "\<exists>s l stamp. Stored i s l stamp \<in> set before \<and> v = (if s = JUndef then JUndef else json_clone s) \<and>
    \<not> ledger_gap c cur (if number_isFinite l then l else JNull)"
  using assms
proof (induction arbitrary: after rule: summary_run.induct)
  case (run_step evs st ev st')
  show ?case
  proof (cases after rule: rev_cases)
    case (snoc xs x)
    then have "evs = before @ Served i cur (Inr (Hit v)) # xs" using run_step.prems(2) by simp
    moreover have "list_all (json_survives parse stringify) evs" using run_step.prems(1) by simp
    ultimately show ?thesis by (intro run_step.IH)
  next
    case Nil
    then have ev: "ev = Served i cur (Inr (Hit v))" and evs: "evs = before" using run_step.prems(2) by auto
    have "summary_step metrics parse stringify c (fst st, snd st) (Served i cur (Inr (Hit v))) st'"
      using run_step.hyps(2) ev by simp
    then obtain raw entry t where set: "SET (sc_key c i) raw t \<in> set (snd st)" and entry: "parse raw = Inr entry"
        "\<not> ledger_gap c cur (js_get entry ''cachedLedger'')" "v = js_get entry ''summary''"
      by (rule step_hit)
    then obtain s l stamp where stored: "Stored i s l stamp \<in> set evs" and "raw = stringify (summary_payload s l stamp)"
      using run_accounted[OF run_step.hyps(1)] unfolding sets_accounted_def by fastforce
    moreover have "json_survives parse stringify (Stored i s l stamp)"
      using run_step.prems(1) stored by (simp add: list_all_iff)
    ultimately have "entry = json_clone (summary_payload s l stamp)" using entry(1) by (simp add: json_survives_def)
    then have "v = (if s = JUndef then JUndef else json_clone s)" "\<not> ledger_gap c cur (if number_isFinite l then l else JNull)"
      using entry(2,3) by (simp_all only: payload_members not_False_eq_True)
    then show ?thesis using stored evs by blast
  qed
qed simp

text \<open>C27: in every interleaving of calls of the cache, with a Redis server that returns for a key only null
  or what was sent for that key, a hit for an invoice is a summary that was stored before for the same
  invoice, as JSON keeps it, and the ledger of the caller is within the threshold of the ledger it was
  stored for whenever both are known.\<close>

theorem cached_summary_sound:
  assumes "summary_run metrics_exports parse stringify c (before @ Served i cur (Inr (Hit v)) # after) st"
    and "list_all (json_survives parse stringify) (before @ Served i cur (Inr (Hit v)) # after)"
  shows "\<exists>s l stamp. Stored i s l stamp \<in> set before \<and> v = (if s = JUndef then JUndef else json_clone s) \<and>
    (\<forall>a b. cur = JNum (NFin a) \<and> l = JNum (NFin b) \<longrightarrow> \<bar>a - b\<bar> \<le> of_int (sc_ledgerGapThreshold c))"
proof -
  obtain s l stamp where "Stored i s l stamp \<in> set before" "v = (if s = JUndef then JUndef else json_clone s)"
      and gap: "\<not> ledger_gap c cur (if number_isFinite l then l else JNull)"
    using hit_at_step[OF assms refl] by (elim exE conjE)
  moreover have "\<forall>a b. cur = JNum (NFin a) \<and> l = JNum (NFin b) \<longrightarrow> \<bar>a - b\<bar> \<le> of_int (sc_ledgerGapThreshold c)"
    using gap by (auto simp: ledger_gap_def number_isFinite_def)
  ultimately show ?thesis by (intro exI conjI)
qed

definition sample_summary_cache :: summary_cache where
  "sample_summary_cache = new_RedisEscrowSummaryCache True (parseRedisEscrowCacheConfig (\<lambda>_. [])) 0"

definition sample_summary_parse :: "string \<Rightarrow> string + jsval" where
  "sample_summary_parse raw = Inr (json_clone (summary_payload (JStr ''funded'') (JInt 100) ''t''))"

lemma sample_summary_run:
  "summary_run metrics_exports sample_summary_parse (\<lambda>_. ''text'') sample_summary_cache
     ([Stored ''inv-1'' (JStr ''funded'') (JInt 100) ''t''] @ Served ''inv-1'' (JInt 102) (Inr (Hit (JStr ''funded''))) # [])
     (sc_circuitBreaker sample_summary_cache, [SET ''escrow:summary:inv-1'' ''text'' 30])"
proof -
  let ?c = sample_summary_cache
  let ?b = "sc_circuitBreaker ?c"
  have b: "?b = new_CircuitBreaker (Some 5) (Some 10000) True 0" "sc_ttlSeconds ?c = 30" "sc_ledgerGapThreshold ?c = 3"
      "sc_key ?c ''inv-1'' = ''escrow:summary:inv-1''"
    by (code_simp, code_simp, code_simp, code_simp)
  have valid: "isValidInvoiceId (JStr ''inv-1'')" by code_simp
  have open_: "admit 0 ?b = (None :: (string option, jsval) exec_result option, ?b)"
    by (simp add: b new_CircuitBreaker_def admit_def)
  have stored: "summary_run metrics_exports sample_summary_parse (\<lambda>_. ''text'') ?c
      ([] @ [Stored ''inv-1'' (JStr ''funded'') (JInt 100) ''t'']) (?b, [] @ [SET (sc_key ?c ''inv-1'') ''text'' (sc_ttlSeconds ?c)])"
    by (rule run_step[OF run_start]) (rule set_sent[OF valid open_, where stringify = "\<lambda>_. ''text''"])
  have settled: "settle 0 (Success (Some ''text'')) ?b = (Returned (Some ''text'') :: (string option, jsval) exec_result, ?b)"
    by (simp add: b new_CircuitBreaker_def onSuccess_def)
  have finish: "getSummary_finish metrics_exports sample_summary_parse ?c (sc_key ?c ''inv-1'') (JInt 102) (Returned (Some ''text''))
      = (Inr (Hit (JStr ''funded'')), [])"
    by (simp add: getSummary_finish_def sample_summary_parse_def payload_members number_isFinite_def ledger_gap_def b(3) js_nullish_def)
       (simp add: summary_payload_def)
  show ?thesis
    using run_step[OF stored get_settled[OF valid _ settled finish]] by (simp add: honest_reply_def b)
qed

lemma cached_summary_sound_witness:
  "\<exists>s l stamp. Stored ''inv-1'' s l stamp \<in> set [Stored ''inv-1'' (JStr ''funded'') (JInt 100) ''t''] \<and>
    JStr ''funded'' = (if s = JUndef then JUndef else json_clone s) \<and>
    (\<forall>a b. JInt 102 = JNum (NFin a) \<and> l = JNum (NFin b) \<longrightarrow> \<bar>a - b\<bar> \<le> of_int (sc_ledgerGapThreshold sample_summary_cache))"
  using cached_summary_sound[OF sample_summary_run] by (simp add: json_survives_def sample_summary_parse_def)

end
