(* ===== verification/Sentry.thy ===== *)
theory Sentry
  imports JsNumber
begin

text \<open>
  Scrubbing of what is reported to Sentry (\<open>src/src/observability/sentry.js\<close>).

  \<open>url.parse\<close> and \<open>url.format\<close> of Node are arguments (\<open>url_lib\<close>), as are \<open>JSON.parse\<close>,
  \<open>JSON.stringify\<close> and \<open>String\<close> of other values than strings. The scrubbing of a tree calls the
  scrubbing of a URL, which calls the former on the query: the model takes the function for URLs as an
  argument and closes the recursion by fuel, one above the length of the URL.
\<close>

section \<open>Sensitive names and patterns\<close>

definition SENSITIVE_FIELD_NAMES :: "string list" where
  "SENSITIVE_FIELD_NAMES =
     [''authorization'', ''token'', ''password'', ''secret'', ''x-api-key'', ''api-key'', ''apikey'', ''api_key'', ''xdr'',
      ''stellar'', ''invoice'', ''private_key'', ''privateKey'', ''access_token'', ''refresh_token'', ''client_secret'',
      ''session'', ''cookie'', ''passphrase'', ''pin'', ''otp'', ''2fa'']"

definition REDACTED :: string where "REDACTED = ''[REDACTED]''"
definition REDACTED_INVOICE :: string where "REDACTED_INVOICE = ''[REDACTED-INVOICE]''"
definition MAX_DEPTH :: nat where "MAX_DEPTH = 20"
definition MAX_STRING_LENGTH :: int where "MAX_STRING_LENGTH = 10000"

text \<open>\<open>str_includes\<close> takes the text first.\<close>

definition isSensitiveKey :: "string \<Rightarrow> bool" where
  "isSensitiveKey key \<longleftrightarrow> key \<noteq> [] \<and> list_ex (\<lambda>n. str_includes (to_lower key) (to_lower n)) SENSITIVE_FIELD_NAMES"

text \<open>\<open>anywhere P s\<close>: some suffix of the text satisfies \<open>P\<close>; \<open>run p n s\<close>: the text begins with at least
  \<open>n\<close> characters of a class.\<close>

fun anywhere :: "(string \<Rightarrow> bool) \<Rightarrow> string \<Rightarrow> bool" where
  "anywhere P [] = P []"
| "anywhere P (c # s) = (P (c # s) \<or> anywhere P s)"

definition run :: "(char \<Rightarrow> bool) \<Rightarrow> nat \<Rightarrow> string \<Rightarrow> bool" where
  "run p n s \<longleftrightarrow> n \<le> length (takeWhile p s)"

definition lit_i :: "string \<Rightarrow> (string \<Rightarrow> bool) \<Rightarrow> string \<Rightarrow> bool" where
  "lit_i l P s \<longleftrightarrow> to_lower (take (length l) s) = to_lower l \<and> P (drop (length l) s)"

definition optional :: "(char \<Rightarrow> bool) \<Rightarrow> (string \<Rightarrow> bool) \<Rightarrow> string \<Rightarrow> bool" where
  "optional p P s \<longleftrightarrow> P s \<or> (case s of [] \<Rightarrow> False | c # r \<Rightarrow> p c \<and> P r)"

definition is_hex_lower :: "char \<Rightarrow> bool" where
  "is_hex_lower c \<longleftrightarrow> is_digit c \<or> c \<in> set ''abcdef''"

definition base64_char :: "char \<Rightarrow> bool" where
  "base64_char c \<longleftrightarrow> is_alnum c \<or> c \<in> set ''+/''"

definition p_invoice :: "string \<Rightarrow> bool" where
  "p_invoice = anywhere (lit_i ''invoice'' (optional (\<lambda>c. c \<in> set ''_-'' \<or> is_ws c) (run (\<lambda>c. is_alnum c \<or> c = CHR ''-'') 6)))"

definition p_hex :: "string \<Rightarrow> bool" where
  "p_hex = anywhere (run is_hex_lower 32)"

definition p_base64 :: "string \<Rightarrow> bool" where
  "p_base64 = anywhere (run base64_char 40)"

definition p_bearer :: "string \<Rightarrow> bool" where
  "p_bearer = anywhere (lit_i ''Bearer'' (\<lambda>s. run is_ws 1 s \<and> run (\<lambda>c. is_alnum c \<or> c \<in> set ''-_.'') 1 (dropWhile is_ws s)))"

definition p_token :: "string \<Rightarrow> bool" where
  "p_token = anywhere (\<lambda>s. (\<exists>l \<in> set [''eyJ'', ''AAAA'']. starts_with s l \<and> run (\<lambda>c. is_alnum c \<or> c \<in> set ''_-'') 20 (drop (length l) s)))"

definition hasSensitivePattern :: "string \<Rightarrow> bool" where
  "hasSensitivePattern value \<longleftrightarrow> int (length value) > MAX_STRING_LENGTH \<or> p_invoice value \<or> p_hex value \<or>
     p_base64 value \<or> p_bearer value \<or> p_token value"

definition mentions_invoice :: "string \<Rightarrow> bool" where
  "mentions_invoice s = str_includes (to_lower s) ''invoice''"

section \<open>Trees\<close>

text \<open>Assigning to \<open>__proto__\<close> adds no member.\<close>

fun deepScrub_with :: "(string \<Rightarrow> string) \<Rightarrow> nat \<Rightarrow> jsval \<Rightarrow> jsval" where
  "deepScrub_with U depth (JArr vs) =
     (if depth > MAX_DEPTH then JStr ''[MAX_DEPTH_REACHED]''
      else JArr (map (\<lambda>v. deepScrub_with U (Suc depth) v) vs))"
| "deepScrub_with U depth (JObj kvs) =
     (if depth > MAX_DEPTH then JStr ''[MAX_DEPTH_REACHED]''
      else JObj (map (\<lambda>(k, v). (k,
             if isSensitiveKey k then JStr (if mentions_invoice k then REDACTED_INVOICE else REDACTED)
             else case v of
                 JStr s \<Rightarrow>
                   if mentions_invoice k \<or> mentions_invoice s then JStr REDACTED_INVOICE
                   else if hasSensitivePattern s then JStr REDACTED
                   else if starts_with s ''http://'' \<or> starts_with s ''https://'' then JStr (U s)
                   else deepScrub_with U (Suc depth) v
               | _ \<Rightarrow> deepScrub_with U (Suc depth) v)) (filter (\<lambda>(k, v). k \<noteq> ''__proto__'') kvs)))"
| "deepScrub_with U depth (JStr s) =
     (if depth > MAX_DEPTH then JStr ''[MAX_DEPTH_REACHED]''
      else if hasSensitivePattern s then JStr REDACTED_INVOICE else JStr s)"
| "deepScrub_with U depth v = (if depth > MAX_DEPTH then JStr ''[MAX_DEPTH_REACHED]'' else v)"

section \<open>URLs\<close>

text \<open>The members of a parsed URL that the code reads or writes; the others are \<open>pu_rest\<close>.\<close>

record parsed_url =
  pu_protocol :: string
  pu_host :: string
  pu_search :: string
  pu_query :: "(string \<times> jsval) list"
  pu_pathname :: string
  pu_rest :: jsval

record url_lib =
  url_parse :: "string \<Rightarrow> string + parsed_url"
  url_format :: "parsed_url \<Rightarrow> string"

definition sensitive_segment :: "string \<Rightarrow> bool" where
  "sensitive_segment s \<longleftrightarrow>
     (32 \<le> length s \<and> list_all is_hex_lower (to_lower s)) \<or> mentions_invoice s \<or>
     (40 \<le> length s \<and> list_all base64_char s) \<or>
     (20 \<le> length s \<and> list_all (\<lambda>c. is_alnum c \<or> c \<in> set ''-_'') s) \<or>
     (to_lower (take 3 s) = ''inv'' \<and> (case drop 3 s of [] \<Rightarrow> False | c # r \<Rightarrow> c \<in> set ''-_'' \<and> 4 \<le> length r \<and> list_all is_alnum r))"

definition scrub_path :: "string \<Rightarrow> string list" where
  "scrub_path p = map (\<lambda>s. if sensitive_segment s then REDACTED_INVOICE else s) (split_on (CHR ''/'') p)"

fun join_with :: "string \<Rightarrow> string list \<Rightarrow> string" where
  "join_with d [] = []"
| "join_with d [x] = x"
| "join_with d (x # xs) = x @ d @ join_with d xs"

text \<open>A value of a query is a text or a list of texts; \<open>String\<close> joins a list with commas.\<close>

fun query_text :: "jsval \<Rightarrow> string" where
  "query_text (JStr s) = s"
| "query_text (JArr vs) = join_with '','' (map query_text vs)"
| "query_text _ = []"

definition scrub_search :: "(string \<Rightarrow> string) \<Rightarrow> parsed_url \<Rightarrow> parsed_url" where
  "scrub_search U p =
     (case deepScrub_with U 0 (JObj (pu_query p)) of
        JObj (kv # kvs) \<Rightarrow> p\<lparr>pu_search := CHR ''?'' # join_with ''&'' (map (\<lambda>(k, v). k @ ''='' @ query_text v) (kv # kvs))\<rparr>
      | _ \<Rightarrow> p)"

definition plain_text :: "string \<Rightarrow> bool" where
  "plain_text s \<longleftrightarrow> \<not> list_ex (\<lambda>c. c \<in> set ''/?#'') s"

definition scrub_with :: "url_lib \<Rightarrow> (string \<Rightarrow> string) \<Rightarrow> string \<Rightarrow> string" where
  "scrub_with lib U s =
     (if s = [] then s
      else case url_parse lib s of
          Inl _ \<Rightarrow> s
        | Inr parsed \<Rightarrow>
            let p1 = scrub_search U parsed;
                p2 = (if pu_pathname p1 = [] then p1 else p1\<lparr>pu_pathname := join_with ''/'' (scrub_path (pu_pathname p1))\<rparr>)
            in if pu_protocol p2 = [] \<and> pu_host p2 = [] \<and> plain_text s then s else url_format lib p2)"

primrec scrubUrl_fuel :: "nat \<Rightarrow> url_lib \<Rightarrow> string \<Rightarrow> string" where
  "scrubUrl_fuel 0 lib s = s"
| "scrubUrl_fuel (Suc n) lib s = scrub_with lib (scrubUrl_fuel n lib) s"

definition scrubUrl :: "url_lib \<Rightarrow> string \<Rightarrow> string" where
  "scrubUrl lib s = scrubUrl_fuel (Suc (length s)) lib s"

definition deepScrub :: "url_lib \<Rightarrow> nat \<Rightarrow> jsval \<Rightarrow> jsval" where
  "deepScrub lib depth v = deepScrub_with (scrubUrl lib) depth v"

section \<open>Events\<close>

text \<open>\<open>js_scrubUrl\<close> returns values that are no texts as they are.\<close>

definition js_scrubUrl :: "url_lib \<Rightarrow> jsval \<Rightarrow> jsval" where
  "js_scrubUrl lib v = (case v of JStr s \<Rightarrow> JStr (scrubUrl lib s) | _ \<Rightarrow> v)"

definition js_hasSensitivePattern :: "jsval \<Rightarrow> bool" where
  "js_hasSensitivePattern v = (case v of JStr s \<Rightarrow> hasSensitivePattern s | _ \<Rightarrow> False)"

text \<open>\<open>if (o.k) o.k = f(o.k)\<close>.\<close>

definition upd_member :: "string \<Rightarrow> (jsval \<Rightarrow> jsval) \<Rightarrow> (string \<times> jsval) list \<Rightarrow> (string \<times> jsval) list" where
  "upd_member k f kvs =
     (let v = js_get (JObj kvs) k in if truthy v then AList.update k (f v) kvs else kvs)"

record json_lib =
  json_parse :: "string \<Rightarrow> string + jsval"
  json_stringify :: "jsval \<Rightarrow> string"
  js_String :: "jsval \<Rightarrow> string"

definition scrub_data :: "json_lib \<Rightarrow> url_lib \<Rightarrow> jsval \<Rightarrow> jsval" where
  "scrub_data js lib v =
     (case v of
        JStr s \<Rightarrow>
          (case json_parse js s of
             Inr parsed \<Rightarrow> JStr (json_stringify js (deepScrub lib 0 parsed))
           | Inl _ \<Rightarrow> if hasSensitivePattern s then JStr REDACTED else v)
      | _ \<Rightarrow> if js_typeof v = ''object'' then deepScrub lib 0 v else v)"

definition strip_mark :: "string \<Rightarrow> string" where
  "strip_mark s = (case s of c # r \<Rightarrow> if c = CHR ''?'' then r else s | [] \<Rightarrow> [])"

definition scrub_query_string :: "json_lib \<Rightarrow> url_lib \<Rightarrow> jsval \<Rightarrow> jsval" where
  "scrub_query_string js lib v =
     JStr (strip_mark (scrubUrl lib (CHR ''?'' # (case v of JStr s \<Rightarrow> s | _ \<Rightarrow> js_String js v))))"

definition scrubRequest :: "json_lib \<Rightarrow> url_lib \<Rightarrow> jsval \<Rightarrow> jsval" where
  "scrubRequest js lib request =
     (if \<not> truthy request then request
      else JObj (upd_member ''cookies'' (deepScrub lib 0)
                  (upd_member ''data'' (scrub_data js lib)
                    (upd_member ''url'' (js_scrubUrl lib)
                      (upd_member ''query_string'' (scrub_query_string js lib)
                        (upd_member ''headers'' (deepScrub lib 0) (obj_entries request)))))))"

definition scrub_message :: "url_lib \<Rightarrow> jsval \<Rightarrow> jsval" where
  "scrub_message lib v =
     (let m = js_scrubUrl lib v in if js_hasSensitivePattern m then JStr REDACTED_INVOICE else m)"

definition scrub_crumb :: "url_lib \<Rightarrow> jsval \<Rightarrow> jsval" where
  "scrub_crumb lib crumb =
     (if js_typeof crumb \<noteq> ''object'' \<or> crumb = JNull then crumb
      else JObj (upd_member ''data'' (deepScrub lib 0) (upd_member ''message'' (scrub_message lib) (obj_entries crumb))))"

definition scrubBreadcrumbs :: "url_lib \<Rightarrow> jsval \<Rightarrow> jsval" where
  "scrubBreadcrumbs lib breadcrumbs =
     (if \<not> truthy breadcrumbs then breadcrumbs
      else case breadcrumbs of JArr cs \<Rightarrow> JArr (map (scrub_crumb lib) cs) | _ \<Rightarrow> deepScrub lib 0 breadcrumbs)"

definition scrubEvent :: "json_lib \<Rightarrow> url_lib \<Rightarrow> jsval \<Rightarrow> jsval" where
  "scrubEvent js lib event =
     (if \<not> truthy event \<or> js_typeof event \<noteq> ''object'' then event
      else JObj (upd_member ''message'' (\<lambda>v. case v of JStr _ \<Rightarrow> scrub_message lib v | _ \<Rightarrow> v)
                  (upd_member ''tags'' (deepScrub lib 0)
                    (upd_member ''user'' (deepScrub lib 0)
                      (upd_member ''contexts'' (deepScrub lib 0)
                        (upd_member ''extra'' (deepScrub lib 0)
                          (upd_member ''breadcrumbs'' (scrubBreadcrumbs lib)
                            (upd_member ''request'' (scrubRequest js lib) (obj_entries event)))))))))"

section \<open>Reporting\<close>

record sentry_state =
  sn_loaded :: bool
  sn_enabled :: bool

text \<open>\<open>loads\<close> and \<open>starts\<close>: whether requiring the package and its \<open>init\<close> succeed.\<close>

definition initSentry :: "string \<Rightarrow> bool \<Rightarrow> bool \<Rightarrow> sentry_state \<Rightarrow> sentry_state" where
  "initSentry SENTRY_DSN loads starts s =
     (if trim SENTRY_DSN = [] then s
      else if \<not> loads then s\<lparr>sn_enabled := False\<rparr>
      else \<lparr>sn_loaded = True, sn_enabled = starts\<rparr>)"

definition isEnabled :: "sentry_state \<Rightarrow> bool" where
  "isEnabled s = sn_enabled s"

datatype scope_call = SetTag string jsval | SetExtra string jsval | SetUser jsval | Capture jsval

text \<open>\<open>api\<close>: whether the package offers \<open>withScope\<close> and \<open>captureException\<close>.\<close>

definition captureException :: "url_lib \<Rightarrow> bool \<Rightarrow> sentry_state \<Rightarrow> jsval \<Rightarrow> jsval \<Rightarrow> scope_call list" where
  "captureException lib api s err req =
     (if \<not> sn_enabled s \<or> \<not> sn_loaded s \<or> \<not> api then []
      else (if truthy req
            then [SetTag ''request_id'' (js_or (js_get req ''id'') (JStr ''unknown'')),
                  SetTag ''method'' (js_or (js_get req ''method'') (JStr ''unknown'')),
                  SetTag ''url'' (js_or (js_or (js_get req ''originalUrl'') (js_get req ''url'')) (JStr ''unknown'')),
                  SetExtra ''headers'' (deepScrub lib 0 (js_or (js_get req ''headers'') (JObj []))),
                  SetExtra ''query'' (deepScrub lib 0 (js_or (js_get req ''query'') (JObj []))),
                  SetExtra ''body'' (deepScrub lib 0 (js_or (js_get req ''body'') (JObj [])))] @
                 (if truthy (js_get req ''user'') then [SetUser (deepScrub lib 0 (js_get req ''user''))] else [])
            else []) @ [Capture err])"

section \<open>What scrubbing leaves\<close>

definition redacted :: "jsval \<Rightarrow> bool" where
  "redacted v \<longleftrightarrow> v = JStr REDACTED \<or> v = JStr REDACTED_INVOICE"

text \<open>A tree in which every member with a sensitive name is redacted, and every text is free of the
  patterns; a member may also be a text that \<open>ok\<close> accepts.\<close>

fun scrubbed :: "(string \<Rightarrow> bool) \<Rightarrow> jsval \<Rightarrow> bool" where
  "scrubbed ok (JArr vs) = list_all (scrubbed ok) vs"
| "scrubbed ok (JObj kvs) =
     list_all (\<lambda>(k, v). if isSensitiveKey k then redacted v
       else (case v of
           JStr s \<Rightarrow> redacted v \<or> ok s \<or> \<not> mentions_invoice s \<and> \<not> hasSensitivePattern s
         | _ \<Rightarrow> scrubbed ok v)) kvs"
| "scrubbed ok (JStr s) = (\<not> hasSensitivePattern s)"
| "scrubbed ok v = True"

text \<open>What the scrubbing of a URL returns: the text itself if it cannot be parsed or is no URL, or else a
  URL whose path segments are redacted or harmless and whose search part is written from a scrubbed
  query.\<close>

definition clean_parts :: "parsed_url \<Rightarrow> bool" where
  "clean_parts p \<longleftrightarrow>
     (pu_pathname p = [] \<or> (\<exists>segs. pu_pathname p = join_with ''/'' segs \<and>
        list_all (\<lambda>g. g = REDACTED_INVOICE \<or> \<not> sensitive_segment g) segs)) \<and>
     (pu_query p = [] \<or> list_all (\<lambda>(k, v). k = ''__proto__'') (pu_query p) \<or>
        (\<exists>kvs. scrubbed (\<lambda>_. True) (JObj kvs) \<and>
          pu_search p = CHR ''?'' # join_with ''&'' (map (\<lambda>(k, v). k @ ''='' @ query_text v) kvs)))"

definition clean_url :: "url_lib \<Rightarrow> string \<Rightarrow> bool" where
  "clean_url lib s \<longleftrightarrow> (\<exists>e. url_parse lib s = Inl e) \<or> plain_text s \<or> (\<exists>p. s = url_format lib p \<and> clean_parts p)"

lemma marks_harmless [simp]:
  "\<not> hasSensitivePattern ''[MAX_DEPTH_REACHED]''" "\<not> hasSensitivePattern REDACTED_INVOICE" "\<not> hasSensitivePattern REDACTED"
  "\<not> mentions_invoice ''[MAX_DEPTH_REACHED]''" "\<not> hasSensitivePattern []"
  by code_simp+

lemma redacted_simps [simp]: "redacted (JStr REDACTED)" "redacted (JStr REDACTED_INVOICE)"
  by (simp_all add: redacted_def)

definition member_ok :: "(string \<Rightarrow> bool) \<Rightarrow> string \<Rightarrow> jsval \<Rightarrow> bool" where
  "member_ok ok k v =
     (if isSensitiveKey k then redacted v
      else (case v of
          JStr s \<Rightarrow> redacted v \<or> ok s \<or> \<not> mentions_invoice s \<and> \<not> hasSensitivePattern s
        | _ \<Rightarrow> scrubbed ok v))"

lemma scrubbed_obj: "scrubbed ok (JObj kvs) \<longleftrightarrow> (\<forall>(k, v) \<in> set kvs. member_ok ok k v)"
  by (auto simp: member_ok_def list_all_iff)

lemma text_result:
  assumes "deepScrub_with U d v = JStr s" "\<And>t. v \<noteq> JStr t"
  shows "s = ''[MAX_DEPTH_REACHED]''"
  using assms by (cases v) (auto split: if_splits)

lemma member_ok_scrubbed:
  assumes "scrubbed ok (deepScrub_with U d v)" "\<And>t. v \<noteq> JStr t" "\<not> isSensitiveKey k"
  shows "member_ok ok k (deepScrub_with U d v)"
proof (cases "deepScrub_with U d v")
  case (JStr s)
  then have "s = ''[MAX_DEPTH_REACHED]''" using text_result assms(2) by blast
  then show ?thesis using JStr assms(3) by (simp only: member_ok_def jsval.case marks_harmless) simp
qed (use assms in \<open>simp_all add: member_ok_def\<close>)

definition scrub_member :: "(string \<Rightarrow> string) \<Rightarrow> nat \<Rightarrow> string \<Rightarrow> jsval \<Rightarrow> jsval" where
  "scrub_member U depth k v =
     (if isSensitiveKey k then JStr (if mentions_invoice k then REDACTED_INVOICE else REDACTED)
      else case v of
          JStr s \<Rightarrow>
            if mentions_invoice k \<or> mentions_invoice s then JStr REDACTED_INVOICE
            else if hasSensitivePattern s then JStr REDACTED
            else if starts_with s ''http://'' \<or> starts_with s ''https://'' then JStr (U s)
            else deepScrub_with U (Suc depth) v
        | _ \<Rightarrow> deepScrub_with U (Suc depth) v)"

lemma deepScrub_obj:
  "depth \<le> MAX_DEPTH \<Longrightarrow>
   deepScrub_with U depth (JObj kvs) = JObj (map (\<lambda>(k, v). (k, scrub_member U depth k v)) (filter (\<lambda>(k, v). k \<noteq> ''__proto__'') kvs))"
  by (simp add: scrub_member_def)

lemma scrub_member_ok:
  assumes "\<And>s. starts_with s ''http://'' \<or> starts_with s ''https://'' \<Longrightarrow> ok (U s)"
    and "scrubbed ok (deepScrub_with U (Suc depth) v)"
  shows "member_ok ok k (scrub_member U depth k v)"
proof (cases "isSensitiveKey k")
  case True
  then show ?thesis by (simp add: scrub_member_def member_ok_def)
next
  case False
  show ?thesis
  proof (cases v)
    case (JStr s)
    have "Suc depth > MAX_DEPTH \<or> deepScrub_with U (Suc depth) v = v \<or> hasSensitivePattern s" using JStr by simp
    then show ?thesis using False JStr assms(1)[of s]
      by (auto simp: scrub_member_def member_ok_def simp del: deepScrub_with.simps(1,2) list.inject)
  qed (use False assms(2) member_ok_scrubbed in \<open>simp_all add: scrub_member_def del: deepScrub_with.simps\<close>)
qed

lemma deepScrub_with_scrubbed:
  assumes "\<And>s. starts_with s ''http://'' \<or> starts_with s ''https://'' \<Longrightarrow> ok (U s)"
  shows "scrubbed ok (deepScrub_with U depth v)"
proof (induction v arbitrary: depth rule: measure_induct_rule[where f = size])
  case (less v)
  show ?case
  proof (cases v)
    case (JArr vs)
    then show ?thesis using less size_in_array by (auto simp: list_all_iff)
  next
    case (JObj kvs)
    show ?thesis
    proof (cases "depth \<le> MAX_DEPTH")
      case True
      have "member_ok ok k (scrub_member U depth k w)" if "(k, w) \<in> set kvs" for k w
        using scrub_member_ok[of ok U depth w k, OF assms] less[of w] size_in_object[OF that] JObj by simp
      then show ?thesis using JObj True by (auto simp: deepScrub_obj scrubbed_obj simp del: deepScrub_with.simps scrubbed.simps)
    qed (simp add: JObj)
  qed simp_all
qed

lemma scrub_search_clean:
  "pu_query (scrub_search U p) = pu_query p \<and> pu_pathname (scrub_search U p) = pu_pathname p \<and>
   (pu_query p = [] \<or> list_all (\<lambda>(k, v). k = ''__proto__'') (pu_query p) \<or>
     (\<exists>kvs. scrubbed (\<lambda>_. True) (JObj kvs) \<and>
       pu_search (scrub_search U p) = CHR ''?'' # join_with ''&'' (map (\<lambda>(k, v). k @ ''='' @ query_text v) kvs)))"
proof -
  define kvs where "kvs = map (\<lambda>(k, v). (k, scrub_member U 0 k v)) (filter (\<lambda>(k, v). k \<noteq> ''__proto__'') (pu_query p))"
  have obj: "deepScrub_with U 0 (JObj (pu_query p)) = JObj kvs" unfolding kvs_def by (rule deepScrub_obj) simp
  have scrubbed: "scrubbed (\<lambda>_. True) (JObj kvs)" using deepScrub_with_scrubbed[of "\<lambda>_. True" U 0 "JObj (pu_query p)"] obj by metis
  have empty: "kvs = [] \<Longrightarrow> list_all (\<lambda>(k, v). k = ''__proto__'') (pu_query p)"
    by (auto simp: kvs_def list_all_iff filter_empty_conv)
  have "scrub_search U p = (if kvs = [] then p
      else p\<lparr>pu_search := CHR ''?'' # join_with ''&'' (map (\<lambda>(k, v). k @ ''='' @ query_text v) kvs)\<rparr>)"
    unfolding scrub_search_def obj by (auto split: list.split simp del: join_with.simps)
  then show ?thesis using scrubbed empty by (cases "kvs = []") (auto simp del: scrubbed.simps)
qed

lemma scrub_path_clean: "list_all (\<lambda>g. g = REDACTED_INVOICE \<or> \<not> sensitive_segment g) (scrub_path p)"
  by (auto simp: scrub_path_def list_all_iff)

lemma scrub_with_clean: "clean_url lib (scrub_with lib U s)"
proof (cases "s = [] \<or> (\<exists>e. url_parse lib s = Inl e) \<or> plain_text s \<and> scrub_with lib U s = s")
  case True
  then show ?thesis by (auto simp: scrub_with_def clean_url_def plain_text_def)
next
  case False
  then obtain p where p: "url_parse lib s = Inr p" by (metis sum.exhaust)
  let ?p1 = "scrub_search U p"
  let ?p2 = "if pu_pathname ?p1 = [] then ?p1 else ?p1\<lparr>pu_pathname := join_with ''/'' (scrub_path (pu_pathname ?p1))\<rparr>"
  have "scrub_with lib U s = url_format lib ?p2"
    using False p by (auto simp: scrub_with_def Let_def simp del: join_with.simps)
  moreover have "clean_parts ?p2"
    using scrub_search_clean[of U p] scrub_path_clean[of "pu_pathname p"] unfolding clean_parts_def by auto
  ultimately show ?thesis unfolding clean_url_def by blast
qed

lemma scrubUrl_clean: "clean_url lib (scrubUrl lib s)"
  by (simp add: scrubUrl_def scrub_with_clean)

lemma deepScrub_scrubbed: "scrubbed (clean_url lib) (deepScrub lib depth v)"
  unfolding deepScrub_def by (rule deepScrub_with_scrubbed) (rule scrubUrl_clean)

section \<open>The fuel is enough\<close>

fun texts :: "jsval \<Rightarrow> string set" where
  "texts (JStr s) = {s}"
| "texts (JArr vs) = (\<Union>v \<in> set vs. texts v)"
| "texts (JObj kvs) = (\<Union>(k, v) \<in> set kvs. texts v)"
| "texts v = {}"

text \<open>The values of a query are parts of the URL, decoded: they are shorter.\<close>

definition query_shorter :: "url_lib \<Rightarrow> bool" where
  "query_shorter lib \<longleftrightarrow> (\<forall>s p t. url_parse lib s = Inr p \<longrightarrow> t \<in> texts (JObj (pu_query p)) \<longrightarrow> length t < length s)"

lemma deepScrub_with_cong:
  assumes "\<And>t. t \<in> texts v \<Longrightarrow> U t = U' t"
  shows "deepScrub_with U depth v = deepScrub_with U' depth v"
  using assms
proof (induction v arbitrary: depth rule: measure_induct_rule[where f = size])
  case (less v)
  show ?case
  proof (cases v)
    case (JArr vs)
    have "deepScrub_with U (Suc depth) w = deepScrub_with U' (Suc depth) w" if "w \<in> set vs" for w
      using less(1)[of w "Suc depth"] less(2) size_in_array[OF that] JArr that by auto
    then show ?thesis using JArr by simp
  next
    case (JObj kvs)
    have "scrub_member U depth k w = scrub_member U' depth k w" if "(k, w) \<in> set kvs" for k w
    proof -
      have "deepScrub_with U (Suc depth) w = deepScrub_with U' (Suc depth) w"
      proof (rule less(1))
        show "size w < size v" using size_in_object[OF that] JObj by simp
        show "U t = U' t" if "t \<in> texts w" for t using less(2)[of t] JObj \<open>(k, w) \<in> set kvs\<close> that by fastforce
      qed
      moreover have "U t = U' t" if "w = JStr t" for t using less(2)[of t] JObj \<open>(k, w) \<in> set kvs\<close> that by fastforce
      ultimately show ?thesis by (auto simp: scrub_member_def simp del: deepScrub_with.simps split: jsval.split)
    qed
    then show ?thesis
      using JObj by (cases "depth \<le> MAX_DEPTH") (auto simp: deepScrub_obj simp del: deepScrub_with.simps(2), simp)
  qed simp_all
qed

lemma scrub_with_cong:
  assumes "\<And>p t. url_parse lib s = Inr p \<Longrightarrow> t \<in> texts (JObj (pu_query p)) \<Longrightarrow> U t = U' t"
  shows "scrub_with lib U s = scrub_with lib U' s"
proof (cases "url_parse lib s")
  case (Inr p)
  then have "deepScrub_with U 0 (JObj (pu_query p)) = deepScrub_with U' 0 (JObj (pu_query p))"
    using deepScrub_with_cong assms by blast
  then have "scrub_search U p = scrub_search U' p" by (simp only: scrub_search_def)
  then show ?thesis using Inr by (simp add: scrub_with_def del: join_with.simps)
qed (simp add: scrub_with_def)

lemma scrubUrl_fuel_enough:
  assumes "query_shorter lib" "length s < n" "length s < m"
  shows "scrubUrl_fuel n lib s = scrubUrl_fuel m lib s"
  using assms(2,3)
proof (induction "length s" arbitrary: s n m rule: less_induct)
  case less
  obtain n' m' where nm: "n = Suc n'" "m = Suc m'" using less.prems by (cases n; cases m) auto
  have "scrubUrl_fuel n' lib t = scrubUrl_fuel m' lib t"
    if "url_parse lib s = Inr p" "t \<in> texts (JObj (pu_query p))" for p t
  proof -
    have "length t < length s" using assms(1) that unfolding query_shorter_def by blast
    then show ?thesis using less.hyps[of t n' m'] less.prems nm by linarith
  qed
  then have "scrub_with lib (scrubUrl_fuel n' lib) s = scrub_with lib (scrubUrl_fuel m' lib) s" by (rule scrub_with_cong)
  then show ?case by (simp add: nm)
qed

text \<open>The recursion of the code: the scrubbing of a URL uses the scrubbing of trees on its query.\<close>

lemma scrubUrl_unfold:
  assumes "query_shorter lib"
  shows "scrubUrl lib s = scrub_with lib (scrubUrl lib) s"
proof -
  have "scrubUrl_fuel (length s) lib t = scrubUrl lib t"
    if "url_parse lib s = Inr p" "t \<in> texts (JObj (pu_query p))" for p t
  proof -
    have "length t < length s" using assms that unfolding query_shorter_def by blast
    then show ?thesis unfolding scrubUrl_def by (intro scrubUrl_fuel_enough[OF assms]) auto
  qed
  then show ?thesis using scrub_with_cong[of lib s "scrubUrl_fuel (length s) lib" "scrubUrl lib"] by (simp add: scrubUrl_def)
qed

section \<open>Events\<close>

lemma get_upd_member:
  "js_get (JObj (upd_member k f kvs)) k' =
     (let v = js_get (JObj kvs) k' in if k = k' \<and> truthy v then f v else v)"
  by (auto simp: upd_member_def Let_def)

lemma falsy_scrubbed: "\<not> truthy v \<Longrightarrow> scrubbed ok v"
  by (cases v) auto

text \<open>The member \<open>k\<close> of an object after scrubbing: the scrubbed value of the member, or the member
  itself when it is falsy.\<close>

definition scrub_truthy :: "(jsval \<Rightarrow> jsval) \<Rightarrow> jsval \<Rightarrow> jsval" where
  "scrub_truthy f v = (if truthy v then f v else v)"

lemma scrubEvent_members:
  "js_get (scrubEvent js lib (JObj kvs)) ''extra'' = scrub_truthy (deepScrub lib 0) (js_get (JObj kvs) ''extra'')"
  "js_get (scrubEvent js lib (JObj kvs)) ''contexts'' = scrub_truthy (deepScrub lib 0) (js_get (JObj kvs) ''contexts'')"
  "js_get (scrubEvent js lib (JObj kvs)) ''user'' = scrub_truthy (deepScrub lib 0) (js_get (JObj kvs) ''user'')"
  "js_get (scrubEvent js lib (JObj kvs)) ''tags'' = scrub_truthy (deepScrub lib 0) (js_get (JObj kvs) ''tags'')"
  "js_get (scrubEvent js lib (JObj kvs)) ''request'' = scrub_truthy (scrubRequest js lib) (js_get (JObj kvs) ''request'')"
  "js_get (scrubEvent js lib (JObj kvs)) ''breadcrumbs'' = scrub_truthy (scrubBreadcrumbs lib) (js_get (JObj kvs) ''breadcrumbs'')"
  "js_get (scrubEvent js lib (JObj kvs)) ''message'' =
     scrub_truthy (\<lambda>v. case v of JStr _ \<Rightarrow> scrub_message lib v | _ \<Rightarrow> v) (js_get (JObj kvs) ''message'')"
  by (simp_all add: scrubEvent_def obj_entries_def get_upd_member Let_def scrub_truthy_def del: js_get.simps)

lemma scrubRequest_members:
  "js_get (scrubRequest js lib v) ''headers'' = scrub_truthy (deepScrub lib 0) (js_get (JObj (obj_entries v)) ''headers'')"
  "js_get (scrubRequest js lib v) ''cookies'' = scrub_truthy (deepScrub lib 0) (js_get (JObj (obj_entries v)) ''cookies'')"
  "js_get (scrubRequest js lib v) ''data'' = scrub_truthy (scrub_data js lib) (js_get (JObj (obj_entries v)) ''data'')"
  "js_get (scrubRequest js lib v) ''url'' = scrub_truthy (js_scrubUrl lib) (js_get (JObj (obj_entries v)) ''url'')"
  if "truthy v"
  using that by (simp_all add: scrubRequest_def get_upd_member Let_def scrub_truthy_def del: js_get.simps)

lemma scrub_truthy_scrubbed: "scrubbed (clean_url lib) (scrub_truthy (deepScrub lib 0) v)"
  by (simp add: scrub_truthy_def deepScrub_scrubbed falsy_scrubbed)

text \<open>A text of request data is JSON of a scrubbed tree, or is free of the patterns or redacted.\<close>

definition data_scrubbed :: "json_lib \<Rightarrow> url_lib \<Rightarrow> jsval \<Rightarrow> bool" where
  "data_scrubbed js lib v \<longleftrightarrow> scrubbed (clean_url lib) v \<or>
     (\<exists>t. v = JStr (json_stringify js t) \<and> scrubbed (clean_url lib) t)"

lemma scrub_data_scrubbed: "data_scrubbed js lib (scrub_truthy (scrub_data js lib) v)"
proof (cases v)
  case (JStr s)
  then show ?thesis
    using deepScrub_scrubbed falsy_scrubbed
    by (auto simp: data_scrubbed_def scrub_truthy_def scrub_data_def split: sum.split)
qed (auto simp: data_scrubbed_def scrub_truthy_def scrub_data_def deepScrub_scrubbed simp del: deepScrub_def)

definition url_scrubbed :: "url_lib \<Rightarrow> jsval \<Rightarrow> bool" where
  "url_scrubbed lib v = (case v of JStr u \<Rightarrow> clean_url lib u | _ \<Rightarrow> True)"

lemma scrub_url_scrubbed: "url_scrubbed lib (scrub_truthy (js_scrubUrl lib) v)"
proof -
  have "clean_url lib []" by (simp add: clean_url_def plain_text_def)
  then show ?thesis by (cases v) (simp_all add: url_scrubbed_def scrub_truthy_def js_scrubUrl_def scrubUrl_clean)
qed

definition request_scrubbed :: "json_lib \<Rightarrow> url_lib \<Rightarrow> jsval \<Rightarrow> bool" where
  "request_scrubbed js lib r \<longleftrightarrow>
     scrubbed (clean_url lib) (js_get r ''headers'') \<and> scrubbed (clean_url lib) (js_get r ''cookies'') \<and>
     data_scrubbed js lib (js_get r ''data'') \<and> url_scrubbed lib (js_get r ''url'')"

lemma scrub_request_scrubbed: "request_scrubbed js lib (scrub_truthy (scrubRequest js lib) v)"
proof (cases "truthy v")
  case True
  then show ?thesis
    by (simp add: request_scrubbed_def scrub_truthy_def[of "scrubRequest js lib"] scrubRequest_members scrub_truthy_scrubbed
        scrub_data_scrubbed scrub_url_scrubbed del: js_get.simps)
next
  case False
  then have "js_get v k = JUndef" for k by (cases v) auto
  then show ?thesis using False by (simp add: request_scrubbed_def scrub_truthy_def data_scrubbed_def url_scrubbed_def)
qed

lemma scrub_message_harmless: "\<not> js_hasSensitivePattern (scrub_message lib v)"
  by (simp add: scrub_message_def Let_def js_hasSensitivePattern_def)

lemma falsy_harmless: "\<not> truthy v \<Longrightarrow> \<not> js_hasSensitivePattern v"
  by (cases v) (simp_all add: js_hasSensitivePattern_def)

definition crumb_scrubbed :: "url_lib \<Rightarrow> jsval \<Rightarrow> bool" where
  "crumb_scrubbed lib c \<longleftrightarrow> scrubbed (clean_url lib) (js_get c ''data'') \<and> \<not> js_hasSensitivePattern (js_get c ''message'')"

definition crumbs_scrubbed :: "url_lib \<Rightarrow> jsval \<Rightarrow> bool" where
  "crumbs_scrubbed lib v = (case v of JArr cs \<Rightarrow> list_all (crumb_scrubbed lib) cs | _ \<Rightarrow> scrubbed (clean_url lib) v)"

lemma scrub_crumb_scrubbed: "crumb_scrubbed lib (scrub_crumb lib c)"
proof (cases "js_typeof c \<noteq> ''object'' \<or> c = JNull")
  case True
  then have "js_get c k = JUndef" for k by (cases c) auto
  then show ?thesis using True by (simp add: scrub_crumb_def crumb_scrubbed_def js_hasSensitivePattern_def)
next
  case False
  then have get: "js_get (scrub_crumb lib c) ''data'' = scrub_truthy (deepScrub lib 0) (js_get (JObj (obj_entries c)) ''data'')"
      "js_get (scrub_crumb lib c) ''message'' = scrub_truthy (scrub_message lib) (js_get (JObj (obj_entries c)) ''message'')"
    by (simp_all add: scrub_crumb_def get_upd_member Let_def scrub_truthy_def del: js_get.simps)
  have "\<not> js_hasSensitivePattern (scrub_truthy (scrub_message lib) w)" for w
    by (simp add: scrub_truthy_def scrub_message_harmless falsy_harmless)
  then show ?thesis by (simp add: crumb_scrubbed_def get scrub_truthy_scrubbed del: js_get.simps)
qed

lemma scrub_crumbs_scrubbed: "crumbs_scrubbed lib (scrub_truthy (scrubBreadcrumbs lib) v)"
proof (cases v)
  case (JArr cs)
  then show ?thesis by (simp add: scrub_truthy_def scrubBreadcrumbs_def crumbs_scrubbed_def scrub_crumb_scrubbed list_all_iff)
next
  case (JObj kvs)
  obtain kvs' where "deepScrub lib 0 (JObj kvs) = JObj kvs'" by (simp add: deepScrub_def)
  then have "crumbs_scrubbed lib (deepScrub lib 0 (JObj kvs))"
    using deepScrub_scrubbed[of lib 0 "JObj kvs"] by (simp only: crumbs_scrubbed_def jsval.case)
  then show ?thesis using JObj by (simp add: scrub_truthy_def scrubBreadcrumbs_def)
next
  case (JStr s)
  have "\<not> MAX_DEPTH < 0" by simp
  then show ?thesis using JStr by (simp add: scrub_truthy_def scrubBreadcrumbs_def crumbs_scrubbed_def deepScrub_def)
qed (simp_all add: scrub_truthy_def scrubBreadcrumbs_def crumbs_scrubbed_def deepScrub_def)


section \<open>What is not scrubbed\<close>

text \<open>The messages of exceptions are left as they are.\<close>

lemma exceptions_not_scrubbed:
  "js_get (scrubEvent js lib (JObj kvs)) ''exception'' = js_get (JObj kvs) ''exception''"
  by (simp add: scrubEvent_def obj_entries_def get_upd_member Let_def del: js_get.simps)

text \<open>\<open>captureException\<close> puts the path of the request, with its query, into a tag, and only texts that begin
  with a scheme are scrubbed as URLs.\<close>

lemma query_tag_leaks:
  "SetTag ''url'' (JStr ''/api/kyc?token=s3cret'') \<in>
     set (captureException lib True \<lparr>sn_loaded = True, sn_enabled = True\<rparr> e (JObj [(''originalUrl'', JStr ''/api/kyc?token=s3cret'')]))"
  by (simp add: captureException_def js_or_def)

lemma relative_url_kept:
  "deepScrub lib 0 (JObj [(''url'', JStr ''/api/kyc?token=s3cret'')]) = JObj [(''url'', JStr ''/api/kyc?token=s3cret'')]"
proof -
  have "\<not> isSensitiveKey ''url''" "\<not> mentions_invoice ''url''" "\<not> mentions_invoice ''/api/kyc?token=s3cret''"
    "\<not> hasSensitivePattern ''/api/kyc?token=s3cret''" "\<not> starts_with ''/api/kyc?token=s3cret'' ''http://''"
    "\<not> starts_with ''/api/kyc?token=s3cret'' ''https://''" "\<not> MAX_DEPTH < Suc 0"
    by code_simp+
  then show ?thesis by (simp add: deepScrub_def)
qed

text \<open>A URL that Node cannot parse is reported as it is.\<close>

lemma unparsable_url_kept: "url_parse lib s = Inl e \<Longrightarrow> scrubUrl lib s = s"
  by (simp add: scrubUrl_def scrub_with_def)

end
