(* ===== verification/RequestIds.thy ===== *)
theory RequestIds
  imports JsNumber
begin

text \<open>
  Identifiers of requests and the ambient context of the log: \<open>src/src/middleware/requestIdentifier.js\<close>,
  \<open>src/src/middleware/requestId.js\<close>, \<open>src/src/middleware/correlationId.js\<close>, \<open>src/src/requestContext.js\<close> and
  \<open>src/src/logger.js\<close>.

  The store of the context is \<open>None\<close> outside of a request. A middleware returns the request and the
  response headers it leaves and how it ends: the next handler runs with a store, or an error is raised.
  \<open>scope\<close> is the set of names the module declares or imports; using another name raises.
\<close>

section \<open>Identifiers\<close>

definition CORRELATION_HEADER :: string where "CORRELATION_HEADER = ''x-correlation-id''"

definition REQUEST_ID_HEADER_NAMES :: "string list" where
  "REQUEST_ID_HEADER_NAMES = [''x-request-id'', ''request-id'']"

definition REQUEST_IDENTIFIER_HEADER_NAMES :: "string list" where
  "REQUEST_IDENTIFIER_HEADER_NAMES = REQUEST_ID_HEADER_NAMES @ [CORRELATION_HEADER]"

definition MAX_REQUEST_IDENTIFIER_LENGTH :: nat where "MAX_REQUEST_IDENTIFIER_LENGTH = 64"

definition REQUEST_IDENTIFIER_PATTERN :: "string \<Rightarrow> bool" where
  "REQUEST_IDENTIFIER_PATTERN s \<longleftrightarrow> 8 \<le> length s \<and> length s \<le> 64 \<and> list_all (\<lambda>c. is_alnum c \<or> c \<in> set ''_-'') s"

definition sanitizeRequestIdentifier :: "jsval \<Rightarrow> string option" where
  "sanitizeRequestIdentifier v =
     (case v of
        JStr s \<Rightarrow>
          if length s = 0 \<or> length s > MAX_REQUEST_IDENTIFIER_LENGTH then None
          else if \<not> REQUEST_IDENTIFIER_PATTERN s then None
          else Some s
      | _ \<Rightarrow> None)"

definition generateRequestIdentifier :: "string \<Rightarrow> string" where
  "generateRequestIdentifier uuid = ''req_'' @ filter (\<lambda>c. c \<noteq> CHR ''-'') uuid"

fun first_identifier :: "jsval \<Rightarrow> string list \<Rightarrow> string option" where
  "first_identifier headers [] = None"
| "first_identifier headers (n # ns) =
     (case sanitizeRequestIdentifier (js_get headers n) of Some v \<Rightarrow> Some v | None \<Rightarrow> first_identifier headers ns)"

definition resolveRequestIdentifierFromHeaders :: "jsval \<Rightarrow> string option" where
  "resolveRequestIdentifierFromHeaders headers = first_identifier headers REQUEST_IDENTIFIER_HEADER_NAMES"

record http_req =
  rq_headers :: jsval
  rq_id :: jsval
  rq_correlationId :: jsval
  rq_log :: "(string \<times> jsval) list"

definition resolveRequestIdentifierFromRequest :: "http_req \<Rightarrow> string option" where
  "resolveRequestIdentifierFromRequest req =
     (case sanitizeRequestIdentifier (rq_id req) of
        Some v \<Rightarrow> Some v
      | None \<Rightarrow> sanitizeRequestIdentifier (rq_correlationId req))"

section \<open>Context\<close>

type_synonym ctx = "(string \<times> jsval) list"

definition ALLOWED_KEYS :: "string list" where
  "ALLOWED_KEYS = [''requestId'', ''correlationId'', ''tenantId'', ''userId'']"

definition put_field :: "jsval \<Rightarrow> string \<Rightarrow> ctx \<Rightarrow> ctx" where
  "put_field values key c =
     (case js_get values key of JStr (x # xs) \<Rightarrow> AList.update key (JStr (x # xs)) c | _ \<Rightarrow> c)"

text \<open>The store in which \<open>run\<close> calls its argument.\<close>

definition ctx_run :: "jsval \<Rightarrow> ctx option" where
  "ctx_run initialValues = Some (fold (put_field initialValues) ALLOWED_KEYS [])"

definition ctx_get :: "ctx option \<Rightarrow> ctx" where
  "ctx_get store = (case store of None \<Rightarrow> [] | Some c \<Rightarrow> c)"

definition ctx_set :: "jsval \<Rightarrow> ctx option \<Rightarrow> ctx option" where
  "ctx_set values store = map_option (fold (put_field values) ALLOWED_KEYS) store"

section \<open>Log\<close>

definition merge :: "ctx \<Rightarrow> ctx \<Rightarrow> ctx" where
  "merge c overrides = fold (\<lambda>(k, v) r. AList.update k v r) overrides c"

definition mergeContext :: "ctx option \<Rightarrow> jsval \<Rightarrow> ctx" where
  "mergeContext store overrides =
     (if ctx_get store = [] \<and> \<not> truthy overrides then [] else merge (ctx_get store) (obj_entries overrides))"

text \<open>The arguments a method of a level passes on.\<close>

definition enrichedLog :: "ctx option \<Rightarrow> jsval \<Rightarrow> jsval list \<Rightarrow> jsval list" where
  "enrichedLog store objOrMsg rest =
     (let c = ctx_get store in
      if c = [] then objOrMsg # rest
      else if js_typeof objOrMsg = ''string'' then JObj c # objOrMsg # rest
      else if truthy objOrMsg \<and> js_typeof objOrMsg = ''object'' then JObj (merge c (obj_entries objOrMsg)) # rest
      else objOrMsg # rest)"

definition text_binding :: "string \<Rightarrow> jsval \<Rightarrow> ctx" where
  "text_binding k v = (case v of JStr (x # xs) \<Rightarrow> [(k, JStr (x # xs))] | _ \<Rightarrow> [])"

definition createRequestLogger :: "http_req \<Rightarrow> ctx" where
  "createRequestLogger req = text_binding ''requestId'' (rq_id req) @ text_binding ''correlationId'' (rq_correlationId req)"

section \<open>Middleware\<close>

datatype mw_end = NextIn "ctx option" | Raised string

type_synonym mw_result = "http_req \<times> (string \<times> string) list \<times> mw_end"

definition attach_id :: "string \<Rightarrow> http_req \<Rightarrow> http_req" where
  "attach_id i req =
     (let r = req\<lparr>rq_id := JStr i, rq_correlationId := JStr i\<rparr> in r\<lparr>rq_log := createRequestLogger r\<rparr>)"

definition requestId :: "string set \<Rightarrow> string \<Rightarrow> http_req \<Rightarrow> (string \<times> string) list \<Rightarrow> ctx option \<Rightarrow> mw_result" where
  "requestId scope uuid req res store =
     (let i = (case resolveRequestIdentifierFromHeaders (rq_headers req) of
                 Some v \<Rightarrow> v | None \<Rightarrow> generateRequestIdentifier uuid)
      in (attach_id i req, AList.update ''X-Request-Id'' i res,
          if ''run'' \<in> scope then NextIn (ctx_run (JObj [(''requestId'', JStr i)])) else Raised ''ReferenceError''))"

definition correlationIdMiddleware ::
  "string set \<Rightarrow> string \<Rightarrow> http_req \<Rightarrow> (string \<times> string) list \<Rightarrow> ctx option \<Rightarrow> mw_result" where
  "correlationIdMiddleware scope uuid req res store =
     (let i = (case resolveRequestIdentifierFromRequest req of
                 Some v \<Rightarrow> v
               | None \<Rightarrow> (case resolveRequestIdentifierFromHeaders (rq_headers req) of
                            Some v \<Rightarrow> v | None \<Rightarrow> generateRequestIdentifier uuid))
      in (attach_id i req, AList.update ''X-Correlation-Id'' i (AList.update ''X-Request-Id'' i res),
          if ''setContext'' \<in> scope then NextIn (ctx_set (JObj [(''correlationId'', JStr i)]) store)
          else Raised ''ReferenceError''))"

text \<open>The names in the scope of each module.\<close>

definition requestId_scope :: "string set" where
  "requestId_scope = set
     [''createRequestLogger'', ''MAX_REQUEST_IDENTIFIER_LENGTH'', ''REQUEST_IDENTIFIER_PATTERN'', ''sanitizeRequestIdentifier'',
      ''generateRequestIdentifier'', ''resolveRequestIdentifierFromHeaders'', ''requestId'']"

definition correlationId_scope :: "string set" where
  "correlationId_scope = set
     [''createRequestLogger'', ''CORRELATION_HEADER'', ''REQUEST_IDENTIFIER_PATTERN'', ''generateRequestIdentifier'',
      ''resolveRequestIdentifierFromHeaders'', ''resolveRequestIdentifierFromRequest'', ''correlationIdMiddleware'']"

text \<open>Both in the order of the application: an error ends the chain.\<close>

definition identify ::
  "string set \<Rightarrow> string set \<Rightarrow> string \<Rightarrow> string \<Rightarrow> http_req \<Rightarrow> (string \<times> string) list \<Rightarrow> ctx option \<Rightarrow> mw_result" where
  "identify s1 s2 u1 u2 req res store =
     (case requestId s1 u1 req res store of
        (req1, res1, NextIn st) \<Rightarrow> correlationIdMiddleware s2 u2 req1 res1 st
      | r \<Rightarrow> r)"

section \<open>Lemmas\<close>

lemma sanitize_pattern: "sanitizeRequestIdentifier v = Some s \<Longrightarrow> v = JStr s \<and> REQUEST_IDENTIFIER_PATTERN s"
  by (auto simp: sanitizeRequestIdentifier_def split: jsval.splits if_splits)

lemma pattern_sanitize: "REQUEST_IDENTIFIER_PATTERN s \<Longrightarrow> sanitizeRequestIdentifier (JStr s) = Some s"
  by (auto simp: sanitizeRequestIdentifier_def REQUEST_IDENTIFIER_PATTERN_def MAX_REQUEST_IDENTIFIER_LENGTH_def)

lemma first_identifier_pattern: "first_identifier headers ns = Some s \<Longrightarrow> REQUEST_IDENTIFIER_PATTERN s"
  by (induction ns) (auto split: option.splits dest: sanitize_pattern)

text \<open>A UUID without its dashes has 32 hexadecimal digits.\<close>

definition uuid_shape :: "string \<Rightarrow> bool" where
  "uuid_shape u \<longleftrightarrow> length (filter (\<lambda>c. c \<noteq> CHR ''-'') u) = 32 \<and> list_all (\<lambda>c. is_alnum c \<or> c = CHR ''-'') u"

lemma generated_pattern:
  assumes "uuid_shape u"
  shows "REQUEST_IDENTIFIER_PATTERN (generateRequestIdentifier u)"
proof -
  have "list_all (\<lambda>c. is_alnum c \<or> c \<in> set ''_-'') ''req_''" by code_simp
  then show ?thesis
    using assms by (auto simp: REQUEST_IDENTIFIER_PATTERN_def generateRequestIdentifier_def uuid_shape_def list_all_iff)
qed

text \<open>Whatever a client sends, the identifier that is attached, echoed and logged matches the pattern, and
  the later middleware keeps it.\<close>

lemma requestId_safe:
  assumes "uuid_shape uuid" "requestId scope uuid req res store = (req', res', e)"
  obtains i where "REQUEST_IDENTIFIER_PATTERN i" "rq_id req' = JStr i" "rq_correlationId req' = JStr i"
    "map_of res' ''X-Request-Id'' = Some i" "rq_log req' = [(''requestId'', JStr i), (''correlationId'', JStr i)]"
proof -
  let ?i = "case resolveRequestIdentifierFromHeaders (rq_headers req) of Some v \<Rightarrow> v | None \<Rightarrow> generateRequestIdentifier uuid"
  have pattern: "REQUEST_IDENTIFIER_PATTERN ?i"
    using assms(1) generated_pattern first_identifier_pattern
    by (auto simp: resolveRequestIdentifierFromHeaders_def split: option.split)
  then have "?i \<noteq> []" by (auto simp: REQUEST_IDENTIFIER_PATTERN_def)
  then obtain x xs where "?i = x # xs" by (meson neq_Nil_conv)
  then show thesis
    using that[OF pattern] assms(2)
    by (auto simp: requestId_def attach_id_def createRequestLogger_def text_binding_def Let_def)
qed

lemma correlation_keeps_id:
  assumes "REQUEST_IDENTIFIER_PATTERN i" "rq_id req = JStr i"
    and "correlationIdMiddleware scope uuid req res store = (req', res', e)"
  shows "rq_id req' = JStr i" "map_of res' ''X-Request-Id'' = Some i" "map_of res' ''X-Correlation-Id'' = Some i"
  using assms
  by (auto simp: correlationIdMiddleware_def resolveRequestIdentifierFromRequest_def pattern_sanitize attach_id_def Let_def)

text \<open>The context holds texts under allowed names only.\<close>

definition ctx_ok :: "ctx \<Rightarrow> bool" where
  "ctx_ok c \<longleftrightarrow> amap_wf c \<and> list_all (\<lambda>(k, v). k \<in> set ALLOWED_KEYS \<and> js_typeof v = ''string'' \<and> truthy v) c"

lemma update_in: "(k, v) \<in> set (AList.update a b m) \<Longrightarrow> (k, v) = (a, b) \<or> (k, v) \<in> set m"
  by (induction m) (auto split: if_splits)

lemma put_field_ok: "ctx_ok c \<Longrightarrow> k \<in> set ALLOWED_KEYS \<Longrightarrow> ctx_ok (put_field values k c)"
  by (auto simp: ctx_ok_def put_field_def list_all_iff split: jsval.split list.split dest!: update_in)

lemma put_fields_ok: "ctx_ok c \<Longrightarrow> set ks \<subseteq> set ALLOWED_KEYS \<Longrightarrow> ctx_ok (fold (put_field values) ks c)"
  by (induction ks arbitrary: c) (auto simp: put_field_ok)

lemma ctx_run_ok: "ctx_run v = Some c \<Longrightarrow> ctx_ok c"
  using put_fields_ok[of "[]" ALLOWED_KEYS v] by (auto simp: ctx_run_def ctx_ok_def)

lemma ctx_set_ok: "ctx_set v (Some c) = Some c' \<Longrightarrow> ctx_ok c \<Longrightarrow> ctx_ok c'"
  using put_fields_ok[of c ALLOWED_KEYS v] by (auto simp: ctx_set_def)

text \<open>A field given in a call of the log wins over the context.\<close>

lemma merge_get: "map_of (merge c ovr) k = (case map_of (rev ovr) k of Some v \<Rightarrow> Some v | None \<Rightarrow> map_of c k)"
  unfolding merge_def by (induction ovr arbitrary: c) (auto simp: map_add_def split: option.split)

text \<open>Neither module imports the function of the context it calls: no request passes the middleware.\<close>

lemma every_request_raises:
  "\<exists>req' res'. identify requestId_scope correlationId_scope u1 u2 req res store = (req', res', Raised ''ReferenceError'')"
  by (simp add: identify_def requestId_def requestId_scope_def Let_def)

lemma correlation_raises:
  "\<exists>req' res'. correlationIdMiddleware correlationId_scope uuid req res store = (req', res', Raised ''ReferenceError'')"
  by (simp add: correlationIdMiddleware_def correlationId_scope_def Let_def)

text \<open>With the imports the handlers run in a context that holds the identifier under both names.\<close>

lemma identified_context:
  assumes "''run'' \<in> s1" "''setContext'' \<in> s2" "uuid_shape u1"
  shows "\<exists>i req' res' c. identify s1 s2 u1 u2 req res store = (req', res', NextIn (Some c)) \<and> REQUEST_IDENTIFIER_PATTERN i \<and>
    rq_id req' = JStr i \<and> map_of c ''requestId'' = Some (JStr i) \<and> map_of c ''correlationId'' = Some (JStr i) \<and> ctx_ok c"
proof -
  obtain req1 res1 e where first: "requestId s1 u1 req res store = (req1, res1, e)" by (metis prod_cases3)
  then obtain i where i: "REQUEST_IDENTIFIER_PATTERN i" "rq_id req1 = JStr i" "rq_correlationId req1 = JStr i"
    using requestId_safe[OF assms(3) first] by metis
  then obtain x xs where "i = x # xs" by (cases i) (auto simp: REQUEST_IDENTIFIER_PATTERN_def)
  then have e: "e = NextIn (Some [(''requestId'', JStr i)])"
    using first assms(1) i(2) by (auto simp: requestId_def attach_id_def ctx_run_def ALLOWED_KEYS_def put_field_def Let_def)
  obtain req2 res2 e2 where second: "correlationIdMiddleware s2 u2 req1 res1 (Some [(''requestId'', JStr i)]) = (req2, res2, e2)"
    by (metis prod_cases3)
  have e2: "e2 = NextIn (Some [(''requestId'', JStr i), (''correlationId'', JStr i)])"
    using second assms(2) i \<open>i = x # xs\<close>
    by (auto simp: correlationIdMiddleware_def resolveRequestIdentifierFromRequest_def pattern_sanitize ctx_set_def
        ALLOWED_KEYS_def put_field_def Let_def)
  have "ctx_ok [(''requestId'', JStr i), (''correlationId'', JStr i)]"
    using \<open>i = x # xs\<close> by (simp add: ctx_ok_def ALLOWED_KEYS_def)
  then show ?thesis
    using first e second e2 i correlation_keeps_id[OF i(1,2) second] by (auto simp: identify_def)
qed

end
