(* ===== verification/Metrics.thy ===== *)
theory Metrics
  imports JobQueue JsNumber
begin

text \<open>
  The metrics of \<open>src/src/metrics.js\<close>: the stand-ins for the Prometheus client, the registered queues and
  workers, the periodic refresh and the text served.

  \<open>hk\<close> is \<open>JSON.stringify\<close> as the key of a set of labels, \<open>str\<close> is \<open>String\<close> of a value that is no text,
  \<open>shw\<close> writes a number. Objects are kept by an identity.
\<close>

section \<open>Numbers\<close>

fun num_add :: "jsnum \<Rightarrow> jsnum \<Rightarrow> jsnum" where
  "num_add (NFin a) (NFin b) = NFin (a + b)"
| "num_add NNaN _ = NNaN"
| "num_add _ NNaN = NNaN"
| "num_add NPosInf NNegInf = NNaN"
| "num_add NNegInf NPosInf = NNaN"
| "num_add NPosInf _ = NPosInf"
| "num_add _ NPosInf = NPosInf"
| "num_add NNegInf _ = NNegInf"
| "num_add _ NNegInf = NNegInf"

text \<open>\<open>Number(v || 0)\<close>.\<close>

definition number_or_0 :: "jsval \<Rightarrow> jsnum" where
  "number_or_0 v = (if truthy v then to_number v else NFin 0)"

section \<open>Labelled metrics\<close>

record metric =
  mt_name :: string
  mt_labelNames :: "string list"
  mt_hashMap :: "(string, jsval \<times> jsnum) amap"

definition label_text :: "(jsval \<Rightarrow> string) \<Rightarrow> jsval \<Rightarrow> jsval" where
  "label_text str v = JStr (if truthy v then (case v of JStr s \<Rightarrow> s | _ \<Rightarrow> str v) else [])"

definition is_labels :: "jsval \<Rightarrow> bool" where
  "is_labels v = (case v of JObj _ \<Rightarrow> True | _ \<Rightarrow> False)"

definition normalizeLabels :: "(jsval \<Rightarrow> string) \<Rightarrow> metric \<Rightarrow> jsval list \<Rightarrow> jsval" where
  "normalizeLabels str m args =
     (case args of
        [JObj kvs] \<Rightarrow> JObj (fold (\<lambda>k r. AList.update k (label_text str (js_get (JObj kvs) k)) r) (mt_labelNames m) [])
      | _ \<Rightarrow> JObj (fold (\<lambda>(i, k) r. AList.update k (label_text str (if i < length args then args ! i else JUndef)) r)
               (enumerate 0 (mt_labelNames m)) []))"

text \<open>\<open>_getOrCreateEntry\<close> and an update of the value of the entry.\<close>

definition upd_entry :: "(jsval \<Rightarrow> string) \<Rightarrow> jsval \<Rightarrow> (jsnum \<Rightarrow> jsnum) \<Rightarrow> metric \<Rightarrow> metric" where
  "upd_entry hk labels f m =
     (let (l, v) = (case map_of (mt_hashMap m) (hk labels) of Some e \<Rightarrow> e | None \<Rightarrow> (labels, NFin 0))
      in m\<lparr>mt_hashMap := AList.update (hk labels) (l, f v) (mt_hashMap m)\<rparr>)"

definition metric_get :: "(jsval \<Rightarrow> string) \<Rightarrow> jsval \<Rightarrow> metric \<Rightarrow> jsnum" where
  "metric_get hk labels m =
     (case map_of (mt_hashMap m) (hk (if labels = JUndef then JObj [] else labels)) of Some (_, v) \<Rightarrow> v | None \<Rightarrow> NFin 0)"

definition metric_reset :: "metric \<Rightarrow> metric" where
  "metric_reset m = m\<lparr>mt_hashMap := []\<rparr>"

definition CounterShim_inc :: "(jsval \<Rightarrow> string) \<Rightarrow> (jsval \<Rightarrow> string) \<Rightarrow> jsval \<Rightarrow> jsval \<Rightarrow> metric \<Rightarrow> metric" where
  "CounterShim_inc hk str labelsOrValue maybeValue m =
     (let labels = (if is_labels labelsOrValue then labelsOrValue else normalizeLabels str m []);
          value = (case labelsOrValue of JNum n \<Rightarrow> n | _ \<Rightarrow> (case maybeValue of JNum n \<Rightarrow> n | _ \<Rightarrow> NFin 1))
      in upd_entry hk labels (\<lambda>v. num_add v value) m)"

definition GaugeShim_set :: "(jsval \<Rightarrow> string) \<Rightarrow> (jsval \<Rightarrow> string) \<Rightarrow> jsval \<Rightarrow> jsval \<Rightarrow> metric \<Rightarrow> metric" where
  "GaugeShim_set hk str labelsOrValue maybeValue m =
     (let hasLabels = is_labels labelsOrValue;
          labels = (if hasLabels then labelsOrValue else normalizeLabels str m []);
          value = (if hasLabels then number_or_0 maybeValue else number_or_0 labelsOrValue)
      in upd_entry hk labels (\<lambda>_. value) m)"

definition setToCurrentTime :: "(jsval \<Rightarrow> string) \<Rightarrow> (jsval \<Rightarrow> string) \<Rightarrow> time \<Rightarrow> jsval \<Rightarrow> metric \<Rightarrow> metric" where
  "setToCurrentTime hk str now labels m =
     GaugeShim_set hk str (js_or labels (normalizeLabels str m [])) (JNum (NFin (of_int now / 1000))) m"

definition HistogramShim_observe :: "(jsval \<Rightarrow> string) \<Rightarrow> (jsval \<Rightarrow> string) \<Rightarrow> jsval \<Rightarrow> jsval \<Rightarrow> metric \<Rightarrow> metric" where
  "HistogramShim_observe hk str labelsOrValue maybeValue m =
     (let hasLabels = is_labels labelsOrValue;
          labels = (if hasLabels then labelsOrValue else normalizeLabels str m []);
          value = (if hasLabels then number_or_0 maybeValue else number_or_0 labelsOrValue)
      in upd_entry hk labels (\<lambda>v. num_add v value) m)"

text \<open>The function \<open>startTimer\<close> returns, called at \<open>now\<close>: the seconds and the metric.\<close>

definition timer_end ::
  "(jsval \<Rightarrow> string) \<Rightarrow> (jsval \<Rightarrow> string) \<Rightarrow> time \<Rightarrow> jsval \<Rightarrow> time \<Rightarrow> jsval \<Rightarrow> metric \<Rightarrow> jsnum \<times> metric" where
  "timer_end hk str start labels now extraLabels m =
     (let seconds = NFin (of_int (now - start) / 1000)
      in (seconds, HistogramShim_observe hk str
            (JObj (fold (\<lambda>(k, v) r. AList.update k v r) (obj_entries extraLabels) (fold (\<lambda>(k, v) r. AList.update k v r) (obj_entries labels) [])))
            (JNum seconds) m))"

section \<open>Registry\<close>

type_synonym registry = "(string, metric) amap"

definition registerMetric :: "metric \<Rightarrow> registry \<Rightarrow> registry" where
  "registerMetric m r = (if mt_name m = [] then r else AList.update (mt_name m) m r)"

definition new_metric :: "string \<Rightarrow> string list \<Rightarrow> registry \<Rightarrow> metric \<times> registry" where
  "new_metric name labelNames r =
     (let m = \<lparr>mt_name = (if name = [] then ''metric'' else name), mt_labelNames = labelNames, mt_hashMap = []\<rparr>
      in (m, registerMetric m r))"

definition getSingleMetric :: "string \<Rightarrow> registry \<Rightarrow> metric option" where
  "getSingleMetric name r = map_of r name"

definition resetMetrics :: "registry \<Rightarrow> registry" where
  "resetMetrics r = map (\<lambda>(n, m). (n, metric_reset m)) r"

subsection \<open>The metrics the module declares\<close>

datatype metric_kind = Counter | Gauge | Histogram

text \<open>Identifier, kind, name and labels, in the order of the source.\<close>

definition queue_gauges :: "(string \<times> metric_kind \<times> string \<times> string list) list" where
  "queue_gauges =
     [(''queueDepthGauge'', Gauge, ''liquifact_job_queue_depth'', []),
      (''retryQueueSizeGauge'', Gauge, ''liquifact_job_retry_queue_size'', []),
      (''workerInFlightGauge'', Gauge, ''liquifact_worker_inflight_count'', [])]"

definition service_metrics :: "(string \<times> metric_kind \<times> string \<times> string list) list" where
  "service_metrics =
     [(''escrowIndexerEventsProcessedTotal'', Counter, ''escrow_indexer_events_processed_total'', []),
      (''escrowIndexerEventsSkippedTotal'', Counter, ''escrow_indexer_events_skipped_total'', []),
      (''escrowIndexerCycleFailuresTotal'', Counter, ''escrow_indexer_cycle_failures_total'', []),
      (''escrowIndexerLastCursorAdvanceTimestampSeconds'', Gauge, ''escrow_indexer_last_cursor_advance_timestamp_seconds'', []),
      (''escrowReconciliationMismatches'', Counter, ''escrow_reconciliation_mismatches_total'', []),
      (''escrowReconciliationMismatchedInvoicesGauge'', Gauge, ''escrow_reconciliation_mismatched_invoices'', []),
      (''escrowReconciliationDriftMagnitudeGauge'', Gauge, ''escrow_reconciliation_drift_magnitude'', []),
      (''escrowReconciliationDriftAlertsTotal'', Counter, ''escrow_reconciliation_drift_alerts_total'', []),
      (''idempotencyStorageFailureTotal'', Counter, ''idempotency_storage_failure_total'', [''keyPrefix'']),
      (''bodySizeLimitRejectionsTotal'', Counter, ''body_size_limit_rejections_total'', [''type'']),
      (''webhookReplayTotal'', Counter, ''webhook_replay_total'', [''outcome'']),
      (''sorobanRpcCallDurationSeconds'', Histogram, ''soroban_rpc_call_duration_seconds'', [''method'', ''outcome'']),
      (''sorobanRpcRetryCausesTotal'', Counter, ''soroban_rpc_retry_causes_total'', [''cause''])]"

definition module_registry :: registry where
  "module_registry = fold (\<lambda>(ident, kd, name, ls) r. snd (new_metric name ls r)) (queue_gauges @ service_metrics) []"

section \<open>Refresh\<close>

record metrics_state =
  ms_jobQueues :: "nat list"
  ms_workers :: "nat list"
  ms_timer :: bool
  ms_queueDepth :: jsnum
  ms_retryQueueSize :: jsnum
  ms_workerInFlight :: jsnum
  ms_cachedMetrics :: string

definition registerJobQueue :: "nat \<Rightarrow> metrics_state \<Rightarrow> metrics_state" where
  "registerJobQueue q s = s\<lparr>ms_jobQueues := List.insert q (ms_jobQueues s)\<rparr>"

definition registerWorker :: "nat \<Rightarrow> metrics_state \<Rightarrow> metrics_state" where
  "registerWorker w s = s\<lparr>ms_workers := List.insert w (ms_workers s)\<rparr>"

text \<open>\<open>stats\<close> is what \<open>getStats\<close> of an object answers.\<close>

definition add_queue :: "jsval + jsval \<Rightarrow> jsnum \<times> jsnum \<Rightarrow> jsnum \<times> jsnum" where
  "add_queue answer acc =
     (case answer of
        Inr stats \<Rightarrow>
          if truthy stats
          then (num_add (fst acc) (number_or_0 (js_get stats ''queueLength'')),
                num_add (snd acc) (number_or_0 (js_get stats ''retryQueueLength'')))
          else acc
      | Inl _ \<Rightarrow> acc)"

definition add_worker :: "jsval + jsval \<Rightarrow> jsnum \<Rightarrow> jsnum" where
  "add_worker answer acc =
     (case answer of
        Inr stats \<Rightarrow> (case js_get stats ''processingCount'' of JNum n \<Rightarrow> num_add acc n | _ \<Rightarrow> acc)
      | Inl _ \<Rightarrow> acc)"

fun num_pos :: "jsnum \<Rightarrow> bool" where
  "num_pos (NFin q) = (q > 0)"
| "num_pos NPosInf = True"
| "num_pos _ = False"

definition nl :: string where "nl = [CHR 10]"

definition rejection_line :: "(jsnum \<Rightarrow> string) \<Rightarrow> (jsval \<Rightarrow> string) \<Rightarrow> jsval \<times> jsnum \<Rightarrow> string" where
  "rejection_line shw str e =
     (if num_pos (snd e)
      then ''body_size_limit_rejections_total{type='' @ [CHR 34] @
        (case js_or (js_get (js_or (fst e) (JObj [])) ''type'') (JStr ''unknown'') of JStr s \<Rightarrow> s | v \<Rightarrow> str v) @
        [CHR 34] @ ''} '' @ shw (snd e) @ nl
      else [])"

definition gauge_text :: "string \<Rightarrow> string \<Rightarrow> string \<Rightarrow> string" where
  "gauge_text name hlp value =
     ''# HELP '' @ name @ '' '' @ hlp @ nl @ ''# TYPE '' @ name @ '' gauge'' @ nl @ name @ '' '' @ value @ nl"

definition exposition :: "(jsnum \<Rightarrow> string) \<Rightarrow> (jsval \<Rightarrow> string) \<Rightarrow> jsnum \<Rightarrow> jsnum \<Rightarrow> jsnum \<Rightarrow> metric \<Rightarrow> string" where
  "exposition shw str queueLen retryLen inFlight rejections =
     gauge_text ''liquifact_job_queue_depth'' ''Number of pending jobs waiting in queues'' (shw queueLen) @
     gauge_text ''liquifact_job_retry_queue_size'' ''Number of jobs waiting in retry queues'' (shw retryLen) @
     gauge_text ''liquifact_worker_inflight_count'' ''Number of jobs currently being processed'' (shw inFlight) @
     ''# HELP body_size_limit_rejections_total Total number of request body-size limit rejections (413 Payload Too Large), labelled by limit type for DoS detection'' @ nl @
     ''# TYPE body_size_limit_rejections_total counter'' @ nl @
     concat (map (\<lambda>(k, e). rejection_line shw str e) (mt_hashMap rejections))"

definition refreshMetrics ::
  "(jsnum \<Rightarrow> string) \<Rightarrow> (jsval \<Rightarrow> string) \<Rightarrow> (nat \<Rightarrow> jsval + jsval) \<Rightarrow> (nat \<Rightarrow> jsval + jsval) \<Rightarrow> metric \<Rightarrow> metrics_state \<Rightarrow> metrics_state" where
  "refreshMetrics shw str queueStats workerStats rejections s =
     (let (qn, rn) = fold (\<lambda>q. add_queue (queueStats q)) (ms_jobQueues s) (NFin 0, NFin 0);
          wn = fold (\<lambda>w. add_worker (workerStats w)) (ms_workers s) (NFin 0)
      in s\<lparr>ms_queueDepth := qn, ms_retryQueueSize := rn, ms_workerInFlight := wn,
           ms_cachedMetrics := exposition shw str qn rn wn rejections\<rparr>)"

definition METRIC_REFRESH_INTERVAL_MS :: int where "METRIC_REFRESH_INTERVAL_MS = 5000"

text \<open>The flag and the number of intervals that were created and cleared.\<close>

definition startMetricsRefresh :: "metrics_state \<times> nat \<Rightarrow> metrics_state \<times> nat" where
  "startMetricsRefresh s = (if ms_timer (fst s) then s else ((fst s)\<lparr>ms_timer := True\<rparr>, Suc (snd s)))"

definition stopMetricsRefresh :: "metrics_state \<times> nat \<Rightarrow> metrics_state \<times> nat" where
  "stopMetricsRefresh s = (if ms_timer (fst s) then ((fst s)\<lparr>ms_timer := False\<rparr>, snd s - 1) else s)"

definition resetMetricsForTests :: "metrics_state \<times> nat \<Rightarrow> metrics_state \<times> nat" where
  "resetMetricsForTests s =
     stopMetricsRefresh ((fst s)\<lparr>ms_jobQueues := [], ms_workers := [], ms_queueDepth := NFin 0, ms_retryQueueSize := NFin 0,
       ms_workerInFlight := NFin 0\<rparr>, snd s)"

text \<open>With the stand-ins the handler serves the cached text.\<close>

definition metricsHandler :: "bool \<Rightarrow> string \<Rightarrow> metrics_state \<Rightarrow> string" where
  "metricsHandler is_shim registry_text s = (if is_shim then ms_cachedMetrics s else registry_text)"

section \<open>What the metrics count\<close>

lemma num_add_0 [simp]: "num_add v (NFin 0) = v"
  by (cases v) auto

lemma get_upd_entry:
  "metric_get hk l' (upd_entry hk (JObj ls) f m) =
     (if hk (JObj ls) = hk (if l' = JUndef then JObj [] else l') then f (metric_get hk (JObj ls) m) else metric_get hk l' m)"
  by (auto simp: metric_get_def upd_entry_def Let_def split: option.split prod.split)

text \<open>A counter holds the sum of the increments of each set of labels; a gauge holds the last value.\<close>

definition incs_of :: "(jsval \<Rightarrow> string) \<Rightarrow> jsval \<Rightarrow> ((string \<times> jsval) list \<times> rat) list \<Rightarrow> rat" where
  "incs_of hk l incs = sum_list (map snd (filter (\<lambda>(ls, q). hk (JObj ls) = hk l) incs))"

lemma counter_sums:
  assumes "metric_get hk (JObj l) m = NFin a"
  shows "metric_get hk (JObj l) (fold (\<lambda>(ls, q). CounterShim_inc hk str (JObj ls) (JNum (NFin q))) incs m) =
    NFin (a + incs_of hk (JObj l) incs)"
  using assms
proof (induction incs arbitrary: m a)
  case (Cons i incs)
  obtain ls q where i: "i = (ls, q)" by force
  let ?m = "CounterShim_inc hk str (JObj ls) (JNum (NFin q)) m"
  have "metric_get hk (JObj ls) m = NFin a" if "hk (JObj ls) = hk (JObj l)"
    using Cons.prems that by (simp add: metric_get_def)
  then have "metric_get hk (JObj l) ?m = NFin (a + (if hk (JObj ls) = hk (JObj l) then q else 0))"
    using Cons.prems by (auto simp: CounterShim_inc_def is_labels_def get_upd_entry)
  from Cons.IH[OF this] show ?case by (simp add: i incs_of_def add.assoc)
qed (simp add: incs_of_def)

lemma gauge_last: "metric_get hk (JObj ls) (GaugeShim_set hk str (JObj ls) v m) = number_or_0 v"
  by (simp add: GaugeShim_set_def is_labels_def get_upd_entry)

text \<open>After a refresh the gauges are the sums over the registered queues and workers whose statistics can
  be read.\<close>

definition queue_stats_js :: "job_queue \<Rightarrow> jsval" where
  "queue_stats_js q =
     JObj [(''queueLength'', JInt (int (queueLength (getStats q)))), (''retryQueueLength'', JInt (int (retryQueueLength (getStats q))))]"

lemma number_or_0_num [simp]: "number_or_0 (JNum (NFin q)) = NFin q"
  by (simp add: number_or_0_def)

lemma stats_lengths:
  "queueLength (foldl (\<lambda>s (k, j). count_job s (status j)) s js) = queueLength s"
  "retryQueueLength (foldl (\<lambda>s (k, j). count_job s (status j)) s js) = retryQueueLength s"
proof -
  have one: "queueLength (count_job s st) = queueLength s" "retryQueueLength (count_job s st) = retryQueueLength s" for s st
    by (cases st; simp)+
  show "queueLength (foldl (\<lambda>s (k, j). count_job s (status j)) s js) = queueLength s"
    by (induction js arbitrary: s) (auto simp: one)
  show "retryQueueLength (foldl (\<lambda>s (k, j). count_job s (status j)) s js) = retryQueueLength s"
    by (induction js arbitrary: s) (auto simp: one)
qed

lemma queue_depth_sum:
  "fold (\<lambda>q. add_queue (Inr (queue_stats_js (Q q)))) qs (NFin a, NFin b) =
     (NFin (a + of_nat (sum_list (map (\<lambda>q. length (queue (Q q))) qs))),
      NFin (b + of_nat (sum_list (map (\<lambda>q. length (retryQueue (Q q))) qs))))"
  by (induction qs arbitrary: a b) (simp_all add: add_queue_def queue_stats_js_def getStats_def stats_lengths add.assoc)

lemma refresh_counts_jobs:
  assumes "\<And>q. queueStats q = Inr (queue_stats_js (Q q))"
  shows "ms_queueDepth (refreshMetrics shw str queueStats workerStats rejections s) =
      NFin (of_nat (sum_list (map (\<lambda>q. length (queue (Q q))) (ms_jobQueues s))))"
    and "ms_retryQueueSize (refreshMetrics shw str queueStats workerStats rejections s) =
      NFin (of_nat (sum_list (map (\<lambda>q. length (retryQueue (Q q))) (ms_jobQueues s))))"
  using queue_depth_sum[of Q "ms_jobQueues s" 0 0] by (simp_all add: refreshMetrics_def assms Let_def)

text \<open>A queue whose statistics cannot be read is left out of the sums.\<close>

lemma broken_queue_skipped: "add_queue (Inl e) acc = acc"
  by (simp add: add_queue_def)

text \<open>However often they are called, start and stop keep at most one interval, and none after stop.\<close>

definition one_timer :: "metrics_state \<times> nat \<Rightarrow> bool" where
  "one_timer s \<longleftrightarrow> snd s = (if ms_timer (fst s) then 1 else 0)"

lemma one_timer_kept:
  assumes "one_timer s"
  shows "one_timer (startMetricsRefresh s)" "one_timer (stopMetricsRefresh s)" "one_timer (resetMetricsForTests s)"
    "snd (stopMetricsRefresh s) = 0"
  using assms by (auto simp: one_timer_def startMetricsRefresh_def stopMetricsRefresh_def resetMetricsForTests_def)

lemma registered_once: "distinct (ms_jobQueues s) \<Longrightarrow> distinct (ms_jobQueues (registerJobQueue q s))"
  by (simp add: registerJobQueue_def)

lemma registered_metric_found:
  "name \<noteq> [] \<Longrightarrow> getSingleMetric name (snd (new_metric name ls r)) = Some (fst (new_metric name ls r))"
  by (simp add: new_metric_def registerMetric_def getSingleMetric_def Let_def)

lemma reset_clears: "getSingleMetric n (resetMetrics r) = Some m \<Longrightarrow> metric_get hk l m = NFin 0"
  by (auto simp: getSingleMetric_def resetMetrics_def metric_reset_def metric_get_def map_of_map dest!: map_of_SomeD)

text \<open>Every declared metric is registered under its own name; some that other modules import are not
  declared.\<close>

lemma fold_registered:
  "amap_keys r = ns \<Longrightarrow> distinct (ns @ map (\<lambda>(i, kd, name, ls). name) ds) \<Longrightarrow> \<forall>(i, kd, name, ls) \<in> set ds. name \<noteq> [] \<Longrightarrow>
   amap_keys (fold (\<lambda>(ident, kd, name, ls) r. snd (new_metric name ls r)) ds r) = ns @ map (\<lambda>(i, kd, name, ls). name) ds"
proof (induction ds arbitrary: r ns)
  case (Cons d ds)
  obtain i kd name ls where d: "d = (i, kd, name, ls)" by (metis prod_cases4)
  have "amap_keys (snd (new_metric name ls r)) = ns @ [name]"
    using Cons.prems d by (simp add: new_metric_def registerMetric_def amap_keys_set Let_def)
  from Cons.IH[OF this] show ?case using Cons.prems d by simp
qed simp

lemma module_names:
  "amap_keys module_registry = map (\<lambda>(i, kd, name, ls). name) (queue_gauges @ service_metrics)"
proof -
  have "distinct (map (\<lambda>(i, kd, name, ls). name) (queue_gauges @ service_metrics))" by code_simp
  moreover have "\<forall>(i, kd, name, ls) \<in> set (queue_gauges @ service_metrics). name \<noteq> []" by code_simp
  ultimately show ?thesis unfolding module_registry_def using fold_registered[of "[]" "[]" "queue_gauges @ service_metrics"] by simp
qed

lemma metrics_not_declared:
  "list_all (\<lambda>n. n \<notin> set (map fst (queue_gauges @ service_metrics)))
     [''maturityReminderDeliveryAttemptsTotal'', ''readinessGauge'', ''footprintCacheHitsTotal'', ''redisCacheFailOpenTotal'',
      ''contractWasmVersionMismatchAlertsTotal'', ''sorobanCircuitBreakerStateTransitionsTotal'']"
  by code_simp

end
