(* ===== verification/SmeRoutes.thy ===== *)
theory SmeRoutes
  imports Storage
begin

text \<open>
  The upload routes for businesses (\<open>src/src/routes/sme/index.js\<close>) on the storage service of theory
  \<open>Storage\<close>. As there, the service is \<open>None\<close> when it is the module object, which has none of the methods,
  and an instance otherwise; \<open>newId\<close> is what \<open>randomUUID\<close> returns.
\<close>

definition sme_error :: "int \<Rightarrow> string \<Rightarrow> file_response" where
  "sme_error st m = FileJson st (JObj [(''error'', JStr m)])"

text \<open>The codes answered with 400.\<close>

definition sme_client_error :: "storage_error \<Rightarrow> bool" where
  "sme_client_error e \<longleftrightarrow> e = INVALID_MIME_TYPE \<or> e = FILE_TOO_LARGE \<or> e = INVALID_TENANT_ID"

definition sme_failure :: "string \<Rightarrow> storage_error \<Rightarrow> file_response" where
  "sme_failure m e = (if sme_client_error e then sme_error 400 (error_message e) else sme_error 500 m)"

definition postSmePresigned :: "file_env option \<Rightarrow> string \<Rightarrow> jsval \<Rightarrow> jsval \<Rightarrow> file_response" where
  "postSmePresigned svc newId tenantId body =
     (let fileName = js_get body ''fileName''; mimeType = js_get body ''mimeType''; fileSize = js_get body ''fileSize'';
          invoiceId = js_or (js_get body ''invoiceId'') (JStr newId) in
      if js_nullish body then sme_error 500 ''Failed to generate presigned upload URL''
      else if \<not> truthy fileName \<or> \<not> truthy mimeType \<or> js_nullish fileSize
      then sme_error 400 ''fileName, mimeType, and fileSize are required''
      else (case svc of
          None \<Rightarrow> sme_error 500 ''Failed to generate presigned upload URL''
        | Some c \<Rightarrow>
            (case getPresignedUploadUrl (fe_s3 c) (fe_maxFileSize c) (fe_uuid c) tenantId invoiceId fileName mimeType fileSize of
               Inl e \<Rightarrow> sme_failure ''Failed to generate presigned upload URL'' e
             | Inr (url, key) \<Rightarrow>
                 FileJson 200 (JObj [(''message'', JStr ''Presigned upload URL generated''), (''uploadUrl'', JStr url),
                   (''fileKey'', JStr key), (''invoiceId'', invoiceId)]))))"

text \<open>The file \<open>multer\<close> took from the request, at most 512 kB.\<close>

record upload_file =
  uf_size :: int
  uf_originalname :: jsval
  uf_mimetype :: jsval

definition postSmeInvoice ::
  "file_env option \<Rightarrow> (string \<Rightarrow> string option) \<Rightarrow> string \<Rightarrow> jsval \<Rightarrow> upload_file option \<Rightarrow> jsval \<Rightarrow> file_response" where
  "postSmeInvoice svc signNaN newId tenantId file body =
     (case file of
        None \<Rightarrow> sme_error 400 ''Invoice file is required''
      | Some f \<Rightarrow>
          let invoiceId = js_or (js_get body ''invoiceId'') (JStr newId) in
          (case svc of
             None \<Rightarrow> sme_error 500 ''Failed to upload invoice''
           | Some c \<Rightarrow>
               (case uploadFile (fe_s3 c) (fe_maxFileSize c) (fe_uuid c) (JInt (uf_size f)) (uf_originalname f) (uf_mimetype f) tenantId invoiceId of
                  Inl e \<Rightarrow> sme_failure ''Failed to upload invoice'' e
                | Inr key \<Rightarrow>
                    (case getSignedUrl (fe_s3 c) signNaN key JUndef of
                       Inl e \<Rightarrow> sme_failure ''Failed to upload invoice'' e
                     | Inr url \<Rightarrow>
                         FileJson 200 (JObj [(''message'', JStr ''Invoice uploaded successfully''), (''fileKey'', JStr key),
                           (''signedUrl'', JStr url), (''invoiceId'', invoiceId)])))))"

text \<open>As linked, no upload succeeds.\<close>

lemma sme_uploads_fail:
  "postSmePresigned None newId tenantId body \<noteq> FileJson 200 v"
  "postSmeInvoice None signNaN newId tenantId file body \<noteq> FileJson 200 v"
  by (auto simp: postSmePresigned_def postSmeInvoice_def sme_error_def Let_def split: option.split)

text \<open>With an instance a success tells the key of an object under the prefix of the tenant of the request,
  for a file of an allowed type within the limit.\<close>

lemma sme_upload_confined:
  assumes "postSmeInvoice (Some c) signNaN newId tenantId (Some f) body = FileJson 200 v" "CHR ''/'' \<notin> set (fe_uuid c)"
  shows "\<exists>key n. js_get v ''fileKey'' = JStr key \<and>
    split_on CHR ''/'' key = [''tenants'', str_of tenantId, ''invoices'', str_of (js_get v ''invoiceId''), fe_uuid c @ ''-'' @ n] \<and>
    uf_size f \<le> fe_maxFileSize c \<and> validateMimeType_storage (uf_mimetype f)"
proof -
  let ?i = "js_or (js_get body ''invoiceId'') (JStr newId)"
  obtain key url where up: "uploadFile (fe_s3 c) (fe_maxFileSize c) (fe_uuid c) (JInt (uf_size f)) (uf_originalname f) (uf_mimetype f) tenantId ?i = Inr key"
      and v: "v = JObj [(''message'', JStr ''Invoice uploaded successfully''), (''fileKey'', JStr key), (''signedUrl'', JStr url), (''invoiceId'', ?i)]"
    using assms(1) by (auto simp: postSmeInvoice_def sme_failure_def sme_error_def Let_def split: sum.splits if_splits)
  have gen: "generateKey (fe_uuid c) tenantId ?i (uf_originalname f) = Inr key" and size: "\<not> exceeds_size (JInt (uf_size f)) (fe_maxFileSize c)"
      and mime: "validateMimeType_storage (uf_mimetype f)"
    using up by (auto simp: uploadFile_def split: sum.splits if_splits)
  have "uf_size f \<le> fe_maxFileSize c" using size by (simp add: exceeds_size_def)
  then show ?thesis using generateKey_parts[OF gen assms(2)] mime v by (auto simp: str_of_def)
qed

text \<open>An invalid invoice identifier of the request is answered with 500.\<close>

lemma invalid_invoice_is_500: "sme_failure m INVALID_INVOICE_ID = sme_error 500 m" "sme_failure m INVALID_FILENAME = sme_error 500 m"
  by (simp_all add: sme_failure_def sme_client_error_def)

end
