(* ===== verification/Spec2Isabelle.thy ===== *)
theory Spec2Isabelle
  imports AuditLog Storage TokenMeta V1Routes RetentionRoutes Maintenance Worker Soroban DurableQueue JobPersistence SorobanSim EscrowDerived
    Commitment Invoices Invest Indexer Reconcile Kyc FundRoute ContractRefresh Shutdown Health InvestorRoutes
    ReadRoutes RedisCache Sentry RequestIds Metrics SmeRoutes
begin

text \<open>
  A verification development of the LiquiFact backend (the Express service under \<open>src/src\<close> that lets
  small businesses upload invoices, investors fund them and reads the escrow contracts on Soroban).

  \<^bold>\<open>Parts of the program and how they interact.\<close> Requests pass middleware (response cache, PATCH
  guard, legal-hold gate) to services. The invoice, marketplace, invest and commitment services work
  on database tables. The escrow services read contract state: every contract call goes through
  \<open>callSorobanContract\<close>, which retries transient errors inside one circuit breaker; base states come
  from a projection table that an indexer fills; the batched reads run a pool of workers over
  \<open>readEscrowState\<close>. Background work goes through an in-memory queue with a polling worker and
  through a durable queue whose submitter retries transactions.

  \<^bold>\<open>Theories.\<close> Each theory names the source files it translates; constants keep the names of the code
  (a leading underscore is dropped).
  \<^item> \<open>Prelude\<close>, \<open>JsNumber\<close>, \<open>Table\<close>: values of the language, strings, numbers, insertion-ordered maps,
    database tables, and the lemmas the components share.
  \<^item> \<open>JobQueue\<close> (\<open>workers/jobQueue.js\<close>), \<open>Worker\<close> (\<open>workers/worker.js\<close>): the queue as a record with
    its priority heap and job table; the worker as a step relation over queue, running handlers and
    clock. Shown: no job is lost, FIFO order of ready jobs, backoff, concurrency bound, every polled
    job is settled, \<open>stop\<close> returns.
  \<^item> \<open>CircuitBreaker\<close> (\<open>utils/circuitBreaker.js\<close>), \<open>Retry\<close> (\<open>utils/retry.js\<close>), \<open>Soroban\<close>
    (\<open>services/soroban.js\<close>), \<open>SorobanSim\<close> (\<open>services/sorobanSim.js\<close>): admission and settling of
    calls with other calls in between, legal transitions, the two retry loops (bounded, with the
    outcome of the last attempt), error classification, contract calls, the footprint cache. The locales
    \<open>retry_loop\<close> and \<open>eager_retry_loop\<close> hold the laws of a retry loop and are interpreted on all three
    loops of the program.
  \<^item> \<open>DurableQueue\<close> (\<open>services/durableQueue.js\<close> and its submitter), \<open>JobPersistence\<close>: fingerprints,
    enqueueing in two steps, the acknowledged log and its recovery. The locale \<open>work_source\<close> is the
    contract of a source of jobs, interpreted on both queues.
  \<^item> \<open>CacheStore\<close> (\<open>services/cacheStore.js\<close>, \<open>middleware/cache.js\<close>): LRU store with time to live, the
    response cache, the cache keys. The locale \<open>sound_cache\<close> states that a hit is the last write, and
    is interpreted on this store and on the footprint cache.
  \<^item> \<open>EscrowRead\<close> (\<open>services/escrowRead.js\<close>, \<open>middleware/legalHoldGate.js\<close>), \<open>EscrowDerived\<close>
    (\<open>services/escrowDerived.js\<close>), \<open>EscrowMap\<close> (\<open>config/escrowMap.js\<close>): the tri-state legal hold and
    its gate (fails closed), states that are never fabricated, days to maturity, the map between
    invoices and contracts (round trip).
  \<^item> \<open>Commitment\<close> (\<open>services/investorCommitment.js\<close>), \<open>Invoices\<close> (invoice service, verification, PATCH
    guard, query builder, status vocabulary): amounts that are well formed and immutable, idempotent
    persistence, paging, tenant isolation, locked invoices, soft deletion.
  \<^item> \<open>QueryParams\<close> (\<open>utils/validators.js\<close>), \<open>Marketplace\<close> (\<open>utils/cursorPagination.js\<close>,
    \<open>services/marketplaceService.js\<close>), \<open>Invest\<close> (\<open>services/investService.js\<close>,
    \<open>services/escrowBatchRead.js\<close>): well-typed parameters, authentic cursors, equivalence of keyset
    pagination with one ordered query, tenant-scoped listings, the worker pool of a batch under every
    interleaving.
  \<^item> \<open>Indexer\<close> (\<open>jobs/escrowIndexer.js\<close>), \<open>Reconcile\<close> (\<open>jobs/reconcileEscrow.js\<close>): validation of
    events, the event store and its projection, cycles and the cursor; the paged scan (a terminating
    recursion), results, counters and alerts of a reconciliation run. Shown: the projection converges
    to the latest event in every delivery order, a run covers every invoice in flight exactly once.
  \<^item> \<open>Webhooks\<close> (\<open>services/webhooks.js\<close>, \<open>jobs/webhookDelivery.js\<close>, \<open>jobs/webhookReplay.js\<close>),
    \<open>Kyc\<close> (\<open>services/kycService.js\<close>, \<open>routes/kyc.js\<close>, \<open>middleware/kycGating.js\<close>): signatures and
    their verification, emission with retries and dead letters, replay; KYC records, the provider read
    as it is written and the signed webhook. Shown: signatures are authentic and bounded in time, an
    emission is delivered or dead-lettered, a dead letter is delivered at most once, a KYC webhook takes
    effect exactly when signed, funding needs a recorded decision.
  \<^item> \<open>Sanitize\<close> (\<open>utils/sanitization.js\<close>, \<open>middleware/bodySizeLimits.js\<close>), \<open>HttpErrors\<close> (error mapping,
    problem documents, envelopes, CORS), \<open>Auth\<close> (API keys, JWT, SME authentication, tenants), \<open>V1Routes\<close>
    (mounting, the body chain of \<open>app.js\<close>, the v1 invoice routes): requests from the socket to the
    invoice service. Shown: sanitised trees carry no prototype keys, errors leak nothing in production,
    keys and tokens admit exactly who they should, a tenant's requests touch only its rows, which body
    limits take effect.
  \<^item> \<open>Retention\<close> (\<open>jobs/retentionPurge.js\<close>), \<open>RetentionRoutes\<close> (\<open>routes/retention.js\<close>): policies, legal
    holds, the purge of personal data and its records. Shown: only eligible invoices of the tenant lose
    personal fields, a placed hold protects, the routes cannot work without a tenant.
  \<^item> \<open>Maintenance\<close> (\<open>jobs/idempotencyPurge.js\<close>, \<open>jobs/maturityReminders.js\<close>, labels and access check of
    \<open>metrics.js\<close>). Shown: the purge is exact, a reminder is delivered or fails as stated, one pending
    reminder for each invoice, labels are bounded.
  \<^item> \<open>AuditStore\<close> (\<open>services/auditLogStore.js\<close>), \<open>AuditLog\<close> (\<open>services/auditLog.js\<close>, \<open>middleware/audit.js\<close>,
    \<open>middleware/auditLog.js\<close>, \<open>routes/auditTrail.js\<close>): redaction, the append-only insert, reads and
    exports, the wrapped response methods. Shown: secrets never reach a row, the CSV export can be read
    back, what the middleware records, who may read the trail.
  \<^item> \<open>Storage\<close> (\<open>services/storage.js\<close>, \<open>routes/invoiceFile.js\<close>): object keys stay in their tenant, the
    probe, the file routes as they are linked.
  \<^item> \<open>TokenMeta\<close> (\<open>services/tokenMeta.js\<close>): cache and fetches in flight under every interleaving, batches.
  \<^item> \<open>EscrowSubmit\<close> (\<open>services/escrowSubmit.js\<close>), \<open>FundRoute\<close> (\<open>routes/invest.js\<close>): the funding of an
    invoice from the request to the signed transaction and the recorded commitment. Shown: a transaction
    is sent only in the custodial mode, for a valid request whose hold is read and not set, on a deployed
    contract; success means a commitment; what repeated and oddly written amounts do.
  \<^item> \<open>ContractRefresh\<close> (\<open>config/escrowVersions.js\<close>, \<open>jobs/contractListRefresh.js\<close>,
    \<open>routes/adminEscrow.js\<close>): the deployed version and its alerts, which refine a rule on the sequence
    of reads.
  \<^item> \<open>Health\<close> (\<open>services/health.js\<close>, probes of \<open>app.js\<close>), \<open>Shutdown\<close>
    (\<open>utils/shutdownCoordinator.js\<close>): readiness in terms of what the dependencies answered; the shutdown
    as a step relation, in order, with a forced exit that is armed until the end.
  \<^item> \<open>InvestorRoutes\<close> (\<open>routes/investor.js\<close>), \<open>ReadRoutes\<close> (\<open>routes/marketplace.js\<close>,
    \<open>routes/reconciliation.js\<close>, \<open>routes/sme/metrics.js\<close>, invoice and escrow handlers of \<open>app.js\<close> and
    \<open>routes/v1/index.js\<close>): the read routes. Shown: through the response cache an investor sees only locks
    of the address bound to it; what the other routes answer.
  \<^item> \<open>RedisCache\<close> (\<open>cache/redis.js\<close>, the cached read of \<open>services/escrowRead.js\<close>): the summary cache
    behind its breaker, with calls interleaved at the await. Shown: a hit was stored for the same invoice
    within the ledger gap; what failures of the server do.
  \<^item> \<open>Sentry\<close> (\<open>observability/sentry.js\<close>): what is redacted in reported events, and what is not. The
    recursion between trees and URLs has fuel one above the length of a URL; \<open>scrubUrl_fuel_enough\<close> shows
    that more changes nothing.
  \<^item> \<open>RequestIds\<close> (\<open>middleware/requestIdentifier.js\<close>, \<open>requestId.js\<close>, \<open>correlationId.js\<close>,
    \<open>requestContext.js\<close>, \<open>logger.js\<close>), \<open>Metrics\<close> (\<open>metrics.js\<close>), \<open>SmeRoutes\<close> (\<open>routes/sme/index.js\<close>):
    identifiers that match their pattern, the ambient context and the missing imports that stop every
    request; the metric stand-ins and the refresh, which sums the registered queues; uploads confined to
    their tenant.
  \<^item> This theory: properties that span components.

  \<^bold>\<open>Conventions.\<close> State is passed explicitly; raised errors are values of a sum or option type; an
  asynchronous function is split at its awaits where other code can run in between (breaker, worker,
  batch, durable enqueue, idempotent insert). The clock, random numbers, the environment, the outcomes
  of remote calls, \<open>JSON.parse\<close>, \<open>Date.parse\<close>, HMAC and base64, the Stellar SDK and what the database
  decides are arguments. Numbers are exact rationals with the non-finite values; rounding of doubles is
  not modelled. Strings are lists of 8-bit characters.

  \<^bold>\<open>Fuel and bounds.\<close> The retry loops recurse on the number of attempts left, which the code caps
  at ten. Following the cursors of a listing takes fuel one above the number of rows, which is enough
  because every page but the last has at least one row; the theorem shows that it returns. The steps
  of a batch decrease \<open>work_left\<close>, so every run ends.

  \<^bold>\<open>Not modelled.\<close> The log library, the Prometheus client and the parsing of multipart bodies; the Zod schemas;
  the Redis, S3 and SMTP transports themselves; the counting of the rate limiter, a third-party package;
  the accessors that \<open>sanitizeInput\<close> installs; database migrations; and the Rust contracts. The
  idempotency middleware contains unresolved merge conflict markers and does not parse.
\<close>

section \<open>Contract calls and the legal-hold gate\<close>

lemma returned_value_from_attempt:
  fixes op :: "nat \<Rightarrow> jsval + 'a"
  assumes "0 \<le> maxRetries cfg" "call_outcome (callSorobanContract cfg now later clk rnd op br) = Inr v"
  shows "1 \<le> cc_rpc_calls (callSorobanContract cfg now later clk rnd op br) \<and>
    op (cc_rpc_calls (callSorobanContract cfg now later clk rnd op br) - 1) = Inr v"
proof -
  let ?c = "callSorobanContract cfg now later clk rnd op br" and ?r = "soroban_withRetry cfg now clk rnd op"
  have res: "cc_result ?c = Returned v"
    using assms(2) by (auto simp: call_outcome_def split: exec_result.splits)
  obtain b' where a: "admit now br = (None :: ('a, jsval) exec_result option, b')"
  proof (cases "admit now br :: ('a, jsval) exec_result option \<times> breaker")
    case (Pair x b')
    then show thesis using res that
      by (cases x) (auto simp: callSorobanContract_def admit_def split: if_splits)
  qed
  have spec: "1 \<le> rpc_calls ?r \<and> rpc_result ?r = op (rpc_calls ?r - 1)"
    using soroban_loop_spec[OF le0 soroban_withRetry_loop[OF assms(1), of now clk rnd op]] by simp
  have "rpc_result ?r = Inr v"
    using res a
    by (cases "rpc_result ?r") (auto simp: callSorobanContract_def Let_def onFailure_def split: if_splits)
  moreover have "cc_rpc_calls ?c = rpc_calls ?r" using a by (simp add: callSorobanContract_def Let_def)
  ultimately show ?thesis using spec by simp
qed



section \<open>From indexed events to served states\<close>

lemma base_state_fields:
  assumes "readBaseStateFromProjection parse i (Inr (Some p)) = Some st"
  shows "map_of st ''latest_event_id'' = Some (js_or (latest_event_id p) JNull) \<and>
    map_of st ''latest_ledger_sequence'' =
      Some (case to_number (latest_ledger_sequence p) of NFin q \<Rightarrow> JNum (NFin q) | _ \<Rightarrow> JNull) \<and>
    map_of st ''status'' = Some (JStr (projection_status (parseEventBody parse (latest_event_body p)) p))"
  using assms by (auto simp: readBaseStateFromProjection_def Let_def split: if_splits)



end
